(* ===== verification/Prelude.thy ===== *)
theory Prelude
  imports Main "HOL-Library.Word" "HOL-Library.Signed_Division" "HOL-Library.Multiset"
begin

text \<open>
  What the components share: the JavaScript values the scripts compute with, and the
  generic lemmas about them.
  \<^item> Strings are \<^typ>\<open>string\<close>: one character per UTF-16 code unit, restricted to the
    code units 0..255. Every key, user, contract and error text of the program lies in
    that range.
  \<^item> \<open>bigint\<close> values are \<^typ>\<open>int\<close>; a thrown exception is the left summand of
    \<open>string + 'a\<close>, carrying the error's message.
  \<^item> A JavaScript \<open>Map\<close> read by key is a partial map; \<open>new Set(xs)\<close> is the list
    of its members in insertion order; \<open>Array.prototype.sort\<close> is a stable sort by a
    comparator.
\<close>

named_theorems js_simps \<open>unfolding rules for the small JavaScript operations\<close>

subsection \<open>Fallible results\<close>

type_synonym 'a res = "string + 'a"

fun res_bind :: "'e + 'a \<Rightarrow> ('a \<Rightarrow> 'e + 'b) \<Rightarrow> 'e + 'b" where
  "res_bind (Inl e) f = Inl e"
| "res_bind (Inr a) f = f a"

fun res_mapM :: "('a \<Rightarrow> 'e + 'b) \<Rightarrow> 'a list \<Rightarrow> 'e + 'b list" where
  "res_mapM f [] = Inr []"
| "res_mapM f (x # xs) = res_bind (f x) (\<lambda>y. res_bind (res_mapM f xs) (\<lambda>ys. Inr (y # ys)))"

lemma res_bind_Inr_iff: "res_bind r f = Inr b \<longleftrightarrow> (\<exists>a. r = Inr a \<and> f a = Inr b)"
  by (cases r) auto

lemma res_bind_Inl_iff: "res_bind r f = Inl e \<longleftrightarrow> r = Inl e \<or> (\<exists>a. r = Inr a \<and> f a = Inl e)"
  by (cases r) auto

lemma res_mapM_Inr_iff:
  "res_mapM f xs = Inr ys \<longleftrightarrow> list_all2 (\<lambda>x y. f x = Inr y) xs ys"
proof (induction xs arbitrary: ys)
  case Nil
  then show ?case by auto
next
  case (Cons x xs)
  then show ?case
    by (cases ys) (auto simp: res_bind_Inr_iff)
qed

lemma res_mapM_total: "(\<And>x. x \<in> set xs \<Longrightarrow> f x = Inr (g x)) \<Longrightarrow> res_mapM f xs = Inr (map g xs)"
  by (induction xs) auto

lemma res_mapM_cong: "xs = ys \<Longrightarrow> (\<And>x. x \<in> set ys \<Longrightarrow> f x = g x) \<Longrightarrow> res_mapM f xs = res_mapM g ys"
  by (induction xs arbitrary: ys) auto

subsection \<open>Integers as strings: toString and BigInt\<close>

definition digit_char :: "nat \<Rightarrow> char" where
  "digit_char d = char_of (48 + d)"

fun show_nat :: "nat \<Rightarrow> string" where
  "show_nat n = (if n < 10 then [digit_char n] else show_nat (n div 10) @ [digit_char (n mod 10)])"

declare show_nat.simps [simp del]

text \<open>\<open>n.toString()\<close> and \<open>String(n)\<close> on integers.\<close>

definition show_int :: "int \<Rightarrow> string" where
  "show_int n = (if n < 0 then CHR ''-'' # show_nat (nat (- n)) else show_nat (nat n))"

definition char_nat :: "char \<Rightarrow> nat" where
  "char_nat c = of_char c"

text \<open>White space of the string-to-number grammar, within the code units 0..255.\<close>

definition is_js_space :: "char \<Rightarrow> bool" where
  "is_js_space c \<longleftrightarrow> char_nat c \<in> {9, 10, 11, 12, 13, 32, 160}"

definition js_trim :: "string \<Rightarrow> string" where
  "js_trim s = rev (dropWhile is_js_space (rev (dropWhile is_js_space s)))"

text \<open>The value of a digit of base up to 16.\<close>

definition digit_value :: "char \<Rightarrow> nat option" where
  "digit_value c =
     (let n = char_nat c in
      if 48 \<le> n \<and> n \<le> 57 then Some (n - 48)
      else if 97 \<le> n \<and> n \<le> 102 then Some (n - 87)
      else if 65 \<le> n \<and> n \<le> 70 then Some (n - 55)
      else None)"

fun parse_digits :: "nat \<Rightarrow> nat \<Rightarrow> string \<Rightarrow> nat option" where
  "parse_digits base acc [] = Some acc"
| "parse_digits base acc (c # cs) =
     (case digit_value c of
        None \<Rightarrow> None
      | Some d \<Rightarrow> if d < base then parse_digits base (acc * base + d) cs else None)"

definition parse_base :: "nat \<Rightarrow> string \<Rightarrow> nat option" where
  "parse_base base s = (if s = [] then None else parse_digits base 0 s)"

text \<open>
  \<open>StringToBigInt\<close>: white space around the literal is skipped, the empty string is 0, a
  decimal literal may carry a sign, and \<open>0x\<close>, \<open>0o\<close>, \<open>0b\<close> select another base.
\<close>

fun parse_bigint_literal :: "string \<Rightarrow> int option" where
  "parse_bigint_literal [] = Some 0"
| "parse_bigint_literal (c # cs) =
     (if c = CHR ''-'' then map_option (\<lambda>n. - int n) (parse_base 10 cs)
      else if c = CHR ''+'' then map_option int (parse_base 10 cs)
      else if c = CHR ''0'' \<and> cs \<noteq> [] \<and> hd cs \<in> {CHR ''x'', CHR ''X''}
        then map_option int (parse_base 16 (tl cs))
      else if c = CHR ''0'' \<and> cs \<noteq> [] \<and> hd cs \<in> {CHR ''o'', CHR ''O''}
        then map_option int (parse_base 8 (tl cs))
      else if c = CHR ''0'' \<and> cs \<noteq> [] \<and> hd cs \<in> {CHR ''b'', CHR ''B''}
        then map_option int (parse_base 2 (tl cs))
      else map_option int (parse_base 10 (c # cs)))"

text \<open>\<open>BigInt(s)\<close> on a string: a \<open>SyntaxError\<close> when the literal does not parse.\<close>

definition BigInt :: "string \<Rightarrow> int res" where
  "BigInt s = (case parse_bigint_literal (js_trim s) of
     None \<Rightarrow> Inl (''Cannot convert '' @ s @ '' to a BigInt'')
   | Some n \<Rightarrow> Inr n)"

subsection \<open>Bigint division\<close>

text \<open>\<open>a / b\<close> on bigints truncates towards zero and throws a \<open>RangeError\<close> on 0.\<close>

definition js_div :: "int \<Rightarrow> int \<Rightarrow> int res" where
  "js_div a b = (if b = 0 then Inl ''Division by zero'' else Inr (a sdiv b))"

lemma sdiv_nonneg: "0 \<le> a \<Longrightarrow> 0 < b \<Longrightarrow> (a::int) sdiv b = a div b"
  by (cases "a = 0") (simp_all add: signed_divide_int_def)

lemma js_div_pos: "0 \<le> a \<Longrightarrow> 0 < b \<Longrightarrow> js_div a b = Inr (a div b)"
  by (simp add: js_div_def sdiv_nonneg)


subsection \<open>Printing and parsing are inverse\<close>

lemma char_nat_digit: "d < 10 \<Longrightarrow> char_nat (digit_char d) = 48 + d"
  by (simp add: char_nat_def digit_char_def)

lemma digit_value_digit_char: "d < 10 \<Longrightarrow> digit_value (digit_char d) = Some d"
  by (simp add: digit_value_def char_nat_digit Let_def)

lemma not_space_digit: "d < 10 \<Longrightarrow> \<not> is_js_space (digit_char d)"
  by (auto simp: is_js_space_def char_nat_digit)

lemma show_nat_digits: "\<exists>ds. show_nat n = map digit_char ds \<and> ds \<noteq> [] \<and> (\<forall>d \<in> set ds. d < 10)"
proof (induction n rule: show_nat.induct)
  case (1 n)
  show ?case
  proof (cases "n < 10")
    case True
    then show ?thesis
      by (intro exI [of _ "[n]"]) (simp add: show_nat.simps [of n])
  next
    case False
    with "1.IH" obtain ds where ds: "show_nat (n div 10) = map digit_char ds" "ds \<noteq> []"
      "\<forall>d \<in> set ds. d < 10" by auto
    with False show ?thesis
      by (intro exI [of _ "ds @ [n mod 10]"]) (simp add: show_nat.simps [of n] ball_Un)
  qed
qed

lemma show_nat_ne [simp]: "show_nat n \<noteq> []"
  using show_nat_digits [of n] by auto

lemma parse_digits_append:
  "parse_digits b acc (xs @ ys) =
     (case parse_digits b acc xs of None \<Rightarrow> None | Some a \<Rightarrow> parse_digits b a ys)"
  by (induction xs arbitrary: acc) (auto split: option.splits)

lemma parse_digits_show_nat: "parse_digits 10 0 (show_nat n) = Some n"
proof (induction n rule: show_nat.induct)
  case (1 n)
  then show ?case
    by (cases "n < 10")
      (simp_all add: show_nat.simps [of n] parse_digits_append digit_value_digit_char)
qed

lemma dropWhile_hd: "xs \<noteq> [] \<Longrightarrow> \<not> P (hd xs) \<Longrightarrow> dropWhile P xs = xs"
  by (cases xs) auto

lemma js_trim_digits:
  assumes "\<forall>c \<in> set s. \<not> is_js_space c"
  shows "js_trim s = s"
proof -
  have "dropWhile is_js_space s = s"
    using assms by (cases s) auto
  moreover have "dropWhile is_js_space (rev s) = rev s"
    using assms by (cases "s = []") (auto intro!: dropWhile_hd simp: hd_rev)
  ultimately show ?thesis by (simp add: js_trim_def)
qed

lemma show_nat_no_space: "\<forall>c \<in> set (show_nat n). \<not> is_js_space c"
  using show_nat_digits [of n] by (auto simp: not_space_digit)

lemma digit_char_neq:
  assumes "d < 10"
  shows "digit_char d \<noteq> CHR ''-''" "digit_char d \<noteq> CHR ''+''"
    "digit_char d \<notin> {CHR ''x'', CHR ''X'', CHR ''o'', CHR ''O'', CHR ''b'', CHR ''B''}"
proof -
  have n: "char_nat (digit_char d) = 48 + d" using assms by (rule char_nat_digit)
  have "char_nat (CHR ''-'') = 45" "char_nat (CHR ''+'') = 43" "char_nat (CHR ''x'') = 120"
    "char_nat (CHR ''X'') = 88" "char_nat (CHR ''o'') = 111" "char_nat (CHR ''O'') = 79"
    "char_nat (CHR ''b'') = 98" "char_nat (CHR ''B'') = 66"
    by (simp_all add: char_nat_def)
  with n assms show "digit_char d \<noteq> CHR ''-''" "digit_char d \<noteq> CHR ''+''"
    "digit_char d \<notin> {CHR ''x'', CHR ''X'', CHR ''o'', CHR ''O'', CHR ''b'', CHR ''B''}"
    by (auto dest!: arg_cong [where f = char_nat])
qed

lemma parse_literal_digits:
  assumes "ds \<noteq> []" and "\<forall>d \<in> set ds. d < 10"
  shows "parse_bigint_literal (map digit_char ds) = map_option int (parse_base 10 (map digit_char ds))"
proof (cases ds)
  case Nil
  with assms show ?thesis by simp
next
  case (Cons d ds')
  have neq: "digit_char d \<noteq> CHR ''-''" "digit_char d \<noteq> CHR ''+''"
    using assms Cons digit_char_neq [of d] by auto
  have hd_neq: "hd (map digit_char ds') \<notin> {CHR ''x'', CHR ''X'', CHR ''o'', CHR ''O'', CHR ''b'', CHR ''B''}"
    if "map digit_char ds' \<noteq> []"
    using that assms Cons digit_char_neq(3) [of "hd ds'"] by (cases ds') auto
  show ?thesis
    using neq hd_neq by (auto simp: Cons)
qed

lemma BigInt_show_nat: "BigInt (show_nat n) = Inr (int n)"
proof -
  obtain ds where ds: "show_nat n = map digit_char ds" "ds \<noteq> []" "\<forall>d \<in> set ds. d < 10"
    using show_nat_digits [of n] by blast
  have "js_trim (show_nat n) = show_nat n"
    by (rule js_trim_digits [OF show_nat_no_space])
  moreover have "parse_bigint_literal (show_nat n) = Some (int n)"
    using parse_literal_digits [OF ds(2,3)] parse_digits_show_nat [of n]
    by (simp add: ds(1) parse_base_def) (use ds in auto)
  ultimately show ?thesis by (simp add: BigInt_def)
qed

text \<open>\<open>BigInt(n.toString())\<close> is \<open>n\<close>, for every integer.\<close>

lemma BigInt_show_int [simp]: "BigInt (show_int n) = Inr n"
proof (cases "n < 0")
  case True
  have "is_js_space (CHR ''-'') = False" by (simp add: is_js_space_def char_nat_def)
  then have "js_trim (CHR ''-'' # show_nat (nat (- n))) = CHR ''-'' # show_nat (nat (- n))"
    by (intro js_trim_digits) (auto simp: show_nat_no_space [rule_format])
  then show ?thesis using True
    by (simp add: BigInt_def show_int_def parse_base_def parse_digits_show_nat)
next
  case False
  then show ?thesis by (simp add: show_int_def BigInt_show_nat)
qed

lemma show_int_inject [simp]: "show_int a = show_int b \<longleftrightarrow> a = b"
proof
  assume "show_int a = show_int b"
  then have "BigInt (show_int a) = BigInt (show_int b)" by simp
  then show "a = b" by simp
qed simp

subsection \<open>Stable sort by a comparator\<close>

text \<open>
  \<open>Array.prototype.sort\<close> with a consistent comparator returns the one stable sorted
  permutation of the array; insertion from the right computes it.
\<close>

fun insert_by :: "('a \<Rightarrow> 'a \<Rightarrow> int) \<Rightarrow> 'a \<Rightarrow> 'a list \<Rightarrow> 'a list" where
  "insert_by cmp x [] = [x]"
| "insert_by cmp x (y # ys) = (if cmp x y \<le> 0 then x # y # ys else y # insert_by cmp x ys)"

fun sort_by :: "('a \<Rightarrow> 'a \<Rightarrow> int) \<Rightarrow> 'a list \<Rightarrow> 'a list" where
  "sort_by cmp [] = []"
| "sort_by cmp (x # xs) = insert_by cmp x (sort_by cmp xs)"

lemma set_insert_by [simp]: "set (insert_by cmp x ys) = insert x (set ys)"
  by (induction ys) auto

lemma length_insert_by [simp]: "length (insert_by cmp x ys) = Suc (length ys)"
  by (induction ys) auto

lemma set_sort_by [simp]: "set (sort_by cmp xs) = set xs"
  by (induction xs) auto

lemma length_sort_by [simp]: "length (sort_by cmp xs) = length xs"
  by (induction xs) auto

lemma distinct_insert_by: "distinct (insert_by cmp x ys) \<longleftrightarrow> x \<notin> set ys \<and> distinct ys"
  by (induction ys) auto

lemma distinct_sort_by [simp]: "distinct (sort_by cmp xs) \<longleftrightarrow> distinct xs"
  by (induction xs) (auto simp: distinct_insert_by)

lemma mset_insert_by [simp]: "mset (insert_by cmp x ys) = add_mset x (mset ys)"
  by (induction ys) auto

lemma mset_sort_by [simp]: "mset (sort_by cmp xs) = mset xs"
  by (induction xs) auto

lemma filter_insert_by_out: "\<not> P x \<Longrightarrow> filter P (insert_by cmp x ys) = filter P ys"
  by (induction ys) auto

text \<open>The contract of a comparator: its signs swap with its arguments and compose.\<close>

locale js_comparator =
  fixes cmp :: "'a \<Rightarrow> 'a \<Rightarrow> int"
  assumes swap: "cmp x y < 0 \<longleftrightarrow> 0 < cmp y x"
    and le_trans: "cmp x y \<le> 0 \<Longrightarrow> cmp y z \<le> 0 \<Longrightarrow> cmp x z \<le> 0"
begin

lemma le_total: "cmp x y \<le> 0 \<or> cmp y x \<le> 0"
  using swap [of x y] swap [of y x] by linarith

lemma refl: "cmp x x = 0"
  using swap [of x x] by linarith

lemma zero_sym: "cmp x y = 0 \<longleftrightarrow> cmp y x = 0"
  using swap [of x y] swap [of y x] by linarith

lemma not_le_le: "\<not> cmp x y \<le> 0 \<Longrightarrow> cmp y x \<le> 0"
  using le_total by blast

lemma sorted_insert_by:
  "sorted_wrt (\<lambda>a b. cmp a b \<le> 0) ys \<Longrightarrow> sorted_wrt (\<lambda>a b. cmp a b \<le> 0) (insert_by cmp x ys)"
  by (induction ys) (auto intro: le_trans not_le_le)

lemma sorted_sort_by: "sorted_wrt (\<lambda>a b. cmp a b \<le> 0) (sort_by cmp xs)"
  by (induction xs) (auto intro: sorted_insert_by)

lemma insert_by_commute:
  assumes "cmp a b \<noteq> 0"
  shows "insert_by cmp a (insert_by cmp b ys) = insert_by cmp b (insert_by cmp a ys)"
proof (induction ys)
  case Nil
  then show ?case using assms swap [of a b] swap [of b a] by auto
next
  case (Cons y ys)
  have "cmp a b \<le> 0 \<longleftrightarrow> \<not> cmp b a \<le> 0"
    using assms swap [of a b] swap [of b a] by linarith
  then show ?case
    using Cons le_trans [of b a y] le_trans [of a b y] by auto
qed

text \<open>Two elements the comparator tells apart may stand in either order.\<close>

lemma sort_by_swap:
  "cmp a b \<noteq> 0 \<Longrightarrow> sort_by cmp (xs @ a # b # ys) = sort_by cmp (xs @ b # a # ys)"
  by (induction xs) (auto intro: insert_by_commute)

lemma sort_by_move:
  "\<forall>x \<in> set xs. cmp a x \<noteq> 0 \<Longrightarrow> sort_by cmp (xs @ a # ys) = sort_by cmp (a # xs @ ys)"
  by (induction xs) (auto simp: insert_by_commute)

text \<open>With no ties, the order of the input does not matter.\<close>

lemma sort_by_permutation:
  assumes "mset xs = mset ys" and "distinct xs"
    and "\<And>x y. x \<in> set xs \<Longrightarrow> y \<in> set xs \<Longrightarrow> x \<noteq> y \<Longrightarrow> cmp x y \<noteq> 0"
  shows "sort_by cmp xs = sort_by cmp ys"
  using assms
proof (induction xs arbitrary: ys)
  case Nil
  from Nil.prems(1) [symmetric] have "ys = []" by simp
  then show ?case by simp
next
  case (Cons x xs)
  then have "x \<in># mset ys" by (metis list.set_intros(1) set_mset_mset)
  then have "x \<in> set ys" by simp
  then obtain us vs where ys: "ys = us @ x # vs" by (rule split_list [THEN exE]) blast
  have m: "mset xs = mset (us @ vs)" using Cons.prems(1) ys by simp
  have "set (us @ vs) = set xs" using mset_eq_setD [OF m] by simp
  then have us: "set us \<subseteq> set xs" by auto
  have "\<forall>u \<in> set us. cmp x u \<noteq> 0"
  proof
    fix u
    assume "u \<in> set us"
    with us Cons.prems(2) have "u \<in> set (x # xs)" "x \<noteq> u" by auto
    then show "cmp x u \<noteq> 0" by (intro Cons.prems(3)) simp_all
  qed
  then have "sort_by cmp ys = insert_by cmp x (sort_by cmp (us @ vs))"
    using sort_by_move [of us x vs] ys by simp
  moreover have "sort_by cmp xs = sort_by cmp (us @ vs)"
  proof (rule Cons.IH [OF m])
    show "distinct xs" using Cons.prems(2) by simp
  next
    fix u v
    assume "u \<in> set xs" "v \<in> set xs" "u \<noteq> v"
    then show "cmp u v \<noteq> 0" by (intro Cons.prems(3)) simp_all
  qed
  ultimately show ?case by simp
qed

lemma sort_by_stable:
  assumes "\<forall>x \<in> set xs. \<forall>y \<in> set xs. P x \<longrightarrow> P y \<longrightarrow> cmp x y \<le> 0"
  shows "filter P (sort_by cmp xs) = filter P xs"
  using assms
proof (induction xs)
  case (Cons x xs)
  have ins: "\<forall>y \<in> set ys. P y \<longrightarrow> cmp x y \<le> 0 \<Longrightarrow> P x \<Longrightarrow>
      filter P (insert_by cmp x ys) = x # filter P ys" for ys
    by (induction ys) auto
  show ?case
    using Cons ins [of "sort_by cmp xs"] by (cases "P x") (auto simp: filter_insert_by_out)
qed simp

end


subsection \<open>Strings\<close>

text \<open>The default order of \<open>Array.prototype.sort\<close>: lexicographic by code units.\<close>

fun code_unit_compare :: "string \<Rightarrow> string \<Rightarrow> int" where
  "code_unit_compare [] [] = 0"
| "code_unit_compare [] (b # bs) = - 1"
| "code_unit_compare (a # as) [] = 1"
| "code_unit_compare (a # as) (b # bs) =
     (if char_nat a < char_nat b then - 1
      else if char_nat b < char_nat a then 1
      else code_unit_compare as bs)"

lemma char_nat_inject [simp]: "char_nat a = char_nat b \<longleftrightarrow> a = b"
  by (simp add: char_nat_def)

lemma code_unit_compare_swap: "code_unit_compare y x = - code_unit_compare x y"
  by (induction x y rule: code_unit_compare.induct) auto

lemma code_unit_compare_eq_0 [simp]: "code_unit_compare x y = 0 \<longleftrightarrow> x = y"
  by (induction x y rule: code_unit_compare.induct) (auto simp: not_less_iff_gr_or_eq)

lemma code_unit_le_Cons:
  "code_unit_compare (a # as) (b # bs) \<le> 0 \<longleftrightarrow>
     char_nat a < char_nat b \<or> a = b \<and> code_unit_compare as bs \<le> 0"
  by (cases "char_nat a" "char_nat b" rule: linorder_cases) auto

lemma code_unit_compare_trans:
  "code_unit_compare x y \<le> 0 \<Longrightarrow> code_unit_compare y z \<le> 0 \<Longrightarrow> code_unit_compare x z \<le> 0"
proof (induction x arbitrary: y z)
  case Nil
  then show ?case by (cases z) auto
next
  case (Cons a as)
  then obtain b bs where y: "y = b # bs" by (cases y) auto
  with Cons.prems obtain c cs where z: "z = c # cs" by (cases z) auto
  from Cons.prems have "char_nat a < char_nat b \<or> a = b \<and> code_unit_compare as bs \<le> 0"
    "char_nat b < char_nat c \<or> b = c \<and> code_unit_compare bs cs \<le> 0"
    unfolding y z code_unit_le_Cons by blast+
  then show ?case
    unfolding z code_unit_le_Cons using Cons.IH [of bs cs] by auto
qed

interpretation code_units: js_comparator code_unit_compare
proof unfold_locales
  fix x y
  show "code_unit_compare x y < 0 \<longleftrightarrow> 0 < code_unit_compare y x"
    by (subst code_unit_compare_swap [of x y]) linarith
qed (rule code_unit_compare_trans)

text \<open>\<open>(a, b) => a - b\<close>, the comparator of the numeric sorts.\<close>

definition numeric_compare :: "int \<Rightarrow> int \<Rightarrow> int" where
  "numeric_compare a b = a - b"

interpretation numeric: js_comparator numeric_compare
  by unfold_locales (auto simp: numeric_compare_def)

lemma sorted_numeric: "sorted (sort_by numeric_compare xs)"
  using numeric.sorted_sort_by [of xs] by (simp add: numeric_compare_def)

text \<open>\<open>[...new Set(xs)]\<close>: the members in the order of their first occurrence.\<close>

fun set_values :: "'a list \<Rightarrow> 'a list" where
  "set_values [] = []"
| "set_values (x # xs) = x # filter (\<lambda>y. y \<noteq> x) (set_values xs)"

lemma set_set_values [simp]: "set (set_values xs) = set xs"
  by (induction xs) auto

lemma distinct_set_values [simp]: "distinct (set_values xs)"
  by (induction xs) auto

text \<open>\<open>[...new Set(xs)].sort()\<close>.\<close>

definition sorted_members :: "string list \<Rightarrow> string list" where
  "sorted_members xs = sort_by code_unit_compare (set_values xs)"

lemma set_sorted_members [simp]: "set (sorted_members xs) = set xs"
  by (simp add: sorted_members_def)

lemma distinct_sorted_members [simp]: "distinct (sorted_members xs)"
  by (simp add: sorted_members_def)

text \<open>The sorted members depend on the set of members only.\<close>

lemma sorted_members_cong:
  assumes "set xs = set ys"
  shows "sorted_members xs = sorted_members ys"
proof -
  have "mset (set_values xs) = mset (set_values ys)"
    using assms set_eq_iff_mset_eq_distinct [of "set_values xs" "set_values ys"] by simp
  then show ?thesis
    unfolding sorted_members_def by (intro code_units.sort_by_permutation) simp_all
qed

fun join :: "string \<Rightarrow> string list \<Rightarrow> string" where
  "join sep [] = []"
| "join sep [s] = s"
| "join sep (s # t # ss) = s @ sep @ join sep (t # ss)"

definition starts_with :: "string \<Rightarrow> string \<Rightarrow> bool" where
  "starts_with s p \<longleftrightarrow> take (length p) s = p"

definition ends_with :: "string \<Rightarrow> string \<Rightarrow> bool" where
  "ends_with s p \<longleftrightarrow> starts_with (rev s) (rev p)"

fun str_includes :: "string \<Rightarrow> string \<Rightarrow> bool" where
  "str_includes [] p \<longleftrightarrow> p = []"
| "str_includes (c # cs) p \<longleftrightarrow> starts_with (c # cs) p \<or> str_includes cs p"

text \<open>\<open>split(/\r?\n/)\<close>.\<close>

fun split_lines :: "string \<Rightarrow> string \<Rightarrow> string list" where
  "split_lines acc [] = [rev acc]"
| "split_lines acc (c # cs) =
     (if c = CHR 0x0A then rev acc # split_lines [] cs
      else if c = CHR 0x0D \<and> cs \<noteq> [] \<and> hd cs = CHR 0x0A then rev acc # split_lines [] (tl cs)
      else split_lines (c # acc) cs)"

text \<open>\<open>toLowerCase\<close> on the code units 0..255.\<close>

definition lower_char :: "char \<Rightarrow> char" where
  "lower_char c =
     (let n = char_nat c in
      if (65 \<le> n \<and> n \<le> 90) \<or> (192 \<le> n \<and> n \<le> 222 \<and> n \<noteq> 215) then char_of (n + 32) else c)"

definition to_lower :: "string \<Rightarrow> string" where
  "to_lower s = map lower_char s"

text \<open>\<open>toUpperCase\<close>, used on ASCII names only.\<close>

definition upper_char :: "char \<Rightarrow> char" where
  "upper_char c = (let n = char_nat c in if 97 \<le> n \<and> n \<le> 122 then char_of (n - 32) else c)"

definition to_upper :: "string \<Rightarrow> string" where
  "to_upper s = map upper_char s"

definition show_bool :: "bool \<Rightarrow> string" where
  "show_bool b = (if b then ''true'' else ''false'')"

lemma starts_with_append [simp]: "starts_with (p @ s) p"
  by (simp add: starts_with_def)

lemma starts_with_iff: "starts_with s p \<longleftrightarrow> (\<exists>r. s = p @ r)"
  unfolding starts_with_def by (metis append_eq_conv_conj append_take_drop_id)

lemma str_includes_iff: "str_includes s p \<longleftrightarrow> (\<exists>u v. s = u @ p @ v)"
proof (induction s)
  case (Cons c cs)
  have "(\<exists>u v. c # cs = u @ p @ v) \<longleftrightarrow> (\<exists>v. c # cs = p @ v) \<or> (\<exists>u v. cs = u @ p @ v)"
    (is "?L \<longleftrightarrow> ?R")
  proof
    assume ?L
    then obtain u v where "c # cs = u @ p @ v" by blast
    then show ?R by (cases u) auto
  next
    assume ?R
    then show ?L by (metis append_Cons append_Nil)
  qed
  with Cons show ?case by (simp add: starts_with_iff)
qed auto

lemma lower_char_idem [simp]: "lower_char (lower_char c) = lower_char c"
proof -
  have "char_nat (char_of (n + 32)) = n + 32" if "n \<le> 222" for n :: nat
    using that by (simp add: char_nat_def)
  then show ?thesis by (auto simp: lower_char_def Let_def)
qed

lemma to_lower_idem [simp]: "to_lower (to_lower s) = to_lower s"
  by (simp add: to_lower_def)

lemma length_to_lower [simp]: "length (to_lower s) = length s"
  by (simp add: to_lower_def)

subsection \<open>Maps with a default, and their totals\<close>

text \<open>\<open>m.get(k) ?? 0n\<close>.\<close>

definition get0 :: "('k \<rightharpoonup> int) \<Rightarrow> 'k \<Rightarrow> int" where
  "get0 m k = (case m k of None \<Rightarrow> 0 | Some v \<Rightarrow> v)"

lemma get0_upd: "get0 (m(k \<mapsto> v)) j = (if j = k then v else get0 m j)"
  by (simp add: get0_def)

lemma get0_empty [simp]: "get0 Map.empty k = 0"
  by (simp add: get0_def)

definition map_total :: "('k \<rightharpoonup> int) \<Rightarrow> int" where
  "map_total m = (\<Sum>k \<in> dom m. get0 m k)"

lemma map_total_empty [simp]: "map_total Map.empty = 0"
  by (simp add: map_total_def)

lemma map_total_superset: "finite A \<Longrightarrow> dom m \<subseteq> A \<Longrightarrow> map_total m = (\<Sum>k \<in> A. get0 m k)"
  unfolding map_total_def
  by (rule sum.mono_neutral_left) (auto simp: get0_def split: option.splits)

lemma map_total_upd:
  assumes "finite (dom m)"
  shows "map_total (m(k \<mapsto> v)) = map_total m - get0 m k + v"
proof -
  let ?A = "insert k (dom m)"
  have "map_total (m(k \<mapsto> v)) = (\<Sum>j \<in> ?A. get0 (m(k \<mapsto> v)) j)"
    using assms by (intro map_total_superset) auto
  also have "\<dots> = v + (\<Sum>j \<in> ?A - {k}. get0 m j)"
    using assms by (subst sum.remove [of _ k]) (auto simp: get0_upd)
  also have "(\<Sum>j \<in> ?A - {k}. get0 m j) = (\<Sum>j \<in> ?A. get0 m j) - get0 m k"
    using assms by (subst (2) sum.remove [of _ k]) auto
  also have "(\<Sum>j \<in> ?A. get0 m j) = map_total m"
    using assms by (intro map_total_superset [symmetric]) auto
  finally show ?thesis by (simp del: fun_upd_apply)
qed

lemma map_total_delete:
  assumes "finite (dom m)"
  shows "map_total (m(k := None)) = map_total m - get0 m k"
proof -
  have "map_total (m(k := None)) = (\<Sum>j \<in> insert k (dom m). get0 (m(k := None)) j)"
    using assms by (intro map_total_superset) auto
  also have "\<dots> = (\<Sum>j \<in> insert k (dom m) - {k}. get0 m j)"
    using assms by (subst sum.remove [of _ k]) (auto simp: get0_def)
  also have "\<dots> = (\<Sum>j \<in> insert k (dom m). get0 m j) - get0 m k"
    using assms by (subst (2) sum.remove [of _ k]) auto
  also have "(\<Sum>j \<in> insert k (dom m). get0 m j) = map_total m"
    using assms by (intro map_total_superset [symmetric]) auto
  finally show ?thesis .
qed

lemma map_total_ge:
  assumes "finite (dom m)" and "\<And>j. 0 \<le> get0 m j"
  shows "get0 m k \<le> map_total m"
proof (cases "k \<in> dom m")
  case True
  then show ?thesis using assms unfolding map_total_def by (intro member_le_sum) auto
next
  case False
  then have "get0 m k = 0" by (auto simp: get0_def split: option.splits)
  then show ?thesis using assms(2) by (simp add: map_total_def sum_nonneg)
qed

text \<open>The instance for a map two of whose entries change in turn.\<close>

lemma map_total_upd2:
  assumes "finite (dom m)"
  shows "map_total (m(a \<mapsto> x, b \<mapsto> y)) =
    map_total m - get0 m a + x - (if b = a then x else get0 m b) + y"
  using assms by (simp add: map_total_upd get0_upd del: fun_upd_apply)

subsection \<open>Objects that execute operations\<close>

text \<open>
  A contract model is a state and an \<open>execute\<close> method that returns a result and the next
  state; a test case runs a list of operations through it.
\<close>

fun run_ops :: "('s \<Rightarrow> 'op \<Rightarrow> 'r \<times> 's) \<Rightarrow> 's \<Rightarrow> 'op list \<Rightarrow> 's" where
  "run_ops exec s [] = s"
| "run_ops exec s (x # xs) = run_ops exec (snd (exec s x)) xs"

fun run_results :: "('s \<Rightarrow> 'op \<Rightarrow> 'r \<times> 's) \<Rightarrow> 's \<Rightarrow> 'op list \<Rightarrow> 'r list" where
  "run_results exec s [] = []"
| "run_results exec s (x # xs) = fst (exec s x) # run_results exec (snd (exec s x)) xs"

lemma run_ops_append: "run_ops exec s (xs @ ys) = run_ops exec (run_ops exec s xs) ys"
  by (induction xs arbitrary: s) auto

text \<open>The contract of an object: its invariant survives every legal operation.\<close>

locale op_machine =
  fixes exec :: "'s \<Rightarrow> 'op \<Rightarrow> 'r \<times> 's"
    and inv :: "'s \<Rightarrow> bool"
    and legal :: "'op \<Rightarrow> bool"
  assumes step_inv: "inv s \<Longrightarrow> legal x \<Longrightarrow> inv (snd (exec s x))"
begin

lemma run_inv: "inv s \<Longrightarrow> \<forall>x \<in> set xs. legal x \<Longrightarrow> inv (run_ops exec s xs)"
  by (induction xs arbitrary: s) (auto intro: step_inv)

lemma run_prefix_inv:
  assumes "inv s" and "\<forall>x \<in> set (xs @ ys). legal x"
  shows "inv (run_ops exec s xs)"
  using assms by (intro run_inv) auto

end

text \<open>
  A quantity that no operation decreases (in a preorder given by \<open>le\<close>) never decreases
  over a run.
\<close>

locale monotone_machine = op_machine exec inv legal
  for exec :: "'s \<Rightarrow> 'op \<Rightarrow> 'r \<times> 's" and inv and legal +
  fixes le :: "'s \<Rightarrow> 's \<Rightarrow> bool"
  assumes le_refl: "inv s \<Longrightarrow> le s s"
    and le_chain: "inv a \<Longrightarrow> inv b \<Longrightarrow> inv c \<Longrightarrow> le a b \<Longrightarrow> le b c \<Longrightarrow> le a c"
    and step_le: "inv s \<Longrightarrow> legal x \<Longrightarrow> le s (snd (exec s x))"
begin

lemma run_le: "inv s \<Longrightarrow> \<forall>x \<in> set xs. legal x \<Longrightarrow> le s (run_ops exec s xs)"
proof (induction xs arbitrary: s)
  case Nil
  then show ?case by (simp add: le_refl)
next
  case (Cons x xs)
  let ?t = "snd (exec s x)"
  have t: "inv ?t" "le s ?t" using Cons.prems by (auto intro: step_inv step_le)
  have "inv (run_ops exec ?t xs)" "le ?t (run_ops exec ?t xs)"
    using Cons.prems t(1) Cons.IH [of ?t] run_inv [of ?t xs] by auto
  with t Cons.prems(1) show ?case by (auto intro: le_chain)
qed

end

end
