(* ===== verification/Snapshot.thy ===== *)
theory Snapshot
  imports Prelude
begin

text \<open>
  \<open>scripts/rq2/canonical-snapshot.ts\<close>: the canonical byte encoding of a contract's
  logical state, with which the RQ2 runners compare an original and a translated contract.
  A byte is an \<^typ>\<open>8 word\<close>. \<open>ethers\<close> is a third-party library, so
  \<open>toBeHex\<close>, \<open>hexlify\<close> and \<open>keccak256\<close> are fields of a record that the
  definitions take as an argument. \<open>String.prototype.localeCompare\<close> depends on the host's
  locale data, so the comparator \<open>lc\<close> is an argument too. The main result is that the
  encoding is injective: a decoder recovers contract, keys and values.
\<close>

unbundle bit_operations_syntax

type_synonym byte = "8 word"

record ethers =
  toBeHex :: "int \<Rightarrow> nat \<Rightarrow> string"
  hexlify :: "byte list \<Rightarrow> string"
  keccak256 :: "string \<Rightarrow> string"

subsection \<open>Data\<close>

text \<open>A \<open>number\<close> here is an integer; no caller passes a fraction.\<close>

datatype snapshot_scalar =
  ScalarString string | ScalarNumber int | ScalarBigint int | ScalarBoolean bool

datatype snapshot_value =
  SUint256 snapshot_scalar | SBool snapshot_scalar | SString snapshot_scalar | SBytes string

record snapshot_entry =
  entry_key :: string
  entry_value :: snapshot_value

record snapshot_result =
  bytesHex :: string
  snapshot_hash :: string

subsection \<open>Hex and length prefixes\<close>

definition strip0x :: "string \<Rightarrow> string" where
  "strip0x v = (if starts_with v ''0x'' then drop 2 v else v)"

text \<open>\<open>Number.parseInt(s, 16)\<close>; \<open>None\<close> is \<open>NaN\<close>.\<close>

definition is_hex :: "char \<Rightarrow> bool" where
  "is_hex c \<longleftrightarrow> digit_value c \<noteq> None"

definition strip_hex_prefix :: "string \<Rightarrow> string" where
  "strip_hex_prefix s = (if starts_with s ''0x'' \<or> starts_with s ''0X'' then drop 2 s else s)"

definition parse_hex_prefix :: "string \<Rightarrow> int option" where
  "parse_hex_prefix s = map_option int (parse_base 16 (takeWhile is_hex (strip_hex_prefix s)))"

definition parseInt16 :: "string \<Rightarrow> int option" where
  "parseInt16 s =
     (case dropWhile is_js_space s of
        [] \<Rightarrow> None
      | c # cs \<Rightarrow>
          if c = CHR ''-'' then map_option uminus (parse_hex_prefix cs)
          else if c = CHR ''+'' then parse_hex_prefix cs
          else parse_hex_prefix (c # cs))"

text \<open>
  The numbers of \<open>hexToBytes\<close> are read through \<open>Uint8Array.from\<close> only, which maps
  \<open>NaN\<close> to 0 and wraps modulo 256; the model converts at once.
\<close>

definition to_uint8 :: "int option \<Rightarrow> byte" where
  "to_uint8 v = (case v of None \<Rightarrow> 0 | Some n \<Rightarrow> word_of_int n)"

fun hex_pairs :: "string \<Rightarrow> byte list" where
  "hex_pairs (a # b # cs) = to_uint8 (parseInt16 [a, b]) # hex_pairs cs"
| "hex_pairs cs = []"

definition hexToBytes :: "string \<Rightarrow> byte list res" where
  "hexToBytes hex =
     (let clean = strip0x hex in
      if odd (length clean) then Inl (''invalid hex length for '' @ hex)
      else Inr (hex_pairs clean))"

definition u32be :: "int \<Rightarrow> byte list res" where
  "u32be value =
     (if value < 0 \<or> value > 0xffffffff then Inl (''u32 out of range: '' @ show_int value)
      else let v = (word_of_int value :: 32 word) in
        Inr [ucast (drop_bit 24 v AND 0xff), ucast (drop_bit 16 v AND 0xff),
             ucast (drop_bit 8 v AND 0xff), ucast (v AND 0xff)])"

text \<open>
  \<open>Buffer.from(value.normalize("NFC"), "utf8")\<close>. Every code unit below 256 is its own
  NFC form and takes one or two bytes.
\<close>

definition utf8_char :: "char \<Rightarrow> byte list" where
  "utf8_char c =
     (let n = char_nat c in
      if n < 128 then [word_of_nat n]
      else [word_of_nat (192 + n div 64), word_of_nat (128 + n mod 64)])"

definition utf8Bytes :: "string \<Rightarrow> byte list" where
  "utf8Bytes s = concat (map utf8_char s)"

definition lengthPrefixed :: "byte list \<Rightarrow> byte list res" where
  "lengthPrefixed bytes = res_bind (u32be (int (length bytes))) (\<lambda>p. Inr (p @ bytes))"

subsection \<open>Values\<close>

definition scalar_bigint :: "snapshot_scalar \<Rightarrow> int res" where
  "scalar_bigint v = (case v of
     ScalarString s \<Rightarrow> BigInt s
   | ScalarNumber n \<Rightarrow> Inr n
   | ScalarBigint n \<Rightarrow> Inr n
   | ScalarBoolean b \<Rightarrow> Inr (if b then 1 else 0))"

definition scalar_string :: "snapshot_scalar \<Rightarrow> string" where
  "scalar_string v = (case v of
     ScalarString s \<Rightarrow> s
   | ScalarNumber n \<Rightarrow> show_int n
   | ScalarBigint n \<Rightarrow> show_int n
   | ScalarBoolean b \<Rightarrow> show_bool b)"

text \<open>\<open>v === true || v === "true" || v === 1\<close>.\<close>

definition scalar_true :: "snapshot_scalar \<Rightarrow> bool" where
  "scalar_true v = (case v of
     ScalarString s \<Rightarrow> s = ''true''
   | ScalarNumber n \<Rightarrow> n = 1
   | ScalarBigint n \<Rightarrow> False
   | ScalarBoolean b \<Rightarrow> b)"

definition uint256Bytes :: "ethers \<Rightarrow> snapshot_scalar \<Rightarrow> byte list res" where
  "uint256Bytes E value =
     res_bind (scalar_bigint value) (\<lambda>n.
       if n < 0 \<or> n \<ge> 2 ^ 256 then Inl (''uint256 out of range: '' @ scalar_string value)
       else hexToBytes (toBeHex E n 32))"

fun encodeValue :: "ethers \<Rightarrow> snapshot_value \<Rightarrow> byte list res" where
  "encodeValue E (SUint256 v) = res_bind (uint256Bytes E v) (\<lambda>b. Inr (0x01 # b))"
| "encodeValue E (SBool v) = Inr [0x02, if scalar_true v then 1 else 0]"
| "encodeValue E (SString v) =
     res_bind (lengthPrefixed (utf8Bytes (scalar_string v))) (\<lambda>b. Inr (0x03 # b))"
| "encodeValue E (SBytes h) =
     res_bind (hexToBytes h) (\<lambda>bytes. res_bind (lengthPrefixed bytes) (\<lambda>b. Inr (0x04 # b)))"

definition encode_entry :: "ethers \<Rightarrow> snapshot_entry \<Rightarrow> byte list res" where
  "encode_entry E e =
     res_bind (lengthPrefixed (utf8Bytes (entry_key e))) (\<lambda>k.
     res_bind (encodeValue E (entry_value e)) (\<lambda>v. Inr (k @ v)))"

definition compare_keys :: "(string \<Rightarrow> string \<Rightarrow> int) \<Rightarrow> snapshot_entry \<Rightarrow> snapshot_entry \<Rightarrow> int" where
  "compare_keys lc a b = lc (entry_key a) (entry_key b)"

definition snapshot_bytes ::
    "(string \<Rightarrow> string \<Rightarrow> int) \<Rightarrow> ethers \<Rightarrow> string \<Rightarrow> snapshot_entry list \<Rightarrow> byte list res" where
  "snapshot_bytes lc E contract entries =
     (let sorted = sort_by (compare_keys lc) entries in
      res_bind (lengthPrefixed (utf8Bytes contract)) (\<lambda>c.
      res_bind (res_mapM (encode_entry E) sorted) (\<lambda>bs.
        Inr (utf8Bytes ''UBTL-SNAPSHOT-V1'' @ c @ concat bs))))"

definition canonicalSnapshot ::
    "(string \<Rightarrow> string \<Rightarrow> int) \<Rightarrow> ethers \<Rightarrow> string \<Rightarrow> snapshot_entry list \<Rightarrow> snapshot_result res" where
  "canonicalSnapshot lc E contract entries =
     res_bind (snapshot_bytes lc E contract entries) (\<lambda>bytes.
       let hex = hexlify E bytes in
       Inr \<lparr>bytesHex = hex, snapshot_hash = keccak256 E hex\<rparr>)"

subsection \<open>The documented behaviour of the codec functions of ethers\<close>

text \<open>
  \<open>hexlify\<close> writes two lower-case hex digits per byte after \<open>0x\<close>; \<open>toBeHex(n, w)\<close>
  is the big-endian form of \<open>n\<close> on \<open>w\<close> bytes.
\<close>

definition hex_digit :: "nat \<Rightarrow> char" where
  "hex_digit d = (if d < 10 then char_of (48 + d) else char_of (87 + d))"

definition byte_hex :: "byte \<Rightarrow> string" where
  "byte_hex b = [hex_digit (unat b div 16), hex_digit (unat b mod 16)]"

definition hex_of_bytes :: "byte list \<Rightarrow> string" where
  "hex_of_bytes bs = ''0x'' @ concat (map byte_hex bs)"

fun be_bytes :: "nat \<Rightarrow> int \<Rightarrow> byte list" where
  "be_bytes 0 n = []"
| "be_bytes (Suc w) n = be_bytes w (n div 256) @ [word_of_int n]"

definition ethers_documented :: "ethers \<Rightarrow> bool" where
  "ethers_documented E \<longleftrightarrow>
     (\<forall>n w. 0 \<le> n \<and> n < 256 ^ w \<longrightarrow> toBeHex E n w = hex_of_bytes (be_bytes w n)) \<and>
     (\<forall>bs. hexlify E bs = hex_of_bytes bs)"

text \<open>A concrete library with that behaviour, for evaluating the model.\<close>

definition reference_ethers :: ethers where
  "reference_ethers =
     \<lparr>toBeHex = (\<lambda>n w. hex_of_bytes (be_bytes w n)), hexlify = hex_of_bytes, keccak256 = id\<rparr>"

lemma reference_ethers_documented: "ethers_documented reference_ethers"
  by (simp add: ethers_documented_def reference_ethers_def)

lemma length_be_bytes [simp]: "length (be_bytes w n) = w"
  by (induction w n rule: be_bytes.induct) simp_all

lemma hex_digit_props:
  assumes "d < 16"
  shows "digit_value (hex_digit d) = Some d" "is_hex (hex_digit d)"
    "\<not> is_js_space (hex_digit d)" "hex_digit d \<noteq> CHR ''-''" "hex_digit d \<noteq> CHR ''+''"
    "hex_digit d \<noteq> CHR ''x''" "hex_digit d \<noteq> CHR ''X''"
proof -
  have n: "char_nat (hex_digit d) = (if d < 10 then 48 + d else 87 + d)"
    using assms by (simp add: char_nat_def hex_digit_def)
  show "digit_value (hex_digit d) = Some d"
    using assms by (simp add: digit_value_def n Let_def)
  then show "is_hex (hex_digit d)" by (simp add: is_hex_def)
  show "\<not> is_js_space (hex_digit d)" using assms by (simp add: is_js_space_def n)
  have "char_nat (CHR ''-'') = 45" "char_nat (CHR ''+'') = 43" "char_nat (CHR ''x'') = 120"
    "char_nat (CHR ''X'') = 88" by (simp_all add: char_nat_def)
  with n assms show "hex_digit d \<noteq> CHR ''-''" "hex_digit d \<noteq> CHR ''+''"
    "hex_digit d \<noteq> CHR ''x''" "hex_digit d \<noteq> CHR ''X''"
    by (auto dest!: arg_cong [where f = char_nat] split: if_splits)
qed

lemma parseInt16_byte_hex: "to_uint8 (parseInt16 (byte_hex b)) = b"
proof -
  have "unat b < 2 ^ LENGTH(8)" by (rule unsigned_less)
  then have hi: "unat b div 16 < 16" by simp
  have lo: "unat b mod 16 < 16" by simp
  have "parseInt16 (byte_hex b) = Some (int (unat b div 16 * 16 + unat b mod 16))"
    using hi hex_digit_props [OF hi] hex_digit_props [OF lo]
    by (simp add: parseInt16_def byte_hex_def parse_hex_prefix_def strip_hex_prefix_def
        starts_with_def parse_base_def)
  then show ?thesis by (simp add: to_uint8_def)
qed

lemma hex_pairs_bytes: "hex_pairs (concat (map byte_hex bs)) = bs"
proof (induction bs)
  case (Cons b bs)
  then show ?case
    using parseInt16_byte_hex [of b] by (simp add: byte_hex_def)
qed simp

lemma hexToBytes_hex_of_bytes [simp]: "hexToBytes (hex_of_bytes bs) = Inr bs"
proof -
  have "length (concat (map byte_hex bs)) = 2 * length bs"
    by (induction bs) (simp_all add: byte_hex_def)
  then show ?thesis
    by (simp add: hexToBytes_def hex_of_bytes_def strip0x_def starts_with_def hex_pairs_bytes)
qed

lemma hex_of_bytes_inject: "hex_of_bytes as = hex_of_bytes bs \<longleftrightarrow> as = bs"
  by (metis hexToBytes_hex_of_bytes sum.inject(2))


subsection \<open>Decoding\<close>

text \<open>
  The content of a value once its type tag and bytes are all that is left of it: the
  specification the encoding is compared with.
\<close>

datatype snapshot_datum = DUint256 int | DBool bool | DString string | DBytes "byte list"

text \<open>The datum a value encodes, where it encodes at all.\<close>

definition datum_of :: "snapshot_value \<Rightarrow> snapshot_datum" where
  "datum_of v = (case v of
     SUint256 s \<Rightarrow> DUint256 (case scalar_bigint s of Inl e \<Rightarrow> 0 | Inr n \<Rightarrow> n)
   | SBool s \<Rightarrow> DBool (scalar_true s)
   | SString s \<Rightarrow> DString (scalar_string s)
   | SBytes h \<Rightarrow> DBytes (hex_pairs (strip0x h)))"

definition entry_datum :: "snapshot_entry \<Rightarrow> string \<times> snapshot_datum" where
  "entry_datum e = (entry_key e, datum_of (entry_value e))"

fun decode_u32 :: "byte list \<Rightarrow> (nat \<times> byte list) option" where
  "decode_u32 (a # b # c # d # rest) =
     Some (((unat a * 256 + unat b) * 256 + unat c) * 256 + unat d, rest)"
| "decode_u32 _ = None"

definition decode_prefixed :: "byte list \<Rightarrow> (byte list \<times> byte list) option" where
  "decode_prefixed bs = (case decode_u32 bs of
     None \<Rightarrow> None
   | Some (n, rest) \<Rightarrow> if length rest < n then None else Some (take n rest, drop n rest))"

fun decode_utf8 :: "byte list \<Rightarrow> string" where
  "decode_utf8 [] = []"
| "decode_utf8 (b # bs) =
     (if unat b < 128 then char_of (unat b) # decode_utf8 bs
      else case bs of
        [] \<Rightarrow> []
      | c # cs \<Rightarrow> char_of ((unat b - 192) * 64 + (unat c - 128)) # decode_utf8 cs)"

fun be_value :: "nat \<Rightarrow> byte list \<Rightarrow> nat" where
  "be_value acc [] = acc"
| "be_value acc (b # bs) = be_value (acc * 256 + unat b) bs"

fun decode_value :: "byte list \<Rightarrow> (snapshot_datum \<times> byte list) option" where
  "decode_value [] = None"
| "decode_value (t # bs) =
     (if t = 1 then
        (if length bs < 32 then None
         else Some (DUint256 (int (be_value 0 (take 32 bs))), drop 32 bs))
      else if t = 2 then (case bs of [] \<Rightarrow> None | b # rest \<Rightarrow> Some (DBool (b = 1), rest))
      else if t = 3 then map_option (apfst (DString \<circ> decode_utf8)) (decode_prefixed bs)
      else if t = 4 then map_option (apfst DBytes) (decode_prefixed bs)
      else None)"

definition decode_entry :: "byte list \<Rightarrow> ((string \<times> snapshot_datum) \<times> byte list) option" where
  "decode_entry bs = (case decode_prefixed bs of
     None \<Rightarrow> None
   | Some (k, rest) \<Rightarrow> map_option (apfst (Pair (decode_utf8 k))) (decode_value rest))"

fun decode_entries :: "nat \<Rightarrow> byte list \<Rightarrow> (string \<times> snapshot_datum) list option" where
  "decode_entries 0 bs = (if bs = [] then Some [] else None)"
| "decode_entries (Suc fuel) bs =
     (if bs = [] then Some []
      else case decode_entry bs of
        None \<Rightarrow> None
      | Some (e, rest) \<Rightarrow> map_option (Cons e) (decode_entries fuel rest))"

text \<open>Each entry takes at least one byte, so the length of the input is fuel enough.\<close>

definition decode_snapshot :: "byte list \<Rightarrow> (string \<times> (string \<times> snapshot_datum) list) option" where
  "decode_snapshot bs = (case decode_prefixed (drop 16 bs) of
     None \<Rightarrow> None
   | Some (c, rest) \<Rightarrow>
       map_option (Pair (decode_utf8 c)) (decode_entries (length rest) rest))"

lemma decode_u32be:
  assumes "u32be (int n) = Inr p"
  shows "decode_u32 (p @ rest) = Some (n, rest)" "length p = 4"
proof -
  have n: "n < 2 ^ 32" using assms by (simp add: u32be_def split: if_splits)
  let ?v = "word_of_int (int n) :: 32 word"
  have p: "p = [ucast (drop_bit 24 ?v AND 0xff), ucast (drop_bit 16 ?v AND 0xff),
      ucast (drop_bit 8 ?v AND 0xff), ucast (?v AND 0xff)]"
    using assms by (simp add: u32be_def Let_def split: if_splits)
  then show "length p = 4" by simp
  have v: "unat ?v = n" using n by (simp add: unat_of_nat take_bit_nat_eq_self)
  have byte_of: "unat (ucast (drop_bit k ?v AND 0xff) :: byte) = n div 2 ^ k mod 256" for k
  proof -
    have "(0xff :: nat) = mask 8" by (simp add: mask_eq_exp_minus_1)
    have "unat (ucast (drop_bit k ?v AND 0xff) :: byte) = take_bit 8 (unat (drop_bit k ?v AND 0xff))"
      by (simp only: unsigned_ucast_eq) simp
    also have "unat (drop_bit k ?v AND 0xff) = drop_bit k n AND mask 8"
      by (simp only: unsigned_and_eq unsigned_drop_bit_eq v)
        (simp add: mask_eq_exp_minus_1 take_bit_nat_eq_self [OF n])
    also have "take_bit 8 (drop_bit k n AND mask 8) = n div 2 ^ k mod 256"
      by (simp add: take_bit_eq_mask drop_bit_eq_div and.assoc
          flip: take_bit_eq_mask) (simp add: take_bit_eq_mod)
    finally show ?thesis .
  qed
  have "((n div 2 ^ 24 mod 256 * 256 + n div 2 ^ 16 mod 256) * 256 + n div 2 ^ 8 mod 256) * 256
      + n mod 256 = n"
  proof -
    have "n div 2 ^ 24 < 256" using n by simp
    then have a: "n div 2 ^ 24 mod 256 = n div 2 ^ 24" by simp
    have "n div 2 ^ 24 * 256 + n div 2 ^ 16 mod 256 = n div 2 ^ 16"
      by (simp add: div_mult2_eq [of n "2 ^ 16" 256, simplified])
    moreover have "n div 2 ^ 16 * 256 + n div 2 ^ 8 mod 256 = n div 2 ^ 8"
      by (simp add: div_mult2_eq [of n "2 ^ 8" 256, simplified])
    moreover have "n div 2 ^ 8 * 256 + n mod 256 = n" by simp
    ultimately show ?thesis by (simp only: a)
  qed
  then show "decode_u32 (p @ rest) = Some (n, rest)"
    using byte_of [of 24] byte_of [of 16] byte_of [of 8] byte_of [of 0] by (simp add: p)
qed

lemma decode_prefixed_lengthPrefixed:
  assumes "lengthPrefixed bs = Inr p"
  shows "decode_prefixed (p @ rest) = Some (bs, rest)"
  using assms decode_u32be [of "length bs"]
  by (auto simp: lengthPrefixed_def res_bind_Inr_iff decode_prefixed_def)

lemma decode_utf8_utf8Bytes: "decode_utf8 (utf8Bytes s) = s"
proof (induction s)
  case Nil
  then show ?case by (simp add: utf8Bytes_def)
next
  case (Cons c cs)
  have c: "char_nat c < 256" by (simp add: char_nat_def)
  have w: "unat (word_of_nat m :: byte) = m" if "m < 256" for m
    using that by (simp add: unat_of_nat)
  have e: "char_of (char_nat c) = c" by (simp add: char_nat_def)
  show ?case
  proof (cases "char_nat c < 128")
    case True
    then show ?thesis using Cons w [of "char_nat c"] e
      by (simp add: utf8Bytes_def utf8_char_def)
  next
    case False
    have "192 + char_nat c div 64 < 256" "128 + char_nat c mod 64 < 256" using c by auto
    note [simp] = this [THEN w]
    show ?thesis using False Cons e
      by (simp add: utf8Bytes_def utf8_char_def Let_def del: of_nat_add)
  qed
qed

lemma be_value_append: "be_value acc (xs @ ys) = be_value (be_value acc xs) ys"
  by (induction xs arbitrary: acc) auto

lemma be_value_be_bytes: "0 \<le> n \<Longrightarrow> n < 256 ^ w \<Longrightarrow> be_value 0 (be_bytes w n) = nat n"
proof (induction w arbitrary: n)
  case 0
  then show ?case by simp
next
  case (Suc w)
  then have "0 \<le> n div 256" "n div 256 < 256 ^ w" by auto
  then have "be_value 0 (be_bytes w (n div 256)) = nat (n div 256)" by (rule Suc.IH)
  moreover have "unat (word_of_int n :: byte) = nat (n mod 256)"
    by (simp add: unsigned_of_int take_bit_eq_mod)
  moreover have "nat (n div 256) * 256 + nat (n mod 256) = nat n"
    using Suc.prems by (simp add: nat_div_distrib nat_mod_distrib)
  ultimately show ?case by (simp add: be_value_append)
qed

lemma uint256Bytes_documented:
  assumes "ethers_documented E" "uint256Bytes E v = Inr b"
  obtains n where "scalar_bigint v = Inr n" "0 \<le> n" "n < 2 ^ 256" "b = be_bytes 32 n"
proof -
  obtain n where n: "scalar_bigint v = Inr n" "0 \<le> n" "n < 2 ^ 256"
    "hexToBytes (toBeHex E n 32) = Inr b"
    using assms(2) by (auto simp: uint256Bytes_def res_bind_Inr_iff split: if_splits)
  have "(256::int) ^ 32 = 2 ^ 256" by simp
  with n(2,3) assms(1) have "toBeHex E n 32 = hex_of_bytes (be_bytes 32 n)"
    unfolding ethers_documented_def by auto
  with n(4) have "b = be_bytes 32 n" by simp
  with n that show ?thesis by blast
qed

lemma decode_value_encodeValue:
  assumes E: "ethers_documented E" and enc: "encodeValue E v = Inr b"
  shows "decode_value (b @ rest) = Some (datum_of v, rest)"
proof (cases v)
  case (SUint256 s)
  with enc obtain u where u: "uint256Bytes E s = Inr u" "b = 1 # u"
    by (auto simp: res_bind_Inr_iff)
  from uint256Bytes_documented [OF E u(1)] obtain n where
    n: "scalar_bigint s = Inr n" "0 \<le> n" "n < 2 ^ 256" "u = be_bytes 32 n" by blast
  have "int (be_value 0 u) = n"
    using be_value_be_bytes [of n 32] n by simp
  then show ?thesis using u n SUint256 by (simp add: datum_of_def)
next
  case (SBool s)
  then show ?thesis using enc by (auto simp: datum_of_def)
next
  case (SString s)
  then show ?thesis using enc
    by (auto simp: datum_of_def res_bind_Inr_iff decode_prefixed_lengthPrefixed
        decode_utf8_utf8Bytes)
next
  case (SBytes h)
  then obtain bytes p where h: "hexToBytes h = Inr bytes" "lengthPrefixed bytes = Inr p" "b = 4 # p"
    using enc by (auto simp: res_bind_Inr_iff)
  from h(1) have "bytes = hex_pairs (strip0x h)"
    by (auto simp: hexToBytes_def Let_def split: if_splits)
  with h SBytes show ?thesis
    by (auto simp: datum_of_def decode_prefixed_lengthPrefixed)
qed

lemma decode_entry_encode_entry:
  assumes "ethers_documented E" and "encode_entry E e = Inr b"
  shows "decode_entry (b @ rest) = Some (entry_datum e, rest)" "b \<noteq> []"
proof -
  obtain k v where kv: "lengthPrefixed (utf8Bytes (entry_key e)) = Inr k"
    "encodeValue E (entry_value e) = Inr v" "b = k @ v"
    using assms(2) by (auto simp: encode_entry_def res_bind_Inr_iff)
  show "decode_entry (b @ rest) = Some (entry_datum e, rest)"
    using decode_prefixed_lengthPrefixed [OF kv(1)] decode_value_encodeValue [OF assms(1) kv(2)]
    by (simp add: kv(3) decode_entry_def entry_datum_def decode_utf8_utf8Bytes)
  from kv(1) show "b \<noteq> []"
    using decode_u32be(2) by (fastforce simp: kv(3) lengthPrefixed_def res_bind_Inr_iff)
qed

lemma decode_entries_encoded:
  assumes E: "ethers_documented E"
    and "list_all2 (\<lambda>e b. encode_entry E e = Inr b) es bs" "length (concat bs) \<le> fuel"
  shows "decode_entries fuel (concat bs) = Some (map entry_datum es)"
  using assms(2,3)
proof (induction fuel arbitrary: es bs)
  case 0
  then show ?case using decode_entry_encode_entry(2) [OF E]
    by (cases es; cases bs) auto
next
  case (Suc fuel)
  show ?case
  proof (cases es)
    case Nil
    with Suc.prems show ?thesis by simp
  next
    case (Cons e es')
    then obtain b bs' where b: "bs = b # bs'" "encode_entry E e = Inr b"
      "list_all2 (\<lambda>e b. encode_entry E e = Inr b) es' bs'"
      using Suc.prems(1) by (auto simp: list_all2_Cons1)
    note d = decode_entry_encode_entry [OF E b(2)]
    from d(2) Suc.prems(2) b(1) have "length (concat bs') \<le> fuel" by (cases b) auto
    from Suc.IH [OF b(3) this] d show ?thesis by (simp add: b(1) Cons)
  qed
qed

lemma length_tag: "length (utf8Bytes ''UBTL-SNAPSHOT-V1'') = 16"
  by code_simp

lemma decode_snapshot_bytes:
  assumes "ethers_documented E" and "snapshot_bytes lc E contract entries = Inr bytes"
  shows "decode_snapshot bytes =
    Some (contract, map entry_datum (sort_by (compare_keys lc) entries))"
proof -
  obtain c bs where cb: "lengthPrefixed (utf8Bytes contract) = Inr c"
    "list_all2 (\<lambda>e b. encode_entry E e = Inr b) (sort_by (compare_keys lc) entries) bs"
    "bytes = utf8Bytes ''UBTL-SNAPSHOT-V1'' @ c @ concat bs"
    using assms(2) by (auto simp: snapshot_bytes_def res_bind_Inr_iff res_mapM_Inr_iff Let_def)
  have "drop 16 bytes = c @ concat bs" by (simp add: cb(3) length_tag)
  then show ?thesis
    using decode_prefixed_lengthPrefixed [OF cb(1)] decode_entries_encoded [OF assms(1) cb(2) order_refl]
    by (simp add: decode_snapshot_def decode_utf8_utf8Bytes)
qed

text \<open>Equal hex, equal data.\<close>

lemma same_hex_same_data:
  assumes "ethers_documented E"
    and "canonicalSnapshot lc E c1 es1 = Inr r1" and "canonicalSnapshot lc E c2 es2 = Inr r2"
    and "bytesHex r1 = bytesHex r2"
  shows "c1 = c2 \<and> mset (map entry_datum es1) = mset (map entry_datum es2)"
proof -
  obtain b1 b2 where b: "snapshot_bytes lc E c1 es1 = Inr b1" "snapshot_bytes lc E c2 es2 = Inr b2"
    "hexlify E b1 = hexlify E b2"
    using assms(2-4) by (auto simp: canonicalSnapshot_def res_bind_Inr_iff Let_def)
  have "b1 = b2"
    using b(3) assms(1) by (simp add: ethers_documented_def hex_of_bytes_inject)
  then have eq: "(c1, map entry_datum (sort_by (compare_keys lc) es1)) =
      (c2, map entry_datum (sort_by (compare_keys lc) es2))"
    using decode_snapshot_bytes [OF assms(1) b(1)] decode_snapshot_bytes [OF assms(1) b(2)] by simp
  have "mset (map entry_datum (sort_by (compare_keys lc) es1)) =
      mset (map entry_datum (sort_by (compare_keys lc) es2))"
    using eq by (simp only: prod.inject)
  then have "mset (map entry_datum es1) = mset (map entry_datum es2)" by simp
  with eq show ?thesis by simp
qed

subsection \<open>Properties\<close>

text \<open>
  C26. The canonical snapshot loses nothing: decoding the bytes gives back the contract's
  name and, in sorted order, every key with the datum its value denotes.
\<close>

theorem snapshot_roundtrip:
  assumes "ethers_documented E" and "snapshot_bytes lc E contract entries = Inr bytes"
  shows "decode_snapshot bytes =
    Some (contract, map entry_datum (sort_by (compare_keys lc) entries))"
  using assms by (rule decode_snapshot_bytes)

lemma snapshot_roundtrip_witness:
  "\<exists>bytes. snapshot_bytes code_unit_compare reference_ethers ''C''
       [\<lparr>entry_key = ''b'', entry_value = SBool (ScalarBoolean True)\<rparr>,
        \<lparr>entry_key = ''a'', entry_value = SString (ScalarString ''z'')\<rparr>] = Inr bytes \<and>
     decode_snapshot bytes = Some (''C'', [(''a'', DString ''z''), (''b'', DBool True)])"
proof -
  let ?es = "[\<lparr>entry_key = ''b'', entry_value = SBool (ScalarBoolean True)\<rparr>,
    \<lparr>entry_key = ''a'', entry_value = SString (ScalarString ''z'')\<rparr>]"
  let ?bytes = "[85, 66, 84, 76, 45, 83, 78, 65, 80, 83, 72, 79, 84, 45, 86, 49, 0, 0,
      0, 1, 67, 0, 0, 0, 1, 97, 3, 0, 0, 0, 1, 122, 0, 0, 0, 1, 98, 2, 1]"
  have h: "snapshot_bytes code_unit_compare reference_ethers ''C'' ?es = Inr ?bytes"
    by code_simp
  have "map entry_datum (sort_by (compare_keys code_unit_compare) ?es) =
      [(''a'', DString ''z''), (''b'', DBool True)]"
    by code_simp
  with snapshot_roundtrip [OF reference_ethers_documented h]
  have "decode_snapshot ?bytes = Some (''C'', [(''a'', DString ''z''), (''b'', DBool True)])"
    by (simp only:)
  with h show ?thesis by blast
qed

lemma compare_keys_comparator: "js_comparator lc \<Longrightarrow> js_comparator (compare_keys lc)"
  unfolding js_comparator_def compare_keys_def by blast

text \<open>
  The snapshot does not depend on the order in which a runner pushes the entries, as
  long as the host's \<open>localeCompare\<close> is a consistent comparator that tells their keys apart.
\<close>

theorem snapshot_order_independent:
  assumes "js_comparator lc" and "mset es1 = mset es2" and "distinct (map entry_key es1)"
    and "\<forall>a \<in> set es1. \<forall>b \<in> set es1. entry_key a \<noteq> entry_key b \<longrightarrow> lc (entry_key a) (entry_key b) \<noteq> 0"
  shows "canonicalSnapshot lc E contract es1 = canonicalSnapshot lc E contract es2"
proof -
  have "sort_by (compare_keys lc) es1 = sort_by (compare_keys lc) es2"
  proof (rule js_comparator.sort_by_permutation [OF compare_keys_comparator [OF assms(1)] assms(2)])
    show "distinct es1" using assms(3) by (simp add: distinct_map)
    fix x y
    assume xy: "x \<in> set es1" "y \<in> set es1" "x \<noteq> y"
    then have "entry_key x \<noteq> entry_key y"
      using assms(3) by (auto simp: distinct_map dest: inj_onD)
    with xy assms(4) show "compare_keys lc x y \<noteq> 0" by (simp add: compare_keys_def)
  qed
  then show ?thesis by (simp add: canonicalSnapshot_def snapshot_bytes_def)
qed

lemma snapshot_order_independent_witness:
  "canonicalSnapshot code_unit_compare reference_ethers ''H''
     [\<lparr>entry_key = ''lockedTotal'', entry_value = SUint256 (ScalarBigint 0)\<rparr>,
      \<lparr>entry_key = ''availableRemain'', entry_value = SUint256 (ScalarString ''7'')\<rparr>] =
   canonicalSnapshot code_unit_compare reference_ethers ''H''
     [\<lparr>entry_key = ''availableRemain'', entry_value = SUint256 (ScalarString ''7'')\<rparr>,
      \<lparr>entry_key = ''lockedTotal'', entry_value = SUint256 (ScalarBigint 0)\<rparr>]"
  by (rule snapshot_order_independent [OF code_units.js_comparator_axioms]) (simp_all add: add_mset_commute)

subsection \<open>When a snapshot is produced\<close>

lemma lengthPrefixed_total:
  "length bs < 2 ^ 32 \<Longrightarrow> \<exists>p. lengthPrefixed bs = Inr p"
  by (simp add: lengthPrefixed_def u32be_def Let_def)

lemma length_utf8Bytes: "length (utf8Bytes s) \<le> 2 * length s"
  by (induction s) (simp_all add: utf8Bytes_def utf8_char_def Let_def)

definition short :: "string \<Rightarrow> bool" where
  "short s \<longleftrightarrow> length s < 2 ^ 31"

lemma lengthPrefixed_short: "short s \<Longrightarrow> \<exists>p. lengthPrefixed (utf8Bytes s) = Inr p"
  using length_utf8Bytes [of s] by (intro lengthPrefixed_total) (simp add: short_def)

fun value_encodable :: "snapshot_value \<Rightarrow> bool" where
  "value_encodable (SUint256 v) \<longleftrightarrow> (\<exists>n. scalar_bigint v = Inr n \<and> 0 \<le> n \<and> n < 2 ^ 256)"
| "value_encodable (SBool v) \<longleftrightarrow> True"
| "value_encodable (SString v) \<longleftrightarrow> short (scalar_string v)"
| "value_encodable (SBytes h) \<longleftrightarrow> even (length (strip0x h)) \<and> short h"

definition entry_encodable :: "snapshot_entry \<Rightarrow> bool" where
  "entry_encodable e \<longleftrightarrow> short (entry_key e) \<and> value_encodable (entry_value e)"

lemma encodeValue_total:
  assumes "ethers_documented E" and "value_encodable v"
  shows "\<exists>b. encodeValue E v = Inr b"
proof (cases v)
  case (SUint256 s)
  with assms obtain n where n: "scalar_bigint s = Inr n" "0 \<le> n" "n < 2 ^ 256" by auto
  then have "toBeHex E n 32 = hex_of_bytes (be_bytes 32 n)"
    using assms(1) unfolding ethers_documented_def by auto
  with n SUint256 show ?thesis by (simp add: uint256Bytes_def)
next
  case (SString s)
  then show ?thesis using assms(2) lengthPrefixed_short by fastforce
next
  case (SBytes h)
  have len: "length (hex_pairs s) \<le> length s" for s
    by (induction s rule: hex_pairs.induct) auto
  have "length (strip0x h) \<le> length h" by (simp add: strip0x_def)
  with len [of "strip0x h"] have "length (hex_pairs (strip0x h)) < 2 ^ 32"
    using assms(2) SBytes by (simp add: short_def)
  from lengthPrefixed_total [OF this] assms(2) SBytes show ?thesis
    by (auto simp: hexToBytes_def)
qed simp

lemma encode_entry_total:
  "ethers_documented E \<Longrightarrow> entry_encodable e \<Longrightarrow> \<exists>b. encode_entry E e = Inr b"
  using encodeValue_total [of E "entry_value e"] lengthPrefixed_short [of "entry_key e"]
  by (auto simp: entry_encodable_def encode_entry_def)

lemma res_mapM_total_ex: "(\<And>x. x \<in> set xs \<Longrightarrow> \<exists>y. f x = Inr y) \<Longrightarrow> \<exists>ys. res_mapM f xs = Inr ys"
proof (induction xs)
  case (Cons x xs)
  from Cons.prems [of x] obtain y where "f x = Inr y" by auto
  moreover from Cons obtain ys where "res_mapM f xs = Inr ys" by auto
  ultimately show ?case by simp
qed simp

text \<open>A snapshot of encodable entries is always produced.\<close>

lemma canonicalSnapshot_total:
  assumes E: "ethers_documented E" and "short contract" and "\<forall>e \<in> set es. entry_encodable e"
  shows "\<exists>r. canonicalSnapshot lc E contract es = Inr r"
proof -
  obtain c where "lengthPrefixed (utf8Bytes contract) = Inr c"
    using lengthPrefixed_short [OF assms(2)] by blast
  moreover obtain bs where "res_mapM (encode_entry E) (sort_by (compare_keys lc) es) = Inr bs"
    using res_mapM_total_ex [of "sort_by (compare_keys lc) es" "encode_entry E"]
      encode_entry_total [OF E] assms(3) by fastforce
  ultimately show ?thesis
    by (simp add: canonicalSnapshot_def snapshot_bytes_def Let_def)
qed

lemma encodable_uint [simp]:
  "entry_encodable \<lparr>entry_key = k, entry_value = SUint256 (ScalarBigint n)\<rparr> \<longleftrightarrow>
     short k \<and> 0 \<le> n \<and> n < 2 ^ 256"
  "entry_encodable \<lparr>entry_key = k, entry_value = SUint256 (ScalarString (show_int n))\<rparr> \<longleftrightarrow>
     short k \<and> 0 \<le> n \<and> n < 2 ^ 256"
  "entry_encodable \<lparr>entry_key = k, entry_value = SBool v\<rparr> \<longleftrightarrow> short k"
  "entry_encodable \<lparr>entry_key = k, entry_value = SString (ScalarString s)\<rparr> \<longleftrightarrow> short k \<and> short s"
  by (simp_all add: entry_encodable_def scalar_bigint_def scalar_string_def)

end
