(* ===== verification/Hotel_Model.thy ===== *)
theory Hotel_Model
  imports Snapshot
begin

text \<open>
  \<open>scripts/rq2/hotel-booking-model.ts\<close> and the subclass \<open>TrainBookingModel\<close> of
  \<open>scripts/rq2/rq2-models.ts\<close>: the reference semantics of the booking contracts. A class
  instance is a record, a method that mutates \<open>this\<close> returns the new record, and a
  \<open>throw\<close> caught by \<open>execute\<close> is a left value; every throw precedes the first write of
  its case, so a failing operation leaves the instance as it was.
\<close>

subsection \<open>Data\<close>

record hotel_initial =
  init_bridge :: string
  init_price :: string
  init_remain :: string
  init_lockSize :: string

datatype hotel_operation =
    BookLocal string string
  | LockState string string string
  | UnlockState string
  | GetPrice
  | GetRemain
  | GetAvailableRemain
  | GetAccountBalance string
  | GetBooking string
  | IsStateLocked string

record operation_result =
  op_ok :: bool
  returnValues :: "string list"
  op_error :: "string option"

record lock_entry =
  lockedAmount :: int
  lock_active :: bool

record hotel =
  hb_bridge :: string
  hb_price :: int
  hb_remain :: int
  hb_lockSize :: int
  hb_lockedTotal :: int
  hb_accounts :: "string \<rightharpoonup> int"
  hb_bookings :: "string \<rightharpoonup> int"
  hb_locks :: "string \<rightharpoonup> lock_entry"

definition succeed :: "string list \<Rightarrow> operation_result" where
  "succeed vs = \<lparr>op_ok = True, returnValues = vs, op_error = None\<rparr>"

definition failure :: "string \<Rightarrow> operation_result" where
  "failure e = \<lparr>op_ok = False, returnValues = [], op_error = Some e\<rparr>"

text \<open>The \<open>try ... catch\<close> every \<open>execute\<close> method is wrapped in.\<close>

definition catch_result :: "'s \<Rightarrow> string + (string list \<times> 's) \<Rightarrow> operation_result \<times> 's" where
  "catch_result s r = (case r of Inl e \<Rightarrow> (failure e, s) | Inr (vs, s') \<Rightarrow> (succeed vs, s'))"

subsection \<open>Construction\<close>

definition new_HotelBookingModel :: "hotel_initial \<Rightarrow> hotel res" where
  "new_HotelBookingModel initial =
     res_bind (BigInt (init_price initial)) (\<lambda>price.
     res_bind (BigInt (init_remain initial)) (\<lambda>remain.
     res_bind (BigInt (init_lockSize initial)) (\<lambda>lockSize.
       if price \<le> 0 then Inl ''price must be > 0''
       else Inr \<lparr>hb_bridge = init_bridge initial, hb_price = price, hb_remain = remain,
                 hb_lockSize = (if lockSize \<le> 0 then 1 else lockSize), hb_lockedTotal = 0,
                 hb_accounts = Map.empty, hb_bookings = Map.empty, hb_locks = Map.empty\<rparr>)))"

subsection \<open>Reads\<close>

definition availableRemain :: "hotel \<Rightarrow> int res" where
  "availableRemain h =
     res_bind (js_div (hb_lockedTotal h) (hb_price h)) (\<lambda>lockedUnits.
       Inr (if hb_remain h > lockedUnits then hb_remain h - lockedUnits else 0))"

definition balanceOf :: "hotel \<Rightarrow> string \<Rightarrow> int" where
  "balanceOf h user = get0 (hb_accounts h) user"

definition bookingOf :: "hotel \<Rightarrow> string \<Rightarrow> int" where
  "bookingOf h user = get0 (hb_bookings h) user"

text \<open>\<open>this.locks.get(lockId)?.active === true\<close>, and \<open>?.lockedAmount ?? 0n\<close>.\<close>

definition lock_is_active :: "hotel \<Rightarrow> string \<Rightarrow> bool" where
  "lock_is_active h l = (case hb_locks h l of None \<Rightarrow> False | Some e \<Rightarrow> lock_active e)"

definition lock_amount :: "hotel \<Rightarrow> string \<Rightarrow> int" where
  "lock_amount h l = (case hb_locks h l of None \<Rightarrow> 0 | Some e \<Rightarrow> lockedAmount e)"

subsection \<open>Operations\<close>

definition book_local :: "hotel \<Rightarrow> string \<Rightarrow> string \<Rightarrow> string + (string list \<times> hotel)" where
  "book_local h user amount_text =
     res_bind (BigInt amount_text) (\<lambda>amount.
       if amount = 0 then Inl ''zero amount''
       else res_bind (availableRemain h) (\<lambda>available.
         if available < amount then Inl ''insufficient available rooms''
         else
           let cost = hb_price h * amount in
           Inr ([show_int cost],
             h\<lparr>hb_remain := hb_remain h - amount,
               hb_accounts := (hb_accounts h)(user \<mapsto> balanceOf h user + cost),
               hb_bookings := (hb_bookings h)(user \<mapsto> bookingOf h user + amount)\<rparr>)))"

definition lock_state :: "hotel \<Rightarrow> string \<Rightarrow> string \<Rightarrow> string + (string list \<times> hotel)" where
  "lock_state h lockId amount_text =
     res_bind (BigInt amount_text) (\<lambda>amount.
       if lock_is_active h lockId then Inl ''already locked''
       else res_bind (availableRemain h) (\<lambda>available.
         if available < amount then Inl ''insufficient remain for lock''
         else
           let locked = (if amount > 0 then amount else hb_lockSize h) * hb_price h in
           Inr ([show_int (hb_price h), show_int (hb_remain h)],
             h\<lparr>hb_locks := (hb_locks h)(lockId \<mapsto> \<lparr>lockedAmount = locked, lock_active = True\<rparr>),
               hb_lockedTotal := hb_lockedTotal h + locked\<rparr>)))"

definition unlock_state :: "hotel \<Rightarrow> string \<Rightarrow> string + (string list \<times> hotel)" where
  "unlock_state h lockId =
     (if \<not> lock_is_active h lockId then Inl ''not locked''
      else
        let locked = lock_amount h lockId in
        Inr ([], h\<lparr>hb_lockedTotal :=
                     (if hb_lockedTotal h > locked then hb_lockedTotal h - locked else 0),
                   hb_locks := (hb_locks h)(lockId := None)\<rparr>))"

fun hotel_body :: "hotel \<Rightarrow> hotel_operation \<Rightarrow> string + (string list \<times> hotel)" where
  "hotel_body h (BookLocal user amount) = book_local h user amount"
| "hotel_body h (LockState lockId amount timeoutBlocks) = lock_state h lockId amount"
| "hotel_body h (UnlockState lockId) = unlock_state h lockId"
| "hotel_body h GetPrice = Inr ([show_int (hb_price h)], h)"
| "hotel_body h GetRemain = Inr ([show_int (hb_remain h)], h)"
| "hotel_body h GetAvailableRemain = res_bind (availableRemain h) (\<lambda>a. Inr ([show_int a], h))"
| "hotel_body h (GetAccountBalance user) = Inr ([show_int (balanceOf h user)], h)"
| "hotel_body h (GetBooking user) = Inr ([show_int (bookingOf h user)], h)"
| "hotel_body h (IsStateLocked lockId) = Inr ([show_bool (lock_is_active h lockId)], h)"

definition hotel_execute :: "hotel \<Rightarrow> hotel_operation \<Rightarrow> operation_result \<times> hotel" where
  "hotel_execute h operation = catch_result h (hotel_body h operation)"

text \<open>The state after a case's operations.\<close>

abbreviation hotel_run :: "hotel \<Rightarrow> hotel_operation list \<Rightarrow> hotel" where
  "hotel_run \<equiv> run_ops hotel_execute"

subsection \<open>Snapshots\<close>

definition uint_entry :: "string \<Rightarrow> int \<Rightarrow> snapshot_entry" where
  "uint_entry k n = \<lparr>entry_key = k, entry_value = SUint256 (ScalarBigint n)\<rparr>"

definition bool_entry :: "string \<Rightarrow> bool \<Rightarrow> snapshot_entry" where
  "bool_entry k b = \<lparr>entry_key = k, entry_value = SBool (ScalarBoolean b)\<rparr>"

definition string_entry :: "string \<Rightarrow> string \<Rightarrow> snapshot_entry" where
  "string_entry k s = \<lparr>entry_key = k, entry_value = SString (ScalarString s)\<rparr>"

definition user_entries :: "hotel \<Rightarrow> string \<Rightarrow> snapshot_entry list" where
  "user_entries h user =
     [uint_entry (''accounts.'' @ user) (balanceOf h user),
      uint_entry (''bookings.'' @ user) (bookingOf h user)]"

definition lock_entries :: "hotel \<Rightarrow> string \<Rightarrow> snapshot_entry list" where
  "lock_entries h lockId =
     [bool_entry (''locks.'' @ lockId @ ''.active'') (lock_is_active h lockId),
      uint_entry (''locks.'' @ lockId @ ''.lockedAmount'') (lock_amount h lockId)]"

definition hotel_entries :: "hotel \<Rightarrow> string list \<Rightarrow> string list \<Rightarrow> snapshot_entry list res" where
  "hotel_entries h touchedUsers touchedLocks =
     res_bind (availableRemain h) (\<lambda>available.
       Inr ([string_entry ''meta.bridge'' (hb_bridge h),
             uint_entry ''meta.price'' (hb_price h),
             uint_entry ''meta.remain'' (hb_remain h),
             uint_entry ''meta.lockSize'' (hb_lockSize h),
             uint_entry ''lockedTotal'' (hb_lockedTotal h),
             uint_entry ''availableRemain'' available]
            @ concat (map (user_entries h) (sorted_members touchedUsers))
            @ concat (map (lock_entries h) (sorted_members touchedLocks))))"

definition hotel_snapshot ::
    "(string \<Rightarrow> string \<Rightarrow> int) \<Rightarrow> ethers \<Rightarrow> hotel \<Rightarrow> string list \<Rightarrow> string list \<Rightarrow> snapshot_result res" where
  "hotel_snapshot lc E h touchedUsers touchedLocks =
     res_bind (hotel_entries h touchedUsers touchedLocks)
       (canonicalSnapshot lc E ''HotelBooking'')"

text \<open>
  \<open>TrainBookingModel.snapshot\<close>: it first computes the hotel snapshot and drops it (an
  error there is an error here), then builds the same entries, reading the available rooms
  through \<open>execute\<close> with \<open>"0"\<close> as the fallback, under the name \<open>TrainBooking\<close>.
\<close>

definition train_available :: "hotel \<Rightarrow> int res" where
  "train_available h =
     (let r = fst (hotel_execute h GetAvailableRemain) in
      BigInt (case returnValues r of [] \<Rightarrow> ''0'' | v # _ \<Rightarrow> v))"

definition train_entries :: "hotel \<Rightarrow> string list \<Rightarrow> string list \<Rightarrow> snapshot_entry list res" where
  "train_entries h touchedUsers touchedLocks =
     res_bind (train_available h) (\<lambda>available.
       Inr ([string_entry ''meta.bridge'' (hb_bridge h),
             uint_entry ''meta.price'' (hb_price h),
             uint_entry ''meta.remain'' (hb_remain h),
             uint_entry ''meta.lockSize'' (hb_lockSize h),
             uint_entry ''lockedTotal'' (hb_lockedTotal h),
             uint_entry ''availableRemain'' available]
            @ concat (map (user_entries h) (sorted_members touchedUsers))
            @ concat (map (lock_entries h) (sorted_members touchedLocks))))"

definition train_snapshot ::
    "(string \<Rightarrow> string \<Rightarrow> int) \<Rightarrow> ethers \<Rightarrow> hotel \<Rightarrow> string list \<Rightarrow> string list \<Rightarrow> snapshot_result res" where
  "train_snapshot lc E h touchedUsers touchedLocks =
     res_bind (hotel_snapshot lc E h touchedUsers touchedLocks) (\<lambda>_.
     res_bind (canonicalSnapshot lc E ''HotelBooking'' []) (\<lambda>_.
     res_bind (train_entries h touchedUsers touchedLocks)
       (canonicalSnapshot lc E ''TrainBooking'')))"

subsection \<open>The invariant\<close>

definition lock_amounts :: "hotel \<Rightarrow> string \<rightharpoonup> int" where
  "lock_amounts h = (\<lambda>l. map_option lockedAmount (hb_locks h l))"

text \<open>
  \<open>rooms\<close> is the number of rooms the ledger started with. Locks present are active and
  hold a positive whole number of rooms' price; what an account owes is its bookings at the
  fixed price; rooms are conserved.
\<close>

definition hotel_inv :: "int \<Rightarrow> hotel \<Rightarrow> bool" where
  "hotel_inv rooms h \<longleftrightarrow>
     0 < hb_price h \<and> 0 < hb_lockSize h \<and> 0 \<le> hb_remain h \<and>
     finite (dom (hb_bookings h)) \<and> finite (dom (hb_locks h)) \<and>
     (\<forall>l e. hb_locks h l = Some e \<longrightarrow>
        lock_active e \<and> 0 < lockedAmount e \<and> hb_price h dvd lockedAmount e) \<and>
     hb_lockedTotal h = map_total (lock_amounts h) \<and>
     (\<forall>u. balanceOf h u = hb_price h * bookingOf h u) \<and>
     hb_remain h + map_total (hb_bookings h) = rooms"

lemma dom_lock_amounts [simp]: "dom (lock_amounts h) = dom (hb_locks h)"
  by (auto simp: lock_amounts_def)

lemma get0_lock_amounts: "get0 (lock_amounts h) l = lock_amount h l"
  by (simp add: get0_def lock_amounts_def lock_amount_def split: option.split)

lemma hotel_invD:
  assumes "hotel_inv rooms h"
  shows "0 < hb_price h" "0 < hb_lockSize h" "0 \<le> hb_remain h" "0 \<le> lock_amount h l"
    "lock_amount h l \<le> hb_lockedTotal h" "0 \<le> hb_lockedTotal h"
proof -
  show "0 < hb_price h" "0 < hb_lockSize h" "0 \<le> hb_remain h"
    using assms by (simp_all add: hotel_inv_def)
  have nonneg: "0 \<le> lock_amount h j" for j
    using assms by (force simp: hotel_inv_def lock_amount_def split: option.split)
  then show "0 \<le> lock_amount h l" .
  have fin: "finite (dom (lock_amounts h))" using assms by (simp add: hotel_inv_def)
  have "get0 (lock_amounts h) l \<le> map_total (lock_amounts h)"
    by (rule map_total_ge [OF fin]) (simp add: get0_lock_amounts nonneg)
  then show le: "lock_amount h l \<le> hb_lockedTotal h"
    using assms by (simp add: hotel_inv_def get0_lock_amounts)
  with nonneg [of l] show "0 \<le> hb_lockedTotal h" by linarith
qed

lemma availableRemain_inv:
  assumes "hotel_inv rooms h"
  shows "availableRemain h = Inr (max 0 (hb_remain h - hb_lockedTotal h div hb_price h))"
  using hotel_invD [OF assms] by (simp add: availableRemain_def js_div_pos max_def)

lemma available_le_remain:
  assumes "hotel_inv rooms h" "availableRemain h = Inr a"
  shows "a \<le> hb_remain h" "0 \<le> a"
proof -
  have "0 \<le> hb_lockedTotal h div hb_price h"
    using hotel_invD [OF assms(1)] by (simp add: pos_imp_zdiv_nonneg_iff)
  with assms hotel_invD(3) [OF assms(1)] show "a \<le> hb_remain h" "0 \<le> a"
    by (simp_all add: availableRemain_inv)
qed

lemma book_local_ok:
  "book_local h u a = Inr (vs, h') \<longleftrightarrow>
     (\<exists>n av. BigInt a = Inr n \<and> n \<noteq> 0 \<and> availableRemain h = Inr av \<and> n \<le> av \<and>
        vs = [show_int (hb_price h * n)] \<and>
        h' = h\<lparr>hb_remain := hb_remain h - n,
               hb_accounts := (hb_accounts h)(u \<mapsto> balanceOf h u + hb_price h * n),
               hb_bookings := (hb_bookings h)(u \<mapsto> bookingOf h u + n)\<rparr>)"
  by (cases "BigInt a"; cases "availableRemain h") (auto simp: book_local_def Let_def)

lemma lock_state_ok:
  "lock_state h l a = Inr (vs, h') \<longleftrightarrow>
     (\<exists>n av. BigInt a = Inr n \<and> \<not> lock_is_active h l \<and> availableRemain h = Inr av \<and> n \<le> av \<and>
        vs = [show_int (hb_price h), show_int (hb_remain h)] \<and>
        h' = h\<lparr>hb_locks := (hb_locks h)(l \<mapsto>
                 \<lparr>lockedAmount = (if n > 0 then n else hb_lockSize h) * hb_price h, lock_active = True\<rparr>),
               hb_lockedTotal := hb_lockedTotal h + (if n > 0 then n else hb_lockSize h) * hb_price h\<rparr>)"
  by (cases "BigInt a"; cases "availableRemain h") (auto simp: lock_state_def Let_def)

lemma book_local_inv:
  assumes inv: "hotel_inv rooms h" and ok: "book_local h u a = Inr (vs, h')"
  shows "hotel_inv rooms h'"
proof -
  obtain n av where n: "availableRemain h = Inr av" "n \<le> av"
    "h' = h\<lparr>hb_remain := hb_remain h - n,
            hb_accounts := (hb_accounts h)(u \<mapsto> balanceOf h u + hb_price h * n),
            hb_bookings := (hb_bookings h)(u \<mapsto> bookingOf h u + n)\<rparr>"
    using ok unfolding book_local_ok by blast
  have "n \<le> hb_remain h" using available_le_remain(1) [OF inv n(1)] n(2) by linarith
  moreover have "lock_amounts h' = lock_amounts h" by (simp add: n(3) lock_amounts_def)
  moreover have "map_total (hb_bookings h') = map_total (hb_bookings h) + n"
    using inv by (simp add: n(3) map_total_upd bookingOf_def hotel_inv_def del: fun_upd_apply)
  moreover have "balanceOf h' v = hb_price h' * bookingOf h' v" for v
    using inv by (simp add: n(3) hotel_inv_def balanceOf_def bookingOf_def get0_upd
        distrib_left del: fun_upd_apply)
  ultimately show ?thesis using inv by (simp add: hotel_inv_def n(3))
qed

lemma lock_state_inv:
  assumes inv: "hotel_inv rooms h" and ok: "lock_state h l a = Inr (vs, h')"
  shows "hotel_inv rooms h'"
proof -
  obtain n where free: "\<not> lock_is_active h l"
    and h': "h' = h\<lparr>hb_locks := (hb_locks h)(l \<mapsto> \<lparr>lockedAmount = n * hb_price h, lock_active = True\<rparr>),
            hb_lockedTotal := hb_lockedTotal h + n * hb_price h\<rparr>" and n: "0 < n"
  proof -
    from ok obtain m where m: "\<not> lock_is_active h l"
      "h' = h\<lparr>hb_locks := (hb_locks h)(l \<mapsto>
         \<lparr>lockedAmount = (if m > 0 then m else hb_lockSize h) * hb_price h, lock_active = True\<rparr>),
         hb_lockedTotal := hb_lockedTotal h + (if m > 0 then m else hb_lockSize h) * hb_price h\<rparr>"
      unfolding lock_state_ok by blast
    show thesis
      by (rule that [OF m]) (use hotel_invD(2) [OF inv] in simp)
  qed
  have none: "hb_locks h l = None"
    using free inv by (auto simp: lock_is_active_def hotel_inv_def split: option.splits)
  have "lock_amounts h' = (lock_amounts h)(l \<mapsto> n * hb_price h)"
    by (auto simp: h' lock_amounts_def)
  moreover have "get0 (lock_amounts h) l = 0"
    using none by (simp add: get0_lock_amounts lock_amount_def)
  ultimately have "map_total (lock_amounts h') = map_total (lock_amounts h) + n * hb_price h"
    using inv by (simp add: map_total_upd hotel_inv_def del: fun_upd_apply)
  then show ?thesis
    using inv n by (auto simp: hotel_inv_def h' balanceOf_def bookingOf_def)
qed

lemma unlock_state_ok:
  "unlock_state h l = Inr (vs, h') \<longleftrightarrow>
     lock_is_active h l \<and> vs = [] \<and>
     h' = h\<lparr>hb_lockedTotal := max 0 (hb_lockedTotal h - lock_amount h l),
            hb_locks := (hb_locks h)(l := None)\<rparr>"
  by (auto simp: unlock_state_def Let_def max_def)

lemma unlock_state_inv:
  assumes inv: "hotel_inv rooms h" and ok: "unlock_state h l = Inr (vs, h')"
  shows "hotel_inv rooms h'"
proof -
  have h': "h' = h\<lparr>hb_lockedTotal := hb_lockedTotal h - lock_amount h l,
      hb_locks := (hb_locks h)(l := None)\<rparr>"
    using ok hotel_invD(5) [OF inv, of l] by (simp add: unlock_state_ok max_def)
  have "lock_amounts h' = (lock_amounts h)(l := None)"
    by (auto simp: h' lock_amounts_def)
  then have "map_total (lock_amounts h') = map_total (lock_amounts h) - lock_amount h l"
    using inv map_total_delete [of "lock_amounts h" l]
    by (simp add: hotel_inv_def get0_lock_amounts)
  moreover have "finite (dom (hb_locks h'))"
    using inv by (auto simp: h' hotel_inv_def intro: finite_subset [of _ "dom (hb_locks h)"])
  ultimately show ?thesis
    using inv by (auto simp: hotel_inv_def h' balanceOf_def bookingOf_def)
qed

lemma hotel_body_inv:
  "hotel_inv rooms h \<Longrightarrow> hotel_body h x = Inr (vs, h') \<Longrightarrow> hotel_inv rooms h'"
  by (cases x) (auto simp: res_bind_Inr_iff intro: book_local_inv lock_state_inv unlock_state_inv)

lemma hotel_execute_inv: "hotel_inv rooms h \<Longrightarrow> hotel_inv rooms (snd (hotel_execute h x))"
  by (auto simp: hotel_execute_def catch_result_def hotel_body_inv split: sum.split)

interpretation hotel_object: op_machine hotel_execute "hotel_inv rooms" "\<lambda>_. True"
  by unfold_locales (rule hotel_execute_inv)

lemma new_hotel_ok:
  "new_HotelBookingModel i = Inr h \<longleftrightarrow>
     (\<exists>p r s. BigInt (init_price i) = Inr p \<and> BigInt (init_remain i) = Inr r \<and>
        BigInt (init_lockSize i) = Inr s \<and> 0 < p \<and>
        h = \<lparr>hb_bridge = init_bridge i, hb_price = p, hb_remain = r,
             hb_lockSize = (if s \<le> 0 then 1 else s), hb_lockedTotal = 0,
             hb_accounts = Map.empty, hb_bookings = Map.empty, hb_locks = Map.empty\<rparr>)"
  by (cases "BigInt (init_price i)"; cases "BigInt (init_remain i)"; cases "BigInt (init_lockSize i)")
    (auto simp: new_HotelBookingModel_def)

lemma new_hotel_inv:
  assumes "new_HotelBookingModel i = Inr h" "0 \<le> hb_remain h"
  shows "hotel_inv (hb_remain h) h"
  using assms by (auto simp: new_hotel_ok hotel_inv_def lock_amounts_def balanceOf_def bookingOf_def
      map_total_def)

subsection \<open>Properties\<close>

text \<open>
  From construction on, whatever operations run (malformed and negative amounts
  included), the ledger stays consistent: rooms are conserved, every account holds exactly
  its bookings times the price, and the locked total is the sum of the active locks.
\<close>

theorem hotel_ledger_consistent:
  assumes "new_HotelBookingModel i = Inr h0" and "0 \<le> hb_remain h0"
  shows "hotel_inv (hb_remain h0) (hotel_run h0 ops)"
  using new_hotel_inv [OF assms] by (rule hotel_object.run_inv) simp

definition sample_hotel_initial :: hotel_initial where
  "sample_hotel_initial =
     \<lparr>init_bridge = ''Org1MSP'', init_price = ''10'', init_remain = ''5'', init_lockSize = ''2''\<rparr>"

definition sample_hotel :: hotel where
  "sample_hotel = \<lparr>hb_bridge = ''Org1MSP'', hb_price = 10, hb_remain = 5, hb_lockSize = 2,
     hb_lockedTotal = 0, hb_accounts = Map.empty, hb_bookings = Map.empty, hb_locks = Map.empty\<rparr>"

lemma sample_hotel_new: "new_HotelBookingModel sample_hotel_initial = Inr sample_hotel"
proof -
  have "BigInt ''10'' = Inr 10" "BigInt ''5'' = Inr 5" "BigInt ''2'' = Inr 2" by code_simp+
  then show ?thesis
    by (simp add: new_HotelBookingModel_def sample_hotel_initial_def sample_hotel_def)
qed

lemma hotel_ledger_consistent_witness:
  "hotel_inv 5 (hotel_run sample_hotel [BookLocal ''ann'' ''2'', LockState ''l'' ''-1'' ''9''])"
  using hotel_ledger_consistent [OF sample_hotel_new,
      of "[BookLocal ''ann'' ''2'', LockState ''l'' ''-1'' ''9'']"]
  by (simp add: sample_hotel_def)

text \<open>
  A failing operation changes nothing, and an operation that succeeds is the only kind
  that can: \<open>execute\<close> never leaves a half-written ledger behind a caught exception.
\<close>

theorem hotel_execute_atomic:
  "op_ok (fst (hotel_execute h x)) \<and> op_error (fst (hotel_execute h x)) = None \<or>
   \<not> op_ok (fst (hotel_execute h x)) \<and> snd (hotel_execute h x) = h \<and>
     returnValues (fst (hotel_execute h x)) = [] \<and> op_error (fst (hotel_execute h x)) \<noteq> None"
  by (auto simp: hotel_execute_def catch_result_def succeed_def failure_def split: sum.split)

text \<open>
  A lock that names a positive amount is charged against the available rooms; a lock that
  names none takes \<open>lockSize\<close> rooms without looking whether there are that many.
\<close>

definition lock_names_amount :: "hotel_operation \<Rightarrow> bool" where
  "lock_names_amount x = (case x of
     LockState l a t \<Rightarrow> (case BigInt a of Inl e \<Rightarrow> True | Inr n \<Rightarrow> 0 < n)
   | _ \<Rightarrow> True)"

definition hotel_backed :: "int \<Rightarrow> hotel \<Rightarrow> bool" where
  "hotel_backed rooms h \<longleftrightarrow> hotel_inv rooms h \<and> hb_lockedTotal h \<le> hb_price h * hb_remain h"

lemma locked_units:
  assumes "hotel_inv rooms h"
  shows "hb_price h * (hb_lockedTotal h div hb_price h) = hb_lockedTotal h"
proof -
  have "hb_price h dvd get0 (lock_amounts h) l" for l
    using assms by (force simp: hotel_inv_def get0_lock_amounts lock_amount_def split: option.split)
  then have "hb_price h dvd map_total (lock_amounts h)"
    unfolding map_total_def by (intro dvd_sum) simp
  then show ?thesis using assms by (simp add: hotel_inv_def)
qed

lemma backed_available:
  assumes "hotel_backed rooms h"
  shows "\<exists>a. availableRemain h = Inr a \<and> 0 \<le> a \<and>
    hb_price h * a = hb_price h * hb_remain h - hb_lockedTotal h"
proof -
  have inv: "hotel_inv rooms h" and le: "hb_lockedTotal h \<le> hb_price h * hb_remain h"
    using assms by (simp_all add: hotel_backed_def)
  note p = hotel_invD(1) [OF inv] and u = locked_units [OF inv]
  have "hb_price h * (hb_lockedTotal h div hb_price h) \<le> hb_price h * hb_remain h"
    using le u by simp
  then have "hb_lockedTotal h div hb_price h \<le> hb_remain h"
    using p by simp
  then show ?thesis
    using availableRemain_inv [OF inv] u by (simp add: right_diff_distrib)
qed

lemma hotel_execute_backed:
  assumes backed: "hotel_backed rooms h" and legal: "lock_names_amount x"
  shows "hotel_backed rooms (snd (hotel_execute h x))"
proof (cases "hotel_body h x")
  case (Inl e)
  with backed show ?thesis by (simp add: hotel_execute_def catch_result_def)
next
  case (Inr r)
  obtain vs h' where r: "r = (vs, h')" by (cases r)
  from backed have inv: "hotel_inv rooms h" by (simp add: hotel_backed_def)
  obtain a where a: "availableRemain h = Inr a"
    "hb_price h * a = hb_price h * hb_remain h - hb_lockedTotal h"
    using backed_available [OF backed] by blast
  note p = hotel_invD(1) [OF inv]
  have "hb_lockedTotal h' \<le> hb_price h' * hb_remain h'"
  proof (cases x)
    case (BookLocal u t)
    with Inr r have "book_local h u t = Inr (vs, h')" by simp
    then obtain n where n: "n \<le> a" "h' = h\<lparr>hb_remain := hb_remain h - n,
        hb_accounts := (hb_accounts h)(u \<mapsto> balanceOf h u + hb_price h * n),
        hb_bookings := (hb_bookings h)(u \<mapsto> bookingOf h u + n)\<rparr>"
      using a(1) by (auto simp: book_local_ok)
    from n(1) p have "hb_price h * n \<le> hb_price h * a" by simp
    with a(2) n(2) show ?thesis by (simp add: right_diff_distrib)
  next
    case (LockState l t b)
    with Inr r have "lock_state h l t = Inr (vs, h')" by simp
    then obtain n where n: "BigInt t = Inr n" "n \<le> a"
      "hb_lockedTotal h' = hb_lockedTotal h + (if n > 0 then n else hb_lockSize h) * hb_price h"
      "hb_price h' = hb_price h" "hb_remain h' = hb_remain h"
      using a(1) by (auto simp: lock_state_ok)
    from legal n(1) LockState have "0 < n" by (simp add: lock_names_amount_def)
    moreover from n(2) p have "hb_price h * n \<le> hb_price h * a" by simp
    ultimately show ?thesis using a(2) n by (simp add: mult.commute)
  next
    case (UnlockState l)
    with Inr r have "unlock_state h l = Inr (vs, h')" by simp
    moreover have "hb_lockedTotal h - lock_amount h l \<le> hb_price h * hb_remain h"
      using backed hotel_invD(4) [OF inv, of l] by (simp add: hotel_backed_def)
    ultimately show ?thesis
      using hotel_invD(3) [OF inv] p by (auto simp: unlock_state_ok)
  qed (use Inr r backed in \<open>auto simp: hotel_backed_def res_bind_Inr_iff\<close>)
  moreover have "hotel_inv rooms h'"
    using hotel_body_inv [OF inv] Inr r by blast
  ultimately show ?thesis
    by (simp add: hotel_backed_def hotel_execute_def catch_result_def Inr r)
qed

interpretation backed_hotel: op_machine hotel_execute "hotel_backed rooms" lock_names_amount
  by unfold_locales (rule hotel_execute_backed)

text \<open>
  C35. When every lock names a positive amount, no run ever promises a room twice: the rooms
  behind the active locks are still in the ledger, and the advertised availability is
  exactly what remains beside them.
\<close>

theorem hotel_never_overcommits:
  assumes "new_HotelBookingModel i = Inr h0" and "0 \<le> hb_remain h0"
    and "\<forall>x \<in> set ops. lock_names_amount x"
  shows "\<exists>a. availableRemain (hotel_run h0 ops) = Inr a \<and> 0 \<le> a \<and>
    hb_price (hotel_run h0 ops) * a + hb_lockedTotal (hotel_run h0 ops) =
    hb_price (hotel_run h0 ops) * hb_remain (hotel_run h0 ops)"
proof -
  have "hotel_inv (hb_remain h0) h0" by (rule new_hotel_inv [OF assms(1,2)])
  moreover have "hb_lockedTotal h0 \<le> hb_price h0 * hb_remain h0"
    using assms(1,2) by (auto simp: new_hotel_ok intro: mult_nonneg_nonneg)
  ultimately have "hotel_backed (hb_remain h0) h0" by (simp add: hotel_backed_def)
  then have "hotel_backed (hb_remain h0) (hotel_run h0 ops)"
    using assms(3) by (rule backed_hotel.run_inv)
  from backed_available [OF this] show ?thesis by (auto simp: algebra_simps)
qed

lemma hotel_never_overcommits_witness:
  "\<exists>a. availableRemain (hotel_run sample_hotel [LockState ''l'' ''3'' ''9'', BookLocal ''ann'' ''2'']) = Inr a \<and> 0 \<le> a"
proof -
  have "BigInt ''3'' = Inr 3" "BigInt ''2'' = Inr 2" by code_simp+
  then have "\<forall>x \<in> set [LockState ''l'' ''3'' ''9'', BookLocal ''ann'' ''2'']. lock_names_amount x"
    by (simp add: lock_names_amount_def)
  moreover have "0 \<le> hb_remain sample_hotel" by (simp add: sample_hotel_def)
  ultimately show ?thesis
    using hotel_never_overcommits [OF sample_hotel_new] by blast
qed

text \<open>
  The availability check is on the amount named, so a lock that names 0 is granted even
  when no room is left: a ledger with 5 rooms ends up with 7 rooms locked.
\<close>

theorem hotel_zero_lock_overcommits:
  "\<exists>h. h = hotel_run sample_hotel [LockState ''a'' ''5'' ''9'', LockState ''b'' ''0'' ''9''] \<and>
     map op_ok (run_results hotel_execute sample_hotel
       [LockState ''a'' ''5'' ''9'', LockState ''b'' ''0'' ''9'']) = [True, True] \<and>
     hb_lockedTotal h > hb_price h * hb_remain h"
proof -
  have "BigInt ''5'' = Inr 5" "BigInt ''0'' = Inr 0" by code_simp+
  then show ?thesis
    by (simp add: hotel_execute_def catch_result_def lock_state_def lock_is_active_def
        availableRemain_def js_div_def sample_hotel_def succeed_def Let_def)
qed

text \<open>
  Locking and then unlocking the same id restores the ledger: totals, rooms and every
  other lock are as before, and the id is free again.
\<close>

theorem hotel_lock_unlock_roundtrip:
  assumes "hotel_inv rooms h" and "op_ok (fst (hotel_execute h (LockState l a t)))"
  shows "hotel_execute (snd (hotel_execute h (LockState l a t))) (UnlockState l) = (succeed [], h)"
proof -
  obtain vs h' where h': "lock_state h l a = Inr (vs, h')"
    using assms(2) by (cases "lock_state h l a")
      (auto simp: hotel_execute_def catch_result_def failure_def)
  have none: "hb_locks h l = None"
    using h' assms(1) by (auto simp: lock_state_ok lock_is_active_def hotel_inv_def split: option.splits)
  have "unlock_state h' l = Inr ([], h)"
  proof -
    have "(hb_locks h)(l := None) = hb_locks h" using none by auto
    then show ?thesis
      using h' hotel_invD(6) [OF assms(1)]
      by (auto simp: lock_state_ok unlock_state_ok lock_is_active_def lock_amount_def)
  qed
  then show ?thesis
    using h' by (simp add: hotel_execute_def catch_result_def)
qed

lemma hotel_lock_unlock_roundtrip_witness:
  "hotel_execute (snd (hotel_execute sample_hotel (LockState ''l'' ''3'' ''9''))) (UnlockState ''l'') =
     (succeed [], sample_hotel)"
proof (rule hotel_lock_unlock_roundtrip)
  show "hotel_inv (hb_remain sample_hotel) sample_hotel"
    by (rule new_hotel_inv [OF sample_hotel_new]) (simp add: sample_hotel_def)
  have "BigInt ''3'' = Inr 3" by code_simp
  then show "op_ok (fst (hotel_execute sample_hotel (LockState ''l'' ''3'' ''9'')))"
    by (simp add: hotel_execute_def catch_result_def lock_state_def lock_is_active_def
        availableRemain_def js_div_def sample_hotel_def succeed_def Let_def)
qed

end
