(* ===== verification/Token_Model.thy ===== *)
theory Token_Model
  imports Hotel_Model
begin

text \<open>
  \<open>TokenTransferModel\<close> of \<open>scripts/rq2/rq2-models.ts\<close>: balances, allowances keyed
  by \<open>owner + "\u0000" + spender\<close>, and the total supply. The conservation law holds for
  every amount string the model accepts, negative amounts included.
\<close>

subsection \<open>Data\<close>

text \<open>\<open>Object.entries(initial.balances)\<close>, in insertion order.\<close>

record token_initial =
  init_balances :: "(string \<times> string) list"

datatype token_operation =
    Mint string string
  | Transfer string string string
  | Approve string string string
  | TransferFrom string string string string
  | BalanceOf string
  | Allowance string string
  | TotalSupply

record token =
  tk_balances :: "string \<rightharpoonup> int"
  tk_allowances :: "string \<rightharpoonup> int"
  tk_totalSupply :: int

definition empty_token :: token where
  "empty_token = \<lparr>tk_balances = Map.empty, tk_allowances = Map.empty, tk_totalSupply = 0\<rparr>"

fun load_balances :: "token \<Rightarrow> (string \<times> string) list \<Rightarrow> token res" where
  "load_balances t [] = Inr t"
| "load_balances t ((user, v) # rest) =
     res_bind (BigInt v) (\<lambda>amount.
       load_balances (t\<lparr>tk_balances := (tk_balances t)(user \<mapsto> amount),
                        tk_totalSupply := tk_totalSupply t + amount\<rparr>) rest)"

definition new_TokenTransferModel :: "token_initial \<Rightarrow> token res" where
  "new_TokenTransferModel initial = load_balances empty_token (init_balances initial)"

subsection \<open>Operations\<close>

definition allowanceKey :: "string \<Rightarrow> string \<Rightarrow> string" where
  "allowanceKey owner spender = owner @ [CHR 0x00] @ spender"

definition token_balance :: "token \<Rightarrow> string \<Rightarrow> int" where
  "token_balance t user = get0 (tk_balances t) user"

definition token_allowance :: "token \<Rightarrow> string \<Rightarrow> int" where
  "token_allowance t key = get0 (tk_allowances t) key"

text \<open>The two writes of a transfer, in order: a transfer to oneself reads its own debit.\<close>

definition move :: "token \<Rightarrow> string \<Rightarrow> string \<Rightarrow> int \<Rightarrow> token" where
  "move t src dst amount =
     (let t1 = t\<lparr>tk_balances := (tk_balances t)(src \<mapsto> token_balance t src - amount)\<rparr> in
      t1\<lparr>tk_balances := (tk_balances t1)(dst \<mapsto> token_balance t1 dst + amount)\<rparr>)"

fun token_body :: "token \<Rightarrow> token_operation \<Rightarrow> string + (string list \<times> token)" where
  "token_body t (Mint dst amt) =
     res_bind (BigInt amt) (\<lambda>amount.
       if amount = 0 then Inl ''ZeroAmount''
       else Inr ([], t\<lparr>tk_balances := (tk_balances t)(dst \<mapsto> token_balance t dst + amount),
                       tk_totalSupply := tk_totalSupply t + amount\<rparr>))"
| "token_body t (Transfer src dst amt) =
     res_bind (BigInt amt) (\<lambda>amount.
       if token_balance t src < amount then Inl ''InsufficientBalance''
       else Inr ([], move t src dst amount))"
| "token_body t (Approve owner spender amt) =
     res_bind (BigInt amt) (\<lambda>amount.
       Inr ([], t\<lparr>tk_allowances := (tk_allowances t)(allowanceKey owner spender \<mapsto> amount)\<rparr>))"
| "token_body t (TransferFrom spender src dst amt) =
     res_bind (BigInt amt) (\<lambda>amount.
       let key = allowanceKey src spender in
       if token_allowance t key < amount then Inl ''InsufficientAllowance''
       else if token_balance t src < amount then Inl ''InsufficientBalance''
       else Inr ([], move (t\<lparr>tk_allowances := (tk_allowances t)(key \<mapsto> token_allowance t key - amount)\<rparr>)
                   src dst amount))"
| "token_body t (BalanceOf user) = Inr ([show_int (token_balance t user)], t)"
| "token_body t (Allowance owner spender) =
     Inr ([show_int (token_allowance t (allowanceKey owner spender))], t)"
| "token_body t TotalSupply = Inr ([show_int (tk_totalSupply t)], t)"

definition token_execute :: "token \<Rightarrow> token_operation \<Rightarrow> operation_result \<times> token" where
  "token_execute t operation = catch_result t (token_body t operation)"

subsection \<open>Snapshot\<close>

definition token_entries :: "token \<Rightarrow> string list \<Rightarrow> string list \<Rightarrow> snapshot_entry list" where
  "token_entries t users allowancePairs =
     uint_entry ''totalSupply'' (tk_totalSupply t)
     # map (\<lambda>user. uint_entry (''balances.'' @ user) (token_balance t user)) (sorted_members users)
     @ map (\<lambda>pair. uint_entry (''allowances.'' @ pair) (token_allowance t pair))
         (sorted_members allowancePairs)"

definition token_snapshot ::
    "(string \<Rightarrow> string \<Rightarrow> int) \<Rightarrow> ethers \<Rightarrow> token \<Rightarrow> string list \<Rightarrow> string list \<Rightarrow> snapshot_result res" where
  "token_snapshot lc E t users allowancePairs =
     canonicalSnapshot lc E ''TokenTransfer'' (token_entries t users allowancePairs)"

subsection \<open>Conservation\<close>

definition token_inv :: "token \<Rightarrow> bool" where
  "token_inv t \<longleftrightarrow> finite (dom (tk_balances t)) \<and> tk_totalSupply t = map_total (tk_balances t)"

lemma move_fields [simp]:
  "tk_totalSupply (move t f g n) = tk_totalSupply t"
  "tk_allowances (move t f g n) = tk_allowances t"
  by (simp_all add: move_def Let_def)

lemma token_balance_move:
  "token_balance (move t f g n) u =
     token_balance t u - (if u = f then n else 0) + (if u = g then n else 0)"
  by (simp add: move_def token_balance_def Let_def get0_upd del: fun_upd_apply)

lemma move_inv: "token_inv t \<Longrightarrow> token_inv (move t f g n)"
  by (auto simp: token_inv_def move_def Let_def token_balance_def map_total_upd2 get0_upd
      simp del: fun_upd_apply)

lemma token_inv_allowances [simp]: "token_inv (t\<lparr>tk_allowances := m\<rparr>) \<longleftrightarrow> token_inv t"
  by (simp add: token_inv_def)

lemma mint_inv:
  "token_inv t \<Longrightarrow> token_inv (t\<lparr>tk_balances := (tk_balances t)(u \<mapsto> token_balance t u + n),
     tk_totalSupply := tk_totalSupply t + n\<rparr>)"
  by (simp add: token_inv_def map_total_upd token_balance_def del: fun_upd_apply)

lemma token_body_inv: "token_inv t \<Longrightarrow> token_body t x = Inr (vs, t') \<Longrightarrow> token_inv t'"
  by (cases x) (auto simp: res_bind_Inr_iff Let_def simp del: fun_upd_apply
      intro!: move_inv mint_inv split: if_splits)

lemma token_execute_inv: "token_inv t \<Longrightarrow> token_inv (snd (token_execute t x))"
  by (auto simp: token_execute_def catch_result_def token_body_inv split: sum.split)

interpretation token_object: op_machine token_execute token_inv "\<lambda>_. True"
  by unfold_locales (rule token_execute_inv)

text \<open>The keys of \<open>initial.balances\<close> are distinct: they are an object's keys.\<close>

lemma load_balances_inv:
  "token_inv t \<Longrightarrow> distinct (map fst bs) \<Longrightarrow> set (map fst bs) \<inter> dom (tk_balances t) = {} \<Longrightarrow>
   load_balances t bs = Inr t' \<Longrightarrow> token_inv t'"
proof (induction t bs rule: load_balances.induct)
  case (2 t user v rest)
  then obtain n where n: "BigInt v = Inr n" by (auto simp: res_bind_Inr_iff)
  let ?t = "t\<lparr>tk_balances := (tk_balances t)(user \<mapsto> n), tk_totalSupply := tk_totalSupply t + n\<rparr>"
  have "tk_balances t user = None" using "2.prems"(3) by auto
  then have "token_balance t user = 0" by (simp add: token_balance_def get0_def)
  then have "token_inv ?t" using mint_inv [OF "2.prems"(1), where u = user and n = n] by simp
  moreover have "set (map fst rest) \<inter> dom (tk_balances ?t) = {}"
    using "2.prems"(2,3) by (simp del: fun_upd_apply)
  ultimately show ?case using "2.prems"(2,4) n "2.IH" [of n] by (simp del: fun_upd_apply)
qed simp

lemma new_token_inv:
  "new_TokenTransferModel i = Inr t \<Longrightarrow> distinct (map fst (init_balances i)) \<Longrightarrow> token_inv t"
  unfolding new_TokenTransferModel_def
  by (rule load_balances_inv [of empty_token]) (simp_all add: token_inv_def empty_token_def)

text \<open>Operations whose amounts are not negative, and what they preserve beside the total.\<close>

fun token_legal :: "token_operation \<Rightarrow> bool" where
  "token_legal (Mint to a) \<longleftrightarrow> (\<forall>n. BigInt a = Inr n \<longrightarrow> 0 \<le> n)"
| "token_legal (Transfer f to a) \<longleftrightarrow> (\<forall>n. BigInt a = Inr n \<longrightarrow> 0 \<le> n)"
| "token_legal (Approve ow sp a) \<longleftrightarrow> (\<forall>n. BigInt a = Inr n \<longrightarrow> 0 \<le> n)"
| "token_legal (TransferFrom sp f to a) \<longleftrightarrow> (\<forall>n. BigInt a = Inr n \<longrightarrow> 0 \<le> n)"
| "token_legal _ \<longleftrightarrow> True"

definition token_nonneg :: "token \<Rightarrow> bool" where
  "token_nonneg t \<longleftrightarrow> token_inv t \<and> (\<forall>u. 0 \<le> token_balance t u) \<and> (\<forall>k. 0 \<le> token_allowance t k)"

lemma token_allowance_upd [simp]:
  "token_allowance (t\<lparr>tk_allowances := (tk_allowances t)(k \<mapsto> n)\<rparr>) j =
     (if j = k then n else token_allowance t j)"
  "token_balance (t\<lparr>tk_allowances := m\<rparr>) u = token_balance t u"
  by (simp_all add: token_allowance_def token_balance_def get0_upd del: fun_upd_apply)

lemma move_nonneg:
  assumes "token_nonneg t" "0 \<le> n" "n \<le> token_balance t f"
  shows "token_nonneg (move t f g n)"
proof -
  have "0 \<le> token_balance (move t f g n) u" for u
    using assms by (auto simp: token_balance_move token_nonneg_def)
  then show ?thesis
    using assms(1) move_inv by (auto simp: token_nonneg_def token_allowance_def)
qed

lemma allowances_nonneg:
  "token_nonneg t \<Longrightarrow> 0 \<le> n \<Longrightarrow> token_nonneg (t\<lparr>tk_allowances := (tk_allowances t)(k \<mapsto> n)\<rparr>)"
  by (simp add: token_nonneg_def del: fun_upd_apply)

lemma mint_nonneg:
  assumes "token_nonneg t" "0 \<le> n"
  shows "token_nonneg (t\<lparr>tk_balances := (tk_balances t)(u \<mapsto> token_balance t u + n),
     tk_totalSupply := tk_totalSupply t + n\<rparr>)"
  using assms mint_inv [of t, where u = u and n = n]
  by (auto simp: token_nonneg_def token_balance_def token_allowance_def get0_upd simp del: fun_upd_apply)

lemma token_body_nonneg:
  assumes t: "token_nonneg t" and legal: "token_legal x" and ok: "token_body t x = Inr (vs, t')"
  shows "token_nonneg t'"
proof (cases x)
  case (TransferFrom sp f to a)
  then obtain n where n: "BigInt a = Inr n" "n \<le> token_allowance t (allowanceKey f sp)"
    "n \<le> token_balance t f"
    "t' = move (t\<lparr>tk_allowances := (tk_allowances t)(allowanceKey f sp \<mapsto>
        token_allowance t (allowanceKey f sp) - n)\<rparr>) f to n"
    using ok by (auto simp: res_bind_Inr_iff Let_def split: if_splits)
  have "0 \<le> n" using legal n(1) TransferFrom by simp
  then show ?thesis
    unfolding n(4) using n(2,3) t by (intro move_nonneg allowances_nonneg) simp_all
qed (use assms in \<open>auto simp: res_bind_Inr_iff simp del: fun_upd_apply
      intro!: move_nonneg mint_nonneg allowances_nonneg split: if_splits\<close>)

lemma token_execute_nonneg:
  "token_nonneg t \<Longrightarrow> token_legal x \<Longrightarrow> token_nonneg (snd (token_execute t x))"
  by (auto simp: token_execute_def catch_result_def token_body_nonneg split: sum.split)

interpretation solvent_token: op_machine token_execute token_nonneg token_legal
  by unfold_locales (rule token_execute_nonneg)

subsection \<open>Properties\<close>

text \<open>
  C36. The total supply is the sum of all balances in every state a case can reach, whatever
  the operations and their amounts.
\<close>

theorem token_supply_conserved:
  assumes "new_TokenTransferModel i = Inr t0" and "distinct (map fst (init_balances i))"
  shows "tk_totalSupply (run_ops token_execute t0 ops) =
    map_total (tk_balances (run_ops token_execute t0 ops))"
  using token_object.run_inv [OF new_token_inv [OF assms], of ops] by (simp add: token_inv_def)

definition sample_token :: token where
  "sample_token = \<lparr>tk_balances = [''alice'' \<mapsto> 7, ''bob'' \<mapsto> 3], tk_allowances = Map.empty,
     tk_totalSupply = 10\<rparr>"

lemma sample_token_new:
  "new_TokenTransferModel \<lparr>init_balances = [(''alice'', ''7''), (''bob'', ''3'')]\<rparr> = Inr sample_token"
proof -
  have "BigInt ''7'' = Inr 7" "BigInt ''3'' = Inr 3" by code_simp+
  then show ?thesis
    by (simp add: new_TokenTransferModel_def empty_token_def sample_token_def)
qed

lemma token_supply_conserved_witness:
  "tk_totalSupply (run_ops token_execute sample_token [Transfer ''alice'' ''bob'' ''-2'', Mint ''eve'' ''5'']) =
   map_total (tk_balances (run_ops token_execute sample_token [Transfer ''alice'' ''bob'' ''-2'', Mint ''eve'' ''5'']))"
  by (rule token_supply_conserved [OF sample_token_new]) simp

text \<open>
  With no negative amount, balances and allowances never go below zero and no balance
  exceeds the supply: the model never creates debt.
\<close>

theorem token_solvent:
  assumes "token_nonneg t0" and "\<forall>x \<in> set ops. token_legal x"
  shows "0 \<le> token_balance (run_ops token_execute t0 ops) u \<and>
    token_balance (run_ops token_execute t0 ops) u \<le> tk_totalSupply (run_ops token_execute t0 ops) \<and>
    0 \<le> token_allowance (run_ops token_execute t0 ops) k"
proof -
  let ?t = "run_ops token_execute t0 ops"
  have t: "token_nonneg ?t" using assms by (rule solvent_token.run_inv)
  then have "token_balance ?t u \<le> tk_totalSupply ?t"
    using map_total_ge [of "tk_balances ?t" u]
    by (simp add: token_nonneg_def token_inv_def token_balance_def)
  with t show ?thesis by (simp add: token_nonneg_def)
qed

lemma token_solvent_witness:
  "0 \<le> token_balance (run_ops token_execute sample_token [Transfer ''alice'' ''bob'' ''9'']) ''alice''"
proof -
  have "token_nonneg sample_token"
    by (auto simp: token_nonneg_def token_inv_def sample_token_def token_balance_def
        token_allowance_def map_total_upd get0_def simp del: fun_upd_apply) (auto simp: get0_def)
  moreover have "BigInt ''9'' = Inr 9" by code_simp
  ultimately show ?thesis using token_solvent [of sample_token "[Transfer ''alice'' ''bob'' ''9'']"] by simp
qed

text \<open>
  \<open>TransferFrom\<close> succeeds exactly when both the allowance of the pair and the
  owner's balance cover the amount; it then lowers that allowance by the amount, moves the
  amount and touches nothing else. A refused call names the first check that failed.
\<close>

theorem transferFrom_exact:
  assumes "BigInt a = Inr n"
  shows "token_body t (TransferFrom sp f g a) =
    (if token_allowance t (allowanceKey f sp) < n then Inl ''InsufficientAllowance''
     else if token_balance t f < n then Inl ''InsufficientBalance''
     else Inr ([], snd (token_execute t (TransferFrom sp f g a)))) \<and>
   (n \<le> token_allowance t (allowanceKey f sp) \<and> n \<le> token_balance t f \<longrightarrow>
     (\<forall>u. token_balance (snd (token_execute t (TransferFrom sp f g a))) u =
        token_balance t u - (if u = f then n else 0) + (if u = g then n else 0)) \<and>
     (\<forall>k. token_allowance (snd (token_execute t (TransferFrom sp f g a))) k =
        token_allowance t k - (if k = allowanceKey f sp then n else 0)) \<and>
     tk_totalSupply (snd (token_execute t (TransferFrom sp f g a))) = tk_totalSupply t)"
  using assms
  by (auto simp: token_execute_def catch_result_def Let_def token_balance_move
      simp del: fun_upd_apply) (simp_all add: token_allowance_def get0_upd del: fun_upd_apply)

lemma transferFrom_exact_witness:
  "token_body sample_token (TransferFrom ''eve'' ''alice'' ''bob'' ''2'') = Inl ''InsufficientAllowance''"
proof -
  have n: "BigInt ''2'' = Inr 2" by code_simp
  show ?thesis
    using transferFrom_exact [OF n, of sample_token "''eve''" "''alice''" "''bob''"]
    by (simp add: token_allowance_def sample_token_def)
qed

end
