(* ===== verification/Auction_Model.thy ===== *)
theory Auction_Model
  imports Hotel_Model
begin

text \<open>
  \<open>AuctionLogicModel\<close> of \<open>scripts/rq2/rq2-models.ts\<close>. The auction objects are shared
  by reference in the source; each is reachable through its map entry only, so an update of
  its fields is an update of the map. Money is conserved: what the pending returns and the
  open highest bids hold together changes only by an accepted bid and a withdrawal.
\<close>

subsection \<open>Data\<close>

datatype auction_operation =
    CreateAuction string string string
  | Bid string string string
  | Close string
  | Withdraw string
  | GetAuction string
  | PendingReturn string

record auction =
  au_seller :: string
  au_minPrice :: int
  au_highestBidder :: string
  au_highestBid :: int
  au_open :: bool
  au_exists :: bool

record auction_house =
  ah_auctions :: "string \<rightharpoonup> auction"
  ah_pendingReturns :: "string \<rightharpoonup> int"

definition new_AuctionLogicModel :: auction_house where
  "new_AuctionLogicModel = \<lparr>ah_auctions = Map.empty, ah_pendingReturns = Map.empty\<rparr>"

text \<open>The default the reads fall back to.\<close>

definition no_auction :: auction where
  "no_auction = \<lparr>au_seller = [], au_minPrice = 0, au_highestBidder = [], au_highestBid = 0,
     au_open = False, au_exists = False\<rparr>"

definition auction_or_default :: "auction_house \<Rightarrow> string \<Rightarrow> auction" where
  "auction_or_default h i = (case ah_auctions h i of None \<Rightarrow> no_auction | Some a \<Rightarrow> a)"

definition pending :: "auction_house \<Rightarrow> string \<Rightarrow> int" where
  "pending h user = get0 (ah_pendingReturns h) user"

definition credit :: "auction_house \<Rightarrow> string \<Rightarrow> int \<Rightarrow> auction_house" where
  "credit h user n = h\<lparr>ah_pendingReturns := (ah_pendingReturns h)(user \<mapsto> pending h user + n)\<rparr>"

subsection \<open>Operations\<close>

definition create_auction :: "auction_house \<Rightarrow> string \<Rightarrow> string \<Rightarrow> string \<Rightarrow> string + (string list \<times> auction_house)" where
  "create_auction h i seller minPrice_text =
     (if au_exists (auction_or_default h i) then Inl ''AuctionExists''
      else res_bind (BigInt minPrice_text) (\<lambda>minPrice.
        if minPrice = 0 then Inl ''ZeroMinPrice''
        else Inr ([], h\<lparr>ah_auctions := (ah_auctions h)(i \<mapsto>
          \<lparr>au_seller = seller, au_minPrice = minPrice, au_highestBidder = [], au_highestBid = 0,
           au_open = True, au_exists = True\<rparr>)\<rparr>)))"

definition place_bid :: "auction_house \<Rightarrow> string \<Rightarrow> string \<Rightarrow> string \<Rightarrow> string + (string list \<times> auction_house)" where
  "place_bid h i bidder amount_text =
     (let a = auction_or_default h i in
      if \<not> au_exists a then Inl ''MissingAuction''
      else if \<not> au_open a then Inl ''Closed''
      else res_bind (BigInt amount_text) (\<lambda>amount.
        if amount < au_minPrice a \<or> amount \<le> au_highestBid a then Inl ''BidTooLow''
        else
          let h' = (if au_highestBid a > 0 then credit h (au_highestBidder a) (au_highestBid a) else h) in
          Inr ([], h'\<lparr>ah_auctions := (ah_auctions h')(i \<mapsto>
            a\<lparr>au_highestBidder := bidder, au_highestBid := amount\<rparr>)\<rparr>)))"

definition close_auction :: "auction_house \<Rightarrow> string \<Rightarrow> string + (string list \<times> auction_house)" where
  "close_auction h i =
     (let a = auction_or_default h i in
      if \<not> au_exists a then Inl ''MissingAuction''
      else if \<not> au_open a then Inl ''Closed''
      else
        let h' = h\<lparr>ah_auctions := (ah_auctions h)(i \<mapsto> a\<lparr>au_open := False\<rparr>)\<rparr> in
        Inr ([], if au_highestBid a > 0 then credit h' (au_seller a) (au_highestBid a) else h'))"

definition withdraw :: "auction_house \<Rightarrow> string \<Rightarrow> string list \<times> auction_house" where
  "withdraw h user =
     ([show_int (pending h user)],
      h\<lparr>ah_pendingReturns := (ah_pendingReturns h)(user \<mapsto> 0)\<rparr>)"

definition auction_values :: "auction \<Rightarrow> string list" where
  "auction_values a =
     [au_seller a, show_int (au_minPrice a), au_highestBidder a, show_int (au_highestBid a),
      show_bool (au_open a), show_bool (au_exists a)]"

fun auction_body :: "auction_house \<Rightarrow> auction_operation \<Rightarrow> string + (string list \<times> auction_house)" where
  "auction_body h (CreateAuction i seller minPrice) = create_auction h i seller minPrice"
| "auction_body h (Bid i bidder amount) = place_bid h i bidder amount"
| "auction_body h (Close i) = close_auction h i"
| "auction_body h (Withdraw user) = Inr (withdraw h user)"
| "auction_body h (GetAuction i) = Inr (auction_values (auction_or_default h i), h)"
| "auction_body h (PendingReturn user) = Inr ([show_int (pending h user)], h)"

definition auction_execute :: "auction_house \<Rightarrow> auction_operation \<Rightarrow> operation_result \<times> auction_house" where
  "auction_execute h operation = catch_result h (auction_body h operation)"

subsection \<open>Snapshot\<close>

definition auction_entry_list :: "auction_house \<Rightarrow> string \<Rightarrow> snapshot_entry list" where
  "auction_entry_list h i =
     (let a = auction_or_default h i; p = ''auction.'' @ i in
      [string_entry (p @ ''.seller'') (au_seller a),
       uint_entry (p @ ''.minPrice'') (au_minPrice a),
       string_entry (p @ ''.highestBidder'') (au_highestBidder a),
       uint_entry (p @ ''.highestBid'') (au_highestBid a),
       bool_entry (p @ ''.open'') (au_open a),
       bool_entry (p @ ''.exists'') (au_exists a)])"

definition auction_entries :: "auction_house \<Rightarrow> string list \<Rightarrow> string list \<Rightarrow> snapshot_entry list" where
  "auction_entries h ids users =
     concat (map (auction_entry_list h) (sorted_members ids))
     @ map (\<lambda>user. uint_entry (''pending.'' @ user) (pending h user)) (sorted_members users)"

definition auction_snapshot ::
    "(string \<Rightarrow> string \<Rightarrow> int) \<Rightarrow> ethers \<Rightarrow> auction_house \<Rightarrow> string list \<Rightarrow> string list \<Rightarrow> snapshot_result res" where
  "auction_snapshot lc E h ids users =
     canonicalSnapshot lc E ''AuctionLogic'' (auction_entries h ids users)"

subsection \<open>Escrow\<close>

text \<open>The money an auction itself holds: its highest bid while it is open.\<close>

definition held_bids :: "auction_house \<Rightarrow> string \<rightharpoonup> int" where
  "held_bids h = (\<lambda>i. map_option (\<lambda>a. if au_open a then au_highestBid a else 0) (ah_auctions h i))"

definition escrow :: "auction_house \<Rightarrow> int" where
  "escrow h = map_total (ah_pendingReturns h) + map_total (held_bids h)"

definition auction_inv :: "auction_house \<Rightarrow> bool" where
  "auction_inv h \<longleftrightarrow>
     finite (dom (ah_auctions h)) \<and> finite (dom (ah_pendingReturns h)) \<and>
     (\<forall>u. 0 \<le> pending h u) \<and>
     (\<forall>i a. ah_auctions h i = Some a \<longrightarrow> au_exists a \<and> 0 \<le> au_highestBid a \<and>
        (0 < au_highestBid a \<longrightarrow> au_minPrice a \<le> au_highestBid a))"

lemma dom_held_bids [simp]: "dom (held_bids h) = dom (ah_auctions h)"
  by (auto simp: held_bids_def)

lemma held_bids_upd:
  "held_bids (h\<lparr>ah_auctions := (ah_auctions h)(i \<mapsto> a)\<rparr>) =
     (held_bids h)(i \<mapsto> (if au_open a then au_highestBid a else 0))"
  by (auto simp: held_bids_def)

lemma held_bids_pending [simp]: "held_bids (h\<lparr>ah_pendingReturns := m\<rparr>) = held_bids h"
  by (simp add: held_bids_def)

lemma credit_fields [simp]:
  "ah_auctions (credit h u n) = ah_auctions h" "held_bids (credit h u n) = held_bids h"
  "pending (credit h u n) v = pending h v + (if v = u then n else 0)"
  "dom (ah_pendingReturns (credit h u n)) = insert u (dom (ah_pendingReturns h))"
  by (simp_all add: credit_def held_bids_def pending_def get0_upd del: fun_upd_apply)

lemma map_total_credit:
  "finite (dom (ah_pendingReturns h)) \<Longrightarrow>
   map_total (ah_pendingReturns (credit h u n)) = map_total (ah_pendingReturns h) + n"
  by (simp add: credit_def map_total_upd pending_def del: fun_upd_apply)

lemma get0_held_bids:
  "get0 (held_bids h) i = (let a = auction_or_default h i in if au_open a then au_highestBid a else 0)"
  by (simp add: get0_def held_bids_def auction_or_default_def no_auction_def split: option.split)

lemma auction_or_default_upd [simp]:
  "auction_or_default (h\<lparr>ah_auctions := (ah_auctions h)(i \<mapsto> a)\<rparr>) j =
     (if j = i then a else auction_or_default h j)"
  "auction_or_default (credit h u n) j = auction_or_default h j"
  "auction_or_default (h\<lparr>ah_pendingReturns := m\<rparr>) j = auction_or_default h j"
  by (simp_all add: auction_or_default_def credit_def)

lemma exists_default:
  "au_exists (auction_or_default h i) \<Longrightarrow> ah_auctions h i = Some (auction_or_default h i)"
  by (auto simp: auction_or_default_def no_auction_def split: option.splits)

lemma create_auction_ok:
  "create_auction h i s m = Inr (vs, h') \<longleftrightarrow>
     \<not> au_exists (auction_or_default h i) \<and> vs = [] \<and>
     (\<exists>n. BigInt m = Inr n \<and> n \<noteq> 0 \<and>
       h' = h\<lparr>ah_auctions := (ah_auctions h)(i \<mapsto>
          \<lparr>au_seller = s, au_minPrice = n, au_highestBidder = [], au_highestBid = 0,
           au_open = True, au_exists = True\<rparr>)\<rparr>)"
  by (cases "BigInt m") (auto simp: create_auction_def)

lemma place_bid_ok:
  "place_bid h i b t = Inr (vs, h') \<longleftrightarrow>
     (let a = auction_or_default h i in
      au_exists a \<and> au_open a \<and> vs = [] \<and>
      (\<exists>n. BigInt t = Inr n \<and> au_minPrice a \<le> n \<and> au_highestBid a < n \<and>
        h' = (let h1 = (if au_highestBid a > 0 then credit h (au_highestBidder a) (au_highestBid a) else h)
              in h1\<lparr>ah_auctions := (ah_auctions h1)(i \<mapsto> a\<lparr>au_highestBidder := b, au_highestBid := n\<rparr>)\<rparr>)))"
  by (cases "BigInt t") (auto simp: place_bid_def Let_def)

lemma close_auction_ok:
  "close_auction h i = Inr (vs, h') \<longleftrightarrow>
     (let a = auction_or_default h i; h1 = h\<lparr>ah_auctions := (ah_auctions h)(i \<mapsto> a\<lparr>au_open := False\<rparr>)\<rparr> in
      au_exists a \<and> au_open a \<and> vs = [] \<and>
      h' = (if au_highestBid a > 0 then credit h1 (au_seller a) (au_highestBid a) else h1))"
  by (auto simp: close_auction_def Let_def)

lemmas auction_ok = create_auction_ok place_bid_ok close_auction_ok

lemma auction_inv_credit:
  "auction_inv h \<Longrightarrow> 0 \<le> n \<Longrightarrow> auction_inv (credit h u n)"
  by (auto simp: auction_inv_def)

lemma auction_inv_upd:
  "auction_inv h \<Longrightarrow> au_exists a \<Longrightarrow> 0 \<le> au_highestBid a \<Longrightarrow>
   (0 < au_highestBid a \<Longrightarrow> au_minPrice a \<le> au_highestBid a) \<Longrightarrow>
   auction_inv (h\<lparr>ah_auctions := (ah_auctions h)(i \<mapsto> a)\<rparr>)"
  by (auto simp: auction_inv_def pending_def)

lemma auction_invD:
  "auction_inv h \<Longrightarrow> 0 \<le> au_highestBid (auction_or_default h i)"
  "auction_inv h \<Longrightarrow> 0 < au_highestBid (auction_or_default h i) \<Longrightarrow>
     au_minPrice (auction_or_default h i) \<le> au_highestBid (auction_or_default h i)"
  by (auto simp: auction_inv_def auction_or_default_def no_auction_def split: option.split)

lemma auction_body_inv:
  assumes inv: "auction_inv h" and ok: "auction_body h x = Inr (vs, h')"
  shows "auction_inv h'"
proof (cases x)
  case (CreateAuction i s m)
  then show ?thesis using ok inv by (auto simp: create_auction_ok intro!: auction_inv_upd)
next
  case (Bid i b t)
  let ?a = "auction_or_default h i"
  let ?h1 = "if au_highestBid ?a > 0 then credit h (au_highestBidder ?a) (au_highestBid ?a) else h"
  have "auction_inv ?h1" using inv by (simp add: auction_inv_credit)
  moreover obtain n where "au_exists ?a" "au_minPrice ?a \<le> n" "au_highestBid ?a < n"
    "h' = ?h1\<lparr>ah_auctions := (ah_auctions ?h1)(i \<mapsto> ?a\<lparr>au_highestBidder := b, au_highestBid := n\<rparr>)\<rparr>"
    using ok Bid by (auto simp: place_bid_ok Let_def)
  ultimately show ?thesis using auction_invD(1) [OF inv, of i] by (simp add: auction_inv_upd)
next
  case (Close i)
  let ?a = "auction_or_default h i"
  have "auction_inv (h\<lparr>ah_auctions := (ah_auctions h)(i \<mapsto> ?a\<lparr>au_open := False\<rparr>)\<rparr>)"
    using ok Close inv auction_invD [OF inv, of i]
    by (intro auction_inv_upd) (auto simp: close_auction_ok Let_def)
  then show ?thesis
    using ok Close by (auto simp: close_auction_ok Let_def auction_inv_credit)
next
  case (Withdraw u)
  then show ?thesis using ok inv
    by (auto simp: withdraw_def auction_inv_def pending_def get0_upd simp del: fun_upd_apply)
qed (use ok inv in auto)

lemma auction_execute_inv: "auction_inv h \<Longrightarrow> auction_inv (snd (auction_execute h x))"
  by (auto simp: auction_execute_def catch_result_def auction_body_inv split: sum.split)

lemma new_auction_inv: "auction_inv new_AuctionLogicModel"
  by (simp add: auction_inv_def new_AuctionLogicModel_def pending_def)

subsection \<open>The order of auction histories\<close>

text \<open>
  \<open>h\<close> may be followed by \<open>h'\<close>: no auction disappears or changes hands, highest bids
  only rise, and a closed auction is final.
\<close>

definition auction_le :: "auction_house \<Rightarrow> auction_house \<Rightarrow> bool" where
  "auction_le h h' \<longleftrightarrow> (\<forall>i a. ah_auctions h i = Some a \<longrightarrow>
     (\<exists>a'. ah_auctions h' i = Some a' \<and> au_seller a' = au_seller a \<and>
        au_minPrice a' = au_minPrice a \<and> au_highestBid a \<le> au_highestBid a' \<and>
        (\<not> au_open a \<longrightarrow> a' = a)))"

lemma auction_le_refl: "auction_le h h"
  by (simp add: auction_le_def)

lemma auction_le_trans:
  assumes "auction_le a b" "auction_le b c"
  shows "auction_le a c"
  unfolding auction_le_def
proof (intro allI impI)
  fix i x
  assume "ah_auctions a i = Some x"
  then obtain y where y: "ah_auctions b i = Some y" "au_seller y = au_seller x"
    "au_minPrice y = au_minPrice x" "au_highestBid x \<le> au_highestBid y" "\<not> au_open x \<longrightarrow> y = x"
    using assms(1) unfolding auction_le_def by blast
  then obtain z where "ah_auctions c i = Some z" "au_seller z = au_seller y"
    "au_minPrice z = au_minPrice y" "au_highestBid y \<le> au_highestBid z" "\<not> au_open y \<longrightarrow> z = y"
    using assms(2) unfolding auction_le_def by blast
  with y show "\<exists>a'. ah_auctions c i = Some a' \<and> au_seller a' = au_seller x \<and>
      au_minPrice a' = au_minPrice x \<and> au_highestBid x \<le> au_highestBid a' \<and>
      (\<not> au_open x \<longrightarrow> a' = x)"
    by (intro exI [of _ z]) auto
qed

lemma auction_le_upd:
  "(\<And>a0. ah_auctions h i = Some a0 \<Longrightarrow> au_seller a = au_seller a0 \<and> au_minPrice a = au_minPrice a0 \<and>
      au_highestBid a0 \<le> au_highestBid a \<and> au_open a0) \<Longrightarrow>
   ah_auctions h' = (ah_auctions h)(i \<mapsto> a) \<Longrightarrow> auction_le h h'"
  by (auto simp: auction_le_def)

lemma auction_body_le:
  assumes inv: "auction_inv h" and ok: "auction_body h x = Inr (vs, h')"
  shows "auction_le h h'"
proof (cases x)
  case (CreateAuction i s m)
  then have "ah_auctions h i = None"
    using ok inv by (auto simp: create_auction_ok auction_or_default_def auction_inv_def
        split: option.splits)
  then show ?thesis using ok CreateAuction
    by (auto simp: create_auction_ok intro!: auction_le_upd [of h i])
next
  case (Bid i b t)
  then show ?thesis using ok
    by (auto simp: place_bid_ok Let_def auction_or_default_def intro!: auction_le_upd [of h i])
next
  case (Close i)
  then show ?thesis using ok
    by (auto simp: close_auction_ok Let_def auction_or_default_def credit_def
        intro!: auction_le_upd [of h i] split: if_splits)
qed (use ok in \<open>auto simp: withdraw_def auction_le_def\<close>)

lemma auction_execute_le: "auction_inv h \<Longrightarrow> auction_le h (snd (auction_execute h x))"
  by (auto simp: auction_execute_def catch_result_def auction_body_le auction_le_refl split: sum.split)

interpretation auction_object: monotone_machine auction_execute auction_inv "\<lambda>_. True" auction_le
  by unfold_locales
    (auto intro: auction_execute_inv auction_execute_le auction_le_refl auction_le_trans)

subsection \<open>Properties\<close>

text \<open>What an executed operation brings into escrow: an accepted bid in, a withdrawal out.\<close>

definition escrow_change :: "auction_house \<Rightarrow> auction_operation \<Rightarrow> int" where
  "escrow_change h x = (case x of
     Bid i b t \<Rightarrow> (if op_ok (fst (auction_execute h x)) then (case BigInt t of Inl e \<Rightarrow> 0 | Inr n \<Rightarrow> n) else 0)
   | Withdraw u \<Rightarrow> - pending h u
   | _ \<Rightarrow> 0)"

lemma escrow_upd:
  "auction_inv h \<Longrightarrow>
   map_total (held_bids (h\<lparr>ah_auctions := (ah_auctions h)(i \<mapsto> a)\<rparr>)) =
     map_total (held_bids h) - (let b = auction_or_default h i in if au_open b then au_highestBid b else 0)
       + (if au_open a then au_highestBid a else 0)"
  by (simp only: held_bids_upd map_total_upd dom_held_bids auction_inv_def get0_held_bids)

lemma auction_body_escrow:
  assumes inv: "auction_inv h" and ok: "auction_body h x = Inr (vs, h')"
  shows "escrow h' = escrow h + escrow_change h x"
proof -
  have fin: "finite (dom (ah_pendingReturns h))" using inv by (simp add: auction_inv_def)
  have exec: "op_ok (fst (auction_execute h x))"
    by (simp add: auction_execute_def catch_result_def succeed_def ok)
  show ?thesis
  proof (cases x)
    case (CreateAuction i s m)
    then obtain a where h': "h' = h\<lparr>ah_auctions := (ah_auctions h)(i \<mapsto> a)\<rparr>" "au_highestBid a = 0"
      and none: "\<not> au_exists (auction_or_default h i)"
      using ok by (auto simp: create_auction_ok)
    have "au_highestBid (auction_or_default h i) = 0"
      using none inv by (auto simp: auction_or_default_def no_auction_def auction_inv_def split: option.splits)
    then show ?thesis
      using escrow_upd [OF inv, of i a] h' CreateAuction by (simp add: escrow_def escrow_change_def Let_def)
  next
    case (Bid i b t)
    let ?a = "auction_or_default h i"
    obtain n where n: "BigInt t = Inr n" "au_open ?a"
      "h' = (let h1 = (if au_highestBid ?a > 0 then credit h (au_highestBidder ?a) (au_highestBid ?a) else h)
             in h1\<lparr>ah_auctions := (ah_auctions h1)(i \<mapsto> ?a\<lparr>au_highestBidder := b, au_highestBid := n\<rparr>)\<rparr>)"
      using ok Bid by (auto simp: place_bid_ok Let_def)
    have "held_bids h' = held_bids (h\<lparr>ah_auctions := (ah_auctions h)(i \<mapsto>
        ?a\<lparr>au_highestBidder := b, au_highestBid := n\<rparr>)\<rparr>)"
      by (simp add: n(3) Let_def held_bids_def del: fun_upd_apply)
    then have "map_total (held_bids h') = map_total (held_bids h) - au_highestBid ?a + n"
      using escrow_upd [OF inv, of i "?a\<lparr>au_highestBidder := b, au_highestBid := n\<rparr>"] n(2)
      by simp
    moreover have "map_total (ah_pendingReturns h') = map_total (ah_pendingReturns h) + au_highestBid ?a"
      using auction_invD(1) [OF inv, of i] map_total_credit [OF fin] by (simp add: n(3) Let_def)
    ultimately show ?thesis using n(1) exec Bid by (simp add: escrow_def escrow_change_def)
  next
    case (Close i)
    let ?a = "auction_or_default h i"
    let ?h1 = "h\<lparr>ah_auctions := (ah_auctions h)(i \<mapsto> ?a\<lparr>au_open := False\<rparr>)\<rparr>"
    have c: "au_open ?a" "h' = (if au_highestBid ?a > 0 then credit ?h1 (au_seller ?a) (au_highestBid ?a) else ?h1)"
      using ok Close by (auto simp: close_auction_ok Let_def)
    have "map_total (held_bids h') = map_total (held_bids h) - au_highestBid ?a"
      using escrow_upd [OF inv, of i "?a\<lparr>au_open := False\<rparr>"] c by simp
    moreover have "map_total (ah_pendingReturns h') = map_total (ah_pendingReturns h) + au_highestBid ?a"
      using auction_invD(1) [OF inv, of i] map_total_credit [of ?h1] fin by (simp add: c(2))
    ultimately show ?thesis using Close by (simp add: escrow_def escrow_change_def)
  next
    case (Withdraw u)
    then show ?thesis using ok fin
      by (auto simp: withdraw_def escrow_def escrow_change_def map_total_upd pending_def
          simp del: fun_upd_apply)
  qed (use ok in \<open>auto simp: escrow_def escrow_change_def\<close>)
qed

fun escrow_changes :: "auction_house \<Rightarrow> auction_operation list \<Rightarrow> int" where
  "escrow_changes h [] = 0"
| "escrow_changes h (x # xs) = escrow_change h x + escrow_changes (snd (auction_execute h x)) xs"

lemma auction_execute_escrow:
  assumes "auction_inv h"
  shows "escrow (snd (auction_execute h x)) = escrow h + escrow_change h x"
proof (cases "auction_body h x")
  case (Inl e)
  then have "escrow_change h x = 0"
    by (cases x) (auto simp: escrow_change_def auction_execute_def catch_result_def failure_def)
  then show ?thesis by (simp add: auction_execute_def catch_result_def Inl)
next
  case (Inr r)
  then show ?thesis
    using auction_body_escrow [OF assms, of x "fst r" "snd r"]
    by (cases r) (simp add: auction_execute_def catch_result_def)
qed

lemma auction_run_escrow:
  "auction_inv h \<Longrightarrow> escrow (run_ops auction_execute h xs) = escrow h + escrow_changes h xs"
  by (induction xs arbitrary: h) (simp_all add: auction_execute_escrow auction_execute_inv)

text \<open>
  Auction money is conserved over every run from the empty house: what is held for
  open auctions and pending returns is exactly the accepted bids less the withdrawals.
  Outbidding and closing move money but never make or lose any.
\<close>

lemma auction_money_conserved:
  "map_total (ah_pendingReturns (run_ops auction_execute new_AuctionLogicModel xs)) +
   map_total (held_bids (run_ops auction_execute new_AuctionLogicModel xs)) =
   escrow_changes new_AuctionLogicModel xs"
proof -
  have "escrow new_AuctionLogicModel = 0"
    by (simp add: escrow_def new_AuctionLogicModel_def held_bids_def map_total_def)
  then show ?thesis
    using auction_run_escrow [OF new_auction_inv, of xs] by (simp add: escrow_def)
qed

text \<open>
  Auctions only move forward: across any run, an auction keeps its seller and reserve,
  its highest bid never falls, and once closed its winner and price never change.
\<close>

theorem auction_progress:
  assumes "ah_auctions (run_ops auction_execute new_AuctionLogicModel xs) i = Some a"
  shows "\<exists>a'. ah_auctions (run_ops auction_execute new_AuctionLogicModel (xs @ ys)) i = Some a' \<and>
    au_seller a' = au_seller a \<and> au_minPrice a' = au_minPrice a \<and>
    au_highestBid a \<le> au_highestBid a' \<and> (\<not> au_open a \<longrightarrow> a' = a)"
proof -
  let ?h = "run_ops auction_execute new_AuctionLogicModel xs"
  have "auction_inv ?h"
    by (rule auction_object.run_inv) (simp_all add: new_auction_inv)
  then have "auction_le ?h (run_ops auction_execute ?h ys)"
    by (rule auction_object.run_le) simp
  with assms show ?thesis by (simp add: auction_le_def run_ops_append)
qed

lemma auction_progress_witness:
  "\<exists>a'. ah_auctions (run_ops auction_execute new_AuctionLogicModel
      ([CreateAuction ''1'' ''ann'' ''5''] @ [Bid ''1'' ''bob'' ''9''])) ''1'' = Some a' \<and> au_minPrice a' = 5"
proof -
  have "BigInt ''5'' = Inr 5" by code_simp
  then have "ah_auctions (run_ops auction_execute new_AuctionLogicModel [CreateAuction ''1'' ''ann'' ''5'']) ''1''
      = Some \<lparr>au_seller = ''ann'', au_minPrice = 5, au_highestBidder = [], au_highestBid = 0,
           au_open = True, au_exists = True\<rparr>"
    by (simp add: auction_execute_def catch_result_def create_auction_def auction_or_default_def
        no_auction_def new_AuctionLogicModel_def)
  from auction_progress [OF this, of "[Bid ''1'' ''bob'' ''9'']"] show ?thesis by auto
qed

text \<open>
  A bid is accepted exactly when the auction is open and the amount reaches the reserve
  and beats the highest bid; the previous highest bidder is then owed the previous bid in
  full, and nobody else's pending return changes.
\<close>

theorem bid_exact:
  assumes "auction_inv h" and "BigInt t = Inr n"
  shows "op_ok (fst (auction_execute h (Bid i b t))) \<longleftrightarrow>
    (\<exists>a. ah_auctions h i = Some a \<and> au_open a \<and> au_minPrice a \<le> n \<and> au_highestBid a < n \<and>
      ah_auctions (snd (auction_execute h (Bid i b t))) i =
        Some (a\<lparr>au_highestBidder := b, au_highestBid := n\<rparr>) \<and>
      (\<forall>u. pending (snd (auction_execute h (Bid i b t))) u =
        pending h u + (if u = au_highestBidder a \<and> 0 < au_highestBid a then au_highestBid a else 0)))"
proof -
  let ?a = "auction_or_default h i"
  have ex: "au_exists ?a \<longleftrightarrow> ah_auctions h i = Some ?a"
    using assms(1) exists_default [of h i] by (auto simp: auction_inv_def)
  have none: "ah_auctions h i = Some a \<Longrightarrow> a = ?a" for a by (simp add: auction_or_default_def)
  show ?thesis
  proof (cases "au_exists ?a \<and> au_open ?a \<and> au_minPrice ?a \<le> n \<and> au_highestBid ?a < n")
    case True
    then show ?thesis using assms(2) ex
      by (auto simp: auction_execute_def catch_result_def place_bid_def Let_def succeed_def pending_def
          intro!: exI [of _ ?a]) (simp_all add: credit_def get0_upd pending_def)
  next
    case False
    then have "\<not> op_ok (fst (auction_execute h (Bid i b t)))"
      using assms(2) by (auto simp: auction_execute_def catch_result_def place_bid_def Let_def failure_def)
    moreover have "\<not> (\<exists>a. ah_auctions h i = Some a \<and> au_open a \<and> au_minPrice a \<le> n \<and> au_highestBid a < n)"
      using False ex none by metis
    ultimately show ?thesis by blast
  qed
qed

lemma bid_exact_witness:
  "\<not> op_ok (fst (auction_execute new_AuctionLogicModel (Bid ''1'' ''bob'' ''9'')))"
proof -
  have "BigInt ''9'' = Inr 9" by code_simp
  from bid_exact [OF new_auction_inv this] show ?thesis by (simp add: new_AuctionLogicModel_def)
qed

end
