(* ===== verification/Dex_Model.thy ===== *)
theory Dex_Model
  imports Hotel_Model
begin

text \<open>
  \<open>DEXSwapModel\<close> of \<open>scripts/rq2/rq2-models.ts\<close>: a two-asset pool with a 0.3\% fee.
  The invariant rules paid the division by zero the bigint code could throw; the pool's
  constant product never falls in a swap and the reserves behind one share never fall at all.
\<close>

subsection \<open>Data\<close>

datatype dex_operation =
    AddLiquidity string string string
  | RemoveLiquidity string string
  | SwapAForB string string
  | GetReserves
  | GetShares string
  | TotalShares

record dex =
  dx_reserveA :: int
  dx_reserveB :: int
  dx_totalShares :: int
  dx_shares :: "string \<rightharpoonup> int"

definition new_DEXSwapModel :: dex where
  "new_DEXSwapModel = \<lparr>dx_reserveA = 0, dx_reserveB = 0, dx_totalShares = 0, dx_shares = Map.empty\<rparr>"

definition shareOf :: "dex \<Rightarrow> string \<Rightarrow> int" where
  "shareOf d user = get0 (dx_shares d) user"

subsection \<open>Operations\<close>

definition minted_shares :: "dex \<Rightarrow> int \<Rightarrow> int \<Rightarrow> int res" where
  "minted_shares d amountA amountB =
     (if dx_totalShares d = 0 then Inr (amountA + amountB)
      else res_bind (js_div (amountA * dx_totalShares d) (dx_reserveA d)) (\<lambda>shareA.
           res_bind (js_div (amountB * dx_totalShares d) (dx_reserveB d)) (\<lambda>shareB.
             Inr (if shareA < shareB then shareA else shareB))))"

definition add_liquidity :: "dex \<Rightarrow> string \<Rightarrow> string \<Rightarrow> string \<Rightarrow> string + (string list \<times> dex)" where
  "add_liquidity d user textA textB =
     res_bind (BigInt textA) (\<lambda>amountA.
     res_bind (BigInt textB) (\<lambda>amountB.
       if amountA = 0 \<or> amountB = 0 then Inl ''ZeroLiquidity''
       else res_bind (minted_shares d amountA amountB) (\<lambda>minted.
         if minted = 0 then Inl ''ZeroShares''
         else Inr ([show_int minted],
           d\<lparr>dx_reserveA := dx_reserveA d + amountA, dx_reserveB := dx_reserveB d + amountB,
             dx_totalShares := dx_totalShares d + minted,
             dx_shares := (dx_shares d)(user \<mapsto> shareOf d user + minted)\<rparr>))))"

definition remove_liquidity :: "dex \<Rightarrow> string \<Rightarrow> string \<Rightarrow> string + (string list \<times> dex)" where
  "remove_liquidity d user text =
     res_bind (BigInt text) (\<lambda>shareAmount.
       if shareAmount = 0 then Inl ''ZeroShares''
       else if shareOf d user < shareAmount then Inl ''InsufficientShares''
       else res_bind (js_div (dx_reserveA d * shareAmount) (dx_totalShares d)) (\<lambda>amountA.
            res_bind (js_div (dx_reserveB d * shareAmount) (dx_totalShares d)) (\<lambda>amountB.
              Inr ([show_int amountA, show_int amountB],
                d\<lparr>dx_shares := (dx_shares d)(user \<mapsto> shareOf d user - shareAmount),
                  dx_totalShares := dx_totalShares d - shareAmount,
                  dx_reserveA := dx_reserveA d - amountA,
                  dx_reserveB := dx_reserveB d - amountB\<rparr>))))"

definition swap_a_for_b :: "dex \<Rightarrow> string \<Rightarrow> string \<Rightarrow> string + (string list \<times> dex)" where
  "swap_a_for_b d user text =
     res_bind (BigInt text) (\<lambda>amountIn.
       if amountIn = 0 then Inl ''ZeroInput''
       else if dx_reserveA d = 0 \<or> dx_reserveB d = 0 then Inl ''InsufficientLiquidity''
       else
         let amountInWithFee = amountIn * 997 in
         res_bind (js_div (amountInWithFee * dx_reserveB d) (dx_reserveA d * 1000 + amountInWithFee))
           (\<lambda>amountOut.
             if amountOut = 0 \<or> amountOut \<ge> dx_reserveB d then Inl ''InsufficientOutput''
             else Inr ([show_int amountOut],
               d\<lparr>dx_reserveA := dx_reserveA d + amountIn, dx_reserveB := dx_reserveB d - amountOut\<rparr>)))"

fun dex_body :: "dex \<Rightarrow> dex_operation \<Rightarrow> string + (string list \<times> dex)" where
  "dex_body d (AddLiquidity user a b) = add_liquidity d user a b"
| "dex_body d (RemoveLiquidity user s) = remove_liquidity d user s"
| "dex_body d (SwapAForB user a) = swap_a_for_b d user a"
| "dex_body d GetReserves = Inr ([show_int (dx_reserveA d), show_int (dx_reserveB d)], d)"
| "dex_body d (GetShares user) = Inr ([show_int (shareOf d user)], d)"
| "dex_body d TotalShares = Inr ([show_int (dx_totalShares d)], d)"

definition dex_execute :: "dex \<Rightarrow> dex_operation \<Rightarrow> operation_result \<times> dex" where
  "dex_execute d operation = catch_result d (dex_body d operation)"

subsection \<open>Snapshot\<close>

definition dex_entries :: "dex \<Rightarrow> string list \<Rightarrow> snapshot_entry list" where
  "dex_entries d users =
     [uint_entry ''reserveA'' (dx_reserveA d), uint_entry ''reserveB'' (dx_reserveB d),
      uint_entry ''totalShares'' (dx_totalShares d)]
     @ map (\<lambda>user. uint_entry (''shares.'' @ user) (shareOf d user)) (sorted_members users)"

definition dex_snapshot ::
    "(string \<Rightarrow> string \<Rightarrow> int) \<Rightarrow> ethers \<Rightarrow> dex \<Rightarrow> string list \<Rightarrow> snapshot_result res" where
  "dex_snapshot lc E d users = canonicalSnapshot lc E ''DEXSwap'' (dex_entries d users)"

subsection \<open>The invariant\<close>

definition dex_inv :: "dex \<Rightarrow> bool" where
  "dex_inv d \<longleftrightarrow>
     finite (dom (dx_shares d)) \<and> (\<forall>u. 0 \<le> shareOf d u) \<and>
     dx_totalShares d = map_total (dx_shares d) \<and>
     (dx_totalShares d = 0 \<and> dx_reserveA d = 0 \<and> dx_reserveB d = 0 \<or>
      0 < dx_totalShares d \<and> 0 < dx_reserveA d \<and> 0 < dx_reserveB d)"

text \<open>Amounts that are not negative; unparseable ones throw before any write.\<close>

definition natural_text :: "string \<Rightarrow> bool" where
  "natural_text t \<longleftrightarrow> (case BigInt t of Inl e \<Rightarrow> True | Inr n \<Rightarrow> 0 \<le> n)"

fun dex_legal :: "dex_operation \<Rightarrow> bool" where
  "dex_legal (AddLiquidity user a b) \<longleftrightarrow> natural_text a \<and> natural_text b"
| "dex_legal (RemoveLiquidity user s) \<longleftrightarrow> natural_text s"
| "dex_legal (SwapAForB user a) \<longleftrightarrow> natural_text a"
| "dex_legal _ \<longleftrightarrow> True"

lemma natural_textD: "natural_text t \<Longrightarrow> BigInt t = Inr n \<Longrightarrow> 0 \<le> n"
  by (simp add: natural_text_def)

lemma share_le_total: "dex_inv d \<Longrightarrow> shareOf d u \<le> dx_totalShares d"
  using map_total_ge [of "dx_shares d" u] by (simp add: dex_inv_def shareOf_def)

subsection \<open>Rounding down\<close>

text \<open>What the proofs use of the truncating divisions of positive amounts.\<close>

lemma div_mult_le_int: "0 < t \<Longrightarrow> (n div t) * t \<le> (n::int)"
  using pos_mod_sign [of t n] div_mult_mod_eq [of n t] by linarith

lemma div_le_int: "0 < t \<Longrightarrow> n \<le> k * t \<Longrightarrow> n div t \<le> (k::int)"
  using zdiv_mono1 [of n "k * t" t] by simp

lemma remainder_positive:
  assumes "0 < r" "0 < s" "s < (t::int)"
  shows "0 < r - r * s div t"
proof (rule ccontr)
  assume "\<not> ?thesis"
  then have "r \<le> r * s div t" by simp
  then have "r * t \<le> (r * s div t) * t" using assms by (intro mult_right_mono) auto
  also have "\<dots> \<le> r * s" using assms by (intro div_mult_le_int) auto
  also have "\<dots> < r * t" using assms by simp
  finally show False by simp
qed

subsection \<open>The operations, on a well-formed pool\<close>

lemma minted_shares_cases:
  assumes "dex_inv d" and "minted_shares d a b = Inr m" and "0 < a" and "0 < b"
  shows "0 \<le> m" and "m * dx_reserveA d \<le> a * dx_totalShares d"
    and "m * dx_reserveB d \<le> b * dx_totalShares d"
proof -
  have "0 \<le> m \<and> m * dx_reserveA d \<le> a * dx_totalShares d \<and> m * dx_reserveB d \<le> b * dx_totalShares d"
  proof (cases "dx_totalShares d = 0")
    case True
    then show ?thesis using assms by (auto simp: minted_shares_def dex_inv_def)
  next
    case False
    define qa where "qa = a * dx_totalShares d div dx_reserveA d"
    define qb where "qb = b * dx_totalShares d div dx_reserveB d"
    have pos: "0 < dx_totalShares d" "0 < dx_reserveA d" "0 < dx_reserveB d"
      using assms False by (auto simp: dex_inv_def)
    then have m: "m = min qa qb"
      using assms by (auto simp: minted_shares_def js_div_pos qa_def qb_def split: if_splits)
    have "0 \<le> qa" "0 \<le> qb" using assms pos by (auto simp: qa_def qb_def pos_imp_zdiv_nonneg_iff)
    moreover have "qa * dx_reserveA d \<le> a * dx_totalShares d"
      "qb * dx_reserveB d \<le> b * dx_totalShares d"
      using pos by (simp_all add: qa_def qb_def div_mult_le_int)
    moreover have "m * dx_reserveA d \<le> qa * dx_reserveA d" "m * dx_reserveB d \<le> qb * dx_reserveB d"
      using pos by (simp_all add: m mult_right_mono)
    ultimately show ?thesis by (auto simp: m)
  qed
  then show "0 \<le> m" "m * dx_reserveA d \<le> a * dx_totalShares d"
    "m * dx_reserveB d \<le> b * dx_totalShares d" by auto
qed

lemma minted_shares_total:
  "dex_inv d \<Longrightarrow> 0 < a \<Longrightarrow> 0 < b \<Longrightarrow> \<exists>m. minted_shares d a b = Inr m"
  by (auto simp: minted_shares_def dex_inv_def js_div_def)

lemma add_liquidityE:
  assumes "add_liquidity d u ta tb = Inr (rs, d')" and "dex_inv d"
    and "natural_text ta" and "natural_text tb"
  obtains a b m where "BigInt ta = Inr a" "BigInt tb = Inr b" "0 < a" "0 < b" "0 < m"
    "m * dx_reserveA d \<le> a * dx_totalShares d" "m * dx_reserveB d \<le> b * dx_totalShares d"
    "dx_totalShares d = 0 \<longrightarrow> m = a + b" "rs = [show_int m]"
    "d' = d\<lparr>dx_reserveA := dx_reserveA d + a, dx_reserveB := dx_reserveB d + b,
       dx_totalShares := dx_totalShares d + m, dx_shares := (dx_shares d)(u \<mapsto> shareOf d u + m)\<rparr>"
proof -
  from assms(1) obtain a b m where ab: "BigInt ta = Inr a" "BigInt tb = Inr b" "a \<noteq> 0" "b \<noteq> 0"
    and m: "minted_shares d a b = Inr m" "m \<noteq> 0" and rs: "rs = [show_int m]"
    and d': "d' = d\<lparr>dx_reserveA := dx_reserveA d + a, dx_reserveB := dx_reserveB d + b,
       dx_totalShares := dx_totalShares d + m, dx_shares := (dx_shares d)(u \<mapsto> shareOf d u + m)\<rparr>"
    by (auto simp: add_liquidity_def res_bind_Inr_iff split: if_splits)
  have "0 < a" "0 < b" using ab assms(3,4) natural_textD by fastforce+
  with minted_shares_cases [OF assms(2) m(1)] ab m rs d' show ?thesis
    by (intro that [of a b m]) (auto simp: minted_shares_def)
qed

lemma remove_liquidityE:
  assumes "remove_liquidity d u text = Inr (rs, d')" and "dex_inv d" and "natural_text text"
  obtains s x y where "BigInt text = Inr s" "0 < s" "s \<le> shareOf d u" "0 < dx_totalShares d"
    "0 < dx_reserveA d" "0 < dx_reserveB d"
    "x = dx_reserveA d * s div dx_totalShares d" "y = dx_reserveB d * s div dx_totalShares d"
    "rs = [show_int x, show_int y]"
    "d' = d\<lparr>dx_shares := (dx_shares d)(u \<mapsto> shareOf d u - s),
       dx_totalShares := dx_totalShares d - s,
       dx_reserveA := dx_reserveA d - x, dx_reserveB := dx_reserveB d - y\<rparr>"
proof -
  from assms(1) obtain s where s: "BigInt text = Inr s" "s \<noteq> 0" "s \<le> shareOf d u"
    by (auto simp: remove_liquidity_def res_bind_Inr_iff split: if_splits)
  have "0 < s" using s assms(3) natural_textD by fastforce
  moreover have "0 < dx_totalShares d"
    using share_le_total [OF assms(2), of u] s \<open>0 < s\<close> by linarith
  moreover from this have "0 < dx_reserveA d" "0 < dx_reserveB d"
    using assms(2) by (auto simp: dex_inv_def)
  ultimately show ?thesis
    using assms(1) s by (intro that [of s]) (auto simp: remove_liquidity_def js_div_pos)
qed

lemma swap_a_for_bE:
  assumes "swap_a_for_b d u t = Inr (rs, d')" and "dex_inv d" and "natural_text t"
  obtains a paid where "BigInt t = Inr a" "0 < a" "0 < dx_totalShares d"
    "0 < dx_reserveA d" "0 < dx_reserveB d"
    "paid = a * 997 * dx_reserveB d div (dx_reserveA d * 1000 + a * 997)"
    "0 < paid" "paid < dx_reserveB d" "rs = [show_int paid]"
    "d' = d\<lparr>dx_reserveA := dx_reserveA d + a, dx_reserveB := dx_reserveB d - paid\<rparr>"
proof -
  from assms(1) obtain a where a: "BigInt t = Inr a" "a \<noteq> 0" "dx_reserveA d \<noteq> 0"
    by (auto simp: swap_a_for_b_def res_bind_Inr_iff split: if_splits)
  have pos: "0 < a" "0 < dx_totalShares d" "0 < dx_reserveA d" "0 < dx_reserveB d"
    using a assms(2,3) natural_textD [of t a] by (auto simp: dex_inv_def)
  let ?paid = "a * 997 * dx_reserveB d div (dx_reserveA d * 1000 + a * 997)"
  have "0 \<le> ?paid" using pos by (simp add: pos_imp_zdiv_nonneg_iff)
  then show ?thesis
    using assms(1) a pos
    by (intro that [of a ?paid]) (auto simp: swap_a_for_b_def js_div_pos Let_def split: if_splits)
qed


lemma dex_bodyE:
  assumes "dex_body d operation = Inr (rs, d')" and "dex_inv d" and "dex_legal operation"
  obtains (add) u ta tb where "operation = AddLiquidity u ta tb" "add_liquidity d u ta tb = Inr (rs, d')"
      "natural_text ta" "natural_text tb"
  | (remove) u t where "operation = RemoveLiquidity u t" "remove_liquidity d u t = Inr (rs, d')"
      "natural_text t"
  | (swap) u t where "operation = SwapAForB u t" "swap_a_for_b d u t = Inr (rs, d')" "natural_text t"
  | (view) "d' = d"
  using assms by (cases operation) auto

lemma add_liquidity_inv:
  assumes "add_liquidity d u ta tb = Inr (rs, d')" and inv: "dex_inv d"
    and "natural_text ta" and "natural_text tb"
  shows "dex_inv d'"
  using assms(1,2,3,4)
proof (rule add_liquidityE)
  fix a b m
  assume pos: "0 < a" "0 < b" "0 < m" and d': "d' = d\<lparr>dx_reserveA := dx_reserveA d + a,
     dx_reserveB := dx_reserveB d + b, dx_totalShares := dx_totalShares d + m,
     dx_shares := (dx_shares d)(u \<mapsto> shareOf d u + m)\<rparr>"
  have "0 \<le> shareOf d' v" for v
    using inv pos by (simp add: dex_inv_def d' shareOf_def get0_upd add_nonneg_nonneg)
  then show "dex_inv d'"
    using inv pos by (auto simp: dex_inv_def d' map_total_upd shareOf_def)
qed

lemma remove_liquidity_inv:
  assumes "remove_liquidity d u t = Inr (rs, d')" and inv: "dex_inv d" and "natural_text t"
  shows "dex_inv d'"
  using assms(1,2,3)
proof (rule remove_liquidityE)
  fix s x y
  assume s: "0 < s" "s \<le> shareOf d u" and pos: "0 < dx_totalShares d" "0 < dx_reserveA d" "0 < dx_reserveB d"
    and x: "x = dx_reserveA d * s div dx_totalShares d" and y: "y = dx_reserveB d * s div dx_totalShares d"
    and d': "d' = d\<lparr>dx_shares := (dx_shares d)(u \<mapsto> shareOf d u - s),
       dx_totalShares := dx_totalShares d - s,
       dx_reserveA := dx_reserveA d - x, dx_reserveB := dx_reserveB d - y\<rparr>"
  have le: "s \<le> dx_totalShares d" using s share_le_total [OF inv, of u] by linarith
  have shares: "0 \<le> shareOf d' v" for v
    using inv s by (simp add: dex_inv_def d' shareOf_def get0_upd)
  show "dex_inv d'"
  proof (cases "s = dx_totalShares d")
    case True
    then have "x = dx_reserveA d" "y = dx_reserveB d" using pos by (simp_all add: x y)
    with True show ?thesis
      using inv shares by (auto simp: dex_inv_def d' map_total_upd shareOf_def)
  next
    case False
    then have "s < dx_totalShares d" using le by simp
    have "0 < dx_reserveA d - x" "0 < dx_reserveB d - y"
      unfolding x y using s pos \<open>s < dx_totalShares d\<close> by (simp_all add: remainder_positive del: diff_gt_0_iff_gt)
    with \<open>s < dx_totalShares d\<close> show ?thesis
      using inv shares by (auto simp: dex_inv_def d' map_total_upd shareOf_def)
  qed
qed

lemma swap_a_for_b_inv:
  assumes "swap_a_for_b d u t = Inr (rs, d')" and inv: "dex_inv d" and "natural_text t"
  shows "dex_inv d'"
  using assms(1,2,3)
  by (rule swap_a_for_bE) (use inv in \<open>auto simp: dex_inv_def shareOf_def\<close>)

lemma dex_body_inv:
  assumes "dex_body d operation = Inr (rs, d')" and "dex_inv d" and "dex_legal operation"
  shows "dex_inv d'"
  using assms(1) assms(2,3)
proof (cases rule: dex_bodyE)
  case (add u ta tb)
  show ?thesis using add(2) assms(2) add(3,4) by (rule add_liquidity_inv)
next
  case (remove u t)
  show ?thesis using remove(2) assms(2) remove(3) by (rule remove_liquidity_inv)
next
  case (swap u t)
  show ?thesis using swap(2) assms(2) swap(3) by (rule swap_a_for_b_inv)
next
  case view
  then show ?thesis using assms(2) by simp
qed

interpretation dex_object: op_machine dex_execute dex_inv dex_legal
proof
  fix d operation
  assume "dex_inv d" "dex_legal operation"
  then show "dex_inv (snd (dex_execute d operation))"
    unfolding dex_execute_def
    by (cases "dex_body d operation") (auto simp: catch_result_def intro: dex_body_inv)
qed

lemma dex_inv_new: "dex_inv new_DEXSwapModel"
  by (simp add: dex_inv_def new_DEXSwapModel_def shareOf_def)

subsection \<open>What one share is worth\<close>

text \<open>
  The product of the reserves over the square of the shares, compared without division.
  Each operation moves it up or leaves it: rounding always favours the pool.
\<close>

definition pool_product :: "dex \<Rightarrow> int" where
  "pool_product d = dx_reserveA d * dx_reserveB d"

definition worth_le :: "dex \<Rightarrow> dex \<Rightarrow> bool" where
  "worth_le d d' \<longleftrightarrow>
     pool_product d * (dx_totalShares d')\<^sup>2 \<le> pool_product d' * (dx_totalShares d)\<^sup>2"

lemma worth_le_from_sides:
  assumes "dx_reserveA d * dx_totalShares d' \<le> dx_reserveA d' * dx_totalShares d"
    and "dx_reserveB d * dx_totalShares d' \<le> dx_reserveB d' * dx_totalShares d"
    and "0 \<le> dx_reserveA d" "0 \<le> dx_reserveB d" "0 \<le> dx_totalShares d'"
      "0 \<le> dx_reserveA d'" "0 \<le> dx_totalShares d"
  shows "worth_le d d'"
proof -
  have "(dx_reserveA d * dx_totalShares d') * (dx_reserveB d * dx_totalShares d')
      \<le> (dx_reserveA d' * dx_totalShares d) * (dx_reserveB d' * dx_totalShares d)"
    by (rule mult_mono [OF assms(1,2)]) (use assms in auto)
  then show ?thesis
    by (simp add: worth_le_def pool_product_def power2_eq_square ac_simps)
qed

text \<open>Adding and removing liquidity raise the value of a share on both reserves.\<close>

lemma add_liquidity_sides:
  assumes "add_liquidity d u ta tb = Inr (rs, d')" and inv: "dex_inv d"
    and "natural_text ta" and "natural_text tb"
  shows "dx_reserveA d * dx_totalShares d' \<le> dx_reserveA d' * dx_totalShares d"
    and "dx_reserveB d * dx_totalShares d' \<le> dx_reserveB d' * dx_totalShares d"
  using assms(1,2,3,4) by (auto elim!: add_liquidityE simp: algebra_simps)

lemma remove_liquidity_sides:
  assumes "remove_liquidity d u t = Inr (rs, d')" and inv: "dex_inv d" and "natural_text t"
  shows "dx_reserveA d * dx_totalShares d' \<le> dx_reserveA d' * dx_totalShares d"
    and "dx_reserveB d * dx_totalShares d' \<le> dx_reserveB d' * dx_totalShares d"
proof -
  from assms(1,2,3) have "dx_reserveA d * dx_totalShares d' \<le> dx_reserveA d' * dx_totalShares d \<and>
      dx_reserveB d * dx_totalShares d' \<le> dx_reserveB d' * dx_totalShares d"
  proof (rule remove_liquidityE)
    fix s x y
    assume pos: "0 < dx_totalShares d"
      and x: "x = dx_reserveA d * s div dx_totalShares d"
      and y: "y = dx_reserveB d * s div dx_totalShares d"
      and d': "d' = d\<lparr>dx_shares := (dx_shares d)(u \<mapsto> shareOf d u - s),
         dx_totalShares := dx_totalShares d - s,
         dx_reserveA := dx_reserveA d - x, dx_reserveB := dx_reserveB d - y\<rparr>"
    have "x * dx_totalShares d \<le> dx_reserveA d * s" "y * dx_totalShares d \<le> dx_reserveB d * s"
      unfolding x y using pos by (auto intro: div_mult_le_int)
    then show ?thesis by (simp add: d' algebra_simps)
  qed
  then show "dx_reserveA d * dx_totalShares d' \<le> dx_reserveA d' * dx_totalShares d"
    "dx_reserveB d * dx_totalShares d' \<le> dx_reserveB d' * dx_totalShares d" by auto
qed

text \<open>A swap keeps the shares and raises the product of the reserves.\<close>

lemma swap_raises_product:
  assumes "swap_a_for_b d u t = Inr (rs, d')" and "dex_inv d" and "natural_text t"
  shows "pool_product d \<le> pool_product d'" and "dx_totalShares d' = dx_totalShares d"
proof -
  from assms have "pool_product d \<le> pool_product d' \<and> dx_totalShares d' = dx_totalShares d"
  proof (rule swap_a_for_bE)
    fix a paid
    let ?n = "a * 997 * dx_reserveB d" and ?k = "dx_reserveA d * 1000 + a * 997"
    assume pos: "0 < a" "0 < dx_reserveA d" "0 < dx_reserveB d"
      and paid: "paid = ?n div ?k" "0 < paid" "paid < dx_reserveB d"
      and d': "d' = d\<lparr>dx_reserveA := dx_reserveA d + a, dx_reserveB := dx_reserveB d - paid\<rparr>"
    have "paid * ?k \<le> ?n" unfolding paid(1) using pos by (intro div_mult_le_int) simp
    moreover have "a * paid \<le> a * dx_reserveB d" using pos paid by (intro mult_left_mono) auto
    ultimately have "paid * (dx_reserveA d + a) \<le> a * dx_reserveB d"
      by (simp add: algebra_simps)
    then show ?thesis by (simp add: pool_product_def d' algebra_simps)
  qed
  then show "pool_product d \<le> pool_product d'" "dx_totalShares d' = dx_totalShares d" by auto
qed

lemma dex_body_worth:
  assumes "dex_body d operation = Inr (rs, d')" and inv: "dex_inv d" and legal: "dex_legal operation"
  shows "worth_le d d'"
proof -
  have "dex_inv d'" using assms by (rule dex_body_inv)
  note nonneg = inv [unfolded dex_inv_def] this [unfolded dex_inv_def]
  from assms show ?thesis
  proof (cases rule: dex_bodyE)
    case (add u ta tb)
    show ?thesis
      by (rule worth_le_from_sides)
        (use add_liquidity_sides [OF add(2) inv add(3,4)] nonneg in auto)
  next
    case (remove u t)
    show ?thesis
      by (rule worth_le_from_sides)
        (use remove_liquidity_sides [OF remove(2) inv remove(3)] nonneg in auto)
  next
    case (swap u t)
    from swap_raises_product [OF swap(2) inv swap(3)] show ?thesis
      by (simp add: worth_le_def mult_right_mono)
  qed (simp add: worth_le_def)
qed

lemma worth_le_refl: "worth_le d d"
  by (simp add: worth_le_def)

lemma worth_le_trans:
  assumes "worth_le a b" "worth_le b c" "0 < dx_totalShares b"
  shows "worth_le a c"
proof -
  let ?T = "\<lambda>d. (dx_totalShares d)\<^sup>2"
  have "pool_product a * ?T b * ?T c \<le> pool_product b * ?T a * ?T c"
    using assms(1) by (intro mult_right_mono) (auto simp: worth_le_def)
  moreover have "pool_product b * ?T c * ?T a \<le> pool_product c * ?T b * ?T a"
    using assms(2) by (intro mult_right_mono) (auto simp: worth_le_def)
  ultimately have "?T b * (pool_product a * ?T c) \<le> ?T b * (pool_product c * ?T a)"
    by (simp add: ac_simps)
  then show ?thesis using assms(3) by (simp add: worth_le_def)
qed

lemma worth_le_run:
  assumes "dex_inv d" and "\<forall>x \<in> set xs. dex_legal x"
    and "\<forall>n \<le> length xs. 0 < dx_totalShares (run_ops dex_execute d (take n xs))"
  shows "worth_le d (run_ops dex_execute d xs)"
  using assms
proof (induction xs arbitrary: d)
  case (Cons x xs)
  let ?d = "snd (dex_execute d x)"
  have inv: "dex_inv ?d" using Cons.prems by (auto intro: dex_object.step_inv)
  have live: "0 < dx_totalShares (run_ops dex_execute ?d (take n xs))" if "n \<le> length xs" for n
    using Cons.prems(3) [rule_format, of "Suc n"] that by simp
  have "worth_le d ?d"
    using Cons.prems unfolding dex_execute_def
    by (cases "dex_body d x") (auto simp: catch_result_def worth_le_refl intro: dex_body_worth)
  moreover have "worth_le ?d (run_ops dex_execute ?d xs)"
    using Cons.prems(2) by (intro Cons.IH [OF inv]) (simp_all add: live)
  ultimately show ?case using live [of 0] by (auto intro: worth_le_trans)
qed (simp add: worth_le_refl)

subsection \<open>Properties\<close>

definition sample_dex :: dex where
  "sample_dex = \<lparr>dx_reserveA = 1000, dx_reserveB = 500, dx_totalShares = 1500,
     dx_shares = [''alice'' \<mapsto> 1500]\<rparr>"

lemma sample_dex_inv: "dex_inv sample_dex"
  by (auto simp: dex_inv_def sample_dex_def shareOf_def get0_def map_total_def)

text \<open>A pool stays well formed: from the empty pool, any sequence of operations with
  natural amounts ends with the shares of the users adding up to \<open>totalShares\<close>, no
  share negative, and the reserves and shares all zero or all positive.\<close>

theorem dex_ledger_consistent:
  assumes "\<forall>x \<in> set operations. dex_legal x"
  shows "dex_inv (run_ops dex_execute new_DEXSwapModel operations)"
  using dex_inv_new assms by (rule dex_object.run_inv)

theorem dex_ledger_consistent_witness:
  "dex_inv (run_ops dex_execute new_DEXSwapModel
     [AddLiquidity ''alice'' (show_int 1000) (show_int 500), SwapAForB ''bob'' (show_int 50)])"
  by (rule dex_ledger_consistent) (simp add: natural_text_def)

text \<open>The divisions are guarded: on a pool that a sequence of operations with natural
  amounts reaches, no operation fails with the \<open>Division by zero\<close> of bigint.\<close>

theorem dex_never_divides_by_zero:
  assumes "\<forall>x \<in> set operations. dex_legal x" and "dex_legal operation"
  shows "dex_body (run_ops dex_execute new_DEXSwapModel operations) operation \<noteq> Inl ''Division by zero''"
proof -
  let ?d = "run_ops dex_execute new_DEXSwapModel operations"
  have inv: "dex_inv ?d" using dex_inv_new assms(1) by (rule dex_object.run_inv)
  have swap: "dx_reserveA ?d \<noteq> 0 \<Longrightarrow> natural_text t \<Longrightarrow> BigInt t = Inr n \<Longrightarrow> n \<noteq> 0 \<Longrightarrow>
      dx_reserveA ?d * 1000 + n * 997 \<noteq> 0" for t n
    using inv natural_textD [of t n] by (auto simp: dex_inv_def)
  have remove: "n \<noteq> 0 \<Longrightarrow> natural_text t \<Longrightarrow> BigInt t = Inr n \<Longrightarrow> n \<le> shareOf ?d u \<Longrightarrow>
      dx_totalShares ?d \<noteq> 0" for t n u
    using share_le_total [OF inv, of u] natural_textD [of t n] by auto
  have parse: "BigInt t \<noteq> Inl ''Division by zero''" for t
    by (simp add: BigInt_def split: option.splits)
  have minted: "minted_shares ?d a b \<noteq> Inl e" for a b e
    using inv by (auto simp: minted_shares_def js_div_def dex_inv_def)
  show ?thesis
    using assms(2) swap remove parse minted
    by (cases operation)
      (auto simp: add_liquidity_def remove_liquidity_def swap_a_for_b_def Let_def res_bind_Inl_iff
        js_div_def not_less split: if_splits)
qed

theorem dex_never_divides_by_zero_witness:
  "dex_body (run_ops dex_execute new_DEXSwapModel [AddLiquidity ''alice'' (show_int 5) (show_int 7)])
     (RemoveLiquidity ''bob'' (show_int 3)) \<noteq> Inl ''Division by zero''"
  by (rule dex_never_divides_by_zero) (simp_all add: natural_text_def)

text \<open>C37. No operation dilutes the liquidity providers: as long as the pool is not emptied,
  \<open>reserveA * reserveB / totalShares\<^sup>2\<close> never falls over any sequence of adds, removes and
  swaps with natural amounts.\<close>

theorem dex_share_worth_never_falls:
  assumes "dex_inv d" and "\<forall>x \<in> set operations. dex_legal x"
    and "\<forall>n \<le> length operations. 0 < dx_totalShares (run_ops dex_execute d (take n operations))"
  shows "worth_le d (run_ops dex_execute d operations)"
  using assms by (rule worth_le_run)

theorem dex_share_worth_never_falls_witness:
  "worth_le sample_dex (run_ops dex_execute sample_dex
     [SwapAForB ''bob'' (show_int 50), RemoveLiquidity ''alice'' (show_int 700)])"
proof (rule dex_share_worth_never_falls [OF sample_dex_inv])
  have div: "49850 * 500 div 1049850 = (23::int)" by simp
  show "\<forall>n \<le> length [SwapAForB ''bob'' (show_int 50), RemoveLiquidity ''alice'' (show_int 700)].
      0 < dx_totalShares (run_ops dex_execute sample_dex (take n
        [SwapAForB ''bob'' (show_int 50), RemoveLiquidity ''alice'' (show_int 700)]))"
    by (auto simp: take_Cons' sample_dex_def dex_execute_def swap_a_for_b_def remove_liquidity_def
        js_div_pos shareOf_def get0_def catch_result_def succeed_def Let_def)
qed (simp add: natural_text_def)

text \<open>Adding liquidity and taking the minted shares out again never pays a provider more
  than was put in, on either asset.\<close>

theorem dex_add_remove_no_profit:
  assumes "dex_inv d" and "0 < a" and "0 < b"
    and "add_liquidity d user (show_int a) (show_int b) = Inr ([m], d')"
    and "remove_liquidity d' user m = Inr ([show_int x, show_int y], d'')"
  shows "x \<le> a \<and> y \<le> b"
proof -
  have inv': "dex_inv d'"
    using assms by (intro add_liquidity_inv [OF assms(4,1)]) (simp_all add: natural_text_def)
  from assms(4,1) have "\<exists>n. m = show_int n \<and> 0 < n \<and> n * dx_reserveA d \<le> a * dx_totalShares d \<and>
      n * dx_reserveB d \<le> b * dx_totalShares d \<and> (dx_totalShares d = 0 \<longrightarrow> dx_reserveA d = 0 \<and> dx_reserveB d = 0) \<and>
      dx_reserveA d' = dx_reserveA d + a \<and> dx_reserveB d' = dx_reserveB d + b \<and>
      dx_totalShares d' = dx_totalShares d + n"
    by (rule add_liquidityE) (use assms in \<open>auto simp: natural_text_def dex_inv_def\<close>)
  then obtain n where n: "m = show_int n" "0 < n" "n * dx_reserveA d \<le> a * dx_totalShares d"
    "n * dx_reserveB d \<le> b * dx_totalShares d"
    "dx_reserveA d' = dx_reserveA d + a" "dx_reserveB d' = dx_reserveB d + b"
    "dx_totalShares d' = dx_totalShares d + n" by blast
  from assms(5) inv' have "0 < dx_totalShares d' \<and> x = dx_reserveA d' * n div dx_totalShares d' \<and>
      y = dx_reserveB d' * n div dx_totalShares d'"
    by (rule remove_liquidityE) (use n in \<open>auto simp: natural_text_def\<close>)
  then show ?thesis using n by (auto intro!: div_le_int simp: algebra_simps)
qed

theorem dex_add_remove_no_profit_witness:
  "(332::int) \<le> 333 \<and> (166::int) \<le> 167"
proof (rule dex_add_remove_no_profit [OF sample_dex_inv])
  show "add_liquidity sample_dex ''bob'' (show_int 333) (show_int 167) = Inr ([show_int 499],
    sample_dex\<lparr>dx_reserveA := 1333, dx_reserveB := 667, dx_totalShares := 1999,
      dx_shares := [''alice'' \<mapsto> 1500, ''bob'' \<mapsto> 499]\<rparr>)"
    by (simp add: add_liquidity_def minted_shares_def sample_dex_def js_div_pos shareOf_def get0_def)
qed (simp_all add: remove_liquidity_def sample_dex_def js_div_pos shareOf_def get0_def)

end
