(* ===== verification/Evm.thy ===== *)
theory Evm
  imports Snapshot
begin

text \<open>
  What the translated Solidity contracts run on: \<open>uint256\<close> words, the checked arithmetic of
  Solidity 0.8, \<open>require\<close>, and the values ethers hands back to the scripts. The hash, the ABI
  codec and the text of an error are the host's and stay a parameter.
\<close>

subsection \<open>Checked arithmetic\<close>

type_synonym uint256 = "256 word"

text \<open>\<open>Panic\<close> carries Solidity's panic code: 0x11 for overflow, 0x12 for division by zero.\<close>

datatype evm_error =
    Revert string
  | CustomError string string
  | Panic nat
  | InvalidArgument string

type_synonym 'a evm = "evm_error + 'a"

definition checked_add :: "uint256 \<Rightarrow> uint256 \<Rightarrow> uint256 evm" where
  "checked_add a b = (if uint a + uint b < 2 ^ 256 then Inr (a + b) else Inl (Panic 0x11))"

definition checked_sub :: "uint256 \<Rightarrow> uint256 \<Rightarrow> uint256 evm" where
  "checked_sub a b = (if b \<le> a then Inr (a - b) else Inl (Panic 0x11))"

definition checked_mul :: "uint256 \<Rightarrow> uint256 \<Rightarrow> uint256 evm" where
  "checked_mul a b = (if uint a * uint b < 2 ^ 256 then Inr (a * b) else Inl (Panic 0x11))"

definition checked_div :: "uint256 \<Rightarrow> uint256 \<Rightarrow> uint256 evm" where
  "checked_div a b = (if b = 0 then Inl (Panic 0x12) else Inr (a div b))"

definition require :: "bool \<Rightarrow> string \<Rightarrow> 'a evm \<Rightarrow> 'a evm" where
  "require c reason k = (if c then k else Inl (Revert reason))"

text \<open>\<open>U n\<close> is the word of an integer; it loses nothing within the range of \<open>uint256\<close>.\<close>

definition U :: "int \<Rightarrow> uint256" where
  "U n = word_of_int n"

definition in_u256 :: "int \<Rightarrow> bool" where
  "in_u256 n \<longleftrightarrow> 0 \<le> n \<and> n < 2 ^ 256"

lemma in_u256I: "0 \<le> n \<Longrightarrow> n < 2 ^ 256 \<Longrightarrow> in_u256 n"
  by (simp add: in_u256_def)

lemma in_u256_le: "in_u256 b \<Longrightarrow> 0 \<le> a \<Longrightarrow> a \<le> b \<Longrightarrow> in_u256 a"
  by (simp add: in_u256_def)

lemma in_u256_0 [simp]: "in_u256 0" "in_u256 1"
  by (simp_all add: in_u256_def)

lemma uint_U: "in_u256 n \<Longrightarrow> uint (U n) = n"
  by (simp add: U_def in_u256_def uint_word_of_int_eq take_bit_int_eq_self)

lemma U_uint [simp]: "U (uint w) = w"
  by (simp add: U_def)

lemma U_0 [simp]: "U 0 = 0"
  by (simp add: U_def)

lemma U_add: "U (a + b) = U a + U b" and U_sub: "U (a - b) = U a - U b"
  and U_mul: "U (a * b) = U a * U b"
  by (simp_all add: U_def)

lemma in_u256_uint [simp]: "in_u256 (uint (w :: uint256))"
  using unsigned_less [of w, where 'a = int] by (simp add: in_u256_def)

lemma U_less: "in_u256 a \<Longrightarrow> in_u256 b \<Longrightarrow> U a < U b \<longleftrightarrow> a < b"
  by (simp add: word_less_def uint_U)

lemma U_le: "in_u256 a \<Longrightarrow> in_u256 b \<Longrightarrow> U a \<le> U b \<longleftrightarrow> a \<le> b"
  by (simp add: word_le_def uint_U)

lemma U_eq: "in_u256 a \<Longrightarrow> in_u256 b \<Longrightarrow> U a = U b \<longleftrightarrow> a = b"
  by (metis uint_U)

lemma U_eq_0: "in_u256 a \<Longrightarrow> U a = 0 \<longleftrightarrow> a = 0"
  using U_eq [of a 0] by simp

lemma U_pos: "in_u256 a \<Longrightarrow> 0 < U a \<longleftrightarrow> 0 < a"
  using U_less [of 0 a] by simp

text \<open>Checked arithmetic on words in range is the arithmetic of the integers.\<close>

lemma checked_add_U: "in_u256 a \<Longrightarrow> in_u256 b \<Longrightarrow> in_u256 (a + b) \<Longrightarrow> checked_add (U a) (U b) = Inr (U (a + b))"
  by (simp add: checked_add_def uint_U U_add) (simp add: in_u256_def)

lemma checked_sub_U: "in_u256 a \<Longrightarrow> in_u256 b \<Longrightarrow> b \<le> a \<Longrightarrow> checked_sub (U a) (U b) = Inr (U (a - b))"
  by (simp add: checked_sub_def U_le U_sub)

lemma checked_mul_U: "in_u256 a \<Longrightarrow> in_u256 b \<Longrightarrow> in_u256 (a * b) \<Longrightarrow> checked_mul (U a) (U b) = Inr (U (a * b))"
  by (simp add: checked_mul_def uint_U U_mul) (simp add: in_u256_def)

lemma checked_div_U:
  assumes "in_u256 a" "in_u256 b" "0 < b"
  shows "checked_div (U a) (U b) = Inr (U (a div b))"
proof -
  have "U b \<noteq> 0" using assms by (simp add: U_eq_0)
  moreover have "U a div U b = U (a div b)"
    by (simp only: word_div_def uint_U assms U_def [of "a div b"])
  ultimately show ?thesis by (simp add: checked_div_def)
qed

lemma in_u256_div: "in_u256 a \<Longrightarrow> 0 < b \<Longrightarrow> in_u256 (a div b)"
  using zdiv_mono2 [of a 1 b] by (simp add: in_u256_def pos_imp_zdiv_nonneg_iff)

lemma require_Inr_iff: "require c reason k = Inr v \<longleftrightarrow> c \<and> k = Inr v"
  by (simp add: require_def)

named_theorems evm_simps \<open>evaluation of a Solidity function on words in range\<close>

lemmas word_facts [evm_simps] =
  require_def U_less U_le U_eq_0 U_pos checked_add_U checked_sub_U checked_mul_U checked_div_U

subsection \<open>Values returned to the scripts\<close>

datatype js_prim = PBigint int | PBool bool | PString string

datatype js_value = JPrim js_prim | JArray "js_prim list" | JUndefined

fun prim_string :: "js_prim \<Rightarrow> string" where
  "prim_string (PBigint n) = show_int n"
| "prim_string (PBool b) = show_bool b"
| "prim_string (PString s) = s"

text \<open>A \<open>uint256\<close> comes back as a bigint, several return values as an array.\<close>

definition ret_uint :: "uint256 \<Rightarrow> js_value" where
  "ret_uint w = JPrim (PBigint (uint w))"

definition ret_bool :: "bool \<Rightarrow> js_value" where
  "ret_bool b = JPrim (PBool b)"

subsection \<open>The host\<close>

record evm_host =
  abi_uint256 :: "string \<Rightarrow> uint256 option"
  abi_encode_meta :: "string \<Rightarrow> uint256 \<Rightarrow> uint256 \<Rightarrow> uint256 \<Rightarrow> byte list"
  abi_decode_meta :: "byte list \<Rightarrow> (string \<times> uint256 \<times> uint256 \<times> uint256) option"
  abi_encode_uint :: "uint256 \<Rightarrow> byte list"
  abi_decode_uint :: "byte list \<Rightarrow> uint256 option"
  keccak :: "byte list \<Rightarrow> uint256"
  error_text :: "evm_error \<Rightarrow> string"

text \<open>The storage slots the scripts and the contract name by a hash of packed strings.\<close>

definition packed_keccak :: "evm_host \<Rightarrow> string list \<Rightarrow> uint256" where
  "packed_keccak H parts = keccak H (concat (map utf8Bytes parts))"

abbreviation meta_slot :: "evm_host \<Rightarrow> uint256" where
  "meta_slot H \<equiv> packed_keccak H [''VASSP'', ''HotelBooking'', ''META'']"

abbreviation lock_total_slot :: "evm_host \<Rightarrow> uint256" where
  "lock_total_slot H \<equiv> packed_keccak H [''VASSP'', ''HotelBooking'', ''LOCK_TOTAL'']"

text \<open>
  Documented behaviour: a decimal string is accepted as a \<open>uint256\<close> argument exactly when
  its value is in range; \<open>abi.decode\<close> inverts the encoder; the two slots are different.
\<close>

definition host_documented :: "evm_host \<Rightarrow> bool" where
  "host_documented H \<longleftrightarrow>
     (\<forall>n. abi_uint256 H (show_int n) = (if in_u256 n then Some (U n) else None)) \<and>
     (\<forall>b p r l. abi_decode_meta H (abi_encode_meta H b p r l) = Some (b, p, r, l)) \<and>
     (\<forall>w. abi_decode_uint H (abi_encode_uint H w) = Some w) \<and>
     meta_slot H \<noteq> lock_total_slot H"

text \<open>A decoded argument, or the error ethers throws before anything is sent.\<close>

definition with_uint :: "evm_host \<Rightarrow> string \<Rightarrow> (uint256 \<Rightarrow> 'a evm) \<Rightarrow> 'a evm" where
  "with_uint H t k = (case abi_uint256 H t of None \<Rightarrow> Inl (InvalidArgument t) | Some w \<Rightarrow> k w)"

lemma with_uint_show:
  "host_documented H \<Longrightarrow> in_u256 n \<Longrightarrow> with_uint H (show_int n) k = k (U n)"
  by (simp add: host_documented_def with_uint_def)

subsection \<open>A chain that mines a block per transaction\<close>

record 'c chain =
  contract_state :: 'c
  block_number :: int

type_synonym 'c transition = "int \<Rightarrow> 'c \<Rightarrow> (js_value \<times> 'c) evm"

text \<open>\<open>staticCall\<close> and view calls: the value, with no effect.\<close>

definition static_call :: "'c transition \<Rightarrow> 'c chain \<Rightarrow> js_value evm" where
  "static_call f c = res_bind (f (block_number c) (contract_state c)) (\<lambda>(v, s). Inr v)"

text \<open>A transaction: it runs in the next block, or reverts and is not mined.\<close>

definition send :: "'c transition \<Rightarrow> 'c chain \<Rightarrow> 'c chain evm" where
  "send f c = res_bind (f (block_number c + 1) (contract_state c)) (\<lambda>(v, s).
     Inr \<lparr>contract_state = s, block_number = block_number c + 1\<rparr>)"

definition deploy :: "'c \<Rightarrow> 'c chain" where
  "deploy s = \<lparr>contract_state = s, block_number = 1\<rparr>"

text \<open>A view function of the storage.\<close>

definition view :: "('c \<Rightarrow> js_value evm) \<Rightarrow> 'c transition" where
  "view f = (\<lambda>b s. res_bind (f s) (\<lambda>v. Inr (v, s)))"

lemma static_view [simp]: "static_call (view f) c = f (contract_state c)"
  by (cases "f (contract_state c)") (simp_all add: static_call_def view_def)

subsection \<open>A concrete host\<close>

text \<open>A stand-in for the hash that is injective on up to 30 bytes.\<close>

definition byte_poly :: "byte list \<Rightarrow> int" where
  "byte_poly bs = foldl (\<lambda>h b. h * 257 + uint b) 1 bs"

lemma byte_poly_simps [simp]:
  "byte_poly [] = 1" "byte_poly (bs @ [b]) = byte_poly bs * 257 + uint b"
  by (simp_all add: byte_poly_def)

lemma uint_byte: "uint (b :: byte) < 256"
  using unsigned_less [of b, where 'a = int] by simp

lemma byte_poly_bounds: "1 \<le> byte_poly bs" "byte_poly bs < 257 ^ Suc (length bs)"
proof (induction bs rule: rev_induct)
  case (snoc b bs)
  { case 1 then show ?case using snoc(1) uint_ge_0 [of b] unfolding byte_poly_simps by linarith }
  { case 2 then show ?case using snoc(2) uint_byte [of b] by simp }
qed simp_all

lemma byte_poly_inject: "byte_poly as = byte_poly bs \<Longrightarrow> as = bs"
proof (induction as arbitrary: bs rule: rev_induct)
  case Nil
  then show ?case
  proof (cases bs rule: rev_cases)
    case (snoc cs c)
    with Nil byte_poly_bounds(1) [of cs] uint_ge_0 [of c] show ?thesis by simp
  qed simp
next
  case (snoc a as)
  show ?case
  proof (cases bs rule: rev_cases)
    case Nil
    with snoc.prems byte_poly_bounds(1) [of as] uint_ge_0 [of a] show ?thesis by simp
  next
    case (snoc cs c)
    have r: "0 \<le> uint a" "uint a < 257" "0 \<le> uint c" "uint c < 257"
      using uint_byte [of a] uint_byte [of c] by auto
    have eq: "byte_poly as * 257 + uint a = byte_poly cs * 257 + uint c"
      using snoc.prems snoc by simp
    then have "(byte_poly as * 257 + uint a) div 257 = (byte_poly cs * 257 + uint c) div 257" by simp
    then have q: "byte_poly as = byte_poly cs" using r by simp
    with eq have "uint a = uint c" by simp
    then show ?thesis using snoc.IH [OF q] snoc by (simp add: word_uint_eq_iff)
  qed
qed

lemma byte_poly_word: "length bs \<le> 30 \<Longrightarrow> in_u256 (byte_poly bs)"
proof -
  assume "length bs \<le> 30"
  then have "(257 :: int) ^ Suc (length bs) \<le> 257 ^ 31" by (intro power_increasing) auto
  also have "\<dots> < 2 ^ 256" by simp
  finally show ?thesis using byte_poly_bounds [of bs] by (simp add: in_u256_def)
qed

definition reference_host :: evm_host where
  "reference_host =
     \<lparr>abi_uint256 = (\<lambda>t. case BigInt t of Inl e \<Rightarrow> None
        | Inr n \<Rightarrow> if in_u256 n then Some (U n) else None),
      abi_encode_meta = (\<lambda>b p r l. be_bytes 32 (uint p) @ be_bytes 32 (uint r)
        @ be_bytes 32 (uint l) @ utf8Bytes b),
      abi_decode_meta = (\<lambda>bs. Some (decode_utf8 (drop 96 bs), U (int (be_value 0 (take 32 bs))),
        U (int (be_value 0 (take 32 (drop 32 bs)))), U (int (be_value 0 (take 32 (drop 64 bs)))))),
      abi_encode_uint = (\<lambda>w. be_bytes 32 (uint w)),
      abi_decode_uint = (\<lambda>bs. Some (U (int (be_value 0 bs)))),
      keccak = (\<lambda>bs. U (byte_poly bs)),
      error_text = (\<lambda>e. case e of Revert r \<Rightarrow> ''reverted with reason string '' @ r
        | _ \<Rightarrow> ''reverted'')\<rparr>"

lemma be_value_word: "U (int (be_value 0 (be_bytes 32 (uint (w :: uint256))))) = w"
proof -
  have "uint w < 2 ^ 256" using unsigned_less [of w, where 'a = int] by simp
  then have "be_value 0 (be_bytes 32 (uint w)) = nat (uint w)"
    by (intro be_value_be_bytes) simp_all
  then show ?thesis by (simp add: U_def)
qed

lemma reference_keccak_inject:
  assumes "keccak reference_host as = keccak reference_host bs" "length as \<le> 30" "length bs \<le> 30"
  shows "as = bs"
  using assms U_eq [OF byte_poly_word [OF assms(2)] byte_poly_word [OF assms(3)]] byte_poly_inject
  by (simp add: reference_host_def)

lemma slot_lengths:
  "length (concat (map utf8Bytes [''VASSP'', ''HotelBooking'', ''META''])) = 21"
  "length (concat (map utf8Bytes [''VASSP'', ''HotelBooking'', ''LOCK_TOTAL''])) = 27"
  by code_simp+

lemma reference_slots: "meta_slot reference_host \<noteq> lock_total_slot reference_host"
proof
  assume "meta_slot reference_host = lock_total_slot reference_host"
  then have "length (concat (map utf8Bytes [''VASSP'', ''HotelBooking'', ''META''])) =
      length (concat (map utf8Bytes [''VASSP'', ''HotelBooking'', ''LOCK_TOTAL'']))"
    unfolding packed_keccak_def
    by (intro arg_cong [where f = length] reference_keccak_inject) (simp_all only: slot_lengths)
  then show False unfolding slot_lengths by simp
qed

lemma reference_host_documented: "host_documented reference_host"
proof -
  have "abi_uint256 reference_host (show_int n) = (if in_u256 n then Some (U n) else None)" for n
    by (simp add: reference_host_def)
  moreover have "abi_decode_meta reference_host (abi_encode_meta reference_host b p r l) = Some (b, p, r, l)" for b p r l
    unfolding reference_host_def by (simp add: be_value_word decode_utf8_utf8Bytes del: of_int_of_nat_eq)
  moreover have "abi_decode_uint reference_host (abi_encode_uint reference_host w) = Some w" for w
    unfolding reference_host_def by (simp add: be_value_word del: of_int_of_nat_eq)
  ultimately show ?thesis
    using reference_slots unfolding host_documented_def by blast
qed

end
