(* ===== verification/Translated_Travel.thy ===== *)
theory Translated_Travel
  imports Evm Hotel_Model
begin

text \<open>
  \<open>contracts/xsmart/bc1/examples/HotelBookingTranslated.sol\<close> and
  \<open>TrainBookingTranslated\<close> of \<open>RQ2TranslatedTargets.sol\<close>, the translations the runner
  compares with the booking models. A contract's storage is a record, a \<open>mapping\<close> a total
  function, an external function a function from its arguments and the storage to an error or
  the returned words and the new storage.
\<close>

subsection \<open>HotelBookingTranslated\<close>

record meta_storage =
  mt_bridge :: string
  mt_price :: uint256
  mt_remain :: uint256
  mt_lockSize :: uint256

record lock_storage =
  lk_lockedAmount :: uint256
  lk_lockBlock :: uint256
  lk_timeoutBlocks :: uint256
  lk_active :: bool

record hotel_storage =
  hs_meta :: meta_storage
  hs_accounts :: "string \<Rightarrow> uint256"
  hs_bookings :: "string \<Rightarrow> uint256"
  hs_locks :: "string \<Rightarrow> lock_storage"
  hs_lockedTotal :: uint256

definition zero_lock :: lock_storage where
  "zero_lock = \<lparr>lk_lockedAmount = 0, lk_lockBlock = 0, lk_timeoutBlocks = 0, lk_active = False\<rparr>"

text \<open>The empty constructor: storage starts zero.\<close>

definition HotelBookingTranslated :: hotel_storage where
  "HotelBookingTranslated =
     \<lparr>hs_meta = \<lparr>mt_bridge = [], mt_price = 0, mt_remain = 0, mt_lockSize = 0\<rparr>,
      hs_accounts = (\<lambda>_. 0), hs_bookings = (\<lambda>_. 0), hs_locks = (\<lambda>_. zero_lock), hs_lockedTotal = 0\<rparr>"

definition ubtl_available_units :: "hotel_storage \<Rightarrow> uint256 evm" where
  "ubtl_available_units s =
     (if mt_price (hs_meta s) = 0 then Inr 0
      else res_bind (checked_div (hs_lockedTotal s) (mt_price (hs_meta s))) (\<lambda>lockedUnits.
        if mt_remain (hs_meta s) > lockedUnits
        then checked_sub (mt_remain (hs_meta s)) lockedUnits else Inr 0))"

text \<open>\<open>lockedTotal > a ? lockedTotal - a : 0\<close> and \<open>delete locks[id]\<close>.\<close>

definition release_lock :: "hotel_storage \<Rightarrow> string \<Rightarrow> hotel_storage evm" where
  "release_lock s l =
     (let amount = lk_lockedAmount (hs_locks s l) in
      res_bind (if hs_lockedTotal s > amount then checked_sub (hs_lockedTotal s) amount else Inr 0)
        (\<lambda>total. Inr (s\<lparr>hs_lockedTotal := total, hs_locks := (hs_locks s)(l := zero_lock)\<rparr>)))"

definition ubtl_BookLocal :: "string \<Rightarrow> uint256 \<Rightarrow> hotel_storage \<Rightarrow> (uint256 \<times> hotel_storage) evm" where
  "ubtl_BookLocal user amount s =
     require (amount > 0) ''ZeroAmount''
     (res_bind (ubtl_available_units s) (\<lambda>available.
      require (available \<ge> amount) ''InsufficientRemain''
      (res_bind (checked_mul (mt_price (hs_meta s)) amount) (\<lambda>cost.
       res_bind (if mt_remain (hs_meta s) > amount
                 then checked_sub (mt_remain (hs_meta s)) amount else Inr 0) (\<lambda>remain.
       res_bind (checked_add (hs_accounts s user) cost) (\<lambda>account.
       res_bind (checked_add (hs_bookings s user) amount) (\<lambda>booking.
         Inr (cost, s\<lparr>hs_meta := (hs_meta s)\<lparr>mt_remain := remain\<rparr>,
                      hs_accounts := (hs_accounts s)(user := account),
                      hs_bookings := (hs_bookings s)(user := booking)\<rparr>))))))))"

definition ubtl_LockState ::
    "int \<Rightarrow> string \<Rightarrow> uint256 \<Rightarrow> uint256 \<Rightarrow> hotel_storage \<Rightarrow> ((uint256 \<times> uint256) \<times> hotel_storage) evm" where
  "ubtl_LockState blocknr l requested timeoutBlocks s =
     require (\<not> lk_active (hs_locks s l)) ''AlreadyLocked''
     (res_bind (ubtl_available_units s) (\<lambda>available.
      require (available \<ge> requested) ''InsufficientRemain''
      (res_bind (if requested > 0 then checked_mul (mt_price (hs_meta s)) requested
                 else checked_mul (mt_price (hs_meta s)) (mt_lockSize (hs_meta s))) (\<lambda>amount.
       res_bind (checked_add (hs_lockedTotal s) amount) (\<lambda>total.
         Inr ((mt_price (hs_meta s), mt_remain (hs_meta s)),
              s\<lparr>hs_locks := (hs_locks s)(l := \<lparr>lk_lockedAmount = amount, lk_lockBlock = U blocknr,
                   lk_timeoutBlocks = timeoutBlocks, lk_active = True\<rparr>),
                hs_lockedTotal := total\<rparr>))))))"

definition ubtl_UnlockState :: "string \<Rightarrow> hotel_storage \<Rightarrow> hotel_storage evm" where
  "ubtl_UnlockState l s = require (lk_active (hs_locks s l)) ''NotLocked'' (release_lock s l)"

definition ubtl_UnlockOnTimeout :: "int \<Rightarrow> string \<Rightarrow> hotel_storage \<Rightarrow> hotel_storage evm" where
  "ubtl_UnlockOnTimeout blocknr l s =
     require (lk_active (hs_locks s l)) ''NotLocked''
     (res_bind (checked_add (lk_lockBlock (hs_locks s l)) (lk_timeoutBlocks (hs_locks s l))) (\<lambda>deadline.
      require (U blocknr > deadline) ''NotTimedOut'' (release_lock s l)))"

definition ubtl_UpdateState ::
    "string \<Rightarrow> uint256 \<Rightarrow> string \<Rightarrow> uint256 \<Rightarrow> uint256 \<Rightarrow> hotel_storage \<Rightarrow> hotel_storage evm" where
  "ubtl_UpdateState l newRemain user newBooking charge s =
     res_bind (if lk_active (hs_locks s l) then release_lock s l else Inr s) (\<lambda>s1.
     res_bind (checked_add (hs_accounts s1 user) charge) (\<lambda>account.
     res_bind (checked_add (hs_bookings s1 user) newBooking) (\<lambda>booking.
       Inr (s1\<lparr>hs_meta := (hs_meta s1)\<lparr>mt_remain := newRemain\<rparr>,
               hs_accounts := (hs_accounts s1)(user := account),
               hs_bookings := (hs_bookings s1)(user := booking)\<rparr>))))"

definition ubtl_SetBridge :: "string \<Rightarrow> hotel_storage \<Rightarrow> hotel_storage" where
  "ubtl_SetBridge b s = s\<lparr>hs_meta := (hs_meta s)\<lparr>mt_bridge := b\<rparr>\<rparr>"

definition vassp_apply :: "evm_host \<Rightarrow> uint256 \<Rightarrow> byte list \<Rightarrow> hotel_storage \<Rightarrow> hotel_storage evm" where
  "vassp_apply H slot bytes s =
     (if slot = meta_slot H then
        (case abi_decode_meta H bytes of
           None \<Rightarrow> Inl (Revert [])
         | Some (b, p, r, l) \<Rightarrow>
             Inr (s\<lparr>hs_meta := \<lparr>mt_bridge = b, mt_price = p, mt_remain = r, mt_lockSize = l\<rparr>\<rparr>))
      else if slot = lock_total_slot H then
        (case abi_decode_uint H bytes of
           None \<Rightarrow> Inl (Revert [])
         | Some w \<Rightarrow> Inr (s\<lparr>hs_lockedTotal := w\<rparr>))
      else Inl (CustomError ''UbtlUnsupported''
        ''__vassp_apply currently supports scalar and meta slots only''))"

subsection \<open>TrainBookingTranslated\<close>

record train_lock =
  tl_lockedAmount :: uint256
  tl_active :: bool

record train_storage =
  ts_bridge :: string
  ts_price :: uint256
  ts_remain :: uint256
  ts_lockSize :: uint256
  ts_lockedTotal :: uint256
  ts_accounts :: "string \<Rightarrow> uint256"
  ts_bookings :: "string \<Rightarrow> uint256"
  ts_locks :: "string \<Rightarrow> train_lock"

definition zero_train_lock :: train_lock where
  "zero_train_lock = \<lparr>tl_lockedAmount = 0, tl_active = False\<rparr>"

definition TrainBookingTranslated :: "string \<Rightarrow> uint256 \<Rightarrow> uint256 \<Rightarrow> uint256 \<Rightarrow> train_storage evm" where
  "TrainBookingTranslated bridge price remain lockSize =
     require (price > 0) ''price must be > 0''
     (Inr \<lparr>ts_bridge = bridge, ts_price = price, ts_remain = remain,
       ts_lockSize = (if lockSize = 0 then 1 else lockSize), ts_lockedTotal = 0,
       ts_accounts = (\<lambda>_. 0), ts_bookings = (\<lambda>_. 0), ts_locks = (\<lambda>_. zero_train_lock)\<rparr>)"

definition train_Rq2Reset ::
    "string \<Rightarrow> uint256 \<Rightarrow> uint256 \<Rightarrow> uint256 \<Rightarrow> train_storage \<Rightarrow> train_storage evm" where
  "train_Rq2Reset bridge price remain lockSize s =
     require (price > 0) ''price must be > 0''
     (Inr (s\<lparr>ts_bridge := bridge, ts_price := price, ts_remain := remain,
       ts_lockSize := (if lockSize = 0 then 1 else lockSize), ts_lockedTotal := 0\<rparr>))"

definition train_GetAvailableRemain :: "train_storage \<Rightarrow> uint256 evm" where
  "train_GetAvailableRemain s =
     res_bind (checked_div (ts_lockedTotal s) (ts_price s)) (\<lambda>lockedUnits.
       if ts_remain s > lockedUnits then checked_sub (ts_remain s) lockedUnits else Inr 0)"

definition train_BookLocal :: "string \<Rightarrow> uint256 \<Rightarrow> train_storage \<Rightarrow> (uint256 \<times> train_storage) evm" where
  "train_BookLocal user amount s =
     require (amount > 0) ''ZeroAmount''
     (res_bind (train_GetAvailableRemain s) (\<lambda>available.
      require (available \<ge> amount) ''InsufficientRemain''
      (res_bind (checked_mul (ts_price s) amount) (\<lambda>cost.
       res_bind (checked_sub (ts_remain s) amount) (\<lambda>remain.
       res_bind (checked_add (ts_accounts s user) cost) (\<lambda>account.
       res_bind (checked_add (ts_bookings s user) amount) (\<lambda>booking.
         Inr (cost, s\<lparr>ts_remain := remain,
                      ts_accounts := (ts_accounts s)(user := account),
                      ts_bookings := (ts_bookings s)(user := booking)\<rparr>))))))))"

definition train_LockState ::
    "string \<Rightarrow> uint256 \<Rightarrow> uint256 \<Rightarrow> train_storage \<Rightarrow> ((uint256 \<times> uint256) \<times> train_storage) evm" where
  "train_LockState l requested timeoutBlocks s =
     require (\<not> tl_active (ts_locks s l)) ''AlreadyLocked''
     (res_bind (train_GetAvailableRemain s) (\<lambda>available.
      require (available \<ge> requested) ''InsufficientRemain''
      (res_bind (checked_mul (if requested > 0 then requested else ts_lockSize s) (ts_price s)) (\<lambda>amount.
       res_bind (checked_add (ts_lockedTotal s) amount) (\<lambda>total.
         Inr ((ts_price s, ts_remain s),
              s\<lparr>ts_locks := (ts_locks s)(l := \<lparr>tl_lockedAmount = amount, tl_active = True\<rparr>),
                ts_lockedTotal := total\<rparr>))))))"

definition train_UnlockState :: "string \<Rightarrow> train_storage \<Rightarrow> train_storage evm" where
  "train_UnlockState l s =
     require (tl_active (ts_locks s l)) ''NotLocked''
     (let amount = tl_lockedAmount (ts_locks s l) in
      res_bind (if ts_lockedTotal s > amount then checked_sub (ts_lockedTotal s) amount else Inr 0)
        (\<lambda>total. Inr (s\<lparr>ts_lockedTotal := total, ts_locks := (ts_locks s)(l := zero_train_lock)\<rparr>)))"

end
