(* ===== verification/Translated_Ledgers.thy ===== *)
theory Translated_Ledgers
  imports Evm
begin

text \<open>
  \<open>TokenTransferTranslated\<close>, \<open>AuctionLogicTranslated\<close> and \<open>DEXSwapTranslated\<close> of
  \<open>contracts/xsmart/bc1/examples/RQ2TranslatedTargets.sol\<close>, on \<open>uint256\<close> words with
  checked arithmetic.
\<close>

subsection \<open>TokenTransferTranslated\<close>

record token_storage =
  tt_balances :: "string \<Rightarrow> uint256"
  tt_allowances :: "uint256 \<Rightarrow> uint256"
  tt_totalSupply :: uint256

definition TokenTransferTranslated :: token_storage where
  "TokenTransferTranslated = \<lparr>tt_balances = (\<lambda>_. 0), tt_allowances = (\<lambda>_. 0), tt_totalSupply = 0\<rparr>"

definition token_Rq2Reset :: "token_storage \<Rightarrow> token_storage" where
  "token_Rq2Reset s = s\<lparr>tt_totalSupply := 0\<rparr>"

definition token_allowanceKey :: "evm_host \<Rightarrow> string \<Rightarrow> string \<Rightarrow> uint256" where
  "token_allowanceKey H owner spender = packed_keccak H [owner, [CHR 0x00], spender]"

definition token_Mint :: "string \<Rightarrow> uint256 \<Rightarrow> token_storage \<Rightarrow> token_storage evm" where
  "token_Mint dst amount s =
     require (amount > 0) ''ZeroAmount''
     (res_bind (checked_add (tt_balances s dst) amount) (\<lambda>balance.
      res_bind (checked_add (tt_totalSupply s) amount) (\<lambda>supply.
        Inr (s\<lparr>tt_balances := (tt_balances s)(dst := balance), tt_totalSupply := supply\<rparr>))))"

text \<open>\<open>balances[from] -= amount; balances[to] += amount\<close>, in this order.\<close>

definition token_shift :: "string \<Rightarrow> string \<Rightarrow> uint256 \<Rightarrow> token_storage \<Rightarrow> token_storage evm" where
  "token_shift src dst amount s =
     res_bind (checked_sub (tt_balances s src) amount) (\<lambda>debited.
     let b = (tt_balances s)(src := debited) in
     res_bind (checked_add (b dst) amount) (\<lambda>credited.
       Inr (s\<lparr>tt_balances := b(dst := credited)\<rparr>)))"

definition token_Transfer :: "string \<Rightarrow> string \<Rightarrow> uint256 \<Rightarrow> token_storage \<Rightarrow> token_storage evm" where
  "token_Transfer src dst amount s =
     require (tt_balances s src \<ge> amount) ''InsufficientBalance'' (token_shift src dst amount s)"

definition token_Approve ::
    "evm_host \<Rightarrow> string \<Rightarrow> string \<Rightarrow> uint256 \<Rightarrow> token_storage \<Rightarrow> token_storage" where
  "token_Approve H owner spender amount s =
     s\<lparr>tt_allowances := (tt_allowances s)(token_allowanceKey H owner spender := amount)\<rparr>"

definition token_TransferFrom ::
    "evm_host \<Rightarrow> string \<Rightarrow> string \<Rightarrow> string \<Rightarrow> uint256 \<Rightarrow> token_storage \<Rightarrow> token_storage evm" where
  "token_TransferFrom H spender src dst amount s =
     (let key = token_allowanceKey H src spender in
      require (tt_allowances s key \<ge> amount) ''InsufficientAllowance''
      (require (tt_balances s src \<ge> amount) ''InsufficientBalance''
       (res_bind (checked_sub (tt_allowances s key) amount) (\<lambda>left.
          token_shift src dst amount (s\<lparr>tt_allowances := (tt_allowances s)(key := left)\<rparr>)))))"

definition token_Allowance :: "evm_host \<Rightarrow> string \<Rightarrow> string \<Rightarrow> token_storage \<Rightarrow> uint256" where
  "token_Allowance H owner spender s = tt_allowances s (token_allowanceKey H owner spender)"

subsection \<open>AuctionLogicTranslated\<close>

record auction_slot =
  as_seller :: string
  as_minPrice :: uint256
  as_highestBidder :: string
  as_highestBid :: uint256
  as_open :: bool
  as_exists :: bool

record auction_storage =
  at_auctions :: "uint256 \<Rightarrow> auction_slot"
  at_pendingReturns :: "string \<Rightarrow> uint256"

definition zero_auction :: auction_slot where
  "zero_auction = \<lparr>as_seller = [], as_minPrice = 0, as_highestBidder = [], as_highestBid = 0,
     as_open = False, as_exists = False\<rparr>"

definition AuctionLogicTranslated :: auction_storage where
  "AuctionLogicTranslated = \<lparr>at_auctions = (\<lambda>_. zero_auction), at_pendingReturns = (\<lambda>_. 0)\<rparr>"

definition auction_CreateAuction ::
    "uint256 \<Rightarrow> string \<Rightarrow> uint256 \<Rightarrow> auction_storage \<Rightarrow> auction_storage evm" where
  "auction_CreateAuction i seller minPrice s =
     require (\<not> as_exists (at_auctions s i)) ''AuctionExists''
     (require (minPrice > 0) ''ZeroMinPrice''
      (Inr (s\<lparr>at_auctions := (at_auctions s)(i :=
        \<lparr>as_seller = seller, as_minPrice = minPrice, as_highestBidder = [], as_highestBid = 0,
         as_open = True, as_exists = True\<rparr>)\<rparr>)))"

text \<open>\<open>pendingReturns[user] += amount\<close>, when there is an amount.\<close>

definition auction_refund :: "string \<Rightarrow> uint256 \<Rightarrow> auction_storage \<Rightarrow> auction_storage evm" where
  "auction_refund user amount s =
     (if amount > 0 then
        res_bind (checked_add (at_pendingReturns s user) amount) (\<lambda>total.
          Inr (s\<lparr>at_pendingReturns := (at_pendingReturns s)(user := total)\<rparr>))
      else Inr s)"

definition auction_Bid :: "uint256 \<Rightarrow> string \<Rightarrow> uint256 \<Rightarrow> auction_storage \<Rightarrow> auction_storage evm" where
  "auction_Bid i bidder amount s =
     (let a = at_auctions s i in
      require (as_exists a) ''MissingAuction''
      (require (as_open a) ''Closed''
       (require (amount \<ge> as_minPrice a \<and> amount > as_highestBid a) ''BidTooLow''
        (res_bind (auction_refund (as_highestBidder a) (as_highestBid a) s) (\<lambda>s1.
          Inr (s1\<lparr>at_auctions := (at_auctions s1)(i :=
            a\<lparr>as_highestBidder := bidder, as_highestBid := amount\<rparr>)\<rparr>))))))"

definition auction_Close :: "uint256 \<Rightarrow> auction_storage \<Rightarrow> auction_storage evm" where
  "auction_Close i s =
     (let a = at_auctions s i in
      require (as_exists a) ''MissingAuction''
      (require (as_open a) ''Closed''
       (auction_refund (as_seller a) (as_highestBid a)
         (s\<lparr>at_auctions := (at_auctions s)(i := a\<lparr>as_open := False\<rparr>)\<rparr>))))"

definition auction_Withdraw :: "string \<Rightarrow> auction_storage \<Rightarrow> uint256 \<times> auction_storage" where
  "auction_Withdraw user s =
     (at_pendingReturns s user, s\<lparr>at_pendingReturns := (at_pendingReturns s)(user := 0)\<rparr>)"

text \<open>The six values \<open>GetAuction\<close> returns.\<close>

definition auction_GetAuction :: "uint256 \<Rightarrow> auction_storage \<Rightarrow> js_prim list" where
  "auction_GetAuction i s =
     (let a = at_auctions s i in
      [PString (as_seller a), PBigint (uint (as_minPrice a)), PString (as_highestBidder a),
       PBigint (uint (as_highestBid a)), PBool (as_open a), PBool (as_exists a)])"

subsection \<open>DEXSwapTranslated\<close>

record dex_storage =
  dt_reserveA :: uint256
  dt_reserveB :: uint256
  dt_totalShares :: uint256
  dt_shares :: "string \<Rightarrow> uint256"

definition DEXSwapTranslated :: dex_storage where
  "DEXSwapTranslated = \<lparr>dt_reserveA = 0, dt_reserveB = 0, dt_totalShares = 0, dt_shares = (\<lambda>_. 0)\<rparr>"

definition dex_Rq2Reset :: "dex_storage \<Rightarrow> dex_storage" where
  "dex_Rq2Reset s = s\<lparr>dt_reserveA := 0, dt_reserveB := 0, dt_totalShares := 0\<rparr>"

definition dex_minted :: "uint256 \<Rightarrow> uint256 \<Rightarrow> dex_storage \<Rightarrow> uint256 evm" where
  "dex_minted amountA amountB s =
     (if dt_totalShares s = 0 then checked_add amountA amountB
      else
        res_bind (checked_mul amountA (dt_totalShares s)) (\<lambda>pA.
        res_bind (checked_div pA (dt_reserveA s)) (\<lambda>shareA.
        res_bind (checked_mul amountB (dt_totalShares s)) (\<lambda>pB.
        res_bind (checked_div pB (dt_reserveB s)) (\<lambda>shareB.
          Inr (if shareA < shareB then shareA else shareB))))))"

definition dex_AddLiquidity ::
    "string \<Rightarrow> uint256 \<Rightarrow> uint256 \<Rightarrow> dex_storage \<Rightarrow> (uint256 \<times> dex_storage) evm" where
  "dex_AddLiquidity user amountA amountB s =
     require (amountA > 0 \<and> amountB > 0) ''ZeroLiquidity''
     (res_bind (dex_minted amountA amountB s) (\<lambda>minted.
      require (minted > 0) ''ZeroShares''
      (res_bind (checked_add (dt_reserveA s) amountA) (\<lambda>reserveA.
       res_bind (checked_add (dt_reserveB s) amountB) (\<lambda>reserveB.
       res_bind (checked_add (dt_totalShares s) minted) (\<lambda>total.
       res_bind (checked_add (dt_shares s user) minted) (\<lambda>share.
         Inr (minted, s\<lparr>dt_reserveA := reserveA, dt_reserveB := reserveB, dt_totalShares := total,
                dt_shares := (dt_shares s)(user := share)\<rparr>))))))))"

definition dex_RemoveLiquidity ::
    "string \<Rightarrow> uint256 \<Rightarrow> dex_storage \<Rightarrow> ((uint256 \<times> uint256) \<times> dex_storage) evm" where
  "dex_RemoveLiquidity user shareAmount s =
     require (shareAmount > 0) ''ZeroShares''
     (require (dt_shares s user \<ge> shareAmount) ''InsufficientShares''
      (res_bind (checked_mul (dt_reserveA s) shareAmount) (\<lambda>pA.
       res_bind (checked_div pA (dt_totalShares s)) (\<lambda>amountA.
       res_bind (checked_mul (dt_reserveB s) shareAmount) (\<lambda>pB.
       res_bind (checked_div pB (dt_totalShares s)) (\<lambda>amountB.
       res_bind (checked_sub (dt_shares s user) shareAmount) (\<lambda>share.
       res_bind (checked_sub (dt_totalShares s) shareAmount) (\<lambda>total.
       res_bind (checked_sub (dt_reserveA s) amountA) (\<lambda>reserveA.
       res_bind (checked_sub (dt_reserveB s) amountB) (\<lambda>reserveB.
         Inr ((amountA, amountB), s\<lparr>dt_shares := (dt_shares s)(user := share),
                dt_totalShares := total, dt_reserveA := reserveA, dt_reserveB := reserveB\<rparr>)))))))))))"

definition dex_SwapAForB :: "string \<Rightarrow> uint256 \<Rightarrow> dex_storage \<Rightarrow> (uint256 \<times> dex_storage) evm" where
  "dex_SwapAForB user amountIn s =
     require (amountIn > 0) ''ZeroInput''
     (require (dt_reserveA s > 0 \<and> dt_reserveB s > 0) ''InsufficientLiquidity''
      (res_bind (checked_mul amountIn 997) (\<lambda>amountInWithFee.
       res_bind (checked_mul amountInWithFee (dt_reserveB s)) (\<lambda>num.
       res_bind (checked_mul (dt_reserveA s) 1000) (\<lambda>scaled.
       res_bind (checked_add scaled amountInWithFee) (\<lambda>den.
       res_bind (checked_div num den) (\<lambda>amountOut.
       require (amountOut > 0 \<and> amountOut < dt_reserveB s) ''InsufficientOutput''
       (res_bind (checked_add (dt_reserveA s) amountIn) (\<lambda>reserveA.
        res_bind (checked_sub (dt_reserveB s) amountOut) (\<lambda>reserveB.
          Inr (amountOut, s\<lparr>dt_reserveA := reserveA, dt_reserveB := reserveB\<rparr>)))))))))))"

end
