(* ===== verification/Diff_Runner.thy ===== *)
theory Diff_Runner
  imports Complex_Main Token_Model Auction_Model Dex_Model Translated_Travel Translated_Ledgers
begin

text \<open>
  \<open>scripts/rq2/run-rq2a.ts\<close>: the differential runner. A case's operations go through the
  reference model and through the deployed translation; the runner stops at the first
  operation whose results differ, and compares the canonical snapshots at the end. The
  contract functions are those of the translated targets on a chain that mines one block per
  transaction; what is not the script's own (file system, JSON, the EVM host) is an argument.
\<close>

subsection \<open>Arguments, contract names and case files\<close>

definition replace_dashes :: "string \<Rightarrow> string" where
  "replace_dashes s = map (\<lambda>c. if c = CHR ''-'' then CHR ''_'' else c) s"

text \<open>\<open>argv.find(arg => arg.startsWith(prefix))\<close> and the rest of that argument.\<close>

definition cli_arg :: "string list \<Rightarrow> string \<Rightarrow> string option" where
  "cli_arg argv name =
     (let prefix = ''--'' @ name @ ''='' in
      map_option (drop (length prefix)) (find (\<lambda>arg. starts_with arg prefix) argv))"

definition rq2_getArg :: "(string \<Rightarrow> string option) \<Rightarrow> string list \<Rightarrow> string \<Rightarrow> string \<Rightarrow> string" where
  "rq2_getArg env argv name fallback =
     (case env (''RQ2_'' @ to_upper (replace_dashes name)) of
        Some v \<Rightarrow> if v \<noteq> [] then v else (case cli_arg argv name of Some a \<Rightarrow> a | None \<Rightarrow> fallback)
      | None \<Rightarrow> (case cli_arg argv name of Some a \<Rightarrow> a | None \<Rightarrow> fallback))"

definition normalizeContract :: "string \<Rightarrow> string" where
  "normalizeContract v =
     (let normalized = filter (\<lambda>c. c \<noteq> CHR ''-'' \<and> c \<noteq> CHR ''_'') (to_lower v) in
      if normalized = ''hotelbooking'' then ''HotelBooking''
      else if normalized = ''trainbooking'' then ''TrainBooking''
      else if normalized = ''tokentransfer'' then ''TokenTransfer''
      else if normalized = ''auctionlogic'' then ''AuctionLogic''
      else if normalized = ''dexswap'' then ''DEXSwap''
      else v)"

definition readJsonl :: "(string \<Rightarrow> 'c res) \<Rightarrow> string \<Rightarrow> 'c list res" where
  "readJsonl parse content =
     res_mapM parse (filter (\<lambda>line. length (js_trim line) > 0) (split_lines [] content))"

record ('i, 'op) rq2_case =
  rc_caseId :: string
  rc_seed :: int
  rc_initial :: 'i
  rc_operations :: "'op list"

record case_result =
  cr_caseId :: string
  cr_seed :: int
  cr_pass :: bool
  failCategory :: "string option"
  failReason :: "string option"
  operationIndex :: "nat option"
  originalSnapshotHash :: "string option"
  translatedSnapshotHash :: "string option"

subsection \<open>Results of calls\<close>

fun resultValues :: "js_value \<Rightarrow> string list" where
  "resultValues (JArray vs) = map prim_string vs"
| "resultValues (JPrim p) = [prim_string p]"
| "resultValues JUndefined = []"

definition revertReason :: "string \<Rightarrow> string" where
  "revertReason message = takeWhile (\<lambda>c. c \<noteq> CHR 0x0A) message"

subsection \<open>What a case touches\<close>

fun hotel_op_user :: "hotel_operation \<Rightarrow> string list" where
  "hotel_op_user (BookLocal u a) = [u]"
| "hotel_op_user (GetAccountBalance u) = [u]"
| "hotel_op_user (GetBooking u) = [u]"
| "hotel_op_user _ = []"

fun hotel_op_lock :: "hotel_operation \<Rightarrow> string list" where
  "hotel_op_lock (LockState l a t) = [l]"
| "hotel_op_lock (UnlockState l) = [l]"
| "hotel_op_lock (IsStateLocked l) = [l]"
| "hotel_op_lock _ = []"

definition hotelTouchedUsers :: "hotel_operation list \<Rightarrow> string list" where
  "hotelTouchedUsers operations = concat (map hotel_op_user operations)"

definition hotelTouchedLocks :: "hotel_operation list \<Rightarrow> string list" where
  "hotelTouchedLocks operations = concat (map hotel_op_lock operations)"

fun token_op_users :: "token_operation \<Rightarrow> string list" where
  "token_op_users (Mint dst a) = [dst]"
| "token_op_users (Transfer src dst a) = [dst, src]"
| "token_op_users (Approve owner spender a) = [owner, spender]"
| "token_op_users (TransferFrom spender src dst a) = [dst, src, spender]"
| "token_op_users (BalanceOf user) = [user]"
| "token_op_users (Allowance owner spender) = [owner, spender]"
| "token_op_users TotalSupply = []"

definition tokenTouchedUsers :: "token_operation list \<Rightarrow> token_initial \<Rightarrow> string list" where
  "tokenTouchedUsers operations initial =
     set_values (map fst (init_balances initial) @ concat (map token_op_users operations))"

fun token_op_pairs :: "token_operation \<Rightarrow> string list" where
  "token_op_pairs (Approve owner spender a) = [allowanceKey owner spender]"
| "token_op_pairs (Allowance owner spender) = [allowanceKey owner spender]"
| "token_op_pairs (TransferFrom spender src dst a) = [allowanceKey src spender]"
| "token_op_pairs _ = []"

definition tokenTouchedAllowancePairs :: "token_operation list \<Rightarrow> string list" where
  "tokenTouchedAllowancePairs operations = set_values (concat (map token_op_pairs operations))"

fun auction_op_id :: "auction_operation \<Rightarrow> string list" where
  "auction_op_id (CreateAuction i s p) = [i]"
| "auction_op_id (Bid i b a) = [i]"
| "auction_op_id (Close i) = [i]"
| "auction_op_id (GetAuction i) = [i]"
| "auction_op_id _ = []"

fun auction_op_users :: "auction_operation \<Rightarrow> string list" where
  "auction_op_users (CreateAuction i s p) = [s]"
| "auction_op_users (Bid i b a) = [b]"
| "auction_op_users (Withdraw u) = [u]"
| "auction_op_users (PendingReturn u) = [u]"
| "auction_op_users _ = []"

definition auctionTouchedIds :: "auction_operation list \<Rightarrow> string list" where
  "auctionTouchedIds operations = concat (map auction_op_id operations)"

definition auctionTouchedUsers :: "auction_operation list \<Rightarrow> string list" where
  "auctionTouchedUsers operations = concat (map auction_op_users operations)"

fun dex_op_user :: "dex_operation \<Rightarrow> string list" where
  "dex_op_user (AddLiquidity u a b) = [u]"
| "dex_op_user (RemoveLiquidity u s) = [u]"
| "dex_op_user (SwapAForB u a) = [u]"
| "dex_op_user (GetShares u) = [u]"
| "dex_op_user _ = []"

definition dexTouchedUsers :: "dex_operation list \<Rightarrow> string list" where
  "dexTouchedUsers operations = concat (map dex_op_user operations)"

subsection \<open>Comparing two results\<close>

text \<open>The index and the values of the first difference of two lists of one length.\<close>

fun first_difference :: "nat \<Rightarrow> string list \<Rightarrow> string list \<Rightarrow> (nat \<times> string \<times> string) option" where
  "first_difference i (x # xs) (y # ys) =
     (if x \<noteq> y then Some (i, x, y) else first_difference (Suc i) xs ys)"
| "first_difference i _ _ = None"

definition error_or_empty :: "operation_result \<Rightarrow> string" where
  "error_or_empty r = (case op_error r of None \<Rightarrow> [] | Some e \<Rightarrow> e)"

definition normalizeCompare :: "operation_result \<Rightarrow> operation_result \<Rightarrow> string option" where
  "normalizeCompare original translated =
     (if op_ok original \<noteq> op_ok translated then
        Some (''status mismatch: original='' @ show_bool (op_ok original)
          @ '' translated='' @ show_bool (op_ok translated)
          @ '' originalError='' @ error_or_empty original
          @ '' translatedError='' @ error_or_empty translated)
      else if \<not> op_ok original then None
      else if length (returnValues original) \<noteq> length (returnValues translated) then
        Some (''return length mismatch: original='' @ join '','' (returnValues original)
          @ '' translated='' @ join '','' (returnValues translated))
      else (case first_difference 0 (returnValues original) (returnValues translated) of
          None \<Rightarrow> None
        | Some (i, x, y) \<Rightarrow> Some (''return mismatch at '' @ show_nat i
            @ '': original='' @ x @ '' translated='' @ y)))"


subsection \<open>Calling a translated contract\<close>

text \<open>
  The shapes of a call in the \<open>executeTranslated\<close> functions: a static call for the value
  followed by the transaction, a transaction alone, a view. Any error is caught and reported
  by the first line of its message.
\<close>

definition call_then_send :: "'c transition \<Rightarrow> 'c chain \<Rightarrow> (string list \<times> 'c chain) evm" where
  "call_then_send f c =
     res_bind (static_call f c) (\<lambda>v. res_bind (send f c) (\<lambda>c'. Inr (resultValues v, c')))"

definition send_only :: "'c transition \<Rightarrow> 'c chain \<Rightarrow> (string list \<times> 'c chain) evm" where
  "send_only f c = res_bind (send f c) (\<lambda>c'. Inr ([], c'))"

definition read_view :: "('c \<Rightarrow> js_value evm) \<Rightarrow> 'c chain \<Rightarrow> (string list \<times> 'c chain) evm" where
  "read_view f c = res_bind (static_call (view f) c) (\<lambda>v. Inr (resultValues v, c))"

definition try_call ::
    "evm_host \<Rightarrow> 'c chain \<Rightarrow> (string list \<times> 'c chain) evm \<Rightarrow> operation_result \<times> 'c chain" where
  "try_call H c r = (case r of
     Inl e \<Rightarrow> (failure (revertReason (error_text H e)), c)
   | Inr (vs, c') \<Rightarrow> (succeed vs, c'))"

text \<open>The functions as transitions that return the words ethers decodes.\<close>

definition returning :: "('a \<Rightarrow> js_value) \<Rightarrow> ('c \<Rightarrow> ('a \<times> 'c) evm) \<Rightarrow> 'c transition" where
  "returning ret f = (\<lambda>b s. res_bind (f s) (\<lambda>(v, s'). Inr (ret v, s')))"

definition silent :: "('c \<Rightarrow> 'c evm) \<Rightarrow> 'c transition" where
  "silent f = (\<lambda>b s. res_bind (f s) (\<lambda>s'. Inr (JUndefined, s')))"

definition ret_pair :: "uint256 \<times> uint256 \<Rightarrow> js_value" where
  "ret_pair p = JArray [PBigint (uint (fst p)), PBigint (uint (snd p))]"

text \<open>
  The booking targets are called through one untyped handle, \<open>contract: any\<close>: what the
  script uses of it is a record of functions, one instance per target.
\<close>

record 'c travel_contract =
  tc_BookLocal :: "string \<Rightarrow> uint256 \<Rightarrow> 'c \<Rightarrow> (uint256 \<times> 'c) evm"
  tc_LockState :: "int \<Rightarrow> string \<Rightarrow> uint256 \<Rightarrow> uint256 \<Rightarrow> 'c \<Rightarrow> ((uint256 \<times> uint256) \<times> 'c) evm"
  tc_UnlockState :: "string \<Rightarrow> 'c \<Rightarrow> 'c evm"
  tc_GetPrice :: "'c \<Rightarrow> uint256"
  tc_GetRemain :: "'c \<Rightarrow> uint256"
  tc_GetAvailableRemain :: "'c \<Rightarrow> uint256 evm"
  tc_GetLockedTotal :: "'c \<Rightarrow> uint256"
  tc_GetAccountBalance :: "string \<Rightarrow> 'c \<Rightarrow> uint256"
  tc_GetBooking :: "string \<Rightarrow> 'c \<Rightarrow> uint256"
  tc_IsStateLocked :: "string \<Rightarrow> 'c \<Rightarrow> bool"
  tc_GetLockAmount :: "string \<Rightarrow> 'c \<Rightarrow> uint256"

definition hotel_contract :: "hotel_storage travel_contract" where
  "hotel_contract =
     \<lparr>tc_BookLocal = ubtl_BookLocal, tc_LockState = ubtl_LockState, tc_UnlockState = ubtl_UnlockState,
      tc_GetPrice = (\<lambda>s. mt_price (hs_meta s)), tc_GetRemain = (\<lambda>s. mt_remain (hs_meta s)),
      tc_GetAvailableRemain = ubtl_available_units, tc_GetLockedTotal = hs_lockedTotal,
      tc_GetAccountBalance = (\<lambda>u s. hs_accounts s u), tc_GetBooking = (\<lambda>u s. hs_bookings s u),
      tc_IsStateLocked = (\<lambda>l s. lk_active (hs_locks s l)),
      tc_GetLockAmount = (\<lambda>l s. lk_lockedAmount (hs_locks s l))\<rparr>"

definition train_contract :: "train_storage travel_contract" where
  "train_contract =
     \<lparr>tc_BookLocal = train_BookLocal, tc_LockState = (\<lambda>b. train_LockState),
      tc_UnlockState = train_UnlockState,
      tc_GetPrice = ts_price, tc_GetRemain = ts_remain,
      tc_GetAvailableRemain = train_GetAvailableRemain, tc_GetLockedTotal = ts_lockedTotal,
      tc_GetAccountBalance = (\<lambda>u s. ts_accounts s u), tc_GetBooking = (\<lambda>u s. ts_bookings s u),
      tc_IsStateLocked = (\<lambda>l s. tl_active (ts_locks s l)),
      tc_GetLockAmount = (\<lambda>l s. tl_lockedAmount (ts_locks s l))\<rparr>"

fun travel_call ::
    "evm_host \<Rightarrow> 'c travel_contract \<Rightarrow> 'c chain \<Rightarrow> hotel_operation \<Rightarrow> (string list \<times> 'c chain) evm" where
  "travel_call H C c (BookLocal user amount) =
     with_uint H amount (\<lambda>a. call_then_send (returning ret_uint (tc_BookLocal C user a)) c)"
| "travel_call H C c (LockState lockId amount timeoutBlocks) =
     with_uint H amount (\<lambda>a. with_uint H timeoutBlocks (\<lambda>t.
       call_then_send (\<lambda>b. returning ret_pair (tc_LockState C b lockId a t) b) c))"
| "travel_call H C c (UnlockState lockId) = send_only (silent (tc_UnlockState C lockId)) c"
| "travel_call H C c GetPrice = read_view (\<lambda>s. Inr (ret_uint (tc_GetPrice C s))) c"
| "travel_call H C c GetRemain = read_view (\<lambda>s. Inr (ret_uint (tc_GetRemain C s))) c"
| "travel_call H C c GetAvailableRemain =
     read_view (\<lambda>s. res_bind (tc_GetAvailableRemain C s) (\<lambda>w. Inr (ret_uint w))) c"
| "travel_call H C c (GetAccountBalance user) =
     read_view (\<lambda>s. Inr (ret_uint (tc_GetAccountBalance C user s))) c"
| "travel_call H C c (GetBooking user) = read_view (\<lambda>s. Inr (ret_uint (tc_GetBooking C user s))) c"
| "travel_call H C c (IsStateLocked lockId) =
     read_view (\<lambda>s. Inr (ret_bool (tc_IsStateLocked C lockId s))) c"

definition executeTranslated ::
    "evm_host \<Rightarrow> 'c travel_contract \<Rightarrow> 'c chain \<Rightarrow> hotel_operation \<Rightarrow> operation_result \<times> 'c chain" where
  "executeTranslated H C c operation = try_call H c (travel_call H C c operation)"

fun token_call ::
    "evm_host \<Rightarrow> token_storage chain \<Rightarrow> token_operation \<Rightarrow> (string list \<times> token_storage chain) evm" where
  "token_call H c (Mint dst amount) =
     with_uint H amount (\<lambda>a. send_only (silent (token_Mint dst a)) c)"
| "token_call H c (Transfer src dst amount) =
     with_uint H amount (\<lambda>a. send_only (silent (token_Transfer src dst a)) c)"
| "token_call H c (Approve owner spender amount) =
     with_uint H amount (\<lambda>a. send_only (silent (\<lambda>s. Inr (token_Approve H owner spender a s))) c)"
| "token_call H c (TransferFrom spender src dst amount) =
     with_uint H amount (\<lambda>a. send_only (silent (token_TransferFrom H spender src dst a)) c)"
| "token_call H c (BalanceOf user) = read_view (\<lambda>s. Inr (ret_uint (tt_balances s user))) c"
| "token_call H c (Allowance owner spender) =
     read_view (\<lambda>s. Inr (ret_uint (token_Allowance H owner spender s))) c"
| "token_call H c TotalSupply = read_view (\<lambda>s. Inr (ret_uint (tt_totalSupply s))) c"

definition executeTranslatedToken ::
    "evm_host \<Rightarrow> token_storage chain \<Rightarrow> token_operation \<Rightarrow> operation_result \<times> token_storage chain" where
  "executeTranslatedToken H c operation = try_call H c (token_call H c operation)"

fun auction_call ::
    "evm_host \<Rightarrow> auction_storage chain \<Rightarrow> auction_operation \<Rightarrow> (string list \<times> auction_storage chain) evm" where
  "auction_call H c (CreateAuction i seller minPrice) =
     with_uint H i (\<lambda>k. with_uint H minPrice (\<lambda>p. send_only (silent (auction_CreateAuction k seller p)) c))"
| "auction_call H c (Bid i bidder amount) =
     with_uint H i (\<lambda>k. with_uint H amount (\<lambda>a. send_only (silent (auction_Bid k bidder a)) c))"
| "auction_call H c (Close i) = with_uint H i (\<lambda>k. send_only (silent (auction_Close k)) c)"
| "auction_call H c (Withdraw user) =
     call_then_send (returning ret_uint (\<lambda>s. Inr (auction_Withdraw user s))) c"
| "auction_call H c (GetAuction i) =
     with_uint H i (\<lambda>k. read_view (\<lambda>s. Inr (JArray (auction_GetAuction k s))) c)"
| "auction_call H c (PendingReturn user) =
     read_view (\<lambda>s. Inr (ret_uint (at_pendingReturns s user))) c"

definition executeTranslatedAuction ::
    "evm_host \<Rightarrow> auction_storage chain \<Rightarrow> auction_operation \<Rightarrow> operation_result \<times> auction_storage chain" where
  "executeTranslatedAuction H c operation = try_call H c (auction_call H c operation)"

fun dex_call ::
    "evm_host \<Rightarrow> dex_storage chain \<Rightarrow> dex_operation \<Rightarrow> (string list \<times> dex_storage chain) evm" where
  "dex_call H c (AddLiquidity user amountA amountB) =
     with_uint H amountA (\<lambda>a. with_uint H amountB (\<lambda>b.
       call_then_send (returning ret_uint (dex_AddLiquidity user a b)) c))"
| "dex_call H c (RemoveLiquidity user shares) =
     with_uint H shares (\<lambda>s. call_then_send (returning ret_pair (dex_RemoveLiquidity user s)) c)"
| "dex_call H c (SwapAForB user amountIn) =
     with_uint H amountIn (\<lambda>a. call_then_send (returning ret_uint (dex_SwapAForB user a)) c)"
| "dex_call H c GetReserves = read_view (\<lambda>s. Inr (ret_pair (dt_reserveA s, dt_reserveB s))) c"
| "dex_call H c (GetShares user) = read_view (\<lambda>s. Inr (ret_uint (dt_shares s user))) c"
| "dex_call H c TotalShares = read_view (\<lambda>s. Inr (ret_uint (dt_totalShares s))) c"

definition executeTranslatedDex ::
    "evm_host \<Rightarrow> dex_storage chain \<Rightarrow> dex_operation \<Rightarrow> operation_result \<times> dex_storage chain" where
  "executeTranslatedDex H c operation = try_call H c (dex_call H c operation)"

subsection \<open>Initial states\<close>

text \<open>An uncaught error ends the run with its message.\<close>

definition uncaught :: "evm_host \<Rightarrow> 'a evm \<Rightarrow> 'a res" where
  "uncaught H r = (case r of Inl e \<Rightarrow> Inl (error_text H e) | Inr v \<Rightarrow> Inr v)"

definition initTranslatedHotel ::
    "evm_host \<Rightarrow> hotel_storage chain \<Rightarrow> hotel_initial \<Rightarrow> hotel_storage chain evm" where
  "initTranslatedHotel H c initial =
     with_uint H (init_price initial) (\<lambda>price.
     with_uint H (init_remain initial) (\<lambda>remain.
     with_uint H (init_lockSize initial) (\<lambda>lockSize.
       let metaValue = abi_encode_meta H (init_bridge initial) price remain lockSize;
           lockTotalValue = abi_encode_uint H 0 in
       res_bind (send (silent (vassp_apply H (meta_slot H) metaValue)) c)
         (send (silent (vassp_apply H (lock_total_slot H) lockTotalValue))))))"

fun initTranslatedToken ::
    "evm_host \<Rightarrow> token_storage chain \<Rightarrow> (string \<times> string) list \<Rightarrow> token_storage chain res" where
  "initTranslatedToken H c [] = Inr c"
| "initTranslatedToken H c ((user, amount) # rest) =
     res_bind (BigInt amount) (\<lambda>n.
       if n > 0 then
         res_bind (uncaught H (with_uint H amount (\<lambda>a. send (silent (token_Mint user a)) c)))
           (\<lambda>c'. initTranslatedToken H c' rest)
       else initTranslatedToken H c rest)"

definition deployTrain :: "evm_host \<Rightarrow> hotel_initial \<Rightarrow> train_storage chain evm" where
  "deployTrain H initial =
     with_uint H (init_price initial) (\<lambda>price.
     with_uint H (init_remain initial) (\<lambda>remain.
     with_uint H (init_lockSize initial) (\<lambda>lockSize.
       res_bind (TrainBookingTranslated (init_bridge initial) price remain lockSize)
         (\<lambda>s. Inr (deploy s)))))"


subsection \<open>Snapshots of the translated state\<close>

definition word_entry :: "string \<Rightarrow> uint256 \<Rightarrow> snapshot_entry" where
  "word_entry k w = uint_entry k (uint w)"

definition text_entry :: "string \<Rightarrow> string \<Rightarrow> snapshot_entry" where
  "text_entry k t = \<lparr>entry_key = k, entry_value = SUint256 (ScalarString t)\<rparr>"

definition translated_user_entries :: "'c travel_contract \<Rightarrow> 'c \<Rightarrow> string \<Rightarrow> snapshot_entry list" where
  "translated_user_entries C s user =
     [word_entry (''accounts.'' @ user) (tc_GetAccountBalance C user s),
      word_entry (''bookings.'' @ user) (tc_GetBooking C user s)]"

definition translated_lock_entries :: "'c travel_contract \<Rightarrow> 'c \<Rightarrow> string \<Rightarrow> snapshot_entry list" where
  "translated_lock_entries C s lockId =
     [bool_entry (''locks.'' @ lockId @ ''.active'') (tc_IsStateLocked C lockId s),
      word_entry (''locks.'' @ lockId @ ''.lockedAmount'') (tc_GetLockAmount C lockId s)]"

definition translated_travel_entries ::
    "'c travel_contract \<Rightarrow> 'c \<Rightarrow> hotel_initial \<Rightarrow> string list \<Rightarrow> string list \<Rightarrow> snapshot_entry list evm" where
  "translated_travel_entries C s initial touchedUsers touchedLocks =
     res_bind (tc_GetAvailableRemain C s) (\<lambda>available.
       Inr ([string_entry ''meta.bridge'' (init_bridge initial),
             word_entry ''meta.price'' (tc_GetPrice C s),
             word_entry ''meta.remain'' (tc_GetRemain C s),
             text_entry ''meta.lockSize'' (init_lockSize initial),
             word_entry ''availableRemain'' available,
             word_entry ''lockedTotal'' (tc_GetLockedTotal C s)]
            @ concat (map (translated_user_entries C s) (sorted_members touchedUsers))
            @ concat (map (translated_lock_entries C s) (sorted_members touchedLocks))))"

definition translatedTravelSnapshot ::
    "(string \<Rightarrow> string \<Rightarrow> int) \<Rightarrow> ethers \<Rightarrow> evm_host \<Rightarrow> string \<Rightarrow> 'c travel_contract \<Rightarrow> 'c chain \<Rightarrow>
     hotel_initial \<Rightarrow> string list \<Rightarrow> string list \<Rightarrow> snapshot_result res" where
  "translatedTravelSnapshot lc E H contractName C c initial touchedUsers touchedLocks =
     res_bind (uncaught H (translated_travel_entries C (contract_state c) initial touchedUsers touchedLocks))
       (canonicalSnapshot lc E contractName)"

definition translatedSnapshot ::
    "(string \<Rightarrow> string \<Rightarrow> int) \<Rightarrow> ethers \<Rightarrow> evm_host \<Rightarrow> hotel_storage chain \<Rightarrow>
     hotel_initial \<Rightarrow> string list \<Rightarrow> string list \<Rightarrow> snapshot_result res" where
  "translatedSnapshot lc E H c initial touchedUsers touchedLocks =
     res_bind (uncaught H (translated_travel_entries hotel_contract (contract_state c) initial
         touchedUsers touchedLocks))
       (canonicalSnapshot lc E ''HotelBooking'')"

text \<open>\<open>const [owner, spender] = pair.split("\0")\<close>.\<close>

definition split_pair :: "string \<Rightarrow> string \<times> string" where
  "split_pair pair =
     (let f = takeWhile (\<lambda>c. c \<noteq> CHR 0x00) in (f pair, f (drop (Suc (length (f pair))) pair)))"

definition translatedTokenSnapshot ::
    "(string \<Rightarrow> string \<Rightarrow> int) \<Rightarrow> ethers \<Rightarrow> evm_host \<Rightarrow> token_storage chain \<Rightarrow>
     string list \<Rightarrow> string list \<Rightarrow> snapshot_result res" where
  "translatedTokenSnapshot lc E H c users allowancePairs =
     (let s = contract_state c in
      canonicalSnapshot lc E ''TokenTransfer''
        (word_entry ''totalSupply'' (tt_totalSupply s)
         # map (\<lambda>user. word_entry (''balances.'' @ user) (tt_balances s user)) (sorted_members users)
         @ map (\<lambda>pair. word_entry (''allowances.'' @ pair)
               (token_Allowance H (fst (split_pair pair)) (snd (split_pair pair)) s))
             (sorted_members allowancePairs)))"

text \<open>The fields of the array \<open>GetAuction\<close> returns, as the script indexes them.\<close>

definition translated_auction_entries :: "auction_storage \<Rightarrow> string \<Rightarrow> uint256 \<Rightarrow> snapshot_entry list" where
  "translated_auction_entries s i k =
     (let a = at_auctions s k; p = ''auction.'' @ i in
      [string_entry (p @ ''.seller'') (as_seller a),
       word_entry (p @ ''.minPrice'') (as_minPrice a),
       string_entry (p @ ''.highestBidder'') (as_highestBidder a),
       word_entry (p @ ''.highestBid'') (as_highestBid a),
       bool_entry (p @ ''.open'') (as_open a),
       bool_entry (p @ ''.exists'') (as_exists a)])"

definition translatedAuctionSnapshot ::
    "(string \<Rightarrow> string \<Rightarrow> int) \<Rightarrow> ethers \<Rightarrow> evm_host \<Rightarrow> auction_storage chain \<Rightarrow>
     string list \<Rightarrow> string list \<Rightarrow> snapshot_result res" where
  "translatedAuctionSnapshot lc E H c ids users =
     (let s = contract_state c in
      res_bind (uncaught H (res_mapM (\<lambda>i. with_uint H i (\<lambda>k. Inr (translated_auction_entries s i k)))
          (sorted_members ids))) (\<lambda>parts.
        canonicalSnapshot lc E ''AuctionLogic''
          (concat parts
           @ map (\<lambda>user. word_entry (''pending.'' @ user) (at_pendingReturns s user)) (sorted_members users))))"

definition translatedDexSnapshot ::
    "(string \<Rightarrow> string \<Rightarrow> int) \<Rightarrow> ethers \<Rightarrow> dex_storage chain \<Rightarrow> string list \<Rightarrow> snapshot_result res" where
  "translatedDexSnapshot lc E c users =
     (let s = contract_state c in
      canonicalSnapshot lc E ''DEXSwap''
        ([word_entry ''reserveA'' (dt_reserveA s), word_entry ''reserveB'' (dt_reserveB s),
          word_entry ''totalShares'' (dt_totalShares s)]
         @ map (\<lambda>user. word_entry (''shares.'' @ user) (dt_shares s user)) (sorted_members users)))"

subsection \<open>Running a case\<close>

text \<open>The loop over the operations: the first mismatch with its index, or the final states.\<close>

fun compare_ops ::
    "('s \<Rightarrow> 'op \<Rightarrow> operation_result \<times> 's) \<Rightarrow> ('t \<Rightarrow> 'op \<Rightarrow> operation_result \<times> 't) \<Rightarrow>
     nat \<Rightarrow> 's \<Rightarrow> 't \<Rightarrow> 'op list \<Rightarrow> (nat \<times> string) + ('s \<times> 't)" where
  "compare_ops exec_o exec_t i s t [] = Inr (s, t)"
| "compare_ops exec_o exec_t i s t (x # xs) =
     (let (ro, s') = exec_o s x; (rt, t') = exec_t t x in
      case normalizeCompare ro rt of
        Some mismatch \<Rightarrow> Inl (i, mismatch)
      | None \<Rightarrow> compare_ops exec_o exec_t (Suc i) s' t' xs)"

definition mismatch_result :: "('i, 'op) rq2_case \<Rightarrow> nat \<Rightarrow> string \<Rightarrow> case_result" where
  "mismatch_result testCase i mismatch =
     \<lparr>cr_caseId = rc_caseId testCase, cr_seed = rc_seed testCase, cr_pass = False,
      failCategory = Some (if starts_with mismatch ''status mismatch'' then ''status_mismatch''
        else ''return_mismatch''),
      failReason = Some mismatch, operationIndex = Some i,
      originalSnapshotHash = None, translatedSnapshotHash = None\<rparr>"

definition snapshot_verdict ::
    "('i, 'op) rq2_case \<Rightarrow> snapshot_result \<Rightarrow> snapshot_result \<Rightarrow> case_result" where
  "snapshot_verdict testCase original translated =
     (let ok = bytesHex original = bytesHex translated in
      \<lparr>cr_caseId = rc_caseId testCase, cr_seed = rc_seed testCase, cr_pass = ok,
       failCategory = (if ok then None else Some ''state_mismatch''),
       failReason = (if ok then None else Some ''canonical snapshot bytes differ''),
       operationIndex = None,
       originalSnapshotHash = Some (snapshot_hash original),
       translatedSnapshotHash = Some (snapshot_hash translated)\<rparr>)"

text \<open>What the five \<open>run*Case\<close> functions share, from the two initial states on.\<close>

definition run_case ::
    "('s \<Rightarrow> 'op \<Rightarrow> operation_result \<times> 's) \<Rightarrow> ('t \<Rightarrow> 'op \<Rightarrow> operation_result \<times> 't) \<Rightarrow>
     ('s \<Rightarrow> snapshot_result res) \<Rightarrow> ('t \<Rightarrow> snapshot_result res) \<Rightarrow>
     's \<Rightarrow> 't \<Rightarrow> ('i, 'op) rq2_case \<Rightarrow> case_result res" where
  "run_case exec_o exec_t snap_o snap_t s t testCase =
     (case compare_ops exec_o exec_t 0 s t (rc_operations testCase) of
        Inl (i, mismatch) \<Rightarrow> Inr (mismatch_result testCase i mismatch)
      | Inr (s', t') \<Rightarrow>
          res_bind (snap_o s') (\<lambda>so. res_bind (snap_t t') (\<lambda>st. Inr (snapshot_verdict testCase so st))))"

definition runHotelCase ::
    "(string \<Rightarrow> string \<Rightarrow> int) \<Rightarrow> ethers \<Rightarrow> evm_host \<Rightarrow> (hotel_initial, hotel_operation) rq2_case \<Rightarrow>
     case_result res" where
  "runHotelCase lc E H testCase =
     res_bind (new_HotelBookingModel (rc_initial testCase)) (\<lambda>original.
     res_bind (uncaught H (initTranslatedHotel H (deploy HotelBookingTranslated) (rc_initial testCase)))
       (\<lambda>translated.
         let users = hotelTouchedUsers (rc_operations testCase);
             locks = hotelTouchedLocks (rc_operations testCase) in
         run_case hotel_execute (executeTranslated H hotel_contract)
           (\<lambda>h. hotel_snapshot lc E h users locks)
           (\<lambda>c. translatedSnapshot lc E H c (rc_initial testCase) users locks)
           original translated testCase))"

definition runTrainCase ::
    "(string \<Rightarrow> string \<Rightarrow> int) \<Rightarrow> ethers \<Rightarrow> evm_host \<Rightarrow> (hotel_initial, hotel_operation) rq2_case \<Rightarrow>
     case_result res" where
  "runTrainCase lc E H testCase =
     res_bind (new_HotelBookingModel (rc_initial testCase)) (\<lambda>original.
     res_bind (uncaught H (deployTrain H (rc_initial testCase))) (\<lambda>translated.
         let users = hotelTouchedUsers (rc_operations testCase);
             locks = hotelTouchedLocks (rc_operations testCase) in
         run_case hotel_execute (executeTranslated H train_contract)
           (\<lambda>h. train_snapshot lc E h users locks)
           (\<lambda>c. translatedTravelSnapshot lc E H ''TrainBooking'' train_contract c
              (rc_initial testCase) users locks)
           original translated testCase))"

definition runTokenCase ::
    "(string \<Rightarrow> string \<Rightarrow> int) \<Rightarrow> ethers \<Rightarrow> evm_host \<Rightarrow> (token_initial, token_operation) rq2_case \<Rightarrow>
     case_result res" where
  "runTokenCase lc E H testCase =
     res_bind (new_TokenTransferModel (rc_initial testCase)) (\<lambda>original.
     res_bind (initTranslatedToken H (deploy TokenTransferTranslated) (init_balances (rc_initial testCase)))
       (\<lambda>translated.
         let users = tokenTouchedUsers (rc_operations testCase) (rc_initial testCase);
             pairs = tokenTouchedAllowancePairs (rc_operations testCase) in
         run_case token_execute (executeTranslatedToken H)
           (\<lambda>t. token_snapshot lc E t users pairs)
           (\<lambda>c. translatedTokenSnapshot lc E H c users pairs)
           original translated testCase))"

definition runAuctionCase ::
    "(string \<Rightarrow> string \<Rightarrow> int) \<Rightarrow> ethers \<Rightarrow> evm_host \<Rightarrow> (unit, auction_operation) rq2_case \<Rightarrow>
     case_result res" where
  "runAuctionCase lc E H testCase =
     (let ids = auctionTouchedIds (rc_operations testCase);
          users = auctionTouchedUsers (rc_operations testCase) in
      run_case auction_execute (executeTranslatedAuction H)
        (\<lambda>h. auction_snapshot lc E h ids users)
        (\<lambda>c. translatedAuctionSnapshot lc E H c ids users)
        new_AuctionLogicModel (deploy AuctionLogicTranslated) testCase)"

definition runDexCase ::
    "(string \<Rightarrow> string \<Rightarrow> int) \<Rightarrow> ethers \<Rightarrow> evm_host \<Rightarrow> (unit, dex_operation) rq2_case \<Rightarrow>
     case_result res" where
  "runDexCase lc E H testCase =
     (let users = dexTouchedUsers (rc_operations testCase) in
      run_case dex_execute (executeTranslatedDex H)
        (\<lambda>d. dex_snapshot lc E d users)
        (\<lambda>c. translatedDexSnapshot lc E c users)
        new_DEXSwapModel (deploy DEXSwapTranslated) testCase)"

subsection \<open>The report\<close>

record rq2_output =
  ro_contract :: string
  ro_runs :: nat
  ro_pass :: nat
  ro_fail :: nat
  ro_passRate :: rat
  ro_failByCategory :: "(string \<times> nat) list"
  ro_results :: "case_result list"

datatype rq2_report = MissingAsset string | Report rq2_output

text \<open>\<open>failByCategory[category] = (failByCategory[category] ?? 0) + 1\<close>, in insertion order.\<close>

fun bump :: "string \<Rightarrow> (string \<times> nat) list \<Rightarrow> (string \<times> nat) list" where
  "bump k [] = [(k, 1)]"
| "bump k ((j, n) # rest) = (if j = k then (j, n + 1) # rest else (j, n) # bump k rest)"

definition count_failure :: "(string \<times> nat) list \<Rightarrow> case_result \<Rightarrow> (string \<times> nat) list" where
  "count_failure m r =
     (if cr_pass r then m
      else bump (case failCategory r of Some c \<Rightarrow> c | None \<Rightarrow> ''unknown'') m)"

definition rq2_summary :: "string \<Rightarrow> case_result list \<Rightarrow> rq2_output" where
  "rq2_summary contract results =
     (let pass = length (filter cr_pass results) in
      \<lparr>ro_contract = contract, ro_runs = length results, ro_pass = pass,
       ro_fail = length results - pass,
       ro_passRate = (if length results = 0 then 0 else of_nat pass / of_nat (length results)),
       ro_failByCategory = foldl count_failure [] results,
       ro_results = results\<rparr>)"

definition supported_contracts :: "string list" where
  "supported_contracts =
     [''HotelBooking'', ''TrainBooking'', ''TokenTransfer'', ''AuctionLogic'', ''DEXSwap'']"

text \<open>
  \<open>main\<close> after the case file is read: an unsupported contract is reported at the first
  case, so an empty case file yields an empty report for any name.
\<close>

definition rq2_main :: "string \<Rightarrow> ('c \<Rightarrow> case_result res) \<Rightarrow> 'c list \<Rightarrow> rq2_report res" where
  "rq2_main contract run_one cases =
     (if cases \<noteq> [] \<and> contract \<notin> set supported_contracts then Inr (MissingAsset contract)
      else res_bind (res_mapM run_one cases) (\<lambda>results. Inr (Report (rq2_summary contract results))))"

text \<open>The failures file: one result per failed case, in order.\<close>

definition failures_file :: "rq2_output \<Rightarrow> case_result list" where
  "failures_file output = filter (\<lambda>r. \<not> cr_pass r) (ro_results output)"


subsection \<open>What a comparison decides\<close>

definition agree :: "operation_result \<Rightarrow> operation_result \<Rightarrow> bool" where
  "agree ro rt \<longleftrightarrow> op_ok ro = op_ok rt \<and> (op_ok ro \<longrightarrow> returnValues ro = returnValues rt)"

lemma first_difference_None:
  "length xs = length ys \<Longrightarrow> first_difference i xs ys = None \<longleftrightarrow> xs = ys"
  by (induction i xs ys rule: first_difference.induct) auto

lemma normalizeCompare_None: "normalizeCompare ro rt = None \<longleftrightarrow> agree ro rt"
proof (cases "op_ok ro = op_ok rt \<and> op_ok ro \<and> length (returnValues ro) = length (returnValues rt)")
  case True
  then show ?thesis
    using first_difference_None [of "returnValues ro" "returnValues rt" 0]
    by (auto simp: normalizeCompare_def agree_def split: option.splits)
next
  case False
  then show ?thesis by (auto simp: normalizeCompare_def agree_def)
qed

text \<open>A run of the loop ends well exactly when all results agree.\<close>

lemma compare_ops_Inr_iff:
  "compare_ops exec_o exec_t i s t xs = Inr (s', t') \<longleftrightarrow>
     list_all2 agree (run_results exec_o s xs) (run_results exec_t t xs) \<and>
     s' = run_ops exec_o s xs \<and> t' = run_ops exec_t t xs"
proof (induction xs arbitrary: i s t)
  case Nil
  then show ?case by auto
next
  case (Cons x xs)
  obtain ro s1 rt t1 where e: "exec_o s x = (ro, s1)" "exec_t t x = (rt, t1)"
    by (metis surj_pair)
  show ?case
    using Cons [of "Suc i" s1 t1] normalizeCompare_None [of ro rt]
    by (cases "normalizeCompare ro rt") (auto simp: e)
qed

text \<open>Otherwise it names the first operation whose results differ.\<close>

lemma compare_ops_Inl:
  assumes "compare_ops exec_o exec_t i s t xs = Inl (j, m)"
  shows "i \<le> j \<and> j - i < length xs \<and>
    list_all2 agree (run_results exec_o s (take (j - i) xs)) (run_results exec_t t (take (j - i) xs)) \<and>
    normalizeCompare (fst (exec_o (run_ops exec_o s (take (j - i) xs)) (xs ! (j - i))))
      (fst (exec_t (run_ops exec_t t (take (j - i) xs)) (xs ! (j - i)))) = Some m"
  using assms
proof (induction xs arbitrary: i s t)
  case (Cons x xs)
  obtain ro s1 rt t1 where e: "exec_o s x = (ro, s1)" "exec_t t x = (rt, t1)"
    by (metis surj_pair)
  show ?case
  proof (cases "normalizeCompare ro rt")
    case None
    with Cons.prems have rest: "compare_ops exec_o exec_t (Suc i) s1 t1 xs = Inl (j, m)"
      by (simp add: e)
    have "agree ro rt" using None by (simp add: normalizeCompare_None)
    moreover obtain d where d: "j - i = Suc d" "j - Suc i = d" "Suc i \<le> j"
      using Cons.IH [OF rest] by (metis Suc_diff_Suc Suc_le_lessD)
    ultimately show ?thesis
      using Cons.IH [OF rest] e unfolding d(1,2) by simp
  qed (use Cons.prems in \<open>simp add: e\<close>)
qed simp

text \<open>
  Two implementations of the same operations. \<open>sim n s t\<close> relates their states while
  \<open>n\<close> more operations may follow, so that a relation can spend a budget, as the bounds on
  \<open>uint256\<close> values do.
\<close>

locale differential =
  fixes exec_o :: "'s \<Rightarrow> 'op \<Rightarrow> operation_result \<times> 's"
    and exec_t :: "'t \<Rightarrow> 'op \<Rightarrow> operation_result \<times> 't"
    and sim :: "nat \<Rightarrow> 's \<Rightarrow> 't \<Rightarrow> bool"
    and legal :: "'op \<Rightarrow> bool"
  assumes step_agree: "sim (Suc n) s t \<Longrightarrow> legal x \<Longrightarrow> agree (fst (exec_o s x)) (fst (exec_t t x))"
    and step_sim: "sim (Suc n) s t \<Longrightarrow> legal x \<Longrightarrow> sim n (snd (exec_o s x)) (snd (exec_t t x))"
begin

lemma run_agree:
  "sim (length xs + k) s t \<Longrightarrow> \<forall>x \<in> set xs. legal x \<Longrightarrow>
   list_all2 agree (run_results exec_o s xs) (run_results exec_t t xs) \<and>
   sim k (run_ops exec_o s xs) (run_ops exec_t t xs)"
proof (induction xs arbitrary: s t)
  case (Cons x xs)
  have s: "sim (Suc (length xs + k)) s t" "legal x" using Cons.prems by auto
  have "list_all2 agree (run_results exec_o (snd (exec_o s x)) xs) (run_results exec_t (snd (exec_t t x)) xs) \<and>
      sim k (run_ops exec_o (snd (exec_o s x)) xs) (run_ops exec_t (snd (exec_t t x)) xs)"
    using Cons.prems(2) step_sim [OF s] by (intro Cons.IH) auto
  then show ?case using step_agree [OF s] by simp
qed simp

lemma compare_passes:
  assumes "sim (length xs) s t" and "\<forall>x \<in> set xs. legal x"
  shows "compare_ops exec_o exec_t i s t xs = Inr (run_ops exec_o s xs, run_ops exec_t t xs)"
    and "sim 0 (run_ops exec_o s xs) (run_ops exec_t t xs)"
  using run_agree [of xs 0 s t] assms by (simp_all add: compare_ops_Inr_iff)

text \<open>Related initial states and a snapshot that respects the relation make a case pass.\<close>

lemma case_passes:
  assumes "sim (length (rc_operations testCase)) s t"
    and "\<forall>x \<in> set (rc_operations testCase). legal x"
    and "\<And>t'. sim 0 (run_ops exec_o s (rc_operations testCase)) t' \<Longrightarrow>
      \<exists>r. snap_o (run_ops exec_o s (rc_operations testCase)) = Inr r \<and> snap_t t' = Inr r"
  shows "\<exists>result. run_case exec_o exec_t snap_o snap_t s t testCase = Inr result \<and> cr_pass result"
proof -
  obtain r where "snap_o (run_ops exec_o s (rc_operations testCase)) = Inr r"
    "snap_t (run_ops exec_t t (rc_operations testCase)) = Inr r"
    using assms(3) [OF compare_passes(2) [OF assms(1,2)]] by blast
  then show ?thesis
    using compare_passes(1) [OF assms(1,2), of 0] by (simp add: run_case_def snapshot_verdict_def)
qed

end

text \<open>Snapshots of equal content, whichever way each side writes a number down.\<close>

lemma sort_by_related:
  assumes "list_all2 P xs ys" and "\<And>x y u v. P x y \<Longrightarrow> P u v \<Longrightarrow> cmp x u = cmp y v"
  shows "list_all2 P (sort_by cmp xs) (sort_by cmp ys)"
  using assms(1)
proof (induction xs ys rule: list_all2_induct)
  case (Cons x xs y ys)
  have "list_all2 P us vs \<Longrightarrow> list_all2 P (insert_by cmp x us) (insert_by cmp y vs)" for us vs
    by (induction us vs rule: list_all2_induct) (use Cons.hyps assms(2) in auto)
  with Cons show ?case by simp
qed simp

definition same_encoding :: "ethers \<Rightarrow> snapshot_entry \<Rightarrow> snapshot_entry \<Rightarrow> bool" where
  "same_encoding E e f \<longleftrightarrow> entry_key e = entry_key f \<and> encode_entry E e = encode_entry E f"

lemma same_encoding_refl [simp]: "same_encoding E e e"
  by (simp add: same_encoding_def)

lemma same_encoding_text [simp]: "same_encoding E (uint_entry k n) (text_entry k (show_int n))"
  by (simp add: same_encoding_def uint_entry_def text_entry_def encode_entry_def uint256Bytes_def
      scalar_bigint_def scalar_string_def)

lemma canonicalSnapshot_cong:
  assumes "list_all2 (same_encoding E) es fs"
  shows "canonicalSnapshot lc E contract es = canonicalSnapshot lc E contract fs"
proof -
  have "list_all2 (same_encoding E) (sort_by (compare_keys lc) es) (sort_by (compare_keys lc) fs)"
    using assms by (rule sort_by_related) (simp add: same_encoding_def compare_keys_def)
  then have "res_mapM (encode_entry E) (sort_by (compare_keys lc) es) =
      res_mapM (encode_entry E) (sort_by (compare_keys lc) fs)"
    by (induction rule: list_all2_induct) (simp_all add: same_encoding_def)
  then show ?thesis by (simp add: canonicalSnapshot_def snapshot_bytes_def)
qed

text \<open>Names short enough for the length prefixes of the snapshot.\<close>

definition brief :: "string \<Rightarrow> bool" where
  "brief s \<longleftrightarrow> length s < 2 ^ 30"

lemma brief_short: "brief s \<Longrightarrow> length p < 2 ^ 29 \<Longrightarrow> length q < 2 ^ 29 \<Longrightarrow> short (p @ s @ q)"
  "brief s \<Longrightarrow> length p < 2 ^ 29 \<Longrightarrow> short (p @ s)" "brief s \<Longrightarrow> short s"
  by (simp_all add: brief_def short_def)

subsection \<open>Properties\<close>

text \<open>C25. A passing verdict is sound and complete: a case passes exactly when every operation
  had the same status and, where it succeeded, the same return values on both sides, and the
  two final snapshots have the same bytes.\<close>

theorem run_case_verdict:
  assumes "run_case exec_o exec_t snap_o snap_t s t testCase = Inr result"
  shows "cr_pass result \<longleftrightarrow>
    list_all2 agree (run_results exec_o s (rc_operations testCase)) (run_results exec_t t (rc_operations testCase)) \<and>
    (\<exists>so st. snap_o (run_ops exec_o s (rc_operations testCase)) = Inr so \<and>
       snap_t (run_ops exec_t t (rc_operations testCase)) = Inr st \<and> bytesHex so = bytesHex st)"
proof (cases "compare_ops exec_o exec_t 0 s t (rc_operations testCase)")
  case (Inl p)
  then have "\<not> list_all2 agree (run_results exec_o s (rc_operations testCase))
      (run_results exec_t t (rc_operations testCase))"
    using compare_ops_Inr_iff [of exec_o exec_t 0 s t "rc_operations testCase"] by auto
  then show ?thesis
    using assms Inl by (cases p) (auto simp: run_case_def mismatch_result_def)
next
  case (Inr p)
  then have agreed: "list_all2 agree (run_results exec_o s (rc_operations testCase))
      (run_results exec_t t (rc_operations testCase))"
    and p: "p = (run_ops exec_o s (rc_operations testCase), run_ops exec_t t (rc_operations testCase))"
    using compare_ops_Inr_iff [of exec_o exec_t 0 s t "rc_operations testCase" "fst p" "snd p"]
    by (simp_all add: prod_eq_iff)
  show ?thesis
    using assms Inr agreed
    by (auto simp: run_case_def snapshot_verdict_def res_bind_Inr_iff Let_def p)
qed

definition sample_dex_case :: "(unit, dex_operation) rq2_case" where
  "sample_dex_case = \<lparr>rc_caseId = ''dex-0000'', rc_seed = 1, rc_initial = (),
     rc_operations = [GetReserves, AddLiquidity ''bob'' ''x'' ''1'']\<rparr>"

text \<open>A target that accepts everything and returns nothing.\<close>

definition accept_all :: "unit \<Rightarrow> dex_operation \<Rightarrow> operation_result \<times> unit" where
  "accept_all u x = (succeed [], u)"

lemma sample_dex_run:
  "run_case dex_execute accept_all (\<lambda>_. Inl ''none'') (\<lambda>_. Inl ''none'')
      new_DEXSwapModel () sample_dex_case =
    Inr (mismatch_result sample_dex_case 0 ''return length mismatch: original=0,0 translated='')"
proof -
  have zero: "digit_char 0 = CHR ''0''" by code_simp
  have "compare_ops dex_execute accept_all 0 new_DEXSwapModel () (rc_operations sample_dex_case) =
      Inl (0, ''return length mismatch: original=0,0 translated='')"
    by (simp add: sample_dex_case_def accept_all_def dex_execute_def catch_result_def succeed_def
        new_DEXSwapModel_def normalizeCompare_def show_int_def show_nat.simps zero)
  then show ?thesis by (simp add: run_case_def)
qed

theorem run_case_verdict_witness:
  "\<exists>result. run_case dex_execute accept_all (\<lambda>_. Inl ''none'') (\<lambda>_. Inl ''none'')
      new_DEXSwapModel () sample_dex_case = Inr result \<and> \<not> cr_pass result"
  using run_case_verdict [OF sample_dex_run] sample_dex_run by auto

text \<open>A failure points at the first disagreement: when a case fails at operation \<open>i\<close>, all
  earlier operations agreed, operation \<open>i\<close> did not, and the reason is that comparison's.\<close>

theorem run_case_first_mismatch:
  assumes "run_case exec_o exec_t snap_o snap_t s t testCase = Inr result"
    and "operationIndex result = Some i"
  shows "\<not> cr_pass result \<and> i < length (rc_operations testCase) \<and>
    list_all2 agree (run_results exec_o s (take i (rc_operations testCase)))
      (run_results exec_t t (take i (rc_operations testCase))) \<and>
    normalizeCompare (fst (exec_o (run_ops exec_o s (take i (rc_operations testCase))) (rc_operations testCase ! i)))
      (fst (exec_t (run_ops exec_t t (take i (rc_operations testCase))) (rc_operations testCase ! i))) =
    failReason result"
proof (cases "compare_ops exec_o exec_t 0 s t (rc_operations testCase)")
  case (Inl p)
  then obtain j m where "compare_ops exec_o exec_t 0 s t (rc_operations testCase) = Inl (j, m)"
    by (cases p) auto
  from this assms compare_ops_Inl [OF this] show ?thesis
    by (auto simp: run_case_def mismatch_result_def)
next
  case (Inr p)
  then show ?thesis
    using assms by (cases p) (auto simp: run_case_def snapshot_verdict_def res_bind_Inr_iff Let_def)
qed

theorem run_case_first_mismatch_witness:
  "\<exists>result. run_case dex_execute accept_all (\<lambda>_. Inl ''none'') (\<lambda>_. Inl ''none'')
      new_DEXSwapModel () sample_dex_case = Inr result \<and> operationIndex result = Some 0 \<and> \<not> cr_pass result"
proof -
  have "operationIndex (mismatch_result sample_dex_case 0
      ''return length mismatch: original=0,0 translated='') = Some 0"
    by (simp add: mismatch_result_def)
  with run_case_first_mismatch [OF sample_dex_run this] sample_dex_run show ?thesis by blast
qed

lemma bump_total: "sum_list (map snd (bump k m)) = Suc (sum_list (map snd m))"
  by (induction k m rule: bump.induct) auto

lemma count_failures_total:
  "sum_list (map snd (foldl count_failure m rs)) =
     sum_list (map snd m) + length (filter (\<lambda>r. \<not> cr_pass r) rs)"
  by (induction rs arbitrary: m) (auto simp: count_failure_def bump_total)

lemma pass_plus_fail:
  "length (filter cr_pass rs) + length (filter (\<lambda>r. \<not> cr_pass r) rs) = length rs"
  by (induction rs) auto

text \<open>The report adds up: passes and failures make up the runs, the categories partition
  the failures, the failures file has one line per failure, and the pass rate is 1 exactly
  when there was a run and none failed.\<close>

theorem rq2_summary_adds_up:
  "ro_pass (rq2_summary contract results) + ro_fail (rq2_summary contract results) = ro_runs (rq2_summary contract results) \<and>
   sum_list (map snd (ro_failByCategory (rq2_summary contract results))) = ro_fail (rq2_summary contract results) \<and>
   length (failures_file (rq2_summary contract results)) = ro_fail (rq2_summary contract results) \<and>
   (ro_passRate (rq2_summary contract results) = 1 \<longleftrightarrow> results \<noteq> [] \<and> list_all cr_pass results)"
proof -
  note pf = pass_plus_fail [of results]
  have all: "length (filter cr_pass results) = length results \<longleftrightarrow> list_all cr_pass results"
    using length_filter_less [of _ results cr_pass] by (force simp: list_all_iff)
  have "(of_nat (length (filter cr_pass results)) / of_nat (length results) :: rat) = 1 \<longleftrightarrow>
      length (filter cr_pass results) = length results" if "results \<noteq> []"
    using that by (simp add: divide_eq_eq)
  then show ?thesis
    using pf all by (auto simp: rq2_summary_def failures_file_def count_failures_total Let_def)
qed

end
