(* ===== verification/Case_Generator.thy ===== *)
theory Case_Generator
  imports Diff_Runner "HOL-Library.State_Monad"
begin

text \<open>
  \<open>scripts/rq2/generate-cases.ts\<close>: pseudo-random cases from a 32-bit linear congruential
  generator. The generator's state is a word threaded through the state monad, in the order
  in which JavaScript evaluates the object literals. Seeds and indices are integers.
\<close>

subsection \<open>The generator\<close>

type_synonym lcg = "32 word"
type_synonym 'a gen = "(lcg, 'a) state"

text \<open>\<open>seed >>> 0\<close>.\<close>

definition new_Lcg :: "int \<Rightarrow> lcg" where
  "new_Lcg seed = word_of_int seed"

definition lcg_step :: "lcg \<Rightarrow> lcg" where
  "lcg_step s = s * 1664525 + 1013904223"

definition lcg_next :: "nat gen" where
  "lcg_next = State (\<lambda>s. let s' = lcg_step s in (unat s', s'))"

definition lcg_int :: "nat \<Rightarrow> nat gen" where
  "lcg_int maxExclusive = do { n \<leftarrow> lcg_next; State_Monad.return (n mod maxExclusive) }"

definition pick :: "'a list \<Rightarrow> 'a gen" where
  "pick values = do { i \<leftarrow> lcg_int (length values); State_Monad.return (values ! i) }"

text \<open>\<open>String(base + rng.int(max))\<close>.\<close>

definition number_text :: "nat \<Rightarrow> nat \<Rightarrow> string gen" where
  "number_text base maxExclusive =
     do { n \<leftarrow> lcg_int maxExclusive; State_Monad.return (show_int (int (base + n))) }"

text \<open>The loop that pushes one operation per round.\<close>

fun repeat_gen :: "nat \<Rightarrow> 'a gen \<Rightarrow> 'a list gen" where
  "repeat_gen 0 g = State_Monad.return []"
| "repeat_gen (Suc n) g = do { x \<leftarrow> g; xs \<leftarrow> repeat_gen n g; State_Monad.return (x # xs) }"

definition case_users :: "string list" where
  "case_users = [''alice'', ''bob'', ''carol'', ''dave'', ''uyen'', ''khoa'']"

definition padStart4 :: "string \<Rightarrow> string" where
  "padStart4 s = replicate (4 - length s) (CHR ''0'') @ s"

definition case_seed :: "int \<Rightarrow> nat \<Rightarrow> lcg" where
  "case_seed baseSeed index = word_of_int (baseSeed + int index * 7919)"

subsection \<open>Travel cases\<close>

definition lock_ids :: "string list" where
  "lock_ids = [''lock-a'', ''lock-b'', ''lock-c'']"

definition travel_op :: "hotel_operation gen" where
  "travel_op = do {
     selector \<leftarrow> lcg_int 100;
     if selector < 35 then do { u \<leftarrow> pick case_users; a \<leftarrow> number_text 0 8; State_Monad.return (BookLocal u a) }
     else if selector < 50 then do {
       l \<leftarrow> pick lock_ids; a \<leftarrow> number_text 0 8; t \<leftarrow> number_text 5 20; State_Monad.return (LockState l a t) }
     else if selector < 60 then do { l \<leftarrow> pick lock_ids; State_Monad.return (UnlockState l) }
     else if selector < 68 then do { u \<leftarrow> pick case_users; State_Monad.return (GetAccountBalance u) }
     else if selector < 76 then do { u \<leftarrow> pick case_users; State_Monad.return (GetBooking u) }
     else if selector < 84 then do { l \<leftarrow> pick lock_ids; State_Monad.return (IsStateLocked l) }
     else if selector < 90 then State_Monad.return GetAvailableRemain
     else if selector < 95 then State_Monad.return GetRemain
     else State_Monad.return GetPrice }"

definition travel_gen :: "(hotel_initial \<times> hotel_operation list) gen" where
  "travel_gen = do {
     price \<leftarrow> number_text 5 25;
     remain \<leftarrow> number_text 20 80;
     lockSize \<leftarrow> number_text 1 4;
     extra \<leftarrow> lcg_int 17;
     operations \<leftarrow> repeat_gen (8 + extra) travel_op;
     State_Monad.return (\<lparr>init_bridge = ''Org1MSP'', init_price = price, init_remain = remain,
       init_lockSize = lockSize\<rparr>, operations) }"

definition makeTravelCase :: "string \<Rightarrow> nat \<Rightarrow> int \<Rightarrow> (hotel_initial, hotel_operation) rq2_case" where
  "makeTravelCase contract index baseSeed =
     (let seed = case_seed baseSeed index;
          (initial, operations) = fst (run_state travel_gen seed) in
      \<lparr>rc_caseId = (if contract = ''HotelBooking'' then ''hotel'' else ''train'') @ ''-'' @ padStart4 (show_nat index),
       rc_seed = uint seed, rc_initial = initial, rc_operations = operations\<rparr>)"

subsection \<open>Token cases\<close>

definition token_op :: "token_operation gen" where
  "token_op = do {
     selector \<leftarrow> lcg_int 100;
     if selector < 20 then do { t \<leftarrow> pick case_users; a \<leftarrow> number_text 0 200; State_Monad.return (Mint t a) }
     else if selector < 45 then do {
       f \<leftarrow> pick case_users; t \<leftarrow> pick case_users; a \<leftarrow> number_text 0 400; State_Monad.return (Transfer f t a) }
     else if selector < 65 then do {
       ow \<leftarrow> pick case_users; sp \<leftarrow> pick case_users; a \<leftarrow> number_text 0 500; State_Monad.return (Approve ow sp a) }
     else if selector < 85 then do {
       sp \<leftarrow> pick case_users; f \<leftarrow> pick case_users; t \<leftarrow> pick case_users; a \<leftarrow> number_text 0 350;
       State_Monad.return (TransferFrom sp f t a) }
     else if selector < 93 then do { u \<leftarrow> pick case_users; State_Monad.return (BalanceOf u) }
     else if selector < 98 then do {
       ow \<leftarrow> pick case_users; sp \<leftarrow> pick case_users; State_Monad.return (Allowance ow sp) }
     else State_Monad.return TotalSupply }"

fun balances_gen :: "string list \<Rightarrow> (string \<times> string) list gen" where
  "balances_gen [] = State_Monad.return []"
| "balances_gen (u # us) =
     do { a \<leftarrow> number_text 0 1000; rest \<leftarrow> balances_gen us; State_Monad.return ((u, a) # rest) }"

definition token_gen :: "(token_initial \<times> token_operation list) gen" where
  "token_gen = do {
     balances \<leftarrow> balances_gen case_users;
     extra \<leftarrow> lcg_int 20;
     operations \<leftarrow> repeat_gen (10 + extra) token_op;
     State_Monad.return (\<lparr>init_balances = balances\<rparr>, operations) }"

definition makeTokenCase :: "nat \<Rightarrow> int \<Rightarrow> (token_initial, token_operation) rq2_case" where
  "makeTokenCase index baseSeed =
     (let seed = case_seed baseSeed index;
          (initial, operations) = fst (run_state token_gen seed) in
      \<lparr>rc_caseId = ''token-'' @ padStart4 (show_nat index), rc_seed = uint seed,
       rc_initial = initial, rc_operations = operations\<rparr>)"

subsection \<open>Auction cases\<close>

definition auction_ids :: "string list" where
  "auction_ids = [''1'', ''2'', ''3'', ''4'']"

definition auction_op :: "auction_operation gen" where
  "auction_op = do {
     selector \<leftarrow> lcg_int 100;
     if selector < 22 then do {
       i \<leftarrow> pick auction_ids; s \<leftarrow> pick case_users; p \<leftarrow> number_text 1 200; State_Monad.return (CreateAuction i s p) }
     else if selector < 55 then do {
       i \<leftarrow> pick auction_ids; b \<leftarrow> pick case_users; a \<leftarrow> number_text 0 500; State_Monad.return (Bid i b a) }
     else if selector < 68 then do { i \<leftarrow> pick auction_ids; State_Monad.return (Close i) }
     else if selector < 80 then do { u \<leftarrow> pick case_users; State_Monad.return (Withdraw u) }
     else if selector < 92 then do { i \<leftarrow> pick auction_ids; State_Monad.return (GetAuction i) }
     else do { u \<leftarrow> pick case_users; State_Monad.return (PendingReturn u) } }"

definition auction_gen :: "auction_operation list gen" where
  "auction_gen = do { extra \<leftarrow> lcg_int 20; repeat_gen (10 + extra) auction_op }"

definition makeAuctionCase :: "nat \<Rightarrow> int \<Rightarrow> (unit, auction_operation) rq2_case" where
  "makeAuctionCase index baseSeed =
     (let seed = case_seed baseSeed index in
      \<lparr>rc_caseId = ''auction-'' @ padStart4 (show_nat index), rc_seed = uint seed,
       rc_initial = (), rc_operations = fst (run_state auction_gen seed)\<rparr>)"

subsection \<open>Exchange cases\<close>

definition dex_op :: "dex_operation gen" where
  "dex_op = do {
     selector \<leftarrow> lcg_int 100;
     if selector < 40 then do {
       u \<leftarrow> pick case_users; a \<leftarrow> number_text 0 500; b \<leftarrow> number_text 0 500; State_Monad.return (AddLiquidity u a b) }
     else if selector < 60 then do {
       u \<leftarrow> pick case_users; s \<leftarrow> number_text 0 300; State_Monad.return (RemoveLiquidity u s) }
     else if selector < 78 then do {
       u \<leftarrow> pick case_users; a \<leftarrow> number_text 0 300; State_Monad.return (SwapAForB u a) }
     else if selector < 88 then State_Monad.return GetReserves
     else if selector < 96 then do { u \<leftarrow> pick case_users; State_Monad.return (GetShares u) }
     else State_Monad.return TotalShares }"

definition dex_gen :: "dex_operation list gen" where
  "dex_gen = do { extra \<leftarrow> lcg_int 20; repeat_gen (10 + extra) dex_op }"

definition makeDexCase :: "nat \<Rightarrow> int \<Rightarrow> (unit, dex_operation) rq2_case" where
  "makeDexCase index baseSeed =
     (let seed = case_seed baseSeed index in
      \<lparr>rc_caseId = ''dex-'' @ padStart4 (show_nat index), rc_seed = uint seed,
       rc_initial = (), rc_operations = fst (run_state dex_gen seed)\<rparr>)"

subsection \<open>The case file\<close>

datatype generated_case =
    TravelCase string "(hotel_initial, hotel_operation) rq2_case"
  | TokenCase "(token_initial, token_operation) rq2_case"
  | AuctionCase "(unit, auction_operation) rq2_case"
  | DexCase "(unit, dex_operation) rq2_case"

definition makeCase :: "string \<Rightarrow> nat \<Rightarrow> int \<Rightarrow> generated_case res" where
  "makeCase contract index baseSeed =
     (if contract = ''HotelBooking'' \<or> contract = ''TrainBooking''
        then Inr (TravelCase contract (makeTravelCase contract index baseSeed))
      else if contract = ''TokenTransfer'' then Inr (TokenCase (makeTokenCase index baseSeed))
      else if contract = ''AuctionLogic'' then Inr (AuctionCase (makeAuctionCase index baseSeed))
      else if contract = ''DEXSwap'' then Inr (DexCase (makeDexCase index baseSeed))
      else Inl (''unsupported contract '' @ contract))"

definition gen_getArg :: "string list \<Rightarrow> string \<Rightarrow> string \<Rightarrow> string" where
  "gen_getArg argv name fallback = (case cli_arg argv name of Some a \<Rightarrow> a | None \<Rightarrow> fallback)"

text \<open>\<open>main\<close>: one line per index, every line ended; \<open>stringify\<close> is \<open>JSON.stringify\<close>.\<close>

definition generate_main :: "(generated_case \<Rightarrow> string) \<Rightarrow> string \<Rightarrow> nat \<Rightarrow> int \<Rightarrow> string res" where
  "generate_main stringify contract case_count seed =
     res_bind (res_mapM (\<lambda>i. makeCase (normalizeContract contract) i seed) [0..<case_count]) (\<lambda>cases.
       Inr (join [CHR 0x0A] (map stringify cases) @ [CHR 0x0A]))"

subsection \<open>What a generator can return\<close>

lemma pred_bind:
  "pred_state P m \<Longrightarrow> (\<And>x. P x \<Longrightarrow> pred_state Q (f x)) \<Longrightarrow> pred_state Q (State_Monad.bind m f)"
  by (rule bind_predI) (rule pred_stateI, auto dest: pred_state_run_state)

text \<open>The bound of every draw.\<close>

lemma lcg_int_pred: "0 < m \<Longrightarrow> pred_state (\<lambda>n. n < m) (lcg_int m)"
  unfolding lcg_int_def by (rule pred_bind [where P = "\<lambda>_. True"]) (auto intro!: pred_stateI)

lemma return_pred: "P x \<Longrightarrow> pred_state P (State_Monad.return x)"
  by (rule pred_stateI) simp

lemma if_pred:
  "(c \<Longrightarrow> pred_state P g) \<Longrightarrow> (\<not> c \<Longrightarrow> pred_state P h) \<Longrightarrow> pred_state P (if c then g else h)"
  by simp

lemma pick_pred: "xs \<noteq> [] \<Longrightarrow> pred_state (\<lambda>x. x \<in> set xs) (pick xs)"
  unfolding pick_def by (rule pred_bind [OF lcg_int_pred]) (auto intro: return_pred)

lemma number_text_pred:
  "0 < m \<Longrightarrow> pred_state (\<lambda>t. \<exists>n. t = show_int n \<and> int base \<le> n \<and> n < int (base + m)) (number_text base m)"
  unfolding number_text_def by (rule pred_bind [OF lcg_int_pred]) (auto intro!: return_pred)

lemma repeat_gen_pred:
  "pred_state P g \<Longrightarrow> pred_state (\<lambda>xs. length xs = n \<and> (\<forall>x \<in> set xs. P x)) (repeat_gen n g)"
proof (induction n)
  case (Suc n)
  show ?case
    unfolding repeat_gen.simps
    by (rule pred_bind [OF Suc.prems], rule pred_bind [OF Suc.IH [OF Suc.prems]], rule return_pred) simp
qed (auto intro: return_pred)

text \<open>A predicate that every draw of a generator satisfies holds of what a run returns.\<close>

lemma run_pred: "pred_state P g \<Longrightarrow> P (fst (run_state g s))"
  by (rule pred_state_run_state)

text \<open>The rules in the form a generator's body uses them: a draw, then the rest.\<close>

lemmas bind_int = pred_bind [OF lcg_int_pred]
  and bind_pick = pred_bind [OF pick_pred]
  and bind_text = pred_bind [OF number_text_pred]
  and bind_repeat = pred_bind [OF repeat_gen_pred]

lemmas gen_rules = bind_int bind_pick bind_text if_pred return_pred

subsection \<open>Case identifiers\<close>

lemma padStart4_value: "parse_digits 10 0 (padStart4 (show_nat n)) = Some n"
proof -
  have "parse_digits 10 0 (replicate k (CHR ''0'')) = Some 0" for k
    by (induction k) (simp_all add: digit_value_def char_nat_def)
  then show ?thesis by (simp add: padStart4_def parse_digits_append parse_digits_show_nat)
qed

lemma padStart4_inject: "padStart4 (show_nat m) = padStart4 (show_nat n) \<longleftrightarrow> m = n"
  by (metis option.inject padStart4_value)

definition generated_id :: "generated_case \<Rightarrow> string" where
  "generated_id g = (case g of TravelCase c tc \<Rightarrow> rc_caseId tc | TokenCase tc \<Rightarrow> rc_caseId tc
     | AuctionCase tc \<Rightarrow> rc_caseId tc | DexCase tc \<Rightarrow> rc_caseId tc)"

lemma makeCase_id:
  "makeCase contract i seed = Inr g \<Longrightarrow>
     \<exists>prefix. (\<forall>j h. makeCase contract j seed = Inr h \<longrightarrow> generated_id h = prefix @ padStart4 (show_nat j)) \<and>
       generated_id g = prefix @ padStart4 (show_nat i)"
  by (auto simp: makeCase_def generated_id_def makeTravelCase_def makeTokenCase_def makeAuctionCase_def
      makeDexCase_def Let_def split_def split: if_splits)

lemma affine_bij:
  assumes "a * b = (1 :: lcg)"
  shows "bij (\<lambda>s. s * a + c)"
proof (rule o_bij)
  show "(\<lambda>s. (s - c) * b) \<circ> (\<lambda>s. s * a + c) = id"
    using assms by (simp add: fun_eq_iff mult.assoc)
  have "b * a = 1" using assms by (simp add: mult.commute)
  then show "(\<lambda>s. s * a + c) \<circ> (\<lambda>s. (s - c) * b) = id"
    by (simp add: fun_eq_iff mult.assoc)
qed

subsection \<open>Properties\<close>

text \<open>Case identifiers are unique within a case file: cases of one contract with different
  indices have different ids, also past the four digits of the padding.\<close>

theorem case_ids_unique:
  assumes "makeCase contract i seed = Inr g" and "makeCase contract j seed = Inr h" and "i \<noteq> j"
  shows "generated_id g \<noteq> generated_id h"
  using makeCase_id [OF assms(1)] assms(2,3) padStart4_inject [of i j] by auto

theorem case_ids_unique_witness:
  "generated_id (AuctionCase (makeAuctionCase 7 1)) \<noteq> generated_id (AuctionCase (makeAuctionCase 10007 1))"
  by (rule case_ids_unique [of "''AuctionLogic''" 7 1 _ 10007]) (simp_all add: makeCase_def)

text \<open>The generator never merges two random streams: one step of the congruential
  generator is a bijection on its 32-bit states.\<close>

theorem lcg_step_bijective: "bij lcg_step"
  using affine_bij [of 1664525 4276115653 1013904223] by (simp add: lcg_step_def [abs_def])

end
