(* ===== verification/Equiv_Travel.thy ===== *)
theory Equiv_Travel
  imports Diff_Runner
begin

text \<open>
  The booking contracts under the differential runner. \<open>travel_target\<close> is what the runner's
  handle promises: every function acts, through a view of the storage, as the function of
  \<open>TrainBookingTranslated\<close>; both translations are instances. Within a budget on \<open>uint256\<close>
  values the targets then agree with the booking model on every operation.
\<close>

subsection \<open>Related outcomes\<close>

text \<open>Both sides fail, or both succeed with the same values in related states.\<close>

definition outcomes :: "('s \<Rightarrow> 't \<Rightarrow> bool) \<Rightarrow> 'd + (string list \<times> 's) \<Rightarrow> 'e + (string list \<times> 't) \<Rightarrow> bool" where
  "outcomes R = rel_sum (\<lambda>_ _. True) (rel_prod (=) R)"

lemma outcomes_simps [simp]:
  "outcomes R (Inl d) (Inl e)"
  "\<not> outcomes R (Inl d) (Inr y)"
  "\<not> outcomes R (Inr x) (Inl e)"
  "outcomes R (Inr (vs, s)) (Inr (ws, t)) \<longleftrightarrow> vs = ws \<and> R s t"
  by (simp_all add: outcomes_def)

lemma outcomes_step:
  assumes "outcomes R bo bt" and "R s c"
  shows "agree (fst (catch_result s bo)) (fst (try_call H c bt)) \<and>
    R (snd (catch_result s bo)) (snd (try_call H c bt))"
  using assms
  by (cases bo; cases bt) (auto simp: catch_result_def try_call_def agree_def succeed_def failure_def)

subsection \<open>The interface of the booking targets\<close>

locale travel_target =
  fixes C :: "'c travel_contract" and view_of :: "'c \<Rightarrow> train_storage"
  assumes price: "tc_GetPrice C s = ts_price (view_of s)"
    and remain: "tc_GetRemain C s = ts_remain (view_of s)"
    and locked_total: "tc_GetLockedTotal C s = ts_lockedTotal (view_of s)"
    and account: "tc_GetAccountBalance C u s = ts_accounts (view_of s) u"
    and booking: "tc_GetBooking C u s = ts_bookings (view_of s) u"
    and locked: "tc_IsStateLocked C l s = tl_active (ts_locks (view_of s) l)"
    and lock_amount: "tc_GetLockAmount C l s = tl_lockedAmount (ts_locks (view_of s) l)"
    and available: "ts_price (view_of s) \<noteq> 0 \<Longrightarrow>
      tc_GetAvailableRemain C s = train_GetAvailableRemain (view_of s)"
    and book: "ts_price (view_of s) \<noteq> 0 \<Longrightarrow>
      map_sum id (map_prod id view_of) (tc_BookLocal C u a s) = train_BookLocal u a (view_of s)"
    and lock: "ts_price (view_of s) \<noteq> 0 \<Longrightarrow>
      map_sum id (map_prod id view_of) (tc_LockState C b l a t s) = train_LockState l a t (view_of s)"
    and unlock: "map_sum id view_of (tc_UnlockState C l s) = train_UnlockState l (view_of s)"

text \<open>What the train view of a hotel's storage keeps: everything but the lock's deadline.\<close>

definition hotel_view :: "hotel_storage \<Rightarrow> train_storage" where
  "hotel_view s =
     \<lparr>ts_bridge = mt_bridge (hs_meta s), ts_price = mt_price (hs_meta s),
      ts_remain = mt_remain (hs_meta s), ts_lockSize = mt_lockSize (hs_meta s),
      ts_lockedTotal = hs_lockedTotal s, ts_accounts = hs_accounts s, ts_bookings = hs_bookings s,
      ts_locks = (\<lambda>l. \<lparr>tl_lockedAmount = lk_lockedAmount (hs_locks s l), tl_active = lk_active (hs_locks s l)\<rparr>)\<rparr>"

lemma hotel_view_simps [simp]:
  "ts_price (hotel_view s) = mt_price (hs_meta s)"
  "ts_remain (hotel_view s) = mt_remain (hs_meta s)"
  "ts_lockSize (hotel_view s) = mt_lockSize (hs_meta s)"
  "ts_lockedTotal (hotel_view s) = hs_lockedTotal s"
  "ts_accounts (hotel_view s) = hs_accounts s"
  "ts_bookings (hotel_view s) = hs_bookings s"
  "tl_active (ts_locks (hotel_view s) l) = lk_active (hs_locks s l)"
  "tl_lockedAmount (ts_locks (hotel_view s) l) = lk_lockedAmount (hs_locks s l)"
  by (simp_all add: hotel_view_def)

lemma map_sum_bind:
  "map_sum id g (res_bind r f) = res_bind r (\<lambda>x. map_sum id g (f x))"
  by (cases r) simp_all

lemma map_sum_require: "map_sum id g (require c m k) = require c m (map_sum id g k)"
  by (simp add: require_def)

lemma require_cong: "(c \<Longrightarrow> k = k') \<Longrightarrow> require c m k = require c m k'"
  by (simp add: require_def)

lemma res_bind_cong: "(\<And>x. r = Inr x \<Longrightarrow> f x = g x) \<Longrightarrow> res_bind r f = res_bind r g"
  by (cases r) simp_all

lemma hotel_available:
  "mt_price (hs_meta s) \<noteq> 0 \<Longrightarrow> ubtl_available_units s = train_GetAvailableRemain (hotel_view s)"
  by (auto simp: ubtl_available_units_def train_GetAvailableRemain_def intro!: res_bind_cong)

lemma train_available_le: "train_GetAvailableRemain s = Inr a \<Longrightarrow> a \<le> ts_remain s"
proof -
  assume "train_GetAvailableRemain s = Inr a"
  then obtain q where "(if ts_remain s > q then checked_sub (ts_remain s) q else Inr 0) = Inr a"
    by (auto simp: train_GetAvailableRemain_def res_bind_Inr_iff)
  then show "a \<le> ts_remain s"
    by (auto simp: checked_sub_def word_sub_le split: if_splits)
qed

lemma clamped_sub: "a \<le> r \<Longrightarrow> (if r > a then checked_sub r a else Inr 0) = checked_sub r a"
  by (auto simp: checked_sub_def)

lemma checked_mul_commute: "checked_mul a b = checked_mul b a"
  by (simp add: checked_mul_def mult.commute)

interpretation hotel_target: travel_target hotel_contract hotel_view
proof
  fix s :: hotel_storage and u a b l t
  show "tc_GetPrice hotel_contract s = ts_price (hotel_view s)"
    "tc_GetRemain hotel_contract s = ts_remain (hotel_view s)"
    "tc_GetLockedTotal hotel_contract s = ts_lockedTotal (hotel_view s)"
    "tc_GetAccountBalance hotel_contract u s = ts_accounts (hotel_view s) u"
    "tc_GetBooking hotel_contract u s = ts_bookings (hotel_view s) u"
    "tc_IsStateLocked hotel_contract l s = tl_active (ts_locks (hotel_view s) l)"
    "tc_GetLockAmount hotel_contract l s = tl_lockedAmount (ts_locks (hotel_view s) l)"
    by (simp_all add: hotel_contract_def)
  show "map_sum id hotel_view (tc_UnlockState hotel_contract l s) = train_UnlockState l (hotel_view s)"
    by (auto simp: hotel_contract_def ubtl_UnlockState_def train_UnlockState_def release_lock_def
        Let_def map_sum_bind map_sum_require hotel_view_def zero_lock_def zero_train_lock_def fun_eq_iff
        intro!: require_cong res_bind_cong)
  assume p: "ts_price (hotel_view s) \<noteq> 0"
  then show "tc_GetAvailableRemain hotel_contract s = train_GetAvailableRemain (hotel_view s)"
    by (simp add: hotel_contract_def hotel_available)
  show "map_sum id (map_prod id hotel_view) (tc_LockState hotel_contract b l a t s) =
      train_LockState l a t (hotel_view s)"
    using p
    by (auto simp: hotel_contract_def ubtl_LockState_def train_LockState_def hotel_available
        map_sum_bind map_sum_require hotel_view_def checked_mul_commute fun_eq_iff
        intro!: require_cong res_bind_cong)
  have clamp: "(if mt_remain (hs_meta s) > a then checked_sub (mt_remain (hs_meta s)) a else Inr 0) =
      checked_sub (mt_remain (hs_meta s)) a"
    if "train_GetAvailableRemain (hotel_view s) = Inr x" "x \<ge> a" for x
    using train_available_le [OF that(1)] that(2) by (intro clamped_sub) simp
  show "map_sum id (map_prod id hotel_view) (tc_BookLocal hotel_contract u a s) =
      train_BookLocal u a (hotel_view s)"
    unfolding hotel_contract_def travel_contract.simps ubtl_BookLocal_def train_BookLocal_def
      map_sum_bind map_sum_require hotel_view_simps hotel_available [OF p [unfolded hotel_view_simps]]
    apply (rule require_cong, rule res_bind_cong, rule require_cong, rule res_bind_cong)
    apply (subst clamp, assumption, assumption)
    apply (rule res_bind_cong)+
    apply (simp add: hotel_view_def)
    done
qed

interpretation train_target: travel_target train_contract id
  by unfold_locales (simp_all add: train_contract_def map_prod.id map_sum.id)


subsection \<open>Model and storage, related\<close>

text \<open>The words of the storage are those of the model's integers.\<close>

definition travel_related :: "hotel \<Rightarrow> train_storage \<Rightarrow> bool" where
  "travel_related h s \<longleftrightarrow>
     ts_price s = U (hb_price h) \<and> ts_remain s = U (hb_remain h) \<and>
     ts_lockSize s = U (hb_lockSize h) \<and> ts_lockedTotal s = U (hb_lockedTotal h) \<and>
     (\<forall>u. ts_accounts s u = U (balanceOf h u)) \<and> (\<forall>u. ts_bookings s u = U (bookingOf h u)) \<and>
     (\<forall>l. ts_locks s l = \<lparr>tl_lockedAmount = U (lock_amount h l), tl_active = lock_is_active h l\<rparr>)"

text \<open>
  \<open>unit_cost\<close> is what one lock can add to \<open>lockedTotal\<close>; with \<open>n\<close> operations to go
  there is room for \<open>n\<close> locks below \<open>2\<^sup>2\<^sup>5\<^sup>6\<close>.
\<close>

definition unit_cost :: "int \<Rightarrow> hotel \<Rightarrow> int" where
  "unit_cost rooms h = hb_price h * (rooms + hb_lockSize h)"

definition travel_budget :: "int \<Rightarrow> nat \<Rightarrow> hotel \<Rightarrow> bool" where
  "travel_budget rooms n h \<longleftrightarrow>
     hotel_inv rooms h \<and> (\<forall>u. 0 \<le> bookingOf h u) \<and> unit_cost rooms h < 2 ^ 256 \<and>
     hb_lockedTotal h + int n * unit_cost rooms h < 2 ^ 256"

lemma rooms_bounds:
  assumes "hotel_inv rooms h" and "\<forall>u. 0 \<le> bookingOf h u"
  shows "bookingOf h u \<le> rooms - hb_remain h" "hb_remain h \<le> rooms" "0 \<le> rooms"
proof -
  have le: "bookingOf h u \<le> map_total (hb_bookings h)"
    using assms by (auto simp: bookingOf_def hotel_inv_def intro: map_total_ge)
  have sum: "hb_remain h + map_total (hb_bookings h) = rooms" and "0 \<le> hb_remain h"
    using assms(1) by (simp_all add: hotel_inv_def)
  have "0 \<le> bookingOf h u" using assms(2) by simp
  with le sum \<open>0 \<le> hb_remain h\<close>
  show "bookingOf h u \<le> rooms - hb_remain h" "hb_remain h \<le> rooms" "0 \<le> rooms"
    by linarith+
qed

lemma travel_budget_range:
  assumes "travel_budget rooms n h"
  shows "in_u256 (hb_price h)" "in_u256 (hb_remain h)" "in_u256 (hb_lockSize h)"
    "in_u256 (hb_lockedTotal h)" "in_u256 (balanceOf h u)" "in_u256 (bookingOf h u)"
    "in_u256 (lock_amount h l)" "in_u256 (hb_price h * rooms)" "0 < hb_price h" "0 < hb_lockSize h"
proof -
  have inv: "hotel_inv rooms h" and bk: "\<forall>u. 0 \<le> bookingOf h u" and uc: "unit_cost rooms h < 2 ^ 256"
    and tot: "hb_lockedTotal h + int n * unit_cost rooms h < 2 ^ 256"
    using assms by (simp_all add: travel_budget_def)
  note I = hotel_invD [OF inv] and R = rooms_bounds [OF inv bk]
  have pos: "0 < hb_price h" "0 < hb_lockSize h" using I by auto
  then show "0 < hb_price h" "0 < hb_lockSize h" .
  have "0 \<le> hb_price h * rooms" "0 \<le> hb_price h * hb_lockSize h"
    using pos R(3) by simp_all
  moreover have "unit_cost rooms h = hb_price h * rooms + hb_price h * hb_lockSize h"
    by (simp add: unit_cost_def algebra_simps)
  ultimately have pr: "hb_price h * rooms < 2 ^ 256" and pl: "hb_price h * hb_lockSize h < 2 ^ 256"
    and "0 \<le> unit_cost rooms h" using uc by linarith+
  show "in_u256 (hb_price h * rooms)" using pr \<open>0 \<le> hb_price h * rooms\<close> by (simp add: in_u256_def)
  have "hb_price h \<le> hb_price h * hb_lockSize h" "hb_lockSize h \<le> hb_price h * hb_lockSize h"
    using pos by simp_all
  with pl have "hb_price h < 2 ^ 256" "hb_lockSize h < 2 ^ 256" by linarith+
  with pos show "in_u256 (hb_price h)" "in_u256 (hb_lockSize h)" by (simp_all add: in_u256_def)
  have rooms: "rooms < 2 ^ 256"
    using pr mult_right_mono [of 1 "hb_price h" rooms] pos R(3) by linarith
  then show "in_u256 (hb_remain h)" using R(2) I(3) by (simp add: in_u256_def)
  have bk_u: "0 \<le> bookingOf h u" "bookingOf h u \<le> rooms" using R(1) [of u] bk I(3) by auto
  with rooms show "in_u256 (bookingOf h u)" by (simp add: in_u256_def)
  have "balanceOf h u = hb_price h * bookingOf h u" using inv by (simp add: hotel_inv_def)
  moreover have "hb_price h * bookingOf h u \<le> hb_price h * rooms" "0 \<le> hb_price h * bookingOf h u"
    using bk_u pos by (auto intro: mult_left_mono)
  ultimately show "in_u256 (balanceOf h u)" using pr by (intro in_u256I) linarith+
  have "0 \<le> int n * unit_cost rooms h" using \<open>0 \<le> unit_cost rooms h\<close> by simp
  then have "hb_lockedTotal h < 2 ^ 256" using tot by linarith
  then show "in_u256 (hb_lockedTotal h)" using I(6) by (simp add: in_u256_def)
  then show "in_u256 (lock_amount h l)" using I(4,5) [of l] by (auto intro: in_u256_le)
qed

lemma travel_budget_mono: "travel_budget rooms (Suc n) h \<Longrightarrow> travel_budget rooms n h"
proof -
  assume b: "travel_budget rooms (Suc n) h"
  then have "0 \<le> unit_cost rooms h"
    using rooms_bounds(3) [of rooms h] hotel_invD [of rooms h]
    by (simp add: travel_budget_def unit_cost_def)
  with b show ?thesis by (auto simp: travel_budget_def algebra_simps)
qed

lemma travel_available:
  assumes "travel_budget rooms n h" and "travel_related h s" and "availableRemain h = Inr a"
  shows "train_GetAvailableRemain s = Inr (U a)" and "in_u256 a"
proof -
  note R = travel_budget_range [OF assms(1)]
  have inv: "hotel_inv rooms h" using assms(1) by (simp add: travel_budget_def)
  let ?q = "hb_lockedTotal h div hb_price h"
  have q: "in_u256 ?q" using R(4,9) by (rule in_u256_div)
  have a: "a = (if hb_remain h > ?q then hb_remain h - ?q else 0)"
    using assms(3) availableRemain_inv [OF inv] by auto
  show "train_GetAvailableRemain s = Inr (U a)"
    using assms(2) R q
    by (auto simp: a train_GetAvailableRemain_def travel_related_def evm_simps)
  show "in_u256 a"
    using available_le_remain [OF inv assms(3)] R(2) by (auto intro: in_u256_le)
qed


subsection \<open>The three state changes\<close>

lemma outcomes_require:
  assumes "c \<longleftrightarrow> \<not> d" and "\<not> d \<Longrightarrow> outcomes R r k"
  shows "outcomes R (if d then Inl e else r) (require c m k)"
  using assms by (simp add: require_def)

text \<open>A succeeding booking in the model is one in the translation.\<close>

lemma book_related:
  assumes b: "travel_budget rooms (Suc n) h" and rel: "travel_related h s" and a: "in_u256 a"
  shows "outcomes (\<lambda>h' s'. travel_budget rooms n h' \<and> travel_related h' s')
    (book_local h u (show_int a))
    (map_sum id (map_prod (\<lambda>w. [show_int (uint w)]) id) (train_BookLocal u (U a) s))"
proof -
  note R = travel_budget_range [OF b]
  have inv: "hotel_inv rooms h" and bk: "\<forall>u. 0 \<le> bookingOf h u"
    using b by (simp_all add: travel_budget_def)
  obtain av where av: "availableRemain h = Inr av" using availableRemain_inv [OF inv] by blast
  note T = travel_available [OF b rel av]
  show ?thesis
  proof (cases "a = 0 \<or> av < a")
    case True
    then show ?thesis
      using a T by (auto simp: book_local_def av train_BookLocal_def evm_simps)
  next
    case False
    then have a_pos: "0 < a" "a \<le> av" using a by (auto simp: in_u256_def)
    have a_rem: "a \<le> hb_remain h" using available_le_remain(1) [OF inv av] a_pos by simp
    let ?cost = "hb_price h * a"
    let ?h = "h\<lparr>hb_remain := hb_remain h - a,
         hb_accounts := (hb_accounts h)(u \<mapsto> balanceOf h u + ?cost),
         hb_bookings := (hb_bookings h)(u \<mapsto> bookingOf h u + a)\<rparr>"
    have ok: "book_local h u (show_int a) = Inr ([show_int ?cost], ?h)"
      using a_pos av by (simp add: book_local_def Let_def)
    have h': "hotel_inv rooms ?h" using book_local_inv [OF inv ok] .
    have bal: "balanceOf ?h v = (if v = u then balanceOf h u + ?cost else balanceOf h v)"
      and bok: "bookingOf ?h v = (if v = u then bookingOf h u + a else bookingOf h v)" for v
      by (simp_all add: balanceOf_def bookingOf_def get0_upd del: fun_upd_apply)
    have budget: "travel_budget rooms (Suc n) ?h"
      using b h' bk a_pos by (simp add: travel_budget_def bok unit_cost_def)
    note R' = travel_budget_range [OF budget]
    have "?cost \<le> hb_price h * rooms"
      using rooms_bounds(2) [OF inv bk] a_rem R(9) by (intro mult_left_mono) auto
    then have cost: "in_u256 ?cost" using R(8,9) a_pos by (auto intro: in_u256_le)
    have sums: "in_u256 (balanceOf h u + ?cost)" "in_u256 (bookingOf h u + a)"
      using R'(5) [of u] R'(6) [of u] by (simp_all add: bal bok)
    have "train_BookLocal u (U a) s = Inr (U ?cost,
        s\<lparr>ts_remain := U (hb_remain h - a),
          ts_accounts := (ts_accounts s)(u := U (balanceOf h u + ?cost)),
          ts_bookings := (ts_bookings s)(u := U (bookingOf h u + a))\<rparr>)"
      using rel a a_pos a_rem R T cost sums
      by (simp add: train_BookLocal_def travel_related_def evm_simps)
    moreover have "travel_related ?h (s\<lparr>ts_remain := U (hb_remain h - a),
          ts_accounts := (ts_accounts s)(u := U (balanceOf h u + ?cost)),
          ts_bookings := (ts_bookings s)(u := U (bookingOf h u + a))\<rparr>)"
      using rel by (auto simp: travel_related_def bal bok lock_amount_def lock_is_active_def)
    ultimately show ?thesis
      using ok cost travel_budget_mono [OF budget] by (simp add: uint_U)
  qed
qed

lemma lock_related:
  assumes b: "travel_budget rooms (Suc n) h" and rel: "travel_related h s" and a: "in_u256 a"
  shows "outcomes (\<lambda>h' s'. travel_budget rooms n h' \<and> travel_related h' s')
    (lock_state h l (show_int a))
    (map_sum id (map_prod (\<lambda>p. [show_int (uint (fst p)), show_int (uint (snd p))]) id)
      (train_LockState l (U a) t s))"
proof -
  note R = travel_budget_range [OF b]
  have inv: "hotel_inv rooms h" and bk: "\<forall>u. 0 \<le> bookingOf h u"
    and tot: "hb_lockedTotal h + int (Suc n) * unit_cost rooms h < 2 ^ 256"
    and uc: "unit_cost rooms h < 2 ^ 256"
    using b by (simp_all add: travel_budget_def)
  obtain av where av: "availableRemain h = Inr av" using availableRemain_inv [OF inv] by blast
  note T = travel_available [OF b rel av]
  show ?thesis
  proof (cases "lock_is_active h l \<or> av < a")
    case True
    then show ?thesis
      using a T rel by (auto simp: lock_state_def av train_LockState_def travel_related_def evm_simps)
  next
    case False
    then have free: "\<not> lock_is_active h l" and a_le: "a \<le> av" by auto
    have a_rem: "a \<le> hb_remain h" using available_le_remain(1) [OF inv av] a_le by simp
    define m where "m = (if a > 0 then a else hb_lockSize h)"
    have m: "0 < m" "m \<le> rooms + hb_lockSize h"
      using a_rem rooms_bounds(2,3) [OF inv bk] R(10) a by (auto simp: m_def in_u256_def)
    let ?h = "h\<lparr>hb_locks := (hb_locks h)(l \<mapsto> \<lparr>lockedAmount = m * hb_price h, lock_active = True\<rparr>),
         hb_lockedTotal := hb_lockedTotal h + m * hb_price h\<rparr>"
    have ok: "lock_state h l (show_int a) = Inr ([show_int (hb_price h), show_int (hb_remain h)], ?h)"
      using free a_le av by (simp add: lock_state_def Let_def m_def)
    have h': "hotel_inv rooms ?h" using lock_state_inv [OF inv ok] .
    have step: "m * hb_price h \<le> unit_cost rooms h" "0 \<le> m * hb_price h"
      using m R(9) by (simp_all add: unit_cost_def mult.commute [of m])
    have bok: "bookingOf ?h v = bookingOf h v" for v by (simp add: bookingOf_def)
    have budget: "travel_budget rooms n ?h"
      using h' bk uc tot step by (simp add: travel_budget_def bok unit_cost_def algebra_simps)
    note R' = travel_budget_range [OF budget]
    have amt: "in_u256 (m * hb_price h)" using R'(7) [of l] by (simp add: lock_amount_def)
    have total: "in_u256 (hb_lockedTotal h + m * hb_price h)" using R'(4) by simp
    have m_word: "in_u256 m" using m(1) a R(3) by (auto simp: m_def)
    have choose: "(if 0 < U a then U a else ts_lockSize s) = U m"
      using a rel by (simp add: m_def travel_related_def U_pos)
    have "train_LockState l (U a) t s = Inr ((U (hb_price h), U (hb_remain h)),
        s\<lparr>ts_locks := (ts_locks s)(l := \<lparr>tl_lockedAmount = U (m * hb_price h), tl_active = True\<rparr>),
          ts_lockedTotal := U (hb_lockedTotal h + m * hb_price h)\<rparr>)"
      using rel a a_le R T amt total m_word free unfolding train_LockState_def choose
      by (simp add: travel_related_def evm_simps)
    moreover have "travel_related ?h
        (s\<lparr>ts_locks := (ts_locks s)(l := \<lparr>tl_lockedAmount = U (m * hb_price h), tl_active = True\<rparr>),
          ts_lockedTotal := U (hb_lockedTotal h + m * hb_price h)\<rparr>)"
      using rel by (auto simp: travel_related_def balanceOf_def bookingOf_def lock_amount_def
          lock_is_active_def)
    ultimately show ?thesis using ok budget R(1,2) by (simp add: uint_U)
  qed
qed

lemma unlock_related:
  assumes b: "travel_budget rooms (Suc n) h" and rel: "travel_related h s"
  shows "outcomes (\<lambda>h' s'. travel_budget rooms n h' \<and> travel_related h' s')
    (unlock_state h l) (map_sum id (\<lambda>s'. ([], s')) (train_UnlockState l s))"
proof (cases "lock_is_active h l")
  case False
  then show ?thesis using rel by (simp add: unlock_state_def train_UnlockState_def travel_related_def require_def)
next
  case True
  note R = travel_budget_range [OF b]
  have inv: "hotel_inv rooms h" and bk: "\<forall>u. 0 \<le> bookingOf h u"
    using b by (simp_all add: travel_budget_def)
  let ?t = "if hb_lockedTotal h > lock_amount h l then hb_lockedTotal h - lock_amount h l else 0"
  let ?h = "h\<lparr>hb_lockedTotal := ?t, hb_locks := (hb_locks h)(l := None)\<rparr>"
  have ok: "unlock_state h l = Inr ([], ?h)" using True by (simp add: unlock_state_def Let_def)
  have h': "hotel_inv rooms ?h" using unlock_state_inv [OF inv ok] .
  have le: "?t \<le> hb_lockedTotal h"
    using hotel_invD(4) [OF inv, of l] hotel_invD(6) [OF inv] by simp
  have bok: "bookingOf ?h v = bookingOf h v" for v by (simp add: bookingOf_def)
  have "travel_budget rooms (Suc n) ?h"
    using b h' le bk unfolding travel_budget_def bok unit_cost_def by (simp; linarith?)
  then have budget: "travel_budget rooms n ?h" by (rule travel_budget_mono)
  have "train_UnlockState l s = Inr (s\<lparr>ts_lockedTotal := U ?t, ts_locks := (ts_locks s)(l := zero_train_lock)\<rparr>)"
    using rel True R(4) R(7) [of l]
    by (auto simp: train_UnlockState_def travel_related_def Let_def evm_simps)
  moreover have "travel_related ?h (s\<lparr>ts_lockedTotal := U ?t, ts_locks := (ts_locks s)(l := zero_train_lock)\<rparr>)"
    using rel by (auto simp: travel_related_def balanceOf_def bookingOf_def lock_amount_def
        lock_is_active_def zero_train_lock_def)
  ultimately show ?thesis using ok budget by simp
qed


subsection \<open>Calls on the chain\<close>

lemma call_then_send_related:
  assumes X: "\<And>b. map_sum id (map_prod resultValues view_of) (F b (contract_state c)) = X"
    and out: "outcomes R bo X"
  shows "outcomes (\<lambda>h c'. R h (view_of (contract_state c'))) bo (call_then_send F c)"
proof (cases "F (block_number c) (contract_state c)")
  case (Inl e)
  with X [of "block_number c"] have "X = Inl e" by simp
  with out Inl show ?thesis by (cases bo) (auto simp: call_then_send_def static_call_def)
next
  case (Inr p)
  with X [of "block_number c"] have x: "X = Inr (resultValues (fst p), view_of (snd p))"
    by (simp add: map_prod_def split_def)
  obtain q where q: "F (block_number c + 1) (contract_state c) = Inr q"
    using X [of "block_number c + 1"] x by (cases "F (block_number c + 1) (contract_state c)") auto
  have "resultValues (fst q) = resultValues (fst p)" "view_of (snd q) = view_of (snd p)"
    using X [of "block_number c + 1"] q x by (simp_all add: map_prod_def split_def)
  with out Inr q x show ?thesis
    by (cases bo) (auto simp: call_then_send_def static_call_def send_def split_def)
qed

lemma send_only_related:
  assumes "map_sum id (\<lambda>s. ([], view_of s)) (f (contract_state c)) = X" and "outcomes R bo X"
  shows "outcomes (\<lambda>h c'. R h (view_of (contract_state c'))) bo (send_only (silent f) c)"
  using assms
  by (cases "f (contract_state c)"; cases bo) (auto simp: send_only_def send_def silent_def)

lemma read_view_eval: "read_view f c = res_bind (f (contract_state c)) (\<lambda>v. Inr (resultValues v, c))"
  by (simp add: read_view_def)

lemma returning_map:
  "map_sum id (map_prod resultValues view_of) (returning ret f b s) =
     map_sum id (map_prod (\<lambda>v. resultValues (ret v)) id) (map_sum id (map_prod id view_of) (f s))"
  by (cases "f s") (auto simp: returning_def)

definition word_text :: "string \<Rightarrow> bool" where
  "word_text t \<longleftrightarrow> (\<exists>n. t = show_int n \<and> in_u256 n)"

lemma word_textE:
  assumes "word_text t"
  obtains n where "t = show_int n" "in_u256 n"
  using assms by (auto simp: word_text_def)

text \<open>Operations whose arguments are decimal \<open>uint256\<close> values.\<close>

fun travel_legal :: "hotel_operation \<Rightarrow> bool" where
  "travel_legal (BookLocal u a) \<longleftrightarrow> word_text a"
| "travel_legal (LockState l a t) \<longleftrightarrow> word_text a \<and> word_text t"
| "travel_legal _ \<longleftrightarrow> True"

definition travel_sim ::
    "evm_host \<Rightarrow> ('c \<Rightarrow> train_storage) \<Rightarrow> int \<Rightarrow> nat \<Rightarrow> hotel \<Rightarrow> 'c chain \<Rightarrow> bool" where
  "travel_sim H view_of rooms n h c \<longleftrightarrow>
     host_documented H \<and> travel_budget rooms n h \<and> travel_related h (view_of (contract_state c))"

context travel_target
begin

lemma price_nonzero: "travel_sim H view_of rooms n h c \<Longrightarrow> ts_price (view_of (contract_state c)) \<noteq> 0"
  using travel_budget_range(1,9) [of rooms n h] by (auto simp: travel_sim_def travel_related_def U_eq_0)

lemma book_call:
  assumes sim: "travel_sim H view_of rooms (Suc n) h c" and t: "word_text t"
  shows "outcomes (travel_sim H view_of rooms n) (book_local h u t) (travel_call H C c (BookLocal u t))"
proof -
  obtain a where a: "t = show_int a" "in_u256 a" using t by (rule word_textE)
  have H: "host_documented H" using sim by (simp add: travel_sim_def)
  let ?R = "\<lambda>h' s'. travel_budget rooms n h' \<and> travel_related h' s'"
  have "outcomes ?R (book_local h u t)
      (map_sum id (map_prod (\<lambda>w. resultValues (ret_uint w)) id) (train_BookLocal u (U a) (view_of (contract_state c))))"
    using book_related [of rooms n h "view_of (contract_state c)" a u] sim a
    by (simp add: travel_sim_def ret_uint_def)
  then have "outcomes (\<lambda>h c'. ?R h (view_of (contract_state c'))) (book_local h u t)
      (call_then_send (returning ret_uint (tc_BookLocal C u (U a))) c)"
    by (intro call_then_send_related) (simp_all add: returning_map book [OF price_nonzero [OF sim]])
  then show ?thesis
    using H a by (simp add: travel_sim_def [abs_def] with_uint_show)
qed

lemma lock_call:
  assumes sim: "travel_sim H view_of rooms (Suc n) h c" and t: "word_text t" "word_text d"
  shows "outcomes (travel_sim H view_of rooms n) (lock_state h l t) (travel_call H C c (LockState l t d))"
proof -
  obtain a where a: "t = show_int a" "in_u256 a" using t(1) by (rule word_textE)
  obtain k where k: "d = show_int k" "in_u256 k" using t(2) by (rule word_textE)
  have H: "host_documented H" using sim by (simp add: travel_sim_def)
  let ?R = "\<lambda>h' s'. travel_budget rooms n h' \<and> travel_related h' s'"
  have "outcomes ?R (lock_state h l t)
      (map_sum id (map_prod (\<lambda>w. resultValues (ret_pair w)) id)
        (train_LockState l (U a) (U k) (view_of (contract_state c))))"
    using lock_related [of rooms n h "view_of (contract_state c)" a l "U k"] sim a
    by (simp add: travel_sim_def ret_pair_def)
  then have "outcomes (\<lambda>h c'. ?R h (view_of (contract_state c'))) (lock_state h l t)
      (call_then_send (\<lambda>b. returning ret_pair (tc_LockState C b l (U a) (U k)) b) c)"
    by (intro call_then_send_related) (simp_all add: returning_map lock [OF price_nonzero [OF sim]])
  then show ?thesis
    using H a k by (simp add: travel_sim_def [abs_def] with_uint_show)
qed

lemma unlock_call:
  assumes sim: "travel_sim H view_of rooms (Suc n) h c"
  shows "outcomes (travel_sim H view_of rooms n) (unlock_state h l) (travel_call H C c (UnlockState l))"
proof -
  have H: "host_documented H" using sim by (simp add: travel_sim_def)
  let ?R = "\<lambda>h' s'. travel_budget rooms n h' \<and> travel_related h' s'"
  have "outcomes ?R (unlock_state h l)
      (map_sum id (\<lambda>s'. ([], s')) (train_UnlockState l (view_of (contract_state c))))"
    using sim by (intro unlock_related) (simp_all add: travel_sim_def)
  moreover have "map_sum id (\<lambda>s. ([], view_of s)) (tc_UnlockState C l (contract_state c)) =
      map_sum id (\<lambda>s'. ([], s')) (train_UnlockState l (view_of (contract_state c)))"
    unfolding unlock [symmetric] by (cases "tc_UnlockState C l (contract_state c)") simp_all
  ultimately have "outcomes (\<lambda>h c'. ?R h (view_of (contract_state c'))) (unlock_state h l)
      (send_only (silent (tc_UnlockState C l)) c)"
    by (rule send_only_related [rotated])
  then show ?thesis using H by (simp add: travel_sim_def [abs_def])
qed

lemma read_call:
  assumes sim: "travel_sim H view_of rooms n h c"
    and op: "x \<in> {GetPrice, GetRemain, GetAvailableRemain, GetAccountBalance u, GetBooking u, IsStateLocked l}"
  shows "\<exists>vs. hotel_body h x = Inr (vs, h) \<and> travel_call H C c x = Inr (vs, c)"
proof -
  have b: "travel_budget rooms n h" and rel: "travel_related h (view_of (contract_state c))"
    using sim by (simp_all add: travel_sim_def)
  note R = travel_budget_range [OF b]
  have inv: "hotel_inv rooms h" using b by (simp add: travel_budget_def)
  obtain av where av: "availableRemain h = Inr av" using availableRemain_inv [OF inv] by blast
  note T = travel_available [OF b rel av]
  show ?thesis
    using op rel R T av price_nonzero [OF sim]
    by (auto simp: read_view_eval price remain account booking locked available ret_uint_def
        ret_bool_def travel_related_def uint_U)
qed

lemma call_outcomes:
  assumes sim: "travel_sim H view_of rooms (Suc n) h c" and legal: "travel_legal x"
  shows "outcomes (travel_sim H view_of rooms n) (hotel_body h x) (travel_call H C c x)"
proof -
  have sim': "travel_sim H view_of rooms n h c"
    using sim travel_budget_mono by (auto simp: travel_sim_def)
  show ?thesis
  proof (cases x)
    case (BookLocal u t)
    with legal book_call [OF sim] show ?thesis by simp
  next
    case (LockState l t d)
    with legal lock_call [OF sim] show ?thesis by simp
  next
    case (UnlockState l)
    with unlock_call [OF sim] show ?thesis by simp
  qed (use read_call [OF sim'] sim' in \<open>fastforce+\<close>)
qed

lemma step:
  assumes "travel_sim H view_of rooms (Suc n) h c" and "travel_legal x"
  shows "agree (fst (hotel_execute h x)) (fst (executeTranslated H C c x)) \<and>
    travel_sim H view_of rooms n (snd (hotel_execute h x)) (snd (executeTranslated H C c x))"
proof -
  have "travel_sim H view_of rooms n h c"
    using assms(1) travel_budget_mono by (auto simp: travel_sim_def)
  with call_outcomes [OF assms] show ?thesis
    unfolding hotel_execute_def executeTranslated_def by (rule outcomes_step)
qed

end

interpretation hotel_diff: differential hotel_execute "executeTranslated H hotel_contract"
    "travel_sim H hotel_view rooms" travel_legal for H rooms
  by unfold_locales (use hotel_target.step in auto)

interpretation train_diff: differential hotel_execute "executeTranslated H train_contract"
    "travel_sim H id rooms" travel_legal for H rooms
  by unfold_locales (use train_target.step in auto)



subsection \<open>Snapshots\<close>

text \<open>The fields no operation changes.\<close>

lemma hotel_body_fixed:
  "hotel_body h x = Inr (vs, h') \<Longrightarrow> hb_bridge h' = hb_bridge h \<and> hb_lockSize h' = hb_lockSize h"
  by (cases x) (auto simp: book_local_ok lock_state_ok unlock_state_def Let_def res_bind_Inr_iff
      split: if_splits)

lemma hotel_execute_fixed:
  "hb_bridge (snd (hotel_execute h x)) = hb_bridge h \<and> hb_lockSize (snd (hotel_execute h x)) = hb_lockSize h"
  by (cases "hotel_body h x") (auto simp: hotel_execute_def catch_result_def dest: hotel_body_fixed)

lemma hotel_run_fixed:
  "hb_bridge (hotel_run h xs) = hb_bridge h \<and> hb_lockSize (hotel_run h xs) = hb_lockSize h"
  by (induction xs arbitrary: h) (simp_all add: hotel_execute_fixed)

text \<open>The model's entries, with the two totals in the order the translated side pushes them.\<close>

definition swapped_entries :: "hotel \<Rightarrow> int \<Rightarrow> string list \<Rightarrow> string list \<Rightarrow> snapshot_entry list" where
  "swapped_entries h available users locks =
     [string_entry ''meta.bridge'' (hb_bridge h), uint_entry ''meta.price'' (hb_price h),
      uint_entry ''meta.remain'' (hb_remain h), uint_entry ''meta.lockSize'' (hb_lockSize h),
      uint_entry ''availableRemain'' available, uint_entry ''lockedTotal'' (hb_lockedTotal h)]
     @ concat (map (user_entries h) (sorted_members users))
     @ concat (map (lock_entries h) (sorted_members locks))"

lemma swapped_snapshot:
  assumes lc: "js_comparator lc" and tell: "lc ''lockedTotal'' ''availableRemain'' \<noteq> 0"
    and av: "availableRemain h = Inr av"
  shows "res_bind (hotel_entries h users locks) (canonicalSnapshot lc E name) =
    canonicalSnapshot lc E name (swapped_entries h av users locks)"
proof -
  let ?tail = "concat (map (user_entries h) (sorted_members users)) @ concat (map (lock_entries h) (sorted_members locks))"
  let ?head = "[string_entry ''meta.bridge'' (hb_bridge h), uint_entry ''meta.price'' (hb_price h),
      uint_entry ''meta.remain'' (hb_remain h), uint_entry ''meta.lockSize'' (hb_lockSize h)]"
  have "compare_keys lc (uint_entry ''lockedTotal'' (hb_lockedTotal h)) (uint_entry ''availableRemain'' av) \<noteq> 0"
    using tell by (simp add: compare_keys_def uint_entry_def)
  then have "sort_by (compare_keys lc) (?head @ uint_entry ''lockedTotal'' (hb_lockedTotal h) #
      uint_entry ''availableRemain'' av # ?tail) =
    sort_by (compare_keys lc) (?head @ uint_entry ''availableRemain'' av #
      uint_entry ''lockedTotal'' (hb_lockedTotal h) # ?tail)"
    by (rule js_comparator.sort_by_swap [OF compare_keys_comparator [OF lc]])
  then show ?thesis
    by (simp add: hotel_entries_def swapped_entries_def av canonicalSnapshot_def snapshot_bytes_def
        del: sort_by.simps)
qed

lemma list_all2_concat_map:
  "(\<And>x. x \<in> set xs \<Longrightarrow> list_all2 P (f x) (g x)) \<Longrightarrow> list_all2 P (concat (map f xs)) (concat (map g xs))"
  by (induction xs) (auto intro: list_all2_appendI)

lemma entry_encodable_simps:
  "entry_encodable (uint_entry k n) \<longleftrightarrow> short k \<and> in_u256 n"
  "entry_encodable (bool_entry k b) \<longleftrightarrow> short k"
  "entry_encodable (string_entry k t) \<longleftrightarrow> short k \<and> short t"
  by (auto simp: uint_entry_def bool_entry_def string_entry_def in_u256_def)

lemma swapped_encodable:
  assumes b: "travel_budget rooms n h" and av: "in_u256 av" and "brief (hb_bridge h)"
    and "\<forall>u \<in> set users. brief u" and "\<forall>l \<in> set locks. brief l"
  shows "\<forall>e \<in> set (swapped_entries h av users locks). entry_encodable e"
proof -
  have len: "u \<in> set users \<Longrightarrow> length u < 2 ^ 30" "l \<in> set locks \<Longrightarrow> length l < 2 ^ 30"
    "length (hb_bridge h) < 2 ^ 30" for u l
    using assms(3-5) by (auto simp: brief_def)
  show ?thesis
    using travel_budget_range [OF b] av
    by (auto simp: swapped_entries_def user_entries_def lock_entries_def entry_encodable_simps short_def
        dest!: len(1,2) intro: less_trans [OF len(3)])
qed

definition travel_names_ok :: "hotel_operation list \<Rightarrow> bool" where
  "travel_names_ok xs \<longleftrightarrow>
     (\<forall>u \<in> set (hotelTouchedUsers xs). brief u) \<and> (\<forall>l \<in> set (hotelTouchedLocks xs). brief l)"

context travel_target
begin

lemma entries_match:
  assumes sim: "travel_sim H view_of rooms n h c" and av: "availableRemain h = Inr av"
    and init: "init_bridge i = hb_bridge h" "init_lockSize i = show_int (hb_lockSize h)"
  shows "\<exists>es. translated_travel_entries C (contract_state c) i users locks = Inr es \<and>
    list_all2 (same_encoding E) (swapped_entries h av users locks) es"
proof -
  have b: "travel_budget rooms n h" and rel: "travel_related h (view_of (contract_state c))"
    using sim by (simp_all add: travel_sim_def)
  note R = travel_budget_range [OF b] and T = travel_available [OF b rel av]
  have "list_all2 (same_encoding E) (user_entries h u) (translated_user_entries C (contract_state c) u)" for u
    using rel R by (simp add: user_entries_def translated_user_entries_def word_entry_def
        account booking travel_related_def uint_U)
  moreover have "list_all2 (same_encoding E) (lock_entries h l) (translated_lock_entries C (contract_state c) l)" for l
    using rel R by (simp add: lock_entries_def translated_lock_entries_def word_entry_def
        locked lock_amount travel_related_def uint_U)
  ultimately show ?thesis
    using T rel R price_nonzero [OF sim] init
    by (auto simp: translated_travel_entries_def swapped_entries_def available word_entry_def
        price remain locked_total travel_related_def uint_U
        intro!: list_all2_appendI list_all2_concat_map)
qed

lemma snapshots_match:
  assumes sim: "travel_sim H view_of rooms n h c"
    and init: "init_bridge i = hb_bridge h" "init_lockSize i = show_int (hb_lockSize h)"
    and lc: "js_comparator lc" "lc ''lockedTotal'' ''availableRemain'' \<noteq> 0"
    and E: "ethers_documented E" and names: "brief (hb_bridge h)"
      "\<forall>u \<in> set users. brief u" "\<forall>l \<in> set locks. brief l" "brief name"
  shows "\<exists>r. res_bind (hotel_entries h users locks) (canonicalSnapshot lc E name) = Inr r \<and>
    translatedTravelSnapshot lc E H name C c i users locks = Inr r"
proof -
  have b: "travel_budget rooms n h" and rel: "travel_related h (view_of (contract_state c))"
    using sim by (simp_all add: travel_sim_def)
  have inv: "hotel_inv rooms h" using b by (simp add: travel_budget_def)
  obtain av where av: "availableRemain h = Inr av" using availableRemain_inv [OF inv] by blast
  obtain es where es: "translated_travel_entries C (contract_state c) i users locks = Inr es"
    "list_all2 (same_encoding E) (swapped_entries h av users locks) es"
    using entries_match [OF sim av init] by blast
  obtain r where "canonicalSnapshot lc E name (swapped_entries h av users locks) = Inr r"
    using canonicalSnapshot_total [OF E brief_short(3) [OF names(4)]
        swapped_encodable [OF b travel_available(2) [OF b rel av] names(1-3)]] by blast
  then show ?thesis
    using canonicalSnapshot_cong [OF es(2), of lc name] es(1)
    by (simp add: swapped_snapshot [OF lc av] translatedTravelSnapshot_def uncaught_def)
qed

end


subsection \<open>Cases in range\<close>

definition initial_texts :: "hotel_initial \<Rightarrow> int \<Rightarrow> int \<Rightarrow> int \<Rightarrow> bool" where
  "initial_texts i p r l \<longleftrightarrow>
     init_price i = show_int p \<and> init_remain i = show_int r \<and> init_lockSize i = show_int l"

text \<open>
  The values of the case, and one unit of room price for every operation and for the state
  itself, fit into \<open>uint256\<close>.
\<close>

definition travel_case_in_range :: "(hotel_initial, hotel_operation) rq2_case \<Rightarrow> int \<Rightarrow> int \<Rightarrow> int \<Rightarrow> bool" where
  "travel_case_in_range testCase p r l \<longleftrightarrow>
     initial_texts (rc_initial testCase) p r l \<and> 0 < p \<and> 0 \<le> r \<and> 0 < l \<and>
     (int (length (rc_operations testCase)) + 1) * (p * (r + l)) < 2 ^ 256 \<and>
     (\<forall>x \<in> set (rc_operations testCase). travel_legal x) \<and>
     brief (init_bridge (rc_initial testCase)) \<and> travel_names_ok (rc_operations testCase)"

definition fresh_hotel :: "string \<Rightarrow> int \<Rightarrow> int \<Rightarrow> int \<Rightarrow> hotel" where
  "fresh_hotel b p r l = \<lparr>hb_bridge = b, hb_price = p, hb_remain = r, hb_lockSize = l, hb_lockedTotal = 0,
     hb_accounts = Map.empty, hb_bookings = Map.empty, hb_locks = Map.empty\<rparr>"

lemma new_hotel_fresh:
  "initial_texts i p r l \<Longrightarrow> 0 < p \<Longrightarrow> 0 < l \<Longrightarrow>
   new_HotelBookingModel i = Inr (fresh_hotel (init_bridge i) p r l)"
  by (simp add: new_HotelBookingModel_def initial_texts_def fresh_hotel_def)

lemma fresh_budget:
  assumes "0 < p" "0 \<le> r" "0 < l" "(int n + 1) * (p * (r + l)) < 2 ^ 256"
  shows "travel_budget r n (fresh_hotel b p r l)"
proof -
  have "hotel_inv r (fresh_hotel b p r l)"
    using assms by (simp add: hotel_inv_def fresh_hotel_def lock_amounts_def balanceOf_def bookingOf_def
        map_total_def)
  moreover have "0 \<le> int n * (p * (r + l))" "0 \<le> p * (r + l)" using assms by simp_all
  ultimately show ?thesis
    using assms(4) by (simp add: travel_budget_def unit_cost_def fresh_hotel_def bookingOf_def algebra_simps)
qed

lemma fresh_related:
  "travel_related (fresh_hotel b p r l)
     \<lparr>ts_bridge = b', ts_price = U p, ts_remain = U r, ts_lockSize = U l, ts_lockedTotal = 0,
      ts_accounts = (\<lambda>_. 0), ts_bookings = (\<lambda>_. 0), ts_locks = (\<lambda>_. zero_train_lock)\<rparr>"
  by (simp add: travel_related_def fresh_hotel_def balanceOf_def bookingOf_def lock_amount_def
      lock_is_active_def zero_train_lock_def)

text \<open>Both ways of starting a target reach the storage of a fresh ledger.\<close>

lemma hotel_start:
  assumes H: "host_documented H" and i: "initial_texts i p r l"
    and "in_u256 p" "in_u256 r" "in_u256 l"
  shows "\<exists>c. initTranslatedHotel H (deploy HotelBookingTranslated) i = Inr c \<and>
    hotel_view (contract_state c) =
      \<lparr>ts_bridge = init_bridge i, ts_price = U p, ts_remain = U r, ts_lockSize = U l, ts_lockedTotal = 0,
       ts_accounts = (\<lambda>_. 0), ts_bookings = (\<lambda>_. 0), ts_locks = (\<lambda>_. zero_train_lock)\<rparr>"
proof -
  have "lock_total_slot H \<noteq> meta_slot H"
    "abi_decode_meta H (abi_encode_meta H (init_bridge i) (U p) (U r) (U l)) = Some (init_bridge i, U p, U r, U l)"
    "abi_decode_uint H (abi_encode_uint H 0) = Some 0"
    using H by (auto simp: host_documented_def)
  then show ?thesis
    using assms
    by (simp add: initTranslatedHotel_def initial_texts_def with_uint_show send_def silent_def
        vassp_apply_def deploy_def HotelBookingTranslated_def hotel_view_def Let_def zero_lock_def
        zero_train_lock_def)
qed

lemma train_start:
  assumes H: "host_documented H" and i: "initial_texts i p r l"
    and "in_u256 p" "in_u256 r" "in_u256 l" and "0 < p" "0 < l"
  shows "\<exists>c. deployTrain H i = Inr c \<and>
    id (contract_state c) =
      \<lparr>ts_bridge = init_bridge i, ts_price = U p, ts_remain = U r, ts_lockSize = U l, ts_lockedTotal = 0,
       ts_accounts = (\<lambda>_. 0), ts_bookings = (\<lambda>_. 0), ts_locks = (\<lambda>_. zero_train_lock)\<rparr>"
  using assms
  by (auto simp: deployTrain_def initial_texts_def with_uint_show TrainBookingTranslated_def
      deploy_def require_def U_pos U_eq_0)

lemma in_range_words:
  assumes "travel_case_in_range tc p r l"
  shows "in_u256 p" "in_u256 r" "in_u256 l"
    "travel_budget r (length (rc_operations tc)) (fresh_hotel b p r l)"
proof -
  show b: "travel_budget r (length (rc_operations tc)) (fresh_hotel b p r l)" for b
    using assms by (intro fresh_budget) (simp_all add: travel_case_in_range_def)
  show "in_u256 p" "in_u256 r" "in_u256 l"
    using travel_budget_range(1-3) [OF b [of "[]"]] by (simp_all add: fresh_hotel_def)
qed

lemma train_available_eq:
  assumes "hotel_inv rooms h"
  shows "train_available h = availableRemain h"
  using availableRemain_inv [OF assms]
  by (simp add: train_available_def hotel_execute_def catch_result_def succeed_def)

text \<open>A train's snapshot is a hotel's under another name, when the hotel's can be produced.\<close>

lemma train_snapshot_eq:
  assumes inv: "hotel_inv rooms h" and "hotel_snapshot lc E h users locks = Inr r0"
    and "canonicalSnapshot lc E ''HotelBooking'' [] = Inr r1"
  shows "train_snapshot lc E h users locks =
    res_bind (hotel_entries h users locks) (canonicalSnapshot lc E ''TrainBooking'')"
  using assms by (simp add: train_snapshot_def train_entries_def hotel_entries_def train_available_eq [OF inv])

lemma brief_names: "brief ''HotelBooking''" "brief ''TrainBooking''"
  by (simp_all add: brief_def)

lemma final_names:
  assumes "travel_case_in_range tc p r l"
  shows "brief (init_bridge (rc_initial tc))" "\<forall>u \<in> set (hotelTouchedUsers (rc_operations tc)). brief u"
    "\<forall>k \<in> set (hotelTouchedLocks (rc_operations tc)). brief k"
    "\<forall>x \<in> set (rc_operations tc). travel_legal x" "initial_texts (rc_initial tc) p r l" "0 < p" "0 < l"
  using assms by (simp_all add: travel_case_in_range_def travel_names_ok_def)

lemma run_from_fresh:
  "hb_bridge (hotel_run (fresh_hotel b p r l) xs) = b"
  "hb_lockSize (hotel_run (fresh_hotel b p r l) xs) = l"
  by (simp_all add: hotel_run_fixed) (simp_all add: fresh_hotel_def)

text \<open>The entries of a ledger without operations whose case file says \<open>lockSize\<close> 0.\<close>

lemma datum_text: "entry_datum (text_entry k (show_int n)) = (k, DUint256 n)"
  "entry_datum (uint_entry k n) = (k, DUint256 n)" "entry_datum (string_entry k s) = (k, DString s)"
  by (simp_all add: entry_datum_def datum_of_def text_entry_def uint_entry_def string_entry_def
      scalar_bigint_def scalar_string_def)

lemma encodable_text: "entry_encodable (text_entry k (show_int n)) \<longleftrightarrow> short k \<and> in_u256 n"
  by (simp add: text_entry_def in_u256_def)

lemma zero_lockSize_entries:
  assumes "initial_texts i p r 0" "0 < p" "in_u256 p" "in_u256 r" "brief (init_bridge i)"
  shows "\<exists>es. hotel_entries (fresh_hotel (init_bridge i) p r 1) [] [] = Inr es \<and>
      (\<forall>e \<in> set es. entry_encodable e) \<and> (''meta.lockSize'', DUint256 1) \<in> set (map entry_datum es)"
    and "hotel_view s = \<lparr>ts_bridge = init_bridge i, ts_price = U p, ts_remain = U r, ts_lockSize = U 0,
        ts_lockedTotal = 0, ts_accounts = (\<lambda>_. 0), ts_bookings = (\<lambda>_. 0), ts_locks = (\<lambda>_. zero_train_lock)\<rparr> \<Longrightarrow>
      \<exists>fs. translated_travel_entries hotel_contract s i [] [] = Inr fs \<and>
      (\<forall>e \<in> set fs. entry_encodable e) \<and> (''meta.lockSize'', DUint256 1) \<notin> set (map entry_datum fs)"
proof -
  have b: "length (init_bridge i) < 2 ^ 31" using assms(5) by (simp add: brief_def)
  have r: "0 \<le> r" using assms(4) by (simp add: in_u256_def)
  have av: "availableRemain (fresh_hotel (init_bridge i) p r 1) = Inr r"
    using assms(2) r by (simp add: availableRemain_def fresh_hotel_def js_div_pos)
  show "\<exists>es. hotel_entries (fresh_hotel (init_bridge i) p r 1) [] [] = Inr es \<and>
      (\<forall>e \<in> set es. entry_encodable e) \<and> (''meta.lockSize'', DUint256 1) \<in> set (map entry_datum es)"
    using assms b
    by (simp add: hotel_entries_def av sorted_members_def datum_text entry_encodable_simps short_def)
      (simp add: fresh_hotel_def)
  assume v: "hotel_view s = \<lparr>ts_bridge = init_bridge i, ts_price = U p, ts_remain = U r, ts_lockSize = U 0,
        ts_lockedTotal = 0, ts_accounts = (\<lambda>_. 0), ts_bookings = (\<lambda>_. 0), ts_locks = (\<lambda>_. zero_train_lock)\<rparr>"
  have f: "mt_price (hs_meta s) = U p" "mt_remain (hs_meta s) = U r" "hs_lockedTotal s = 0"
    using v by (simp_all add: hotel_view_def)
  have "U p \<noteq> 0" using assms(2,3) by (simp add: U_eq_0)
  then have tav: "ubtl_available_units s = Inr (U r)"
    using f assms(4) r
    by (auto simp: ubtl_available_units_def checked_div_def checked_sub_def word_gt_0)
  show "\<exists>fs. translated_travel_entries hotel_contract s i [] [] = Inr fs \<and>
      (\<forall>e \<in> set fs. entry_encodable e) \<and> (''meta.lockSize'', DUint256 1) \<notin> set (map entry_datum fs)"
    using assms b f
    by (simp add: translated_travel_entries_def tav sorted_members_def word_entry_def initial_texts_def
        datum_text entry_encodable_simps encodable_text short_def uint_U hotel_contract_def)
qed

definition sample_travel_case :: "(hotel_initial, hotel_operation) rq2_case" where
  "sample_travel_case = \<lparr>rc_caseId = ''hotel-0000'', rc_seed = 7,
     rc_initial = \<lparr>init_bridge = ''Org1MSP'', init_price = show_int 10, init_remain = show_int 20,
       init_lockSize = show_int 2\<rparr>,
     rc_operations = [BookLocal ''alice'' (show_int 2), LockState ''lock-a'' (show_int 0) (show_int 5),
       GetAvailableRemain, UnlockState ''lock-a'']\<rparr>"

lemma sample_travel_in_range: "travel_case_in_range sample_travel_case 10 20 2"
proof -
  have texts: "initial_texts (rc_initial sample_travel_case) 10 20 2"
    by (simp add: sample_travel_case_def initial_texts_def)
  have "word_text (show_int n)" if "in_u256 n" for n using that by (auto simp: word_text_def)
  then have "\<forall>x \<in> set (rc_operations sample_travel_case). travel_legal x"
    by (simp add: sample_travel_case_def in_u256_def)
  with texts show ?thesis
    by (simp add: travel_case_in_range_def)
      (simp add: sample_travel_case_def travel_names_ok_def hotelTouchedUsers_def
        hotelTouchedLocks_def brief_def)
qed

lemma sample_order: "code_unit_compare ''lockedTotal'' ''availableRemain'' \<noteq> 0"
  by simp

subsection \<open>Properties\<close>

lemma hotel_case_ok:
  assumes H: "host_documented H" and E: "ethers_documented E"
    and lc: "js_comparator lc" "lc ''lockedTotal'' ''availableRemain'' \<noteq> 0"
    and range: "travel_case_in_range tc p r l"
  shows "\<exists>result. runHotelCase lc E H tc = Inr result \<and> cr_pass result"
proof -
  note N = final_names [OF range] and W = in_range_words [OF range]
  let ?i = "rc_initial tc" and ?h = "fresh_hotel (init_bridge (rc_initial tc)) p r l"
  let ?users = "hotelTouchedUsers (rc_operations tc)" and ?locks = "hotelTouchedLocks (rc_operations tc)"
  obtain c where c: "initTranslatedHotel H (deploy HotelBookingTranslated) ?i = Inr c"
    "travel_sim H hotel_view r (length (rc_operations tc)) ?h c"
    using hotel_start [OF H N(5) W(1-3)] W(4) H by (auto simp: travel_sim_def fresh_related)
  have "\<exists>result. run_case hotel_execute (executeTranslated H hotel_contract)
      (\<lambda>h. hotel_snapshot lc E h ?users ?locks) (\<lambda>c. translatedSnapshot lc E H c ?i ?users ?locks) ?h c tc =
      Inr result \<and> cr_pass result"
  proof (rule hotel_diff.case_passes [OF c(2) N(4)])
    fix c'
    assume sim: "travel_sim H hotel_view r 0 (hotel_run ?h (rc_operations tc)) c'"
    show "\<exists>s. hotel_snapshot lc E (hotel_run ?h (rc_operations tc)) ?users ?locks = Inr s \<and>
        translatedSnapshot lc E H c' ?i ?users ?locks = Inr s"
      using hotel_target.snapshots_match [OF sim, of ?i lc E ?users ?locks "''HotelBooking''"] N lc E
      by (simp add: run_from_fresh initial_texts_def brief_names hotel_snapshot_def translatedSnapshot_def
          translatedTravelSnapshot_def)
  qed
  then show ?thesis
    using c(1) new_hotel_fresh [OF N(5-7)] by (simp add: runHotelCase_def uncaught_def Let_def)
qed

text \<open>C2. Within the range of \<open>uint256\<close> the translated hotel contract is equivalent to its model:
  for every such case the runner's verdict on \<open>HotelBooking\<close> is pass.\<close>

theorem hotel_cases_pass:
  assumes H: "host_documented H" and E: "ethers_documented E"
    and lc: "js_comparator lc" "lc ''lockedTotal'' ''availableRemain'' \<noteq> 0"
    and range: "travel_case_in_range tc p r l"
  shows "\<exists>result. runHotelCase lc E H tc = Inr result \<and> cr_pass result"
  using assms by (rule hotel_case_ok)

theorem hotel_cases_pass_witness:
  "\<exists>result. runHotelCase code_unit_compare reference_ethers reference_host sample_travel_case = Inr result \<and>
    cr_pass result"
  by (rule hotel_cases_pass [OF reference_host_documented reference_ethers_documented
      code_units.js_comparator_axioms sample_order sample_travel_in_range])

lemma train_case_ok:
  assumes H: "host_documented H" and E: "ethers_documented E"
    and lc: "js_comparator lc" "lc ''lockedTotal'' ''availableRemain'' \<noteq> 0"
    and range: "travel_case_in_range tc p r l"
  shows "\<exists>result. runTrainCase lc E H tc = Inr result \<and> cr_pass result"
proof -
  note N = final_names [OF range] and W = in_range_words [OF range]
  let ?i = "rc_initial tc" and ?h = "fresh_hotel (init_bridge (rc_initial tc)) p r l"
  let ?users = "hotelTouchedUsers (rc_operations tc)" and ?locks = "hotelTouchedLocks (rc_operations tc)"
  obtain c where c: "deployTrain H ?i = Inr c"
    "travel_sim H id r (length (rc_operations tc)) ?h c"
    using train_start [OF H N(5) W(1-3) N(6,7)] W(4) H by (auto simp: travel_sim_def fresh_related)
  have "\<exists>result. run_case hotel_execute (executeTranslated H train_contract)
      (\<lambda>h. train_snapshot lc E h ?users ?locks)
      (\<lambda>c. translatedTravelSnapshot lc E H ''TrainBooking'' train_contract c ?i ?users ?locks) ?h c tc =
      Inr result \<and> cr_pass result"
  proof (rule train_diff.case_passes [OF c(2) N(4)])
    fix c'
    assume sim: "travel_sim H id r 0 (hotel_run ?h (rc_operations tc)) c'"
    then have inv: "hotel_inv r (hotel_run ?h (rc_operations tc))"
      by (simp add: travel_sim_def travel_budget_def)
    note M = train_target.snapshots_match [OF sim, of ?i lc E ?users ?locks]
    obtain r0 where r0: "hotel_snapshot lc E (hotel_run ?h (rc_operations tc)) ?users ?locks = Inr r0"
      using M [of "''HotelBooking''"] N lc E
      by (auto simp: run_from_fresh initial_texts_def brief_names hotel_snapshot_def)
    obtain r1 where r1: "canonicalSnapshot lc E ''HotelBooking'' [] = Inr r1"
      using canonicalSnapshot_total [OF E brief_short(3) [OF brief_names(1)], of "[]"] by auto
    show "\<exists>s. train_snapshot lc E (hotel_run ?h (rc_operations tc)) ?users ?locks = Inr s \<and>
        translatedTravelSnapshot lc E H ''TrainBooking'' train_contract c' ?i ?users ?locks = Inr s"
      using M [of "''TrainBooking''"] N lc E
      by (simp add: train_snapshot_eq [OF inv r0 r1] run_from_fresh initial_texts_def brief_names)
  qed
  then show ?thesis
    using c(1) new_hotel_fresh [OF N(5-7)] by (simp add: runTrainCase_def uncaught_def Let_def)
qed

text \<open>C13. The same holds for \<open>TrainBooking\<close>, whose runner deploys the other translation and
  takes the snapshot of the subclass.\<close>

theorem train_cases_pass:
  assumes H: "host_documented H" and E: "ethers_documented E"
    and lc: "js_comparator lc" "lc ''lockedTotal'' ''availableRemain'' \<noteq> 0"
    and range: "travel_case_in_range tc p r l"
  shows "\<exists>result. runTrainCase lc E H tc = Inr result \<and> cr_pass result"
  using assms by (rule train_case_ok)

theorem train_cases_pass_witness:
  "\<exists>result. runTrainCase code_unit_compare reference_ethers reference_host sample_travel_case = Inr result \<and>
    cr_pass result"
  by (rule train_cases_pass [OF reference_host_documented reference_ethers_documented
      code_units.js_comparator_axioms sample_order sample_travel_in_range])

text \<open>A case whose \<open>lockSize\<close> is 0 is always reported as a failure of \<open>HotelBooking\<close>, even
  with no operation at all: the model's constructor replaces the 0 by 1, the translated
  side's snapshot repeats the 0 of the case file.\<close>

lemma hotel_zero_lockSize_reported:
  assumes H: "host_documented H" and E: "ethers_documented E"
    and i: "initial_texts (rc_initial tc) p r 0" and "0 < p" "in_u256 p" "in_u256 r"
    and ops: "rc_operations tc = []" and b: "brief (init_bridge (rc_initial tc))"
  shows "\<exists>result. runHotelCase lc E H tc = Inr result \<and> \<not> cr_pass result \<and>
    failCategory result = Some ''state_mismatch''"
proof -
  let ?h = "fresh_hotel (init_bridge (rc_initial tc)) p r 1"
  have h: "new_HotelBookingModel (rc_initial tc) = Inr ?h"
    using assms by (simp add: new_HotelBookingModel_def initial_texts_def fresh_hotel_def)
  obtain c where c: "initTranslatedHotel H (deploy HotelBookingTranslated) (rc_initial tc) = Inr c"
    and view: "hotel_view (contract_state c) =
      \<lparr>ts_bridge = init_bridge (rc_initial tc), ts_price = U p, ts_remain = U r, ts_lockSize = U 0, ts_lockedTotal = 0,
       ts_accounts = (\<lambda>_. 0), ts_bookings = (\<lambda>_. 0), ts_locks = (\<lambda>_. zero_train_lock)\<rparr>"
    using hotel_start [OF H i] assms by auto
  obtain es where es: "hotel_entries ?h [] [] = Inr es" "\<forall>e \<in> set es. entry_encodable e"
    "(''meta.lockSize'', DUint256 1) \<in> set (map entry_datum es)"
    using assms zero_lockSize_entries(1) by blast
  obtain fs where fs: "translated_travel_entries hotel_contract (contract_state c) (rc_initial tc) [] [] = Inr fs"
    "\<forall>e \<in> set fs. entry_encodable e" "(''meta.lockSize'', DUint256 1) \<notin> set (map entry_datum fs)"
    using assms zero_lockSize_entries(2) [OF i _ _ _ b view] by blast
  obtain so st where st: "canonicalSnapshot lc E ''HotelBooking'' es = Inr so"
    "canonicalSnapshot lc E ''HotelBooking'' fs = Inr st"
    using canonicalSnapshot_total [OF E brief_short(3) [OF brief_names(1)]] es(2) fs(2) by blast
  have "mset (map entry_datum es) \<noteq> mset (map entry_datum fs)"
    using es(3) fs(3) by (metis mset_eq_setD)
  then have "bytesHex so \<noteq> bytesHex st"
    using same_hex_same_data [OF E st] by auto
  then show ?thesis
    using ops st es(1) fs(1)
    by (simp add: runHotelCase_def h c uncaught_def run_case_def hotelTouchedUsers_def
        hotelTouchedLocks_def hotel_snapshot_def translatedSnapshot_def snapshot_verdict_def)
qed

lemma hotel_zero_lockSize_example:
  "\<exists>result. runHotelCase code_unit_compare reference_ethers reference_host
      \<lparr>rc_caseId = ''x'', rc_seed = 0, rc_initial = \<lparr>init_bridge = ''b'', init_price = show_int 10,
         init_remain = show_int 20, init_lockSize = show_int 0\<rparr>, rc_operations = []\<rparr> = Inr result \<and>
    \<not> cr_pass result \<and> failCategory result = Some ''state_mismatch''"
  by (rule hotel_zero_lockSize_reported [OF reference_host_documented reference_ethers_documented,
        where p = 10 and r = 20])
    (simp_all add: initial_texts_def in_u256_def brief_def)

end
