(* ===== verification/Equiv_Token.thy ===== *)
theory Equiv_Token
  imports Equiv_Travel
begin

text \<open>
  \<open>TokenTransferTranslated\<close> agrees with \<open>TokenTransferModel\<close> while no more than
  \<open>2\<^sup>2\<^sup>5\<^sup>6\<close> tokens can be minted. The contract keeps allowances under a hash; the agreement
  needs the hash to tell the pairs of the case apart, and nothing about other inputs.
\<close>

subsection \<open>Model and storage, related\<close>

definition pair_hash :: "evm_host \<Rightarrow> string \<Rightarrow> uint256" where
  "pair_hash H k = keccak H (utf8Bytes k)"

lemma token_allowanceKey_hash: "token_allowanceKey H owner spender = pair_hash H (allowanceKey owner spender)"
  by (simp add: token_allowanceKey_def pair_hash_def packed_keccak_def allowanceKey_def utf8Bytes_def)

definition token_related :: "evm_host \<Rightarrow> string set \<Rightarrow> token \<Rightarrow> token_storage \<Rightarrow> bool" where
  "token_related H K t s \<longleftrightarrow>
     (\<forall>u. tt_balances s u = U (token_balance t u)) \<and>
     (\<forall>k \<in> K. tt_allowances s (pair_hash H k) = U (token_allowance t k)) \<and>
     tt_totalSupply s = U (tk_totalSupply t)"

text \<open>\<open>M\<close> bounds what one \<open>Mint\<close> adds.\<close>

definition token_budget :: "int \<Rightarrow> nat \<Rightarrow> token \<Rightarrow> bool" where
  "token_budget M n t \<longleftrightarrow>
     token_nonneg t \<and> 0 \<le> M \<and> tk_totalSupply t + int n * M < 2 ^ 256 \<and>
     (\<forall>k. token_allowance t k < 2 ^ 256)"

definition token_sim :: "evm_host \<Rightarrow> string set \<Rightarrow> int \<Rightarrow> nat \<Rightarrow> token \<Rightarrow> token_storage chain \<Rightarrow> bool" where
  "token_sim H K M n t c \<longleftrightarrow>
     host_documented H \<and> inj_on (pair_hash H) K \<and> token_budget M n t \<and>
     token_related H K t (contract_state c)"

fun token_in_range :: "string set \<Rightarrow> int \<Rightarrow> token_operation \<Rightarrow> bool" where
  "token_in_range K M (Mint dst a) \<longleftrightarrow> (\<exists>n. a = show_int n \<and> 0 \<le> n \<and> n \<le> M)"
| "token_in_range K M (Transfer src dst a) \<longleftrightarrow> word_text a"
| "token_in_range K M (Approve owner spender a) \<longleftrightarrow> word_text a \<and> allowanceKey owner spender \<in> K"
| "token_in_range K M (TransferFrom spender src dst a) \<longleftrightarrow> word_text a \<and> allowanceKey src spender \<in> K"
| "token_in_range K M (BalanceOf user) \<longleftrightarrow> True"
| "token_in_range K M (Allowance owner spender) \<longleftrightarrow> allowanceKey owner spender \<in> K"
| "token_in_range K M TotalSupply \<longleftrightarrow> True"

lemma token_range:
  assumes "token_budget M n t"
  shows "in_u256 (token_balance t u)" "in_u256 (token_allowance t k)" "in_u256 (tk_totalSupply t)"
    "token_balance t u \<le> tk_totalSupply t" "0 \<le> token_balance t u"
proof -
  have nn: "token_nonneg t" and tot: "tk_totalSupply t + int n * M < 2 ^ 256" and M: "0 \<le> M"
    and al: "token_allowance t k < 2 ^ 256"
    using assms by (auto simp: token_budget_def)
  show le: "token_balance t u \<le> tk_totalSupply t" and nonneg: "0 \<le> token_balance t u" for u
    using nn map_total_ge [of "tk_balances t" u]
    by (simp_all add: token_nonneg_def token_inv_def token_balance_def)
  have "0 \<le> int n * M" using M by simp
  then have "tk_totalSupply t < 2 ^ 256" using tot by linarith
  then show total: "in_u256 (tk_totalSupply t)"
    using le [of u] nonneg [of u] by (simp add: in_u256_def)
  show "in_u256 (token_balance t u)" using total nonneg le by (rule in_u256_le)
  show "in_u256 (token_allowance t k)" using al nn by (simp add: in_u256_def token_nonneg_def)
qed

lemma token_budget_mono: "token_budget M (Suc n) t \<Longrightarrow> token_budget M n t"
  by (auto simp: token_budget_def algebra_simps)

lemma token_sim_mono: "token_sim H K M (Suc n) t c \<Longrightarrow> token_sim H K M n t c"
  using token_budget_mono by (auto simp: token_sim_def)

subsection \<open>The state changes\<close>

lemma shift_related:
  assumes b: "token_budget M n t" and rel: "token_related H K t s"
    and a: "0 \<le> a" "a \<le> token_balance t src"
  shows "\<exists>s'. token_shift src dst (U a) s = Inr s' \<and> token_related H K (move t src dst a) s' \<and>
    token_budget M n (move t src dst a)"
proof -
  note R = token_range [OF b]
  have budget: "token_budget M n (move t src dst a)"
    using b a move_nonneg [of t a src dst] by (simp add: token_budget_def token_allowance_def)
  note R' = token_range [OF budget]
  let ?s = "s\<lparr>tt_balances := (tt_balances s)(src := U (token_balance t src - a),
     dst := U (token_balance (move t src dst a) dst))\<rparr>"
  have a256: "in_u256 a" using R(1) [of src] a by (auto intro: in_u256_le)
  have d: "in_u256 (token_balance t src - a)" using R(1) [of src] a by (auto intro: in_u256_le)
  have "checked_add (((tt_balances s)(src := U (token_balance t src - a))) dst) (U a) =
      Inr (U (token_balance (move t src dst a) dst))"
    using rel R'(1) [of dst] R(1) [of dst] a256 d
    by (auto simp: token_related_def token_balance_move evm_simps)
  then have "token_shift src dst (U a) s = Inr ?s"
    using rel R(1) [of src] a a256
    by (simp add: token_shift_def token_related_def evm_simps)
  moreover have "token_related H K (move t src dst a) ?s"
    using rel by (auto simp: token_related_def token_balance_move token_allowance_def)
  ultimately show ?thesis using budget by blast
qed

lemma approve_related:
  assumes b: "token_budget M n t" and rel: "token_related H K t s" and inj: "inj_on (pair_hash H) K"
    and k: "k \<in> K" and a: "in_u256 a"
  shows "token_related H K (t\<lparr>tk_allowances := (tk_allowances t)(k \<mapsto> a)\<rparr>)
      (s\<lparr>tt_allowances := (tt_allowances s)(pair_hash H k := U a)\<rparr>) \<and>
    token_budget M n (t\<lparr>tk_allowances := (tk_allowances t)(k \<mapsto> a)\<rparr>)"
proof -
  have "j \<in> K \<Longrightarrow> pair_hash H j = pair_hash H k \<longleftrightarrow> j = k" for j
    using inj k by (auto dest: inj_onD)
  moreover have "token_nonneg (t\<lparr>tk_allowances := (tk_allowances t)(k \<mapsto> a)\<rparr>)"
    using b a by (intro allowances_nonneg) (simp_all add: token_budget_def in_u256_def)
  ultimately show ?thesis
    using b rel a
    by (auto simp: token_related_def token_budget_def in_u256_def simp del: fun_upd_apply)
      (auto simp: fun_upd_apply)
qed

lemma mint_related:
  assumes b: "token_budget M (Suc n) t" and rel: "token_related H K t s"
    and a: "0 < a" "a \<le> M"
  shows "\<exists>s'. token_Mint dst (U a) s = Inr s' \<and>
    token_related H K (t\<lparr>tk_balances := (tk_balances t)(dst \<mapsto> token_balance t dst + a),
      tk_totalSupply := tk_totalSupply t + a\<rparr>) s' \<and>
    token_budget M n (t\<lparr>tk_balances := (tk_balances t)(dst \<mapsto> token_balance t dst + a),
      tk_totalSupply := tk_totalSupply t + a\<rparr>)"
proof -
  let ?t = "t\<lparr>tk_balances := (tk_balances t)(dst \<mapsto> token_balance t dst + a),
      tk_totalSupply := tk_totalSupply t + a\<rparr>"
  note R = token_range [OF b]
  have "token_nonneg ?t" using b a by (intro mint_nonneg) (simp_all add: token_budget_def)
  then have budget: "token_budget M n ?t"
    using b a by (auto simp: token_budget_def token_allowance_def algebra_simps)
  note R' = token_range [OF budget]
  have bal: "token_balance ?t v = (if v = dst then token_balance t dst + a else token_balance t v)" for v
    by (simp add: token_balance_def get0_upd del: fun_upd_apply)
  have sum: "in_u256 (token_balance t dst + a)" "in_u256 (tk_totalSupply t + a)"
    using R'(1) [of dst] R'(3) by (simp_all add: bal)
  have "in_u256 a" using sum(2) a R(3) by (auto simp: in_u256_def)
  then have "token_Mint dst (U a) s = Inr (s\<lparr>tt_balances := (tt_balances s)(dst := U (token_balance t dst + a)),
      tt_totalSupply := U (tk_totalSupply t + a)\<rparr>)"
    using rel a R sum by (simp add: token_Mint_def token_related_def evm_simps)
  moreover have "token_related H K ?t (s\<lparr>tt_balances := (tt_balances s)(dst := U (token_balance t dst + a)),
      tt_totalSupply := U (tk_totalSupply t + a)\<rparr>)"
    using rel by (auto simp: token_related_def bal token_allowance_def)
  ultimately show ?thesis using budget by blast
qed

subsection \<open>Every operation\<close>

lemma send_silent: "send_only (silent f) c =
    res_bind (f (contract_state c)) (\<lambda>s. Inr ([], \<lparr>contract_state = s, block_number = block_number c + 1\<rparr>))"
  by (cases "f (contract_state c)") (simp_all add: send_only_def send_def silent_def)

lemma token_outcomes:
  assumes sim: "token_sim H K M (Suc n) t c" and legal: "token_in_range K M x"
  shows "outcomes (token_sim H K M n) (token_body t x) (token_call H c x)"
proof -
  have H: "host_documented H" and inj: "inj_on (pair_hash H) K" and b1: "token_budget M (Suc n) t"
    and rel: "token_related H K t (contract_state c)"
    using sim by (simp_all add: token_sim_def)
  have b: "token_budget M n t" and sim': "token_sim H K M n t c"
    using b1 sim token_budget_mono token_sim_mono by auto
  note R = token_range [OF b]
  have bal: "tt_balances (contract_state c) u = U (token_balance t u)" for u
    using rel by (simp add: token_related_def)
  have alw: "k \<in> K \<Longrightarrow> tt_allowances (contract_state c) (pair_hash H k) = U (token_allowance t k)" for k
    using rel by (simp add: token_related_def)
  show ?thesis
  proof (cases x)
    case (Mint dst a)
    then obtain m where m: "a = show_int m" "0 \<le> m" "m \<le> M" using legal by auto
    have "0 \<le> int n * M" "0 \<le> tk_totalSupply t" using b R(3) by (auto simp: token_budget_def in_u256_def)
    moreover have "tk_totalSupply t + (M + int n * M) < 2 ^ 256"
      using b1 by (simp add: token_budget_def distrib_right add.commute)
    ultimately have "m < 2 ^ 256" using m(3) by linarith
    then have m256: "in_u256 m" using m(2) by (simp add: in_u256_def)
    show ?thesis
    proof (cases "m = 0")
      case True
      then show ?thesis using Mint m H m256
        by (simp add: with_uint_show send_silent token_Mint_def require_def)
    next
      case False
      then show ?thesis
        using Mint m H m256 inj mint_related [OF b1 rel, of m dst]
        by (auto simp: with_uint_show send_silent token_sim_def)
    qed
  next
    case (Transfer src dst a)
    then obtain m where m: "a = show_int m" "in_u256 m" using legal by (auto simp: word_text_def)
    show ?thesis
      using Transfer m H inj R(1) [of src] shift_related [OF b rel, of m src dst]
      by (auto simp: with_uint_show send_silent token_Transfer_def require_def bal U_le token_sim_def
          in_u256_def)
  next
    case (Approve owner spender a)
    then obtain m where m: "a = show_int m" "in_u256 m" "allowanceKey owner spender \<in> K"
      using legal by (auto simp: word_text_def)
    show ?thesis
      using Approve m H inj approve_related [OF b rel inj m(3,2)]
      by (simp add: with_uint_show send_silent token_Approve_def token_allowanceKey_hash token_sim_def
          del: fun_upd_apply)
  next
    case (TransferFrom spender src dst a)
    let ?k = "allowanceKey src spender"
    obtain m where m: "a = show_int m" "in_u256 m" "?k \<in> K"
      using legal TransferFrom by (auto simp: word_text_def)
    show ?thesis
    proof (cases "token_allowance t ?k < m \<or> token_balance t src < m")
      case True
      then show ?thesis
        using TransferFrom m H R(1) [of src] R(2) [of ?k]
        by (auto simp: with_uint_show send_silent token_TransferFrom_def token_allowanceKey_hash
            require_def bal alw U_le Let_def)
    next
      case False
      let ?t = "t\<lparr>tk_allowances := (tk_allowances t)(?k \<mapsto> token_allowance t ?k - m)\<rparr>"
      let ?s = "(contract_state c)\<lparr>tt_allowances := (tt_allowances (contract_state c))
        (pair_hash H ?k := U (token_allowance t ?k - m))\<rparr>"
      have left: "in_u256 (token_allowance t ?k - m)"
        using R(2) [of ?k] False m(2) by (auto simp: in_u256_def)
      from approve_related [OF b rel inj m(3) left]
      have rel': "token_related H K ?t ?s" and b': "token_budget M n ?t" by auto
      from shift_related [OF b' rel', of m src dst] False m(2)
      obtain s' where "token_shift src dst (U m) ?s = Inr s'" "token_related H K (move ?t src dst m) s'"
        "token_budget M n (move ?t src dst m)"
        by (auto simp: in_u256_def)
      then show ?thesis
        using False TransferFrom m H inj R(1) [of src] R(2) [of ?k]
        by (auto simp: with_uint_show send_silent token_TransferFrom_def token_allowanceKey_hash
            require_def bal alw U_le checked_sub_U Let_def token_sim_def simp del: fun_upd_apply)
    qed
  next
    case (BalanceOf user)
    then show ?thesis using sim' R by (simp add: read_view_eval ret_uint_def bal uint_U)
  next
    case (Allowance owner spender)
    then show ?thesis using sim' R legal
      by (simp add: read_view_eval ret_uint_def token_Allowance_def token_allowanceKey_hash alw uint_U)
  next
    case TotalSupply
    then show ?thesis using sim' R rel by (simp add: read_view_eval ret_uint_def token_related_def uint_U)
  qed
qed

lemma token_step:
  assumes "token_sim H K M (Suc n) t c" and "token_in_range K M x"
  shows "agree (fst (token_execute t x)) (fst (executeTranslatedToken H c x)) \<and>
    token_sim H K M n (snd (token_execute t x)) (snd (executeTranslatedToken H c x))"
  unfolding token_execute_def executeTranslatedToken_def
  using token_outcomes [OF assms] token_sim_mono [OF assms(1)] by (rule outcomes_step)

interpretation token_diff: differential token_execute "executeTranslatedToken H"
    "token_sim H K M" "token_in_range K M" for H K M
  by unfold_locales (use token_step in auto)


subsection \<open>Loading the initial balances\<close>

fun initial_total :: "(string \<times> string) list \<Rightarrow> int" where
  "initial_total [] = 0"
| "initial_total ((u, v) # rest) = (case BigInt v of Inl e \<Rightarrow> 0 | Inr n \<Rightarrow> n) + initial_total rest"

definition natural_balances :: "(string \<times> string) list \<Rightarrow> bool" where
  "natural_balances bs \<longleftrightarrow> distinct (map fst bs) \<and> (\<forall>p \<in> set bs. \<exists>n. snd p = show_int n \<and> 0 \<le> n)"

lemma initial_total_nonneg: "natural_balances bs \<Longrightarrow> 0 \<le> initial_total bs"
  by (induction bs rule: initial_total.induct) (auto simp: natural_balances_def)

lemma load_related:
  assumes H: "host_documented H"
  shows "natural_balances bs \<Longrightarrow> \<forall>u \<in> set (map fst bs). token_balance t u = 0 \<Longrightarrow>
    token_nonneg t \<Longrightarrow> \<forall>k. token_allowance t k = 0 \<Longrightarrow>
    tk_totalSupply t + initial_total bs < 2 ^ 256 \<Longrightarrow> token_related H K t (contract_state c) \<Longrightarrow>
    \<exists>t' c'. load_balances t bs = Inr t' \<and> initTranslatedToken H c bs = Inr c' \<and>
      token_related H K t' (contract_state c') \<and> token_nonneg t' \<and> (\<forall>k. token_allowance t' k = 0) \<and>
      tk_totalSupply t' = tk_totalSupply t + initial_total bs"
proof (induction bs arbitrary: t c)
  case Nil
  then show ?case by simp
next
  case (Cons p bs)
  obtain u m where p: "p = (u, show_int m)" "0 \<le> m"
    using Cons.prems(1) by (cases p) (auto simp: natural_balances_def)
  have bs: "natural_balances bs" "u \<notin> set (map fst bs)"
    using Cons.prems(1) by (auto simp: natural_balances_def p)
  let ?t = "t\<lparr>tk_balances := (tk_balances t)(u \<mapsto> m), tk_totalSupply := tk_totalSupply t + m\<rparr>"
  have u0: "token_balance t u = 0" using Cons.prems(2) by (simp add: p)
  have m_le: "tk_totalSupply t + m < 2 ^ 256"
    using Cons.prems(5) initial_total_nonneg [OF bs(1)] by (simp add: p)
  have nn: "token_nonneg ?t" using mint_nonneg [OF Cons.prems(3) p(2), of u] u0 by simp
  have bal: "\<forall>v \<in> set (map fst bs). token_balance ?t v = 0"
    using Cons.prems(2) bs(2) by (auto simp: token_balance_def get0_upd p simp del: fun_upd_apply)
  have al: "\<forall>k. token_allowance ?t k = 0" using Cons.prems(4) by (simp add: token_allowance_def)
  have total: "tk_totalSupply ?t + initial_total bs < 2 ^ 256" using Cons.prems(5) by (simp add: p)
  obtain c1 where c1: "initTranslatedToken H c ((u, show_int m) # bs) = initTranslatedToken H c1 bs"
    "token_related H K ?t (contract_state c1)"
  proof (cases "m = 0")
    case True
    have "token_related H K ?t (contract_state c)"
      using Cons.prems(6) u0 True by (auto simp: token_related_def token_balance_def get0_upd
          token_allowance_def simp del: fun_upd_apply)
    with True that [of c] show thesis by (simp add: p)
  next
    case False
    have budget: "token_budget m (Suc 0) t"
      using Cons.prems(3,4) p(2) m_le by (simp add: token_budget_def)
    from mint_related [OF budget Cons.prems(6), of m u] False p(2) u0
    obtain s' where s': "token_Mint u (U m) (contract_state c) = Inr s'" "token_related H K ?t s'"
      by auto
    have "in_u256 m" using m_le p(2) token_range(3) [OF budget] by (simp add: in_u256_def)
    with s' False p H that [of "\<lparr>contract_state = s', block_number = block_number c + 1\<rparr>"]
    show thesis by (simp add: with_uint_show uncaught_def send_def silent_def)
  qed
  from Cons.IH [OF bs(1) bal nn al total c1(2)] show ?case
    by (auto simp: c1(1) p simp del: fun_upd_apply initTranslatedToken.simps)
qed

subsection \<open>Snapshots\<close>

lemma token_snapshot_match:
  assumes sim: "token_sim H K M n t c" and "set pairs \<subseteq> K"
    and split: "\<forall>p \<in> set pairs. allowanceKey (fst (split_pair p)) (snd (split_pair p)) = p"
  shows "translatedTokenSnapshot lc E H c users pairs = token_snapshot lc E t users pairs"
proof -
  have rel: "token_related H K t (contract_state c)" and b: "token_budget M n t"
    using sim by (simp_all add: token_sim_def)
  note R = token_range [OF b]
  have "token_Allowance H (fst (split_pair p)) (snd (split_pair p)) (contract_state c) = U (token_allowance t p)"
    if "p \<in> set pairs" for p
    using that assms(2) split rel
    by (auto simp: token_Allowance_def token_allowanceKey_hash token_related_def)
  then have "map (\<lambda>p. word_entry (''allowances.'' @ p)
        (token_Allowance H (fst (split_pair p)) (snd (split_pair p)) (contract_state c))) (sorted_members pairs) =
      map (\<lambda>p. uint_entry (''allowances.'' @ p) (token_allowance t p)) (sorted_members pairs)"
    using R by (intro map_cong) (simp_all add: word_entry_def uint_U)
  moreover have "map (\<lambda>u. word_entry (''balances.'' @ u) (tt_balances (contract_state c) u)) (sorted_members users) =
      map (\<lambda>u. uint_entry (''balances.'' @ u) (token_balance t u)) (sorted_members users)"
    using rel R by (simp add: word_entry_def token_related_def uint_U)
  moreover have "word_entry ''totalSupply'' (tt_totalSupply (contract_state c)) =
      uint_entry ''totalSupply'' (tk_totalSupply t)"
    using rel R by (simp add: word_entry_def token_related_def uint_U)
  ultimately show ?thesis
    unfolding translatedTokenSnapshot_def token_snapshot_def token_entries_def Let_def
    by (simp only: append_Cons)
qed

lemma token_snapshot_total:
  assumes b: "token_budget M n t" and E: "ethers_documented E"
    and "\<forall>u \<in> set users. brief u" "\<forall>p \<in> set pairs. brief p"
  shows "\<exists>r. token_snapshot lc E t users pairs = Inr r"
proof -
  have len: "u \<in> set users \<Longrightarrow> length u < 2 ^ 30" "p \<in> set pairs \<Longrightarrow> length p < 2 ^ 30" for u p
    using assms(3,4) by (auto simp: brief_def)
  have "\<forall>e \<in> set (token_entries t users pairs). entry_encodable e"
    using token_range [OF b]
    by (auto simp: token_entries_def entry_encodable_simps short_def dest!: len)
  moreover have "short ''TokenTransfer''" by (simp add: short_def)
  ultimately show ?thesis
    unfolding token_snapshot_def by (intro canonicalSnapshot_total [OF E])
qed

subsection \<open>Property\<close>

definition token_case_in_range :: "evm_host \<Rightarrow> (token_initial, token_operation) rq2_case \<Rightarrow> int \<Rightarrow> bool" where
  "token_case_in_range H tc M \<longleftrightarrow>
     (let ops = rc_operations tc; bs = init_balances (rc_initial tc);
          pairs = tokenTouchedAllowancePairs ops in
      natural_balances bs \<and> 0 \<le> M \<and> initial_total bs + int (length ops) * M < 2 ^ 256 \<and>
      (\<forall>x \<in> set ops. token_in_range (set pairs) M x) \<and>
      inj_on (pair_hash H) (set pairs) \<and>
      (\<forall>p \<in> set pairs. allowanceKey (fst (split_pair p)) (snd (split_pair p)) = p \<and> brief p) \<and>
      (\<forall>u \<in> set (tokenTouchedUsers ops (rc_initial tc)). brief u))"

definition sample_token_case :: "(token_initial, token_operation) rq2_case" where
  "sample_token_case = \<lparr>rc_caseId = ''token-0000'', rc_seed = 7,
     rc_initial = \<lparr>init_balances = [(''alice'', show_int 7), (''bob'', show_int 0)]\<rparr>,
     rc_operations = [Approve ''alice'' ''bob'' (show_int 3),
       TransferFrom ''bob'' ''alice'' ''bob'' (show_int 2), Mint ''bob'' (show_int 5)]\<rparr>"

lemma sample_token_in_range: "token_case_in_range reference_host sample_token_case 5"
proof -
  have pairs: "tokenTouchedAllowancePairs (rc_operations sample_token_case) = [allowanceKey ''alice'' ''bob'']"
    by (simp add: tokenTouchedAllowancePairs_def sample_token_case_def)
  have "split_pair (allowanceKey ''alice'' ''bob'') = (''alice'', ''bob'')"
    by (simp add: split_pair_def allowanceKey_def Let_def)
  moreover have "word_text (show_int 3)" "word_text (show_int 2)"
    by (auto simp: word_text_def in_u256_def)
  ultimately show ?thesis
    unfolding token_case_in_range_def pairs Let_def
    by (auto simp: sample_token_case_def natural_balances_def tokenTouchedUsers_def brief_def allowanceKey_def)
qed

lemma token_case_ok:
  assumes H: "host_documented H" and E: "ethers_documented E" and range: "token_case_in_range H tc M"
  shows "\<exists>result. runTokenCase lc E H tc = Inr result \<and> cr_pass result"
proof -
  let ?ops = "rc_operations tc" and ?bs = "init_balances (rc_initial tc)"
  let ?pairs = "tokenTouchedAllowancePairs ?ops" and ?users = "tokenTouchedUsers ?ops (rc_initial tc)"
  have r: "natural_balances ?bs" "0 \<le> M" "initial_total ?bs + int (length ?ops) * M < 2 ^ 256"
    "\<forall>x \<in> set ?ops. token_in_range (set ?pairs) M x" "inj_on (pair_hash H) (set ?pairs)"
    "\<forall>p \<in> set ?pairs. allowanceKey (fst (split_pair p)) (snd (split_pair p)) = p"
    "\<forall>p \<in> set ?pairs. brief p" "\<forall>u \<in> set ?users. brief u"
    using range by (simp_all add: token_case_in_range_def Let_def)
  have "0 \<le> int (length ?ops) * M" using r(2) by simp
  then have total: "tk_totalSupply empty_token + initial_total ?bs < 2 ^ 256"
    using r(3) by (simp add: empty_token_def)
  have empty: "token_nonneg empty_token" "\<forall>k. token_allowance empty_token k = 0"
    "\<forall>u \<in> set (map fst ?bs). token_balance empty_token u = 0"
    "token_related H (set ?pairs) empty_token (contract_state (deploy TokenTransferTranslated))"
    by (simp_all add: token_nonneg_def token_inv_def token_related_def token_balance_def
        token_allowance_def empty_token_def deploy_def TokenTransferTranslated_def)
  obtain t c where tc: "load_balances empty_token ?bs = Inr t"
    "initTranslatedToken H (deploy TokenTransferTranslated) ?bs = Inr c"
    "token_related H (set ?pairs) t (contract_state c)" "token_nonneg t"
    "\<forall>k. token_allowance t k = 0" "tk_totalSupply t = initial_total ?bs"
    using load_related [OF H r(1) empty(3,1,2) total empty(4)] by (auto simp: empty_token_def)
  have sim: "token_sim H (set ?pairs) M (length ?ops) t c"
    using tc r H by (simp add: token_sim_def token_budget_def)
  have "\<exists>result. run_case token_execute (executeTranslatedToken H)
      (\<lambda>t. token_snapshot lc E t ?users ?pairs) (\<lambda>c. translatedTokenSnapshot lc E H c ?users ?pairs) t c tc =
      Inr result \<and> cr_pass result"
  proof (rule token_diff.case_passes [OF sim r(4)])
    fix c'
    assume sim': "token_sim H (set ?pairs) M 0 (run_ops token_execute t ?ops) c'"
    then have "token_budget M 0 (run_ops token_execute t ?ops)" by (simp add: token_sim_def)
    from token_snapshot_total [OF this E r(8,7)] token_snapshot_match [OF sim' order_refl r(6)]
    show "\<exists>s. token_snapshot lc E (run_ops token_execute t ?ops) ?users ?pairs = Inr s \<and>
        translatedTokenSnapshot lc E H c' ?users ?pairs = Inr s"
      by auto
  qed
  then show ?thesis using tc(1,2) by (simp add: runTokenCase_def new_TokenTransferModel_def Let_def)
qed

text \<open>C3. Within the range of \<open>uint256\<close>, and when the allowance hash separates the pairs of
  the case, the translated token is equivalent to its model: the runner's verdict is pass.\<close>

theorem token_cases_pass:
  assumes H: "host_documented H" and E: "ethers_documented E" and range: "token_case_in_range H tc M"
  shows "\<exists>result. runTokenCase lc E H tc = Inr result \<and> cr_pass result"
  using assms by (rule token_case_ok)

theorem token_cases_pass_witness:
  "\<exists>result. runTokenCase code_unit_compare reference_ethers reference_host sample_token_case = Inr result \<and>
    cr_pass result"
  by (rule token_cases_pass [OF reference_host_documented reference_ethers_documented sample_token_in_range])

end
