(* ===== verification/Equiv_Auction.thy ===== *)
theory Equiv_Auction
  imports Equiv_Token
begin

text \<open>
  \<open>AuctionLogicTranslated\<close> agrees with \<open>AuctionLogicModel\<close> on auction ids written as
  decimal \<open>uint256\<close> values, while no user's refunds can exceed the range.
\<close>

subsection \<open>Model and storage, related\<close>

definition slot_of :: "auction \<Rightarrow> auction_slot" where
  "slot_of a = \<lparr>as_seller = au_seller a, as_minPrice = U (au_minPrice a),
     as_highestBidder = au_highestBidder a, as_highestBid = U (au_highestBid a),
     as_open = au_open a, as_exists = au_exists a\<rparr>"

lemma slot_of_simps [simp]:
  "as_seller (slot_of a) = au_seller a" "as_minPrice (slot_of a) = U (au_minPrice a)"
  "as_highestBidder (slot_of a) = au_highestBidder a" "as_highestBid (slot_of a) = U (au_highestBid a)"
  "as_open (slot_of a) = au_open a" "as_exists (slot_of a) = au_exists a"
  by (simp_all add: slot_of_def)

lemma slot_of_close: "(slot_of a)\<lparr>as_open := b\<rparr> = slot_of (a\<lparr>au_open := b\<rparr>)"
  by (simp add: slot_of_def)

definition auction_related :: "auction_house \<Rightarrow> auction_storage \<Rightarrow> bool" where
  "auction_related h s \<longleftrightarrow>
     (\<forall>k. in_u256 k \<longrightarrow> at_auctions s (U k) = slot_of (auction_or_default h (show_int k))) \<and>
     (\<forall>u. at_pendingReturns s u = U (pending h u))"

text \<open>\<open>M\<close> bounds every bid, so an operation adds at most \<open>M\<close> to one user's refunds.\<close>

definition auction_budget :: "int \<Rightarrow> nat \<Rightarrow> auction_house \<Rightarrow> bool" where
  "auction_budget M n h \<longleftrightarrow>
     in_u256 M \<and>
     (\<forall>u. 0 \<le> pending h u \<and> pending h u + int n * M < 2 ^ 256) \<and>
     (\<forall>i. 0 \<le> au_highestBid (auction_or_default h i) \<and> au_highestBid (auction_or_default h i) \<le> M \<and>
        in_u256 (au_minPrice (auction_or_default h i)))"

definition auction_sim :: "evm_host \<Rightarrow> int \<Rightarrow> nat \<Rightarrow> auction_house \<Rightarrow> auction_storage chain \<Rightarrow> bool" where
  "auction_sim H M n h c \<longleftrightarrow>
     host_documented H \<and> auction_budget M n h \<and> auction_related h (contract_state c)"

fun auction_in_range :: "int \<Rightarrow> auction_operation \<Rightarrow> bool" where
  "auction_in_range M (CreateAuction i s p) \<longleftrightarrow> word_text i \<and> word_text p"
| "auction_in_range M (Bid i b a) \<longleftrightarrow> word_text i \<and> (\<exists>n. a = show_int n \<and> 0 \<le> n \<and> n \<le> M)"
| "auction_in_range M (Close i) \<longleftrightarrow> word_text i"
| "auction_in_range M (GetAuction i) \<longleftrightarrow> word_text i"
| "auction_in_range M _ \<longleftrightarrow> True"

lemma auction_range:
  assumes "auction_budget M n h"
  shows "in_u256 (pending h u)" "in_u256 (au_highestBid (auction_or_default h i))"
    "in_u256 (au_minPrice (auction_or_default h i))"
proof -
  have "0 \<le> int n * M" and M: "in_u256 M" using assms by (simp_all add: auction_budget_def in_u256_def)
  moreover have "pending h u + int n * M < 2 ^ 256" "0 \<le> pending h u"
    using assms by (simp_all add: auction_budget_def)
  ultimately show "in_u256 (pending h u)" by (intro in_u256I) linarith+
  show "in_u256 (au_highestBid (auction_or_default h i))" "in_u256 (au_minPrice (auction_or_default h i))"
    using assms by (auto simp: auction_budget_def intro: in_u256_le [OF M])
qed

lemma auction_budget_mono: "auction_budget M (Suc n) h \<Longrightarrow> auction_budget M n h"
proof -
  assume b: "auction_budget M (Suc n) h"
  then have "0 \<le> M" by (simp add: auction_budget_def in_u256_def)
  moreover have "pending h u + (M + int n * M) < 2 ^ 256" for u
    using b by (simp add: auction_budget_def distrib_right add.commute)
  ultimately have "pending h u + int n * M < 2 ^ 256" for u by (smt (verit))
  with b show ?thesis by (simp add: auction_budget_def)
qed

lemma auction_sim_mono: "auction_sim H M (Suc n) h c \<Longrightarrow> auction_sim H M n h c"
  using auction_budget_mono by (auto simp: auction_sim_def)

lemma auction_default_at:
  "auction_or_default (h\<lparr>ah_auctions := (ah_auctions h)(i \<mapsto> a)\<rparr>) j =
     (if j = i then a else auction_or_default h j)"
  "pending (h\<lparr>ah_auctions := m\<rparr>) u = pending h u"
  by (simp_all add: auction_or_default_def pending_def)

lemma credit_simps:
  "auction_or_default (credit h u n) j = auction_or_default h j"
  "pending (credit h u n) v = pending h v + (if v = u then n else 0)"
  by (simp_all add: credit_def auction_or_default_def pending_def get0_upd del: fun_upd_apply)

subsection \<open>The state changes\<close>

text \<open>Writing an auction whose values are in range, on both sides.\<close>

lemma write_related:
  assumes "auction_budget M n h" and "auction_related h s" and k: "in_u256 k"
    and "0 \<le> au_highestBid a" "au_highestBid a \<le> M" "in_u256 (au_minPrice a)"
  shows "auction_budget M n (h\<lparr>ah_auctions := (ah_auctions h)(show_int k \<mapsto> a)\<rparr>) \<and>
    auction_related (h\<lparr>ah_auctions := (ah_auctions h)(show_int k \<mapsto> a)\<rparr>)
      (s\<lparr>at_auctions := (at_auctions s)(U k := slot_of a)\<rparr>)"
  using assms
  by (auto simp: auction_budget_def auction_related_def auction_default_at U_eq simp del: fun_upd_apply)
    (auto simp: U_eq)

text \<open>Refunding an amount up to \<open>M\<close>, on both sides.\<close>

lemma refund_related:
  assumes b: "auction_budget M (Suc n) h" and rel: "auction_related h s" and a: "0 \<le> a" "a \<le> M"
  shows "\<exists>s'. auction_refund u (U a) s = Inr s' \<and>
    auction_budget M n (if a > 0 then credit h u a else h) \<and>
    auction_related (if a > 0 then credit h u a else h) s' \<and> at_auctions s' = at_auctions s"
proof (cases "a = 0")
  case True
  then show ?thesis using b rel auction_budget_mono by (auto simp: auction_refund_def)
next
  case False
  have M: "in_u256 M" using b by (simp add: auction_budget_def)
  have room: "pending h v + (M + int n * M) < 2 ^ 256" "0 \<le> pending h v" for v
    using b by (simp_all add: auction_budget_def distrib_right add.commute)
  have nM: "0 \<le> int n * M" using M by (simp add: in_u256_def)
  have sum: "in_u256 (pending h u + a)"
    using room [of u] nM a by (intro in_u256I) linarith+
  have a256: "in_u256 a" using M a by (auto intro: in_u256_le)
  have "auction_refund u (U a) s = Inr (s\<lparr>at_pendingReturns := (at_pendingReturns s)(u := U (pending h u + a))\<rparr>)"
    using rel False a a256 sum auction_range(1) [OF b, of u]
    by (simp add: auction_refund_def auction_related_def evm_simps)
  moreover have "auction_budget M n (credit h u a)"
  proof -
    have "pending h v + (if v = u then a else 0) + int n * M < 2 ^ 256" for v
      using room [of v] a nM by (smt (verit))
    with b room(2) a show ?thesis by (simp add: auction_budget_def credit_simps)
  qed
  moreover have "auction_related (credit h u a)
      (s\<lparr>at_pendingReturns := (at_pendingReturns s)(u := U (pending h u + a))\<rparr>)"
    using rel by (auto simp: auction_related_def credit_simps)
  ultimately show ?thesis using False a by auto
qed

subsection \<open>Every operation\<close>

lemma create_outcome:
  assumes b: "auction_budget M n h" and rel: "auction_related h s" and k: "in_u256 k" and m: "in_u256 m"
  shows "outcomes (\<lambda>h' s'. auction_budget M n h' \<and> auction_related h' s')
    (create_auction h (show_int k) seller (show_int m))
    (res_bind (auction_CreateAuction (U k) seller (U m) s) (\<lambda>s'. Inr ([], s')))"
proof -
  let ?a = "\<lparr>au_seller = seller, au_minPrice = m, au_highestBidder = [], au_highestBid = 0,
     au_open = True, au_exists = True\<rparr>"
  have "0 \<le> M" using b by (simp add: auction_budget_def in_u256_def)
  with write_related [OF b rel k, of ?a] m
  have w: "auction_budget M n (h\<lparr>ah_auctions := (ah_auctions h)(show_int k \<mapsto> ?a)\<rparr>)"
    "auction_related (h\<lparr>ah_auctions := (ah_auctions h)(show_int k \<mapsto> ?a)\<rparr>)
      (s\<lparr>at_auctions := (at_auctions s)(U k := slot_of ?a)\<rparr>)"
    by simp_all
  have "at_auctions s (U k) = slot_of (auction_or_default h (show_int k))"
    using rel k by (simp add: auction_related_def)
  then show ?thesis
    using w m by (auto simp: create_auction_def auction_CreateAuction_def require_def U_pos slot_of_def
        in_u256_def simp del: fun_upd_apply)
qed

lemma bid_outcome:
  assumes b: "auction_budget M (Suc n) h" and rel: "auction_related h s" and k: "in_u256 k"
    and m: "0 \<le> m" "m \<le> M"
  shows "outcomes (\<lambda>h' s'. auction_budget M n h' \<and> auction_related h' s')
    (place_bid h (show_int k) bidder (show_int m))
    (res_bind (auction_Bid (U k) bidder (U m) s) (\<lambda>s'. Inr ([], s')))"
proof -
  let ?a = "auction_or_default h (show_int k)"
  have slot: "at_auctions s (U k) = slot_of ?a" using rel k by (simp add: auction_related_def)
  note R = auction_range [OF b]
  have m256: "in_u256 m" using m b by (auto simp: auction_budget_def intro: in_u256_le)
  show ?thesis
  proof (cases "au_exists ?a \<and> au_open ?a \<and> au_minPrice ?a \<le> m \<and> au_highestBid ?a < m")
    case False
    then show ?thesis
      using R m256 by (auto simp: place_bid_def auction_Bid_def slot require_def Let_def U_le U_less)
  next
    case True
    have a: "0 \<le> au_highestBid ?a" "au_highestBid ?a \<le> M"
      using b by (simp_all add: auction_budget_def)
    let ?h = "if au_highestBid ?a > 0 then credit h (au_highestBidder ?a) (au_highestBid ?a) else h"
    obtain s' where s': "auction_refund (au_highestBidder ?a) (U (au_highestBid ?a)) s = Inr s'"
      "auction_budget M n ?h" "auction_related ?h s'" "at_auctions s' = at_auctions s"
      using refund_related [OF b rel a] by blast
    let ?b = "?a\<lparr>au_highestBidder := bidder, au_highestBid := m\<rparr>"
    from write_related [OF s'(2,3) k, of ?b] m R(3)
    have w: "auction_budget M n (?h\<lparr>ah_auctions := (ah_auctions ?h)(show_int k \<mapsto> ?b)\<rparr>)"
      "auction_related (?h\<lparr>ah_auctions := (ah_auctions ?h)(show_int k \<mapsto> ?b)\<rparr>)
        (s'\<lparr>at_auctions := (at_auctions s')(U k := slot_of ?b)\<rparr>)"
      by simp_all
    have "place_bid h (show_int k) bidder (show_int m) =
        Inr ([], ?h\<lparr>ah_auctions := (ah_auctions ?h)(show_int k \<mapsto> ?b)\<rparr>)"
      using True by (simp add: place_bid_def Let_def)
    moreover have "auction_Bid (U k) bidder (U m) s =
        Inr (s'\<lparr>at_auctions := (at_auctions s')(U k := slot_of ?b)\<rparr>)"
      using True R m256 s'(1)
      by (simp add: auction_Bid_def slot require_def Let_def U_le U_less slot_of_def)
    ultimately show ?thesis using w by simp
  qed
qed

lemma close_outcome:
  assumes b: "auction_budget M (Suc n) h" and rel: "auction_related h s" and k: "in_u256 k"
  shows "outcomes (\<lambda>h' s'. auction_budget M n h' \<and> auction_related h' s')
    (close_auction h (show_int k)) (res_bind (auction_Close (U k) s) (\<lambda>s'. Inr ([], s')))"
proof -
  let ?a = "auction_or_default h (show_int k)"
  have slot: "at_auctions s (U k) = slot_of ?a" using rel k by (simp add: auction_related_def)
  have a: "0 \<le> au_highestBid ?a" "au_highestBid ?a \<le> M" "in_u256 (au_minPrice ?a)"
    using b by (simp_all add: auction_budget_def)
  let ?h = "h\<lparr>ah_auctions := (ah_auctions h)(show_int k \<mapsto> ?a\<lparr>au_open := False\<rparr>)\<rparr>"
  let ?s = "s\<lparr>at_auctions := (at_auctions s)(U k := slot_of (?a\<lparr>au_open := False\<rparr>))\<rparr>"
  from write_related [OF b rel k, of "?a\<lparr>au_open := False\<rparr>"] a
  have w: "auction_budget M (Suc n) ?h" "auction_related ?h ?s" by simp_all
  from refund_related [OF w a(1,2), of "au_seller ?a"]
  obtain s' where s': "auction_refund (au_seller ?a) (U (au_highestBid ?a)) ?s = Inr s'"
    "auction_budget M n (if au_highestBid ?a > 0 then credit ?h (au_seller ?a) (au_highestBid ?a) else ?h)"
    "auction_related (if au_highestBid ?a > 0 then credit ?h (au_seller ?a) (au_highestBid ?a) else ?h) s'"
    by blast
  have "auction_Close (U k) s = (if \<not> au_exists ?a then Inl (Revert ''MissingAuction'')
      else if \<not> au_open ?a then Inl (Revert ''Closed'') else Inr s')"
    using s'(1) by (simp add: auction_Close_def slot slot_of_close require_def Let_def del: fun_upd_apply)
  moreover have "close_auction h (show_int k) = (if \<not> au_exists ?a then Inl ''MissingAuction''
      else if \<not> au_open ?a then Inl ''Closed''
      else Inr ([], if au_highestBid ?a > 0 then credit ?h (au_seller ?a) (au_highestBid ?a) else ?h))"
    by (simp add: close_auction_def Let_def)
  ultimately show ?thesis using s'(2,3) by (cases "au_exists ?a"; cases "au_open ?a") simp_all
qed

lemma withdraw_related:
  assumes b: "auction_budget M n h" and rel: "auction_related h s"
  shows "auction_budget M n (snd (withdraw h u)) \<and> auction_related (snd (withdraw h u)) (snd (auction_Withdraw u s))"
proof -
  let ?h = "h\<lparr>ah_pendingReturns := (ah_pendingReturns h)(u \<mapsto> 0)\<rparr>"
  have p: "pending ?h v = (if v = u then 0 else pending h v)" "auction_or_default ?h i = auction_or_default h i" for v i
    by (simp_all add: pending_def get0_upd auction_or_default_def del: fun_upd_apply)
  have "0 \<le> pending h u" "pending h u + int n * M < 2 ^ 256" using b by (simp_all add: auction_budget_def)
  then have "int n * M < 2 ^ 256" by linarith
  then show ?thesis
    using b rel by (auto simp: withdraw_def auction_Withdraw_def auction_budget_def auction_related_def p
        simp del: fun_upd_apply) auto
qed

lemma auction_outcomes:
  assumes sim: "auction_sim H M (Suc n) h c" and legal: "auction_in_range M x"
  shows "outcomes (auction_sim H M n) (auction_body h x) (auction_call H c x)"
proof -
  have H: "host_documented H" and b1: "auction_budget M (Suc n) h"
    and rel: "auction_related h (contract_state c)"
    using sim by (simp_all add: auction_sim_def)
  have b: "auction_budget M n h" and sim': "auction_sim H M n h c"
    using b1 sim auction_budget_mono auction_sim_mono by auto
  note R = auction_range [OF b]
  let ?S = "\<lambda>h' s'. auction_budget M n h' \<and> auction_related h' s'"
  have lift: "outcomes (auction_sim H M n) bo (send_only (silent f) c)"
    if "outcomes ?S bo (res_bind (f (contract_state c)) (\<lambda>s'. Inr ([], s')))" for bo f
    using that H by (cases bo; cases "f (contract_state c)") (auto simp: send_silent auction_sim_def)
  show ?thesis
  proof (cases x)
    case (CreateAuction i seller p)
    then obtain k m where t: "i = show_int k" "in_u256 k" "p = show_int m" "in_u256 m"
      using legal by (auto simp: word_text_def)
    show ?thesis
      using lift [of _ "auction_CreateAuction (U k) seller (U m)", OF create_outcome [OF b rel t(2,4)]] CreateAuction t H by (simp add: with_uint_show)
  next
    case (Bid i bidder a)
    then obtain k m where t: "i = show_int k" "in_u256 k" "a = show_int m" "0 \<le> m" "m \<le> M"
      using legal by (auto simp: word_text_def)
    have "in_u256 m" using t b by (auto simp: auction_budget_def intro: in_u256_le)
    then show ?thesis
      using lift [of _ "auction_Bid (U k) bidder (U m)", OF bid_outcome [OF b1 rel t(2,4,5)]] Bid t H by (simp add: with_uint_show)
  next
    case (Close i)
    then obtain k where t: "i = show_int k" "in_u256 k" using legal by (auto simp: word_text_def)
    show ?thesis
      using lift [of _ "auction_Close (U k)", OF close_outcome [OF b1 rel t(2)]] Close t H by (simp add: with_uint_show)
  next
    case (Withdraw u)
    have "uint (fst (auction_Withdraw u (contract_state c))) = pending h u"
      using rel R(1) [of u] by (simp add: auction_Withdraw_def auction_related_def uint_U)
    then show ?thesis
      using withdraw_related [OF b rel, of u] Withdraw H
      by (auto simp: call_then_send_def static_call_def send_def returning_def ret_uint_def
          auction_sim_def withdraw_def split_def)
  next
    case (GetAuction i)
    then obtain k where t: "i = show_int k" "in_u256 k" using legal by (auto simp: word_text_def)
    show ?thesis
      using GetAuction t H sim' rel R(2,3) [of i]
      by (simp add: with_uint_show read_view_eval auction_GetAuction_def auction_related_def
          auction_values_def uint_U Let_def)
  next
    case (PendingReturn u)
    then show ?thesis
      using sim' rel R(1) [of u] by (simp add: read_view_eval ret_uint_def auction_related_def uint_U)
  qed
qed

lemma auction_step:
  assumes "auction_sim H M (Suc n) h c" and "auction_in_range M x"
  shows "agree (fst (auction_execute h x)) (fst (executeTranslatedAuction H c x)) \<and>
    auction_sim H M n (snd (auction_execute h x)) (snd (executeTranslatedAuction H c x))"
  unfolding auction_execute_def executeTranslatedAuction_def
  using auction_outcomes [OF assms] auction_sim_mono [OF assms(1)] by (rule outcomes_step)

interpretation auction_diff: differential auction_execute "executeTranslatedAuction H"
    "auction_sim H M" "auction_in_range M" for H M
  by unfold_locales (use auction_step in auto)


subsection \<open>Snapshots\<close>

lemma auction_snapshot_match:
  assumes sim: "auction_sim H M n h c" and ids: "\<forall>i \<in> set ids. word_text i"
  shows "translatedAuctionSnapshot lc E H c ids users = auction_snapshot lc E h ids users"
proof -
  have H: "host_documented H" and rel: "auction_related h (contract_state c)" and b: "auction_budget M n h"
    using sim by (simp_all add: auction_sim_def)
  note R = auction_range [OF b]
  have "with_uint H i (\<lambda>k. Inr (translated_auction_entries (contract_state c) i k)) = Inr (auction_entry_list h i)"
    if i: "i \<in> set (sorted_members ids)" for i
  proof -
    obtain k where k: "i = show_int k" "in_u256 k" using i ids by (auto simp: word_text_def)
    then show ?thesis
      using H rel R(2,3) [of i]
      by (simp add: with_uint_show translated_auction_entries_def auction_entry_list_def word_entry_def
          auction_related_def uint_U Let_def)
  qed
  from res_mapM_total [OF this]
  have "res_mapM (\<lambda>i. with_uint H i (\<lambda>k. Inr (translated_auction_entries (contract_state c) i k)))
      (sorted_members ids) = Inr (map (auction_entry_list h) (sorted_members ids))" .
  moreover have "map (\<lambda>u. word_entry (''pending.'' @ u) (at_pendingReturns (contract_state c) u)) (sorted_members users) =
      map (\<lambda>u. uint_entry (''pending.'' @ u) (pending h u)) (sorted_members users)"
    using rel R(1) by (simp add: word_entry_def auction_related_def uint_U)
  ultimately show ?thesis
    unfolding translatedAuctionSnapshot_def auction_snapshot_def auction_entries_def Let_def
    by (simp only: uncaught_def sum.case res_bind.simps)
qed

text \<open>The names that the snapshot stores as values must be short as well.\<close>

definition auction_names_brief :: "auction_house \<Rightarrow> bool" where
  "auction_names_brief h \<longleftrightarrow>
     (\<forall>i. brief (au_seller (auction_or_default h i)) \<and> brief (au_highestBidder (auction_or_default h i)))"

lemma auction_names_iff:
  "auction_names_brief h \<longleftrightarrow>
     (\<forall>i a. ah_auctions h i = Some a \<longrightarrow> brief (au_seller a) \<and> brief (au_highestBidder a))"
  unfolding auction_names_brief_def auction_or_default_def
  by (auto simp: no_auction_def brief_def split: option.splits)

lemma auction_body_names:
  assumes names: "auction_names_brief h" and ok: "auction_body h x = Inr (vs, h')"
    and new: "\<forall>u \<in> set (auction_op_users x). brief u"
  shows "auction_names_brief h'"
proof -
  have "brief []" by (simp add: brief_def)
  moreover have "brief (au_seller (auction_or_default h i))" "brief (au_highestBidder (auction_or_default h i))" for i
    using names by (simp_all add: auction_names_brief_def)
  ultimately show ?thesis
    using ok new names unfolding auction_names_iff
    by (cases x)
      (auto simp: create_auction_def place_bid_def close_auction_def withdraw_def credit_def Let_def
        res_bind_Inr_iff split: if_splits)
qed

lemma auction_run_names:
  "auction_names_brief h \<Longrightarrow> \<forall>u \<in> set (auctionTouchedUsers xs). brief u \<Longrightarrow>
   auction_names_brief (run_ops auction_execute h xs)"
proof (induction xs arbitrary: h)
  case (Cons x xs)
  have "auction_names_brief (snd (auction_execute h x))"
    using Cons.prems
    by (cases "auction_body h x")
      (auto simp: auction_execute_def catch_result_def auctionTouchedUsers_def intro: auction_body_names)
  then show ?case using Cons by (simp add: auctionTouchedUsers_def)
qed simp

lemma auction_snapshot_total:
  assumes b: "auction_budget M n h" and E: "ethers_documented E" and names: "auction_names_brief h"
    and "\<forall>i \<in> set ids. brief i" "\<forall>u \<in> set users. brief u"
  shows "\<exists>r. auction_snapshot lc E h ids users = Inr r"
proof -
  have len: "i \<in> set ids \<Longrightarrow> length i < 2 ^ 30" "u \<in> set users \<Longrightarrow> length u < 2 ^ 30" for i u
    using assms(4,5) by (auto simp: brief_def)
  have "length (au_seller (auction_or_default h i)) < 2 ^ 31"
    "length (au_highestBidder (auction_or_default h i)) < 2 ^ 31" for i
    using names by (auto simp: auction_names_brief_def brief_def intro: less_trans)
  then have "\<forall>e \<in> set (auction_entries h ids users). entry_encodable e"
    using auction_range [OF b]
    by (auto simp: auction_entries_def auction_entry_list_def entry_encodable_simps short_def Let_def
        dest!: len)
  moreover have "short ''AuctionLogic''" by (simp add: short_def)
  ultimately show ?thesis
    unfolding auction_snapshot_def by (intro canonicalSnapshot_total [OF E])
qed

subsection \<open>Property\<close>

definition auction_case_in_range :: "(unit, auction_operation) rq2_case \<Rightarrow> int \<Rightarrow> bool" where
  "auction_case_in_range tc M \<longleftrightarrow>
     in_u256 M \<and> int (length (rc_operations tc)) * M < 2 ^ 256 \<and>
     (\<forall>x \<in> set (rc_operations tc). auction_in_range M x) \<and>
     (\<forall>i \<in> set (auctionTouchedIds (rc_operations tc)). brief i) \<and>
     (\<forall>u \<in> set (auctionTouchedUsers (rc_operations tc)). brief u)"

lemma touched_ids_texts:
  "\<forall>x \<in> set xs. auction_in_range M x \<Longrightarrow> \<forall>i \<in> set (auctionTouchedIds xs). word_text i"
proof (induction xs)
  case (Cons x xs)
  then show ?case by (cases x) (auto simp: auctionTouchedIds_def)
qed (simp add: auctionTouchedIds_def)

definition sample_auction_case :: "(unit, auction_operation) rq2_case" where
  "sample_auction_case = \<lparr>rc_caseId = ''auction-0000'', rc_seed = 7, rc_initial = (),
     rc_operations = [CreateAuction (show_int 1) ''alice'' (show_int 5), Bid (show_int 1) ''bob'' (show_int 7),
       Bid (show_int 1) ''carol'' (show_int 9), Close (show_int 1), Withdraw ''bob'']\<rparr>"

lemma brief_show_1: "brief (show_int 1)"
  by (simp add: brief_def show_int_def show_nat.simps)

lemma sample_auction_in_range: "auction_case_in_range sample_auction_case 9"
proof -
  have "word_text (show_int 1)" "word_text (show_int 5)" by (auto simp: word_text_def in_u256_def)
  then show ?thesis
    using brief_show_1 by (simp add: auction_case_in_range_def sample_auction_case_def in_u256_def
        auctionTouchedIds_def auctionTouchedUsers_def brief_def)
qed

lemma auction_case_ok:
  assumes H: "host_documented H" and E: "ethers_documented E" and range: "auction_case_in_range tc M"
  shows "\<exists>result. runAuctionCase lc E H tc = Inr result \<and> cr_pass result"
proof -
  let ?ops = "rc_operations tc"
  have r: "in_u256 M" "int (length ?ops) * M < 2 ^ 256" "\<forall>x \<in> set ?ops. auction_in_range M x"
    "\<forall>i \<in> set (auctionTouchedIds ?ops). brief i" "\<forall>u \<in> set (auctionTouchedUsers ?ops). brief u"
    using range by (simp_all add: auction_case_in_range_def)
  have none: "auction_or_default new_AuctionLogicModel i = no_auction" "pending new_AuctionLogicModel u = 0" for i u
    by (simp_all add: auction_or_default_def new_AuctionLogicModel_def pending_def)
  have sim: "auction_sim H M (length ?ops) new_AuctionLogicModel (deploy AuctionLogicTranslated)"
    using H r(1,2)
    by (simp add: auction_sim_def auction_budget_def auction_related_def none deploy_def
        AuctionLogicTranslated_def slot_of_def zero_auction_def no_auction_def in_u256_def)
  have names: "auction_names_brief (run_ops auction_execute new_AuctionLogicModel ?ops)"
    by (rule auction_run_names [OF _ r(5)]) (simp add: auction_names_brief_def none no_auction_def brief_def)
  have "\<exists>result. run_case auction_execute (executeTranslatedAuction H)
      (\<lambda>h. auction_snapshot lc E h (auctionTouchedIds ?ops) (auctionTouchedUsers ?ops))
      (\<lambda>c. translatedAuctionSnapshot lc E H c (auctionTouchedIds ?ops) (auctionTouchedUsers ?ops))
      new_AuctionLogicModel (deploy AuctionLogicTranslated) tc = Inr result \<and> cr_pass result"
  proof (rule auction_diff.case_passes [OF sim r(3)])
    fix c'
    assume sim': "auction_sim H M 0 (run_ops auction_execute new_AuctionLogicModel ?ops) c'"
    then have "auction_budget M 0 (run_ops auction_execute new_AuctionLogicModel ?ops)"
      by (simp add: auction_sim_def)
    from auction_snapshot_total [OF this E names r(4,5)]
      auction_snapshot_match [OF sim' touched_ids_texts [OF r(3)]]
    show "\<exists>s. auction_snapshot lc E (run_ops auction_execute new_AuctionLogicModel ?ops)
          (auctionTouchedIds ?ops) (auctionTouchedUsers ?ops) = Inr s \<and>
        translatedAuctionSnapshot lc E H c' (auctionTouchedIds ?ops) (auctionTouchedUsers ?ops) = Inr s"
      by auto
  qed
  then show ?thesis by (simp add: runAuctionCase_def Let_def)
qed

text \<open>C8. Within the range of \<open>uint256\<close> the translated auction house is equivalent to its
  model: the runner's verdict is pass.\<close>

theorem auction_cases_pass:
  assumes H: "host_documented H" and E: "ethers_documented E" and range: "auction_case_in_range tc M"
  shows "\<exists>result. runAuctionCase lc E H tc = Inr result \<and> cr_pass result"
  using assms by (rule auction_case_ok)

theorem auction_cases_pass_witness:
  "\<exists>result. runAuctionCase code_unit_compare reference_ethers reference_host sample_auction_case = Inr result \<and>
    cr_pass result"
  by (rule auction_cases_pass [OF reference_host_documented reference_ethers_documented sample_auction_in_range])

end
