(* ===== verification/Equiv_Dex.thy ===== *)
theory Equiv_Dex
  imports Equiv_Token
begin

text \<open>
  \<open>DEXSwapTranslated\<close> agrees with \<open>DEXSwapModel\<close>. The contract multiplies before it
  divides, so the bound has to cover products of reserves and shares; it rests on the ratio
  of shares to \<open>reserveA\<close>, which only a fresh pool can set and no operation raises.
\<close>

subsection \<open>Model and storage, related\<close>

definition dex_related :: "dex \<Rightarrow> dex_storage \<Rightarrow> bool" where
  "dex_related d s \<longleftrightarrow>
     dt_reserveA s = U (dx_reserveA d) \<and> dt_reserveB s = U (dx_reserveB d) \<and>
     dt_totalShares s = U (dx_totalShares d) \<and> (\<forall>u. dt_shares s u = U (shareOf d u))"

text \<open>\<open>M\<close> bounds an amount, \<open>B\<close> the reserves; every product stays below \<open>2\<^sup>2\<^sup>5\<^sup>6\<close>.\<close>

definition dex_bounds :: "int \<Rightarrow> int \<Rightarrow> bool" where
  "dex_bounds M B \<longleftrightarrow> 0 \<le> M \<and> M \<le> B \<and> 2000 * ((M + 1) * (B * B)) < 2 ^ 256"

definition dex_budget :: "int \<Rightarrow> int \<Rightarrow> nat \<Rightarrow> dex \<Rightarrow> bool" where
  "dex_budget M B n d \<longleftrightarrow>
     dex_inv d \<and> dex_bounds M B \<and>
     dx_reserveA d + int n * M \<le> B \<and> dx_reserveB d + int n * M \<le> B \<and>
     dx_totalShares d \<le> (M + 1) * dx_reserveA d"

definition dex_sim :: "evm_host \<Rightarrow> int \<Rightarrow> int \<Rightarrow> nat \<Rightarrow> dex \<Rightarrow> dex_storage chain \<Rightarrow> bool" where
  "dex_sim H M B n d c \<longleftrightarrow> host_documented H \<and> dex_budget M B n d \<and> dex_related d (contract_state c)"

definition amount_text :: "int \<Rightarrow> string \<Rightarrow> bool" where
  "amount_text M t \<longleftrightarrow> (\<exists>n. t = show_int n \<and> 0 \<le> n \<and> n \<le> M)"

fun dex_in_range :: "int \<Rightarrow> dex_operation \<Rightarrow> bool" where
  "dex_in_range M (AddLiquidity u a b) \<longleftrightarrow> amount_text M a \<and> amount_text M b"
| "dex_in_range M (RemoveLiquidity u s) \<longleftrightarrow> word_text s"
| "dex_in_range M (SwapAForB u a) \<longleftrightarrow> amount_text M a"
| "dex_in_range M _ \<longleftrightarrow> True"

lemma product_bound:
  assumes "dex_bounds M B" and "0 \<le> x" "0 \<le> y" "x \<le> B" "y \<le> (M + 1) * B"
  shows "2000 * (x * y) < 2 ^ 256" "0 \<le> x * y" "in_u256 (x * y)"
proof -
  have "x * y \<le> B * ((M + 1) * B)" using assms by (intro mult_mono) (auto simp: dex_bounds_def)
  then have "x * y \<le> (M + 1) * (B * B)" by (simp add: ac_simps)
  then show lt: "2000 * (x * y) < 2 ^ 256" using assms(1) unfolding dex_bounds_def by linarith
  show "0 \<le> x * y" using assms by simp
  with lt show "in_u256 (x * y)" by (intro in_u256I) linarith+
qed

lemma dex_range:
  assumes b: "dex_budget M B n d"
  shows "0 \<le> dx_reserveA d" "0 \<le> dx_reserveB d" "0 \<le> dx_totalShares d" "0 \<le> shareOf d u"
    "dx_reserveA d \<le> B" "dx_reserveB d \<le> B" "dx_totalShares d \<le> (M + 1) * B"
    "shareOf d u \<le> dx_totalShares d" "dex_inv d" "dex_bounds M B"
proof -
  show inv: "dex_inv d" and bd: "dex_bounds M B" using b by (simp_all add: dex_budget_def)
  show nn: "0 \<le> dx_reserveA d" "0 \<le> dx_reserveB d" "0 \<le> dx_totalShares d" "0 \<le> shareOf d u"
    using inv by (auto simp: dex_inv_def)
  have "0 \<le> int n * M" using bd by (simp add: dex_bounds_def)
  then show A: "dx_reserveA d \<le> B" and "dx_reserveB d \<le> B"
    using b unfolding dex_budget_def by linarith+
  have "(M + 1) * dx_reserveA d \<le> (M + 1) * B"
    using A bd by (intro mult_left_mono) (auto simp: dex_bounds_def)
  then show "dx_totalShares d \<le> (M + 1) * B" using b unfolding dex_budget_def by linarith
  show "shareOf d u \<le> dx_totalShares d" using inv by (rule share_le_total)
qed

text \<open>The bound itself is a word, and so is all that lies below it.\<close>

lemma bounds_words:
  assumes "dex_bounds M B"
  shows "0 \<le> x \<Longrightarrow> x \<le> 2000 * B \<Longrightarrow> in_u256 x" "0 \<le> x \<Longrightarrow> x \<le> (M + 1) * B \<Longrightarrow> in_u256 x"
proof -
  have M: "0 \<le> M" "0 \<le> B" using assms by (simp_all add: dex_bounds_def)
  have "B = 0 \<or> 1 \<le> B" using M by auto
  then have "B * 1 \<le> B * B" using M by (auto intro: mult_left_mono)
  then have BB: "B \<le> B * B" by simp
  have "1 * (B * B) \<le> (M + 1) * (B * B)" using M by (intro mult_right_mono) auto
  moreover have "(M + 1) * B \<le> (M + 1) * (B * B)" using M BB by (intro mult_left_mono) auto
  moreover have "0 \<le> (M + 1) * (B * B)" using M by simp
  ultimately have "2000 * B < 2 ^ 256" "(M + 1) * B < 2 ^ 256"
    using assms BB unfolding dex_bounds_def by linarith+
  then show "0 \<le> x \<Longrightarrow> x \<le> 2000 * B \<Longrightarrow> in_u256 x" "0 \<le> x \<Longrightarrow> x \<le> (M + 1) * B \<Longrightarrow> in_u256 x"
    by (auto simp: in_u256_def)
qed

lemma dex_words:
  assumes b: "dex_budget M B n d"
  shows "in_u256 (dx_reserveA d)" "in_u256 (dx_reserveB d)" "in_u256 (dx_totalShares d)" "in_u256 (shareOf d u)"
proof -
  note R = dex_range(1-3,5-7) [OF b] dex_range(4,8) [OF b, of u]
    and W = bounds_words [OF dex_range(10) [OF b]]
  have "0 \<le> B" using R(1,4) by linarith
  then show "in_u256 (dx_reserveA d)" "in_u256 (dx_reserveB d)" using R by (auto intro: W(1))
  show "in_u256 (dx_totalShares d)" "in_u256 (shareOf d u)" using R by (auto intro: W(2))
qed

lemma dex_budget_mono: "dex_budget M B (Suc n) d \<Longrightarrow> dex_budget M B n d"
proof -
  assume b: "dex_budget M B (Suc n) d"
  then have M: "0 \<le> M" by (simp add: dex_budget_def dex_bounds_def)
  have "int (Suc n) * M = M + int n * M" by (simp add: distrib_right)
  with b M show ?thesis unfolding dex_budget_def by linarith
qed

text \<open>An amount fits below the bound as long as an operation is left.\<close>

lemma amount_words:
  assumes "dex_budget M B (Suc n) d" "0 \<le> a" "a \<le> M"
  shows "in_u256 a" "a \<le> B"
proof -
  have bd: "dex_bounds M B" using assms(1) by (simp add: dex_budget_def)
  then show "a \<le> B" using assms(3) by (simp add: dex_bounds_def)
  moreover have "0 \<le> B" using bd by (simp add: dex_bounds_def)
  ultimately show "in_u256 a" using bounds_words(1) [OF bd assms(2)] by linarith
qed

text \<open>The ratio of shares to \<open>reserveA\<close> does not rise.\<close>

lemma ratio_kept:
  assumes "dx_totalShares d \<le> (M + 1) * dx_reserveA d" and "0 < dx_reserveA d" and "0 \<le> dx_reserveA d'"
    and "dx_reserveA d * dx_totalShares d' \<le> dx_reserveA d' * dx_totalShares d"
  shows "dx_totalShares d' \<le> (M + 1) * dx_reserveA d'"
proof -
  have "dx_reserveA d' * dx_totalShares d \<le> dx_reserveA d' * ((M + 1) * dx_reserveA d)"
    using assms(1,3) by (rule mult_left_mono)
  with assms(4) have "dx_reserveA d * dx_totalShares d' \<le> dx_reserveA d * ((M + 1) * dx_reserveA d')"
    by (simp add: ac_simps)
  then show ?thesis using assms(2) by simp
qed

subsection \<open>The state changes\<close>

lemma minted_related:
  assumes b: "dex_budget M B (Suc n) d" and rel: "dex_related d s"
    and a: "0 < a" "a \<le> M" and c: "0 < c" "c \<le> M"
  shows "\<exists>m. minted_shares d a c = Inr m \<and> dex_minted (U a) (U c) s = Inr (U m) \<and> in_u256 m"
proof -
  note R = dex_range [OF b] and W = dex_words [OF b] and bd = dex_range(10) [OF b]
  have wa: "in_u256 a" "a \<le> B" and wc: "in_u256 c" "c \<le> B"
    using amount_words [OF b, of a] amount_words [OF b, of c] a c by auto
  have zero: "dt_totalShares s = 0 \<longleftrightarrow> dx_totalShares d = 0"
    using rel W(3) by (simp add: dex_related_def U_eq_0)
  show ?thesis
  proof (cases "dx_totalShares d = 0")
    case True
    have "in_u256 (a + c)" using bounds_words(1) [OF bd, of "a + c"] wa wc a c by linarith
    then show ?thesis
      using True zero wa wc by (simp add: minted_shares_def dex_minted_def checked_add_U)
  next
    case False
    let ?T = "dx_totalShares d"
    have pos: "0 < ?T" "0 < dx_reserveA d" "0 < dx_reserveB d"
      using R(9) False by (auto simp: dex_inv_def)
    have p: "in_u256 (a * ?T)" "in_u256 (c * ?T)"
      using product_bound(3) [OF bd, of a ?T] product_bound(3) [OF bd, of c ?T] R(3,7) wa wc a c by auto
    have q: "in_u256 (a * ?T div dx_reserveA d)" "in_u256 (c * ?T div dx_reserveB d)"
      using p pos by (auto intro: in_u256_div)
    show ?thesis
      using rel zero False pos p q W wa wc a c R(3)
      by (auto simp: minted_shares_def dex_minted_def dex_related_def js_div_pos checked_mul_U checked_div_U U_less)
  qed
qed

lemma add_outcome:
  assumes b: "dex_budget M B (Suc n) d" and rel: "dex_related d s"
    and ta: "amount_text M ta" and tc: "amount_text M tc"
    and a: "ta = show_int a" "0 \<le> a" "a \<le> M" and c: "tc = show_int c" "0 \<le> c" "c \<le> M"
  shows "outcomes (\<lambda>d' s'. dex_budget M B n d' \<and> dex_related d' s') (add_liquidity d u ta tc)
    (map_sum id (map_prod (\<lambda>w. [show_int (uint w)]) id) (dex_AddLiquidity u (U a) (U c) s))"
proof -
  note R = dex_range [OF b] and W = dex_words [OF b] and bd = dex_range(10) [OF b]
  have wa: "in_u256 a" "a \<le> B" and wc: "in_u256 c" "c \<le> B"
    using amount_words [OF b] a c by auto
  show ?thesis
  proof (cases "a = 0 \<or> c = 0")
    case True
    then show ?thesis using wa wc a c
      by (auto simp: add_liquidity_def dex_AddLiquidity_def require_def U_pos)
  next
    case False
    then have pos: "0 < a" "0 < c" using a c by auto
    obtain m where m: "minted_shares d a c = Inr m" "dex_minted (U a) (U c) s = Inr (U m)" "in_u256 m"
      using minted_related [OF b rel] pos a c by blast
    show ?thesis
    proof (cases "m = 0")
      case True
      then show ?thesis using m a c pos wa wc
        by (simp add: add_liquidity_def dex_AddLiquidity_def require_def U_pos)
    next
      case m0: False
      then have mp: "0 < m" using m(3) by (simp add: in_u256_def)
      let ?d = "d\<lparr>dx_reserveA := dx_reserveA d + a, dx_reserveB := dx_reserveB d + c,
         dx_totalShares := dx_totalShares d + m, dx_shares := (dx_shares d)(u \<mapsto> shareOf d u + m)\<rparr>"
      have ok: "add_liquidity d u ta tc = Inr ([show_int m], ?d)"
        using m m0 a c pos by (simp add: add_liquidity_def)
      have nat: "natural_text ta" "natural_text tc" using a c by (simp_all add: natural_text_def)
      have inv: "dex_inv ?d" using add_liquidity_inv [OF ok R(9) nat] .
      have res: "dx_reserveA ?d + int n * M \<le> B" "dx_reserveB ?d + int n * M \<le> B"
        using b a c by (simp_all add: dex_budget_def algebra_simps)
      have ratio: "dx_totalShares ?d \<le> (M + 1) * dx_reserveA ?d"
      proof (cases "dx_totalShares d = 0")
        case True
        then have "dx_totalShares ?d = a + c" "dx_reserveA ?d = a"
          using m R(9) by (auto simp: minted_shares_def dex_inv_def)
        moreover have "M * 1 \<le> M * a" using pos a by (intro mult_left_mono) auto
        then have "a + c \<le> (M + 1) * a" using c(3) by (simp only: distrib_right mult_1_right mult_1)
        ultimately show ?thesis by simp
      next
        case False
        then have rpos: "0 < dx_reserveA d" using R(9) by (auto simp: dex_inv_def)
        have "dx_totalShares d \<le> (M + 1) * dx_reserveA d" using b unfolding dex_budget_def by blast
        moreover have "0 \<le> dx_reserveA ?d" using R(1) a(2) by simp
        ultimately show ?thesis
          by (rule ratio_kept [OF _ rpos _ add_liquidity_sides(1) [OF ok R(9) nat]])
      qed
      have budget: "dex_budget M B n ?d" using inv bd res ratio by (simp add: dex_budget_def)
      note W' = dex_words [OF budget]
      have share: "shareOf ?d v = (if v = u then shareOf d u + m else shareOf d v)" for v
        by (simp add: shareOf_def get0_upd del: fun_upd_apply)
      have sums: "in_u256 (dx_reserveA d + a)" "in_u256 (dx_reserveB d + c)" "in_u256 (dx_totalShares d + m)"
        "in_u256 (shareOf d u + m)"
        using W'(1-3) W'(4) [of u] by (simp_all add: share)
      have "dex_AddLiquidity u (U a) (U c) s = Inr (U m, s\<lparr>dt_reserveA := U (dx_reserveA d + a),
          dt_reserveB := U (dx_reserveB d + c), dt_totalShares := U (dx_totalShares d + m),
          dt_shares := (dt_shares s)(u := U (shareOf d u + m))\<rparr>)"
        using rel m(2,3) mp pos wa(1) wc(1) W sums
        by (simp add: dex_AddLiquidity_def dex_related_def evm_simps)
      moreover have "dex_related ?d (s\<lparr>dt_reserveA := U (dx_reserveA d + a),
          dt_reserveB := U (dx_reserveB d + c), dt_totalShares := U (dx_totalShares d + m),
          dt_shares := (dt_shares s)(u := U (shareOf d u + m))\<rparr>)"
        using rel by (auto simp: dex_related_def share)
      ultimately show ?thesis using ok budget m(3) by (simp add: uint_U)
    qed
  qed
qed


lemma remove_outcome:
  assumes b: "dex_budget M B (Suc n) d" and rel: "dex_related d s" and k: "in_u256 k"
  shows "outcomes (\<lambda>d' s'. dex_budget M B n d' \<and> dex_related d' s') (remove_liquidity d u (show_int k))
    (map_sum id (map_prod (\<lambda>p. [show_int (uint (fst p)), show_int (uint (snd p))]) id)
      (dex_RemoveLiquidity u (U k) s))"
proof -
  note R = dex_range [OF b] and W = dex_words [OF b] and bd = dex_range(10) [OF b]
  have k0: "0 \<le> k" using k by (simp add: in_u256_def)
  show ?thesis
  proof (cases "k = 0 \<or> shareOf d u < k")
    case True
    then show ?thesis using k k0 rel W(4) [of u]
      by (auto simp: remove_liquidity_def dex_RemoveLiquidity_def require_def U_pos dex_related_def U_le)
  next
    case False
    then have kp: "0 < k" "k \<le> shareOf d u" using k0 by auto
    have kT: "k \<le> dx_totalShares d" using kp R(8) [of u] by linarith
    then have pos: "0 < dx_totalShares d" "0 < dx_reserveA d" "0 < dx_reserveB d"
      using kp R(9) by (auto simp: dex_inv_def)
    let ?x = "dx_reserveA d * k div dx_totalShares d" and ?y = "dx_reserveB d * k div dx_totalShares d"
    let ?d = "d\<lparr>dx_shares := (dx_shares d)(u \<mapsto> shareOf d u - k),
       dx_totalShares := dx_totalShares d - k, dx_reserveA := dx_reserveA d - ?x,
       dx_reserveB := dx_reserveB d - ?y\<rparr>"
    have ok: "remove_liquidity d u (show_int k) = Inr ([show_int ?x, show_int ?y], ?d)"
      using kp pos by (simp add: remove_liquidity_def js_div_pos)
    have nat: "natural_text (show_int k)" using k0 by (simp add: natural_text_def)
    have inv: "dex_inv ?d" using remove_liquidity_inv [OF ok R(9) nat] .
    have le: "?x \<le> dx_reserveA d" "?y \<le> dx_reserveB d" "0 \<le> ?x" "0 \<le> ?y"
      using kT kp pos by (simp_all add: div_le_int pos_imp_zdiv_nonneg_iff)
    have p: "in_u256 (dx_reserveA d * k)" "in_u256 (dx_reserveB d * k)"
      using product_bound(3) [OF bd, of "dx_reserveA d" k] product_bound(3) [OF bd, of "dx_reserveB d" k]
        R(1,2,5,6,7) k0 kT by auto
    have q: "in_u256 ?x" "in_u256 ?y" using p pos by (auto intro: in_u256_div)
    have "dx_totalShares d \<le> (M + 1) * dx_reserveA d" using b unfolding dex_budget_def by blast
    moreover have "0 \<le> dx_reserveA ?d" using le(1) by simp
    ultimately have "dx_totalShares ?d \<le> (M + 1) * dx_reserveA ?d"
      by (rule ratio_kept [OF _ pos(2) _ remove_liquidity_sides(1) [OF ok R(9) nat]])
    moreover have "dx_reserveA ?d + int n * M \<le> B" "dx_reserveB ?d + int n * M \<le> B"
      using dex_budget_mono [OF b] le(3,4) by (auto simp: dex_budget_def)
    ultimately have budget: "dex_budget M B n ?d" using inv bd by (simp add: dex_budget_def)
    have share: "shareOf ?d v = (if v = u then shareOf d u - k else shareOf d v)" for v
      by (simp add: shareOf_def get0_upd del: fun_upd_apply)
    have "dex_RemoveLiquidity u (U k) s = Inr ((U ?x, U ?y), s\<lparr>dt_shares := (dt_shares s)(u := U (shareOf d u - k)),
        dt_totalShares := U (dx_totalShares d - k), dt_reserveA := U (dx_reserveA d - ?x),
        dt_reserveB := U (dx_reserveB d - ?y)\<rparr>)"
      using rel kp kT k W p q le pos
      by (simp add: dex_RemoveLiquidity_def dex_related_def evm_simps)
    moreover have "dex_related ?d (s\<lparr>dt_shares := (dt_shares s)(u := U (shareOf d u - k)),
        dt_totalShares := U (dx_totalShares d - k), dt_reserveA := U (dx_reserveA d - ?x),
        dt_reserveB := U (dx_reserveB d - ?y)\<rparr>)"
      using rel by (auto simp: dex_related_def share)
    ultimately show ?thesis using ok budget q by (simp add: uint_U)
  qed
qed

lemma swap_outcome:
  assumes b: "dex_budget M B (Suc n) d" and rel: "dex_related d s" and a: "0 \<le> a" "a \<le> M"
  shows "outcomes (\<lambda>d' s'. dex_budget M B n d' \<and> dex_related d' s') (swap_a_for_b d u (show_int a))
    (map_sum id (map_prod (\<lambda>w. [show_int (uint w)]) id) (dex_SwapAForB u (U a) s))"
proof -
  note R = dex_range [OF b] and W = dex_words [OF b] and bd = dex_range(10) [OF b]
  have wa: "in_u256 a" "a \<le> B" using amount_words [OF b] a by auto
  show ?thesis
  proof (cases "a = 0 \<or> dx_reserveA d = 0 \<or> dx_reserveB d = 0")
    case True
    then show ?thesis using wa a rel W R(1,2)
      by (auto simp: swap_a_for_b_def dex_SwapAForB_def require_def U_pos dex_related_def U_eq_0)
  next
    case False
    then have pos: "0 < a" "0 < dx_reserveA d" "0 < dx_reserveB d" using a R(1,2) by auto
    let ?fee = "a * 997" and ?num = "a * 997 * dx_reserveB d" and ?den = "dx_reserveA d * 1000 + a * 997"
    let ?paid = "?num div ?den"
    have fee: "in_u256 ?fee" "in_u256 (dx_reserveA d * 1000)" "in_u256 ?den"
      using bounds_words(1) [OF bd, of ?fee] bounds_words(1) [OF bd, of "dx_reserveA d * 1000"]
        bounds_words(1) [OF bd, of ?den] wa(2) a R(1,5) by auto
    have "B \<le> (M + 1) * B" using bd mult_right_mono [of 1 "M + 1" B] by (simp add: dex_bounds_def)
    then have "2000 * (a * dx_reserveB d) < 2 ^ 256" "0 \<le> a * dx_reserveB d"
      using product_bound(1,2) [OF bd, of a "dx_reserveB d"] wa(2) a R(2,6) by auto
    moreover have "?num = 997 * (a * dx_reserveB d)" by simp
    ultimately have num: "in_u256 ?num" by (intro in_u256I) linarith+
    have paid: "in_u256 ?paid" using num pos by (intro in_u256_div) auto
    have c997: "(997 :: uint256) = U 997" "(1000 :: uint256) = U 1000" by (simp_all add: U_def)
    have w997: "in_u256 997" "in_u256 1000" by (simp_all add: in_u256_def)
    have model: "swap_a_for_b d u (show_int a) =
        (if ?paid = 0 \<or> ?paid \<ge> dx_reserveB d then Inl ''InsufficientOutput''
         else Inr ([show_int ?paid],
           d\<lparr>dx_reserveA := dx_reserveA d + a, dx_reserveB := dx_reserveB d - ?paid\<rparr>))"
      using pos by (simp add: swap_a_for_b_def js_div_pos Let_def)
    have trans: "dex_SwapAForB u (U a) s = require (U ?paid > 0 \<and> U ?paid < dt_reserveB s) ''InsufficientOutput''
        (res_bind (checked_add (dt_reserveA s) (U a)) (\<lambda>reserveA.
         res_bind (checked_sub (dt_reserveB s) (U ?paid)) (\<lambda>reserveB.
           Inr (U ?paid, s\<lparr>dt_reserveA := reserveA, dt_reserveB := reserveB\<rparr>))))"
      using rel pos wa W fee num w997
      by (simp add: dex_SwapAForB_def dex_related_def c997 require_def U_pos checked_mul_U checked_add_U checked_div_U)
    show ?thesis
    proof (cases "0 < ?paid \<and> ?paid < dx_reserveB d")
      case False
      have "0 \<le> ?paid" using paid by (simp add: in_u256_def)
      with False show ?thesis
        using rel W(2) paid
        by (auto simp: model trans require_def U_pos U_less dex_related_def)
    next
      case True
      let ?d = "d\<lparr>dx_reserveA := dx_reserveA d + a, dx_reserveB := dx_reserveB d - ?paid\<rparr>"
      have ok: "swap_a_for_b d u (show_int a) = Inr ([show_int ?paid], ?d)" using True by (simp add: model)
      have nat: "natural_text (show_int a)" using a by (simp add: natural_text_def)
      have inv: "dex_inv ?d" using swap_a_for_b_inv [OF ok R(9) nat] .
      have "dx_reserveA ?d + int n * M \<le> B" "dx_reserveB ?d + int n * M \<le> B"
        using b dex_budget_mono [OF b] a True by (auto simp: dex_budget_def algebra_simps)
      moreover have "(M + 1) * dx_reserveA d \<le> (M + 1) * (dx_reserveA d + a)"
        using a bd by (intro mult_left_mono) (auto simp: dex_bounds_def)
      then have "dx_totalShares ?d \<le> (M + 1) * dx_reserveA ?d"
        using b by (simp add: dex_budget_def)
      ultimately have budget: "dex_budget M B n ?d" using inv bd by (simp add: dex_budget_def)
      note W' = dex_words [OF budget]
      have "dex_SwapAForB u (U a) s = Inr (U ?paid,
          s\<lparr>dt_reserveA := U (dx_reserveA d + a), dt_reserveB := U (dx_reserveB d - ?paid)\<rparr>)"
        using rel True paid wa W W'(1,2)
        by (simp add: trans require_def dex_related_def U_pos U_less checked_add_U checked_sub_U)
      moreover have "dex_related ?d (s\<lparr>dt_reserveA := U (dx_reserveA d + a), dt_reserveB := U (dx_reserveB d - ?paid)\<rparr>)"
        using rel by (simp add: dex_related_def shareOf_def)
      ultimately show ?thesis using ok budget paid by (simp add: uint_U)
    qed
  qed
qed

subsection \<open>Every operation\<close>

lemma dex_sim_mono: "dex_sim H M B (Suc n) d c \<Longrightarrow> dex_sim H M B n d c"
  using dex_budget_mono by (auto simp: dex_sim_def)

lemma returning_related:
  assumes "outcomes S bo (map_sum id (map_prod g id) (f (contract_state c)))"
    and "\<And>v. resultValues (ret v) = g v"
  shows "outcomes (\<lambda>d c'. S d (contract_state c')) bo (call_then_send (returning ret f) c)"
  using assms
  by (cases "f (contract_state c)"; cases bo)
    (auto simp: call_then_send_def static_call_def send_def returning_def)

lemma dex_outcomes:
  assumes sim: "dex_sim H M B (Suc n) d c" and legal: "dex_in_range M x"
  shows "outcomes (dex_sim H M B n) (dex_body d x) (dex_call H c x)"
proof -
  have H: "host_documented H" and b1: "dex_budget M B (Suc n) d" and rel: "dex_related d (contract_state c)"
    using sim by (simp_all add: dex_sim_def)
  have sim': "dex_sim H M B n d c" using sim by (rule dex_sim_mono)
  note W = dex_words [OF b1]
  have S: "dex_sim H M B n = (\<lambda>d c'. dex_budget M B n d \<and> dex_related d (contract_state c'))"
    using H by (auto simp: dex_sim_def fun_eq_iff)
  show ?thesis
  proof (cases x)
    case (AddLiquidity u ta tc)
    then have t: "amount_text M ta" "amount_text M tc" using legal by simp_all
    then obtain a k where a: "ta = show_int a" "0 \<le> a" "a \<le> M" and k: "tc = show_int k" "0 \<le> k" "k \<le> M"
      by (auto simp: amount_text_def)
    have "outcomes (dex_sim H M B n) (add_liquidity d u ta tc)
        (call_then_send (returning ret_uint (dex_AddLiquidity u (U a) (U k))) c)"
      unfolding S by (rule returning_related [where f = "dex_AddLiquidity u (U a) (U k)", OF add_outcome [OF b1 rel t a k]]) (simp add: ret_uint_def)
    then show ?thesis
      using AddLiquidity H a k amount_words(1) [OF b1] by (simp add: with_uint_show)
  next
    case (RemoveLiquidity u t)
    then obtain k where k: "t = show_int k" "in_u256 k" using legal by (auto simp: word_text_def)
    have "outcomes (dex_sim H M B n) (remove_liquidity d u (show_int k))
        (call_then_send (returning ret_pair (dex_RemoveLiquidity u (U k))) c)"
      unfolding S by (rule returning_related [where f = "dex_RemoveLiquidity u (U k)", OF remove_outcome [OF b1 rel k(2)]]) (simp add: ret_pair_def)
    then show ?thesis using RemoveLiquidity H k by (simp add: with_uint_show)
  next
    case (SwapAForB u t)
    then obtain a where a: "t = show_int a" "0 \<le> a" "a \<le> M" using legal by (auto simp: amount_text_def)
    have "outcomes (dex_sim H M B n) (swap_a_for_b d u (show_int a))
        (call_then_send (returning ret_uint (dex_SwapAForB u (U a))) c)"
      unfolding S by (rule returning_related [where f = "dex_SwapAForB u (U a)", OF swap_outcome [OF b1 rel a(2,3)]]) (simp add: ret_uint_def)
    then show ?thesis
      using SwapAForB H a amount_words(1) [OF b1] by (simp add: with_uint_show)
  next
    case GetReserves
    then show ?thesis using sim' rel W by (simp add: read_view_eval ret_pair_def dex_related_def uint_U)
  next
    case (GetShares u)
    then show ?thesis using sim' rel W by (simp add: read_view_eval ret_uint_def dex_related_def uint_U)
  next
    case TotalShares
    then show ?thesis using sim' rel W by (simp add: read_view_eval ret_uint_def dex_related_def uint_U)
  qed
qed

lemma dex_step:
  assumes "dex_sim H M B (Suc n) d c" and "dex_in_range M x"
  shows "agree (fst (dex_execute d x)) (fst (executeTranslatedDex H c x)) \<and>
    dex_sim H M B n (snd (dex_execute d x)) (snd (executeTranslatedDex H c x))"
  unfolding dex_execute_def executeTranslatedDex_def
  using dex_outcomes [OF assms] dex_sim_mono [OF assms(1)] by (rule outcomes_step)

interpretation dex_diff: differential dex_execute "executeTranslatedDex H"
    "dex_sim H M B" "dex_in_range M" for H M B
  by unfold_locales (use dex_step in auto)

subsection \<open>Property\<close>

lemma dex_snapshot_match:
  assumes "dex_sim H M B n d c"
  shows "translatedDexSnapshot lc E c users = dex_snapshot lc E d users"
proof -
  have rel: "dex_related d (contract_state c)" and b: "dex_budget M B n d"
    using assms by (simp_all add: dex_sim_def)
  note W = dex_words [OF b]
  have "map (\<lambda>u. word_entry (''shares.'' @ u) (dt_shares (contract_state c) u)) (sorted_members users) =
      map (\<lambda>u. uint_entry (''shares.'' @ u) (shareOf d u)) (sorted_members users)"
    using rel W by (simp add: word_entry_def dex_related_def uint_U)
  moreover have "word_entry k (dt_reserveA (contract_state c)) = uint_entry k (dx_reserveA d)"
    "word_entry k (dt_reserveB (contract_state c)) = uint_entry k (dx_reserveB d)"
    "word_entry k (dt_totalShares (contract_state c)) = uint_entry k (dx_totalShares d)" for k
    using rel W by (simp_all add: word_entry_def dex_related_def uint_U)
  ultimately show ?thesis
    unfolding translatedDexSnapshot_def dex_snapshot_def dex_entries_def Let_def by (simp only: )
qed

lemma dex_snapshot_total:
  assumes b: "dex_budget M B n d" and E: "ethers_documented E" and "\<forall>u \<in> set users. brief u"
  shows "\<exists>r. dex_snapshot lc E d users = Inr r"
proof -
  have len: "u \<in> set users \<Longrightarrow> length u < 2 ^ 30" for u using assms(3) by (auto simp: brief_def)
  have "\<forall>e \<in> set (dex_entries d users). entry_encodable e"
    using dex_words [OF b] by (auto simp: dex_entries_def entry_encodable_simps short_def dest!: len)
  moreover have "short ''DEXSwap''" by (simp add: short_def)
  ultimately show ?thesis unfolding dex_snapshot_def by (intro canonicalSnapshot_total [OF E])
qed

definition dex_case_in_range :: "(unit, dex_operation) rq2_case \<Rightarrow> int \<Rightarrow> bool" where
  "dex_case_in_range tc M \<longleftrightarrow>
     dex_bounds M ((int (length (rc_operations tc)) + 1) * M) \<and>
     (\<forall>x \<in> set (rc_operations tc). dex_in_range M x) \<and>
     (\<forall>u \<in> set (dexTouchedUsers (rc_operations tc)). brief u)"

definition sample_swap_case :: "(unit, dex_operation) rq2_case" where
  "sample_swap_case = \<lparr>rc_caseId = ''dex-0000'', rc_seed = 7, rc_initial = (),
     rc_operations = [AddLiquidity ''alice'' (show_int 100) (show_int 80), SwapAForB ''bob'' (show_int 9),
       RemoveLiquidity ''alice'' (show_int 20), GetReserves]\<rparr>"

lemma sample_swap_in_range: "dex_case_in_range sample_swap_case 100"
proof -
  have "amount_text 100 (show_int n)" if "0 \<le> n" "n \<le> 100" for n
    using that by (auto simp: amount_text_def)
  moreover have "word_text (show_int 20)" by (auto simp: word_text_def in_u256_def)
  ultimately show ?thesis
    by (simp add: dex_case_in_range_def sample_swap_case_def dex_bounds_def dexTouchedUsers_def brief_def)
qed

lemma dex_case_ok:
  assumes H: "host_documented H" and E: "ethers_documented E" and range: "dex_case_in_range tc M"
  shows "\<exists>result. runDexCase lc E H tc = Inr result \<and> cr_pass result"
proof -
  let ?ops = "rc_operations tc" and ?B = "(int (length (rc_operations tc)) + 1) * M"
  have r: "dex_bounds M ?B" "\<forall>x \<in> set ?ops. dex_in_range M x" "\<forall>u \<in> set (dexTouchedUsers ?ops). brief u"
    using range by (simp_all add: dex_case_in_range_def)
  have "dex_related new_DEXSwapModel (contract_state (deploy DEXSwapTranslated))"
    by (simp add: dex_related_def new_DEXSwapModel_def deploy_def DEXSwapTranslated_def shareOf_def)
  then have sim: "dex_sim H M ?B (length ?ops) new_DEXSwapModel (deploy DEXSwapTranslated)"
    using H r(1) dex_inv_new
    by (simp add: dex_sim_def dex_budget_def) (simp add: new_DEXSwapModel_def dex_bounds_def algebra_simps)
  have "\<exists>result. run_case dex_execute (executeTranslatedDex H)
      (\<lambda>d. dex_snapshot lc E d (dexTouchedUsers ?ops)) (\<lambda>c. translatedDexSnapshot lc E c (dexTouchedUsers ?ops))
      new_DEXSwapModel (deploy DEXSwapTranslated) tc = Inr result \<and> cr_pass result"
  proof (rule dex_diff.case_passes [OF sim r(2)])
    fix c'
    assume sim': "dex_sim H M ?B 0 (run_ops dex_execute new_DEXSwapModel ?ops) c'"
    then have "dex_budget M ?B 0 (run_ops dex_execute new_DEXSwapModel ?ops)" by (simp add: dex_sim_def)
    from dex_snapshot_total [OF this E r(3)] dex_snapshot_match [OF sim']
    show "\<exists>s. dex_snapshot lc E (run_ops dex_execute new_DEXSwapModel ?ops) (dexTouchedUsers ?ops) = Inr s \<and>
        translatedDexSnapshot lc E c' (dexTouchedUsers ?ops) = Inr s"
      by auto
  qed
  then show ?thesis by (simp add: runDexCase_def Let_def)
qed

text \<open>C7. Within bounds that keep the products below \<open>2\<^sup>2\<^sup>5\<^sup>6\<close> the translated exchange is
  equivalent to its model: the runner's verdict is pass.\<close>

theorem dex_cases_pass:
  assumes H: "host_documented H" and E: "ethers_documented E" and range: "dex_case_in_range tc M"
  shows "\<exists>result. runDexCase lc E H tc = Inr result \<and> cr_pass result"
  using assms by (rule dex_case_ok)

theorem dex_cases_pass_witness:
  "\<exists>result. runDexCase code_unit_compare reference_ethers reference_host sample_swap_case = Inr result \<and>
    cr_pass result"
  by (rule dex_cases_pass [OF reference_host_documented reference_ethers_documented sample_swap_in_range])

end
