(* ===== verification/Generated_Cases.thy ===== *)
theory Generated_Cases
  imports Case_Generator Equiv_Auction Equiv_Dex
begin

text \<open>
  The generator's cases under the runner: every case \<open>generate-cases.ts\<close> can write lies in
  the range in which the translated contracts are equivalent to the models, so
  \<open>run-rq2a.ts\<close> must report a pass for each, and a failing case means the deployed contract
  is not the one modelled.
\<close>

subsection \<open>Ranges of the generated operations\<close>

lemma small_word: "0 \<le> n \<Longrightarrow> n < 10000 \<Longrightarrow> word_text (show_int n)"
  by (auto simp: word_text_def in_u256_def)

lemma case_users_brief: "u \<in> set case_users \<Longrightarrow> brief u"
  by (auto simp: case_users_def brief_def)

lemma lock_ids_brief: "l \<in> set lock_ids \<Longrightarrow> brief l"
  by (auto simp: lock_ids_def brief_def)

lemma names_nonempty: "case_users \<noteq> []" "lock_ids \<noteq> []" "auction_ids \<noteq> []"
  by (simp_all add: case_users_def lock_ids_def auction_ids_def)

definition travel_op_ok :: "hotel_operation \<Rightarrow> bool" where
  "travel_op_ok x \<longleftrightarrow> travel_legal x \<and> set (hotel_op_user x) \<subseteq> set case_users \<and>
     set (hotel_op_lock x) \<subseteq> set lock_ids"

lemma travel_op_pred: "pred_state travel_op_ok travel_op"
  unfolding travel_op_def
  by (intro gen_rules names_nonempty) (auto simp: travel_op_ok_def intro: small_word)

definition travel_initial_ok :: "hotel_initial \<Rightarrow> bool" where
  "travel_initial_ok i \<longleftrightarrow> init_bridge i = ''Org1MSP'' \<and>
     (\<exists>p r l. initial_texts i p r l \<and> 5 \<le> p \<and> p < 30 \<and> 20 \<le> r \<and> r < 100 \<and> 1 \<le> l \<and> l < 5)"

lemma travel_gen_pred:
  "pred_state (\<lambda>(i, xs). travel_initial_ok i \<and> length xs < 25 \<and> (\<forall>x \<in> set xs. travel_op_ok x)) travel_gen"
  unfolding travel_gen_def
  by (intro gen_rules bind_repeat [OF travel_op_pred]) (auto simp: travel_initial_ok_def initial_texts_def)

lemma travel_case_range:
  "\<exists>p r l. travel_case_in_range (makeTravelCase contract i seed) p r l"
proof -
  obtain ini xs where g: "fst (run_state travel_gen (case_seed seed i)) = (ini, xs)" by fastforce
  have ok: "travel_initial_ok ini" "length xs < 25" "\<forall>x \<in> set xs. travel_op_ok x"
    using run_pred [OF travel_gen_pred, of "case_seed seed i"] by (simp_all add: g)
  obtain p r l where t: "initial_texts ini p r l" "5 \<le> p" "p < 30" "20 \<le> r" "r < 100" "1 \<le> l" "l < 5"
    using ok(1) by (auto simp: travel_initial_ok_def)
  have "p * (r + l) \<le> 30 * 105" using t by (intro mult_mono) auto
  moreover have "0 \<le> p * (r + l)" using t by simp
  moreover have "int (length xs) + 1 \<le> 25" using ok(2) by simp
  ultimately have "(int (length xs) + 1) * (p * (r + l)) \<le> 25 * (30 * 105)"
    by (intro mult_mono [of "int (length xs) + 1" 25]) simp_all
  then have "(int (length xs) + 1) * (p * (r + l)) < 2 ^ 256"
    by (rule le_less_trans) simp
  moreover have "travel_names_ok xs"
    using ok(3) case_users_brief lock_ids_brief
    by (force simp: travel_names_ok_def hotelTouchedUsers_def hotelTouchedLocks_def travel_op_ok_def)
  moreover have "brief (init_bridge ini)" using ok(1) by (simp add: travel_initial_ok_def brief_def)
  ultimately have "travel_case_in_range (makeTravelCase contract i seed) p r l"
    using t ok(3) by (simp add: travel_case_in_range_def makeTravelCase_def g Let_def travel_op_ok_def)
  then show ?thesis by blast
qed

subsection \<open>Token cases\<close>

definition generated_pairs :: "string list" where
  "generated_pairs = concat (map (\<lambda>a. map (allowanceKey a) case_users) case_users)"

lemma pair_generated: "a \<in> set case_users \<Longrightarrow> b \<in> set case_users \<Longrightarrow> allowanceKey a b \<in> set generated_pairs"
  by (auto simp: generated_pairs_def)

lemma user_splits:
  "a \<in> set case_users \<Longrightarrow> split_pair (allowanceKey a b) = (a, takeWhile (\<lambda>c. c \<noteq> CHR 0x00) b)"
  by (auto simp: case_users_def split_pair_def allowanceKey_def Let_def)

lemma generated_pairs_ok:
  "p \<in> set generated_pairs \<Longrightarrow> allowanceKey (fst (split_pair p)) (snd (split_pair p)) = p \<and> brief p"
proof -
  assume "p \<in> set generated_pairs"
  then obtain a b where ab: "a \<in> set case_users" "b \<in> set case_users" "p = allowanceKey a b"
    by (auto simp: generated_pairs_def)
  have "takeWhile (\<lambda>c. c \<noteq> CHR 0x00) b = b" "length a \<le> 5" "length b \<le> 5"
    using ab(1,2) by (auto simp: case_users_def)
  then show ?thesis
    using user_splits [OF ab(1), of b] ab(3) by (simp add: brief_def allowanceKey_def)
qed

definition token_op_ok :: "token_operation \<Rightarrow> bool" where
  "token_op_ok x \<longleftrightarrow> token_in_range (set generated_pairs) 1000 x \<and> set (token_op_users x) \<subseteq> set case_users \<and>
     set (token_op_pairs x) \<subseteq> set generated_pairs"

lemma token_op_pred: "pred_state token_op_ok token_op"
  unfolding token_op_def
  by (intro gen_rules names_nonempty)
    (auto simp: token_op_ok_def pair_generated intro: small_word)

lemma balances_pred:
  "pred_state (\<lambda>bs. map fst bs = us \<and> (\<forall>p \<in> set bs. \<exists>n. snd p = show_int n \<and> 0 \<le> n) \<and>
     initial_total bs \<le> 1000 * int (length us)) (balances_gen us)"
proof (induction us)
  case (Cons u us)
  show ?case
    unfolding balances_gen.simps
    by (intro gen_rules pred_bind [OF Cons.IH]) auto
qed (auto intro: return_pred)

lemma token_gen_pred:
  "pred_state (\<lambda>(i, xs). natural_balances (init_balances i) \<and> map fst (init_balances i) = case_users \<and>
     initial_total (init_balances i) \<le> 6000 \<and> length xs < 30 \<and> (\<forall>x \<in> set xs. token_op_ok x)) token_gen"
  unfolding token_gen_def
  by (intro pred_bind [OF balances_pred] gen_rules bind_repeat [OF token_op_pred])
    (auto simp: natural_balances_def case_users_def)

lemma token_in_range_subset:
  "token_in_range K M x \<Longrightarrow> token_op_ok x \<Longrightarrow> set (token_op_pairs x) \<subseteq> L \<Longrightarrow> token_in_range L M x"
  by (cases x) auto

lemma token_case_range:
  assumes inj: "inj_on (pair_hash H) (set generated_pairs)"
  shows "token_case_in_range H (makeTokenCase i seed) 1000"
proof -
  obtain ini xs where g: "fst (run_state token_gen (case_seed seed i)) = (ini, xs)" by fastforce
  have ok: "natural_balances (init_balances ini)" "map fst (init_balances ini) = case_users"
    "initial_total (init_balances ini) \<le> 6000" "length xs < 30" "\<forall>x \<in> set xs. token_op_ok x"
    using run_pred [OF token_gen_pred, of "case_seed seed i"] by (simp_all add: g)
  let ?pairs = "set (tokenTouchedAllowancePairs xs)"
  have sub: "?pairs \<subseteq> set generated_pairs"
    using ok(5) by (auto simp: tokenTouchedAllowancePairs_def token_op_ok_def)
  have mem: "set (token_op_pairs x) \<subseteq> ?pairs" if "x \<in> set xs" for x
    using that by (auto simp: tokenTouchedAllowancePairs_def)
  have "\<forall>x \<in> set xs. token_in_range ?pairs 1000 x"
    using ok(5) mem token_in_range_subset by (auto simp: token_op_ok_def)
  moreover have "inj_on (pair_hash H) ?pairs" using inj sub by (rule inj_on_subset)
  moreover have "initial_total (init_balances ini) + int (length xs) * 1000 < 2 ^ 256"
    using ok(3,4) by simp
  moreover have "\<forall>u \<in> set (tokenTouchedUsers xs ini). brief u"
    using ok(2,5) case_users_brief by (auto simp: tokenTouchedUsers_def token_op_ok_def)
  ultimately show ?thesis
    using ok(1) sub generated_pairs_ok
    by (auto simp: token_case_in_range_def makeTokenCase_def g Let_def)
qed

subsection \<open>Auction and exchange cases\<close>

lemma auction_id_text: "i \<in> set auction_ids \<Longrightarrow> word_text i \<and> brief i"
proof -
  assume "i \<in> set auction_ids"
  moreover have "''1'' = show_int 1" "''2'' = show_int 2" "''3'' = show_int 3" "''4'' = show_int 4"
    by code_simp+
  ultimately have "\<exists>n. i = show_int n \<and> 0 \<le> n \<and> n \<le> 4"
    by (auto simp: auction_ids_def simp del: show_int_inject)
  moreover from \<open>i \<in> set auction_ids\<close> have "length i = 1" by (auto simp: auction_ids_def)
  ultimately show ?thesis by (auto simp: word_text_def in_u256_def brief_def)
qed

definition auction_op_ok :: "auction_operation \<Rightarrow> bool" where
  "auction_op_ok x \<longleftrightarrow> auction_in_range 1000 x \<and> set (auction_op_users x) \<subseteq> set case_users \<and>
     set (auction_op_id x) \<subseteq> set auction_ids"

lemma auction_op_pred: "pred_state auction_op_ok auction_op"
  unfolding auction_op_def
  by (intro gen_rules names_nonempty)
    (auto simp: auction_op_ok_def auction_id_text intro: small_word)

lemma auction_gen_pred:
  "pred_state (\<lambda>xs. length xs < 30 \<and> (\<forall>x \<in> set xs. auction_op_ok x)) auction_gen"
proof -
  have "pred_state (\<lambda>xs. length xs < 30 \<and> (\<forall>x \<in> set xs. auction_op_ok x)) (repeat_gen (10 + n) auction_op)"
    if "n < 20" for n
    using repeat_gen_pred [OF auction_op_pred, of "10 + n"] that
    by (auto intro!: pred_stateI dest: pred_stateD)
  then show ?thesis unfolding auction_gen_def by (intro bind_int) simp_all
qed

lemma auction_case_range: "auction_case_in_range (makeAuctionCase i seed) 1000"
proof -
  let ?xs = "fst (run_state auction_gen (case_seed seed i))"
  have ok: "length ?xs < 30" "\<forall>x \<in> set ?xs. auction_op_ok x"
    using run_pred [OF auction_gen_pred, of "case_seed seed i"] by simp_all
  have "\<forall>j \<in> set (auctionTouchedIds ?xs). brief j" "\<forall>u \<in> set (auctionTouchedUsers ?xs). brief u"
    using ok(2) auction_id_text case_users_brief
    by (force simp: auctionTouchedIds_def auctionTouchedUsers_def auction_op_ok_def)+
  then show ?thesis
    using ok by (simp add: auction_case_in_range_def makeAuctionCase_def Let_def in_u256_def auction_op_ok_def)
qed

definition dex_op_ok :: "dex_operation \<Rightarrow> bool" where
  "dex_op_ok x \<longleftrightarrow> dex_in_range 1000 x \<and> set (dex_op_user x) \<subseteq> set case_users"

lemma dex_op_pred: "pred_state dex_op_ok dex_op"
  unfolding dex_op_def
  by (intro gen_rules names_nonempty)
    (auto simp: dex_op_ok_def amount_text_def intro: small_word)

lemma dex_gen_pred: "pred_state (\<lambda>xs. length xs < 30 \<and> (\<forall>x \<in> set xs. dex_op_ok x)) dex_gen"
proof -
  have "pred_state (\<lambda>xs. length xs < 30 \<and> (\<forall>x \<in> set xs. dex_op_ok x)) (repeat_gen (10 + n) dex_op)"
    if "n < 20" for n
    using repeat_gen_pred [OF dex_op_pred, of "10 + n"] that
    by (auto intro!: pred_stateI dest: pred_stateD)
  then show ?thesis unfolding dex_gen_def by (intro bind_int) simp_all
qed

lemma dex_case_range: "dex_case_in_range (makeDexCase i seed) 1000"
proof -
  let ?xs = "fst (run_state dex_gen (case_seed seed i))"
  have ok: "length ?xs < 30" "\<forall>x \<in> set ?xs. dex_op_ok x"
    using run_pred [OF dex_gen_pred, of "case_seed seed i"] by simp_all
  let ?B = "(int (length ?xs) + 1) * 1000"
  have "?B * ?B \<le> 30000 * 30000" using ok(1) by (intro mult_mono) auto
  then have "2000 * ((1000 + 1) * (?B * ?B)) \<le> 2000 * (1001 * (30000 * 30000))" by simp
  then have "2000 * ((1000 + 1) * (?B * ?B)) < 2 ^ 256" by (rule le_less_trans) simp
  then have "dex_bounds 1000 ?B" by (simp add: dex_bounds_def)
  moreover have "\<forall>u \<in> set (dexTouchedUsers ?xs). brief u"
    using ok(2) case_users_brief by (force simp: dexTouchedUsers_def dex_op_ok_def)
  ultimately show ?thesis
    using ok(2) by (simp add: dex_case_in_range_def makeDexCase_def Let_def dex_op_ok_def)
qed


subsection \<open>The dispatch of the runner\<close>

definition run_generated ::
    "(string \<Rightarrow> string \<Rightarrow> int) \<Rightarrow> ethers \<Rightarrow> evm_host \<Rightarrow> generated_case \<Rightarrow> case_result res" where
  "run_generated lc E H g = (case g of
     TravelCase contract tc \<Rightarrow>
       if contract = ''HotelBooking'' then runHotelCase lc E H tc else runTrainCase lc E H tc
   | TokenCase tc \<Rightarrow> runTokenCase lc E H tc
   | AuctionCase tc \<Rightarrow> runAuctionCase lc E H tc
   | DexCase tc \<Rightarrow> runDexCase lc E H tc)"


text \<open>
  What the runs rely on outside the repository: the documented libraries, a comparator for the
  keys, and a hash that separates the 36 allowance pairs of the generated users.
\<close>

definition environment_ok :: "(string \<Rightarrow> string \<Rightarrow> int) \<Rightarrow> ethers \<Rightarrow> evm_host \<Rightarrow> bool" where
  "environment_ok lc E H \<longleftrightarrow>
     host_documented H \<and> ethers_documented E \<and> js_comparator lc \<and>
     lc ''lockedTotal'' ''availableRemain'' \<noteq> 0 \<and> inj_on (pair_hash H) (set generated_pairs)"

lemma pair_length: "p \<in> set generated_pairs \<Longrightarrow> length (utf8Bytes p) \<le> 30"
proof -
  assume "p \<in> set generated_pairs"
  then obtain a b where ab: "a \<in> set case_users" "b \<in> set case_users" "p = allowanceKey a b"
    by (auto simp: generated_pairs_def)
  then have "length a \<le> 5" "length b \<le> 5" by (auto simp: case_users_def)
  then have "length p \<le> 11" using ab(3) by (simp add: allowanceKey_def)
  then show ?thesis using length_utf8Bytes [of p] by linarith
qed

lemma reference_pairs_distinct: "inj_on (pair_hash reference_host) (set generated_pairs)"
proof (rule inj_onI)
  fix p q assume pq: "p \<in> set generated_pairs" "q \<in> set generated_pairs"
    and "pair_hash reference_host p = pair_hash reference_host q"
  then have "utf8Bytes p = utf8Bytes q"
    unfolding pair_hash_def by (intro reference_keccak_inject pair_length)
  then show "p = q" by (metis decode_utf8_utf8Bytes)
qed

lemma reference_environment: "environment_ok code_unit_compare reference_ethers reference_host"
  using reference_pairs_distinct reference_host_documented reference_ethers_documented
    code_units.js_comparator_axioms sample_order
  by (simp add: environment_ok_def)

lemma run_generated_passes:
  assumes env: "environment_ok lc E H" and "makeCase contract i seed = Inr g"
  shows "\<exists>result. run_generated lc E H g = Inr result \<and> cr_pass result"
proof -
  have e: "host_documented H" "ethers_documented E" "js_comparator lc"
    "lc ''lockedTotal'' ''availableRemain'' \<noteq> 0" "inj_on (pair_hash H) (set generated_pairs)"
    using env by (simp_all add: environment_ok_def)
  obtain p r l where travel: "travel_case_in_range (makeTravelCase contract i seed) p r l"
    using travel_case_range by blast
  consider "g = TravelCase contract (makeTravelCase contract i seed)" | "g = TokenCase (makeTokenCase i seed)"
    | "g = AuctionCase (makeAuctionCase i seed)" | "g = DexCase (makeDexCase i seed)"
    using assms(2) by (auto simp: makeCase_def split: if_splits)
  then show ?thesis
  proof cases
    case 1
    then have "run_generated lc E H g =
        (if contract = ''HotelBooking'' then runHotelCase lc E H (makeTravelCase contract i seed)
         else runTrainCase lc E H (makeTravelCase contract i seed))"
      by (simp add: run_generated_def)
    then show ?thesis
      using hotel_case_ok [OF e(1-4) travel] train_case_ok [OF e(1-4) travel]
      by (cases "contract = ''HotelBooking''") simp_all
  next
    case 2
    then show ?thesis
      using token_case_ok [OF e(1,2) token_case_range [OF e(5)]] by (simp add: run_generated_def)
  next
    case 3
    then show ?thesis
      using auction_case_ok [OF e(1,2) auction_case_range] by (simp add: run_generated_def)
  next
    case 4
    then show ?thesis
      using dex_case_ok [OF e(1,2) dex_case_range] by (simp add: run_generated_def)
  qed
qed

lemma makeCase_supported:
  "makeCase contract i seed = Inr g \<Longrightarrow> contract \<in> set supported_contracts"
  by (auto simp: makeCase_def supported_contracts_def split: if_splits)

lemma makeCase_total:
  "contract \<in> set supported_contracts \<Longrightarrow> \<exists>g. makeCase contract i seed = Inr g"
  by (auto simp: makeCase_def supported_contracts_def)

lemma run_all_generated:
  assumes env: "environment_ok lc E H" and "\<forall>g \<in> set gs. \<exists>i. makeCase contract i seed = Inr g"
  shows "\<exists>rs. res_mapM (run_generated lc E H) gs = Inr rs \<and> length rs = length gs \<and> (\<forall>r \<in> set rs. cr_pass r)"
  using assms(2)
proof (induction gs)
  case (Cons g gs)
  obtain i where "makeCase contract i seed = Inr g" using Cons.prems by auto
  from run_generated_passes [OF env this] obtain r where
    r: "run_generated lc E H g = Inr r" "cr_pass r" by blast
  obtain rs where "res_mapM (run_generated lc E H) gs = Inr rs" "length rs = length gs" "\<forall>r \<in> set rs. cr_pass r"
    using Cons by auto
  with r show ?case by simp
qed simp

subsection \<open>Properties\<close>

text \<open>Every case the generator can write, for any supported contract, index and seed, gets
  the verdict pass from the runner.\<close>

theorem generated_cases_pass:
  assumes "environment_ok lc E H" and "makeCase contract i seed = Inr g"
  shows "\<exists>result. run_generated lc E H g = Inr result \<and> cr_pass result"
  using assms by (rule run_generated_passes)

theorem generated_cases_pass_witness:
  "\<exists>result. run_generated code_unit_compare reference_ethers reference_host
      (TokenCase (makeTokenCase 3 20260426)) = Inr result \<and> cr_pass result"
  by (rule generated_cases_pass [OF reference_environment, where contract = "''TokenTransfer''"])
    (simp add: makeCase_def)

text \<open>C1. End to end: for a supported contract name in any spelling, generating any number of
  cases and running them yields a report over all of them with no failure.\<close>

theorem generate_and_run:
  assumes env: "environment_ok lc E H" and "normalizeContract name \<in> set supported_contracts"
  shows "\<exists>cases output. res_mapM (\<lambda>i. makeCase (normalizeContract name) i seed) [0..<n] = Inr cases \<and>
    rq2_main (normalizeContract name) (run_generated lc E H) cases = Inr (Report output) \<and>
    ro_runs output = n \<and> ro_fail output = 0"
proof -
  let ?c = "normalizeContract name"
  let ?make = "\<lambda>i. makeCase ?c i seed"
  obtain cases where cases: "res_mapM ?make [0..<n] = Inr cases"
    using res_mapM_total_ex [of "[0..<n]" ?make] makeCase_total [OF assms(2)] by blast
  then have all2: "list_all2 (\<lambda>i g. ?make i = Inr g) [0..<n] cases" by (simp add: res_mapM_Inr_iff)
  then have "\<forall>k < length cases. makeCase ?c ([0..<n] ! k) seed = Inr (cases ! k)"
    by (simp add: list_all2_conv_all_nth)
  then have "\<forall>g \<in> set cases. \<exists>i. makeCase ?c i seed = Inr g"
    unfolding all_set_conv_all_nth by blast
  from run_all_generated [OF env this] obtain rs where
    rs: "res_mapM (run_generated lc E H) cases = Inr rs" "length rs = length cases" "\<forall>r \<in> set rs. cr_pass r"
    by blast
  have "filter cr_pass rs = rs" using rs(3) by simp
  moreover have "length cases = n" using all2 by (simp add: list_all2_lengthD [symmetric])
  ultimately show ?thesis
    using cases rs assms(2) by (simp add: rq2_main_def rq2_summary_def Let_def)
qed

theorem generate_and_run_witness:
  "\<exists>cases output. res_mapM (\<lambda>i. makeCase (normalizeContract ''dex-swap'') i 20260426) [0..<1000] = Inr cases \<and>
    rq2_main (normalizeContract ''dex-swap'') (run_generated code_unit_compare reference_ethers reference_host) cases =
      Inr (Report output) \<and> ro_runs output = 1000 \<and> ro_fail output = 0"
proof (rule generate_and_run [OF reference_environment])
  have "normalizeContract ''dex-swap'' = ''DEXSwap''" by code_simp
  then show "normalizeContract ''dex-swap'' \<in> set supported_contracts" by (simp add: supported_contracts_def)
qed

end
