(* ===== verification/Js_Values.thy ===== *)
theory Js_Values
  imports Prelude
begin

text \<open>
  Values that reach the scripts from outside: parsed JSON, environment variables, and the
  operators \<open>||\<close>, \<open>String(v)\<close> and \<open>typeof\<close> on them. A JSON number is the text
  \<open>String(n)\<close> prints for it: the scripts only print numbers or test their type.
\<close>

subsection \<open>Parsed JSON\<close>

datatype json =
    JsonNull
  | JsonBool bool
  | JsonNumber string
  | JsonString string
  | JsonArray "json list"
  | JsonObject "(string \<times> json) list"

text \<open>\<open>String(v)\<close>: an array is its elements joined, a nested null printing nothing.\<close>

fun js_string :: "json \<Rightarrow> string" where
  "js_string JsonNull = ''null''"
| "js_string (JsonBool b) = show_bool b"
| "js_string (JsonNumber t) = t"
| "js_string (JsonString s) = s"
| "js_string (JsonArray vs) = join '','' (map (\<lambda>v. if v = JsonNull then [] else js_string v) vs)"
| "js_string (JsonObject fields) = ''[object Object]''"

text \<open>A property of a parsed object; the last of equal keys wins, a missing one is undefined.\<close>

fun json_get :: "json \<Rightarrow> string \<Rightarrow> json option" where
  "json_get (JsonObject fields) k = map_of (rev fields) k"
| "json_get _ k = None"

text \<open>\<open>v ?? null\<close> of an optional property: undefined and null are told apart nowhere else.\<close>

definition nullish :: "json option \<Rightarrow> bool" where
  "nullish v \<longleftrightarrow> v = None \<or> v = Some JsonNull"

text \<open>Truthiness of a parsed value, undefined included.\<close>

fun json_truthy :: "json option \<Rightarrow> bool" where
  "json_truthy None = False"
| "json_truthy (Some JsonNull) = False"
| "json_truthy (Some (JsonBool b)) = b"
| "json_truthy (Some (JsonNumber t)) = (t \<noteq> ''0'')"
| "json_truthy (Some (JsonString t)) = (t \<noteq> [])"
| "json_truthy (Some (JsonArray vs)) = True"
| "json_truthy (Some (JsonObject fs)) = True"

fun is_string :: "json \<Rightarrow> bool" where
  "is_string (JsonString s) = True"
| "is_string _ = False"

subsection \<open>Environment variables and defaults\<close>

type_synonym process_env = "string \<rightharpoonup> string"

text \<open>\<open>a || b\<close> on strings, and a variable with undefined read as the empty string.\<close>

definition js_or :: "string \<Rightarrow> string \<Rightarrow> string" where
  "js_or a b = (if a = [] then b else a)"

definition env_text :: "process_env \<Rightarrow> string \<Rightarrow> string" where
  "env_text env name = (case env name of Some v \<Rightarrow> v | None \<Rightarrow> [])"

definition env_trim :: "process_env \<Rightarrow> string \<Rightarrow> string" where
  "env_trim env name = js_trim (env_text env name)"

lemma js_or_simps [simp]: "js_or [] b = b" "a \<noteq> [] \<Longrightarrow> js_or a b = a" "js_or a [] = a"
  by (simp_all add: js_or_def)

lemma js_or_assoc: "js_or (js_or a b) c = js_or a (js_or b c)"
  by (simp add: js_or_def)

lemma js_or_eq_Nil [simp]: "js_or a b = [] \<longleftrightarrow> a = [] \<and> b = []"
  by (simp add: js_or_def)

lemma js_trim_Nil [simp]: "js_trim [] = []"
  by (simp add: js_trim_def)

end
