(* ===== verification/Vm_Runner.thy ===== *)
theory Vm_Runner
  imports Diff_Runner Case_Generator Js_Values
begin

text \<open>
  \<open>scripts/rq2/run-rq2a-vm-full.ts\<close>: the cases on live machines. The originals run on
  Fabric (through the relayer executable) and on a Substrate node (through the polkadot
  client); both are an environment with a state of its own. The translated contracts are the
  models of \<open>Translated_Travel\<close> and \<open>Translated_Ledgers\<close>; they are deployed
  once and keep their storage from case to case, so the script renames the users and ids of
  every case. Each contract is given its own chain: the block number is read by the hotel
  contract only, and in no value the script looks at.
\<close>

subsection \<open>Arguments and case files\<close>

definition vm_arg :: "process_env \<Rightarrow> string list \<Rightarrow> string \<Rightarrow> string \<Rightarrow> string" where
  "vm_arg env argv name fallback =
     js_or (env_trim env (''RQ2_'' @ to_upper (replace_dashes name)))
       (case cli_arg argv name of Some v \<Rightarrow> v | None \<Rightarrow> fallback)"

definition vm_normalizeContract :: "string \<Rightarrow> string res" where
  "vm_normalizeContract v =
     (if normalizeContract v \<in> set supported_contracts then Inr (normalizeContract v) else Inl (''unsupported contract '' @ v))"

text \<open>\<open>filter(Boolean)\<close> drops empty lines only; a limit of 0 means all.\<close>

definition readCases :: "(string \<Rightarrow> 'c res) \<Rightarrow> string \<Rightarrow> nat \<Rightarrow> 'c list res" where
  "readCases parse content limit =
     res_bind (res_mapM parse (filter (\<lambda>line. line \<noteq> []) (split_lines [] content))) (\<lambda>all.
       Inr (if limit > 0 then take limit all else all))"

subsection \<open>The live machines\<close>

datatype wasm_arg = ArgText string | ArgNumber nat

text \<open>
  A polkadot contract client: the messages of its metadata, the dry run of a message (an
  exception, an error of the contract, or the output), and the signed submission.
\<close>

record 'w wasm_client =
  wc_queries :: "string list"
  wc_txs :: "string list"
  wc_query :: "string \<Rightarrow> wasm_arg list \<Rightarrow> 'w \<Rightarrow> (string + json option) res"
  wc_submit :: "string \<Rightarrow> wasm_arg list \<Rightarrow> 'w \<Rightarrow> unit res \<times> 'w"

record 'w live_env =
  le_relayer :: "string list \<Rightarrow> 'w \<Rightarrow> string res \<times> 'w"
  le_parse :: "string \<Rightarrow> json res"
  le_stringify :: "json \<Rightarrow> string"
  le_account :: "string \<Rightarrow> string"
  le_train :: "'w wasm_client"
  le_dex :: "'w wasm_client"

definition relayerConfig :: string where
  "relayerConfig = ''configs/relayer/config-xsmart.yaml''"

definition fabric_command :: "string \<Rightarrow> string \<Rightarrow> string list \<Rightarrow> bool \<Rightarrow> string list" where
  "fabric_command endpoint verb args submit =
     [if submit then ''fabric-submit'' else ''fabric-evaluate'', ''--config'', relayerConfig,
      ''--chain'', ''bc3'', ''--endpoint'', endpoint, ''--method'', verb]
     @ concat (map (\<lambda>v. [''--args'', v]) args)"

definition null_error :: string where
  "null_error = ''Cannot read properties of null (reading 'ok')''"

text \<open>The relayer's output: \<open>ok\<close> is the boolean true or the call failed.\<close>

definition fabric_result :: "'w live_env \<Rightarrow> string res \<Rightarrow> operation_result" where
  "fabric_result L raw =
     (case res_bind raw (\<lambda>text. le_parse L (js_trim text)) of
        Inl e \<Rightarrow> failure (revertReason e)
      | Inr parsed \<Rightarrow>
          if parsed = JsonNull then failure null_error
          else \<lparr>op_ok = json_get parsed ''ok'' = Some (JsonBool True),
                returnValues = (case json_get parsed ''result'' of None \<Rightarrow> [] | Some v \<Rightarrow> [js_string v]),
                op_error = None\<rparr>)"

definition fabric ::
    "'w live_env \<Rightarrow> string \<Rightarrow> string \<Rightarrow> string list \<Rightarrow> bool \<Rightarrow> 'w \<Rightarrow> operation_result \<times> 'w" where
  "fabric L endpoint verb args submit w =
     (let (raw, w') = le_relayer L (fabric_command endpoint verb args submit) w in
      (fabric_result L raw, w'))"

text \<open>The output of a WASM message: \<open>err\<close>, \<open>ok\<close> or the plain value.\<close>

definition decodeOutput :: "'w live_env \<Rightarrow> json option \<Rightarrow> operation_result" where
  "decodeOutput L output =
     (case map_option (\<lambda>j. json_get j ''err'') output of
        Some (Some e) \<Rightarrow> failure (le_stringify L e)
      | _ \<Rightarrow>
        (let v = (case output of None \<Rightarrow> None
                  | Some j \<Rightarrow> (case json_get j ''ok'' of Some k \<Rightarrow> Some k | None \<Rightarrow> Some j)) in
         succeed (case v of None \<Rightarrow> [] | Some JsonNull \<Rightarrow> [] | Some (JsonArray xs) \<Rightarrow> map js_string xs
                  | Some x \<Rightarrow> [js_string x])))"

definition wasm_query ::
    "'w live_env \<Rightarrow> 'w wasm_client \<Rightarrow> string \<Rightarrow> wasm_arg list \<Rightarrow> 'w \<Rightarrow> operation_result" where
  "wasm_query L C message args w =
     (if message \<notin> set (wc_queries C) then failure (''missing WASM query '' @ message)
      else case wc_query C message args w of
        Inl e \<Rightarrow> failure e
      | Inr (Inl err) \<Rightarrow> failure err
      | Inr (Inr output) \<Rightarrow> decodeOutput L output)"

definition wasm_tx ::
    "'w live_env \<Rightarrow> 'w wasm_client \<Rightarrow> string \<Rightarrow> wasm_arg list \<Rightarrow> bool \<Rightarrow> 'w \<Rightarrow> operation_result \<times> 'w" where
  "wasm_tx L C message args dryRun w =
     (let predicted = (if dryRun then wasm_query L C message args w else succeed []) in
      if \<not> op_ok predicted then (predicted, w)
      else if message \<notin> set (wc_txs C) then (failure (''missing WASM tx '' @ message), w)
      else case wc_submit C message args w of
        (Inl e, w') \<Rightarrow> (failure e, w')
      | (Inr _, w') \<Rightarrow> (predicted, w'))"

subsection \<open>Comparing results\<close>

text \<open>A returned text that parses as a JSON boolean or number is replaced by its value.\<close>

definition normalize_value :: "(string \<Rightarrow> json res) \<Rightarrow> string \<Rightarrow> string" where
  "normalize_value parse v =
     (if v = ''true'' \<or> v = ''false'' then v
      else case parse v of
        Inr (JsonBool b) \<Rightarrow> show_bool b
      | Inr (JsonNumber t) \<Rightarrow> t
      | _ \<Rightarrow> v)"

definition normalizeReturn :: "(string \<Rightarrow> json res) \<Rightarrow> operation_result \<Rightarrow> operation_result" where
  "normalizeReturn parse r = r\<lparr>returnValues := map (normalize_value parse) (returnValues r)\<rparr>"

definition compareOp ::
    "(string \<Rightarrow> json res) \<Rightarrow> operation_result \<Rightarrow> operation_result \<Rightarrow> bool \<Rightarrow> string option" where
  "compareOp parse a b compareReturns =
     (let left = normalizeReturn parse a; right = normalizeReturn parse b in
      if op_ok left \<noteq> op_ok right then
        Some (''status mismatch original='' @ show_bool (op_ok left)
          @ '' translated='' @ show_bool (op_ok right)
          @ '' originalError='' @ error_or_empty left
          @ '' translatedError='' @ error_or_empty right)
      else if \<not> op_ok left \<or> \<not> compareReturns then None
      else if length (returnValues left) \<noteq> length (returnValues right) then
        Some (''return length mismatch original='' @ join '','' (returnValues left)
          @ '' translated='' @ join '','' (returnValues right))
      else (case first_difference 0 (returnValues left) (returnValues right) of
          None \<Rightarrow> None
        | Some (i, x, y) \<Rightarrow> Some (''return mismatch at '' @ show_nat i
            @ '': original='' @ x @ '' translated='' @ y)))"

fun isMutatingTravelOperation :: "hotel_operation \<Rightarrow> bool" where
  "isMutatingTravelOperation (BookLocal u a) = True"
| "isMutatingTravelOperation (LockState l a t) = True"
| "isMutatingTravelOperation (UnlockState l) = True"
| "isMutatingTravelOperation _ = False"

fun isMutatingAuctionOperation :: "auction_operation \<Rightarrow> bool" where
  "isMutatingAuctionOperation (CreateAuction i s p) = True"
| "isMutatingAuctionOperation (Bid i b a) = True"
| "isMutatingAuctionOperation (Close i) = True"
| "isMutatingAuctionOperation (Withdraw u) = True"
| "isMutatingAuctionOperation _ = False"

fun isMutatingDexOperation :: "dex_operation \<Rightarrow> bool" where
  "isMutatingDexOperation (AddLiquidity u a b) = True"
| "isMutatingDexOperation (RemoveLiquidity u s) = True"
| "isMutatingDexOperation (SwapAForB u a) = True"
| "isMutatingDexOperation _ = False"

subsection \<open>Names of a case\<close>

definition travelUsers :: "hotel_operation list \<Rightarrow> string list" where
  "travelUsers ops = set_values (hotelTouchedUsers ops)"

definition travelLocks :: "hotel_operation list \<Rightarrow> string list" where
  "travelLocks ops = set_values (hotelTouchedLocks ops)"

definition auctionIds :: "auction_operation list \<Rightarrow> string list" where
  "auctionIds ops = set_values (auctionTouchedIds ops)"

definition auctionUsers :: "auction_operation list \<Rightarrow> string list" where
  "auctionUsers ops = set_values (auctionTouchedUsers ops)"

definition dexUsers :: "dex_operation list \<Rightarrow> string list" where
  "dexUsers ops = set_values (dexTouchedUsers ops)"

definition ns :: "string \<Rightarrow> string \<Rightarrow> string" where
  "ns prefix value = prefix @ ''-'' @ value"

definition lockNumber :: "nat \<Rightarrow> string \<Rightarrow> nat" where
  "lockNumber caseIndex lockId =
     caseIndex * 10 + (if ends_with lockId ''a'' then 1 else if ends_with lockId ''b'' then 2 else 3)"

text \<open>FNV-1a on 32 bits.\<close>

definition fnv_step :: "char \<Rightarrow> 32 word \<Rightarrow> 32 word" where
  "fnv_step c hash = (hash XOR word_of_nat (char_nat c)) * 16777619"

definition namespaceNumber :: "string \<Rightarrow> nat" where
  "namespaceNumber namespace = unat (fold fnv_step namespace 2166136261) mod 100000000"

definition namespacedCaseId :: "string \<Rightarrow> string \<Rightarrow> string" where
  "namespacedCaseId runNamespace caseId = runNamespace @ ''-'' @ caseId"

text \<open>The lock id of the train contracts, and the auction id on the translated side.\<close>

definition lockMap :: "string \<Rightarrow> nat \<Rightarrow> string \<Rightarrow> nat" where
  "lockMap runNamespace caseIndex lockId =
     namespaceNumber runNamespace * 1000000 + lockNumber caseIndex lockId"

definition auction_number :: "string \<Rightarrow> string list \<Rightarrow> string \<Rightarrow> nat option" where
  "auction_number prefix rawIds i =
     map_of (map (\<lambda>(k, j). (k, namespaceNumber (ns prefix k) * 1000 + Suc j)) (zip rawIds [0..<length rawIds])) i"

text \<open>The operations of a case under other names; an empty name is falsy and stays.\<close>

definition unless_empty :: "(string \<Rightarrow> string) \<Rightarrow> string \<Rightarrow> string" where
  "unless_empty f s = (if s = [] then [] else f s)"

fun rename_travel :: "(string \<Rightarrow> string) \<Rightarrow> (string \<Rightarrow> string) \<Rightarrow> hotel_operation \<Rightarrow> hotel_operation" where
  "rename_travel u l (BookLocal user a) = BookLocal (u user) a"
| "rename_travel u l (LockState lockId a t) = LockState (l lockId) a t"
| "rename_travel u l (UnlockState lockId) = UnlockState (l lockId)"
| "rename_travel u l (GetAccountBalance user) = GetAccountBalance (u user)"
| "rename_travel u l (GetBooking user) = GetBooking (u user)"
| "rename_travel u l (IsStateLocked lockId) = IsStateLocked (l lockId)"
| "rename_travel u l operation = operation"

fun rename_token :: "(string \<Rightarrow> string) \<Rightarrow> token_operation \<Rightarrow> token_operation" where
  "rename_token u (Mint dst a) = Mint (u dst) a"
| "rename_token u (Transfer src dst a) = Transfer (u src) (u dst) a"
| "rename_token u (Approve owner spender a) = Approve (u owner) (u spender) a"
| "rename_token u (TransferFrom spender src dst a) = TransferFrom (u spender) (u src) (u dst) a"
| "rename_token u (BalanceOf user) = BalanceOf (u user)"
| "rename_token u (Allowance owner spender) = Allowance (u owner) (u spender)"
| "rename_token u TotalSupply = TotalSupply"

fun rename_auction :: "(string \<Rightarrow> string) \<Rightarrow> (string \<Rightarrow> string) \<Rightarrow> auction_operation \<Rightarrow> auction_operation" where
  "rename_auction i u (CreateAuction k seller p) = CreateAuction (i k) (u seller) p"
| "rename_auction i u (Bid k bidder a) = Bid (i k) (u bidder) a"
| "rename_auction i u (Close k) = Close (i k)"
| "rename_auction i u (Withdraw user) = Withdraw (u user)"
| "rename_auction i u (GetAuction k) = GetAuction (i k)"
| "rename_auction i u (PendingReturn user) = PendingReturn (u user)"

fun rename_dex :: "(string \<Rightarrow> string) \<Rightarrow> dex_operation \<Rightarrow> dex_operation" where
  "rename_dex u (AddLiquidity user a b) = AddLiquidity (u user) a b"
| "rename_dex u (RemoveLiquidity user s) = RemoveLiquidity (u user) s"
| "rename_dex u (SwapAForB user a) = SwapAForB (u user) a"
| "rename_dex u (GetShares user) = GetShares (u user)"
| "rename_dex u operation = operation"


subsection \<open>A case on two machines\<close>

text \<open>
  The loop over the operations. Both machines keep what was done up to a mismatch, so the
  states are returned with it.
\<close>

fun live_ops ::
    "(string \<Rightarrow> json res) \<Rightarrow> ('a \<Rightarrow> 'w \<Rightarrow> operation_result \<times> 'w) \<Rightarrow>
     ('c \<Rightarrow> 'b \<Rightarrow> operation_result \<times> 'c) \<Rightarrow> ('a \<Rightarrow> bool) \<Rightarrow> nat \<Rightarrow> ('a \<times> 'b) list \<Rightarrow> 'w \<Rightarrow> 'c \<Rightarrow>
     (nat \<times> string) option \<times> 'w \<times> 'c" where
  "live_ops parse original translated compared i [] w c = (None, w, c)"
| "live_ops parse original translated compared i ((x, y) # ops) w c =
     (let (a, w') = original x w; (b, c') = translated c y in
      case compareOp parse a b (compared x) of
        Some mismatch \<Rightarrow> (Some (i, mismatch), w', c')
      | None \<Rightarrow> live_ops parse original translated compared (Suc i) ops w' c')"

definition operation_mismatch :: "('i, 'op) rq2_case \<Rightarrow> nat \<Rightarrow> string \<Rightarrow> case_result" where
  "operation_mismatch testCase i mismatch =
     \<lparr>cr_caseId = rc_caseId testCase, cr_seed = rc_seed testCase, cr_pass = False,
      failCategory = Some ''operation_mismatch'', failReason = Some mismatch, operationIndex = Some i,
      originalSnapshotHash = None, translatedSnapshotHash = None\<rparr>"

text \<open>\<open>returnValues[0] ?? default\<close>.\<close>

definition first_value :: "operation_result \<Rightarrow> string \<Rightarrow> string" where
  "first_value r fallback = (case returnValues r of v # vs \<Rightarrow> v | [] \<Rightarrow> fallback)"

text \<open>Entries read from the original machine: a key, how the value is typed, the call, the default.\<close>

type_synonym 'w entry_read =
  "string \<times> (snapshot_scalar \<Rightarrow> snapshot_value) \<times> ('w \<Rightarrow> operation_result \<times> 'w) \<times> string"

fun original_entries :: "'w entry_read list \<Rightarrow> 'w \<Rightarrow> snapshot_entry list \<times> 'w" where
  "original_entries [] w = ([], w)"
| "original_entries ((key, typed, call, fallback) # reads) w =
     (let (r, w1) = call w; (es, w2) = original_entries reads w1 in
      (\<lparr>entry_key = key, entry_value = typed (ScalarString (first_value r fallback))\<rparr> # es, w2))"

definition live_verdict ::
    "(string \<Rightarrow> string \<Rightarrow> int) \<Rightarrow> ethers \<Rightarrow> string \<Rightarrow> ('i, 'op) rq2_case \<Rightarrow>
     snapshot_entry list \<Rightarrow> snapshot_entry list \<Rightarrow> case_result res" where
  "live_verdict lc E contract testCase ea eb =
     res_bind (canonicalSnapshot lc E contract ea) (\<lambda>sa.
     res_bind (canonicalSnapshot lc E contract eb) (\<lambda>sb. Inr (snapshot_verdict testCase sa sb)))"

subsection \<open>HotelBooking: Fabric against the translated contract\<close>

fun travel_kind :: "hotel_operation \<Rightarrow> string" where
  "travel_kind (BookLocal u a) = ''BookLocal''"
| "travel_kind (LockState l a t) = ''LockState''"
| "travel_kind (UnlockState l) = ''UnlockState''"
| "travel_kind GetPrice = ''GetPrice''"
| "travel_kind GetRemain = ''GetRemain''"
| "travel_kind GetAvailableRemain = ''GetAvailableRemain''"
| "travel_kind (GetAccountBalance u) = ''GetAccountBalance''"
| "travel_kind (GetBooking u) = ''GetBooking''"
| "travel_kind (IsStateLocked l) = ''IsStateLocked''"

fun travel_args :: "hotel_operation \<Rightarrow> string list" where
  "travel_args (BookLocal u a) = [u, a]"
| "travel_args (LockState l a t) = [l, a, t]"
| "travel_args operation = hotel_op_user operation @ hotel_op_lock operation"

definition fabric_travel :: "'w live_env \<Rightarrow> hotel_operation \<Rightarrow> 'w \<Rightarrow> operation_result \<times> 'w" where
  "fabric_travel L operation =
     fabric L ''HotelBooking'' (travel_kind operation) (travel_args operation)
       (isMutatingTravelOperation operation)"

text \<open>Two transactions; an error of the second leaves the first mined.\<close>

definition initHotelTranslated ::
    "evm_host \<Rightarrow> hotel_initial \<Rightarrow> hotel_storage chain \<Rightarrow> unit evm \<times> hotel_storage chain" where
  "initHotelTranslated H initial c =
     (let meta = with_uint H (init_price initial) (\<lambda>price. with_uint H (init_remain initial) (\<lambda>remain.
            with_uint H (init_lockSize initial) (\<lambda>lockSize.
              Inr (abi_encode_meta H (init_bridge initial) price remain lockSize)))) in
      case res_bind meta (\<lambda>value. send (silent (vassp_apply H (meta_slot H) value)) c) of
        Inl e \<Rightarrow> (Inl e, c)
      | Inr c1 \<Rightarrow>
          (case send (silent (vassp_apply H (lock_total_slot H) (abi_encode_uint H 0))) c1 of
             Inl e \<Rightarrow> (Inl e, c1)
           | Inr c2 \<Rightarrow> (Inr (), c2)))"

definition travel_reads ::
    "(string \<Rightarrow> string list \<Rightarrow> 'w \<Rightarrow> operation_result \<times> 'w) \<Rightarrow> string list \<Rightarrow> string list \<Rightarrow> 'w entry_read list" where
  "travel_reads evaluate users locks =
     [(''meta.bridge'', SString, evaluate ''GetBridge'' [], []),
      (''meta.price'', SUint256, evaluate ''GetPrice'' [], ''0''),
      (''meta.remain'', SUint256, evaluate ''GetRemain'' [], ''0''),
      (''meta.lockSize'', SUint256, evaluate ''GetLockSize'' [], ''0''),
      (''availableRemain'', SUint256, evaluate ''GetAvailableRemain'' [], ''0''),
      (''lockedTotal'', SUint256, evaluate ''GetLockedTotal'' [], ''0'')]
     @ concat (map (\<lambda>u. [(''accounts.'' @ u, SUint256, evaluate ''GetAccountBalance'' [u], ''0''),
                        (''bookings.'' @ u, SUint256, evaluate ''GetBooking'' [u], ''0'')]) users)
     @ concat (map (\<lambda>l. [(''locks.'' @ l @ ''.active'', SBool, evaluate ''IsStateLocked'' [l], ''false''),
                        (''locks.'' @ l @ ''.lockedAmount'', SUint256, evaluate ''GetLockAmount'' [l], ''0'')]) locks)"

definition runHotel ::
    "(string \<Rightarrow> string \<Rightarrow> int) \<Rightarrow> ethers \<Rightarrow> evm_host \<Rightarrow> 'w live_env \<Rightarrow> string \<Rightarrow>
     (hotel_initial, hotel_operation) rq2_case \<Rightarrow> 'w \<Rightarrow> hotel_storage chain \<Rightarrow>
     case_result res \<times> 'w \<times> hotel_storage chain" where
  "runHotel lc E H L runNamespace testCase w c =
     (let prefix = namespacedCaseId runNamespace (rc_caseId testCase);
          initial = rc_initial testCase;
          ops = map (rename_travel (ns prefix) (ns prefix)) (rc_operations testCase);
          (_, w1) = fabric L ''HotelBooking'' ''InitLedger''
            [init_bridge initial, init_price initial, init_remain initial, init_lockSize initial] True w in
      case initHotelTranslated H initial c of
        (Inl e, c1) \<Rightarrow> (Inl (error_text H e), w1, c1)
      | (Inr _, c1) \<Rightarrow>
          (case live_ops (le_parse L) (fabric_travel L) (executeTranslated H hotel_contract)
                 (\<lambda>x. \<not> isMutatingTravelOperation x) 0 (map (\<lambda>x. (x, x)) ops) w1 c1 of
             (Some (i, mismatch), w2, c2) \<Rightarrow> (Inr (operation_mismatch testCase i mismatch), w2, c2)
           | (None, w2, c2) \<Rightarrow>
               let users = sorted_members (hotelTouchedUsers ops);
                   locks = sorted_members (hotelTouchedLocks ops);
                   (ea, w3) = original_entries
                     (travel_reads (\<lambda>verb args. fabric L ''HotelBooking'' verb args False) users locks) w2 in
               (res_bind (uncaught H (translated_travel_entries hotel_contract (contract_state c2) initial
                    (hotelTouchedUsers ops) (hotelTouchedLocks ops)))
                  (live_verdict lc E ''HotelBooking'' testCase ea), w3, c2)))"

subsection \<open>TokenTransfer: two contracts on the same machine\<close>

text \<open>
  \<open>TokenTransferOriginal\<close> of \<open>RQ2OriginalTargets.sol\<close> has, function by function, the
  text of \<open>TokenTransferTranslated\<close>; the two differ in their addresses only.
\<close>

type_synonym token_chains = "token_storage chain \<times> token_storage chain"

definition send_token :: "evm_host \<Rightarrow> (token_storage \<Rightarrow> token_storage evm) \<Rightarrow> token_storage chain \<Rightarrow> token_storage chain res" where
  "send_token H f c = uncaught H (send (silent f) c)"

definition send_token_both ::
    "evm_host \<Rightarrow> (token_storage \<Rightarrow> token_storage evm) \<Rightarrow> token_chains \<Rightarrow> unit res \<times> token_chains" where
  "send_token_both H f ot =
     (case send_token H f (fst ot) of
        Inl e \<Rightarrow> (Inl e, ot)
      | Inr o' \<Rightarrow>
          (case send_token H f (snd ot) of
             Inl e \<Rightarrow> (Inl e, o', snd ot)
           | Inr t' \<Rightarrow> (Inr (), o', t')))"

fun mint_both :: "evm_host \<Rightarrow> string \<Rightarrow> (string \<times> string) list \<Rightarrow> token_chains \<Rightarrow> unit res \<times> token_chains" where
  "mint_both H prefix [] ot = (Inr (), ot)"
| "mint_both H prefix ((user, amount) # rest) ot =
     (case BigInt amount of
        Inl e \<Rightarrow> (Inl e, ot)
      | Inr n \<Rightarrow>
          if n > 0 then
            (case abi_uint256 H amount of
               None \<Rightarrow> (Inl (error_text H (InvalidArgument amount)), ot)
             | Some a \<Rightarrow>
                 (case send_token_both H (token_Mint (ns prefix user) a) ot of
                    (Inl e, ot') \<Rightarrow> (Inl e, ot')
                  | (Inr _, ot') \<Rightarrow> mint_both H prefix rest ot'))
          else mint_both H prefix rest ot)"

definition namespaced_initial :: "string \<Rightarrow> token_initial \<Rightarrow> token_initial" where
  "namespaced_initial prefix initial =
     initial\<lparr>init_balances := map (\<lambda>(u, a). (ns prefix u, a)) (init_balances initial)\<rparr>"

definition runToken ::
    "(string \<Rightarrow> string \<Rightarrow> int) \<Rightarrow> ethers \<Rightarrow> evm_host \<Rightarrow> (string \<Rightarrow> json res) \<Rightarrow> string \<Rightarrow>
     (token_initial, token_operation) rq2_case \<Rightarrow> token_chains \<Rightarrow> case_result res \<times> token_chains" where
  "runToken lc E H parse runNamespace testCase ot =
     (let prefix = namespacedCaseId runNamespace (rc_caseId testCase);
          initial = rc_initial testCase;
          ops = map (rename_token (unless_empty (ns prefix))) (rc_operations testCase) in
      case send_token_both H (\<lambda>s. Inr (token_Rq2Reset s)) ot of
        (Inl e, ot1) \<Rightarrow> (Inl e, ot1)
      | (Inr _, ot1) \<Rightarrow>
        (case mint_both H prefix (init_balances initial) ot1 of
           (Inl e, ot2) \<Rightarrow> (Inl e, ot2)
         | (Inr _, ot2) \<Rightarrow>
           (case live_ops parse (\<lambda>x c. executeTranslatedToken H c x) (executeTranslatedToken H) (\<lambda>_. True) 0
                   (map (\<lambda>x. (x, x)) ops) (fst ot2) (snd ot2) of
              (Some (i, mismatch), ot3) \<Rightarrow> (Inr (operation_mismatch testCase i mismatch), ot3)
            | (None, ot3) \<Rightarrow>
                let users = tokenTouchedUsers ops (namespaced_initial prefix initial);
                    pairs = tokenTouchedAllowancePairs ops in
                (res_bind (translatedTokenSnapshot lc E H (fst ot3) users pairs) (\<lambda>sa.
                 res_bind (translatedTokenSnapshot lc E H (snd ot3) users pairs) (\<lambda>sb.
                   Inr (snapshot_verdict testCase sa sb))), ot3))))"

subsection \<open>AuctionLogic: Fabric against the translated contract\<close>

fun auction_kind :: "auction_operation \<Rightarrow> string" where
  "auction_kind (CreateAuction i s p) = ''CreateAuction''"
| "auction_kind (Bid i b a) = ''Bid''"
| "auction_kind (Close i) = ''Close''"
| "auction_kind (Withdraw u) = ''Withdraw''"
| "auction_kind (GetAuction i) = ''GetAuction''"
| "auction_kind (PendingReturn u) = ''PendingReturn''"

fun auction_args :: "auction_operation \<Rightarrow> string list" where
  "auction_args (CreateAuction i s p) = [i, s, p]"
| "auction_args (Bid i b a) = [i, b, a]"
| "auction_args (Close i) = [i]"
| "auction_args (Withdraw u) = [u]"
| "auction_args (GetAuction i) = [i]"
| "auction_args (PendingReturn u) = [u]"

definition fabric_auction :: "'w live_env \<Rightarrow> auction_operation \<Rightarrow> 'w \<Rightarrow> operation_result \<times> 'w" where
  "fabric_auction L operation =
     fabric L ''AuctionLogic'' (auction_kind operation) (auction_args operation)
       (isMutatingAuctionOperation operation)"

definition auction_compared :: "auction_operation \<Rightarrow> bool" where
  "auction_compared operation \<longleftrightarrow>
     \<not> isMutatingAuctionOperation operation \<and> auction_kind operation \<noteq> ''GetAuction''"

text \<open>
  The fields of the auction Fabric returns as JSON. An integral JSON number is read as its
  printed text: \<open>BigInt\<close> and \<open>String\<close> agree on the two.
\<close>

fun json_scalar :: "json \<Rightarrow> snapshot_scalar" where
  "json_scalar (JsonBool b) = ScalarBoolean b"
| "json_scalar v = ScalarString (js_string v)"

definition json_field :: "json \<Rightarrow> string \<Rightarrow> snapshot_scalar \<Rightarrow> snapshot_scalar" where
  "json_field a key fallback =
     (if nullish (json_get a key) then fallback else json_scalar (the (json_get a key)))"

definition json_auction_entries :: "string \<Rightarrow> json \<Rightarrow> snapshot_entry list" where
  "json_auction_entries logicalId a =
     (let p = ''auction.'' @ logicalId;
          flag = (\<lambda>key. json_get a key = Some (JsonBool True)) in
      [\<lparr>entry_key = p @ ''.seller'', entry_value = SString (json_field a ''seller'' (ScalarString []))\<rparr>,
       \<lparr>entry_key = p @ ''.minPrice'', entry_value = SUint256 (json_field a ''minPrice'' (ScalarNumber 0))\<rparr>,
       \<lparr>entry_key = p @ ''.highestBidder'', entry_value = SString (json_field a ''highestBidder'' (ScalarString []))\<rparr>,
       \<lparr>entry_key = p @ ''.highestBid'', entry_value = SUint256 (json_field a ''highestBid'' (ScalarNumber 0))\<rparr>,
       bool_entry (p @ ''.open'') (flag ''open''),
       bool_entry (p @ ''.exists'') (flag ''exists'')])"

fun auction_entries_both ::
    "'w live_env \<Rightarrow> evm_host \<Rightarrow> auction_storage \<Rightarrow> string \<Rightarrow> (string \<Rightarrow> string) \<Rightarrow> string list \<Rightarrow> 'w \<Rightarrow>
     (snapshot_entry list \<times> snapshot_entry list) res \<times> 'w" where
  "auction_entries_both L H s prefix number [] w = (Inr ([], []), w)"
| "auction_entries_both L H s prefix number (rawId # ids) w =
     (let logicalId = ns prefix rawId;
          (r, w1) = fabric L ''AuctionLogic'' ''GetAuction'' [logicalId] False w in
      case le_parse L (first_value r ''{}'') of
        Inl e \<Rightarrow> (Inl e, w1)
      | Inr a \<Rightarrow>
        (case uncaught H (with_uint H (number rawId) (\<lambda>k. Inr (translated_auction_entries s logicalId k))) of
           Inl e \<Rightarrow> (Inl e, w1)
         | Inr eb \<Rightarrow>
           if a = JsonNull then (Inl null_error, w1)
           else
             (let (rest, w2) = auction_entries_both L H s prefix number ids w1 in
              (res_bind rest (\<lambda>(as, bs). Inr (json_auction_entries logicalId a @ as, eb @ bs)), w2))))"

definition auction_numbers :: "string \<Rightarrow> auction_operation list \<Rightarrow> string \<Rightarrow> string" where
  "auction_numbers prefix rawOps i =
     show_nat (the (auction_number prefix (sorted_members (auctionTouchedIds rawOps)) i))"

definition runAuction ::
    "(string \<Rightarrow> string \<Rightarrow> int) \<Rightarrow> ethers \<Rightarrow> evm_host \<Rightarrow> 'w live_env \<Rightarrow> string \<Rightarrow>
     (unit, auction_operation) rq2_case \<Rightarrow> 'w \<Rightarrow> auction_storage chain \<Rightarrow>
     case_result res \<times> 'w \<times> auction_storage chain" where
  "runAuction lc E H L runNamespace testCase w c =
     (let prefix = namespacedCaseId runNamespace (rc_caseId testCase);
          rawOps = rc_operations testCase;
          rawIds = sorted_members (auctionTouchedIds rawOps);
          number = auction_numbers prefix rawOps;
          renamed = unless_empty (ns prefix);
          opsOriginal = map (rename_auction renamed renamed) rawOps;
          opsTranslated = map (rename_auction (unless_empty number) renamed) rawOps in
      case live_ops (le_parse L) (fabric_auction L) (executeTranslatedAuction H) auction_compared 0
             (zip opsOriginal opsTranslated) w c of
        (Some (i, mismatch), w1, c1) \<Rightarrow> (Inr (operation_mismatch testCase i mismatch), w1, c1)
      | (None, w1, c1) \<Rightarrow>
        (case auction_entries_both L H (contract_state c1) prefix number rawIds w1 of
           (Inl e, w2) \<Rightarrow> (Inl e, w2, c1)
         | (Inr (ea, eb), w2) \<Rightarrow>
           let users = sorted_members (auctionTouchedUsers opsOriginal);
               (pa, w3) = original_entries (map (\<lambda>u. (''pending.'' @ u, SUint256,
                 fabric L ''AuctionLogic'' ''PendingReturn'' [u] False, ''0'')) users) w2;
               pb = map (\<lambda>u. word_entry (''pending.'' @ u) (at_pendingReturns (contract_state c1) u)) users in
           (live_verdict lc E ''AuctionLogic'' testCase (ea @ pa) (eb @ pb), w3, c1)))"

subsection \<open>TrainBooking and DEXSwap: ink contracts against the translated ones\<close>

definition lower_first :: "string \<Rightarrow> string" where
  "lower_first s = to_lower (take 1 s) @ drop 1 s"

text \<open>An ink call of the train: users are accounts, lock ids numbers.\<close>

definition wasm_travel ::
    "'w live_env \<Rightarrow> (string \<Rightarrow> string) \<Rightarrow> (string \<Rightarrow> nat) \<Rightarrow> hotel_operation \<Rightarrow> 'w \<Rightarrow> operation_result \<times> 'w" where
  "wasm_travel L userMap lockNr operation w =
     (case operation of
        BookLocal u a \<Rightarrow> wasm_tx L (le_train L) ''bookLocal'' [ArgText (userMap u), ArgText a] True w
      | LockState l a t \<Rightarrow>
          wasm_tx L (le_train L) ''lockState'' [ArgNumber (lockNr l), ArgText a, ArgText t] True w
      | UnlockState l \<Rightarrow> wasm_tx L (le_train L) ''unlockState'' [ArgNumber (lockNr l)] True w
      | _ \<Rightarrow> (wasm_query L (le_train L) (lower_first (travel_kind operation))
               (map (\<lambda>u. ArgText (userMap u)) (hotel_op_user operation)
                @ map (\<lambda>l. ArgNumber (lockNr l)) (hotel_op_lock operation)) w, w))"

definition query_entry ::
    "'w live_env \<Rightarrow> 'w wasm_client \<Rightarrow> 'w \<Rightarrow> string \<Rightarrow> (snapshot_scalar \<Rightarrow> snapshot_value) \<Rightarrow> string \<Rightarrow>
     wasm_arg list \<Rightarrow> string \<Rightarrow> snapshot_entry" where
  "query_entry L C w key typed message args fallback =
     \<lparr>entry_key = key, entry_value = typed (ScalarString (first_value (wasm_query L C message args w) fallback))\<rparr>"

text \<open>Bridge and lock size of both sides are taken from the case.\<close>

definition train_entries ::
    "'w live_env \<Rightarrow> 'w \<Rightarrow> hotel_initial \<Rightarrow> string list \<Rightarrow> (string \<times> nat) list \<Rightarrow> snapshot_entry list" where
  "train_entries L w initial users locks =
     (let q = query_entry L (le_train L) w in
      [string_entry ''meta.bridge'' (init_bridge initial),
       q ''meta.price'' SUint256 ''getPrice'' [] ''0'',
       q ''meta.remain'' SUint256 ''getRemain'' [] ''0'',
       text_entry ''meta.lockSize'' (init_lockSize initial),
       q ''availableRemain'' SUint256 ''getAvailableRemain'' [] ''0'',
       q ''lockedTotal'' SUint256 ''getLockedTotal'' [] ''0'']
      @ concat (map (\<lambda>u. [q (''accounts.'' @ u) SUint256 ''getAccountBalance'' [ArgText u] ''0'',
                         q (''bookings.'' @ u) SUint256 ''getBooking'' [ArgText u] ''0'']) users)
      @ concat (map (\<lambda>(l, n). [q (''locks.'' @ l @ ''.active'') SBool ''isStateLocked'' [ArgNumber n] ''false'',
                         q (''locks.'' @ l @ ''.lockedAmount'') SUint256 ''getLockAmount'' [ArgNumber n] ''0'']) locks))"

definition reset_train :: "evm_host \<Rightarrow> hotel_initial \<Rightarrow> train_storage chain \<Rightarrow> train_storage chain evm" where
  "reset_train H initial c =
     with_uint H (init_price initial) (\<lambda>price.
     with_uint H (init_remain initial) (\<lambda>remain.
     with_uint H (init_lockSize initial) (\<lambda>lockSize.
       send (silent (train_Rq2Reset (init_bridge initial) price remain lockSize)) c)))"

text \<open>The lock numbers of a case with their texts, in the order of the sorted texts.\<close>

definition train_locks :: "string \<Rightarrow> nat \<Rightarrow> hotel_operation list \<Rightarrow> (string \<times> nat) list" where
  "train_locks runNamespace caseIndex ops =
     map (\<lambda>t. (t, the (parse_base 10 t)))
       (sort_by code_unit_compare (map (\<lambda>l. show_nat (lockMap runNamespace caseIndex l)) (travelLocks ops)))"

definition runTrain ::
    "(string \<Rightarrow> string \<Rightarrow> int) \<Rightarrow> ethers \<Rightarrow> evm_host \<Rightarrow> 'w live_env \<Rightarrow> string \<Rightarrow> nat \<Rightarrow>
     (hotel_initial, hotel_operation) rq2_case \<Rightarrow> 'w \<Rightarrow> train_storage chain \<Rightarrow>
     case_result res \<times> 'w \<times> train_storage chain" where
  "runTrain lc E H L runNamespace caseIndex testCase w c =
     (let initial = rc_initial testCase;
          ops = rc_operations testCase;
          prefix = namespacedCaseId runNamespace (rc_caseId testCase);
          userMap = (\<lambda>u. le_account L (ns prefix u));
          lockNr = lockMap runNamespace caseIndex;
          (_, w1) = wasm_tx L (le_train L) ''rq2Reset'' [ArgText (le_account L ''Alice''),
            ArgText (init_price initial), ArgText (init_remain initial), ArgText (init_lockSize initial)] False w in
      case reset_train H initial c of
        Inl e \<Rightarrow> (Inl (error_text H e), w1, c)
      | Inr c1 \<Rightarrow>
          (case live_ops (le_parse L) (wasm_travel L userMap lockNr) (executeTranslated H train_contract)
                 (\<lambda>x. \<not> isMutatingTravelOperation x) 0
                 (map (\<lambda>x. (x, rename_travel userMap (\<lambda>l. show_nat (lockNr l)) x)) ops) w1 c1 of
             (Some (i, mismatch), w2, c2) \<Rightarrow> (Inr (operation_mismatch testCase i mismatch), w2, c2)
           | (None, w2, c2) \<Rightarrow>
               let users = sort_by code_unit_compare (map userMap (travelUsers ops));
                   locks = train_locks runNamespace caseIndex ops;
                   s = contract_state c2;
                   eb = res_bind (train_GetAvailableRemain s) (\<lambda>available.
                     Inr ([string_entry ''meta.bridge'' (init_bridge initial), word_entry ''meta.price'' (ts_price s),
                           word_entry ''meta.remain'' (ts_remain s), text_entry ''meta.lockSize'' (init_lockSize initial),
                           word_entry ''availableRemain'' available, word_entry ''lockedTotal'' (ts_lockedTotal s)]
                          @ concat (map (translated_user_entries train_contract s) users)
                          @ concat (map (translated_lock_entries train_contract s) (map fst locks)))) in
               (res_bind (uncaught H eb)
                  (live_verdict lc E ''TrainBooking'' testCase (train_entries L w2 initial users locks)), w2, c2)))"

fun dex_message :: "dex_operation \<Rightarrow> string \<times> string list" where
  "dex_message (AddLiquidity u a b) = (''AddLiquidity'', [u, a, b])"
| "dex_message (RemoveLiquidity u s) = (''RemoveLiquidity'', [u, s])"
| "dex_message (SwapAForB u a) = (''SwapAForB'', [u, a])"
| "dex_message GetReserves = (''GetReserves'', [])"
| "dex_message (GetShares u) = (''GetShares'', [u])"
| "dex_message TotalShares = (''TotalShares'', [])"

definition wasm_dex :: "'w live_env \<Rightarrow> dex_operation \<Rightarrow> 'w \<Rightarrow> operation_result \<times> 'w" where
  "wasm_dex L operation w =
     (let (kind, args) = dex_message operation; message = lower_first kind in
      if isMutatingDexOperation operation then wasm_tx L (le_dex L) message (map ArgText args) True w
      else (wasm_query L (le_dex L) message (map ArgText args) w, w))"

definition runDex ::
    "(string \<Rightarrow> string \<Rightarrow> int) \<Rightarrow> ethers \<Rightarrow> evm_host \<Rightarrow> 'w live_env \<Rightarrow> string \<Rightarrow>
     (unit, dex_operation) rq2_case \<Rightarrow> 'w \<Rightarrow> dex_storage chain \<Rightarrow> case_result res \<times> 'w \<times> dex_storage chain" where
  "runDex lc E H L runNamespace testCase w c =
     (let prefix = namespacedCaseId runNamespace (rc_caseId testCase);
          ops = map (rename_dex (unless_empty (\<lambda>u. le_account L (ns prefix u)))) (rc_operations testCase);
          (_, w1) = wasm_tx L (le_dex L) ''rq2Reset'' [] False w in
      case uncaught H (send (silent (\<lambda>s. Inr (dex_Rq2Reset s))) c) of
        Inl e \<Rightarrow> (Inl e, w1, c)
      | Inr c1 \<Rightarrow>
          (case live_ops (le_parse L) (wasm_dex L) (executeTranslatedDex H)
                 (\<lambda>x. \<not> isMutatingDexOperation x) 0 (map (\<lambda>x. (x, x)) ops) w1 c1 of
             (Some (i, mismatch), w2, c2) \<Rightarrow> (Inr (operation_mismatch testCase i mismatch), w2, c2)
           | (None, w2, c2) \<Rightarrow>
               let users = sorted_members (dexTouchedUsers ops);
                   reserves = returnValues (wasm_query L (le_dex L) ''getReserves'' [] w2);
                   nth_value = (\<lambda>k. if k < length reserves then reserves ! k else ''0'');
                   s = contract_state c2;
                   ea = [text_entry ''reserveA'' (nth_value 0), text_entry ''reserveB'' (nth_value 1),
                         query_entry L (le_dex L) w2 ''totalShares'' SUint256 ''totalShares'' [] ''0'']
                        @ map (\<lambda>u. query_entry L (le_dex L) w2 (''shares.'' @ u) SUint256 ''getShares'' [ArgText u] ''0'') users;
                   eb = [word_entry ''reserveA'' (dt_reserveA s), word_entry ''reserveB'' (dt_reserveB s),
                         word_entry ''totalShares'' (dt_totalShares s)]
                        @ map (\<lambda>u. word_entry (''shares.'' @ u) (dt_shares s u)) users in
               (live_verdict lc E ''DEXSwap'' testCase ea eb, w2, c2)))"

end
