(* ===== verification/Vm_Loop.thy ===== *)
theory Vm_Loop
  imports Vm_Runner
begin

text \<open>
  The main loop of \<open>run-rq2a-vm-full.ts\<close>: cases with a result on file are skipped, an
  exception becomes a result, the report is rewritten after every case, and a failing case ends
  the run when \<open>stop-on-fail\<close> is set. The proofs show that a run killed between two cases
  and started again reports what an undisturbed run reports.
\<close>

subsection \<open>One case\<close>

record 'w vm_world =
  vw_services :: 'w
  vw_hotel :: "hotel_storage chain"
  vw_train :: "train_storage chain"
  vw_tokens :: token_chains
  vw_auction :: "auction_storage chain"
  vw_dex :: "dex_storage chain"

definition vm_run_case ::
    "(string \<Rightarrow> string \<Rightarrow> int) \<Rightarrow> ethers \<Rightarrow> evm_host \<Rightarrow> 'w live_env \<Rightarrow> string \<Rightarrow> nat \<Rightarrow> generated_case \<Rightarrow>
     'w vm_world \<Rightarrow> case_result res \<times> 'w vm_world" where
  "vm_run_case lc E H L runNamespace caseIndex g W = (case g of
     TravelCase contract tc \<Rightarrow>
       if contract = ''HotelBooking'' then
         (let (r, w, c) = runHotel lc E H L runNamespace tc (vw_services W) (vw_hotel W) in
          (r, W\<lparr>vw_services := w, vw_hotel := c\<rparr>))
       else
         (let (r, w, c) = runTrain lc E H L runNamespace caseIndex tc (vw_services W) (vw_train W) in
          (r, W\<lparr>vw_services := w, vw_train := c\<rparr>))
   | TokenCase tc \<Rightarrow>
       (let (r, ot) = runToken lc E H (le_parse L) runNamespace tc (vw_tokens W) in (r, W\<lparr>vw_tokens := ot\<rparr>))
   | AuctionCase tc \<Rightarrow>
       (let (r, w, c) = runAuction lc E H L runNamespace tc (vw_services W) (vw_auction W) in
        (r, W\<lparr>vw_services := w, vw_auction := c\<rparr>))
   | DexCase tc \<Rightarrow>
       (let (r, w, c) = runDex lc E H L runNamespace tc (vw_services W) (vw_dex W) in
        (r, W\<lparr>vw_services := w, vw_dex := c\<rparr>)))"

definition generated_seed :: "generated_case \<Rightarrow> int" where
  "generated_seed g = (case g of TravelCase c tc \<Rightarrow> rc_seed tc | TokenCase tc \<Rightarrow> rc_seed tc
     | AuctionCase tc \<Rightarrow> rc_seed tc | DexCase tc \<Rightarrow> rc_seed tc)"

definition exception_result :: "generated_case \<Rightarrow> string \<Rightarrow> case_result" where
  "exception_result g e =
     \<lparr>cr_caseId = generated_id g, cr_seed = generated_seed g, cr_pass = False,
      failCategory = Some ''runner_exception'', failReason = Some e, operationIndex = None,
      originalSnapshotHash = None, translatedSnapshotHash = None\<rparr>"

definition case_outcome :: "generated_case \<Rightarrow> case_result res \<Rightarrow> case_result" where
  "case_outcome g r = (case r of Inr result \<Rightarrow> result | Inl e \<Rightarrow> exception_result g e)"

subsection \<open>The loop\<close>

type_synonym 'v case_runner = "nat \<Rightarrow> generated_case \<Rightarrow> 'v \<Rightarrow> case_result res \<times> 'v"

definition stop_message :: "string \<Rightarrow> case_result \<Rightarrow> string" where
  "stop_message contract r = contract @ '' failed at '' @ cr_caseId r @ '': '' @
     (case failReason r of Some e \<Rightarrow> e | None \<Rightarrow> ''undefined'')"

fun vm_loop ::
    "'v case_runner \<Rightarrow> string \<Rightarrow> bool \<Rightarrow> string set \<Rightarrow> nat \<Rightarrow> generated_case list \<Rightarrow> case_result list \<Rightarrow> 'v \<Rightarrow>
     case_result list \<times> 'v \<times> string option" where
  "vm_loop run contract stop completed i [] results W = (results, W, None)"
| "vm_loop run contract stop completed i (g # gs) results W =
     (if generated_id g \<in> completed then vm_loop run contract stop completed (Suc i) gs results W
      else
        (let (r, W') = run (Suc i) g W;
             result = case_outcome g r;
             results' = results @ [result] in
         if \<not> cr_pass result \<and> stop then (results', W', Some (stop_message contract result))
         else vm_loop run contract stop completed (Suc i) gs results' W'))"

text \<open>The results kept from the file of an earlier run: those of cases still in the list.\<close>

definition kept_results :: "bool \<Rightarrow> case_result list \<Rightarrow> generated_case list \<Rightarrow> case_result list" where
  "kept_results resume existing cases =
     filter (\<lambda>r. \<exists>g \<in> set cases. generated_id g = cr_caseId r) (if resume then existing else [])"

definition vm_main ::
    "'v case_runner \<Rightarrow> string \<Rightarrow> bool \<Rightarrow> bool \<Rightarrow> case_result list \<Rightarrow> generated_case list \<Rightarrow> 'v \<Rightarrow>
     case_result list \<times> 'v \<times> string option" where
  "vm_main run contract resume stop existing cases W =
     (let results = kept_results resume existing cases in
      vm_loop run contract stop (set (map cr_caseId results)) 0 cases results W)"

record vm_output =
  vo_contract :: string
  vo_namespace :: string
  vo_runs :: nat
  vo_targetRuns :: nat
  vo_pass :: nat
  vo_fail :: nat
  vo_results :: "case_result list"

definition vm_report :: "string \<Rightarrow> string \<Rightarrow> generated_case list \<Rightarrow> case_result list \<Rightarrow> vm_output" where
  "vm_report contract runNamespace cases results =
     (let pass = length (filter cr_pass results) in
      \<lparr>vo_contract = contract, vo_namespace = runNamespace, vo_runs = length results,
       vo_targetRuns = length cases, vo_pass = pass, vo_fail = length results - pass, vo_results = results\<rparr>)"

subsection \<open>Results carry the id of their case\<close>

lemma verdict_ids [simp]:
  "cr_caseId (operation_mismatch tc i m) = rc_caseId tc"
  "cr_caseId (snapshot_verdict tc a b) = rc_caseId tc"
  by (simp_all add: operation_mismatch_def snapshot_verdict_def Let_def)

lemma live_verdict_id: "live_verdict lc E contract tc ea eb = Inr r \<Longrightarrow> cr_caseId r = rc_caseId tc"
  by (auto simp: live_verdict_def res_bind_Inr_iff)

lemma runHotel_id: "fst (runHotel lc E H L n tc w c) = Inr r \<Longrightarrow> cr_caseId r = rc_caseId tc"
  by (auto simp: runHotel_def Let_def split_def res_bind_Inr_iff dest: live_verdict_id
      split: prod.splits sum.splits option.splits)

lemma runTrain_id: "fst (runTrain lc E H L n k tc w c) = Inr r \<Longrightarrow> cr_caseId r = rc_caseId tc"
  by (auto simp: runTrain_def Let_def split_def res_bind_Inr_iff dest: live_verdict_id
      split: prod.splits sum.splits option.splits)

lemma runToken_id: "fst (runToken lc E H p n tc ot) = Inr r \<Longrightarrow> cr_caseId r = rc_caseId tc"
  by (auto simp: runToken_def Let_def split_def res_bind_Inr_iff split: prod.splits sum.splits option.splits)

lemma runAuction_id: "fst (runAuction lc E H L n tc w c) = Inr r \<Longrightarrow> cr_caseId r = rc_caseId tc"
  by (auto simp: runAuction_def Let_def split_def res_bind_Inr_iff dest: live_verdict_id
      split: prod.splits sum.splits option.splits)

lemma runDex_id: "fst (runDex lc E H L n tc w c) = Inr r \<Longrightarrow> cr_caseId r = rc_caseId tc"
  by (auto simp: runDex_def Let_def split_def res_bind_Inr_iff dest: live_verdict_id
      split: prod.splits sum.splits option.splits)

lemma vm_run_case_id:
  "fst (vm_run_case lc E H L n k g W) = Inr r \<Longrightarrow> cr_caseId r = generated_id g"
  by (cases g)
    (auto simp: vm_run_case_def generated_id_def Let_def split_def
      dest: runHotel_id runTrain_id runToken_id runAuction_id runDex_id split: if_splits)

subsection \<open>The loop over an identified runner\<close>

text \<open>A completed case is skipped, so only the ids of the remaining cases matter.\<close>

lemma loop_skip:
  "(\<And>g. g \<in> set xs \<Longrightarrow> generated_id g \<in> D) \<Longrightarrow> vm_loop run contract stop D i xs rs W = (rs, W, None)"
  by (induction xs arbitrary: i) auto

lemma loop_completed_cong:
  "(\<And>g. g \<in> set xs \<Longrightarrow> generated_id g \<in> D \<longleftrightarrow> generated_id g \<in> D') \<Longrightarrow>
     vm_loop run contract stop D i xs rs W = vm_loop run contract stop D' i xs rs W"
proof (induction xs arbitrary: i rs W)
  case (Cons g gs)
  have "generated_id g \<in> D \<longleftrightarrow> generated_id g \<in> D'" using Cons.prems by simp
  moreover have "vm_loop run contract stop D j gs ss V = vm_loop run contract stop D' j gs ss V" for j ss V
    using Cons.IH Cons.prems by simp
  ultimately show ?case by (cases stop) (auto simp: Let_def split: prod.split)
qed simp

lemma loop_append:
  "vm_loop run contract stop D i (xs @ ys) rs W =
     (case vm_loop run contract stop D i xs rs W of
        (rs', W', Some e) \<Rightarrow> (rs', W', Some e)
      | (rs', W', None) \<Rightarrow> vm_loop run contract stop D (i + length xs) ys rs' W')"
  by (induction xs arbitrary: i rs W) (auto simp: Let_def split: prod.split option.split)

locale identified_runner =
  fixes run :: "'v case_runner"
  assumes run_id: "fst (run k g W) = Inr r \<Longrightarrow> cr_caseId r = generated_id g"
begin

lemma outcome_id: "cr_caseId (case_outcome g (fst (run k g W))) = generated_id g"
  using run_id [of k g W] by (cases "fst (run k g W)") (auto simp: case_outcome_def exception_result_def)

text \<open>The results are those given, followed by one per executed case.\<close>

lemma loop_ids:
  assumes "vm_loop run contract stop D i xs rs W = (rs', W', err)"
  shows "\<exists>k \<le> length xs. map cr_caseId rs' =
      map cr_caseId rs @ filter (\<lambda>c. c \<notin> D) (map generated_id (take k xs)) \<and>
      (err = None \<longrightarrow> k = length xs)"
  using assms
proof (induction xs arbitrary: i rs W)
  case (Cons g gs)
  show ?case
  proof (cases "generated_id g \<in> D")
    case True
    then obtain k where k: "k \<le> length gs" "map cr_caseId rs' =
        map cr_caseId rs @ filter (\<lambda>c. c \<notin> D) (map generated_id (take k gs))" "err = None \<longrightarrow> k = length gs"
      using Cons by auto blast
    then show ?thesis using True by (intro exI [of _ "Suc k"]) simp
  next
    case False
    obtain r V where r: "run (Suc i) g W = (r, V)" by fastforce
    let ?res = "case_outcome g r"
    have id: "cr_caseId ?res = generated_id g" using outcome_id [of g "Suc i" W] r by simp
    show ?thesis
    proof (cases "\<not> cr_pass ?res \<and> stop")
      case True
      then have "rs' = rs @ [?res]" "err \<noteq> None" using Cons.prems False r by (auto simp: Let_def)
      then show ?thesis using False id by (intro exI [of _ "Suc 0"]) auto
    next
      case go: False
      then have "vm_loop run contract stop D (Suc i) gs (rs @ [?res]) V = (rs', W', err)"
        using Cons.prems False r by auto
      from Cons.IH [OF this] obtain k where k: "k \<le> length gs" "map cr_caseId rs' =
          map cr_caseId (rs @ [?res]) @ filter (\<lambda>c. c \<notin> D) (map generated_id (take k gs))"
        "err = None \<longrightarrow> k = length gs" by blast
      then show ?thesis using False id by (intro exI [of _ "Suc k"]) simp
    qed
  qed
qed simp

lemma loop_from_nothing:
  assumes "vm_loop run contract stop {} 0 xs [] W = (rs, W', None)"
  shows "map cr_caseId rs = map generated_id xs"
  using loop_ids [OF assms] by auto

lemma resume_transparent:
  assumes d: "distinct (map generated_id (xs @ ys))"
    and first: "vm_main run contract b stop [] xs W = (rs, V, None)"
  shows "vm_main run contract True stop rs (xs @ ys) V = vm_main run contract b stop [] (xs @ ys) W"
proof -
  have loop: "vm_loop run contract stop {} 0 xs [] W = (rs, V, None)"
    using first by (simp add: vm_main_def kept_results_def)
  have ids: "map cr_caseId rs = map generated_id xs" by (rule loop_from_nothing [OF loop])
  then have seen: "set (map cr_caseId rs) = generated_id ` set xs" by simp
  have kept: "kept_results True rs (xs @ ys) = rs"
    unfolding kept_results_def using seen
    by (auto simp: filter_id_conv) (metis UnI1 image_eqI image_iff)
  let ?D = "set (map cr_caseId rs)"
  have "vm_main run contract True stop rs (xs @ ys) V = vm_loop run contract stop ?D 0 (xs @ ys) rs V"
    by (simp add: vm_main_def kept)
  also have "\<dots> = vm_loop run contract stop ?D (length xs) ys rs V"
    using loop_skip [of xs ?D run contract stop 0 rs V] seen by (simp add: loop_append)
  also have "\<dots> = vm_loop run contract stop {} (length xs) ys rs V"
    using d seen by (intro loop_completed_cong) auto
  also have "\<dots> = vm_loop run contract stop {} 0 (xs @ ys) [] W"
    by (simp add: loop_append loop)
  also have "\<dots> = vm_main run contract b stop [] (xs @ ys) W"
    by (simp add: vm_main_def kept_results_def)
  finally show ?thesis .
qed

lemma results_complete:
  assumes d: "distinct (map generated_id cases)" "distinct (map cr_caseId existing)"
    and run: "vm_main run contract resume stop existing cases W = (rs, W', None)"
  shows "mset (map cr_caseId rs) = mset (map generated_id cases)"
proof -
  let ?kept = "kept_results resume existing cases"
  let ?D = "set (map cr_caseId ?kept)"
  have rs: "map cr_caseId rs = map cr_caseId ?kept @ filter (\<lambda>c. c \<notin> ?D) (map generated_id cases)"
    using loop_ids run unfolding vm_main_def Let_def by force
  have "distinct (map cr_caseId ?kept)"
    using d(2) by (auto simp: kept_results_def distinct_map_filter)
  then have "distinct (map cr_caseId rs)" unfolding rs using d(1) by auto
  moreover have "set (map cr_caseId rs) = set (map generated_id cases)"
    unfolding rs by (auto simp: kept_results_def) (metis image_eqI)
  ultimately show ?thesis using d(1) set_eq_iff_mset_eq_distinct by blast
qed

end

interpretation live: identified_runner "vm_run_case lc E H L runNamespace" for lc E H L runNamespace
  by unfold_locales (rule vm_run_case_id)

subsection \<open>Properties\<close>

definition offline_client :: "'w wasm_client" where
  "offline_client = \<lparr>wc_queries = [], wc_txs = [], wc_query = (\<lambda>_ _ _. Inl ''disconnected''),
     wc_submit = (\<lambda>_ _ w. (Inl ''disconnected'', w))\<rparr>"

text \<open>An environment without live machines, for cases that run on the EVM alone.\<close>

definition offline_env :: "unit live_env" where
  "offline_env = \<lparr>le_relayer = (\<lambda>_ w. (Inl ''relayer unavailable'', w)), le_parse = (\<lambda>_. Inl ''Unexpected token''),
     le_stringify = js_string, le_account = (\<lambda>l. l), le_train = offline_client, le_dex = offline_client\<rparr>"

definition fresh_world :: "'w \<Rightarrow> 'w vm_world" where
  "fresh_world w = \<lparr>vw_services = w, vw_hotel = deploy HotelBookingTranslated,
     vw_train = deploy \<lparr>ts_bridge = ''Org1MSP'', ts_price = 10, ts_remain = 100000, ts_lockSize = 1,
       ts_lockedTotal = 0, ts_accounts = (\<lambda>_. 0), ts_bookings = (\<lambda>_. 0), ts_locks = (\<lambda>_. zero_train_lock)\<rparr>,
     vw_tokens = (deploy TokenTransferTranslated, deploy TokenTransferTranslated),
     vw_auction = deploy AuctionLogicTranslated, vw_dex = deploy DEXSwapTranslated\<rparr>"

abbreviation sample_runner :: "unit vm_world case_runner" where
  "sample_runner \<equiv> vm_run_case code_unit_compare reference_ethers reference_host offline_env ''vm-1''"

abbreviation sample_token_case :: "nat \<Rightarrow> generated_case" where
  "sample_token_case i \<equiv> TokenCase (makeTokenCase i 20260426)"

lemma sample_ids: "distinct (map generated_id [sample_token_case 0, sample_token_case 1])"
proof -
  have "generated_id (sample_token_case i) = ''token-'' @ padStart4 (show_nat i)" for i
    by (simp add: generated_id_def makeTokenCase_def Let_def split_def)
  then show ?thesis using padStart4_inject [of 0 1] by simp
qed

lemma loop_without_stop: "snd (snd (vm_loop run contract False D i xs rs W)) = None"
  by (induction xs arbitrary: i rs W) (auto simp: Let_def split_def)

lemma main_without_stop: "\<exists>rs V. vm_main run contract resume False existing cases W = (rs, V, None)"
  using loop_without_stop by (metis vm_main_def prod.collapse)



text \<open>A run that was not stopped reports every case exactly once, whatever results of an
  earlier run it started from.\<close>

theorem vm_results_complete:
  assumes "distinct (map generated_id cases)" and "distinct (map cr_caseId existing)"
    and "vm_main (vm_run_case lc E H L n) contract resume stop existing cases W = (rs, W', None)"
  shows "mset (map cr_caseId rs) = mset (map generated_id cases) \<and>
    vo_runs (vm_report contract n cases rs) = vo_targetRuns (vm_report contract n cases rs)"
proof -
  have m: "mset (map cr_caseId rs) = mset (map generated_id cases)" using assms by (rule live.results_complete)
  then have "length rs = length cases" by (metis length_map size_mset)
  then show ?thesis using m by (simp add: vm_report_def Let_def)
qed

theorem vm_results_complete_witness:
  "\<exists>rs V. vm_main sample_runner ''TokenTransfer'' True False [exception_result (sample_token_case 1) ''lost'']
       [sample_token_case 0, sample_token_case 1] (fresh_world ()) = (rs, V, None) \<and>
     mset (map cr_caseId rs) = mset (map generated_id [sample_token_case 0, sample_token_case 1])"
proof -
  obtain rs V where
    r: "vm_main sample_runner ''TokenTransfer'' True False [exception_result (sample_token_case 1) ''lost'']
       [sample_token_case 0, sample_token_case 1] (fresh_world ()) = (rs, V, None)"
    using main_without_stop [of sample_runner "''TokenTransfer''" True
        "[exception_result (sample_token_case 1) ''lost'']" "[sample_token_case 0, sample_token_case 1]" "fresh_world ()"]
    by blast
  from vm_results_complete [OF sample_ids _ r] r show ?thesis by auto
qed

end
