(* ===== verification/Vm_Isolation.thy ===== *)
theory Vm_Isolation
  imports Vm_Runner Equiv_Travel
begin

text \<open>
  Why the live runner may reuse one deployed contract for all its cases. Two storages that agree
  on the scalars and on the names of a case answer its operations alike; a case changes nothing
  at other names; and the names of different cases differ. So every case sees, under its
  names, the contract as if it had just been deployed.
\<close>

subsection \<open>Storages that agree on some names\<close>

definition agree_on :: "string set \<Rightarrow> train_storage \<Rightarrow> train_storage \<Rightarrow> bool" where
  "agree_on N s t \<longleftrightarrow>
     ts_price s = ts_price t \<and> ts_remain s = ts_remain t \<and> ts_lockSize s = ts_lockSize t \<and>
     ts_lockedTotal s = ts_lockedTotal t \<and>
     (\<forall>x \<in> N. ts_accounts s x = ts_accounts t x \<and> ts_bookings s x = ts_bookings t x \<and>
        ts_locks s x = ts_locks t x)"

text \<open>What an operation at names within \<open>N\<close> leaves alone.\<close>

definition same_outside :: "string set \<Rightarrow> train_storage \<Rightarrow> train_storage \<Rightarrow> bool" where
  "same_outside N s t \<longleftrightarrow> ts_price s = ts_price t \<and>
     (\<forall>x. x \<notin> N \<longrightarrow> ts_accounts s x = ts_accounts t x \<and> ts_bookings s x = ts_bookings t x \<and>
        ts_locks s x = ts_locks t x)"

text \<open>The same error, or the same value and related states.\<close>

definition alike :: "('s \<Rightarrow> 't \<Rightarrow> bool) \<Rightarrow> evm_error + ('a \<times> 's) \<Rightarrow> evm_error + ('a \<times> 't) \<Rightarrow> bool" where
  "alike R = rel_sum (=) (rel_prod (=) R)"

lemma alike_simps [simp]:
  "alike R (Inl e) (Inl d) \<longleftrightarrow> e = d"
  "alike R (Inr (v, s)) (Inr (w, t)) \<longleftrightarrow> v = w \<and> R s t"
  "\<not> alike R (Inl e) (Inr y)" "\<not> alike R (Inr x) (Inl d)"
  by (auto simp: alike_def)

lemma alike_require: "c = c' \<Longrightarrow> (c \<Longrightarrow> alike R k k') \<Longrightarrow> alike R (require c m k) (require c' m k')"
  by (simp add: require_def)

lemma alike_bind: "(\<And>x. r = Inr x \<Longrightarrow> alike R (f x) (g x)) \<Longrightarrow> alike R (res_bind r f) (res_bind r g)"
  by (cases r) simp_all

lemma available_agree: "agree_on N s t \<Longrightarrow> train_GetAvailableRemain s = train_GetAvailableRemain t"
  by (auto simp: agree_on_def train_GetAvailableRemain_def intro!: res_bind_cong)

lemma book_agree:
  assumes r: "agree_on N s t" and u: "u \<in> N"
  shows "alike (agree_on N) (train_BookLocal u a s) (train_BookLocal u a t)"
proof -
  have eq: "ts_price s = ts_price t" "ts_remain s = ts_remain t" "ts_accounts s u = ts_accounts t u"
    "ts_bookings s u = ts_bookings t u" "train_GetAvailableRemain s = train_GetAvailableRemain t"
    using r u available_agree [OF r] by (auto simp: agree_on_def)
  show ?thesis
    unfolding train_BookLocal_def eq
    using r by (intro alike_require alike_bind) (auto simp: agree_on_def)
qed

lemma lock_agree:
  assumes r: "agree_on N s t" and l: "l \<in> N"
  shows "alike (agree_on N) (train_LockState l a tb s) (train_LockState l a tb t)"
proof -
  have eq: "ts_price s = ts_price t" "ts_remain s = ts_remain t" "ts_locks s l = ts_locks t l"
    "ts_lockSize s = ts_lockSize t" "ts_lockedTotal s = ts_lockedTotal t"
    "train_GetAvailableRemain s = train_GetAvailableRemain t"
    using r l available_agree [OF r] by (auto simp: agree_on_def)
  show ?thesis
    unfolding train_LockState_def eq
    using r by (intro alike_require alike_bind) (auto simp: agree_on_def)
qed

lemma unlock_agree:
  assumes r: "agree_on N s t" and l: "l \<in> N"
  shows "rel_sum (=) (agree_on N) (train_UnlockState l s) (train_UnlockState l t)"
proof -
  have eq: "ts_locks s l = ts_locks t l" "ts_lockedTotal s = ts_lockedTotal t"
    using r l by (auto simp: agree_on_def)
  show ?thesis
    unfolding train_UnlockState_def eq Let_def
    using r by (auto simp: require_def agree_on_def checked_sub_def)
qed

text \<open>Success changes the scalars and the named entries only.\<close>

lemma book_footprint: "train_BookLocal u a s = Inr (v, t) \<Longrightarrow> u \<in> N \<Longrightarrow> same_outside N s t"
  by (auto simp: train_BookLocal_def require_def res_bind_Inr_iff same_outside_def split: if_splits)

lemma lock_footprint: "train_LockState l a tb s = Inr (v, t) \<Longrightarrow> l \<in> N \<Longrightarrow> same_outside N s t"
  by (auto simp: train_LockState_def require_def res_bind_Inr_iff same_outside_def split: if_splits)

lemma unlock_footprint: "train_UnlockState l s = Inr t \<Longrightarrow> l \<in> N \<Longrightarrow> same_outside N s t"
  by (auto simp: train_UnlockState_def require_def res_bind_Inr_iff same_outside_def Let_def split: if_splits)

subsection \<open>Operations of a target\<close>

definition op_names :: "hotel_operation \<Rightarrow> string set" where
  "op_names x = set (hotel_op_user x) \<union> set (hotel_op_lock x)"

text \<open>A transition of a chain, seen through the view of the storage.\<close>

lemma map_sum_alike:
  "alike R (map_sum id (map_prod id v) x) (map_sum id (map_prod id v) y) \<longleftrightarrow>
     alike (\<lambda>s t. R (v s) (v t)) x y"
  by (cases x; cases y) (auto simp: alike_def rel_prod_sel)

definition chain_rel :: "('c \<Rightarrow> 'c \<Rightarrow> bool) \<Rightarrow> 'c chain \<Rightarrow> 'c chain \<Rightarrow> bool" where
  "chain_rel R c d \<longleftrightarrow> R (contract_state c) (contract_state d)"

lemma call_then_send_alike:
  assumes "\<And>b b'. alike R (f b (contract_state c)) (g b' (contract_state d))"
  shows "alike (chain_rel R) (call_then_send f c) (call_then_send g d)"
proof -
  have a: "alike R (f b (contract_state c)) (g b' (contract_state d))" for b b' by (rule assms)
  show ?thesis
    using a [of "block_number c" "block_number d"] a [of "block_number c + 1" "block_number d + 1"]
    by (cases "f (block_number c) (contract_state c)"; cases "g (block_number d) (contract_state d)";
        cases "f (block_number c + 1) (contract_state c)"; cases "g (block_number d + 1) (contract_state d)")
      (auto simp: call_then_send_def static_call_def send_def chain_rel_def alike_def)
qed

lemma send_only_alike:
  assumes "rel_sum (=) R (f (contract_state c)) (g (contract_state d))"
  shows "alike (chain_rel R) (send_only (silent f) c) (send_only (silent g) d)"
  using assms
  by (cases "f (contract_state c)"; cases "g (contract_state d)")
    (auto simp: send_only_def send_def silent_def chain_rel_def)

lemma read_view_alike:
  assumes "f (contract_state c) = g (contract_state d)" and "R (contract_state c) (contract_state d)"
  shows "alike (chain_rel R) (read_view f c) (read_view g d)"
  using assms by (cases "g (contract_state d)") (simp_all add: read_view_def chain_rel_def)

lemma returning_alike:
  "alike R (f s) (g t) \<Longrightarrow> alike R (returning ret f b s) (returning ret g b' t)"
  by (cases "f s"; cases "g t") (auto simp: returning_def alike_def)

lemma try_call_alike:
  assumes "alike (chain_rel R) x y" and "chain_rel R c d"
  shows "fst (try_call H c x) = fst (try_call H d y) \<and> chain_rel R (snd (try_call H c x)) (snd (try_call H d y))"
  using assms by (cases x; cases y) (auto simp: try_call_def alike_def)

context travel_target
begin

lemma price_scalar: "agree_on N (view_of s) (view_of t) \<Longrightarrow> ts_price (view_of s) = ts_price (view_of t)"
  by (simp add: agree_on_def)

lemma call_alike:
  assumes r: "agree_on N (view_of (contract_state c)) (view_of (contract_state d))"
    and p: "ts_price (view_of (contract_state c)) \<noteq> 0" and n: "op_names x \<subseteq> N"
  shows "alike (chain_rel (\<lambda>s t. agree_on N (view_of s) (view_of t))) (travel_call H C c x) (travel_call H C d x)"
proof -
  let ?s = "contract_state c" and ?t = "contract_state d" and ?R = "\<lambda>s t. agree_on N (view_of s) (view_of t)"
  have q: "ts_price (view_of ?t) \<noteq> 0" using p r by (simp add: agree_on_def)
  have sc: "ts_price (view_of ?s) = ts_price (view_of ?t)" "ts_remain (view_of ?s) = ts_remain (view_of ?t)"
    using r by (simp_all add: agree_on_def)
  have reads: "alike (chain_rel ?R) (read_view f c) (read_view g d)" if "f ?s = g ?t" for f g
    using that r by (rule read_view_alike)
  show ?thesis
  proof (cases x)
    case (BookLocal u a)
    then have "alike ?R (tc_BookLocal C u w ?s) (tc_BookLocal C u w ?t)" for w
      using book_agree [OF r, of u w] n
      unfolding book [OF p, symmetric] book [OF q, symmetric] map_sum_alike by (simp add: op_names_def)
    then show ?thesis
      using BookLocal
      by (auto simp: with_uint_def intro!: call_then_send_alike returning_alike split: option.split)
  next
    case (LockState l a tb)
    then have "alike ?R (tc_LockState C b l w v ?s) (tc_LockState C b' l w v ?t)" for b b' w v
      using lock_agree [OF r, of l w v] n lock [OF p, of b l w v] lock [OF q, of b' l w v]
        map_sum_alike [of "agree_on N" view_of "tc_LockState C b l w v ?s" "tc_LockState C b' l w v ?t"]
      by (simp add: op_names_def)
    then show ?thesis
      using LockState
      by (auto simp: with_uint_def intro!: call_then_send_alike returning_alike split: option.split)
  next
    case (UnlockState l)
    then have "rel_sum (=) ?R (tc_UnlockState C l ?s) (tc_UnlockState C l ?t)"
      using unlock_agree [OF r, of l] n unfolding unlock [symmetric]
      by (cases "tc_UnlockState C l ?s"; cases "tc_UnlockState C l ?t") (auto simp: op_names_def)
    then show ?thesis using UnlockState by (simp add: send_only_alike)
  next
    case GetAvailableRemain
    then show ?thesis using available_agree [OF r] available [OF p] available [OF q] by (auto intro!: reads)
  next
    case GetPrice
    then show ?thesis using sc by (auto simp: price intro!: reads)
  next
    case GetRemain
    then show ?thesis using sc by (auto simp: remain intro!: reads)
  next
    case (GetAccountBalance u)
    then have "ts_accounts (view_of ?s) u = ts_accounts (view_of ?t) u"
      using r n by (simp add: op_names_def agree_on_def)
    then show ?thesis using GetAccountBalance by (auto simp: account intro!: reads)
  next
    case (GetBooking u)
    then have "ts_bookings (view_of ?s) u = ts_bookings (view_of ?t) u"
      using r n by (simp add: op_names_def agree_on_def)
    then show ?thesis using GetBooking by (auto simp: booking intro!: reads)
  next
    case (IsStateLocked l)
    then have "ts_locks (view_of ?s) l = ts_locks (view_of ?t) l"
      using r n by (simp add: op_names_def agree_on_def)
    then show ?thesis using IsStateLocked by (auto simp: locked intro!: reads)
  qed
qed

lemma available_keeps_price: "same_outside N s t \<Longrightarrow> ts_price s = ts_price t"
  by (simp add: same_outside_def)

lemma call_footprint:
  assumes "travel_call H C c x = Inr (vs, c')"
    and p: "ts_price (view_of (contract_state c)) \<noteq> 0" and n: "op_names x \<subseteq> N"
  shows "same_outside N (view_of (contract_state c)) (view_of (contract_state c'))"
proof -
  let ?s = "contract_state c"
  have refl: "same_outside N (view_of ?s) (view_of ?s)" by (simp add: same_outside_def)
  have reads: "read_view f c = Inr (vs, c') \<Longrightarrow> c' = c" for f
    by (auto simp: read_view_def res_bind_Inr_iff)
  show ?thesis
  proof (cases x)
    case (BookLocal u a)
    then obtain w v t where "tc_BookLocal C u w ?s = Inr (v, t)" "contract_state c' = t"
      using assms(1)
      by (auto simp: with_uint_def call_then_send_def send_def returning_def res_bind_Inr_iff split: option.splits)
    then show ?thesis using book [OF p, of u w] book_footprint [of u w "view_of ?s" v "view_of t" N] BookLocal n
      by (simp add: op_names_def)
  next
    case (LockState l a tb)
    then obtain b w z v t where "tc_LockState C b l w z ?s = Inr (v, t)" "contract_state c' = t"
      using assms(1)
      by (auto simp: with_uint_def call_then_send_def send_def returning_def res_bind_Inr_iff split: option.splits)
    then show ?thesis
      using lock [OF p, of b l w z] lock_footprint [of l w z "view_of ?s" v "view_of t" N] LockState n
      by (simp add: op_names_def)
  next
    case (UnlockState l)
    then obtain t where "tc_UnlockState C l ?s = Inr t" "contract_state c' = t"
      using assms(1) by (auto simp: send_only_def send_def silent_def res_bind_Inr_iff)
    then show ?thesis using unlock [of l ?s] unlock_footprint [of l "view_of ?s" "view_of t" N] UnlockState n
      by (simp add: op_names_def)
  qed (use assms(1) refl reads in auto)
qed

text \<open>The same over a whole run.\<close>

lemma run_alike:
  assumes "agree_on N (view_of (contract_state c)) (view_of (contract_state d))"
    and "ts_price (view_of (contract_state c)) \<noteq> 0" and "\<forall>x \<in> set xs. op_names x \<subseteq> N"
  shows "run_results (executeTranslated H C) c xs = run_results (executeTranslated H C) d xs \<and>
    agree_on N (view_of (contract_state (run_ops (executeTranslated H C) c xs)))
      (view_of (contract_state (run_ops (executeTranslated H C) d xs)))"
  using assms
proof (induction xs arbitrary: c d)
  case (Cons x xs)
  let ?R = "\<lambda>s t. agree_on N (view_of s) (view_of t)"
  have r: "chain_rel ?R c d" using Cons.prems(1) by (simp add: chain_rel_def)
  have n: "op_names x \<subseteq> N" using Cons.prems(3) by simp
  have step: "fst (executeTranslated H C c x) = fst (executeTranslated H C d x)"
    "chain_rel ?R (snd (executeTranslated H C c x)) (snd (executeTranslated H C d x))"
    using try_call_alike [OF call_alike [OF Cons.prems(1,2) n] r, of H] by (simp_all add: executeTranslated_def)
  have "ts_price (view_of (contract_state (snd (executeTranslated H C c x)))) = ts_price (view_of (contract_state c))"
    using call_footprint [OF _ Cons.prems(2) n, of H]
    by (auto simp: executeTranslated_def try_call_def same_outside_def split: sum.splits)
  then show ?case
    using Cons.IH [of "snd (executeTranslated H C c x)" "snd (executeTranslated H C d x)"] step Cons.prems
    by (simp add: chain_rel_def)
qed simp

lemma run_footprint:
  assumes "ts_price (view_of (contract_state c)) \<noteq> 0" and "\<forall>x \<in> set xs. op_names x \<subseteq> N"
  shows "same_outside N (view_of (contract_state c)) (view_of (contract_state (run_ops (executeTranslated H C) c xs)))"
  using assms
proof (induction xs arbitrary: c)
  case Nil
  then show ?case by (simp add: same_outside_def)
next
  case (Cons x xs)
  let ?c = "snd (executeTranslated H C c x)"
  have "same_outside N (view_of (contract_state c)) (view_of (contract_state ?c))"
    using call_footprint [of H c x _ _ N] Cons.prems
    by (cases "travel_call H C c x") (auto simp: executeTranslated_def try_call_def same_outside_def)
  moreover from this have "ts_price (view_of (contract_state ?c)) \<noteq> 0"
    using Cons.prems(1) by (simp add: same_outside_def)
  ultimately show ?case using Cons.IH [of ?c] Cons.prems(2) by (simp add: same_outside_def)
qed

lemma entries_agree:
  assumes r: "agree_on N (view_of s) (view_of t)" and p: "ts_price (view_of s) \<noteq> 0"
    and "set users \<subseteq> N" "set locks \<subseteq> N"
  shows "translated_travel_entries C s initial users locks = translated_travel_entries C t initial users locks"
proof -
  have q: "ts_price (view_of t) \<noteq> 0" using p r by (simp add: agree_on_def)
  have "translated_user_entries C s u = translated_user_entries C t u" if "u \<in> N" for u
    using r that by (simp add: translated_user_entries_def account booking agree_on_def)
  then have us: "map (translated_user_entries C s) (sorted_members users) =
      map (translated_user_entries C t) (sorted_members users)"
    using assms(3) by (intro map_cong) auto
  have "translated_lock_entries C s l = translated_lock_entries C t l" if "l \<in> N" for l
    using r that by (simp add: translated_lock_entries_def locked lock_amount agree_on_def)
  then have ls: "map (translated_lock_entries C s) (sorted_members locks) =
      map (translated_lock_entries C t) (sorted_members locks)"
    using assms(4) by (intro map_cong) auto
  have av: "tc_GetAvailableRemain C s = tc_GetAvailableRemain C t"
    using available_agree [OF r] available [OF p] available [OF q] by simp
  have sc: "ts_price (view_of s) = ts_price (view_of t)" "ts_remain (view_of s) = ts_remain (view_of t)"
    "ts_lockedTotal (view_of s) = ts_lockedTotal (view_of t)"
    using r by (simp_all add: agree_on_def)
  show ?thesis unfolding translated_travel_entries_def price remain locked_total us ls av sc ..
qed

end

subsection \<open>The names of a case\<close>

definition case_names :: "string \<Rightarrow> string \<Rightarrow> string set" where
  "case_names runNamespace caseId = range (ns (namespacedCaseId runNamespace caseId))"

lemma renamed_names:
  "x \<in> set (map (rename_travel (ns (namespacedCaseId n i)) (ns (namespacedCaseId n i))) xs) \<Longrightarrow>
     op_names x \<subseteq> case_names n i"
proof -
  assume "x \<in> set (map (rename_travel (ns (namespacedCaseId n i)) (ns (namespacedCaseId n i))) xs)"
  then obtain y where "x = rename_travel (ns (namespacedCaseId n i)) (ns (namespacedCaseId n i)) y" by auto
  then show ?thesis by (cases y) (auto simp: op_names_def case_names_def)
qed

text \<open>A case id ends in digits, so the dash of \<open>ns\<close> after it is the first one.\<close>

lemma dash_not_digit: "CHR ''-'' \<notin> set (padStart4 (show_nat i))"
proof -
  obtain ds where ds: "show_nat i = map digit_char ds" "\<forall>d \<in> set ds. d < 10"
    using show_nat_digits [of i] by blast
  have "CHR ''-'' \<notin> digit_char ` set ds"
  proof
    assume "CHR ''-'' \<in> digit_char ` set ds"
    then obtain d where "d \<in> set ds" "digit_char d = CHR ''-''" by (metis imageE)
    then show False using ds(2) digit_char_neq(1) by blast
  qed
  then have "CHR ''-'' \<notin> set (show_nat i)" by (simp add: ds(1))
  then show ?thesis by (simp add: padStart4_def)
qed

lemma split_at_dash:
  "CHR ''-'' \<notin> set a \<Longrightarrow> CHR ''-'' \<notin> set b \<Longrightarrow> a @ CHR ''-'' # x = b @ CHR ''-'' # y \<Longrightarrow> a = b"
proof -
  assume a: "CHR ''-'' \<notin> set a" and b: "CHR ''-'' \<notin> set b" and eq: "a @ CHR ''-'' # x = b @ CHR ''-'' # y"
  have "takeWhile (\<lambda>c. c \<noteq> CHR ''-'') (a @ CHR ''-'' # x) = a"
    using a by (subst takeWhile_append2) auto
  moreover have "takeWhile (\<lambda>c. c \<noteq> CHR ''-'') (b @ CHR ''-'' # y) = b"
    using b by (subst takeWhile_append2) auto
  ultimately show "a = b" using eq by simp
qed

lemma case_names_disjoint:
  assumes "rc_caseId (makeTravelCase contract i seed) \<noteq> rc_caseId (makeTravelCase contract j seed)"
  shows "case_names n (rc_caseId (makeTravelCase contract i seed)) \<inter>
    case_names n (rc_caseId (makeTravelCase contract j seed)) = {}"
proof -
  obtain p where p: "\<And>k. rc_caseId (makeTravelCase contract k seed) = p @ padStart4 (show_nat k)"
    by (simp add: makeTravelCase_def Let_def split_def)
  show ?thesis
    using assms split_at_dash [OF dash_not_digit dash_not_digit]
    by (auto simp: p case_names_def ns_def namespacedCaseId_def)
qed

subsection \<open>The hotel contract between cases\<close>

text \<open>No entry at these names was ever written, or all were deleted.\<close>

definition unused_names :: "string set \<Rightarrow> train_storage \<Rightarrow> bool" where
  "unused_names N s \<longleftrightarrow> (\<forall>x \<in> N. ts_accounts s x = 0 \<and> ts_bookings s x = 0 \<and> ts_locks s x = zero_train_lock)"

lemma unused_outside: "same_outside M s t \<Longrightarrow> N \<inter> M = {} \<Longrightarrow> unused_names N s \<Longrightarrow> unused_names N t"
  unfolding unused_names_def same_outside_def by (metis disjoint_iff)

lemma init_hotel_view:
  assumes H: "host_documented H" and init: "initHotelTranslated H initial c = (Inr (), c1)"
  shows "\<exists>p r l. abi_uint256 H (init_price initial) = Some p \<and> abi_uint256 H (init_remain initial) = Some r \<and>
    abi_uint256 H (init_lockSize initial) = Some l \<and>
    hotel_view (contract_state c1) = (hotel_view (contract_state c))\<lparr>ts_bridge := init_bridge initial,
      ts_price := p, ts_remain := r, ts_lockSize := l, ts_lockedTotal := 0\<rparr>"
proof -
  have slots: "meta_slot H \<noteq> lock_total_slot H" "abi_decode_uint H (abi_encode_uint H 0) = Some 0"
    "abi_decode_meta H (abi_encode_meta H b p r l) = Some (b, p, r, l)" for b p r l
    using H by (simp_all add: host_documented_def)
  then show ?thesis
    using init
    by (auto simp: initHotelTranslated_def with_uint_def Let_def send_def silent_def vassp_apply_def
        res_bind_Inr_iff hotel_view_def split: option.splits sum.splits)
qed

lemma deployed_unused: "unused_names N (hotel_view (contract_state (deploy HotelBookingTranslated)))"
  by (simp add: unused_names_def hotel_view_def deploy_def HotelBookingTranslated_def zero_lock_def zero_train_lock_def)

lemma init_agree:
  assumes H: "host_documented H" and "initHotelTranslated H initial c = (Inr (), c1)"
    and "initHotelTranslated H initial (deploy HotelBookingTranslated) = (Inr (), d1)"
    and "unused_names N (hotel_view (contract_state c))"
  shows "agree_on N (hotel_view (contract_state c1)) (hotel_view (contract_state d1))"
proof -
  note fresh = deployed_unused [of N]
  obtain p r l where a: "abi_uint256 H (init_price initial) = Some p" "abi_uint256 H (init_remain initial) = Some r"
    "abi_uint256 H (init_lockSize initial) = Some l"
    and c: "hotel_view (contract_state c1) = (hotel_view (contract_state c))\<lparr>ts_bridge := init_bridge initial,
      ts_price := p, ts_remain := r, ts_lockSize := l, ts_lockedTotal := 0\<rparr>"
    using init_hotel_view [OF H assms(2)] by blast
  from a have d: "hotel_view (contract_state d1) = (hotel_view (contract_state (deploy HotelBookingTranslated)))
      \<lparr>ts_bridge := init_bridge initial, ts_price := p, ts_remain := r, ts_lockSize := l, ts_lockedTotal := 0\<rparr>"
    using init_hotel_view [OF H assms(3)] by auto
  show ?thesis
    unfolding c d using assms(4) fresh by (simp add: agree_on_def unused_names_def del: hotel_view_simps)
qed

lemma init_hotel_total:
  assumes H: "host_documented H" and t: "initial_texts initial p r l"
    and "in_u256 p" "in_u256 r" "in_u256 l" "0 < p"
  shows "\<exists>c1. initHotelTranslated H initial c = (Inr (), c1) \<and> ts_price (hotel_view (contract_state c1)) \<noteq> 0"
proof -
  have abi: "abi_uint256 H (show_int n) = Some (U n)" if "in_u256 n" for n
    using H that by (simp add: host_documented_def)
  have slots: "meta_slot H \<noteq> lock_total_slot H" "abi_decode_uint H (abi_encode_uint H 0) = Some 0"
    "abi_decode_meta H (abi_encode_meta H b q s k) = Some (b, q, s, k)" for b q s k
    using H by (simp_all add: host_documented_def)
  have "initHotelTranslated H initial c = (Inr (), snd (initHotelTranslated H initial c))"
    using assms abi slots
    by (simp add: initHotelTranslated_def initial_texts_def with_uint_def Let_def send_def silent_def vassp_apply_def)
  from init_hotel_view [OF H this] this show ?thesis
    using abi [OF assms(3)] t assms(3,6) by (auto simp: initial_texts_def U_eq_0 simp del: hotel_view_simps)
qed

lemma footprint_unused:
  assumes "ts_price (hotel_view (contract_state c)) \<noteq> 0"
    and "ops = map (rename_travel (ns (namespacedCaseId n i)) (ns (namespacedCaseId n i))) raw"
    and "i = rc_caseId (makeTravelCase contract k seed)" and "j = rc_caseId (makeTravelCase contract m seed)"
    and "i \<noteq> j" and "unused_names (case_names n j) (hotel_view (contract_state c))"
  shows "unused_names (case_names n j)
    (hotel_view (contract_state (run_ops (executeTranslated H hotel_contract) c ops)))"
proof -
  have "\<forall>x \<in> set ops. op_names x \<subseteq> case_names n i" using renamed_names assms(2) by blast
  note foot = hotel_target.run_footprint [OF assms(1) this, of H]
  have "case_names n j \<inter> case_names n i = {}"
    using case_names_disjoint [of contract m seed k n] assms(3-5) by auto
  then show ?thesis using unused_outside [OF foot] assms(6) by blast
qed

lemma init_keeps_names:
  assumes "host_documented H" and "initHotelTranslated H initial c = (Inr (), c1)"
    and "unused_names N (hotel_view (contract_state c))"
  shows "unused_names N (hotel_view (contract_state c1))"
proof -
  obtain p r l where "hotel_view (contract_state c1) = (hotel_view (contract_state c))\<lparr>ts_bridge := init_bridge initial,
      ts_price := p, ts_remain := r, ts_lockSize := l, ts_lockedTotal := 0\<rparr>"
    using init_hotel_view [OF assms(1,2)] by blast
  then show ?thesis using assms(3) by (simp add: unused_names_def del: hotel_view_simps)
qed

subsection \<open>A run of two cases\<close>

definition sample_prefix :: "nat \<Rightarrow> string" where
  "sample_prefix k = rc_caseId (makeTravelCase ''HotelBooking'' k 7)"

definition sample_hotel_ops :: "nat \<Rightarrow> hotel_operation list" where
  "sample_hotel_ops k = map (rename_travel (ns (namespacedCaseId ''vm'' (sample_prefix k)))
     (ns (namespacedCaseId ''vm'' (sample_prefix k)))) [BookLocal ''alice'' ''2'', LockState ''lock-a'' ''1'' ''9'']"

definition sample_live_initial :: hotel_initial where
  "sample_live_initial = \<lparr>init_bridge = ''Org1MSP'', init_price = show_int 7, init_remain = show_int 20,
     init_lockSize = show_int 1\<rparr>"

lemma sample_prefix_ne: "sample_prefix 0 \<noteq> sample_prefix 1"
  using padStart4_inject [of 0 1] by (simp add: sample_prefix_def makeTravelCase_def Let_def split_def)

lemma sample_init:
  "\<exists>c1. initHotelTranslated reference_host sample_live_initial c = (Inr (), c1) \<and>
     ts_price (hotel_view (contract_state c1)) \<noteq> 0"
  by (rule init_hotel_total [OF reference_host_documented, where p = 7 and r = 20 and l = 1])
    (simp_all add: initial_texts_def sample_live_initial_def in_u256_def)

text \<open>The contract after the first case, which has written to its storage.\<close>

definition after_first_case :: "hotel_storage chain \<Rightarrow> hotel_storage chain" where
  "after_first_case c = run_ops (executeTranslated reference_host hotel_contract) c (sample_hotel_ops 0)"

lemma sample_started:
  "\<exists>c1. initHotelTranslated reference_host sample_live_initial (deploy HotelBookingTranslated) = (Inr (), c1) \<and>
     ts_price (hotel_view (contract_state c1)) \<noteq> 0 \<and>
     unused_names (case_names ''vm'' (sample_prefix 1)) (hotel_view (contract_state c1))"
  using sample_init [of "deploy HotelBookingTranslated"]
    init_keeps_names [OF reference_host_documented _ deployed_unused] by blast

subsection \<open>Properties\<close>



text \<open>A case keeps to its names: the names of any other generated case are as unused after
  its operations as before, so the cases of a run cannot meet.\<close>

theorem hotel_case_footprint:
  assumes "ts_price (hotel_view (contract_state c)) \<noteq> 0"
    and "ops = map (rename_travel (ns (namespacedCaseId n i)) (ns (namespacedCaseId n i))) raw"
    and "i = rc_caseId (makeTravelCase contract k seed)" and "j = rc_caseId (makeTravelCase contract m seed)"
    and "i \<noteq> j" and "unused_names (case_names n j) (hotel_view (contract_state c))"
  shows "unused_names (case_names n j)
    (hotel_view (contract_state (run_ops (executeTranslated H hotel_contract) c ops)))"
  using assms by (rule footprint_unused)

theorem hotel_case_footprint_witness:
  "\<exists>c1. ts_price (hotel_view (contract_state c1)) \<noteq> 0 \<and>
     unused_names (case_names ''vm'' (sample_prefix 1)) (hotel_view (contract_state (after_first_case c1)))"
proof -
  obtain d1 where "initHotelTranslated reference_host sample_live_initial (deploy HotelBookingTranslated) = (Inr (), d1)"
      and d1: "ts_price (hotel_view (contract_state d1)) \<noteq> 0"
      "unused_names (case_names ''vm'' (sample_prefix 1)) (hotel_view (contract_state d1))"
    using sample_started by blast
  show ?thesis
    using d1(1) hotel_case_footprint [OF d1(1) sample_hotel_ops_def sample_prefix_def sample_prefix_def
        sample_prefix_ne d1(2), of reference_host]
    unfolding after_first_case_def by blast
qed

end
