(* ===== verification/Vm_Compare.thy ===== *)
theory Vm_Compare
  imports Vm_Runner Generated_Cases
begin

text \<open>
  What the live runner's comparison can and cannot see: when two results count as equal, which
  ids the cases get on the machines, and what the TokenTransfer run compares.
\<close>

subsection \<open>Comparing results\<close>

lemma compareOp_None:
  "compareOp parse a b compareReturns = None \<longleftrightarrow>
     op_ok a = op_ok b \<and> (op_ok a \<and> compareReturns \<longrightarrow>
       map (normalize_value parse) (returnValues a) = map (normalize_value parse) (returnValues b))"
proof -
  let ?x = "map (normalize_value parse) (returnValues a)" and ?y = "map (normalize_value parse) (returnValues b)"
  have "length ?x = length ?y \<Longrightarrow> first_difference 0 ?x ?y = None \<longleftrightarrow> ?x = ?y"
    by (rule first_difference_None)
  then show ?thesis
    by (cases "first_difference 0 ?x ?y")
      (auto simp: compareOp_def normalizeReturn_def Let_def dest: map_eq_imp_length_eq)
qed

lemma compareOp_refl [simp]: "compareOp parse a a compareReturns = None"
  by (simp add: compareOp_None)

text \<open>
  Documented behaviour of \<open>JSON.parse\<close> on the decimal texts of integers: a double is
  exact up to \<open>2\<^sup>5\<^sup>3\<close>, and the next integer is rounded to it.
\<close>

definition json_numbers :: "(string \<Rightarrow> json res) \<Rightarrow> bool" where
  "json_numbers parse \<longleftrightarrow>
     (\<forall>n. \<bar>n\<bar> \<le> 2 ^ 53 \<longrightarrow> parse (show_int n) = Inr (JsonNumber (show_int n))) \<and>
     parse (show_int (2 ^ 53 + 1)) = Inr (JsonNumber (show_int (2 ^ 53)))"

lemma show_int_not_bool: "show_int n \<noteq> ''true'' \<and> show_int n \<noteq> ''false''"
proof -
  have "BigInt ''true'' \<noteq> Inr n" "BigInt ''false'' \<noteq> Inr n" by (simp_all add: BigInt_def) code_simp+
  then show ?thesis using BigInt_show_int [of n] by metis
qed

lemma normalize_exact: "json_numbers parse \<Longrightarrow> \<bar>n\<bar> \<le> 2 ^ 53 \<Longrightarrow> normalize_value parse (show_int n) = show_int n"
  using show_int_not_bool [of n] by (simp add: normalize_value_def json_numbers_def)

definition reference_parse :: "string \<Rightarrow> json res" where
  "reference_parse t = (case BigInt t of
     Inl e \<Rightarrow> Inl e
   | Inr n \<Rightarrow> Inr (JsonNumber (show_int (if n = 2 ^ 53 + 1 then 2 ^ 53 else n))))"

lemma reference_parse_numbers: "json_numbers reference_parse"
  by (simp add: json_numbers_def reference_parse_def)

subsection \<open>The token run\<close>

lemma live_ops_same:
  "live_ops parse (\<lambda>x c. f c x) f (\<lambda>_. True) i (map (\<lambda>x. (x, x)) ops) c c =
     (None, run_ops f c ops, run_ops f c ops)"
  by (induction ops arbitrary: i c) (simp_all add: split_def Let_def)

lemma live_ops_renamed:
  "live_ops parse (\<lambda>x c. f c x) f (\<lambda>_. True) i (map ((\<lambda>x. (x, x)) \<circ> g) ops) c c =
     (None, run_ops f c (map g ops), run_ops f c (map g ops))"
  using live_ops_same [where ops = "map g ops"] by (simp only: map_map)

lemma send_token_both_same:
  "send_token_both H f (c, c) = (Inr (), d) \<Longrightarrow> fst d = snd d"
  "send_token_both H f (c, c) = (Inl e, d) \<Longrightarrow> fst d = snd d"
  by (auto simp: send_token_both_def split: sum.splits)

lemma mint_both_same: "fst ot = snd ot \<Longrightarrow> mint_both H prefix bs ot = (r, ot') \<Longrightarrow> fst ot' = snd ot'"
proof (induction bs arbitrary: ot)
  case (Cons b bs)
  obtain c where ot: "ot = (c, c)" using Cons.prems(1) by (metis prod.collapse)
  show ?case
    using Cons.prems(2) Cons.IH ot
    by (cases b)
      (auto split: sum.splits option.splits if_splits prod.splits unit.splits dest: send_token_both_same)
qed simp

lemma same_verdict: "cr_pass (snapshot_verdict testCase s s)"
  by (simp add: snapshot_verdict_def Let_def)

subsection \<open>Ids on the machines\<close>

lemma namespaceNumber_bound: "namespaceNumber n < 100000000"
  by (simp add: namespaceNumber_def)

lemma generated_suffixes:
  "l \<in> set lock_ids \<Longrightarrow> m \<in> set lock_ids \<Longrightarrow> lockNumber 0 l = lockNumber 0 m \<longleftrightarrow> l = m"
proof -
  have "map (lockNumber 0) lock_ids = [1, 2, 3]" by code_simp
  moreover assume "l \<in> set lock_ids" "m \<in> set lock_ids"
  ultimately show ?thesis by (auto simp: lock_ids_def)
qed

lemma lockNumber_split: "lockNumber k l = k * 10 + lockNumber 0 l" "lockNumber 0 l \<le> 3"
  by (simp_all add: lockNumber_def)

lemma auction_number_nth:
  assumes "distinct ids" and "k < length ids"
  shows "auction_number prefix ids (ids ! k) = Some (namespaceNumber (ns prefix (ids ! k)) * 1000 + Suc k)"
proof -
  have "zip ids [0..<length ids] ! k = (ids ! k, k)" using assms by simp
  then have "(ids ! k, k) \<in> set (zip ids [0..<length ids])" using assms by (metis (no_types, lifting) in_set_conv_nth length_map length_upt length_zip map_nth min_less_iff_conj)
  then show ?thesis
    unfolding auction_number_def using assms(1)
    by (intro map_of_is_SomeI) (force simp: comp_def split_def map_fst_zip)+
qed

lemma indexed_inj: "x * 1000 + Suc a = y * 1000 + Suc b \<Longrightarrow> a < 1000 \<Longrightarrow> b < 1000 \<Longrightarrow> a = b"
  for x y a b :: nat
proof -
  assume eq: "x * 1000 + Suc a = y * 1000 + Suc b" and lt: "a < 1000" "b < 1000"
  from eq have "(x * 1000 + a) mod 1000 = (y * 1000 + b) mod 1000" by simp
  then show "a = b" using lt by simp
qed

lemma auction_numbers_nth:
  assumes "k < length (sorted_members (auctionTouchedIds ops))"
  shows "auction_numbers prefix ops (sorted_members (auctionTouchedIds ops) ! k) =
    show_nat (namespaceNumber (ns prefix (sorted_members (auctionTouchedIds ops) ! k)) * 1000 + Suc k)"
  using auction_number_nth [OF distinct_sorted_members assms] by (simp add: auction_numbers_def)

lemma show_nat_int: "show_nat n = show_int (int n)"
  by (simp add: show_int_def)

lemma indexed_u256: "k < 1000 \<Longrightarrow> in_u256 (int (namespaceNumber t * 1000 + Suc k))"
  using namespaceNumber_bound [of t] by (simp add: in_u256_def)

subsection \<open>Properties\<close>

text \<open>On returned integers up to \<open>2\<^sup>5\<^sup>3\<close> the live comparison is exact; just above, two
  different balances count as equal, because returned texts are compared as JSON numbers.\<close>

theorem live_compare_exact:
  assumes "json_numbers parse"
  shows "(\<forall>xs ys. (\<forall>n \<in> set xs \<union> set ys. \<bar>n\<bar> \<le> 2 ^ 53) \<longrightarrow>
      (compareOp parse (succeed (map show_int xs)) (succeed (map show_int ys)) True = None \<longleftrightarrow> xs = ys)) \<and>
    compareOp parse (succeed [show_int (2 ^ 53)]) (succeed [show_int (2 ^ 53 + 1)]) True = None"
proof (intro conjI allI impI)
  fix xs ys :: "int list" assume small: "\<forall>n \<in> set xs \<union> set ys. \<bar>n\<bar> \<le> 2 ^ 53"
  have norm: "map (normalize_value parse) (map show_int zs) = map show_int zs"
    if "\<forall>n \<in> set zs. \<bar>n\<bar> \<le> 2 ^ 53" for zs
    using normalize_exact [OF assms] that by simp
  have "inj show_int" by (rule injI) simp
  moreover have "\<forall>n \<in> set xs. \<bar>n\<bar> \<le> 2 ^ 53" "\<forall>n \<in> set ys. \<bar>n\<bar> \<le> 2 ^ 53" using small by blast+
  ultimately show "compareOp parse (succeed (map show_int xs)) (succeed (map show_int ys)) True = None \<longleftrightarrow> xs = ys"
    using norm [of xs] norm [of ys] by (simp add: compareOp_None succeed_def inj_map_eq_map del: map_map)
next
  have "normalize_value parse (show_int (2 ^ 53 + 1)) = show_int (2 ^ 53)"
    using assms show_int_not_bool [of "2 ^ 53 + 1"] by (simp add: normalize_value_def json_numbers_def)
  moreover have "normalize_value parse (show_int (2 ^ 53)) = show_int (2 ^ 53)" by (rule normalize_exact [OF assms]) simp
  ultimately show "compareOp parse (succeed [show_int (2 ^ 53)]) (succeed [show_int (2 ^ 53 + 1)]) True = None"
    by (simp add: compareOp_None succeed_def)
qed

theorem live_compare_exact_witness:
  "compareOp reference_parse (succeed [show_int 41]) (succeed [show_int 42]) True \<noteq> None"
  using conjunct1 [OF live_compare_exact [OF reference_parse_numbers], rule_format, of "[41]" "[42]"] by force

text \<open>The live TokenTransfer run cannot report a failure: both sides are the same contract,
  so from equal storages every case passes or ends in an exception, and leaves equal storages.\<close>

theorem live_token_run_vacuous:
  assumes "fst ot = snd ot" and "runToken lc E H parse n testCase ot = (r, ot')"
  shows "fst ot' = snd ot' \<and> (\<forall>result. r = Inr result \<longrightarrow> cr_pass result)"
proof -
  let ?prefix = "namespacedCaseId n (rc_caseId testCase)"
  obtain c where ot: "ot = (c, c)" using assms(1) by (metis prod.collapse)
  obtain r1 ot1 where r1: "send_token_both H (\<lambda>s. Inr (token_Rq2Reset s)) ot = (r1, ot1)" by (rule prod.exhaust)
  have s1: "fst ot1 = snd ot1"
    using r1 send_token_both_same ot by (cases r1) auto
  obtain r2 ot2 where r2: "mint_both H ?prefix (init_balances (rc_initial testCase)) ot1 = (r2, ot2)" by (rule prod.exhaust)
  have s2: "fst ot2 = snd ot2" by (rule mint_both_same [OF s1 r2])
  show ?thesis
  proof (cases "\<exists>e. r1 = Inl e \<or> r2 = Inl e")
    case True
    then show ?thesis using assms(2) r1 r2 s1 s2 by (cases r1) (auto simp: runToken_def Let_def)
  next
    case False
    then obtain u v where "r1 = Inr u" "r2 = Inr v" by (cases r1; cases r2) auto
    then show ?thesis
      using assms(2) r1 r2 s2
      by (auto simp: runToken_def Let_def live_ops_renamed res_bind_Inr_iff same_verdict)
  qed
qed

theorem live_token_run_vacuous_witness:
  "fst (snd (runToken code_unit_compare reference_ethers reference_host reference_parse ''vm-1'' (makeTokenCase 0 7)
      (deploy TokenTransferTranslated, deploy TokenTransferTranslated))) =
   snd (snd (runToken code_unit_compare reference_ethers reference_host reference_parse ''vm-1'' (makeTokenCase 0 7)
      (deploy TokenTransferTranslated, deploy TokenTransferTranslated)))"
  using live_token_run_vacuous [OF _ prod.collapse [symmetric]] by (metis fst_conv snd_conv)

text \<open>The lock ids of a live train run are exact numbers and never clash: below
  \<open>2\<^sup>5\<^sup>3\<close> for the first 99,999 cases of a run, and different for different cases or locks.\<close>

theorem lock_numbers_exact:
  assumes "i < 100000" and "j < 100000" and "l \<in> set lock_ids" and "m \<in> set lock_ids"
  shows "lockMap n i l < 2 ^ 53 \<and> (lockMap n i l = lockMap n j m \<longleftrightarrow> i = j \<and> l = m)"
proof
  have "lockMap n i l \<le> 99999999 * 1000000 + (99999 * 10 + 3)"
    using namespaceNumber_bound [of n] assms(1) lockNumber_split(2) [of l]
    unfolding lockMap_def lockNumber_split(1) [of i l] by (intro add_mono mult_mono) auto
  also have "\<dots> < 2 ^ 53" by simp
  finally show "lockMap n i l < 2 ^ 53" .
  show "lockMap n i l = lockMap n j m \<longleftrightarrow> i = j \<and> l = m"
    using generated_suffixes [OF assms(3,4)] lockNumber_split(2) [of l] lockNumber_split(2) [of m]
    unfolding lockMap_def lockNumber_split(1) [of i l] lockNumber_split(1) [of j m] by auto presburger+
qed

theorem lock_numbers_exact_witness:
  "lockMap ''vm-1'' 3 ''lock-a'' < 2 ^ 53 \<and> lockMap ''vm-1'' 3 ''lock-a'' \<noteq> lockMap ''vm-1'' 3 ''lock-c''"
  using lock_numbers_exact [of 3 3 "''lock-a''" "''lock-c''" "''vm-1''"] by (simp add: lock_ids_def)

text \<open>Within a live auction case the translated ids are different for different auctions,
  whatever the hash does, and fit the contract's words.\<close>

theorem auction_numbers_distinct:
  assumes "length (sorted_members (auctionTouchedIds ops)) < 1000"
    and "i \<in> set (auctionTouchedIds ops)" and "j \<in> set (auctionTouchedIds ops)"
  shows "(auction_numbers prefix ops i = auction_numbers prefix ops j \<longleftrightarrow> i = j) \<and>
    (\<exists>k. auction_numbers prefix ops i = show_int k \<and> in_u256 k)"
proof -
  let ?ids = "sorted_members (auctionTouchedIds ops)"
  obtain a b where ab: "a < length ?ids" "i = ?ids ! a" "b < length ?ids" "j = ?ids ! b"
    using assms(2,3) by (metis in_set_conv_nth set_sorted_members)
  have lt: "a < 1000" "b < 1000" using ab assms(1) by linarith+
  note ia = auction_numbers_nth [OF ab(1), of prefix] and ib = auction_numbers_nth [OF ab(3), of prefix]
  have "auction_numbers prefix ops i = auction_numbers prefix ops j \<longrightarrow> a = b"
    unfolding ab ia ib show_nat_int show_int_inject of_nat_eq_iff using indexed_inj lt by blast
  then have "auction_numbers prefix ops i = auction_numbers prefix ops j \<longleftrightarrow> i = j" using ab by auto
  moreover have "\<exists>k. auction_numbers prefix ops i = show_int k \<and> in_u256 k"
    unfolding ab ia show_nat_int using indexed_u256 [OF lt(1)] by blast
  ultimately show ?thesis by (rule conjI)
qed

theorem auction_numbers_distinct_witness:
  "auction_numbers ''vm-1-auction-0001'' [Close ''1'', GetAuction ''2''] ''1'' \<noteq>
   auction_numbers ''vm-1-auction-0001'' [Close ''1'', GetAuction ''2''] ''2''"
proof -
  have "length (sorted_members (auctionTouchedIds [Close ''1'', GetAuction ''2''])) < 1000" by code_simp
  from auction_numbers_distinct [OF this, of "''1''" "''2''"] show ?thesis by (simp add: auctionTouchedIds_def)
qed

end
