(* ===== verification/Wasm_Daemon.thy ===== *)
theory Wasm_Daemon
  imports Js_Values
begin

text \<open>
  The submission daemon of \<open>scripts/xsmart/wasm-submit-daemon.ts\<close>: how an invoke request is
  turned into the arguments of a contract call and into the synthetic event the relayer reads,
  and the promise queue that serves the requests one at a time, as a step relation. The
  Substrate node is the environment: it decides when a transaction is finalised, fails, or
  leaves the daemon to its timeout.
\<close>

subsection \<open>Requests\<close>

type_synonym invoke_args = "string \<rightharpoonup> json"

record invoke_envelope =
  ie_contract :: "string option"
  ie_message :: "string option"
  ie_args :: "invoke_args option"

record invoke_request =
  ir_endpoint :: "string option"
  ir_envelope :: "invoke_envelope option"

text \<open>The values of call arguments and event fields.\<close>

datatype wasm_value = WText string | WBool bool

record invoke_event =
  ev_endpoint :: string
  ev_name :: string
  ev_args :: "(string \<times> wasm_value) list"

record invoke_result =
  iv_txHash :: string
  iv_blockNumber :: nat
  iv_event :: invoke_event

subsection \<open>Reading arguments\<close>

definition daemon_env :: "process_env \<Rightarrow> string \<Rightarrow> string \<Rightarrow> string" where
  "daemon_env env name fallback = js_or (env_trim env name) fallback"

definition is_lower_letter :: "char \<Rightarrow> bool" where
  "is_lower_letter c \<longleftrightarrow> 97 \<le> char_nat c \<and> char_nat c \<le> 122"

text \<open>\<open>replace(/_([a-z])/g, ...)\<close>.\<close>

fun camelMessage :: "string \<Rightarrow> string" where
  "camelMessage (c # d # cs) =
     (if c = CHR ''_'' \<and> is_lower_letter d then upper_char d # camelMessage cs
      else c # camelMessage (d # cs))"
| "camelMessage s = s"

definition uintArg :: "invoke_args \<Rightarrow> string \<Rightarrow> string res" where
  "uintArg args name =
     (case args name of
        None \<Rightarrow> Inl (''missing WASM arg '' @ name)
      | Some v \<Rightarrow> if v = JsonNull \<or> v = JsonString [] then Inl (''missing WASM arg '' @ name)
                  else Inr (js_string v))"

definition stringArg :: "invoke_args \<Rightarrow> string \<Rightarrow> string res" where
  "stringArg args name =
     (case args name of
        Some (JsonString s) \<Rightarrow>
          if js_trim s = [] then Inl (''missing WASM string arg '' @ name) else Inr (js_trim s)
      | _ \<Rightarrow> Inl (''missing WASM string arg '' @ name))"

definition boolArg :: "invoke_args \<Rightarrow> string \<Rightarrow> bool" where
  "boolArg args name =
     (case args name of
        Some (JsonBool b) \<Rightarrow> b
      | Some (JsonString s) \<Rightarrow> to_lower (js_trim s) = ''true''
      | _ \<Rightarrow> False)"

text \<open>The argument lists are built left to right; the first missing one is reported.\<close>

datatype arg_reader = UintOf string | TextOf string | BoolOf string

fun read_arg :: "invoke_args \<Rightarrow> arg_reader \<Rightarrow> wasm_value res" where
  "read_arg args (UintOf name) = res_bind (uintArg args name) (\<lambda>s. Inr (WText s))"
| "read_arg args (TextOf name) = res_bind (stringArg args name) (\<lambda>s. Inr (WText s))"
| "read_arg args (BoolOf name) = Inr (WBool (boolArg args name))"

definition message_readers :: "string \<Rightarrow> arg_reader list option" where
  "message_readers message =
     (if message = ''receive_lock_request'' then
        Some [UintOf ''cross_chain_tx_id'', UintOf ''num'', UintOf ''timeout_blocks'']
      else if message = ''receive_update_request'' then
        Some [UintOf ''cross_chain_tx_id'', UintOf ''new_remain'', TextOf ''user'', UintOf ''num'',
              UintOf ''total_cost'']
      else if message = ''receive_rollback_request'' \<or> message = ''receive_timeout_rollback'' then
        Some [UintOf ''cross_chain_tx_id'']
      else if message = ''gpact_segment'' then
        Some [TextOf ''tx_id'', TextOf ''call_tree_hash'', UintOf ''chain_id'', UintOf ''segment_id'']
      else if message = ''gpact_signalling'' then
        Some [TextOf ''tx_id'', TextOf ''call_tree_hash'', UintOf ''chain_id'', UintOf ''segment_id'',
              BoolOf ''commit'', BoolOf ''abort_tx'']
      else if message = ''gpact_timeout_unlock'' then
        Some [TextOf ''tx_id'', UintOf ''chain_id'', UintOf ''segment_id'']
      else if message = ''atom_lock_do'' then
        Some [TextOf ''invoke_id'', TextOf ''lock_hash'', TextOf ''kind'', TextOf ''user'',
              UintOf ''amount_a'', UintOf ''amount_b'']
      else if message = ''atom_unlock'' \<or> message = ''atom_undo_unlock'' then
        Some [TextOf ''invoke_id'', TextOf ''hash_key_hex'', TextOf ''kind'']
      else None)"

definition messageArgs :: "string \<Rightarrow> invoke_args \<Rightarrow> wasm_value list res" where
  "messageArgs message args =
     (case message_readers message of
        Some readers \<Rightarrow> res_mapM (read_arg args) readers
      | None \<Rightarrow> Inl (''unsupported WASM message '' @ message))"

subsection \<open>The synthetic event\<close>

definition atomEventName :: "invoke_args \<Rightarrow> string \<Rightarrow> string res" where
  "atomEventName args suffix =
     res_bind (stringArg args ''kind'') (\<lambda>raw.
       let kind = to_lower raw in
       Inr ((if str_includes kind ''train'' then ''AtomTrain''
             else if str_includes kind ''flight'' then ''AtomFlight''
             else if str_includes kind ''taxi'' then ''AtomTaxi''
             else ''AtomHotel'') @ suffix))"

text \<open>Fields of an event, in order: read from an argument under another name, or constant.\<close>

datatype event_field = FromArg string arg_reader | Const string wasm_value

fun read_field :: "invoke_args \<Rightarrow> event_field \<Rightarrow> (string \<times> wasm_value) res" where
  "read_field args (FromArg field reader) = res_bind (read_arg args reader) (\<lambda>v. Inr (field, v))"
| "read_field args (Const field v) = Inr (field, v)"

text \<open>\<open>String(args.commit ?? "false") === "true"\<close>.\<close>

definition event_commit :: "invoke_args \<Rightarrow> bool" where
  "event_commit args =
     ((case args ''commit'' of None \<Rightarrow> ''false'' | Some JsonNull \<Rightarrow> ''false'' | Some v \<Rightarrow> js_string v) = ''true'')"

definition zero_hex :: "nat \<Rightarrow> string" where
  "zero_hex n = ''0x'' @ replicate n (CHR ''0'')"

definition event_fields :: "string \<Rightarrow> invoke_args \<Rightarrow> event_field list" where
  "event_fields message args =
     (if message = ''receive_lock_request'' then
        [FromArg ''crossChainTxId'' (UintOf ''cross_chain_tx_id''), Const ''stateContract'' (WText (zero_hex 40)),
         Const ''lockedState'' (WText ''0x''), Const ''irHash'' (WText (zero_hex 64)), Const ''proof'' (WText ''0x'')]
      else if message = ''receive_update_request'' then
        [FromArg ''crossChainTxId'' (UintOf ''cross_chain_tx_id''), Const ''stateContract'' (WText (zero_hex 40)),
         Const ''success'' (WBool True)]
      else if message = ''receive_rollback_request'' \<or> message = ''receive_timeout_rollback'' then
        [FromArg ''crossChainTxId'' (UintOf ''cross_chain_tx_id'')]
      else if message = ''gpact_segment'' then
        [FromArg ''crosschainTxId'' (TextOf ''tx_id''), FromArg ''chainId'' (UintOf ''chain_id''),
         FromArg ''segmentId'' (UintOf ''segment_id''), FromArg ''callTreeHash'' (TextOf ''call_tree_hash''),
         Const ''success'' (WBool True), Const ''locked'' (WBool True), Const ''result'' (WText ''0x'')]
      else if message = ''gpact_signalling'' then
        [FromArg ''crosschainTxId'' (TextOf ''tx_id''), FromArg ''chainId'' (UintOf ''chain_id''),
         FromArg ''segmentId'' (UintOf ''segment_id''), Const ''commit'' (WBool (event_commit args))]
      else if message = ''gpact_timeout_unlock'' then
        [FromArg ''crosschainTxId'' (TextOf ''tx_id''), FromArg ''chainId'' (UintOf ''chain_id''),
         FromArg ''segmentId'' (UintOf ''segment_id''), Const ''commit'' (WBool False)]
      else [FromArg ''invokeId'' (TextOf ''invoke_id'')])"

definition event_name :: "string \<Rightarrow> invoke_args \<Rightarrow> string res" where
  "event_name message args =
     (if message = ''receive_lock_request'' then Inr ''CrossChainLockResponse''
      else if message = ''receive_update_request'' then Inr ''CrossChainUpdateAck''
      else if message = ''receive_rollback_request'' \<or> message = ''receive_timeout_rollback'' then
        Inr ''CrossChainRollback''
      else if message = ''gpact_segment'' then Inr ''SegmentEvent''
      else if message = ''gpact_signalling'' \<or> message = ''gpact_timeout_unlock'' then Inr ''SignallingEvent''
      else if message = ''atom_lock_do'' then atomEventName args ''Locked''
      else if message = ''atom_unlock'' then atomEventName args ''Unlocked''
      else if message = ''atom_undo_unlock'' then atomEventName args ''UndoUnlocked''
      else Inl (''unsupported WASM message '' @ message))"

definition syntheticEvent :: "string \<Rightarrow> string \<Rightarrow> invoke_args \<Rightarrow> invoke_event res" where
  "syntheticEvent endpoint message args =
     res_bind (event_name message args) (\<lambda>name.
     res_bind (res_mapM (read_field args) (event_fields message args)) (\<lambda>fields.
       Inr \<lparr>ev_endpoint = endpoint, ev_name = name, ev_args = fields\<rparr>))"

definition isAdapterMessage :: "string \<Rightarrow> bool" where
  "isAdapterMessage message \<longleftrightarrow> starts_with message ''gpact_'' \<or> starts_with message ''atom_''"

subsection \<open>Preparing a submission\<close>

text \<open>
  The contract object of the library: the names of its transactions at a target address, or
  the error its construction throws. It is fixed by the bridge metadata the daemon loaded.
\<close>

record daemon_config =
  dc_endpoint :: string
  dc_methods :: "string \<Rightarrow> string list res"

record submission =
  sb_target :: string
  sb_method :: string
  sb_message :: string
  sb_args :: invoke_args
  sb_values :: "wasm_value list"
  sb_label :: string

text \<open>The first of the identifying arguments that is present, for the log and the timeout error.\<close>

definition tx_label :: "invoke_args \<Rightarrow> string" where
  "tx_label args =
     (case filter (\<lambda>v. \<not> nullish v) [args ''tx_id'', args ''invoke_id'', args ''cross_chain_tx_id''] of
        Some v # vs \<Rightarrow> js_string v
      | _ \<Rightarrow> ''unknown'')"

definition opt_text :: "string option \<Rightarrow> string" where
  "opt_text s = (case s of Some t \<Rightarrow> t | None \<Rightarrow> [])"

definition prepare_submission :: "daemon_config \<Rightarrow> invoke_request \<Rightarrow> submission res" where
  "prepare_submission D req =
     (case ir_envelope req of
        None \<Rightarrow> Inl ''missing WASM invoke envelope''
      | Some envelope \<Rightarrow>
          (case (ie_message envelope, ie_args envelope) of
             (Some message, Some args) \<Rightarrow>
               if message = [] then Inl ''missing WASM invoke envelope''
               else
                 let target = js_trim (js_or (opt_text (ir_endpoint req))
                                (js_or (opt_text (ie_contract envelope)) (dc_endpoint D))) in
                 if target = [] then Inl ''missing WASM endpoint''
                 else
                   res_bind (dc_methods D target) (\<lambda>methods.
                   let method = (if camelMessage message \<in> set methods then camelMessage message else message) in
                   if method \<notin> set methods then Inl (''WASM contract method not found: '' @ message)
                   else
                     res_bind (messageArgs message args) (\<lambda>values.
                       Inr \<lparr>sb_target = target, sb_method = method, sb_message = message, sb_args = args,
                            sb_values = values, sb_label = tx_label args\<rparr>))
           | _ \<Rightarrow> Inl ''missing WASM invoke envelope''))"

text \<open>What is sent back once the transaction is in a block.\<close>

definition invoke_answer :: "submission \<Rightarrow> string \<Rightarrow> nat \<Rightarrow> invoke_result res" where
  "invoke_answer s hash block =
     res_bind (syntheticEvent (sb_target s) (sb_message s) (sb_args s)) (\<lambda>event.
       Inr \<lparr>iv_txHash = hash, iv_blockNumber = block, iv_event = event\<rparr>)"

definition timeout_text :: "submission \<Rightarrow> nat \<Rightarrow> string" where
  "timeout_text s ms =
     ''WASM invoke '' @ sb_message s @ '' tx='' @ sb_label s @ '' timed out after '' @ show_nat ms @ ''ms''"

datatype http_route = HealthRoute | InvokeRoute | UnknownRoute

definition daemon_route :: "string \<Rightarrow> string \<Rightarrow> http_route" where
  "daemon_route verb url =
     (if verb = ''GET'' \<and> url = ''/health'' then HealthRoute
      else if verb = ''POST'' \<and> url = ''/invoke'' then InvokeRoute
      else UnknownRoute)"

subsection \<open>Arguments and events read the same fields\<close>

fun field_reader :: "event_field \<Rightarrow> arg_reader list" where
  "field_reader (FromArg field reader) = [reader]"
| "field_reader (Const field v) = []"

definition readable :: "invoke_args \<Rightarrow> arg_reader \<Rightarrow> bool" where
  "readable args r \<longleftrightarrow> (\<exists>v. read_arg args r = Inr v)"

lemma res_mapM_readable:
  "res_mapM (read_arg args) rs = Inr vs \<Longrightarrow> r \<in> set rs \<Longrightarrow> readable args r"
  by (induction rs arbitrary: vs) (auto simp: readable_def res_bind_Inr_iff)

lemma read_fields_total:
  "(\<And>r. r \<in> set (concat (map field_reader fs)) \<Longrightarrow> readable args r) \<Longrightarrow>
     \<exists>fields. res_mapM (read_field args) fs = Inr fields"
proof (induction fs)
  case (Cons f fs)
  have "\<exists>fields. res_mapM (read_field args) fs = Inr fields" using Cons by simp
  moreover have "\<exists>v. read_field args f = Inr v"
  proof (cases f)
    case (FromArg field r)
    then have "readable args r" using Cons.prems by simp
    then show ?thesis using FromArg by (auto simp: readable_def)
  qed simp
  ultimately show ?case by auto
qed simp

text \<open>Every argument an event needs is one of the call's, with the same reader.\<close>

definition wasm_messages :: "string list" where
  "wasm_messages = [''receive_lock_request'', ''receive_update_request'', ''receive_rollback_request'',
     ''receive_timeout_rollback'', ''gpact_segment'', ''gpact_signalling'', ''gpact_timeout_unlock'',
     ''atom_lock_do'', ''atom_unlock'', ''atom_undo_unlock'']"

lemma message_known: "message_readers message = Some rs \<Longrightarrow> message \<in> set wasm_messages"
  by (rule ccontr) (simp add: message_readers_def wasm_messages_def)

lemma event_readers_known:
  "\<forall>m \<in> set wasm_messages. \<forall>r \<in> set (concat (map field_reader (event_fields m args))).
     r \<in> set (the (message_readers m))"
  by (simp add: wasm_messages_def event_fields_def message_readers_def)

lemma event_name_known:
  "\<forall>m \<in> set wasm_messages. (\<exists>name. event_name m args = Inr name) \<or>
     TextOf ''kind'' \<in> set (the (message_readers m)) \<and>
     (\<exists>suffix. event_name m args = atomEventName args suffix)"
  by (simp add: wasm_messages_def event_name_def message_readers_def) blast

lemma event_readers:
  assumes "message_readers message = Some rs"
  shows "set (concat (map field_reader (event_fields message args))) \<subseteq> set rs"
  using event_readers_known [of args] message_known [OF assms] assms by (auto dest!: bspec)

lemma event_name_total:
  assumes "message_readers message = Some rs" and "\<And>r. r \<in> set rs \<Longrightarrow> readable args r"
  shows "\<exists>name. event_name message args = Inr name"
proof -
  have "TextOf ''kind'' \<in> set rs \<Longrightarrow> \<exists>name. atomEventName args suffix = Inr name" for suffix
    using assms(2) [of "TextOf ''kind''"]
    by (auto simp: readable_def atomEventName_def res_bind_Inr_iff Let_def)
  moreover have "(\<exists>name. event_name message args = Inr name) \<or> TextOf ''kind'' \<in> set rs \<and>
      (\<exists>suffix. event_name message args = atomEventName args suffix)"
    using bspec [OF event_name_known message_known [OF assms(1)]] assms(1) by (metis option.sel)
  ultimately show ?thesis by metis
qed

lemma event_after_args:
  assumes "messageArgs message args = Inr values"
  shows "\<exists>event. syntheticEvent endpoint message args = Inr event \<and> ev_endpoint event = endpoint"
proof -
  obtain rs where rs: "message_readers message = Some rs" "res_mapM (read_arg args) rs = Inr values"
    using assms by (auto simp: messageArgs_def split: option.splits)
  have readable: "r \<in> set rs \<Longrightarrow> readable args r" for r by (rule res_mapM_readable [OF rs(2)])
  obtain name where "event_name message args = Inr name" using event_name_total [OF rs(1) readable] by blast
  moreover obtain fields where "res_mapM (read_field args) (event_fields message args) = Inr fields"
    using read_fields_total [of "event_fields message args" args] event_readers [OF rs(1)] readable by blast
  ultimately show ?thesis by (simp add: syntheticEvent_def)
qed

lemma prepare_submissionE:
  assumes "prepare_submission D req = Inr s"
  obtains "messageArgs (sb_message s) (sb_args s) = Inr (sb_values s)" "sb_target s \<noteq> []"
  using assms unfolding prepare_submission_def
  by (auto simp: Let_def res_bind_Inr_iff split: option.splits if_splits prod.splits)

lemma invoke_answer_total:
  "prepare_submission D req = Inr s \<Longrightarrow> \<exists>result. invoke_answer s hash block = Inr result"
  using event_after_args [of "sb_message s" "sb_args s" "sb_values s" "sb_target s"]
  by (auto elim!: prepare_submissionE simp: invoke_answer_def)

subsection \<open>Properties\<close>

definition sample_signalling :: "string \<Rightarrow> invoke_args" where
  "sample_signalling commit =
     [''tx_id'' \<mapsto> JsonString ''0x01'', ''call_tree_hash'' \<mapsto> JsonString ''0x02'',
      ''chain_id'' \<mapsto> JsonNumber ''2'', ''segment_id'' \<mapsto> JsonNumber ''1'', ''commit'' \<mapsto> JsonString commit]"


definition sample_daemon :: daemon_config where
  "sample_daemon = \<lparr>dc_endpoint = ''5GrwvaEF'', dc_methods = (\<lambda>_. Inr [''gpactSignalling'', ''atomUnlock''])\<rparr>"

definition sample_request :: invoke_request where
  "sample_request = \<lparr>ir_endpoint = None, ir_envelope = Some \<lparr>ie_contract = None,
     ie_message = Some ''gpact_signalling'', ie_args = Some (sample_signalling ''TRUE'')\<rparr>\<rparr>"

lemma sample_prepared:
  "prepare_submission sample_daemon sample_request =
     Inr \<lparr>sb_target = ''5GrwvaEF'', sb_method = ''gpactSignalling'', sb_message = ''gpact_signalling'',
       sb_args = sample_signalling ''TRUE'',
       sb_values = [WText ''0x01'', WText ''0x02'', WText ''2'', WText ''1'', WBool True, WBool False],
       sb_label = ''0x01''\<rparr>"
proof -
  have "camelMessage ''gpact_signalling'' = ''gpactSignalling''" "js_trim ''5GrwvaEF'' = ''5GrwvaEF''"
    "messageArgs ''gpact_signalling'' (sample_signalling ''TRUE'') =
       Inr [WText ''0x01'', WText ''0x02'', WText ''2'', WText ''1'', WBool True, WBool False]"
    "tx_label (sample_signalling ''TRUE'') = ''0x01''"
    by code_simp+
  then show ?thesis
    by (simp add: prepare_submission_def sample_daemon_def sample_request_def opt_text_def)
qed


text \<open>The commit flag of a gpact signalling: for a textual flag the call and the event agree
  exactly when the text is \<open>true\<close> itself or does not read as true at all. A flag such as
  \<open>TRUE\<close> commits on chain while the event reports an abort.\<close>

theorem signalling_commit_agreement:
  assumes "args ''commit'' = Some (JsonString t)"
  shows "boolArg args ''commit'' = event_commit args \<longleftrightarrow> t = ''true'' \<or> to_lower (js_trim t) \<noteq> ''true''"
proof -
  have "to_lower (js_trim ''true'') = ''true''" by code_simp
  then show ?thesis using assms by (auto simp: boolArg_def event_commit_def)
qed

theorem signalling_commit_agreement_witness:
  "boolArg (sample_signalling ''TRUE'') ''commit'' \<noteq> event_commit (sample_signalling ''TRUE'')"
proof -
  have "to_lower (js_trim ''TRUE'') = ''true''" by code_simp
  then show ?thesis
    using signalling_commit_agreement [of "sample_signalling ''TRUE''" "''TRUE''"]
    by (simp add: sample_signalling_def)
qed

end
