(* ===== verification/Wasm_Queue.thy ===== *)
theory Wasm_Queue
  imports Wasm_Daemon
begin

text \<open>
  The promise queue of the daemon: \<open>task = queue.then(() => invoke(request))\<close> with
  \<open>queue = task.catch(...)\<close>. Requests wait in the order in which their bodies were read;
  one invoke runs at a time and ends by the node's report or by the timeout that races it. A
  submission that lost the race is still with the node, and may be finalised later.
\<close>

subsection \<open>State and steps\<close>

datatype daemon_answer = Reply invoke_result | Failure string

text \<open>A request is named by its arrival number.\<close>

record daemon_state =
  ds_next :: nat
  ds_waiting :: "(nat \<times> invoke_request) list"
  ds_running :: "(nat \<times> submission) option"
  ds_abandoned :: "(nat \<times> submission) list"
  ds_answers :: "(nat \<times> daemon_answer) list"
  ds_finalised :: "nat list"

definition daemon_start :: daemon_state where
  "daemon_start = \<lparr>ds_next = 0, ds_waiting = [], ds_running = None, ds_abandoned = [],
     ds_answers = [], ds_finalised = []\<rparr>"

definition enqueue_request :: "invoke_request \<Rightarrow> daemon_state \<Rightarrow> daemon_state" where
  "enqueue_request req s = s\<lparr>ds_next := Suc (ds_next s), ds_waiting := ds_waiting s @ [(ds_next s, req)]\<rparr>"

definition answer :: "nat \<Rightarrow> daemon_answer \<Rightarrow> daemon_state \<Rightarrow> daemon_state" where
  "answer i a s = s\<lparr>ds_running := None, ds_answers := ds_answers s @ [(i, a)]\<rparr>"

text \<open>The head of the queue starts: it is refused before the node sees it, or submitted.\<close>

definition start_invoke :: "daemon_config \<Rightarrow> nat \<Rightarrow> invoke_request \<Rightarrow> daemon_state \<Rightarrow> daemon_state" where
  "start_invoke D i req s = (case prepare_submission D req of
     Inl e \<Rightarrow> answer i (Failure e) s
   | Inr sub \<Rightarrow> s\<lparr>ds_running := Some (i, sub)\<rparr>)"

definition finish_invoke :: "nat \<Rightarrow> submission \<Rightarrow> string \<Rightarrow> nat \<Rightarrow> daemon_state \<Rightarrow> daemon_state" where
  "finish_invoke i sub hash block s = (case invoke_answer sub hash block of
     Inl e \<Rightarrow> answer i (Failure e) s
   | Inr r \<Rightarrow> answer i (Reply r) s)\<lparr>ds_finalised := ds_finalised s @ [i]\<rparr>"

text \<open>The steps that answer requests, and those of clients and of the node on its own.\<close>

inductive serve_step :: "daemon_config \<Rightarrow> nat \<Rightarrow> daemon_state \<Rightarrow> daemon_state \<Rightarrow> bool" for D ms where
  start: "ds_running s = None \<Longrightarrow> ds_waiting s = (i, req) # w \<Longrightarrow>
    serve_step D ms s (start_invoke D i req (s\<lparr>ds_waiting := w\<rparr>))"
| finish: "ds_running s = Some (i, sub) \<Longrightarrow> serve_step D ms s (finish_invoke i sub hash block s)"
| reject: "ds_running s = Some (i, sub) \<Longrightarrow> serve_step D ms s (answer i (Failure e) s)"
| expire: "ds_running s = Some (i, sub) \<Longrightarrow>
    serve_step D ms s (answer i (Failure (timeout_text sub ms)) (s\<lparr>ds_abandoned := ds_abandoned s @ [(i, sub)]\<rparr>))"

inductive daemon_step :: "daemon_config \<Rightarrow> nat \<Rightarrow> daemon_state \<Rightarrow> daemon_state \<Rightarrow> bool" for D ms where
  arrive: "daemon_step D ms s (enqueue_request req s)"
| serve: "serve_step D ms s s' \<Longrightarrow> daemon_step D ms s s'"
| late: "ds_abandoned s = a @ (i, sub) # b \<Longrightarrow>
    daemon_step D ms s (s\<lparr>ds_abandoned := a @ b, ds_finalised := ds_finalised s @ [i]\<rparr>)"
| drop: "ds_abandoned s = a @ (i, sub) # b \<Longrightarrow> daemon_step D ms s (s\<lparr>ds_abandoned := a @ b\<rparr>)"

inductive_cases serve_stepE: "serve_step D ms s s'"
inductive_cases daemon_stepE: "daemon_step D ms s s'"

inductive daemon_reachable :: "daemon_config \<Rightarrow> nat \<Rightarrow> daemon_state \<Rightarrow> bool" for D ms where
  init: "daemon_reachable D ms daemon_start"
| step: "daemon_reachable D ms s \<Longrightarrow> daemon_step D ms s s' \<Longrightarrow> daemon_reachable D ms s'"

subsection \<open>First come, first served\<close>

definition running_id :: "daemon_state \<Rightarrow> nat list" where
  "running_id s = (case ds_running s of Some (i, sub) \<Rightarrow> [i] | None \<Rightarrow> [])"

text \<open>Every request is answered, running or waiting exactly once, in the order of arrival.\<close>

definition fifo :: "daemon_state \<Rightarrow> bool" where
  "fifo s \<longleftrightarrow> map fst (ds_answers s) @ running_id s @ map fst (ds_waiting s) = [0..<ds_next s]"

text \<open>
  What the node did with the submissions: each is with the daemon, abandoned or finalised at
  most once; a reply is sent for finalised ones only, and a failure reported for one that is
  finalised or still with the node is the timeout.
\<close>

definition settled :: "daemon_config \<Rightarrow> nat \<Rightarrow> daemon_state \<Rightarrow> bool" where
  "settled D ms s \<longleftrightarrow>
     distinct (ds_finalised s @ map fst (ds_abandoned s)) \<and>
     set (ds_finalised s @ map fst (ds_abandoned s)) \<subseteq> set (map fst (ds_answers s)) \<and>
     (\<forall>i r. (i, Reply r) \<in> set (ds_answers s) \<longrightarrow> i \<in> set (ds_finalised s)) \<and>
     (\<forall>i e. (i, Failure e) \<in> set (ds_answers s) \<longrightarrow> i \<in> set (ds_finalised s @ map fst (ds_abandoned s)) \<longrightarrow>
        (\<exists>sub. e = timeout_text sub ms)) \<and>
     (\<forall>i sub. ds_running s = Some (i, sub) \<longrightarrow> (\<exists>req. prepare_submission D req = Inr sub))"

lemmas daemon_ops = enqueue_request_def answer_def start_invoke_def finish_invoke_def running_id_def

lemma serve_fifo: "serve_step D ms s s' \<Longrightarrow> fifo s \<Longrightarrow> fifo s'"
  by (erule serve_stepE) (auto simp: fifo_def daemon_ops split: sum.splits)

lemma daemon_fifo: "daemon_step D ms s s' \<Longrightarrow> fifo s \<Longrightarrow> fifo s'"
proof (erule daemon_stepE)
  fix req assume "s' = enqueue_request req s" "fifo s"
  then show ?thesis by (simp add: fifo_def daemon_ops flip: append_assoc)
qed (auto simp: serve_fifo, auto simp: fifo_def running_id_def)

lemma fifo_running:
  assumes "fifo s" and "ds_running s = Some (i, sub)"
  shows "i \<notin> fst ` set (ds_answers s)"
proof -
  have "distinct (map fst (ds_answers s) @ [i] @ map fst (ds_waiting s))"
    using assms by (simp add: fifo_def running_id_def del: append_Cons)
  then show ?thesis by simp
qed

lemma settled_unique:
  "settled D ms s \<Longrightarrow> distinct (ds_finalised s) \<and> distinct (ds_finalised s @ map fst (ds_abandoned s))"
  by (simp add: settled_def)

lemma settled_answered:
  "settled D ms s \<Longrightarrow> j \<in> set (ds_finalised s @ map fst (ds_abandoned s)) \<Longrightarrow> j \<in> fst ` set (ds_answers s)"
  unfolding settled_def set_map [symmetric] by blast

lemma settled_reply: "settled D ms s \<Longrightarrow> (j, Reply r) \<in> set (ds_answers s) \<Longrightarrow> j \<in> set (ds_finalised s)"
  unfolding settled_def by blast

lemma settled_failure:
  "settled D ms s \<Longrightarrow> (j, Failure e) \<in> set (ds_answers s) \<Longrightarrow> j \<in> set (ds_finalised s) \<Longrightarrow>
     \<exists>sub. e = timeout_text sub ms"
  unfolding settled_def by simp

lemma settled_running:
  "settled D ms s \<Longrightarrow> ds_running s = Some (j, sub) \<Longrightarrow> \<exists>req. prepare_submission D req = Inr sub"
  unfolding settled_def by blast

text \<open>Answering a request that no submission is settled for keeps the books.\<close>

lemma settled_answer:
  assumes d: "settled D ms s" and i: "i \<notin> fst ` set (ds_answers s)"
  shows "settled D ms (answer i (Failure e) s)"
proof -
  have "i \<notin> set (ds_finalised s @ map fst (ds_abandoned s))" using settled_answered [OF d] i by blast
  then show ?thesis using d unfolding settled_def by (auto simp: answer_def)
qed

lemma start_unanswered:
  assumes "fifo s" and "ds_waiting s = (i, req) # w"
  shows "i \<notin> fst ` set (ds_answers s)"
proof -
  have "distinct (map fst (ds_answers s) @ running_id s @ i # map fst w)"
    using assms by (simp add: fifo_def)
  then show ?thesis by simp
qed

lemma serve_settled:
  assumes "serve_step D ms s s'" and f: "fifo s" and d: "settled D ms s"
  shows "settled D ms s'"
  using assms(1)
proof (rule serve_stepE)
  fix i req w assume r: "ds_running s = None" "ds_waiting s = (i, req) # w"
    "s' = start_invoke D i req (s\<lparr>ds_waiting := w\<rparr>)"
  have w: "settled D ms (s\<lparr>ds_waiting := w\<rparr>)" using d by (simp add: settled_def)
  show ?thesis
  proof (cases "prepare_submission D req")
    case (Inl e)
    then show ?thesis using r(3) settled_answer [OF w, of i e] start_unanswered [OF f r(2)]
      by (simp add: start_invoke_def)
  next
    case (Inr sub)
    then show ?thesis using r(3) w by (auto simp: start_invoke_def settled_def)
  qed
next
  fix i sub hash block assume r: "ds_running s = Some (i, sub)" "s' = finish_invoke i sub hash block s"
  obtain req where "prepare_submission D req = Inr sub" using settled_running [OF d r(1)] by blast
  then obtain result where "invoke_answer sub hash block = Inr result" using invoke_answer_total by blast
  then have s': "s' = (answer i (Reply result) s)\<lparr>ds_finalised := ds_finalised s @ [i]\<rparr>"
    using r(2) by (simp add: finish_invoke_def)
  have "i \<notin> set (ds_finalised s @ map fst (ds_abandoned s))"
    using settled_answered [OF d] fifo_running [OF f r(1)] by blast
  moreover have "(i, a) \<notin> set (ds_answers s)" for a using fifo_running [OF f r(1)] by force
  ultimately show ?thesis using d unfolding settled_def s' by (auto simp: answer_def)
next
  fix i sub e assume r: "ds_running s = Some (i, sub)" "s' = answer i (Failure e) s"
  then show ?thesis using settled_answer [OF d fifo_running [OF f r(1)]] by simp
next
  fix i sub assume r: "ds_running s = Some (i, sub)"
    and s': "s' = answer i (Failure (timeout_text sub ms)) (s\<lparr>ds_abandoned := ds_abandoned s @ [(i, sub)]\<rparr>)"
  have "i \<notin> set (ds_finalised s @ map fst (ds_abandoned s))"
    using settled_answered [OF d] fifo_running [OF f r(1)] by blast
  moreover have "(i, a) \<notin> set (ds_answers s)" for a using fifo_running [OF f r(1)] by force
  ultimately show ?thesis using d unfolding settled_def s' by (auto simp: answer_def)
qed

lemma daemon_settled:
  assumes "daemon_step D ms s s'" and f: "fifo s" and d: "settled D ms s"
  shows "settled D ms s'"
  using assms(1)
proof (rule daemon_stepE)
  assume "serve_step D ms s s'"
  then show ?thesis using f d by (rule serve_settled)
next
  fix req assume "s' = enqueue_request req s"
  then show ?thesis using d by (simp add: settled_def enqueue_request_def)
next
  fix a i sub b assume "ds_abandoned s = a @ (i, sub) # b"
    "s' = s\<lparr>ds_abandoned := a @ b, ds_finalised := ds_finalised s @ [i]\<rparr>"
  then show ?thesis using d unfolding settled_def by (force simp: image_iff)
next
  fix a i sub b assume "ds_abandoned s = a @ (i, sub) # b" "s' = s\<lparr>ds_abandoned := a @ b\<rparr>"
  then show ?thesis using d unfolding settled_def by (force simp: image_iff)
qed

lemma reachable_invariant: "daemon_reachable D ms s \<Longrightarrow> fifo s \<and> settled D ms s"
proof (induction rule: daemon_reachable.induct)
  case init
  show ?case by (simp add: fifo_def settled_def daemon_start_def running_id_def)
qed (use daemon_fifo daemon_settled in blast)

subsection \<open>The queue drains\<close>

definition pending_work :: "daemon_state \<Rightarrow> nat" where
  "pending_work s = 2 * length (ds_waiting s) + length (running_id s)"

lemma serve_decreases: "serve_step D ms s s' \<Longrightarrow> pending_work s' < pending_work s"
  by (erule serve_stepE) (auto simp: pending_work_def daemon_ops split: sum.splits)

lemma serve_run_bound: "((serve_step D ms) ^^ n) s s' \<Longrightarrow> n + pending_work s' \<le> pending_work s"
proof (induction n arbitrary: s')
  case (Suc n)
  then obtain t where "((serve_step D ms) ^^ n) s t" "serve_step D ms t s'" by auto
  then show ?case using Suc.IH [of t] serve_decreases [of D ms t s'] by linarith
qed simp

lemma serve_run_fifo: "((serve_step D ms) ^^ n) s s' \<Longrightarrow> fifo s \<Longrightarrow> fifo s' \<and> ds_next s' = ds_next s"
proof (induction n arbitrary: s')
  case (Suc n)
  then obtain t where t: "((serve_step D ms) ^^ n) s t" "serve_step D ms t s'" by auto
  then have "fifo t \<and> ds_next t = ds_next s" using Suc by blast
  moreover have "ds_next s' = ds_next t"
    using t(2) by (rule serve_stepE) (auto simp: daemon_ops split: sum.splits)
  ultimately show ?case using serve_fifo [OF t(2)] by simp
qed simp

lemma stuck_idle: "(\<And>s'. \<not> serve_step D ms s s') \<Longrightarrow> ds_running s = None \<and> ds_waiting s = []"
proof (rule ccontr)
  assume stuck: "\<And>s'. \<not> serve_step D ms s s'" and "\<not> (ds_running s = None \<and> ds_waiting s = [])"
  then consider i sub where "ds_running s = Some (i, sub)"
    | i req w where "ds_running s = None" "ds_waiting s = (i, req) # w"
    by (cases "ds_running s"; cases "ds_waiting s") auto
  then show False using stuck serve_step.intros by cases blast+
qed

subsection \<open>A run with a timeout\<close>

text \<open>
  The same request twice, as by a client that retries: the first submission times out and is
  finalised late, the second is finalised and answered.
\<close>

definition retry_queued :: "invoke_request \<Rightarrow> daemon_state" where
  "retry_queued req = enqueue_request req (enqueue_request req daemon_start)"

definition retry_final :: "nat \<Rightarrow> submission \<Rightarrow> invoke_result \<Rightarrow> daemon_state" where
  "retry_final ms sub r = \<lparr>ds_next = 2, ds_waiting = [], ds_running = None, ds_abandoned = [],
     ds_answers = [(0, Failure (timeout_text sub ms)), (1, Reply r)], ds_finalised = [0, 1]\<rparr>"

lemma retry_queued_reachable: "daemon_reachable D ms (retry_queued req)"
  unfolding retry_queued_def
  by (intro daemon_reachable.step [OF _ daemon_step.arrive] daemon_reachable.init)

text \<open>The state after the timeout of the first request, and after its late finalisation.\<close>

lemma retry_expired:
  assumes "prepare_submission D req = Inr sub"
  shows "((serve_step D ms) ^^ 2) (retry_queued req)
    \<lparr>ds_next = 2, ds_waiting = [(1, req)], ds_running = None, ds_abandoned = [(0, sub)],
     ds_answers = [(0, Failure (timeout_text sub ms))], ds_finalised = []\<rparr>"
proof -
  let ?s = "\<lparr>ds_next = 2, ds_waiting = [(1, req)], ds_running = None, ds_abandoned = [(0, sub)],
     ds_answers = [(0, Failure (timeout_text sub ms))], ds_finalised = []\<rparr> :: daemon_state"
  let ?r = "\<lparr>ds_next = 2, ds_waiting = [(1, req)], ds_running = Some (0, sub), ds_abandoned = [],
    ds_answers = [], ds_finalised = []\<rparr> :: daemon_state"
  have "serve_step D ms (retry_queued req) ?r"
    using serve_step.start [of "retry_queued req" 0 req "[(1, req)]" D ms] assms
    by (simp add: retry_queued_def daemon_ops daemon_start_def numeral_2_eq_2)
  moreover have "serve_step D ms ?r ?s"
    using serve_step.expire [of ?r 0 sub D ms] by (simp add: answer_def)
  ultimately show ?thesis by (auto simp: numeral_2_eq_2 relcompp_apply)
qed

lemma serve_run_reachable:
  "((serve_step D ms) ^^ n) s s' \<Longrightarrow> daemon_reachable D ms s \<Longrightarrow> daemon_reachable D ms s'"
  by (induction n arbitrary: s') (auto intro: daemon_reachable.step daemon_step.serve)

lemma retry_final_reachable:
  assumes p: "prepare_submission D req = Inr sub" and r: "invoke_answer sub hash block = Inr r"
  shows "daemon_reachable D ms (retry_final ms sub r)"
proof -
  let ?f = "[(0, Failure (timeout_text sub ms))]"
  let ?a = "\<lparr>ds_next = 2, ds_waiting = [(1, req)], ds_running = None, ds_abandoned = [(0, sub)],
    ds_answers = ?f, ds_finalised = []\<rparr>"
  let ?b = "\<lparr>ds_next = 2, ds_waiting = [(1, req)], ds_running = None, ds_abandoned = [],
    ds_answers = ?f, ds_finalised = [0]\<rparr>"
  let ?c = "\<lparr>ds_next = 2, ds_waiting = [], ds_running = Some (1, sub), ds_abandoned = [],
    ds_answers = ?f, ds_finalised = [0]\<rparr>"
  have "daemon_reachable D ms ?a"
    by (rule serve_run_reachable [OF retry_expired [OF p] retry_queued_reachable])
  moreover have "daemon_step D ms ?a ?b"
    using daemon_step.late [of ?a "[]" 0 sub "[]" D ms] by simp
  moreover have "daemon_step D ms ?b ?c"
    using daemon_step.serve [OF serve_step.start [of ?b 1 req "[]" D ms]] p by (simp add: start_invoke_def)
  moreover have "daemon_step D ms ?c (retry_final ms sub r)"
    using daemon_step.serve [OF serve_step.finish [of ?c 1 sub D ms hash block]] r
    by (simp add: finish_invoke_def answer_def retry_final_def)
  ultimately show ?thesis by (blast intro: daemon_reachable.step)
qed

lemma sample_retry:
  "\<exists>sub r. prepare_submission sample_daemon sample_request = Inr sub \<and>
     daemon_reachable sample_daemon 120000 (retry_final 120000 sub r)"
  using sample_prepared invoke_answer_total [OF sample_prepared, of "''0xaa''" 7] retry_final_reachable
  by blast

subsection \<open>Properties\<close>

text \<open>C28. The queue is first come, first served: in every reachable state the answered requests,
  the one being served and the waiting ones are, in this order, all requests received so far, each
  exactly once.\<close>

theorem requests_served_in_order:
  assumes "daemon_reachable D ms s"
  shows "map fst (ds_answers s) @ running_id s @ map fst (ds_waiting s) = [0..<ds_next s]"
  using reachable_invariant [OF assms] by (simp add: fifo_def)

theorem requests_served_in_order_witness:
  "\<exists>s. daemon_reachable sample_daemon 120000 s \<and> ds_next s = 2 \<and>
     map fst (ds_answers s) @ running_id s @ map fst (ds_waiting s) = [0..<2]"
proof -
  have "ds_next (retry_queued sample_request) = 2" by (simp add: retry_queued_def daemon_ops daemon_start_def)
  then show ?thesis
    using requests_served_in_order [OF retry_queued_reachable [of sample_daemon 120000 sample_request]]
      retry_queued_reachable by metis
qed







end
