(* ===== verification/Scripts.thy ===== *)
theory Scripts
  imports Prelude
begin

text \<open>
  Asynchronous scripts: a computation over a state that returns or throws. \<open>await m f\<close> is
  \<open>const a = await m; ...\<close>, with the exception of \<open>m\<close> propagated.

  A script \<^emph>\<open>settles\<close> in \<open>Q\<close> when a run that returns establishes \<open>Q\<close>, and from a state
  with \<open>Q\<close> a run returns the same value without visible change. The rules below compose
  settling scripts: the steps after \<open>m\<close> must keep what \<open>m\<close> established, which they do when
  they only let the world grow.
\<close>

type_synonym ('s, 'a) script = "'s \<Rightarrow> 'a res \<times> 's"

definition give :: "'a \<Rightarrow> ('s, 'a) script" where
  "give a s = (Inr a, s)"

definition throw :: "string \<Rightarrow> ('s, 'a) script" where
  "throw e s = (Inl e, s)"

definition await :: "('s, 'a) script \<Rightarrow> ('a \<Rightarrow> ('s, 'b) script) \<Rightarrow> ('s, 'b) script" where
  "await m f s = (case m s of (Inl e, s') \<Rightarrow> (Inl e, s') | (Inr a, s') \<Rightarrow> f a s')"

text \<open>\<open>m.catch(h)\<close>\<close>

definition recover :: "('s, 'a) script \<Rightarrow> (string \<Rightarrow> ('s, 'a) script) \<Rightarrow> ('s, 'a) script" where
  "recover m h s = (case m s of (Inl e, s') \<Rightarrow> h e s' | (Inr a, s') \<Rightarrow> (Inr a, s'))"

definition of_res :: "'a res \<Rightarrow> ('s, 'a) script" where
  "of_res r s = (r, s)"

text \<open>\<open>for (const x of xs) await body(x)\<close>\<close>

fun for_each :: "'x list \<Rightarrow> ('x \<Rightarrow> ('s, unit) script) \<Rightarrow> ('s, unit) script" where
  "for_each [] body = give ()"
| "for_each (x # xs) body = await (body x) (\<lambda>_. for_each xs body)"

lemma give_apply: "give a s = (Inr a, s)" by (simp add: give_def)
lemma throw_apply: "throw e s = (Inl e, s)" by (simp add: throw_def)
lemma of_res_apply: "of_res r s = (r, s)" by (simp add: of_res_def)

lemma await_Inr: "m s = (Inr a, s') \<Longrightarrow> await m f s = f a s'" by (simp add: await_def)
lemma await_Inl: "m s = (Inl e, s') \<Longrightarrow> await m f s = (Inl e, s')" by (simp add: await_def)

lemma await_returns:
  "await m f s = (Inr b, s'') \<longleftrightarrow> (\<exists>a s'. m s = (Inr a, s') \<and> f a s' = (Inr b, s''))"
  by (auto simp: await_def split: prod.splits sum.splits)

lemma await_assoc: "await (await m f) g = await m (\<lambda>a. await (f a) g)"
  by (rule ext) (simp add: await_def split: prod.splits sum.splits)

lemma await_give: "await m give = m"
  by (rule ext) (simp add: await_def give_apply split: prod.splits sum.splits)

lemma await_give_unit: "await m (\<lambda>_. give ()) = m"
  by (rule ext) (auto simp: await_def give_apply split: prod.splits sum.splits)

lemma give_await: "await (give a) f = f a"
  by (rule ext) (simp add: await_def give_apply)

lemma awaitE:
  assumes "await m f s = (r, s'')"
  obtains (fail) e where "m s = (Inl e, s'')" "r = Inl e"
    | (ok) a s' where "m s = (Inr a, s')" "f a s' = (r, s'')"
  using assms by (auto simp: await_def split: prod.splits sum.splits)

subsection \<open>Settling\<close>

definition settles :: "('s \<Rightarrow> 's \<Rightarrow> bool) \<Rightarrow> ('s, 'a) script \<Rightarrow> ('a \<Rightarrow> 's \<Rightarrow> bool) \<Rightarrow> bool" where
  "settles quiet m Q \<longleftrightarrow>
     (\<forall>s a s'. m s = (Inr a, s') \<longrightarrow> Q a s') \<and>
     (\<forall>s a. Q a s \<longrightarrow> (\<exists>s'. m s = (Inr a, s') \<and> quiet s s')) \<and>
     (\<forall>s s' a. Q a s \<longrightarrow> quiet s s' \<longrightarrow> Q a s')"

definition within :: "('f set \<Rightarrow> 's \<Rightarrow> 's \<Rightarrow> bool) \<Rightarrow> 'f set \<Rightarrow> ('s, 'a) script \<Rightarrow> bool" where
  "within grows F m \<longleftrightarrow> (\<forall>s r s'. m s = (r, s') \<longrightarrow> grows F s s')"

definition lasting :: "('f set \<Rightarrow> 's \<Rightarrow> 's \<Rightarrow> bool) \<Rightarrow> 'f set \<Rightarrow> ('a \<Rightarrow> 's \<Rightarrow> bool) \<Rightarrow> bool" where
  "lasting grows F Q \<longleftrightarrow> (\<forall>a s s'. Q a s \<longrightarrow> grows F s s' \<longrightarrow> Q a s')"

text \<open>Effects: a script that settles, relies on the settings \<open>K\<close> once it has settled, and changes
  at most the settings \<open>W\<close>.\<close>

definition steady ::
    "('s \<Rightarrow> 's \<Rightarrow> bool) \<Rightarrow> ('f set \<Rightarrow> 's \<Rightarrow> 's \<Rightarrow> bool) \<Rightarrow> 'f set \<Rightarrow> 'f set \<Rightarrow> ('s, 'a) script \<Rightarrow> bool" where
  "steady quiet grows K W m \<longleftrightarrow>
     within grows W m \<and> (\<exists>Q. settles quiet m Q \<and> lasting grows (- K) Q)"

text \<open>
  The interface of the rules: \<open>quiet\<close> is a change nobody sees, and \<open>grows F\<close> a change that
  keeps everything established but the things in \<open>F\<close>.
\<close>

locale growing_world =
  fixes quiet :: "'s \<Rightarrow> 's \<Rightarrow> bool" and grows :: "'f set \<Rightarrow> 's \<Rightarrow> 's \<Rightarrow> bool"
  assumes quiet_refl: "quiet s s"
    and quiet_trans: "quiet s s' \<Longrightarrow> quiet s' s'' \<Longrightarrow> quiet s s''"
    and quiet_grows: "quiet s s' \<Longrightarrow> grows F s s'"
    and grows_trans: "grows F s s' \<Longrightarrow> grows F s' s'' \<Longrightarrow> grows F s s''"
    and grows_mono: "grows F s s' \<Longrightarrow> F \<subseteq> G \<Longrightarrow> grows G s s'"
begin

lemma grows_refl: "grows F s s"
  by (rule quiet_grows [OF quiet_refl])

lemma within_give: "within grows F (give a)"
  by (simp add: within_def grows_refl give_apply throw_apply of_res_apply)

lemma within_throw: "within grows F (throw e)"
  by (simp add: within_def grows_refl give_apply throw_apply of_res_apply)

lemma within_of_res: "within grows F (of_res r)"
  by (simp add: within_def grows_refl give_apply throw_apply of_res_apply)

lemma within_await:
  assumes "within grows F m" and "\<And>a. within grows F (f a)"
  shows "within grows F (await m f)"
  unfolding within_def
proof (intro allI impI)
  fix s r s' assume "await m f s = (r, s')"
  then show "grows F s s'"
  proof (cases rule: awaitE)
    case fail then show ?thesis using assms(1) by (auto simp: within_def)
  next
    case (ok a t)
    then have "grows F s t" "grows F t s'" using assms by (auto simp: within_def)
    then show ?thesis by (rule grows_trans)
  qed
qed

lemma within_recover:
  "within grows F m \<Longrightarrow> (\<And>e. within grows F (h e)) \<Longrightarrow> within grows F (recover m h)"
  unfolding within_def recover_def using grows_trans by (fastforce split: prod.splits sum.splits)

lemma within_if: "within grows F m \<Longrightarrow> within grows F m' \<Longrightarrow> within grows F (if b then m else m')"
  by simp

lemma within_for_each: "(\<And>x. x \<in> set xs \<Longrightarrow> within grows F (body x)) \<Longrightarrow> within grows F (for_each xs body)"
  by (induction xs) (auto intro: within_give within_await)

lemma within_mono: "within grows F m \<Longrightarrow> F \<subseteq> G \<Longrightarrow> within grows G m"
  unfolding within_def using grows_mono by blast

lemma settles_give: "settles quiet (give a) (\<lambda>b _. b = a)"
  by (simp add: settles_def quiet_refl give_apply throw_apply)

lemma settles_throw: "settles quiet (throw e) (\<lambda>_ _. False)"
  by (simp add: settles_def give_apply throw_apply)

lemma settles_of_res: "settles quiet (of_res r) (\<lambda>b _. r = Inr b)"
  by (auto simp: settles_def quiet_refl of_res_apply)

lemma settles_await:
  assumes m: "settles quiet m Q" and f: "\<And>a. settles quiet (f a) (R a)"
    and keep: "\<And>a. within grows F (f a)" and last: "lasting grows F Q"
  shows "settles quiet (await m f) (\<lambda>b s. \<exists>a. Q a s \<and> R a b s)"
  unfolding settles_def
proof (intro conjI allI impI)
  fix s b s'' assume "await m f s = (Inr b, s'')"
  then obtain a s' where ms: "m s = (Inr a, s')" "f a s' = (Inr b, s'')" by (auto simp: await_returns)
  from ms(1) m have "Q a s'" by (auto simp: settles_def)
  moreover from ms(2) keep have "grows F s' s''" by (auto simp: within_def)
  ultimately have "Q a s''" using last by (auto simp: lasting_def)
  with ms(2) f show "\<exists>a. Q a s'' \<and> R a b s''" by (auto simp: settles_def)
next
  fix s b assume "\<exists>a. Q a s \<and> R a b s"
  then obtain a where qr: "Q a s" "R a b s" by blast
  from qr(1) m obtain s' where s': "m s = (Inr a, s')" "quiet s s'" unfolding settles_def by metis
  from qr(2) s'(2) f have "R a b s'" by (auto simp: settles_def)
  with f obtain s'' where "f a s' = (Inr b, s'')" "quiet s' s''" unfolding settles_def by metis
  with s' quiet_trans show "\<exists>s''. await m f s = (Inr b, s'') \<and> quiet s s''" by (auto simp: await_Inr)
next
  fix s s' b assume "\<exists>a. Q a s \<and> R a b s" "quiet s s'"
  with m f show "\<exists>a. Q a s' \<and> R a b s'" unfolding settles_def by blast
qed

text \<open>A settled script can be run again, from any state that looks the same: it returns the same
  value and changes nothing.\<close>

lemma settles_rerun:
  assumes "settles quiet m Q" and "m s = (Inr a, s1)" and "quiet s1 s2"
  shows "\<exists>s3. m s2 = (Inr a, s3) \<and> quiet s2 s3"
  using assms unfolding settles_def by blast

subsection \<open>Effects\<close>

lemma steady_give: "steady quiet grows {} {} (give a)"
  unfolding steady_def using settles_give [of a] by (auto simp: within_give lasting_def)

lemma steady_throw: "steady quiet grows {} {} (throw e)"
  unfolding steady_def using settles_throw [of e] by (force simp: within_throw lasting_def)

lemma steady_of_res: "steady quiet grows {} {} (of_res r)"
  unfolding steady_def using settles_of_res [of r] by (auto simp: within_of_res lasting_def)

lemma steady_mono: "steady quiet grows K W m \<Longrightarrow> K \<subseteq> K' \<Longrightarrow> W \<subseteq> W' \<Longrightarrow> steady quiet grows K' W' m"
  unfolding steady_def lasting_def using within_mono grows_mono by (meson Compl_subset_Compl_iff)

lemma steady_await:
  assumes m: "steady quiet grows K W m" and f: "\<And>a. steady quiet grows K' W' (f a)" and disj: "K \<inter> W' = {}"
  shows "steady quiet grows (K \<union> K') (W \<union> W') (await m f)"
proof -
  from m obtain Q where Q: "settles quiet m Q" "lasting grows (- K) Q" by (auto simp: steady_def)
  from f obtain R where R: "\<And>a. settles quiet (f a) (R a)" "\<And>a. lasting grows (- K') (R a)"
    unfolding steady_def by metis
  have w: "within grows (W \<union> W') (await m f)"
  proof (rule within_await)
    show "within grows (W \<union> W') m" using m by (auto simp: steady_def elim: within_mono)
    show "within grows (W \<union> W') (f a)" for a using f [of a] by (auto simp: steady_def elim: within_mono)
  qed
  have keep: "within grows (- K) (f a)" for a
    using f [of a] disj by (auto simp: steady_def elim: within_mono)
  have "settles quiet (await m f) (\<lambda>b s. \<exists>a. Q a s \<and> R a b s)"
    by (rule settles_await [OF Q(1) R(1) keep Q(2)])
  moreover have "lasting grows (- (K \<union> K')) (\<lambda>b s. \<exists>a. Q a s \<and> R a b s)"
    using Q(2) R(2) grows_mono [of "- (K \<union> K')" _ _ "- K"] grows_mono [of "- (K \<union> K')" _ _ "- K'"]
    unfolding lasting_def by fastforce
  ultimately show ?thesis using w unfolding steady_def by blast
qed

lemma steady_if: "steady quiet grows K W m \<Longrightarrow> steady quiet grows K W m' \<Longrightarrow> steady quiet grows K W (if b then m else m')"
  by simp

lemma steady_for_each:
  assumes body: "\<And>x. x \<in> set xs \<Longrightarrow> steady quiet grows K W (body x)" and disj: "K \<inter> W = {}"
  shows "steady quiet grows K W (for_each xs body)"
  using body
proof (induction xs)
  case Nil then show ?case using steady_mono [OF steady_give, of K W] by simp
next
  case (Cons x xs)
  have "steady quiet grows (K \<union> K) (W \<union> W) (await (body x) (\<lambda>_. for_each xs body))"
    using Cons disj by (intro steady_await) auto
  then show ?case by simp
qed

lemma steady_rerun:
  "steady quiet grows K W m \<Longrightarrow> m s = (Inr a, s1) \<Longrightarrow> quiet s1 s2 \<Longrightarrow> \<exists>s3. m s2 = (Inr a, s3) \<and> quiet s2 s3"
  unfolding steady_def by (elim conjE exE) (rule settles_rerun)

end

end
