(* ===== verification/Chain_Client.thy ===== *)
theory Chain_Client
  imports Scripts Js_Values Evm
begin

text \<open>
  \<open>scripts/common.ts\<close>: deployment records and their files, and the client every deploy
  script uses to read, send and deploy. web3.js, the Hardhat artifacts and the node behind them
  are the record \<open>web3_api\<close>: each operation acts on the node's state \<open>'n\<close>, which other
  actors may change during it. Transaction data is a type \<open>'d\<close>: the scripts pass on what the
  ABI codec gives them.
\<close>

subsection \<open>Deployment records\<close>

record deployment =
  d_network :: string
  d_system :: string
  d_chainId :: "nat option"
  d_contracts :: "string \<rightharpoonup> string"
  d_deployedAt :: "string option"

text \<open>What a script sees: the node, the record it works on, and the deployment files by system
  and network name.\<close>

record 'n session =
  node :: 'n
  rec :: deployment
  files :: "string \<Rightarrow> string \<Rightarrow> deployment option"

definition on_node :: "('n, 'a) script \<Rightarrow> ('n session, 'a) script" where
  "on_node m s = (case m (node s) of (r, n) \<Rightarrow> (r, s\<lparr>node := n\<rparr>))"

definition loadDeployment :: "(string \<Rightarrow> string \<Rightarrow> deployment option) \<Rightarrow> string \<Rightarrow> string \<Rightarrow> deployment" where
  "loadDeployment disk system networkName =
     (case disk system networkName of
        None \<Rightarrow> \<lparr>d_network = networkName, d_system = system, d_chainId = None, d_contracts = Map.empty,
                 d_deployedAt = None\<rparr>
      | Some d \<Rightarrow> d)"

text \<open>A property that is absent or empty is falsy.\<close>

definition contract_at :: "deployment \<Rightarrow> string \<Rightarrow> string" where
  "contract_at d key = (case d_contracts d key of Some a \<Rightarrow> a | None \<Rightarrow> [])"

definition set_contract :: "string \<Rightarrow> string \<Rightarrow> deployment \<Rightarrow> deployment" where
  "set_contract key a d = d\<lparr>d_contracts := (d_contracts d)(key \<mapsto> a)\<rparr>"

definition requireContractAddress :: "deployment \<Rightarrow> string \<Rightarrow> string res" where
  "requireContractAddress d key =
     (if contract_at d key = []
      then Inl (''Deployment '' @ d_system d @ ''/'' @ d_network d @ '' missing contract '' @ key)
      else Inr (contract_at d key))"

fun first_contract :: "deployment \<Rightarrow> string list \<Rightarrow> string option" where
  "first_contract d [] = None"
| "first_contract d (key # keys) =
     (if contract_at d key \<noteq> [] then Some (contract_at d key) else first_contract d keys)"

definition requireAnyContractAddress :: "deployment \<Rightarrow> string list \<Rightarrow> string res" where
  "requireAnyContractAddress d keys =
     (case first_contract d keys of
        Some a \<Rightarrow> Inr a
      | None \<Rightarrow> Inl (''Deployment '' @ d_system d @ ''/'' @ d_network d @ '' missing contracts: '' @ join '', '' keys))"

subsection \<open>The node's interface\<close>

record 'd tx =
  tx_to :: "string option"
  tx_data :: "'d option"
  tx_value :: "int option"
  tx_gas :: "int option"
  tx_gasPrice :: "string option"
  tx_nonce :: "nat option"
  tx_from :: "string option"
  tx_chainId :: "nat option"

definition new_tx :: "'d tx" where
  "new_tx = \<lparr>tx_to = None, tx_data = None, tx_value = None, tx_gas = None, tx_gasPrice = None,
     tx_nonce = None, tx_from = None, tx_chainId = None\<rparr>"

record receipt =
  contractAddress :: "string option"

text \<open>
  A Hardhat artifact: the creation code, the types of the constructor's parameters when the ABI
  has a constructor, and \<open>contract.methods[m](...args).encodeABI()\<close> for the methods it has.
\<close>

record 'd artifact =
  bytecode :: 'd
  constructor_inputs :: "string list option"
  encode_method :: "string \<Rightarrow> (js_value list \<Rightarrow> 'd res) option"

record ('n, 'd) web3_api =
  readArtifact :: "string \<Rightarrow> 'd artifact res"
  encode_constructor :: "'d \<Rightarrow> string list \<Rightarrow> js_value list \<Rightarrow> 'd res"
  addressOf :: "string \<Rightarrow> string"
  getCode :: "string \<Rightarrow> ('n, string) script"
  getTransactionCount :: "string \<Rightarrow> ('n, nat) script"
  getGasPrice :: "('n, string) script"
  getBalance :: "string \<Rightarrow> ('n, string) script"
  estimateGas :: "string \<Rightarrow> 'd \<Rightarrow> ('n, int) script"
  signTransaction :: "string \<Rightarrow> 'd tx \<Rightarrow> 'd tx option res"
  sendSigned :: "string \<Rightarrow> 'd tx \<Rightarrow> ('n, receipt) script"
  call_method :: "string \<Rightarrow> string \<Rightarrow> string \<Rightarrow> js_value list \<Rightarrow> ('n, js_value) script"
  now :: "'n \<Rightarrow> string"

definition writeDeployment :: "('n, 'd) web3_api \<Rightarrow> ('n session, unit) script" where
  "writeDeployment W s =
     (let d = (rec s)\<lparr>d_deployedAt := Some (now W (node s))\<rparr> in
      (Inr (), s\<lparr>rec := d, files := (files s)(d_system d := (files s (d_system d))(d_network d := Some d))\<rparr>))"

definition DEPLOYER_PRIVATE_KEY :: string where
  "DEPLOYER_PRIVATE_KEY = ''0xb71c71a67e1177ad4e901695e1b4b9ee17ae16c6668d313eac2f96dbcda3f291''"

definition BESU_EVM_CHAIN_ID :: nat where
  "BESU_EVM_CHAIN_ID = 1337"

definition deployerAddress :: "('n, 'd) web3_api \<Rightarrow> string" where
  "deployerAddress W = addressOf W DEPLOYER_PRIVATE_KEY"

subsection \<open>Sending\<close>

text \<open>The fields a transaction is given when its caller left them out.\<close>

definition fill_gas :: "'d tx \<Rightarrow> 'd tx" where
  "fill_gas tx = (if tx_gas tx = None \<or> tx_gas tx = Some 0 then tx\<lparr>tx_gas := Some 6000000\<rparr> else tx)"

definition fill_nonce :: "('n, 'd) web3_api \<Rightarrow> 'd tx \<Rightarrow> ('n, 'd tx) script" where
  "fill_nonce W tx =
     (if tx_nonce tx = None
      then await (getTransactionCount W (deployerAddress W)) (\<lambda>n. give (tx\<lparr>tx_nonce := Some n\<rparr>))
      else give tx)"

definition fill_price :: "('n, 'd) web3_api \<Rightarrow> 'd tx \<Rightarrow> ('n, 'd tx) script" where
  "fill_price W tx =
     (if tx_gasPrice tx = None \<or> tx_gasPrice tx = Some []
      then await (getGasPrice W) (\<lambda>p. give (tx\<lparr>tx_gasPrice := Some p\<rparr>))
      else give tx)"

definition prepare_tx :: "('n, 'd) web3_api \<Rightarrow> 'd tx \<Rightarrow> ('n, 'd tx) script" where
  "prepare_tx W tx =
     await (fill_nonce W (tx\<lparr>tx_from := Some (deployerAddress W), tx_chainId := Some BESU_EVM_CHAIN_ID\<rparr>))
       (\<lambda>tx1. fill_price W (fill_gas tx1))"

definition sign_tx :: "('n, 'd) web3_api \<Rightarrow> string \<Rightarrow> 'd tx \<Rightarrow> ('n, 'd tx) script" where
  "sign_tx W key tx =
     (case signTransaction W key tx of
        Inl e \<Rightarrow> throw e
      | Inr None \<Rightarrow> throw ''signTransaction returned null rawTransaction''
      | Inr (Some raw) \<Rightarrow> give raw)"

definition underpriced :: "string \<Rightarrow> bool" where
  "underpriced message \<longleftrightarrow> str_includes message ''Replacement transaction underpriced''"

text \<open>The transaction of the next attempt: twice the gas price, and a new nonce.\<close>

definition raise_price :: "('n, 'd) web3_api \<Rightarrow> 'd tx \<Rightarrow> ('n, 'd tx) script" where
  "raise_price W tx =
     await (case tx_gasPrice tx of Some p \<Rightarrow> give p | None \<Rightarrow> getGasPrice W) (\<lambda>p.
     await (of_res (BigInt p)) (\<lambda>current.
     await (getTransactionCount W (deployerAddress W)) (\<lambda>n.
     give (tx\<lparr>tx_gasPrice := Some (show_int (current * 2)), tx_nonce := Some n\<rparr>))))"

function signAndSend :: "('n, 'd) web3_api \<Rightarrow> nat \<Rightarrow> 'd tx \<Rightarrow> ('n, receipt) script" where
  "signAndSend W attempt tx n =
     (case await (prepare_tx W tx) (\<lambda>tx1. await (sign_tx W DEPLOYER_PRIVATE_KEY tx1) (\<lambda>raw. give (tx1, raw))) n of
        (Inl e, n1) \<Rightarrow> (Inl e, n1)
      | (Inr (tx1, raw), n1) \<Rightarrow>
          (case sendSigned W DEPLOYER_PRIVATE_KEY raw n1 of
             (Inr r, n2) \<Rightarrow> (Inr r, n2)
           | (Inl err, n2) \<Rightarrow>
               if attempt + 1 \<ge> 3 \<or> \<not> underpriced err then (Inl err, n2)
               else (case raise_price W tx1 n2 of
                       (Inl e, n3) \<Rightarrow> (Inl e, n3)
                     | (Inr tx2, n3) \<Rightarrow> signAndSend W (attempt + 1) tx2 n3)))"
  by pat_completeness auto
termination by (relation "measure (\<lambda>(W, attempt, tx, n). 3 - attempt)") auto

declare signAndSend.simps [simp del]

definition find_method :: "('n, 'd) web3_api \<Rightarrow> string \<Rightarrow> string \<Rightarrow> (js_value list \<Rightarrow> 'd res) res" where
  "find_method W contractName meth =
     res_bind (readArtifact W contractName) (\<lambda>art.
       case encode_method art meth of
         None \<Rightarrow> Inl (''Method '' @ meth @ '' not found on '' @ contractName)
       | Some encode \<Rightarrow> Inr encode)"

definition readContract ::
    "('n, 'd) web3_api \<Rightarrow> string \<Rightarrow> string \<Rightarrow> string \<Rightarrow> js_value list \<Rightarrow> ('n session, js_value) script" where
  "readContract W contractName addr meth args =
     await (of_res (find_method W contractName meth)) (\<lambda>_.
       on_node (call_method W contractName addr meth args))"

definition sendContract ::
    "('n, 'd) web3_api \<Rightarrow> string \<Rightarrow> string \<Rightarrow> string \<Rightarrow> js_value list \<Rightarrow> int option \<Rightarrow> ('n session, receipt) script" where
  "sendContract W contractName addr meth args value =
     await (of_res (find_method W contractName meth)) (\<lambda>encode.
     await (of_res (encode args)) (\<lambda>data.
       on_node (signAndSend W 0 (new_tx\<lparr>tx_to := Some addr, tx_data := Some data, tx_value := value\<rparr>))))"

definition sendContractWithPrivateKey ::
    "('n, 'd) web3_api \<Rightarrow> string \<Rightarrow> string \<Rightarrow> string \<Rightarrow> string \<Rightarrow> js_value list \<Rightarrow> int option \<Rightarrow> ('n session, receipt) script" where
  "sendContractWithPrivateKey W privateKey contractName addr meth args value =
     (let pk = if starts_with privateKey ''0x'' then privateKey else ''0x'' @ privateKey;
          account = addressOf W pk in
      await (of_res (find_method W contractName meth)) (\<lambda>encode.
      await (of_res (encode args)) (\<lambda>data.
      let tx = fill_gas (new_tx\<lparr>tx_to := Some addr, tx_data := Some data, tx_from := Some account,
        tx_chainId := Some BESU_EVM_CHAIN_ID, tx_value := value\<rparr>) in
      on_node (await (fill_price W tx) (\<lambda>tx1.
        await (getTransactionCount W account) (\<lambda>n.
        await (sign_tx W pk (tx1\<lparr>tx_nonce := Some n\<rparr>)) (sendSigned W pk)))))))"

subsection \<open>Deploying\<close>

definition forceRedeploy :: "process_env \<Rightarrow> bool" where
  "forceRedeploy env \<longleftrightarrow> env ''FORCE_REDEPLOY'' = Some ''1''"

definition has_code :: "string \<Rightarrow> bool" where
  "has_code code \<longleftrightarrow> code \<noteq> [] \<and> code \<noteq> ''0x'' \<and> code \<noteq> ''0x0''"

definition creation_data :: "('n, 'd) web3_api \<Rightarrow> 'd artifact \<Rightarrow> js_value list \<Rightarrow> 'd res" where
  "creation_data W art args =
     (case constructor_inputs art of
        Some types \<Rightarrow> if args \<noteq> [] then encode_constructor W (bytecode art) types args else Inr (bytecode art)
      | None \<Rightarrow> Inr (bytecode art))"

definition deploy_new ::
    "('n, 'd) web3_api \<Rightarrow> string \<Rightarrow> string \<Rightarrow> js_value list \<Rightarrow> ('n session, string) script" where
  "deploy_new W key contractName args =
     await (of_res (res_bind (readArtifact W contractName) (\<lambda>art. creation_data W art args))) (\<lambda>data.
     await (on_node (recover (estimateGas W (deployerAddress W) data) (\<lambda>_. give 7000000))) (\<lambda>gasEstimate.
     await (on_node (signAndSend W 0
       (new_tx\<lparr>tx_data := Some data, tx_gas := Some (min (gasEstimate + 200000) 7800000)\<rparr>))) (\<lambda>receipt.
     case contractAddress receipt of
       None \<Rightarrow> throw (''Deployment '' @ key @ '' failed: no contract address in receipt'')
     | Some a \<Rightarrow>
         if a = [] then throw (''Deployment '' @ key @ '' failed: no contract address in receipt'')
         else (\<lambda>s. await (writeDeployment W) (\<lambda>_. give a) (s\<lparr>rec := set_contract key a (rec s)\<rparr>)))))"

definition deployIfMissing ::
    "('n, 'd) web3_api \<Rightarrow> process_env \<Rightarrow> string \<Rightarrow> string \<Rightarrow> js_value list \<Rightarrow> ('n session, string) script" where
  "deployIfMissing W env key contractName args s =
     (let existing = contract_at (rec s) key in
      if existing \<noteq> [] \<and> \<not> forceRedeploy env
      then await (on_node (recover (getCode W existing) (\<lambda>_. give ''0x''))) (\<lambda>code.
             if has_code code then give existing else deploy_new W key contractName args) s
      else deploy_new W key contractName args s)"

definition fundActor :: "('n, 'd) web3_api \<Rightarrow> string \<Rightarrow> ('n session, unit) script" where
  "fundActor W addr =
     (if to_lower addr = to_lower (deployerAddress W) then give ()
      else await (on_node (getBalance W addr)) (\<lambda>balance.
           await (of_res (BigInt balance)) (\<lambda>b.
           if b \<ge> 1000000000000000000 then give ()
           else await (on_node (signAndSend W 0
             (new_tx\<lparr>tx_to := Some addr, tx_value := Some 1000000000000000000, tx_gas := Some 21000\<rparr>)))
             (\<lambda>_. give ()))))"

definition fundActors :: "('n, 'd) web3_api \<Rightarrow> string list \<Rightarrow> ('n session, unit) script" where
  "fundActors W addrs = for_each addrs (fundActor W)"

subsection \<open>Constants and networks\<close>

definition relayer_key :: string where
  "relayer_key = ''b71c71a67e1177ad4e901695e1b4b9ee17ae16c6668d313eac2f96dbcda3f291''"

definition atomServer_key :: string where
  "atomServer_key = ''70ff25649b86772b672f211d338ea82f042683c2bf5901a9a1e542f77110489e''"

definition judge_keys :: "string list" where
  "judge_keys =
     [''b71c71a67e1177ad4e901695e1b4b9ee17ae16c6668d313eac2f96dbcda3f291'',
      ''fbd6535363327d6c7b8fb48481e726ff61a0c16faf20fab3edd4288748a68897'',
      ''28df2e95c9fb5530abf55ab4d2408c6ce9292db79db60fcc1115ecf1dd327d69'']"

definition with_0x :: "string \<Rightarrow> string" where
  "with_0x pk = (if starts_with pk ''0x'' then pk else ''0x'' @ pk)"

text \<open>The function \<open>addressOf\<close> of \<open>common.ts\<close>.\<close>

definition account_of :: "('n, 'd) web3_api \<Rightarrow> string \<Rightarrow> string" where
  "account_of W pk = addressOf W (with_0x pk)"

record shared_constants =
  BRIDGE_TIMEOUT_BLOCKS :: int
  CROSS_CHAIN_FEE :: int
  LIGHT_CLIENT_FINALITY :: int
  RELAYER_MIN_STAKE :: int
  RELAYER_REWARD :: int
  RELAYER_PENALTY :: int
  ATOM_JUDGE_NUM_NEED :: int
  ATOM_JUDGE_NUM_MIN :: int
  ATOM_MAX_SERVICE_TIME_BLOCKS :: int
  ATOM_MAX_AUDIT_TIME_BLOCKS :: int
  ATOM_SERVER_REWARD :: int
  ATOM_SERVER_PENALTY :: int
  ATOM_JUDGE_REWARD :: int
  ATOM_JUDGE_PENALTY :: int
  ATOM_REWARD_POOL :: int
  ATOM_SERVER_BOND :: int
  ATOM_JUDGE_BOND :: int
  GPACT_SIGNER_QUORUM :: int
  HOTEL_PRICE :: int
  HOTEL_REMAIN :: int
  TRAIN_PRICE :: int
  TRAIN_SEATS :: int
  FLIGHT_PRICE :: int
  FLIGHT_SEATS :: int
  TAXI_PRICE :: int
  TAXI_CARS :: int
  LOCK_SIZE :: int
  DAPP_TIMEOUT_BLOCKS :: int

definition CONSTS :: shared_constants where
  "CONSTS = \<lparr>BRIDGE_TIMEOUT_BLOCKS = 200, CROSS_CHAIN_FEE = 10000000000000000, LIGHT_CLIENT_FINALITY = 1,
     RELAYER_MIN_STAKE = 1000000000000000000, RELAYER_REWARD = 5000000000000000,
     RELAYER_PENALTY = 500000000000000000, ATOM_JUDGE_NUM_NEED = 3, ATOM_JUDGE_NUM_MIN = 3,
     ATOM_MAX_SERVICE_TIME_BLOCKS = 20, ATOM_MAX_AUDIT_TIME_BLOCKS = 20,
     ATOM_SERVER_REWARD = 10000000000000000, ATOM_SERVER_PENALTY = 20000000000000000,
     ATOM_JUDGE_REWARD = 5000000000000000, ATOM_JUDGE_PENALTY = 10000000000000000,
     ATOM_REWARD_POOL = 1000000000000000000, ATOM_SERVER_BOND = 100000000000000000,
     ATOM_JUDGE_BOND = 50000000000000000, GPACT_SIGNER_QUORUM = 3, HOTEL_PRICE = 100,
     HOTEL_REMAIN = 2000, TRAIN_PRICE = 50, TRAIN_SEATS = 2000, FLIGHT_PRICE = 200, FLIGHT_SEATS = 2000,
     TAXI_PRICE = 20, TAXI_CARS = 2000, LOCK_SIZE = 1, DAPP_TIMEOUT_BLOCKS = 30\<rparr>"

definition ZERO_ADDRESS :: string where
  "ZERO_ADDRESS = ''0x0000000000000000000000000000000000000000''"

definition chainIdOf :: "string \<Rightarrow> nat" where
  "chainIdOf net = (if net = ''bc1'' then 1 else if net = ''bc2'' then 2 else if net = ''bc3'' then 3 else 0)"

record chain_runtime_config =
  cfg_name :: string
  cfg_chainId :: nat
  httpUrl :: string
  rpcUrl :: string

definition DEFAULT_CHAIN_CONFIGS :: "process_env \<Rightarrow> (string \<times> chain_runtime_config) list" where
  "DEFAULT_CHAIN_CONFIGS env =
     [(''bc1'', \<lparr>cfg_name = ''Execution Chain'', cfg_chainId = 1,
        httpUrl = js_or (env_text env ''BC1_HTTP_URL'') ''http://209.38.21.129:8545'',
        rpcUrl = js_or (env_text env ''BC1_RPC_URL'') (js_or (env_text env ''BC1_WS_URL'') ''ws://209.38.21.129:8546'')\<rparr>),
      (''bc2'', \<lparr>cfg_name = ''Hotel Chain'', cfg_chainId = 2,
        httpUrl = js_or (env_text env ''BC2_HTTP_URL'') ''http://170.64.194.4:8545'',
        rpcUrl = js_or (env_text env ''BC2_RPC_URL'') (js_or (env_text env ''BC2_WS_URL'') ''ws://170.64.194.4:8546'')\<rparr>),
      (''bc3'', \<lparr>cfg_name = ''Train Chain'', cfg_chainId = 3,
        httpUrl = js_or (env_text env ''BC3_HTTP_URL'') ''http://170.64.164.173:8545'',
        rpcUrl = js_or (env_text env ''BC3_RPC_URL'') (js_or (env_text env ''BC3_WS_URL'') ''ws://170.64.164.173:8546'')\<rparr>)]"

text \<open>\<open>s.replace(/\/$/, "")\<close>\<close>

definition drop_slash :: "string \<Rightarrow> string" where
  "drop_slash t = (if ends_with t ''/'' then butlast t else t)"

definition networkName :: "process_env \<Rightarrow> string \<Rightarrow> string \<Rightarrow> string" where
  "networkName env name url =
     (if name \<noteq> ''besu'' then name
      else let configuredUrl = drop_slash (to_lower (js_trim url)) in
        (case find (\<lambda>(chain, cfg).
             configuredUrl = drop_slash (to_lower (httpUrl cfg)) \<or> configuredUrl = drop_slash (to_lower (rpcUrl cfg)))
             (DEFAULT_CHAIN_CONFIGS env) of
           Some (chain, cfg) \<Rightarrow> chain
         | None \<Rightarrow> name))"

end
