(* ===== verification/Bridge_Chain.thy ===== *)
theory Bridge_Chain
  imports Chain_Client Translated_Travel
begin

text \<open>
  The chain the deploy scripts talk to, as far as they use it: the administration of the bridge,
  the relayer manager and the translation registry of \<open>contracts/xsmart/bc1\<close> (the bridge and
  manager of \<open>contracts/integratex\<close> have the same functions), the signer registry and the control
  contract of \<open>contracts/gpact\<close>, and the metadata slot of the translated hotel. The contracts the
  scripts only create are kept as their name and constructor arguments. Addresses are stored in lower
  case and given back in checksum case; a bytes32 value is its hex text. Gas is not modelled.
\<close>

subsection \<open>Contracts\<close>

record relayer_info =
  ri_registered :: bool
  ri_stakedAmount :: uint256
  ri_successfulDeliveries :: uint256
  ri_failedDeliveries :: uint256
  ri_rewardAccumulated :: uint256
  ri_active :: bool

definition no_relayer :: relayer_info where
  "no_relayer = \<lparr>ri_registered = False, ri_stakedAmount = 0, ri_successfulDeliveries = 0, ri_failedDeliveries = 0,
     ri_rewardAccumulated = 0, ri_active = False\<rparr>"

record relayer_manager =
  rm_owner :: string
  rm_minimumStake :: uint256
  rm_reward :: uint256
  rm_penalty :: uint256
  rm_bridgingContract :: string
  rm_relayers :: "string \<Rightarrow> relayer_info"
  rm_relayerList :: "string list"

record bridge =
  br_class :: string
  br_owner :: string
  br_chainId :: uint256
  br_lightClient :: string
  br_relayerManager :: string
  br_timeoutBlocks :: uint256
  br_crossChainFee :: uint256
  br_ubtlRegistry :: string
  br_proofAdapter :: string
  br_serviceToLogic :: "string \<Rightarrow> string"
  br_serviceVerified :: "string \<Rightarrow> bool"
  br_serviceRelayer :: "string \<Rightarrow> string"
  br_registeredStateContracts :: "string \<Rightarrow> bool"

record translation =
  tr_sourceChainId :: uint256
  tr_sourceContractHash :: string
  tr_irHash :: string
  tr_translated :: string
  tr_storageMapRoot :: string
  tr_dAppProvider :: string
  tr_registeredAt :: nat

record ubtl_registry =
  ur_owner :: string
  ur_translations :: "string \<rightharpoonup> translation"
  ur_byTranslated :: "string \<rightharpoonup> string"

record signer_registry =
  sg_owner :: string
  sg_active :: "string \<Rightarrow> bool"
  sg_count :: uint256
  sg_quorum :: uint256

datatype contract =
    RelayerManagerC relayer_manager
  | BridgeC bridge
  | UBTLRegistryC ubtl_registry
  | HotelC hotel_storage
  | SignerRegistryC signer_registry
  | ControlC string
  | OtherC string "js_value list"

datatype call_data = Creation string "js_value list" | Invocation string string "js_value list"

record evm_chain =
  at :: "string \<rightharpoonup> contract"
  nonce_of :: "string \<Rightarrow> nat"
  height :: nat
  wei :: "string \<Rightarrow> nat"
  sent :: "call_data tx list"

text \<open>
  What the chain takes from outside: checksums, address derivation, account addresses, \<open>keyFor\<close>'s
  hash, deployed code, the compiled contracts, which transactions the node turns down before mining
  them, and the constructors that the scripts do not look into.
\<close>

record evm_rules =
  checksum :: "string \<Rightarrow> string"
  create_address :: "string \<Rightarrow> nat \<Rightarrow> string"
  key_address :: "string \<Rightarrow> string"
  key_hash :: "uint256 \<Rightarrow> string \<Rightarrow> string"
  ir_hash_of :: string
  runtime_code :: "contract \<Rightarrow> string"
  compiled :: "string \<Rightarrow> bool"
  has_method :: "string \<Rightarrow> string \<Rightarrow> bool"
  argument_error :: "string \<Rightarrow> js_value list \<Rightarrow> string option"
  other_constructor :: "string \<Rightarrow> js_value list \<Rightarrow> string option"
  turns_down :: "evm_chain \<Rightarrow> call_data tx \<Rightarrow> string option"
  gas_price :: "evm_chain \<Rightarrow> string"
  gas_needed :: "evm_chain \<Rightarrow> call_data \<Rightarrow> int res"
  clock :: "evm_chain \<Rightarrow> string"
  evm :: evm_host

text \<open>Documented behaviour: a checksum only changes the case, and a contract has code.\<close>

definition rules_documented :: "evm_rules \<Rightarrow> bool" where
  "rules_documented R \<longleftrightarrow>
     (\<forall>a. to_lower (checksum R a) = to_lower a) \<and> (\<forall>c. has_code (runtime_code R c)) \<and>
     host_documented (evm R)"

subsection \<open>Relayer manager\<close>

definition registerRelayer :: "string \<Rightarrow> uint256 \<Rightarrow> relayer_manager \<Rightarrow> relayer_manager evm" where
  "registerRelayer sender amount m =
     require (\<not> ri_registered (rm_relayers m sender)) ''Already registered'' (
     require (rm_minimumStake m \<le> amount) ''Insufficient stake'' (
     Inr (m\<lparr>rm_relayers := (rm_relayers m)(sender := \<lparr>ri_registered = True, ri_stakedAmount = amount,
         ri_successfulDeliveries = 0, ri_failedDeliveries = 0, ri_rewardAccumulated = 0, ri_active = True\<rparr>),
       rm_relayerList := rm_relayerList m @ [sender]\<rparr>)))"

definition rewardRelayer :: "string \<Rightarrow> relayer_manager \<Rightarrow> relayer_manager evm" where
  "rewardRelayer relayer m =
     (let info = rm_relayers m relayer in
      require (ri_registered info) ''Not registered'' (
      res_bind (checked_add (ri_successfulDeliveries info) 1) (\<lambda>d.
      res_bind (checked_add (ri_rewardAccumulated info) (rm_reward m)) (\<lambda>r.
      Inr (m\<lparr>rm_relayers := (rm_relayers m)(relayer :=
        info\<lparr>ri_successfulDeliveries := d, ri_rewardAccumulated := r\<rparr>)\<rparr>)))))"

definition setBridgingContract :: "string \<Rightarrow> string \<Rightarrow> relayer_manager \<Rightarrow> relayer_manager evm" where
  "setBridgingContract sender b m =
     (if sender = rm_owner m then Inr (m\<lparr>rm_bridgingContract := b\<rparr>)
      else Inl (CustomError ''OwnableUnauthorizedAccount'' sender))"

definition isRelayerActive :: "relayer_manager \<Rightarrow> string \<Rightarrow> bool" where
  "isRelayerActive m r \<longleftrightarrow> ri_registered (rm_relayers m r) \<and> ri_active (rm_relayers m r)"

subsection \<open>Bridge\<close>

definition setUBTLRegistry :: "string \<Rightarrow> string \<Rightarrow> bridge \<Rightarrow> bridge evm" where
  "setUBTLRegistry sender r b =
     (if sender = br_owner b then Inr (b\<lparr>br_ubtlRegistry := r\<rparr>)
      else Inl (CustomError ''OwnableUnauthorizedAccount'' sender))"

definition setProofAdapter :: "string \<Rightarrow> string \<Rightarrow> bridge \<Rightarrow> bridge evm" where
  "setProofAdapter sender p b =
     (if sender = br_owner b then Inr (b\<lparr>br_proofAdapter := p\<rparr>)
      else Inl (CustomError ''OwnableUnauthorizedAccount'' sender))"

definition regServer :: "string \<Rightarrow> string \<Rightarrow> string \<Rightarrow> bridge \<Rightarrow> bridge evm" where
  "regServer sender serviceId logicContract b =
     require (br_serviceToLogic b serviceId = ZERO_ADDRESS) ''Already registered'' (
     require (logicContract \<noteq> ZERO_ADDRESS) ''Zero address'' (
     Inr (b\<lparr>br_serviceToLogic := (br_serviceToLogic b)(serviceId := logicContract),
            br_serviceRelayer := (br_serviceRelayer b)(serviceId := sender)\<rparr>)))"

definition regState :: "string \<Rightarrow> bridge \<Rightarrow> bridge evm" where
  "regState stateContract b =
     require (\<not> br_registeredStateContracts b stateContract) ''Already registered'' (
     require (stateContract \<noteq> ZERO_ADDRESS) ''Zero address'' (
     Inr (b\<lparr>br_registeredStateContracts := (br_registeredStateContracts b)(stateContract := True)\<rparr>)))"

text \<open>\<open>confirmVerification\<close> of a success at block 0, where no proof is asked for: the guards and the
  new bridge. The call of the relayer manager is made by \<open>transact\<close>.\<close>

definition confirmVerified :: "string \<Rightarrow> bridge \<Rightarrow> bridge evm" where
  "confirmVerified serviceId b =
     require (br_serviceToLogic b serviceId \<noteq> ZERO_ADDRESS) ''Not registered'' (
     require (\<not> br_serviceVerified b serviceId) ''Already verified'' (
     Inr (b\<lparr>br_serviceVerified := (br_serviceVerified b)(serviceId := True)\<rparr>)))"

subsection \<open>Translation registry\<close>

definition register_translation ::
    "string \<Rightarrow> nat \<Rightarrow> string \<Rightarrow> uint256 \<Rightarrow> string \<Rightarrow> string \<Rightarrow> string \<Rightarrow> string \<Rightarrow> bool \<Rightarrow> ubtl_registry \<Rightarrow> ubtl_registry evm" where
  "register_translation sender time key sourceChainId sourceHash irHash translated root is_contract g =
     (if translated = ZERO_ADDRESS then Inl (CustomError ''ZeroAddress'' [])
      else if \<not> is_contract then Inl (CustomError ''NotContract'' translated)
      else if ur_translations g key \<noteq> None then Inl (CustomError ''TranslationAlreadyRegistered'' key)
      else if ur_byTranslated g translated \<noteq> None then Inl (CustomError ''TranslatedAddressAlreadyBound'' translated)
      else Inr (g\<lparr>ur_translations := (ur_translations g)(key \<mapsto>
          \<lparr>tr_sourceChainId = sourceChainId, tr_sourceContractHash = sourceHash, tr_irHash = irHash,
           tr_translated = translated, tr_storageMapRoot = root, tr_dAppProvider = sender,
           tr_registeredAt = time\<rparr>),
        ur_byTranslated := (ur_byTranslated g)(translated \<mapsto> key)\<rparr>))"

subsection \<open>GPACT's registry and control\<close>

definition registerSigner :: "string \<Rightarrow> string \<Rightarrow> signer_registry \<Rightarrow> signer_registry evm" where
  "registerSigner sender signer g =
     (if sender \<noteq> sg_owner g then Inl (CustomError ''OwnableUnauthorizedAccount'' sender)
      else require (signer \<noteq> ZERO_ADDRESS) ''Zero signer''
        (if sg_active g signer then Inr g
         else res_bind (checked_add (sg_count g) 1) (\<lambda>n.
           Inr (g\<lparr>sg_active := (sg_active g)(signer := True), sg_count := n\<rparr>))))"

definition setQuorum :: "string \<Rightarrow> uint256 \<Rightarrow> signer_registry \<Rightarrow> signer_registry evm" where
  "setQuorum sender q g =
     (if sender \<noteq> sg_owner g then Inl (CustomError ''OwnableUnauthorizedAccount'' sender)
      else require (0 < q) ''Zero quorum''
        (require (q \<le> sg_count g) ''Quorum exceeds active signers'' (Inr (g\<lparr>sg_quorum := q\<rparr>))))"

definition transferOwnership :: "string \<Rightarrow> string \<Rightarrow> string \<Rightarrow> string evm" where
  "transferOwnership sender newOwner own =
     (if sender \<noteq> own then Inl (CustomError ''OwnableUnauthorizedAccount'' sender)
      else if newOwner = ZERO_ADDRESS then Inl (CustomError ''OwnableInvalidOwner'' newOwner)
      else Inr newOwner)"

subsection \<open>Transactions and calls\<close>

definition put :: "string \<Rightarrow> contract \<Rightarrow> evm_chain \<Rightarrow> evm_chain" where
  "put a x c = c\<lparr>at := (at c)(a \<mapsto> x)\<rparr>"

definition storing :: "string \<Rightarrow> ('a \<Rightarrow> contract) \<Rightarrow> evm_chain \<Rightarrow> 'a evm \<Rightarrow> evm_chain evm" where
  "storing a f c r = res_bind r (\<lambda>x. Inr (put a (f x) c))"

definition no_method :: "'a evm" where
  "no_method = Inl (Revert [])"

definition word_of :: "js_prim \<Rightarrow> uint256" where
  "word_of p = (case p of PBigint n \<Rightarrow> U n | _ \<Rightarrow> 0)"

fun prims :: "js_value list \<Rightarrow> js_prim list" where
  "prims [] = []"
| "prims (JPrim p # vs) = p # prims vs"
| "prims (_ # vs) = prims vs"

definition call_manager :: "string \<Rightarrow> int \<Rightarrow> string \<Rightarrow> js_prim list \<Rightarrow> relayer_manager \<Rightarrow> relayer_manager evm" where
  "call_manager sender amount meth args m =
     (if meth = ''registerRelayer'' then registerRelayer sender (U amount) m
      else if amount \<noteq> 0 then no_method
      else if meth = ''setBridgingContract'' then
        (case args of [PString b] \<Rightarrow> setBridgingContract sender (to_lower b) m | _ \<Rightarrow> no_method)
      else no_method)"

definition call_bridge :: "string \<Rightarrow> string \<Rightarrow> js_prim list \<Rightarrow> bridge \<Rightarrow> bridge evm" where
  "call_bridge sender meth args b =
     (if meth = ''regState'' then
        (case args of [PString a] \<Rightarrow> regState (to_lower a) b | _ \<Rightarrow> no_method)
      else if meth = ''regServer'' then
        (case args of [PString i, PString a] \<Rightarrow> regServer sender i (to_lower a) b | _ \<Rightarrow> no_method)
      else if br_class b \<noteq> ''XBridgingContract'' then no_method
      else if meth = ''setUBTLRegistry'' then
        (case args of [PString a] \<Rightarrow> setUBTLRegistry sender (to_lower a) b | _ \<Rightarrow> no_method)
      else if meth = ''setProofAdapter'' then
        (case args of [PString a] \<Rightarrow> setProofAdapter sender (to_lower a) b | _ \<Rightarrow> no_method)
      else no_method)"

definition call_confirm :: "string \<Rightarrow> js_prim list \<Rightarrow> bridge \<Rightarrow> evm_chain \<Rightarrow> evm_chain evm" where
  "call_confirm target args b c =
     (case args of
        PString i # PBool True # PBigint n # _ \<Rightarrow>
          if n \<noteq> 0 then no_method
          else res_bind (confirmVerified i b) (\<lambda>b'.
            case at c (br_relayerManager b) of
              Some (RelayerManagerC m) \<Rightarrow>
                res_bind (rewardRelayer (br_serviceRelayer b i) m) (\<lambda>m'.
                  Inr (put target (BridgeC b') (put (br_relayerManager b) (RelayerManagerC m') c)))
            | _ \<Rightarrow> no_method)
      | _ \<Rightarrow> no_method)"

definition call_registry ::
    "evm_rules \<Rightarrow> string \<Rightarrow> string \<Rightarrow> js_prim list \<Rightarrow> evm_chain \<Rightarrow> ubtl_registry \<Rightarrow> ubtl_registry evm" where
  "call_registry R sender meth args c g =
     (if meth \<noteq> ''register'' then no_method
      else (case args of
        [n, PString h, PString ir, PString t, PString root] \<Rightarrow>
          register_translation sender (height c) (key_hash R (word_of n) h) (word_of n) h ir (to_lower t) root
            (at c (to_lower t) \<noteq> None) g
      | _ \<Rightarrow> no_method))"

definition call_hotel :: "evm_rules \<Rightarrow> string \<Rightarrow> js_value list \<Rightarrow> hotel_storage \<Rightarrow> hotel_storage evm" where
  "call_hotel R meth args h =
     (case args of
        [JPrim (PBigint slot), JArray bytes] \<Rightarrow>
          if meth = ''__vassp_apply'' then vassp_apply (evm R) (U slot) (map (\<lambda>b. ucast (word_of b)) bytes) h
          else no_method
      | _ \<Rightarrow> no_method)"

definition call_signers :: "string \<Rightarrow> string \<Rightarrow> js_prim list \<Rightarrow> signer_registry \<Rightarrow> signer_registry evm" where
  "call_signers sender meth args g =
     (if meth = ''registerSigner'' then
        (case args of [PString a] \<Rightarrow> registerSigner sender (to_lower a) g | _ \<Rightarrow> no_method)
      else if meth = ''setQuorum'' then (case args of [PBigint n] \<Rightarrow> setQuorum sender (U n) g | _ \<Rightarrow> no_method)
      else no_method)"

definition transact ::
    "evm_rules \<Rightarrow> string \<Rightarrow> int \<Rightarrow> string \<Rightarrow> string \<Rightarrow> js_value list \<Rightarrow> evm_chain \<Rightarrow> evm_chain evm" where
  "transact R sender amount target meth args c =
     (case at c target of
        None \<Rightarrow> Inr c
      | Some (RelayerManagerC m) \<Rightarrow> storing target RelayerManagerC c (call_manager sender amount meth (prims args) m)
      | Some x \<Rightarrow>
          if amount \<noteq> 0 then no_method
          else (case x of
            BridgeC b \<Rightarrow>
              if meth = ''confirmVerification'' then call_confirm target (prims args) b c
              else storing target BridgeC c (call_bridge sender meth (prims args) b)
          | UBTLRegistryC g \<Rightarrow> storing target UBTLRegistryC c (call_registry R sender meth (prims args) c g)
          | HotelC h \<Rightarrow> storing target HotelC c (call_hotel R meth args h)
          | SignerRegistryC g \<Rightarrow> storing target SignerRegistryC c (call_signers sender meth (prims args) g)
          | ControlC own \<Rightarrow>
              (case prims args of
                 [PString a] \<Rightarrow>
                   if meth = ''transferOwnership'' then storing target ControlC c (transferOwnership sender (to_lower a) own)
                   else no_method
               | _ \<Rightarrow> no_method)
          | _ \<Rightarrow> no_method))"

text \<open>View calls: addresses come back in checksum case, integers as decimal texts.\<close>

definition text_value :: "string \<Rightarrow> js_value" where
  "text_value t = JPrim (PString t)"

definition view_bridge :: "evm_rules \<Rightarrow> string \<Rightarrow> js_prim list \<Rightarrow> bridge \<Rightarrow> js_value evm" where
  "view_bridge R meth args b =
     (case args of
        [] \<Rightarrow>
          if br_class b \<noteq> ''XBridgingContract'' then no_method
          else if meth = ''ubtlRegistry'' then Inr (text_value (checksum R (br_ubtlRegistry b)))
          else if meth = ''proofAdapter'' then Inr (text_value (checksum R (br_proofAdapter b)))
          else no_method
      | [PString t] \<Rightarrow>
          if meth = ''registeredStateContracts'' then Inr (ret_bool (br_registeredStateContracts b (to_lower t)))
          else if meth = ''getLogicContractAddress'' then Inr (text_value (checksum R (br_serviceToLogic b t)))
          else if meth = ''isVerified'' then Inr (ret_bool (br_serviceVerified b t))
          else no_method
      | _ \<Rightarrow> no_method)"

definition translation_value :: "evm_rules \<Rightarrow> translation option \<Rightarrow> js_value" where
  "translation_value R t =
     (case t of
        None \<Rightarrow> JArray [PString ''0'', PString [], PString [], PString (checksum R ZERO_ADDRESS), PString [], PString [], PString ''0'']
      | Some t \<Rightarrow> JArray [PString (show_int (uint (tr_sourceChainId t))), PString (tr_sourceContractHash t),
          PString (tr_irHash t), PString (checksum R (tr_translated t)), PString (tr_storageMapRoot t),
          PString (checksum R (tr_dAppProvider t)), PString (show_nat (tr_registeredAt t))])"

definition view_method :: "evm_rules \<Rightarrow> string \<Rightarrow> string \<Rightarrow> js_value list \<Rightarrow> evm_chain \<Rightarrow> js_value evm" where
  "view_method R target meth args c =
     (case at c target of
        Some (RelayerManagerC m) \<Rightarrow>
          if meth = ''bridgingContract'' then Inr (text_value (checksum R (rm_bridgingContract m)))
          else (case prims args of
            [PString a] \<Rightarrow>
              if meth = ''isRelayerActive'' then Inr (ret_bool (isRelayerActive m (to_lower a))) else no_method
          | _ \<Rightarrow> no_method)
      | Some (BridgeC b) \<Rightarrow> view_bridge R meth (prims args) b
      | Some (UBTLRegistryC g) \<Rightarrow>
          (case prims args of
             [n, PString h] \<Rightarrow> if meth = ''keyFor'' then Inr (text_value (key_hash R (word_of n) h)) else no_method
           | [PString k] \<Rightarrow> if meth = ''translations'' then Inr (translation_value R (ur_translations g k)) else no_method
           | _ \<Rightarrow> no_method)
      | Some (HotelC h) \<Rightarrow>
          if meth = ''GetPrice'' then Inr (text_value (show_int (uint (mt_price (hs_meta h)))))
          else if meth = ''ir_hash'' then Inr (text_value (ir_hash_of R))
          else no_method
      | Some (SignerRegistryC g) \<Rightarrow>
          if meth = ''quorum'' then Inr (text_value (show_int (uint (sg_quorum g))))
          else (case prims args of
            [PString a] \<Rightarrow> if meth = ''activeSigners'' then Inr (ret_bool (sg_active g (to_lower a))) else no_method
          | _ \<Rightarrow> no_method)
      | Some (ControlC own) \<Rightarrow> if meth = ''owner'' then Inr (text_value (checksum R own)) else no_method
      | _ \<Rightarrow> no_method)"

subsection \<open>Creation\<close>

definition construct :: "evm_rules \<Rightarrow> string \<Rightarrow> string \<Rightarrow> js_value list \<Rightarrow> contract evm" where
  "construct R sender name args =
     (if name = ''RelayerManager'' then
        (case prims args of
           [a, b, p] \<Rightarrow> Inr (RelayerManagerC \<lparr>rm_owner = sender, rm_minimumStake = word_of a, rm_reward = word_of b,
             rm_penalty = word_of p, rm_bridgingContract = ZERO_ADDRESS, rm_relayers = (\<lambda>_. no_relayer),
             rm_relayerList = []\<rparr>)
         | _ \<Rightarrow> no_method)
      else if name = ''XBridgingContract'' \<or> name = ''BridgingContract'' then
        (case prims args of
           [i, PString lc, PString rm, t, f] \<Rightarrow> Inr (BridgeC \<lparr>br_class = name, br_owner = sender,
             br_chainId = word_of i, br_lightClient = to_lower lc, br_relayerManager = to_lower rm,
             br_timeoutBlocks = word_of t, br_crossChainFee = word_of f, br_ubtlRegistry = ZERO_ADDRESS,
             br_proofAdapter = ZERO_ADDRESS, br_serviceToLogic = (\<lambda>_. ZERO_ADDRESS),
             br_serviceVerified = (\<lambda>_. False), br_serviceRelayer = (\<lambda>_. ZERO_ADDRESS),
             br_registeredStateContracts = (\<lambda>_. False)\<rparr>)
         | _ \<Rightarrow> no_method)
      else if name = ''UBTLRegistry'' then
        Inr (UBTLRegistryC \<lparr>ur_owner = sender, ur_translations = Map.empty, ur_byTranslated = Map.empty\<rparr>)
      else if name = ''HotelBookingTranslated'' then Inr (HotelC HotelBookingTranslated)
      else if name = ''GPACTEventSignerRegistry'' then
        (case prims args of
           [q] \<Rightarrow> require (0 < word_of q) ''Zero quorum''
             (Inr (SignerRegistryC \<lparr>sg_owner = sender, sg_active = (\<lambda>_. False), sg_count = 0, sg_quorum = word_of q\<rparr>))
         | _ \<Rightarrow> no_method)
      else if name = ''GPACTCrosschainControl'' then
        (case prims args of
           [i, PString g] \<Rightarrow> require (0 < word_of i) ''Zero chain id''
             (require (to_lower g \<noteq> ZERO_ADDRESS) ''Zero signer registry'' (Inr (ControlC sender)))
         | _ \<Rightarrow> no_method)
      else (case other_constructor R name args of
        Some reason \<Rightarrow> Inl (Revert reason)
      | None \<Rightarrow> Inr (OtherC name args)))"

definition create :: "evm_rules \<Rightarrow> string \<Rightarrow> string \<Rightarrow> js_value list \<Rightarrow> evm_chain \<Rightarrow> (string \<times> evm_chain) evm" where
  "create R sender name args c =
     (let a = to_lower (create_address R sender (nonce_of c sender)) in
      if at c a \<noteq> None then Inl (Revert [])
      else res_bind (construct R sender name args) (\<lambda>x. Inr (a, put a x c)))"

subsection \<open>The node\<close>

text \<open>A mined transaction uses up the sender's nonce, reverted or not.\<close>

definition mined :: "string \<Rightarrow> evm_chain \<Rightarrow> evm_chain" where
  "mined sender c = c\<lparr>nonce_of := (nonce_of c)(sender := Suc (nonce_of c sender)), height := Suc (height c)\<rparr>"

definition pay :: "string \<Rightarrow> string \<Rightarrow> nat \<Rightarrow> evm_chain \<Rightarrow> evm_chain" where
  "pay sender target amount c =
     (let w = (wei c)(sender := wei c sender - amount) in c\<lparr>wei := w(target := w target + amount)\<rparr>)"

definition execute_tx :: "evm_rules \<Rightarrow> string \<Rightarrow> call_data tx \<Rightarrow> evm_chain \<Rightarrow> receipt res \<times> evm_chain" where
  "execute_tx R sender t c =
     (let amount = (case tx_value t of Some v \<Rightarrow> v | None \<Rightarrow> 0) in
      if amount < 0 \<or> wei c sender < nat amount then (Inl ''insufficient funds for transfer'', c)
      else case (tx_to t, tx_data t) of
        (None, Some (Creation name args)) \<Rightarrow>
          (case create R sender name args c of
             Inl e \<Rightarrow> (Inl (error_text (evm R) e), mined sender c)
           | Inr (a, c') \<Rightarrow> (Inr \<lparr>contractAddress = Some (checksum R a)\<rparr>, mined sender c'))
      | (Some target, Some (Invocation name meth args)) \<Rightarrow>
          (case transact R sender amount (to_lower target) meth args (pay sender (to_lower target) (nat amount) c) of
             Inl e \<Rightarrow> (Inl (error_text (evm R) e), mined sender c)
           | Inr c' \<Rightarrow> (Inr \<lparr>contractAddress = None\<rparr>, mined sender c'))
      | (Some target, None) \<Rightarrow>
          (Inr \<lparr>contractAddress = None\<rparr>, mined sender (pay sender (to_lower target) (nat amount) c))
      | _ \<Rightarrow> (Inl ''invalid transaction'', c))"

definition broadcast :: "evm_rules \<Rightarrow> string \<Rightarrow> call_data tx \<Rightarrow> (evm_chain, receipt) script" where
  "broadcast R key t c =
     (let c1 = c\<lparr>sent := sent c @ [t]\<rparr> in
      case turns_down R c1 t of
        Some e \<Rightarrow> (Inl e, c1)
      | None \<Rightarrow> execute_tx R (to_lower (key_address R key)) t c1)"

definition encode_call :: "evm_rules \<Rightarrow> string \<Rightarrow> string \<Rightarrow> js_value list \<Rightarrow> call_data res" where
  "encode_call R name meth args =
     (case argument_error R meth args of Some e \<Rightarrow> Inl e | None \<Rightarrow> Inr (Invocation name meth args))"

definition chain_artifact :: "evm_rules \<Rightarrow> string \<Rightarrow> call_data artifact res" where
  "chain_artifact R name =
     (if compiled R name
      then Inr \<lparr>bytecode = Creation name [], constructor_inputs = Some [], 
        encode_method = (\<lambda>m. if has_method R name m then Some (encode_call R name m) else None)\<rparr>
      else Inl (''HH700: Artifact for contract '' @ name @ '' not found''))"

definition chain_api :: "evm_rules \<Rightarrow> (evm_chain, call_data) web3_api" where
  "chain_api R =
     \<lparr>readArtifact = chain_artifact R,
      encode_constructor = (\<lambda>d types args. case d of
         Creation name _ \<Rightarrow> (case argument_error R name args of Some e \<Rightarrow> Inl e | None \<Rightarrow> Inr (Creation name args))
       | _ \<Rightarrow> Inr d),
      addressOf = key_address R,
      getCode = (\<lambda>a c. (Inr (case at c (to_lower a) of None \<Rightarrow> ''0x'' | Some x \<Rightarrow> runtime_code R x), c)),
      getTransactionCount = (\<lambda>a c. (Inr (nonce_of c (to_lower a)), c)),
      getGasPrice = (\<lambda>c. (Inr (gas_price R c), c)),
      getBalance = (\<lambda>a c. (Inr (show_nat (wei c (to_lower a))), c)),
      estimateGas = (\<lambda>a d c. (gas_needed R c d, c)),
      signTransaction = (\<lambda>key t. Inr (Some t)),
      sendSigned = broadcast R,
      call_method = (\<lambda>name a meth args c. (case view_method R (to_lower a) meth args c of
         Inl e \<Rightarrow> Inl (error_text (evm R) e) | Inr v \<Rightarrow> Inr v, c)),
      now = clock R\<rparr>"

end
