(* ===== verification/Translation.thy ===== *)
theory Translation
  imports Js_Values
begin

text \<open>
  \<open>scripts/xsmart/translation.ts\<close>: endpoint names, the hashes that identify a source contract and
  its storage layout, and where they are found. The file system, the hash functions, ethers and
  \<open>JSON\<close> are the record \<open>ubtl_host\<close>; a file's content is its text.
\<close>

record storage_slot =
  ir_id :: string
  evm_slot :: int
  offset :: "int option"
  ty :: string

record storage_map =
  sm_contract :: string
  sm_slots :: "storage_slot list"

record ubtl_host =
  repoRoot :: string
  file_text :: "string \<Rightarrow> string option"
  parse_json :: "string \<Rightarrow> json res"
  parse_storage_map :: "string \<Rightarrow> storage_map res"
  stringify_map :: "storage_map \<Rightarrow> string"
  localeCompare :: "string \<Rightarrow> string \<Rightarrow> int"
  hexlify :: "string list \<Rightarrow> string"
  sha256 :: "string \<Rightarrow> string"
  keccak256_text :: "string \<Rightarrow> string"
  getAddress :: "string \<Rightarrow> string res"
  Number_of :: "string \<Rightarrow> int option"

definition path_join :: "string list \<Rightarrow> string" where
  "path_join parts = join ''/'' parts"

definition ubtlOutDir :: "ubtl_host \<Rightarrow> string" where
  "ubtlOutDir U = path_join [repoRoot U, ''tools'', ''ubtl'', ''out'']"

definition read_file :: "ubtl_host \<Rightarrow> string \<Rightarrow> string res" where
  "read_file U p = (case file_text U p of
     Some t \<Rightarrow> Inr t
   | None \<Rightarrow> Inl (''ENOENT: no such file or directory, open '' @ p))"

definition exists_file :: "ubtl_host \<Rightarrow> string \<Rightarrow> bool" where
  "exists_file U p \<longleftrightarrow> file_text U p \<noteq> None"

definition ZERO_HASH :: string where
  "ZERO_HASH = ''0x'' @ replicate 64 (CHR ''0'')"

subsection \<open>Hashes\<close>

definition bytes32FromByteArray :: "ubtl_host \<Rightarrow> json list \<Rightarrow> string res" where
  "bytes32FromByteArray U values =
     (if length values \<noteq> 32 then Inl (''expected 32-byte array, got '' @ show_nat (length values))
      else Inr (hexlify U (map js_string values)))"

definition compare_slots :: "(string \<Rightarrow> string \<Rightarrow> int) \<Rightarrow> storage_slot \<Rightarrow> storage_slot \<Rightarrow> int" where
  "compare_slots lc a b = (let byId = lc (ir_id a) (ir_id b) in if byId \<noteq> 0 then byId else evm_slot a - evm_slot b)"

definition canonical_map :: "ubtl_host \<Rightarrow> storage_map \<Rightarrow> storage_map" where
  "canonical_map U m = m\<lparr>sm_slots := sort_by (compare_slots (localeCompare U)) (sm_slots m)\<rparr>"

definition computeStorageMapRoot :: "ubtl_host \<Rightarrow> storage_map \<Rightarrow> string" where
  "computeStorageMapRoot U m = keccak256_text U (stringify_map U (canonical_map U m))"

definition sha256Bytes32 :: "ubtl_host \<Rightarrow> string \<Rightarrow> string" where
  "sha256Bytes32 U t = ''0x'' @ sha256 U t"

definition sha256File :: "ubtl_host \<Rightarrow> string \<Rightarrow> string res" where
  "sha256File U p = res_bind (read_file U p) (\<lambda>t. Inr (sha256Bytes32 U t))"

definition basename :: "string \<Rightarrow> string" where
  "basename p = rev (takeWhile (\<lambda>c. c \<noteq> CHR ''/'') (rev p))"

definition hashed_file :: "ubtl_host \<Rightarrow> string \<Rightarrow> string res" where
  "hashed_file U p = res_bind (read_file U p) (\<lambda>t. Inr (basename p @ [CHR 0x0A] @ t @ [CHR 0x0A]))"

definition sha256Files :: "ubtl_host \<Rightarrow> string list \<Rightarrow> string res" where
  "sha256Files U paths =
     res_bind (res_mapM (hashed_file U) (sort_by code_unit_compare paths)) (\<lambda>parts.
       Inr (''0x'' @ sha256 U (concat parts)))"

subsection \<open>Endpoints and chains\<close>

datatype vm = Evm_vm | Wasm_vm | Fabric_vm

definition normalizeEvmAddress :: "ubtl_host \<Rightarrow> string \<Rightarrow> string res" where
  "normalizeEvmAddress U v = res_bind (getAddress U v) (\<lambda>a. Inr (to_lower a))"

definition normalizeWasmAccount :: "string \<Rightarrow> string" where
  "normalizeWasmAccount v = js_trim v"

definition normalizeFabricIdentifier :: "string \<Rightarrow> string" where
  "normalizeFabricIdentifier v =
     (let trimmed = js_trim v; lower = to_lower trimmed in
      if lower = ''xbridge_bc3'' then ''XBridgeBc3''
      else if lower = ''hotel_booking'' then ''HotelBooking''
      else trimmed)"

definition normalizeEndpointForVM :: "ubtl_host \<Rightarrow> vm \<Rightarrow> string \<Rightarrow> string res" where
  "normalizeEndpointForVM U v t = (case v of
     Evm_vm \<Rightarrow> normalizeEvmAddress U t
   | Wasm_vm \<Rightarrow> Inr (normalizeWasmAccount t)
   | Fabric_vm \<Rightarrow> Inr (normalizeFabricIdentifier t))"

definition sourceChainIdForVM :: "ubtl_host \<Rightarrow> process_env \<Rightarrow> vm \<Rightarrow> int option" where
  "sourceChainIdForVM U env v = Number_of U (case v of
     Evm_vm \<Rightarrow> js_or (env_text env ''XSMART_EVM_SOURCE_CHAIN_ID'') ''1''
   | Wasm_vm \<Rightarrow> js_or (env_text env ''XSMART_WASM_SOURCE_CHAIN_ID'')
       (js_or (env_text env ''BC2_WASM_CHAIN_ID'') ''1338'')
   | Fabric_vm \<Rightarrow> js_or (env_text env ''XSMART_FABRIC_SOURCE_CHAIN_ID'')
       (js_or (env_text env ''BC3_FABRIC_CHAIN_ID'') ''3''))"

subsection \<open>The hotel's commitments\<close>

definition hotel_ir_path :: "ubtl_host \<Rightarrow> string" where
  "hotel_ir_path U = path_join [ubtlOutDir U, ''hotel.ir.json'']"

definition hotel_sources :: "ubtl_host \<Rightarrow> string list" where
  "hotel_sources U =
     (let bc3Dir = path_join [repoRoot U, ''contracts'', ''xsmart'', ''bc3''] in
      filter (exists_file U) (map (\<lambda>f. path_join [bc3Dir, f]) [''hotel_booking.go'', ''xbridge_bc3.go'', ''vassp.go'']))"

text \<open>\<open>irArtifact.meta?.source_hash\<close>, when it is an array of 32 values.\<close>

definition ir_source_hash :: "ubtl_host \<Rightarrow> json list option res" where
  "ir_source_hash U =
     (if \<not> exists_file U (hotel_ir_path U) then Inr None
      else res_bind (res_bind (read_file U (hotel_ir_path U)) (parse_json U)) (\<lambda>ir.
        Inr (case Option.bind (json_get ir ''meta'') (\<lambda>m. json_get m ''source_hash'') of
          Some (JsonArray vs) \<Rightarrow> if length vs = 32 then Some vs else None
        | _ \<Rightarrow> None)))"

definition resolveHotelSourceContractHash :: "ubtl_host \<Rightarrow> process_env \<Rightarrow> string res" where
  "resolveHotelSourceContractHash U env =
     (let explicit = env_trim env ''XSMART_BC3_SOURCE_HASH'' in
      if explicit \<noteq> [] then Inr explicit
      else res_bind (ir_source_hash U) (\<lambda>h. case h of
        Some vs \<Rightarrow> bytes32FromByteArray U vs
      | None \<Rightarrow>
          let packagePath = env_trim env ''XSMART_BC3_PACKAGE_PATH'' in
          if packagePath \<noteq> [] \<and> exists_file U packagePath then sha256File U packagePath
          else if hotel_sources U = [] then Inl ''unable to derive hotel source contract hash''
          else sha256Files U (hotel_sources U)))"

definition resolveHotelStorageMapRoot :: "ubtl_host \<Rightarrow> process_env \<Rightarrow> string res" where
  "resolveHotelStorageMapRoot U env =
     (let explicit = env_trim env ''XSMART_STORAGE_MAP_ROOT'';
          storageMapPath = path_join [ubtlOutDir U, ''HotelBookingTranslated.storage_map.json''] in
      if explicit \<noteq> [] then Inr explicit
      else if \<not> exists_file U storageMapPath then Inr ZERO_HASH
      else res_bind (res_bind (read_file U storageMapPath) (parse_storage_map U)) (\<lambda>m.
        Inr (computeStorageMapRoot U m)))"

text \<open>\<open>/UBTL_IR_HASH\s*=\s*bytes32\((0x[0-9a-fA-F]{64})\)/\<close>: the first place where it matches.\<close>

definition is_hex_digit :: "char \<Rightarrow> bool" where
  "is_hex_digit c \<longleftrightarrow> (case digit_value c of Some d \<Rightarrow> d < 16 | None \<Rightarrow> False)"

definition after :: "string \<Rightarrow> string \<Rightarrow> string option" where
  "after p t = (if starts_with t p then Some (drop (length p) t) else None)"

definition match_ir_hash :: "string \<Rightarrow> string option" where
  "match_ir_hash t =
     Option.bind (after ''UBTL_IR_HASH'' t) (\<lambda>t1.
     Option.bind (after ''='' (dropWhile is_js_space t1)) (\<lambda>t2.
     Option.bind (after ''bytes32('' (dropWhile is_js_space t2)) (\<lambda>t3.
     Option.bind (after ''0x'' t3) (\<lambda>t4.
       let h = take 64 t4 in
       if length h = 64 \<and> list_all is_hex_digit h \<and> starts_with (drop 64 t4) '')'' then Some (''0x'' @ h) else None))))"

fun find_ir_hash :: "string \<Rightarrow> string option" where
  "find_ir_hash [] = None"
| "find_ir_hash (c # cs) = (case match_ir_hash (c # cs) of Some h \<Rightarrow> Some h | None \<Rightarrow> find_ir_hash cs)"

definition resolveHotelTranslatedIRHashFromSource :: "ubtl_host \<Rightarrow> string res" where
  "resolveHotelTranslatedIRHashFromSource U =
     (let sourcePath = path_join [repoRoot U, ''contracts'', ''xsmart'', ''bc1'', ''examples'', ''HotelBookingTranslated.sol''] in
      res_bind (read_file U sourcePath) (\<lambda>src. case find_ir_hash src of
        None \<Rightarrow> Inl (''Unable to locate UBTL_IR_HASH in '' @ sourcePath)
      | Some h \<Rightarrow> Inr h))"

end
