(* ===== verification/Deploy_Scripts.thy ===== *)
theory Deploy_Scripts
  imports Chain_Client Translation
begin

text \<open>
  The deploy scripts: \<open>scripts/xsmart\<close> (\<open>proof-adapter.ts\<close>, \<open>register-translations.ts\<close>,
  \<open>deploy-bc1.ts\<close>, \<open>deploy-bc1-1a.ts\<close>, \<open>deploy-evm-1a.ts\<close>), \<open>scripts/integratex\<close> and
  \<open>scripts/gpact\<close>. Each is a script over a session; an \<open>if\<close> block that several scripts
  share is one definition. Console output is left out.
\<close>

definition str_arg :: "string \<Rightarrow> js_value" where
  "str_arg t = JPrim (PString t)"

definition num_arg :: "int \<Rightarrow> js_value" where
  "num_arg n = JPrim (PBigint n)"

text \<open>\<open>String(v)\<close>, truthiness, and \<open>BigInt(v)\<close> of a returned value.\<close>

fun value_string :: "js_value \<Rightarrow> string" where
  "value_string (JPrim p) = prim_string p"
| "value_string (JArray ps) = join '','' (map prim_string ps)"
| "value_string JUndefined = ''undefined''"

fun truthy :: "js_value \<Rightarrow> bool" where
  "truthy (JPrim (PBool b)) = b"
| "truthy (JPrim (PBigint n)) = (n \<noteq> 0)"
| "truthy (JPrim (PString s)) = (s \<noteq> [])"
| "truthy (JArray ps) = True"
| "truthy JUndefined = False"

definition value_BigInt :: "js_value \<Rightarrow> int res" where
  "value_BigInt v = BigInt (value_string v)"

text \<open>What a deploy script runs with: the client, its environment, the files and the network.\<close>

record ('n, 'd) deploy_env =
  api :: "('n, 'd) web3_api"
  environ :: process_env
  ubtl :: ubtl_host
  evm_coder :: evm_host
  net_name :: string
  net_url :: string
  set_balance :: "string \<Rightarrow> ('n, unit) script"

definition network :: "('n, 'd) deploy_env \<Rightarrow> string" where
  "network D = networkName (environ D) (net_name D) (net_url D)"

definition deployed :: "('n, 'd) deploy_env \<Rightarrow> string \<Rightarrow> string \<Rightarrow> js_value list \<Rightarrow> ('n session, string) script" where
  "deployed D = deployIfMissing (api D) (environ D)"

definition open_record :: "('n, 'd) deploy_env \<Rightarrow> string \<Rightarrow> string \<Rightarrow> nat \<Rightarrow> ('n session, unit) script" where
  "open_record D system key chain s =
     (Inr (), s\<lparr>rec := (loadDeployment (files s) system key)\<lparr>d_chainId := Some chain\<rparr>\<rparr>)"

definition with_rec :: "(deployment \<Rightarrow> ('n session, 'a) script) \<Rightarrow> ('n session, 'a) script" where
  "with_rec f s = f (rec s) s"

text \<open>Read a value; when the test asks for it, do something about it.\<close>

definition ensure ::
    "('n session, js_value) script \<Rightarrow> (js_value \<Rightarrow> bool res) \<Rightarrow> ('n session, 'b) script \<Rightarrow> ('n session, unit) script" where
  "ensure look missing act =
     await look (\<lambda>v. await (of_res (missing v)) (\<lambda>b. if b then await act (\<lambda>_. give ()) else give ()))"

definition differs :: "string \<Rightarrow> js_value \<Rightarrow> bool res" where
  "differs a v = Inr (to_lower (value_string v) \<noteq> to_lower a)"

definition falsy :: "js_value \<Rightarrow> bool res" where
  "falsy v = Inr (\<not> truthy v)"

subsection \<open>Proof adapters\<close>

datatype proof_mode = Component_verified | Zk_substrate | Zk_fabric | Zk_both | Succinct_sp1 | Succinct_risc0
  | Production_proof

fun mode_text :: "proof_mode \<Rightarrow> string" where
  "mode_text Component_verified = ''component_verified''"
| "mode_text Zk_substrate = ''zk_substrate''"
| "mode_text Zk_fabric = ''zk_fabric''"
| "mode_text Zk_both = ''zk_both''"
| "mode_text Succinct_sp1 = ''succinct_sp1''"
| "mode_text Succinct_risc0 = ''succinct_risc0''"
| "mode_text Production_proof = ''production_proof''"

definition mode_names :: "(proof_mode \<times> string list) list" where
  "mode_names =
     [(Zk_substrate, [''zk_substrate'', ''substrate_proof'', ''proof_backed_substrate'']),
      (Zk_fabric, [''zk_fabric'', ''fabric_proof'', ''proof_backed_fabric'']),
      (Zk_both, [''zk_both'', ''both'', ''proof_backed_both'', ''both_proof'']),
      (Succinct_sp1, [''sp1'', ''succinct_sp1'', ''zk_sp1'']),
      (Succinct_risc0, [''risc0'', ''risc_zero'', ''succinct_risc0'', ''zk_risc0'']),
      (Production_proof, [''production_proof'', ''production'', ''trust_minimized_production'']),
      (Component_verified, [''component'', ''component_verified'', ''verified_adapter''])]"

definition raw_mode :: "process_env \<Rightarrow> string" where
  "raw_mode env = map (\<lambda>c. if c = CHR ''-'' then CHR ''_'' else c) (to_lower (js_trim
     (js_or (env_text env ''XSMART_PROOF_ADAPTER_MODE'') (js_or (env_text env ''XSMART_PROOF_MODE'') ''component_verified''))))"

definition proofAdapterMode :: "process_env \<Rightarrow> proof_mode res" where
  "proofAdapterMode env =
     (case find (\<lambda>(mode, names). raw_mode env \<in> set names) mode_names of
        Some (mode, names) \<Rightarrow> Inr mode
      | None \<Rightarrow> Inl (''Unsupported XSmart proof adapter mode: '' @ raw_mode env))"

definition requiredEnv :: "process_env \<Rightarrow> string \<Rightarrow> string res" where
  "requiredEnv env name =
     (if env_trim env name = [] then Inl (name @ '' is required for succinct ZK proof adapter deployment'')
      else Inr (env_trim env name))"

definition is_bytes32 :: "string \<Rightarrow> bool" where
  "is_bytes32 t \<longleftrightarrow> starts_with t ''0x'' \<and> length t = 66 \<and> list_all is_hex_digit (drop 2 t)"

definition requiredBytes32Env :: "process_env \<Rightarrow> string \<Rightarrow> string res" where
  "requiredBytes32Env env name =
     res_bind (requiredEnv env name) (\<lambda>v.
       if is_bytes32 v then Inr v else Inl (name @ '' must be a 0x-prefixed bytes32 value''))"

definition deploySelectedProofAdapter ::
    "('n, 'd) deploy_env \<Rightarrow> string \<Rightarrow> ('n session, proof_mode \<times> string) script" where
  "deploySelectedProofAdapter D lightClient =
     await (of_res (proofAdapterMode (environ D))) (\<lambda>mode.
     await (case mode of
         Zk_substrate \<Rightarrow> deployed D ''substrateStateProofAdapter'' ''SubstrateStateProofAdapter'' [str_arg lightClient]
       | Zk_fabric \<Rightarrow> deployed D ''fabricStateProofAdapter'' ''FabricStateProofAdapter'' [str_arg lightClient]
       | Zk_both \<Rightarrow>
           await (deployed D ''componentVerifiedAdapter'' ''ComponentVerifiedAdapter'' [str_arg lightClient]) (\<lambda>component.
           await (deployed D ''substrateStateProofAdapter'' ''SubstrateStateProofAdapter'' [str_arg lightClient]) (\<lambda>substrate.
           await (deployed D ''fabricStateProofAdapter'' ''FabricStateProofAdapter'' [str_arg lightClient]) (\<lambda>fabric.
           deployed D ''compositeProofAdapter'' ''CompositeProofAdapter'' [str_arg component, str_arg substrate, str_arg fabric])))
       | Succinct_sp1 \<Rightarrow>
           await (of_res (requiredEnv (environ D) ''XSMART_SP1_VERIFIER_ADDRESS'')) (\<lambda>verifier.
           await (of_res (requiredBytes32Env (environ D) ''XSMART_SP1_PROGRAM_VKEY'')) (\<lambda>programVKey.
           deployed D ''sp1ZkProofAdapter'' ''ZkProofAdapter'' [str_arg verifier, str_arg programVKey, num_arg 0]))
       | Succinct_risc0 \<Rightarrow>
           await (of_res (requiredEnv (environ D) ''XSMART_RISC0_VERIFIER_ADDRESS'')) (\<lambda>verifier.
           await (of_res (requiredBytes32Env (environ D) ''XSMART_RISC0_IMAGE_ID'')) (\<lambda>imageId.
           deployed D ''risc0ZkProofAdapter'' ''ZkProofAdapter'' [str_arg verifier, str_arg imageId, num_arg 1]))
       | Production_proof \<Rightarrow>
           (let a = env_trim (environ D) ''XSMART_PRODUCTION_PROOF_ADAPTER_ADDRESS'' in
            if a = [] then throw (''production_proof mode requires XSMART_PRODUCTION_PROOF_ADAPTER_ADDRESS; '' @
              ''the current MVP adapters must not be used as production GRANDPA/Fabric MSP/light-client verifiers.'')
            else give a)
       | Component_verified \<Rightarrow> deployed D ''componentVerifiedAdapter'' ''ComponentVerifiedAdapter'' [str_arg lightClient])
       (\<lambda>address. give (mode, address)))"

definition setSelectedProofAdapter :: "('n, 'd) deploy_env \<Rightarrow> string \<Rightarrow> proof_mode \<times> string \<Rightarrow> ('n session, unit) script" where
  "setSelectedProofAdapter D bridge adapter =
     ensure
       (recover (readContract (api D) ''XBridgingContract'' bridge ''proofAdapter'' [])
         (\<lambda>e. throw (''XBridgingContract at '' @ bridge @ '' does not expose proofAdapter(); redeploy bc1 with the current contracts before running proof-backed RQ1c. '' @
            ''Original error: '' @ e)))
       (differs (snd adapter))
       (sendContract (api D) ''XBridgingContract'' bridge ''setProofAdapter'' [str_arg (snd adapter)] None)"

subsection \<open>Shared steps\<close>

definition lightClient_args :: "nat \<Rightarrow> js_value list" where
  "lightClient_args chain = [num_arg (int chain), num_arg (LIGHT_CLIENT_FINALITY CONSTS)]"

definition manager_args :: "js_value list" where
  "manager_args = [num_arg (RELAYER_MIN_STAKE CONSTS), num_arg (RELAYER_REWARD CONSTS), num_arg (RELAYER_PENALTY CONSTS)]"

definition bridge_args :: "nat \<Rightarrow> string \<Rightarrow> string \<Rightarrow> js_value list" where
  "bridge_args chain lc rm = [num_arg (int chain), str_arg lc, str_arg rm,
     num_arg (BRIDGE_TIMEOUT_BLOCKS CONSTS), num_arg (CROSS_CHAIN_FEE CONSTS)]"

definition state_args :: "int \<Rightarrow> int \<Rightarrow> string \<Rightarrow> string \<Rightarrow> js_value list" where
  "state_args price remain logic bridge =
     [num_arg price, num_arg remain, str_arg logic, str_arg bridge, num_arg (LOCK_SIZE CONSTS)]"

definition relayerAddr :: "('n, 'd) deploy_env \<Rightarrow> string" where
  "relayerAddr D = account_of (api D) relayer_key"

definition ensure_relayer :: "('n, 'd) deploy_env \<Rightarrow> string \<Rightarrow> ('n session, unit) script" where
  "ensure_relayer D rm =
     ensure (readContract (api D) ''RelayerManager'' rm ''isRelayerActive'' [str_arg (relayerAddr D)]) falsy
       (sendContract (api D) ''RelayerManager'' rm ''registerRelayer'' [] (Some (RELAYER_MIN_STAKE CONSTS)))"

definition ensure_registry :: "('n, 'd) deploy_env \<Rightarrow> string \<Rightarrow> string \<Rightarrow> ('n session, unit) script" where
  "ensure_registry D bridge registry =
     ensure (readContract (api D) ''XBridgingContract'' bridge ''ubtlRegistry'' []) (differs registry)
       (sendContract (api D) ''XBridgingContract'' bridge ''setUBTLRegistry'' [str_arg registry] None)"

definition ensure_state :: "('n, 'd) deploy_env \<Rightarrow> string \<Rightarrow> string \<Rightarrow> string \<Rightarrow> ('n session, unit) script" where
  "ensure_state D class bridge stateContract =
     ensure (readContract (api D) class bridge ''registeredStateContracts'' [str_arg stateContract]) falsy
       (sendContract (api D) class bridge ''regState'' [str_arg stateContract] None)"

definition ensure_service :: "('n, 'd) deploy_env \<Rightarrow> string \<Rightarrow> string \<Rightarrow> ('n session, unit) script" where
  "ensure_service D bridge translated =
     ensure (readContract (api D) ''XBridgingContract'' bridge ''getLogicContractAddress'' [str_arg ''travel''])
       (\<lambda>v. Inr (to_lower (value_string v) = ZERO_ADDRESS))
       (sendContract (api D) ''XBridgingContract'' bridge ''regServer'' [str_arg ''travel'', str_arg translated] None)"

definition ensure_verified :: "('n, 'd) deploy_env \<Rightarrow> string \<Rightarrow> ('n session, unit) script" where
  "ensure_verified D bridge =
     ensure (readContract (api D) ''XBridgingContract'' bridge ''isVerified'' [str_arg ''travel'']) falsy
       (sendContract (api D) ''XBridgingContract'' bridge ''confirmVerification''
         [str_arg ''travel'', JPrim (PBool True), num_arg 0, JArray [], str_arg ZERO_HASH] None)"

subsection \<open>register-translations.ts\<close>

text \<open>The fourth component of the registry's structure, or its name \<open>translated\<close>.\<close>

definition translatedField :: "js_value \<Rightarrow> string" where
  "translatedField v =
     (case v of
        JArray (a # b # c # PString t # rest) \<Rightarrow> t
      | _ \<Rightarrow> ZERO_ADDRESS)"

definition chain_arg :: "int option \<Rightarrow> js_value" where
  "chain_arg n = (case n of Some k \<Rightarrow> num_arg k | None \<Rightarrow> str_arg ''NaN'')"

definition bind_translation ::
    "('n, 'd) deploy_env \<Rightarrow> string \<Rightarrow> string \<Rightarrow> string \<Rightarrow> js_value list \<Rightarrow> ('n session, unit) script" where
  "bind_translation D registry translated key args =
     (let look = readContract (api D) ''UBTLRegistry'' registry ''translations'' [str_arg key] in
      await look (\<lambda>existing.
        let bound = translatedField existing in
        if to_lower bound \<noteq> ZERO_ADDRESS then
          (if to_lower bound \<noteq> to_lower translated
           then throw (''translation key '' @ key @ '' already bound to '' @ bound @ '', expected '' @ translated)
           else give ())
        else
          await (sendContract (api D) ''UBTLRegistry'' registry ''register'' args None) (\<lambda>_.
          await look (\<lambda>stored.
            if to_lower (translatedField stored) \<noteq> to_lower translated
            then throw (''translation registration verification failed for key '' @ key)
            else give ()))))"

definition registerHotelTranslation :: "('n, 'd) deploy_env \<Rightarrow> ('n session, unit) script" where
  "registerHotelTranslation D =
     with_rec (\<lambda>d.
     await (of_res (requireContractAddress d ''ubtlRegistry'')) (\<lambda>registry.
     await (of_res (requireContractAddress d ''hotelBookingTranslated'')) (\<lambda>translated.
     let sourceChainId = chain_arg (sourceChainIdForVM (ubtl D) (environ D) Fabric_vm) in
     await (of_res (resolveHotelSourceContractHash (ubtl D) (environ D))) (\<lambda>sourceContractHash.
     await (readContract (api D) ''HotelBookingTranslated'' translated ''ir_hash'' []) (\<lambda>irHash.
     await (of_res (resolveHotelStorageMapRoot (ubtl D) (environ D))) (\<lambda>storageMapRoot.
     await (readContract (api D) ''UBTLRegistry'' registry ''keyFor'' [sourceChainId, str_arg sourceContractHash]) (\<lambda>key.
     bind_translation D registry translated (value_string key)
       [sourceChainId, str_arg sourceContractHash, str_arg (value_string irHash), str_arg translated,
        str_arg storageMapRoot])))))))"

definition save :: "('n, 'd) deploy_env \<Rightarrow> ('n session, unit) script" where
  "save D = writeDeployment (api D)"

definition registerTranslations :: "('n, 'd) deploy_env \<Rightarrow> ('n session, unit) script" where
  "registerTranslations D = await (registerHotelTranslation D) (\<lambda>_. save D)"

definition register_main :: "('n, 'd) deploy_env \<Rightarrow> ('n session, unit) script" where
  "register_main D = await (\<lambda>s. (Inr (), s\<lparr>rec := loadDeployment (files s) ''xsmart'' (network D)\<rparr>))
     (\<lambda>_. registerTranslations D)"

subsection \<open>xsmart: deploy-bc1.ts\<close>

text \<open>\<open>{...rec, network: "bc1"}\<close>, written to its own file.\<close>

definition write_mirror :: "('n, 'd) deploy_env \<Rightarrow> string \<Rightarrow> ('n session, unit) script" where
  "write_mirror D name s =
     (case writeDeployment (api D) (s\<lparr>rec := (rec s)\<lparr>d_network := name\<rparr>\<rparr>) of
        (r, s') \<Rightarrow> (r, s'\<lparr>rec := rec s\<rparr>))"

text \<open>The contracts and their wiring, the same in the two scripts for the execution chain.\<close>

definition bc1_contracts :: "('n, 'd) deploy_env \<Rightarrow> nat \<Rightarrow> ('n session, string \<times> string) script" where
  "bc1_contracts D chain =
     await (fundActors (api D) [relayerAddr D]) (\<lambda>_.
     await (deployed D ''lightClient'' ''LightClient'' (lightClient_args chain)) (\<lambda>lc.
     await (deployed D ''relayerManager'' ''RelayerManager'' manager_args) (\<lambda>rm.
     await (deployed D ''ubtlRegistry'' ''UBTLRegistry'' []) (\<lambda>registry.
     await (deploySelectedProofAdapter D lc) (\<lambda>proofAdapter.
     await (deployed D ''xBridgingContract'' ''XBridgingContract'' (bridge_args chain lc rm)) (\<lambda>bridge.
     await (deployed D ''lHotel'' ''LHotel'' []) (\<lambda>lHotel.
     await (deployed D ''lTrain'' ''LTrain'' []) (\<lambda>lTrain.
     await (deployed D ''sHotel'' ''SHotel'' (state_args (HOTEL_PRICE CONSTS) (HOTEL_REMAIN CONSTS) lHotel bridge)) (\<lambda>sHotel.
     await (deployed D ''sTrain'' ''STrain'' (state_args (TRAIN_PRICE CONSTS) (TRAIN_SEATS CONSTS) lTrain bridge)) (\<lambda>sTrain.
     await (deployed D ''hotelBookingTranslated'' ''HotelBookingTranslated'' []) (\<lambda>translated.
     await (ensure_relayer D rm) (\<lambda>_.
     await (ensure_registry D bridge registry) (\<lambda>_.
     await (setSelectedProofAdapter D bridge proofAdapter) (\<lambda>_.
     await (for_each [sHotel, sTrain] (ensure_state D ''XBridgingContract'' bridge)) (\<lambda>_.
     await (ensure_service D bridge translated) (\<lambda>_.
     await (ensure_verified D bridge) (\<lambda>_.
     give (bridge, translated))))))))))))))))))"

definition local_balance :: "('n, 'd) deploy_env \<Rightarrow> bool \<Rightarrow> ('n session, unit) script" where
  "local_balance D is_local = (if is_local then on_node (set_balance D (relayerAddr D)) else give ())"

definition deploy_bc1 :: "('n, 'd) deploy_env \<Rightarrow> ('n session, unit) script" where
  "deploy_bc1 D =
     (let net = network D in
      await (open_record D ''xsmart'' net (chainIdOf net)) (\<lambda>_.
      await (local_balance D (net = ''local'')) (\<lambda>_.
      await (bc1_contracts D (chainIdOf net)) (\<lambda>_.
      await (registerTranslations D) (\<lambda>_.
      await (save D) (\<lambda>_.
      if net = ''local'' then write_mirror D ''bc1'' else give ()))))))"

subsection \<open>xsmart: deploy-bc1-1a.ts\<close>

definition meta_apply_args :: "('n, 'd) deploy_env \<Rightarrow> js_value list" where
  "meta_apply_args D =
     [num_arg (uint (meta_slot (evm_coder D))),
      JArray (map (\<lambda>b. PBigint (uint b)) (abi_encode_meta (evm_coder D) ''benchmark''
        (U (HOTEL_PRICE CONSTS)) (U (HOTEL_REMAIN CONSTS)) (U (LOCK_SIZE CONSTS))))]"

definition ensure_meta :: "('n, 'd) deploy_env \<Rightarrow> string \<Rightarrow> ('n session, unit) script" where
  "ensure_meta D translated =
     ensure (readContract (api D) ''HotelBookingTranslated'' translated ''GetPrice'' [])
       (\<lambda>v. res_bind (value_BigInt v) (\<lambda>n. Inr (n = 0)))
       (sendContract (api D) ''HotelBookingTranslated'' translated ''__vassp_apply'' (meta_apply_args D) None)"

definition deploy_bc1_1a :: "('n, 'd) deploy_env \<Rightarrow> ('n session, unit) script" where
  "deploy_bc1_1a D =
     await (open_record D ''xsmart'' ''bc1-1a'' 1) (\<lambda>_.
     await (local_balance D (net_name D = ''local'')) (\<lambda>_.
     await (bc1_contracts D 1) (\<lambda>(bridge, translated).
     await (ensure_meta D translated) (\<lambda>_.
     await (registerTranslations D) (\<lambda>_.
     save D)))))"

subsection \<open>xsmart: deploy-evm-1a.ts\<close>

definition profileFor :: "string \<Rightarrow> (string \<times> nat) res" where
  "profileFor chain =
     (if chain = ''bc2'' then Inr (''bc2-evm'', 2)
      else if chain = ''bc3'' then Inr (''bc3-evm'', 3)
      else Inl (''Unsupported XSmart 1a EVM chain: '' @ chain))"

definition when_chain :: "bool \<Rightarrow> ('s, string) script \<Rightarrow> ('s, string) script" where
  "when_chain b m = (if b then m else give [])"

definition evm_1a_contracts :: "('n, 'd) deploy_env \<Rightarrow> string \<Rightarrow> nat \<Rightarrow> ('n session, unit) script" where
  "evm_1a_contracts D chain chainId =
     await (fundActors (api D) [relayerAddr D]) (\<lambda>_.
     await (deployed D ''lightClient'' ''LightClient'' (lightClient_args chainId)) (\<lambda>lc.
     await (deployed D ''relayerManager'' ''RelayerManager'' manager_args) (\<lambda>rm.
     await (deployed D ''ubtlRegistry'' ''UBTLRegistry'' []) (\<lambda>registry.
     await (deploySelectedProofAdapter D lc) (\<lambda>proofAdapter.
     await (deployed D ''xBridgingContract'' ''XBridgingContract'' (bridge_args chainId lc rm)) (\<lambda>bridge.
     await (deployed D ''lHotel'' ''LHotel'' []) (\<lambda>lHotel.
     await (deployed D ''lTrain'' ''LTrain'' []) (\<lambda>lTrain.
     await (deployed D ''lFlight'' ''LFlight'' []) (\<lambda>lFlight.
     await (deployed D ''lTaxi'' ''LTaxi'' []) (\<lambda>lTaxi.
     await (deployed D ''sHotel'' ''SHotel'' (state_args (HOTEL_PRICE CONSTS) (HOTEL_REMAIN CONSTS) lHotel bridge)) (\<lambda>sHotel.
     await (when_chain (chain = ''bc2'')
       (deployed D ''sFlight'' ''SFlight'' (state_args (FLIGHT_PRICE CONSTS) (FLIGHT_SEATS CONSTS) lFlight bridge))) (\<lambda>sFlight.
     await (when_chain (chain = ''bc3'')
       (deployed D ''sTaxi'' ''STaxi'' (state_args (TAXI_PRICE CONSTS) (TAXI_CARS CONSTS) lTaxi bridge))) (\<lambda>sTaxi.
     await (deployed D ''sTrain'' ''STrain'' (state_args (TRAIN_PRICE CONSTS) (TRAIN_SEATS CONSTS) lTrain bridge)) (\<lambda>sTrain.
     await (ensure_relayer D rm) (\<lambda>_.
     await (ensure_registry D bridge registry) (\<lambda>_.
     await (setSelectedProofAdapter D bridge proofAdapter) (\<lambda>_.
     for_each (filter (\<lambda>a. a \<noteq> []) [sHotel, sTrain, sFlight, sTaxi])
       (ensure_state D ''XBridgingContract'' bridge))))))))))))))))))"

definition deploy_evm_1a :: "('n, 'd) deploy_env \<Rightarrow> ('n session, unit) script" where
  "deploy_evm_1a D =
     (let chain = network D in
      if chain = [] then throw ''Unable to resolve target chain for XSmart 1a EVM deploy''
      else await (of_res (profileFor chain)) (\<lambda>(deployKey, chainId).
        await (open_record D ''xsmart'' deployKey chainId) (\<lambda>_.
        await (evm_1a_contracts D chain chainId) (\<lambda>_.
        save D))))"

end
