(* ===== verification/Deploy_Baselines.thy ===== *)
theory Deploy_Baselines
  imports Deploy_Scripts
begin

text \<open>
  The deploy scripts of the systems the benchmarks compare with: \<open>scripts/integratex\<close>,
  \<open>scripts/gpact\<close>, and the service chains of \<open>scripts/atom\<close>.
\<close>

subsection \<open>IntegrateX\<close>

definition ensure_manager_bridge :: "('n, 'd) deploy_env \<Rightarrow> string \<Rightarrow> string \<Rightarrow> ('n session, unit) script" where
  "ensure_manager_bridge D rm bc =
     ensure (readContract (api D) ''RelayerManager'' rm ''bridgingContract'' []) (differs bc)
       (sendContract (api D) ''RelayerManager'' rm ''setBridgingContract'' [str_arg bc] None)"

definition integratex_bc1 :: "('n, 'd) deploy_env \<Rightarrow> ('n session, unit) script" where
  "integratex_bc1 D =
     (let net = network D in
      await (open_record D ''integratex'' net (chainIdOf net)) (\<lambda>_.
      await (fundActors (api D) [relayerAddr D]) (\<lambda>_.
      await (deployed D ''lightClient'' ''LightClient'' (lightClient_args (chainIdOf net))) (\<lambda>lc.
      await (deployed D ''relayerManager'' ''RelayerManager'' manager_args) (\<lambda>rm.
      await (deployed D ''bridgingContract'' ''BridgingContract'' (bridge_args (chainIdOf net) lc rm)) (\<lambda>bc.
      await (deployed D ''lHotel'' ''LHotel'' []) (\<lambda>lh.
      await (deployed D ''lTrain'' ''LTrain'' []) (\<lambda>lt.
      await (deployed D ''lFlight'' ''LFlight'' []) (\<lambda>lf.
      await (deployed D ''lTaxi'' ''LTaxi'' []) (\<lambda>ltx.
      await (deployed D ''travelDApp'' ''CrossChainTravelDApp''
        [str_arg bc, str_arg lh, str_arg lt, num_arg (DAPP_TIMEOUT_BLOCKS CONSTS)]) (\<lambda>_.
      await (deployed D ''travelDepthDApp'' ''CrossChainTravelDepthDApp''
        [str_arg bc, str_arg lh, str_arg lt, str_arg lf, str_arg ltx, num_arg (DAPP_TIMEOUT_BLOCKS CONSTS)]) (\<lambda>_.
      await (ensure_relayer D rm) (\<lambda>_.
      await (ensure_manager_bridge D rm bc) (\<lambda>_.
      save D))))))))))))))"

text \<open>A service chain: a pair of logic and state contracts for each of two services.\<close>

definition integratex_service :: "('n, 'd) deploy_env \<Rightarrow> (string \<Rightarrow> ('n session, string list) script) \<Rightarrow> ('n session, unit) script" where
  "integratex_service D services =
     (let net = network D in
      await (open_record D ''integratex'' net (chainIdOf net)) (\<lambda>_.
      await (fundActors (api D) [relayerAddr D]) (\<lambda>_.
      await (deployed D ''lightClient'' ''LightClient'' (lightClient_args (chainIdOf net))) (\<lambda>lc.
      await (deployed D ''relayerManager'' ''RelayerManager'' manager_args) (\<lambda>rm.
      await (deployed D ''bridgingContract'' ''BridgingContract'' (bridge_args (chainIdOf net) lc rm)) (\<lambda>bc.
      await (services bc) (\<lambda>stateContracts.
      await (ensure_relayer D rm) (\<lambda>_.
      await (ensure_manager_bridge D rm bc) (\<lambda>_.
      await (for_each stateContracts (ensure_state D ''BridgingContract'' bc)) (\<lambda>_.
      save D))))))))))"

definition integratex_bc2 :: "('n, 'd) deploy_env \<Rightarrow> ('n session, unit) script" where
  "integratex_bc2 D = integratex_service D (\<lambda>bc.
     await (deployed D ''lHotel'' ''LHotel'' []) (\<lambda>lh.
     await (deployed D ''sHotel'' ''SHotel'' (state_args (HOTEL_PRICE CONSTS) (HOTEL_REMAIN CONSTS) lh bc)) (\<lambda>sHotel.
     await (deployed D ''lFlight'' ''LFlight'' []) (\<lambda>lf.
     await (deployed D ''sFlight'' ''SFlight'' (state_args (FLIGHT_PRICE CONSTS) (FLIGHT_SEATS CONSTS) lf bc)) (\<lambda>sFlight.
     give [sHotel, sFlight])))))"

definition integratex_bc3 :: "('n, 'd) deploy_env \<Rightarrow> ('n session, unit) script" where
  "integratex_bc3 D = integratex_service D (\<lambda>bc.
     await (deployed D ''lTrain'' ''LTrain'' []) (\<lambda>lt.
     await (deployed D ''sTrain'' ''STrain'' (state_args (TRAIN_PRICE CONSTS) (TRAIN_SEATS CONSTS) lt bc)) (\<lambda>sTrain.
     await (deployed D ''lTaxi'' ''LTaxi'' []) (\<lambda>ltx.
     await (deployed D ''sTaxi'' ''STaxi'' (state_args (TAXI_PRICE CONSTS) (TAXI_CARS CONSTS) ltx bc)) (\<lambda>sTaxi.
     give [sTrain, sTaxi])))))"

subsection \<open>GPACT\<close>

definition signer_addresses :: "('n, 'd) deploy_env \<Rightarrow> string list" where
  "signer_addresses D = map (account_of (api D)) [atomServer_key, judge_keys ! 1, judge_keys ! 2]"

definition configureRegistry :: "('n, 'd) deploy_env \<Rightarrow> string \<Rightarrow> ('n session, string list) script" where
  "configureRegistry D registry =
     await (for_each (signer_addresses D) (\<lambda>signer.
       ensure (readContract (api D) ''GPACTEventSignerRegistry'' registry ''activeSigners'' [str_arg signer]) falsy
         (sendContract (api D) ''GPACTEventSignerRegistry'' registry ''registerSigner'' [str_arg signer] None))) (\<lambda>_.
     await (ensure (readContract (api D) ''GPACTEventSignerRegistry'' registry ''quorum'' [])
         (\<lambda>v. res_bind (value_BigInt v) (\<lambda>q. Inr (q \<noteq> GPACT_SIGNER_QUORUM CONSTS)))
         (sendContract (api D) ''GPACTEventSignerRegistry'' registry ''setQuorum''
           [num_arg (GPACT_SIGNER_QUORUM CONSTS)] None)) (\<lambda>_.
     give (signer_addresses D)))"

definition atomServerAddr :: "('n, 'd) deploy_env \<Rightarrow> string" where
  "atomServerAddr D = account_of (api D) atomServer_key"

definition ensure_owner :: "('n, 'd) deploy_env \<Rightarrow> string \<Rightarrow> ('n session, unit) script" where
  "ensure_owner D control =
     ensure (readContract (api D) ''GPACTCrosschainControl'' control ''owner'' []) (differs (atomServerAddr D))
       (sendContract (api D) ''GPACTCrosschainControl'' control ''transferOwnership'' [str_arg (atomServerAddr D)] None)"

definition write_contract :: "string \<Rightarrow> string \<Rightarrow> ('n session, unit) script" where
  "write_contract key a s = (Inr (), s\<lparr>rec := set_contract key a (rec s)\<rparr>)"

definition gpact_deploy :: "('n, 'd) deploy_env \<Rightarrow> (string \<Rightarrow> ('n session, unit) script) \<Rightarrow> ('n session, unit) script" where
  "gpact_deploy D applications =
     (let net = network D in
      await (open_record D ''gpact'' net (chainIdOf net)) (\<lambda>_.
      await (fundActors (api D) [atomServerAddr D]) (\<lambda>_.
      await (deployed D ''gpactSignerRegistry'' ''GPACTEventSignerRegistry'' [num_arg (GPACT_SIGNER_QUORUM CONSTS)]) (\<lambda>registry.
      await (deployed D ''gpactCrosschainControl'' ''GPACTCrosschainControl''
        [num_arg (int (chainIdOf net)), str_arg registry]) (\<lambda>control.
      await (applications control) (\<lambda>_.
      await (configureRegistry D registry) (\<lambda>signerAddresses.
      await (ensure_owner D control) (\<lambda>_.
      await (write_contract ''gpactRelayer'' (atomServerAddr D)) (\<lambda>_.
      await (write_contract ''gpactSigners'' (join '','' signerAddresses)) (\<lambda>_.
      await (write_contract ''gpactQuorum'' (show_int (GPACT_SIGNER_QUORUM CONSTS))) (\<lambda>_.
      save D)))))))))))"

definition gpact_pair :: "('n, 'd) deploy_env \<Rightarrow> string \<times> string \<times> int \<times> int \<Rightarrow> string \<Rightarrow> ('n session, string) script" where
  "gpact_pair D = (\<lambda>(key, name, price, remain) control. deployed D key name [num_arg price, num_arg remain, str_arg control])"

definition gpact_bc1 :: "('n, 'd) deploy_env \<Rightarrow> ('n session, unit) script" where
  "gpact_bc1 D = gpact_deploy D (\<lambda>control.
     await (deployed D ''gpactTravelRoot'' ''GPACTTravelRoot'' [str_arg control]) (\<lambda>_. give ()))"

definition gpact_bc2 :: "('n, 'd) deploy_env \<Rightarrow> ('n session, unit) script" where
  "gpact_bc2 D = gpact_deploy D (\<lambda>control.
     await (gpact_pair D (''gpactHotel'', ''GPACTHotel'', HOTEL_PRICE CONSTS, HOTEL_REMAIN CONSTS) control) (\<lambda>_.
     await (gpact_pair D (''gpactFlight'', ''GPACTFlight'', FLIGHT_PRICE CONSTS, FLIGHT_SEATS CONSTS) control) (\<lambda>_.
     give ())))"

definition gpact_bc3 :: "('n, 'd) deploy_env \<Rightarrow> ('n session, unit) script" where
  "gpact_bc3 D = gpact_deploy D (\<lambda>control.
     await (gpact_pair D (''gpactTrain'', ''GPACTTrain'', TRAIN_PRICE CONSTS, TRAIN_SEATS CONSTS) control) (\<lambda>_.
     await (gpact_pair D (''gpactTaxi'', ''GPACTTaxi'', TAXI_PRICE CONSTS, TAXI_CARS CONSTS) control) (\<lambda>_.
     give ())))"

subsection \<open>ATOM's service chains\<close>

definition atom_service :: "('n, 'd) deploy_env \<Rightarrow> (string \<times> string \<times> int \<times> int) list \<Rightarrow> ('n session, unit) script" where
  "atom_service D services =
     (let net = network D in
      await (open_record D ''atom'' net (chainIdOf net)) (\<lambda>_.
      await (fundActors (api D) [atomServerAddr D]) (\<lambda>_.
      await (for_each services (\<lambda>(key, name, price, remain).
        await (deployed D key name [num_arg price, num_arg remain, str_arg (atomServerAddr D)]) (\<lambda>_. give ()))) (\<lambda>_.
      await (write_contract ''atomServer'' (atomServerAddr D)) (\<lambda>_.
      save D)))))"

definition atom_bc2 :: "('n, 'd) deploy_env \<Rightarrow> ('n session, unit) script" where
  "atom_bc2 D = atom_service D
     [(''atomHotel'', ''AtomHotel'', HOTEL_PRICE CONSTS, HOTEL_REMAIN CONSTS),
      (''atomFlight'', ''AtomFlight'', FLIGHT_PRICE CONSTS, FLIGHT_SEATS CONSTS)]"

definition atom_bc3 :: "('n, 'd) deploy_env \<Rightarrow> ('n session, unit) script" where
  "atom_bc3 D = atom_service D
     [(''atomTrain'', ''AtomTrain'', TRAIN_PRICE CONSTS, TRAIN_SEATS CONSTS),
      (''atomTaxi'', ''AtomTaxi'', TAXI_PRICE CONSTS, TAXI_CARS CONSTS)]"

end
