(* ===== verification/Deploy_Growth.thy ===== *)
theory Deploy_Growth
  imports Bridge_Chain Deploy_Baselines
begin

text \<open>
  What a deploy step can change on the chain and in the deployment record: everything it
  established stays established, except the settings it writes. The order \<open>session_grows F\<close> says
  so with the written settings in \<open>F\<close>; with the invisible changes \<open>quiet\<close> it is a growing world.
\<close>

datatype setting = Registry | Adapter | ManagerBridge | HotelMeta | Quorum | Owner | File | Key string

fun evolves :: "setting set \<Rightarrow> contract \<Rightarrow> contract \<Rightarrow> bool" where
  "evolves F (RelayerManagerC m) (RelayerManagerC m') \<longleftrightarrow>
     (ManagerBridge \<notin> F \<longrightarrow> rm_bridgingContract m' = rm_bridgingContract m) \<and>
     (\<forall>r. isRelayerActive m r \<longrightarrow> isRelayerActive m' r)"
| "evolves F (BridgeC b) (BridgeC b') \<longleftrightarrow>
     br_class b' = br_class b \<and>
     (Registry \<notin> F \<longrightarrow> br_ubtlRegistry b' = br_ubtlRegistry b) \<and>
     (Adapter \<notin> F \<longrightarrow> br_proofAdapter b' = br_proofAdapter b) \<and>
     (\<forall>a. br_registeredStateContracts b a \<longrightarrow> br_registeredStateContracts b' a) \<and>
     (\<forall>i. br_serviceToLogic b i \<noteq> ZERO_ADDRESS \<longrightarrow> br_serviceToLogic b' i = br_serviceToLogic b i) \<and>
     (\<forall>i. br_serviceVerified b i \<longrightarrow> br_serviceVerified b' i)"
| "evolves F (UBTLRegistryC g) (UBTLRegistryC g') \<longleftrightarrow> ur_translations g \<subseteq>\<^sub>m ur_translations g'"
| "evolves F (HotelC h) (HotelC h') \<longleftrightarrow>
     (HotelMeta \<notin> F \<longrightarrow> mt_price (hs_meta h) \<noteq> 0 \<longrightarrow> mt_price (hs_meta h') \<noteq> 0)"
| "evolves F (SignerRegistryC g) (SignerRegistryC g') \<longleftrightarrow>
     (\<forall>a. sg_active g a \<longrightarrow> sg_active g' a) \<and> (Quorum \<notin> F \<longrightarrow> sg_quorum g' = sg_quorum g)"
| "evolves F (ControlC own) (ControlC own') \<longleftrightarrow> (Owner \<notin> F \<longrightarrow> own' = own)"
| "evolves F (OtherC n vs) (OtherC n' vs') \<longleftrightarrow> n = n' \<and> vs = vs'"
| "evolves F _ _ \<longleftrightarrow> False"

lemma evolves_refl [simp]: "evolves F x x"
  by (cases x) simp_all

lemma evolves_trans: "evolves F x y \<Longrightarrow> evolves F y z \<Longrightarrow> evolves F x z"
  by (cases x; cases y; cases z) (auto dest: map_le_trans)

lemma evolves_mono: "evolves F x y \<Longrightarrow> F \<subseteq> G \<Longrightarrow> evolves G x y"
  by (cases x; cases y) auto

definition sender_of :: "evm_rules \<Rightarrow> string" where
  "sender_of R = to_lower (key_address R DEPLOYER_PRIVATE_KEY)"

definition chain_grows :: "evm_rules \<Rightarrow> setting set \<Rightarrow> evm_chain \<Rightarrow> evm_chain \<Rightarrow> bool" where
  "chain_grows R F c c' \<longleftrightarrow>
     (\<forall>a x. at c a = Some x \<longrightarrow> (\<exists>x'. at c' a = Some x' \<and> evolves F x x')) \<and>
     (\<forall>a. a \<noteq> sender_of R \<longrightarrow> wei c a \<le> wei c' a)"

lemma chain_grows_refl: "at c' = at c \<Longrightarrow> wei c' = wei c \<Longrightarrow> chain_grows R F c c'"
  by (auto simp: chain_grows_def)

lemma chain_grows_trans:
  assumes "chain_grows R F c c'" and "chain_grows R F c' c''"
  shows "chain_grows R F c c''"
  unfolding chain_grows_def
proof (intro conjI allI impI)
  fix a x assume "at c a = Some x"
  with assms obtain y z where "at c' a = Some y" "evolves F x y" "at c'' a = Some z" "evolves F y z"
    unfolding chain_grows_def by meson
  then show "\<exists>z. at c'' a = Some z \<and> evolves F x z" using evolves_trans by blast
next
  fix a assume "a \<noteq> sender_of R"
  with assms show "wei c a \<le> wei c'' a" unfolding chain_grows_def by (meson order_trans)
qed

lemma chain_grows_mono: "chain_grows R F c c' \<Longrightarrow> F \<subseteq> G \<Longrightarrow> chain_grows R G c c'"
  unfolding chain_grows_def using evolves_mono by blast

lemma chain_grows_put: "at c a = Some x \<Longrightarrow> evolves F x y \<Longrightarrow> chain_grows R F c (put a y c)"
  by (auto simp: chain_grows_def put_def)

subsection \<open>Transactions\<close>

definition touches :: "string \<Rightarrow> setting set" where
  "touches meth =
     (if meth = ''setUBTLRegistry'' then {Registry}
      else if meth = ''setProofAdapter'' then {Adapter}
      else if meth = ''setBridgingContract'' then {ManagerBridge}
      else if meth = ''__vassp_apply'' then {HotelMeta}
      else if meth = ''setQuorum'' then {Quorum}
      else if meth = ''transferOwnership'' then {Owner}
      else {})"

lemma require_Inr [simp]: "require b e k = Inr x \<longleftrightarrow> b \<and> k = Inr x"
  by (simp add: require_def)

lemma no_method_not [simp]: "no_method \<noteq> Inr x"
  by (simp add: no_method_def)

lemma storing_Inr: "storing a f c r = Inr c' \<longleftrightarrow> (\<exists>x. r = Inr x \<and> c' = put a (f x) c)"
  by (auto simp: storing_def res_bind_Inr_iff)

lemma call_manager_evolves:
  "call_manager sender amount meth args m = Inr m' \<Longrightarrow> evolves (touches meth) (RelayerManagerC m) (RelayerManagerC m')"
  by (auto simp: call_manager_def registerRelayer_def setBridgingContract_def touches_def isRelayerActive_def
    split: if_splits list.splits js_prim.splits)

lemma call_bridge_evolves:
  "call_bridge sender meth args b = Inr b' \<Longrightarrow> evolves (touches meth) (BridgeC b) (BridgeC b')"
  by (auto simp: call_bridge_def regState_def regServer_def setUBTLRegistry_def setProofAdapter_def touches_def
    split: if_splits list.splits js_prim.splits)

lemma call_registry_evolves:
  "call_registry R sender meth args c g = Inr g' \<Longrightarrow> evolves F (UBTLRegistryC g) (UBTLRegistryC g')"
  by (auto simp: call_registry_def register_translation_def map_le_def
    split: if_splits list.splits js_prim.splits)

lemma call_hotel_evolves:
  "call_hotel R meth args h = Inr h' \<Longrightarrow> evolves (touches meth) (HotelC h) (HotelC h')"
  by (auto simp: call_hotel_def touches_def split: if_splits list.splits js_prim.splits js_value.splits)

lemma call_signers_evolves:
  "call_signers sender meth args g = Inr g' \<Longrightarrow> evolves (touches meth) (SignerRegistryC g) (SignerRegistryC g')"
  by (auto simp: call_signers_def registerSigner_def setQuorum_def touches_def res_bind_Inr_iff
    split: if_splits list.splits js_prim.splits)

lemma rewardRelayer_evolves:
  "rewardRelayer r m = Inr m' \<Longrightarrow> evolves F (RelayerManagerC m) (RelayerManagerC m')"
  by (auto simp: rewardRelayer_def Let_def res_bind_Inr_iff isRelayerActive_def)

lemma call_confirmE:
  assumes "call_confirm target args b c = Inr c'"
  obtains i b' m m' rest where "confirmVerified i b = Inr b'"
    "at c (br_relayerManager b) = Some (RelayerManagerC m)" "rewardRelayer (br_serviceRelayer b i) m = Inr m'"
    "c' = put target (BridgeC b') (put (br_relayerManager b) (RelayerManagerC m') c)"
    "args = PString i # PBool True # PBigint 0 # rest"
proof -
  obtain p ps where 1: "args = p # ps" using assms by (cases args) (simp_all add: call_confirm_def)
  obtain i where 2: "p = PString i" using assms 1 by (cases p) (simp_all add: call_confirm_def)
  obtain q qs where 3: "ps = q # qs" using assms 1 2 by (cases ps) (simp_all add: call_confirm_def)
  obtain t where 4: "q = PBool t" using assms 1 2 3 by (cases q) (simp_all add: call_confirm_def)
  have 5: "t" using assms 1 2 3 4 by (cases t) (simp_all add: call_confirm_def)
  obtain r rest where 6: "qs = r # rest" using assms 1 2 3 4 5 by (cases qs) (simp_all add: call_confirm_def)
  obtain n where 7: "r = PBigint n" using assms 1 2 3 4 5 6 by (cases r) (simp_all add: call_confirm_def)
  have n: "n = 0" using assms 1 2 3 4 5 6 7 by (simp add: call_confirm_def split: if_splits)
  have a: "args = PString i # PBool True # PBigint n # rest" using 1 2 3 4 5 6 7 by simp
  let ?rest = "\<lambda>b'. case at c (br_relayerManager b) of
      Some (RelayerManagerC m) \<Rightarrow> res_bind (rewardRelayer (br_serviceRelayer b i) m) (\<lambda>m'.
        Inr (put target (BridgeC b') (put (br_relayerManager b) (RelayerManagerC m') c)))
    | _ \<Rightarrow> no_method"
  from assms have "res_bind (confirmVerified i b) ?rest = Inr c'"
    unfolding call_confirm_def a n by simp
  then obtain b' where b': "confirmVerified i b = Inr b'" "?rest b' = Inr c'"
    unfolding res_bind_Inr_iff by blast
  obtain x where x: "at c (br_relayerManager b) = Some x"
    using b'(2) by (cases "at c (br_relayerManager b)") simp_all
  obtain m where m: "x = RelayerManagerC m" using b'(2) x by (cases x) simp_all
  obtain m' where m': "rewardRelayer (br_serviceRelayer b i) m = Inr m'"
      "c' = put target (BridgeC b') (put (br_relayerManager b) (RelayerManagerC m') c)"
    using b'(2) x m by (auto simp: res_bind_Inr_iff)
  show thesis by (rule that [OF b'(1) x [unfolded m] m' a [unfolded n]])
qed

lemma call_confirm_grows:
  assumes "call_confirm target args b c = Inr c'" and "at c target = Some (BridgeC b)"
  shows "chain_grows R F c c'"
proof -
  from assms(1) obtain i b' m m' where c: "confirmVerified i b = Inr b'"
      "at c (br_relayerManager b) = Some (RelayerManagerC m)" "rewardRelayer (br_serviceRelayer b i) m = Inr m'"
      "c' = put target (BridgeC b') (put (br_relayerManager b) (RelayerManagerC m') c)"
    by (rule call_confirmE)
  have "target \<noteq> br_relayerManager b" using assms(2) c(2) by auto
  then have "at (put (br_relayerManager b) (RelayerManagerC m') c) target = Some (BridgeC b)"
    using assms(2) by (simp add: put_def)
  moreover have "evolves F (BridgeC b) (BridgeC b')" using c(1) by (auto simp: confirmVerified_def)
  ultimately have "chain_grows R F (put (br_relayerManager b) (RelayerManagerC m') c) c'"
    unfolding c(4) by (rule chain_grows_put)
  moreover have "chain_grows R F c (put (br_relayerManager b) (RelayerManagerC m') c)"
    by (rule chain_grows_put [OF c(2) rewardRelayer_evolves [OF c(3)]])
  ultimately show ?thesis by (rule chain_grows_trans [rotated])
qed

lemma transact_grows:
  assumes "transact R sender amount target meth args c = Inr c'"
  shows "chain_grows R (touches meth) c c'"
proof (cases "at c target")
  case None then show ?thesis using assms by (simp add: transact_def chain_grows_refl)
next
  case (Some x)
  show ?thesis
  proof (cases x)
    case (RelayerManagerC m)
    then show ?thesis using assms Some
      by (auto simp: transact_def storing_Inr intro!: chain_grows_put call_manager_evolves)
  next
    case (BridgeC b)
    then show ?thesis using assms Some
      by (auto simp: transact_def storing_Inr split: if_splits
        intro: chain_grows_put call_bridge_evolves call_confirm_grows)
  next
    case (UBTLRegistryC g)
    then show ?thesis using assms Some
      by (auto simp: transact_def storing_Inr split: if_splits intro: chain_grows_put call_registry_evolves)
  next
    case (HotelC h)
    then show ?thesis using assms Some
      by (auto simp: transact_def storing_Inr split: if_splits intro: chain_grows_put call_hotel_evolves)
  next
    case (SignerRegistryC g)
    then show ?thesis using assms Some
      by (auto simp: transact_def storing_Inr split: if_splits intro: chain_grows_put call_signers_evolves)
  next
    case (ControlC own)
    then show ?thesis using assms Some
      by (auto simp: transact_def storing_Inr touches_def split: if_splits list.splits js_prim.splits
        intro!: chain_grows_put)
  next
    case (OtherC n vs)
    then show ?thesis using assms Some by (simp add: transact_def split: if_splits)
  qed
qed

lemma create_grows: "create R sender name args c = Inr (a, c') \<Longrightarrow> chain_grows R F c c'"
  by (auto simp: create_def Let_def res_bind_Inr_iff put_def chain_grows_def split: if_splits)

lemma mined_simps [simp]: "at (mined s c) = at c" "wei (mined s c) = wei c" "sent (mined s c) = sent c"
  by (simp_all add: mined_def)

lemma pay_simps [simp]: "at (pay s t n c) = at c" "height (pay s t n c) = height c" "sent (pay s t n c) = sent c"
  by (simp_all add: pay_def)

lemma pay_grows: "chain_grows R F c (pay (sender_of R) t n c)"
  by (auto simp: chain_grows_def pay_def)

definition tx_touches :: "call_data tx \<Rightarrow> setting set" where
  "tx_touches t = (case tx_data t of Some (Invocation name meth args) \<Rightarrow> touches meth | _ \<Rightarrow> {})"

lemma execute_grows:
  assumes "execute_tx R (sender_of R) t c = (r, c')"
  shows "chain_grows R (tx_touches t) c c'"
proof -
  let ?v = "case tx_value t of Some v \<Rightarrow> v | None \<Rightarrow> 0"
  have same: "chain_grows R F d (mined s d)" for F d s by (rule chain_grows_refl) simp_all
  have paid: "chain_grows R F c (mined (sender_of R) (pay (sender_of R) a n c))" for F a n
    using chain_grows_trans [OF pay_grows same] .
  have made: "chain_grows R F c (mined (sender_of R) c2)" if "create R (sender_of R) name args c = Inr (a, c2)"
    for F name args a c2
    using chain_grows_trans [OF create_grows [OF that] same] .
  have ran: "chain_grows R (touches meth) c (mined (sender_of R) c2)"
    if "transact R (sender_of R) n target meth args (pay (sender_of R) target k c) = Inr c2" for target c2 n k meth args
    using chain_grows_trans [OF chain_grows_trans [OF pay_grows transact_grows [OF that]] same] .
  show ?thesis
  proof (cases "?v < 0 \<or> wei c (sender_of R) < nat ?v")
    case True then show ?thesis using assms by (auto simp: execute_tx_def Let_def chain_grows_refl)
  next
    case False
    show ?thesis
    proof (cases "tx_data t")
      case None
      then show ?thesis using assms False paid
        by (cases "tx_to t") (auto simp: execute_tx_def Let_def chain_grows_refl)
    next
      case (Some d)
      then show ?thesis using assms False same made ran
        by (cases d; cases "tx_to t")
          (auto simp: execute_tx_def Let_def chain_grows_refl tx_touches_def split: sum.splits)
    qed
  qed
qed

end
