(* ===== verification/Deploy_Steps.thy ===== *)
theory Deploy_Steps
  imports Deploy_Growth
begin

text \<open>
  The steps of the deploy scripts as steady scripts over the chain of \<open>Bridge_Chain\<close>: which
  settings each relies on once it has settled, and which it changes. The composition is by the
  rules of \<open>Scripts\<close>.
\<close>

subsection \<open>Sessions\<close>

definition same_record :: "deployment \<Rightarrow> deployment \<Rightarrow> bool" where
  "same_record d d' \<longleftrightarrow> d\<lparr>d_deployedAt := None\<rparr> = d'\<lparr>d_deployedAt := None\<rparr>"

lemma same_record_iff:
  "same_record d d' \<longleftrightarrow> d_network d = d_network d' \<and> d_system d = d_system d' \<and> d_chainId d = d_chainId d' \<and>
     d_contracts d = d_contracts d'"
  by (cases d; cases d') (simp add: same_record_def)

lemma same_record_simps [simp]: "same_record d d" "same_record d (d\<lparr>d_deployedAt := t\<rparr>)" "same_record (d\<lparr>d_deployedAt := t\<rparr>) d"
  by (simp_all add: same_record_def)

definition filed :: "'n session \<Rightarrow> deployment option" where
  "filed s = files s (d_system (rec s)) (d_network (rec s))"

definition synced :: "'n session \<Rightarrow> bool" where
  "synced s \<longleftrightarrow> (\<exists>d. filed s = Some d \<and> same_record d (rec s))"

text \<open>Every file holds the record of its own system and network.\<close>

definition well_filed :: "'n session \<Rightarrow> bool" where
  "well_filed s \<longleftrightarrow> (\<forall>sys net d. files s sys net = Some d \<longrightarrow> d_system d = sys \<and> d_network d = net)"

text \<open>Nothing is visible of a change that only renews the time stamps of the records.\<close>

definition quiet :: "'n session \<Rightarrow> 'n session \<Rightarrow> bool" where
  "quiet s s' \<longleftrightarrow> node s' = node s \<and> same_record (rec s) (rec s') \<and>
     (\<forall>sys net. rel_option same_record (files s sys net) (files s' sys net))"

definition note_keys :: "string set" where
  "note_keys = {''gpactRelayer'', ''gpactSigners'', ''gpactQuorum'', ''atomServer''}"

definition kept_entry :: "evm_chain \<Rightarrow> string \<Rightarrow> string \<Rightarrow> bool" where
  "kept_entry c k a \<longleftrightarrow> k \<in> note_keys \<or> a \<noteq> [] \<and> at c (to_lower a) \<noteq> None"

definition session_grows :: "evm_rules \<Rightarrow> setting set \<Rightarrow> evm_chain session \<Rightarrow> evm_chain session \<Rightarrow> bool" where
  "session_grows R F s s' \<longleftrightarrow>
     chain_grows R F (node s) (node s') \<and>
     d_system (rec s') = d_system (rec s) \<and> d_network (rec s') = d_network (rec s) \<and>
     d_chainId (rec s') = d_chainId (rec s) \<and>
     (\<forall>k a. Key k \<notin> F \<longrightarrow> d_contracts (rec s) k = Some a \<longrightarrow> kept_entry (node s) k a \<longrightarrow>
        d_contracts (rec s') k = Some a) \<and>
     (File \<notin> F \<longrightarrow> synced s \<longrightarrow> synced s') \<and> (well_filed s \<longrightarrow> well_filed s')"

lemma chain_grows_at: "chain_grows R F c c' \<Longrightarrow> at c a \<noteq> None \<Longrightarrow> at c' a \<noteq> None"
  unfolding chain_grows_def by (metis not_None_eq)

lemma kept_entry_grows: "chain_grows R F c c' \<Longrightarrow> kept_entry c k a \<Longrightarrow> kept_entry c' k a"
  unfolding kept_entry_def using chain_grows_at by blast

lemma same_record_trans: "same_record d d' \<Longrightarrow> same_record d' d'' \<Longrightarrow> same_record d d''"
  by (simp add: same_record_def)

lemma same_record_sym: "same_record d d' \<Longrightarrow> same_record d' d"
  by (simp add: same_record_def)

lemma quiet_files:
  assumes "quiet s s'" and "files s' sys net = Some d'"
  obtains d where "files s sys net = Some d" "same_record d d'"
proof -
  have "rel_option same_record (files s sys net) (files s' sys net)" using assms(1) by (simp add: quiet_def)
  then have "rel_option same_record (files s sys net) (Some d')" unfolding assms(2) .
  then show thesis using that by (cases "files s sys net") auto
qed

lemma quiet_synced:
  assumes "quiet s s'" and "synced s"
  shows "synced s'"
proof -
  from assms(2) obtain d where d: "filed s = Some d" "same_record d (rec s)" by (auto simp: synced_def)
  have r: "same_record (rec s) (rec s')" using assms(1) by (simp add: quiet_def)
  then have "filed s' = files s' (d_system (rec s)) (d_network (rec s))" by (simp add: filed_def same_record_iff)
  moreover have "rel_option same_record (filed s) (files s' (d_system (rec s)) (d_network (rec s)))"
    using assms(1) by (simp add: quiet_def filed_def)
  ultimately have "rel_option same_record (Some d) (filed s')" using d(1) by (simp only:)
  then obtain d' where d': "filed s' = Some d'" "same_record d d'" by (cases "filed s'") auto
  then have "same_record d' (rec s')" using same_record_trans same_record_sym d(2) r by blast
  then show ?thesis using d'(1) by (simp add: synced_def)
qed

lemma quiet_well_filed:
  assumes "quiet s s'" and "well_filed s"
  shows "well_filed s'"
  unfolding well_filed_def
proof (intro allI impI)
  fix sys net d' assume "files s' sys net = Some d'"
  with assms(1) obtain d where "files s sys net = Some d" "same_record d d'" by (rule quiet_files)
  with assms(2) show "d_system d' = sys \<and> d_network d' = net" by (auto simp: well_filed_def same_record_iff)
qed

lemma quiet_session_grows: "quiet s s' \<Longrightarrow> session_grows R F s s'"
  using quiet_synced [of s s'] quiet_well_filed [of s s']
  by (auto simp: session_grows_def quiet_def same_record_iff chain_grows_refl)

lemma session_grows_trans:
  assumes "session_grows R F s s'" and "session_grows R F s' s''"
  shows "session_grows R F s s''"
proof -
  have g: "chain_grows R F (node s) (node s')" "chain_grows R F (node s') (node s'')"
    using assms by (simp_all add: session_grows_def)
  have "d_contracts (rec s'') k = Some a"
    if "Key k \<notin> F" "d_contracts (rec s) k = Some a" "kept_entry (node s) k a" for k a
  proof -
    have "d_contracts (rec s') k = Some a" using assms(1) that by (simp add: session_grows_def)
    moreover have "kept_entry (node s') k a" by (rule kept_entry_grows [OF g(1) that(3)])
    ultimately show ?thesis using assms(2) that(1) by (simp add: session_grows_def)
  qed
  moreover have "chain_grows R F (node s) (node s'')" by (rule chain_grows_trans [OF g])
  ultimately show ?thesis using assms by (simp add: session_grows_def)
qed

lemma session_grows_mono: "session_grows R F s s' \<Longrightarrow> F \<subseteq> G \<Longrightarrow> session_grows R G s s'"
  unfolding session_grows_def using chain_grows_mono by blast

lemma rel_option_same_trans:
  "rel_option same_record x y \<Longrightarrow> rel_option same_record y z \<Longrightarrow> rel_option same_record x z"
  by (cases x; cases y; cases z) (auto intro: same_record_trans)

lemma quiet_trans: "quiet s s' \<Longrightarrow> quiet s' s'' \<Longrightarrow> quiet s s''"
  unfolding quiet_def using same_record_trans rel_option_same_trans by metis

lemma quiet_refl: "quiet s s"
  by (simp add: quiet_def option.rel_refl)

interpretation deploys: growing_world quiet "session_grows R" for R :: evm_rules
  by unfold_locales
    (auto intro: quiet_refl quiet_trans quiet_session_grows session_grows_trans session_grows_mono)

abbreviation steady_on :: "evm_rules \<Rightarrow> setting set \<Rightarrow> setting set \<Rightarrow> (evm_chain session, 'a) script \<Rightarrow> bool" where
  "steady_on R \<equiv> steady quiet (session_grows R)"

subsection \<open>Sending\<close>

lemma find_method_chain:
  "find_method (chain_api R) n m =
     (if \<not> compiled R n then Inl (''HH700: Artifact for contract '' @ n @ '' not found'')
      else if has_method R n m then Inr (encode_call R n m)
      else Inl (''Method '' @ m @ '' not found on '' @ n))"
  by (simp add: find_method_def chain_api_def chain_artifact_def)

lemma prepare_chain:
  "\<exists>tx'. prepare_tx (chain_api R) t c = (Inr tx', c) \<and> tx_to tx' = tx_to t \<and> tx_data tx' = tx_data t \<and> tx_value tx' = tx_value t"
  by (auto simp: prepare_tx_def fill_nonce_def fill_price_def fill_gas_def await_def give_apply chain_api_def)

lemma sign_chain: "sign_tx (chain_api R) key t c = (Inr t, c)"
  by (simp add: sign_tx_def chain_api_def give_apply)

lemma raise_chain:
  "raise_price (chain_api R) t c = (r, c') \<Longrightarrow>
     c' = c \<and> (\<forall>t'. r = Inr t' \<longrightarrow> tx_to t' = tx_to t \<and> tx_data t' = tx_data t \<and> tx_value t' = tx_value t)"
  by (auto simp: raise_price_def await_def give_apply of_res_apply chain_api_def split: option.splits sum.splits prod.splits)

lemma broadcast_grows: "broadcast R DEPLOYER_PRIVATE_KEY t c = (r, c') \<Longrightarrow> chain_grows R (tx_touches t) c c'"
  unfolding broadcast_def Let_def sender_of_def [symmetric]
  using execute_grows [of R t "c\<lparr>sent := sent c @ [t]\<rparr>"]
  by (auto simp: chain_grows_def split: option.splits)

text \<open>A transaction that was mined: its effect on the chain as it was before.\<close>

definition tx_done :: "evm_rules \<Rightarrow> call_data tx \<Rightarrow> evm_chain \<Rightarrow> receipt \<Rightarrow> evm_chain \<Rightarrow> bool" where
  "tx_done R t c r c' \<longleftrightarrow> (\<exists>c0. at c0 = at c \<and> wei c0 = wei c \<and> execute_tx R (sender_of R) t c0 = (Inr r, c'))"

definition same_call :: "call_data tx \<Rightarrow> call_data tx \<Rightarrow> bool" where
  "same_call t t' \<longleftrightarrow> tx_to t' = tx_to t \<and> tx_data t' = tx_data t \<and> tx_value t' = tx_value t"

lemma execute_same_call: "same_call t t' \<Longrightarrow> execute_tx R s t' c = execute_tx R s t c"
  unfolding same_call_def execute_tx_def by (elim conjE) (simp only:)

lemma tx_touches_same: "same_call t t' \<Longrightarrow> tx_touches t' = tx_touches t"
  by (simp add: tx_touches_def same_call_def)

lemma failed_execute: "execute_tx R s t c = (Inl e, c') \<Longrightarrow> at c' = at c \<and> wei c' = wei c"
  by (auto simp: execute_tx_def Let_def split: if_splits option.splits call_data.splits sum.splits prod.splits)

lemma failed_broadcast: "broadcast R DEPLOYER_PRIVATE_KEY t c = (Inl e, c') \<Longrightarrow> at c' = at c \<and> wei c' = wei c"
  using failed_execute [of R "to_lower (key_address R DEPLOYER_PRIVATE_KEY)" t "c\<lparr>sent := sent c @ [t]\<rparr>" e c']
  by (auto simp: broadcast_def Let_def split: option.splits)

lemma done_broadcast: "broadcast R DEPLOYER_PRIVATE_KEY t c = (Inr r, c') \<Longrightarrow> tx_done R t c r c'"
  unfolding tx_done_def broadcast_def Let_def sender_of_def
  by (rule exI [of _ "c\<lparr>sent := sent c @ [t]\<rparr>"]) (auto split: option.splits)

lemma signAndSend_chain:
  "signAndSend (chain_api R) n t c = (r, c') \<Longrightarrow>
     chain_grows R (tx_touches t) c c' \<and> (\<forall>x. r = Inr x \<longrightarrow> tx_done R t c x c')"
proof (induction "chain_api R" n t c arbitrary: r c' rule: signAndSend.induct)
  case (1 n t c)
  obtain t1 where p: "prepare_tx (chain_api R) t c = (Inr t1, c)" and s1: "same_call t t1"
    using prepare_chain [of R t c] by (auto simp: same_call_def)
  have start: "await (prepare_tx (chain_api R) t) (\<lambda>tx1. await (sign_tx (chain_api R) DEPLOYER_PRIVATE_KEY tx1)
      (\<lambda>raw. give (tx1, raw))) c = (Inr (t1, t1), c)"
    using p by (simp add: await_def sign_chain give_apply)
  have snd: "sendSigned (chain_api R) = broadcast R" by (simp add: chain_api_def)
  obtain b c2 where b: "broadcast R DEPLOYER_PRIVATE_KEY t1 c = (b, c2)" by (rule prod.exhaust)
  have grow: "chain_grows R (tx_touches t) c c2"
    using broadcast_grows [OF b] tx_touches_same [OF s1] by simp
  show ?case
  proof (cases b)
    case (Inr x)
    then have "r = Inr x" "c' = c2" using "1.prems" start b snd by (simp_all add: signAndSend.simps [of _ n])
    moreover have "tx_done R t c x c2"
      using done_broadcast [OF b [unfolded Inr]] execute_same_call [OF s1] by (simp add: tx_done_def)
    ultimately show ?thesis using grow by simp
  next
    case (Inl err)
    note same = failed_broadcast [OF b [unfolded Inl]]
    show ?thesis
    proof (cases "n + 1 \<ge> 3 \<or> \<not> underpriced err")
      case True
      then show ?thesis using "1.prems" start b snd Inl grow by (auto simp: signAndSend.simps [of _ n])
    next
      case False
      obtain q c3 where q: "raise_price (chain_api R) t1 c2 = (q, c3)" by (rule prod.exhaust)
      note rc = raise_chain [OF q]
      show ?thesis
      proof (cases q)
        case (Inl e)
        then show ?thesis using "1.prems" start b snd \<open>b = Inl err\<close> False q rc grow
          by (auto simp: signAndSend.simps [of _ n])
      next
        case (Inr t2)
        then have s2: "same_call t t2" using rc s1 by (simp add: same_call_def)
        have again: "signAndSend (chain_api R) (n + 1) t2 c2 = (r, c')"
          using "1.prems" start b snd \<open>b = Inl err\<close> False q rc Inr by (simp add: signAndSend.simps [of _ n])
        have ih: "chain_grows R (tx_touches t2) c2 c' \<and> (\<forall>x. r = Inr x \<longrightarrow> tx_done R t2 c2 x c')"
          by (rule "1.hyps" [OF start [symmetric] refl refl])
            (use b snd \<open>b = Inl err\<close> False q rc Inr again in auto)
        have "tx_done R t c x c'" if "tx_done R t2 c2 x c'" for x
          using that same execute_same_call [OF s2] unfolding tx_done_def by metis
        then show ?thesis
          using ih chain_grows_trans [OF grow] tx_touches_same [OF s2] by auto
      qed
    qed
  qed
qed

lemma within_on_node:
  assumes "\<And>c r c'. m c = (r, c') \<Longrightarrow> chain_grows R F c c'"
  shows "within (session_grows R) F (on_node m)"
  using assms by (auto simp: within_def on_node_def session_grows_def synced_def filed_def well_filed_def split: prod.splits)

lemma within_signAndSend: "tx_touches t \<subseteq> F \<Longrightarrow> within (session_grows R) F (on_node (signAndSend (chain_api R) n t))"
  by (rule within_on_node) (use signAndSend_chain chain_grows_mono in blast)

lemma sendContract_chain:
  "sendContract (chain_api R) n a meth args value s =
     (if \<not> compiled R n then (Inl (''HH700: Artifact for contract '' @ n @ '' not found''), s)
      else if \<not> has_method R n meth then (Inl (''Method '' @ meth @ '' not found on '' @ n), s)
      else case argument_error R meth args of Some e \<Rightarrow> (Inl e, s)
      | None \<Rightarrow> on_node (signAndSend (chain_api R) 0
          (new_tx\<lparr>tx_to := Some a, tx_data := Some (Invocation n meth args), tx_value := value\<rparr>)) s)"
  by (simp add: sendContract_def find_method_chain await_def of_res_apply encode_call_def split: option.splits)

lemma within_sendContract:
  "touches meth \<subseteq> F \<Longrightarrow> within (session_grows R) F (sendContract (chain_api R) n a meth args value)"
  using within_signAndSend [of "new_tx\<lparr>tx_to := Some a, tx_data := Some (Invocation n meth args), tx_value := value\<rparr>" F R 0]
  by (auto simp: within_def sendContract_chain tx_touches_def deploys.grows_refl split: if_splits option.splits)

text \<open>A sent call has been executed, on the chain as it was.\<close>

lemma sendContract_done:
  assumes "sendContract (chain_api R) n a meth args value s = (Inr r, s')"
  obtains c0 c1 amount where "at c0 = at (node s)" "at (node s') = at c1" "rec s' = rec s" "files s' = files s"
    "transact R (sender_of R) amount (to_lower a) meth args c0 = Inr c1"
proof -
  let ?t = "new_tx\<lparr>tx_to := Some a, tx_data := Some (Invocation n meth args), tx_value := value\<rparr>"
  have "on_node (signAndSend (chain_api R) 0 ?t) s = (Inr r, s')"
    using assms by (auto simp: sendContract_chain split: if_splits option.splits)
  then have run: "signAndSend (chain_api R) 0 ?t (node s) = (Inr r, node s')" and same: "rec s' = rec s" "files s' = files s"
    by (auto simp: on_node_def split: prod.splits)
  from signAndSend_chain [OF run] obtain c0 where c0: "at c0 = at (node s)"
      "execute_tx R (sender_of R) ?t c0 = (Inr r, node s')" by (auto simp: tx_done_def)
  let ?v = "case value of Some v \<Rightarrow> v | None \<Rightarrow> 0"
  from c0(2) obtain c1 where "transact R (sender_of R) ?v (to_lower a) meth args
      (pay (sender_of R) (to_lower a) (nat ?v) c0) = Inr c1" "node s' = mined (sender_of R) c1"
    by (auto simp: execute_tx_def Let_def new_tx_def split: if_splits sum.splits)
  with c0(1) same show thesis by (intro that [of "pay (sender_of R) (to_lower a) (nat ?v) c0" c1 ?v]) simp_all
qed

subsection \<open>Reading\<close>

definition seen :: "evm_rules \<Rightarrow> string \<Rightarrow> string \<Rightarrow> string \<Rightarrow> js_value list \<Rightarrow> evm_chain \<Rightarrow> js_value res" where
  "seen R n a meth args c =
     (if \<not> compiled R n then Inl (''HH700: Artifact for contract '' @ n @ '' not found'')
      else if \<not> has_method R n meth then Inl (''Method '' @ meth @ '' not found on '' @ n)
      else case view_method R (to_lower a) meth args c of Inl e \<Rightarrow> Inl (error_text (evm R) e) | Inr v \<Rightarrow> Inr v)"

lemma readContract_chain: "readContract (chain_api R) n a meth args s = (seen R n a meth args (node s), s)"
  by (simp add: readContract_def find_method_chain seen_def await_def of_res_apply on_node_def)
    (simp add: chain_api_def)

lemma seen_Inr: "seen R n a meth args c = Inr v \<longleftrightarrow>
    compiled R n \<and> has_method R n meth \<and> view_method R (to_lower a) meth args c = Inr v"
  by (auto simp: seen_def split: sum.splits)

lemma view_method_at: "at c = at c' \<Longrightarrow> view_method R a meth args c = view_method R a meth args c'"
  by (simp add: view_method_def)

subsection \<open>Check and repair\<close>

definition checked :: "(evm_chain \<Rightarrow> js_value res) \<Rightarrow> (js_value \<Rightarrow> bool res) \<Rightarrow> evm_chain \<Rightarrow> bool" where
  "checked look missing c \<longleftrightarrow> (\<exists>v. look c = Inr v \<and> missing v = Inr False)"

lemma ensure_steady:
  assumes look: "\<And>s. look s = (f (node s), s)"
    and repair: "\<And>s v r s'. f (node s) = Inr v \<Longrightarrow> missing v = Inr True \<Longrightarrow> act s = (Inr r, s') \<Longrightarrow>
      checked f missing (node s')"
    and last: "\<And>c c'. checked f missing c \<Longrightarrow> chain_grows R (- K) c c' \<Longrightarrow> checked f missing c'"
    and act: "within (session_grows R) W act"
  shows "steady_on R K W (ensure look missing act)"
  unfolding steady_def
proof (intro conjI exI)
  have "within (session_grows R) W look" using look deploys.grows_refl by (auto simp: within_def)
  then show "within (session_grows R) W (ensure look missing act)"
    unfolding ensure_def
    by (intro deploys.within_await deploys.within_of_res deploys.within_if deploys.within_give act)
  show "settles quiet (ensure look missing act) (\<lambda>_ s. checked f missing (node s))"
    unfolding settles_def
  proof (intro conjI allI impI)
    fix s a s' assume "ensure look missing act s = (Inr a, s')"
    then obtain v b where v: "f (node s) = Inr v" "missing v = Inr b"
        "(if b then await act (\<lambda>_. give ()) else give ()) s = (Inr a, s')"
      by (auto simp: ensure_def await_returns look of_res_apply)
    show "checked f missing (node s')"
    proof (cases b)
      case True
      then obtain r where "act s = (Inr r, s')" using v(3) by (auto simp: await_returns give_apply)
      then show ?thesis using repair v(1,2) True by simp
    next
      case False
      then show ?thesis using v by (auto simp: checked_def give_apply)
    qed
  next
    fix s :: "evm_chain session" and a :: unit assume "checked f missing (node s)"
    then have "ensure look missing act s = (Inr a, s)"
      by (auto simp: checked_def ensure_def await_def look of_res_apply give_apply)
    then show "\<exists>s'. ensure look missing act s = (Inr a, s') \<and> quiet s s'" using quiet_refl by blast
  qed (simp add: quiet_def)
  show "lasting (session_grows R) (- K) (\<lambda>_ s. checked f missing (node s))"
    using last unfolding lasting_def session_grows_def by blast
qed

text \<open>The usual case: a view of a contract, and a method of the same contract.\<close>

lemma ensure_call_steady:
  assumes repair: "\<And>c v c0 c1 amount. view_method R (to_lower a) vm vargs c0 = Inr v \<Longrightarrow> missing v = Inr True \<Longrightarrow>
      transact R (sender_of R) amount (to_lower a) meth args c0 = Inr c1 \<Longrightarrow>
      \<exists>v'. view_method R (to_lower a) vm vargs c1 = Inr v' \<and> missing v' = Inr False"
    and last: "\<And>c c' v. view_method R (to_lower a) vm vargs c = Inr v \<Longrightarrow> missing v = Inr False \<Longrightarrow>
      chain_grows R (- K) c c' \<Longrightarrow> \<exists>v'. view_method R (to_lower a) vm vargs c' = Inr v' \<and> missing v' = Inr False"
    and look: "\<And>s. look s = (f (node s), s)"
    and f: "\<And>c v. f c = Inr v \<longleftrightarrow> seen R n a vm vargs c = Inr v"
    and W: "touches meth \<subseteq> W"
  shows "steady_on R K W (ensure look missing (sendContract (chain_api R) n a meth args value))"
proof (rule ensure_steady [where f = f, OF look])
  fix s v r s' assume v: "f (node s) = Inr v" "missing v = Inr True"
    and "sendContract (chain_api R) n a meth args value s = (Inr r, s')"
  then obtain c0 c1 amount where c: "at c0 = at (node s)" "at (node s') = at c1"
      "transact R (sender_of R) amount (to_lower a) meth args c0 = Inr c1"
    using sendContract_done by metis
  have "view_method R (to_lower a) vm vargs c0 = Inr v"
    using v(1) view_method_at [OF c(1)] by (simp add: f seen_Inr)
  from repair [OF this v(2) c(3)] obtain v' where "view_method R (to_lower a) vm vargs c1 = Inr v'" "missing v' = Inr False"
    by blast
  then show "checked f missing (node s')"
    using v(1) view_method_at [OF c(2)] by (auto simp: checked_def f seen_Inr)
next
  fix c c' assume "checked f missing c" "chain_grows R (- K) c c'"
  then show "checked f missing c'" using last by (fastforce simp: checked_def f seen_Inr)
next
  show "within (session_grows R) W (sendContract (chain_api R) n a meth args value)"
    by (rule within_sendContract [OF W])
qed

end
