(* ===== verification/Deploy_Rerun.thy ===== *)
theory Deploy_Rerun
  imports Deploy_Steps
begin

text \<open>
  Re-running the deploy scripts. Each step is steady: once it has returned, the chain holds what it
  checks for, and running it again sends nothing. The scripts are compositions of steady steps that
  do not undo each other, so a whole script is.
\<close>

subsection \<open>What the views answer\<close>

lemma lower_zero [simp]: "to_lower ZERO_ADDRESS = ZERO_ADDRESS"
  by code_simp

lemma view_isRelayerActive:
  "view_method R a ''isRelayerActive'' [str_arg r] c = Inr v \<longleftrightarrow>
     (\<exists>m. at c a = Some (RelayerManagerC m) \<and> v = ret_bool (isRelayerActive m (to_lower r)))"
  by (auto simp: view_method_def view_bridge_def str_arg_def no_method_def split: option.splits contract.splits)

lemma view_bridgingContract:
  "view_method R a ''bridgingContract'' [] c = Inr v \<longleftrightarrow>
     (\<exists>m. at c a = Some (RelayerManagerC m) \<and> v = text_value (checksum R (rm_bridgingContract m)))"
  by (auto simp: view_method_def view_bridge_def no_method_def split: option.splits contract.splits)

lemma view_ubtlRegistry:
  "view_method R a ''ubtlRegistry'' [] c = Inr v \<longleftrightarrow>
     (\<exists>b. at c a = Some (BridgeC b) \<and> br_class b = ''XBridgingContract'' \<and> v = text_value (checksum R (br_ubtlRegistry b)))"
  by (auto simp: view_method_def view_bridge_def no_method_def split: option.splits contract.splits)

lemma view_proofAdapter:
  "view_method R a ''proofAdapter'' [] c = Inr v \<longleftrightarrow>
     (\<exists>b. at c a = Some (BridgeC b) \<and> br_class b = ''XBridgingContract'' \<and> v = text_value (checksum R (br_proofAdapter b)))"
  by (auto simp: view_method_def view_bridge_def no_method_def split: option.splits contract.splits)

lemma view_registered:
  "view_method R a ''registeredStateContracts'' [str_arg x] c = Inr v \<longleftrightarrow>
     (\<exists>b. at c a = Some (BridgeC b) \<and> v = ret_bool (br_registeredStateContracts b (to_lower x)))"
  by (auto simp: view_method_def view_bridge_def str_arg_def no_method_def split: option.splits contract.splits)

lemma view_logic:
  "view_method R a ''getLogicContractAddress'' [str_arg x] c = Inr v \<longleftrightarrow>
     (\<exists>b. at c a = Some (BridgeC b) \<and> v = text_value (checksum R (br_serviceToLogic b x)))"
  by (auto simp: view_method_def view_bridge_def str_arg_def no_method_def split: option.splits contract.splits)

lemma view_isVerified:
  "view_method R a ''isVerified'' [str_arg x] c = Inr v \<longleftrightarrow>
     (\<exists>b. at c a = Some (BridgeC b) \<and> v = ret_bool (br_serviceVerified b x))"
  by (auto simp: view_method_def view_bridge_def str_arg_def no_method_def split: option.splits contract.splits)

lemma view_GetPrice:
  "view_method R a ''GetPrice'' [] c = Inr v \<longleftrightarrow>
     (\<exists>h. at c a = Some (HotelC h) \<and> v = text_value (show_int (uint (mt_price (hs_meta h)))))"
  by (auto simp: view_method_def view_bridge_def no_method_def split: option.splits contract.splits)

lemma view_activeSigners:
  "view_method R a ''activeSigners'' [str_arg x] c = Inr v \<longleftrightarrow>
     (\<exists>g. at c a = Some (SignerRegistryC g) \<and> v = ret_bool (sg_active g (to_lower x)))"
  by (auto simp: view_method_def view_bridge_def str_arg_def no_method_def split: option.splits contract.splits)

lemma view_quorum:
  "view_method R a ''quorum'' [] c = Inr v \<longleftrightarrow>
     (\<exists>g. at c a = Some (SignerRegistryC g) \<and> v = text_value (show_int (uint (sg_quorum g))))"
  by (auto simp: view_method_def view_bridge_def no_method_def split: option.splits contract.splits)

lemma view_owner:
  "view_method R a ''owner'' [] c = Inr v \<longleftrightarrow>
     (\<exists>own. at c a = Some (ControlC own) \<and> v = text_value (checksum R own))"
  by (auto simp: view_method_def view_bridge_def no_method_def split: option.splits contract.splits)

lemmas views = view_isRelayerActive view_bridgingContract view_ubtlRegistry view_proofAdapter view_registered
  view_logic view_isVerified view_GetPrice view_activeSigners view_quorum view_owner

subsection \<open>What a transaction leaves behind\<close>

lemma grown_contract:
  "chain_grows R F c c' \<Longrightarrow> at c a = Some x \<Longrightarrow> \<exists>x'. at c' a = Some x' \<and> evolves F x x'"
  by (auto simp: chain_grows_def)

lemma grown_manager: "chain_grows R F c c' \<Longrightarrow> at c a = Some (RelayerManagerC m) \<Longrightarrow>
    \<exists>m'. at c' a = Some (RelayerManagerC m') \<and> evolves F (RelayerManagerC m) (RelayerManagerC m')"
  by (frule (1) grown_contract, elim exE, rename_tac x, case_tac x) auto

lemma grown_bridge: "chain_grows R F c c' \<Longrightarrow> at c a = Some (BridgeC b) \<Longrightarrow>
    \<exists>b'. at c' a = Some (BridgeC b') \<and> evolves F (BridgeC b) (BridgeC b')"
  by (frule (1) grown_contract, elim exE, rename_tac x, case_tac x) auto

lemma grown_registry: "chain_grows R F c c' \<Longrightarrow> at c a = Some (UBTLRegistryC g) \<Longrightarrow>
    \<exists>g'. at c' a = Some (UBTLRegistryC g') \<and> evolves F (UBTLRegistryC g) (UBTLRegistryC g')"
  by (frule (1) grown_contract, elim exE, rename_tac x, case_tac x) auto

lemma grown_hotel: "chain_grows R F c c' \<Longrightarrow> at c a = Some (HotelC h) \<Longrightarrow>
    \<exists>h'. at c' a = Some (HotelC h') \<and> evolves F (HotelC h) (HotelC h')"
  by (frule (1) grown_contract, elim exE, rename_tac x, case_tac x) auto

lemma grown_signers: "chain_grows R F c c' \<Longrightarrow> at c a = Some (SignerRegistryC g) \<Longrightarrow>
    \<exists>g'. at c' a = Some (SignerRegistryC g') \<and> evolves F (SignerRegistryC g) (SignerRegistryC g')"
  by (frule (1) grown_contract, elim exE, rename_tac x, case_tac x) auto

lemma grown_control: "chain_grows R F c c' \<Longrightarrow> at c a = Some (ControlC own) \<Longrightarrow>
    \<exists>own'. at c' a = Some (ControlC own') \<and> evolves F (ControlC own) (ControlC own')"
  by (frule (1) grown_contract, elim exE, rename_tac x, case_tac x) auto

lemma sent_manager: "transact R s n a meth args c = Inr c1 \<Longrightarrow> at c a = Some (RelayerManagerC m) \<Longrightarrow>
    \<exists>m'. call_manager s n meth (prims args) m = Inr m' \<and> at c1 a = Some (RelayerManagerC m')"
  by (auto simp: transact_def storing_Inr put_def)

lemma sent_bridge: "transact R s n a meth args c = Inr c1 \<Longrightarrow> at c a = Some (BridgeC b) \<Longrightarrow>
    meth \<noteq> ''confirmVerification'' \<Longrightarrow>
    \<exists>b'. call_bridge s meth (prims args) b = Inr b' \<and> at c1 a = Some (BridgeC b')"
  by (auto simp: transact_def storing_Inr put_def split: if_splits)

lemma sent_hotel: "transact R s n a meth args c = Inr c1 \<Longrightarrow> at c a = Some (HotelC h) \<Longrightarrow>
    \<exists>h'. call_hotel R meth args h = Inr h' \<and> at c1 a = Some (HotelC h')"
  by (auto simp: transact_def storing_Inr put_def split: if_splits)

lemma sent_registry: "transact R s n a meth args c = Inr c1 \<Longrightarrow> at c a = Some (UBTLRegistryC g) \<Longrightarrow>
    \<exists>g'. call_registry R s meth (prims args) c g = Inr g' \<and> at c1 a = Some (UBTLRegistryC g')"
  by (auto simp: transact_def storing_Inr put_def split: if_splits)

lemma sent_signers: "transact R s n a meth args c = Inr c1 \<Longrightarrow> at c a = Some (SignerRegistryC g) \<Longrightarrow>
    \<exists>g'. call_signers s meth (prims args) g = Inr g' \<and> at c1 a = Some (SignerRegistryC g')"
  by (auto simp: transact_def storing_Inr put_def split: if_splits)

lemma sent_owner: "transact R s n a ''transferOwnership'' [str_arg x] c = Inr c1 \<Longrightarrow> at c a = Some (ControlC own) \<Longrightarrow>
    at c1 a = Some (ControlC (to_lower x))"
  by (auto simp: transact_def storing_Inr put_def str_arg_def transferOwnership_def split: if_splits)

lemma sent_confirm:
  assumes "transact R s n a ''confirmVerification'' (str_arg i # args) c = Inr c1" and "at c a = Some (BridgeC b)"
  shows "\<exists>b'. at c1 a = Some (BridgeC b') \<and> br_serviceVerified b' i"
proof -
  have "call_confirm a (prims (str_arg i # args)) b c = Inr c1"
    using assms by (simp add: transact_def split: if_splits)
  then obtain j b' m m' rest where
    "confirmVerified j b = Inr b'" "c1 = put a (BridgeC b') (put (br_relayerManager b) (RelayerManagerC m') c)"
    "prims (str_arg i # args) = PString j # PBool True # PBigint 0 # rest"
    by (rule call_confirmE)
  then show ?thesis by (auto simp: put_def confirmVerified_def str_arg_def)
qed

subsection \<open>The steps\<close>

definition on_besu :: "evm_rules \<Rightarrow> (evm_chain, call_data) deploy_env \<Rightarrow> bool" where
  "on_besu R D \<longleftrightarrow> api D = chain_api R \<and> rules_documented R \<and> evm_coder D = evm R \<and> \<not> forceRedeploy (environ D)"

lemma on_besu_api: "on_besu R D \<Longrightarrow> api D = chain_api R"
  by (simp add: on_besu_def)

lemma lower_checksum: "on_besu R D \<Longrightarrow> to_lower (checksum R a) = to_lower a"
  by (simp add: on_besu_def rules_documented_def)

lemma falsy_bool [simp]: "falsy (ret_bool b) = Inr (\<not> b)"
  by (simp add: falsy_def ret_bool_def)

lemma differs_text: "on_besu R D \<Longrightarrow> differs a (text_value (checksum R x)) = Inr (to_lower x \<noteq> to_lower a)"
  by (simp add: differs_def text_value_def lower_checksum)

lemma relayer_is_sender: "on_besu R D \<Longrightarrow> to_lower (relayerAddr D) = sender_of R"
proof -
  have "with_0x relayer_key = DEPLOYER_PRIVATE_KEY" by code_simp
  then show "on_besu R D \<Longrightarrow> ?thesis"
    by (simp add: relayerAddr_def account_of_def on_besu_def chain_api_def sender_of_def)
qed

lemma prims_args [simp]: "prims (str_arg x # vs) = PString x # prims vs" "prims (num_arg n # vs) = PBigint n # prims vs"
  by (simp_all add: str_arg_def num_arg_def)

named_theorems step_simps

lemmas [step_simps] = views call_manager_def call_bridge_def registerRelayer_def setBridgingContract_def
  setUBTLRegistry_def setProofAdapter_def regState_def regServer_def touches_def

lemma ensure_relayer_steady:
  assumes D: "on_besu R D"
  shows "steady_on R {} {} (ensure_relayer D rm)"
  unfolding ensure_relayer_def on_besu_api [OF D]
  by (rule ensure_call_steady [OF _ _ readContract_chain refl])
    (auto simp: step_simps isRelayerActive_def relayer_is_sender [OF D] dest: sent_manager grown_manager)

lemma ensure_manager_bridge_steady:
  assumes D: "on_besu R D"
  shows "steady_on R {ManagerBridge} {ManagerBridge} (ensure_manager_bridge D rm bc)"
  unfolding ensure_manager_bridge_def on_besu_api [OF D]
  by (rule ensure_call_steady [OF _ _ readContract_chain refl])
    (auto simp: step_simps differs_text [OF D] split: if_splits dest!: sent_manager dest: grown_manager)

lemma ensure_registry_steady:
  assumes D: "on_besu R D"
  shows "steady_on R {Registry} {Registry} (ensure_registry D b r)"
  unfolding ensure_registry_def on_besu_api [OF D]
  by (rule ensure_call_steady [OF _ _ readContract_chain refl])
    (auto simp: step_simps differs_text [OF D] split: if_splits dest!: sent_bridge dest: grown_bridge)

lemma setSelectedProofAdapter_steady:
  assumes D: "on_besu R D"
  shows "steady_on R {Adapter} {Adapter} (setSelectedProofAdapter D b adapter)"
  unfolding setSelectedProofAdapter_def on_besu_api [OF D]
proof (rule ensure_call_steady)
  let ?e = "\<lambda>e. ''XBridgingContract at '' @ b @ '' does not expose proofAdapter(); redeploy bc1 with the current contracts before running proof-backed RQ1c. '' @ ''Original error: '' @ e"
  let ?f = "\<lambda>c. case seen R ''XBridgingContract'' b ''proofAdapter'' [] c of Inl e \<Rightarrow> Inl (?e e) | Inr v \<Rightarrow> Inr v"
  show "recover (readContract (chain_api R) ''XBridgingContract'' b ''proofAdapter'' []) (\<lambda>e. throw (?e e)) s = (?f (node s), s)" for s
    by (simp add: recover_def readContract_chain throw_apply split: sum.splits)
  show "(?f c = Inr v) = (seen R ''XBridgingContract'' b ''proofAdapter'' [] c = Inr v)" for c v
    by (auto split: sum.splits)
qed (auto simp: step_simps differs_text [OF D] split: if_splits dest!: sent_bridge dest: grown_bridge)

lemma ensure_state_steady:
  assumes D: "on_besu R D"
  shows "steady_on R {} {} (ensure_state D class b x)"
  unfolding ensure_state_def on_besu_api [OF D]
  by (rule ensure_call_steady [OF _ _ readContract_chain refl])
    (auto simp: step_simps dest!: sent_bridge dest: grown_bridge)

lemma ensure_service_steady:
  assumes D: "on_besu R D"
  shows "steady_on R {} {} (ensure_service D b x)"
  unfolding ensure_service_def on_besu_api [OF D]
proof (rule ensure_call_steady [OF _ _ readContract_chain refl])
  fix c c' v
  assume v: "view_method R (to_lower b) ''getLogicContractAddress'' [str_arg ''travel''] c = Inr v"
    "Inr (to_lower (value_string v) = ZERO_ADDRESS) = (Inr False :: bool res)" and g: "chain_grows R (- {}) c c'"
  then obtain p where p: "at c (to_lower b) = Some (BridgeC p)" "v = text_value (checksum R (br_serviceToLogic p ''travel''))"
    by (auto simp: views)
  with v(2) have "br_serviceToLogic p ''travel'' \<noteq> ZERO_ADDRESS" by (auto simp: text_value_def lower_checksum [OF D])
  with grown_bridge [OF g p(1)] p(2) v(2)
  show "\<exists>v'. view_method R (to_lower b) ''getLogicContractAddress'' [str_arg ''travel''] c' = Inr v' \<and>
      Inr (to_lower (value_string v') = ZERO_ADDRESS) = (Inr False :: bool res)"
    by (fastforce simp: views)
qed (auto simp: step_simps text_value_def lower_checksum [OF D] dest!: sent_bridge)

lemma ensure_verified_steady:
  assumes D: "on_besu R D"
  shows "steady_on R {} {} (ensure_verified D b)"
  unfolding ensure_verified_def on_besu_api [OF D]
  by (rule ensure_call_steady [OF _ _ readContract_chain refl])
    (auto simp: step_simps dest: sent_confirm grown_bridge)

lemma ensure_signer_steady:
  assumes D: "on_besu R D"
  shows "steady_on R {} {} (ensure (readContract (api D) n g ''activeSigners'' [str_arg x]) falsy
    (sendContract (api D) n g ''registerSigner'' [str_arg x] None))"
  unfolding on_besu_api [OF D]
  by (rule ensure_call_steady [OF _ _ readContract_chain refl])
    (auto simp: step_simps call_signers_def registerSigner_def res_bind_Inr_iff split: if_splits
      dest!: sent_signers dest: grown_signers)

lemma ensure_owner_steady:
  assumes D: "on_besu R D"
  shows "steady_on R {Owner} {Owner} (ensure_owner D x)"
  unfolding ensure_owner_def on_besu_api [OF D]
  by (rule ensure_call_steady [OF _ _ readContract_chain refl])
    (auto simp: step_simps differs_text [OF D] dest!: sent_owner dest: grown_control)

lemma value_BigInt_text: "value_BigInt (text_value (show_int n)) = Inr n"
  by (simp add: value_BigInt_def text_value_def)

lemma byte_arguments: "map (\<lambda>b. ucast (word_of b)) (map (\<lambda>b. PBigint (uint b)) (bs :: byte list)) = bs"
proof (induction bs)
  case (Cons a bs)
  have "(ucast (ucast a :: uint256) :: byte) = a" by (rule ucast_up_ucast_id) (simp add: is_up)
  then show ?case using Cons by (simp add: word_of_def U_def)
qed simp

lemma ensure_meta_steady:
  assumes D: "on_besu R D"
  shows "steady_on R {HotelMeta} {HotelMeta} (ensure_meta D t)"
  unfolding ensure_meta_def on_besu_api [OF D]
proof (rule ensure_call_steady [OF _ _ readContract_chain refl])
  have host: "host_documented (evm R)" and coder: "evm_coder D = evm R" using D by (auto simp: on_besu_def rules_documented_def)
  note bytes = byte_arguments
  fix c v c1 amount
  assume "view_method R (to_lower t) ''GetPrice'' [] c = Inr v"
    and x: "transact R (sender_of R) amount (to_lower t) ''__vassp_apply'' (meta_apply_args D) c = Inr c1"
  then obtain h where "at c (to_lower t) = Some (HotelC h)" by (auto simp: views)
  with sent_hotel [OF x] obtain h' where h': "call_hotel R ''__vassp_apply'' (meta_apply_args D) h = Inr h'"
      "at c1 (to_lower t) = Some (HotelC h')" by blast
  have "U (uint (meta_slot (evm R))) = meta_slot (evm R)" by (simp add: U_def)
  then have "mt_price (hs_meta h') = 100"
    using h'(1) host bytes
    by (simp add: call_hotel_def meta_apply_args_def coder num_arg_def vassp_apply_def host_documented_def CONSTS_def U_def)
      auto
  then show "\<exists>v'. view_method R (to_lower t) ''GetPrice'' [] c1 = Inr v' \<and>
      res_bind (value_BigInt v') (\<lambda>n. Inr (n = 0)) = Inr False"
    using h'(2) by (auto simp: views value_BigInt_text)
next
  fix c c' v
  assume v: "view_method R (to_lower t) ''GetPrice'' [] c = Inr v" "res_bind (value_BigInt v) (\<lambda>n. Inr (n = 0)) = Inr False"
    and g: "chain_grows R (- {HotelMeta}) c c'"
  then obtain h where h: "at c (to_lower t) = Some (HotelC h)" "mt_price (hs_meta h) \<noteq> 0"
    by (auto simp: views value_BigInt_text uint_0_iff)
  from grown_hotel [OF g h(1)] h(2) obtain h' where "at c' (to_lower t) = Some (HotelC h')" "mt_price (hs_meta h') \<noteq> 0"
    by auto
  then show "\<exists>v'. view_method R (to_lower t) ''GetPrice'' [] c' = Inr v' \<and>
      res_bind (value_BigInt v') (\<lambda>n. Inr (n = 0)) = Inr False"
    by (auto simp: views value_BigInt_text uint_0_iff)
qed (simp add: touches_def)

lemma ensure_quorum_steady:
  assumes D: "on_besu R D"
  shows "steady_on R {Quorum} {Quorum} (ensure (readContract (api D) n g ''quorum'' [])
    (\<lambda>v. res_bind (value_BigInt v) (\<lambda>q. Inr (q \<noteq> GPACT_SIGNER_QUORUM CONSTS)))
    (sendContract (api D) n g ''setQuorum'' [num_arg (GPACT_SIGNER_QUORUM CONSTS)] None))"
  unfolding on_besu_api [OF D]
proof (rule ensure_call_steady [OF _ _ readContract_chain refl])
  fix c v c1 amount
  assume "view_method R (to_lower g) ''quorum'' [] c = Inr v"
    and x: "transact R (sender_of R) amount (to_lower g) ''setQuorum'' [num_arg (GPACT_SIGNER_QUORUM CONSTS)] c = Inr c1"
  then obtain r where "at c (to_lower g) = Some (SignerRegistryC r)" by (auto simp: views)
  with sent_signers [OF x] show "\<exists>v'. view_method R (to_lower g) ''quorum'' [] c1 = Inr v' \<and>
      res_bind (value_BigInt v') (\<lambda>q. Inr (q \<noteq> GPACT_SIGNER_QUORUM CONSTS)) = Inr False"
    by (auto simp: views value_BigInt_text call_signers_def setQuorum_def CONSTS_def U_def split: if_splits)
next
  fix c c' v
  assume v: "view_method R (to_lower g) ''quorum'' [] c = Inr v"
      "res_bind (value_BigInt v) (\<lambda>q. Inr (q \<noteq> GPACT_SIGNER_QUORUM CONSTS)) = Inr False"
    and gr: "chain_grows R (- {Quorum}) c c'"
  then obtain r where r: "at c (to_lower g) = Some (SignerRegistryC r)" "uint (sg_quorum r) = GPACT_SIGNER_QUORUM CONSTS"
    by (auto simp: views value_BigInt_text)
  with grown_signers [OF gr r(1)] show "\<exists>v'. view_method R (to_lower g) ''quorum'' [] c' = Inr v' \<and>
      res_bind (value_BigInt v') (\<lambda>q. Inr (q \<noteq> GPACT_SIGNER_QUORUM CONSTS)) = Inr False"
    by (fastforce simp: views value_BigInt_text)
qed (simp add: touches_def)

subsection \<open>Deployments, records and funds\<close>

lemma getCode_chain: "getCode (chain_api R) a c =
    (Inr (case at c (to_lower a) of None \<Rightarrow> ''0x'' | Some x \<Rightarrow> runtime_code R x), c)"
  by (simp add: chain_api_def)

lemma has_code_chain: "on_besu R D \<Longrightarrow>
    has_code (case at c a of None \<Rightarrow> ''0x'' | Some x \<Rightarrow> runtime_code R x) \<longleftrightarrow> at c a \<noteq> None"
  by (auto simp: on_besu_def rules_documented_def has_code_def split: option.splits)

lemma write_simps [simp]:
  "writeDeployment W s = (Inr (), s\<lparr>rec := (rec s)\<lparr>d_deployedAt := Some (now W (node s))\<rparr>,
     files := (files s)(d_system (rec s) := (files s (d_system (rec s)))(d_network (rec s) :=
       Some ((rec s)\<lparr>d_deployedAt := Some (now W (node s))\<rparr>)))\<rparr>)"
  by (simp add: writeDeployment_def Let_def)

lemma write_synced: "writeDeployment W s = (r, s') \<Longrightarrow> synced s'"
  by (auto simp: synced_def filed_def)

lemma write_grows: "writeDeployment W s = (r, s') \<Longrightarrow> session_grows R F s s'"
  using write_synced [of W s r s']
  by (auto simp: session_grows_def chain_grows_refl well_filed_def split: if_splits)

definition live :: "string \<Rightarrow> string \<Rightarrow> evm_chain session \<Rightarrow> bool" where
  "live key a s \<longleftrightarrow> d_contracts (rec s) key = Some a \<and> a \<noteq> [] \<and> at (node s) (to_lower a) \<noteq> None"

lemma live_grows: "key \<notin> note_keys \<Longrightarrow> live key a s \<Longrightarrow> session_grows R (- {Key key}) s s' \<Longrightarrow> live key a s'"
proof -
  assume k: "key \<notin> note_keys" and l: "live key a s" and g: "session_grows R (- {Key key}) s s'"
  have l3: "d_contracts (rec s) key = Some a" "a \<noteq> []" "at (node s) (to_lower a) \<noteq> None"
    using l unfolding live_def by blast+
  have g1: "chain_grows R (- {Key key}) (node s) (node s')"
    and g2: "\<And>k b. Key k \<notin> - {Key key} \<Longrightarrow> d_contracts (rec s) k = Some b \<Longrightarrow> kept_entry (node s) k b \<Longrightarrow>
        d_contracts (rec s') k = Some b"
    using g unfolding session_grows_def by blast+
  have "d_contracts (rec s') key = Some a" by (rule g2) (use l3 in \<open>auto simp: kept_entry_def\<close>)
  moreover have "at (node s') (to_lower a) \<noteq> None" by (rule chain_grows_at [OF g1 l3(3)])
  ultimately show "live key a s'" using l by (simp add: live_def)
qed

lemma deploy_new_chain:
  assumes D: "on_besu R D" and run: "deploy_new (chain_api R) key name args s = (r, s')"
  shows "(\<exists>e. r = Inl e) \<and> rec s' = rec s \<and> files s' = files s \<and> chain_grows R {} (node s) (node s') \<or>
    (\<exists>a s1. r = Inr a \<and> chain_grows R {} (node s) (node s1) \<and> a \<noteq> [] \<and> at (node s1) (to_lower a) \<noteq> None \<and>
      rec s1 = rec s \<and> files s1 = files s \<and>
      writeDeployment (chain_api R) (s1\<lparr>rec := set_contract key a (rec s1)\<rparr>) = (Inr (), s'))"
proof (cases "res_bind (readArtifact (chain_api R) name) (\<lambda>art. creation_data (chain_api R) art args)")
  case (Inl e)
  then show ?thesis using run by (auto simp: deploy_new_def await_def of_res_apply chain_grows_refl)
next
  case (Inr data)
  obtain nm vs where data: "data = Creation nm vs"
    using Inr by (auto simp: chain_api_def chain_artifact_def creation_data_def res_bind_Inr_iff
      split: if_splits option.splits)
  obtain g where gas: "on_node (recover (estimateGas (chain_api R) (deployerAddress (chain_api R)) data) (\<lambda>_. give 7000000)) s
      = (Inr g, s)"
    by (cases "gas_needed R (node s) data") (auto simp: on_node_def recover_def chain_api_def give_apply)
  let ?t = "new_tx\<lparr>tx_data := Some data, tx_gas := Some (min (g + 200000) 7800000)\<rparr>"
  obtain q c where q: "signAndSend (chain_api R) 0 ?t (node s) = (q, c)" by (rule prod.exhaust)
  have g0: "chain_grows R {} (node s) c" using signAndSend_chain [OF q] by (simp add: tx_touches_def data)
  show ?thesis
  proof (cases q)
    case (Inl e)
    then show ?thesis using run Inr gas q g0
      by (auto simp: deploy_new_def await_def of_res_apply on_node_def)
  next
    case (Inr x)
    then obtain c0 where c0: "execute_tx R (sender_of R) ?t c0 = (Inr x, c)"
      using signAndSend_chain [OF q] by (auto simp: tx_done_def)
    then obtain a0 c1 where a0: "create R (sender_of R) nm vs c0 = Inr (a0, c1)" "c = mined (sender_of R) c1"
        "contractAddress x = Some (checksum R a0)"
      by (auto simp: execute_tx_def new_tx_def data split: if_splits sum.splits)
    have at: "at c (to_lower (checksum R a0)) \<noteq> None"
      using a0(1,2) lower_checksum [OF D] by (auto simp: create_def Let_def res_bind_Inr_iff put_def split: if_splits)
    show ?thesis
    proof (cases "checksum R a0 = []")
      case True
      then show ?thesis using run \<open>res_bind _ _ = Inr data\<close> gas q Inr g0 a0(3)
        by (auto simp: deploy_new_def await_def of_res_apply on_node_def throw_apply)
    next
      case False
      have "r = Inr (checksum R a0) \<and>
          writeDeployment (chain_api R) ((s\<lparr>node := c\<rparr>)\<lparr>rec := set_contract key (checksum R a0) (rec s)\<rparr>) = (Inr (), s')"
        using run \<open>res_bind _ _ = Inr data\<close> gas q Inr a0(3) False
        by (auto simp: deploy_new_def await_def of_res_apply on_node_def give_apply)
      then show ?thesis using g0 at False by (intro disjI2 exI [of _ "checksum R a0"] exI [of _ "s\<lparr>node := c\<rparr>"]) simp
    qed
  qed
qed

lemma deploy_new_grows:
  assumes D: "on_besu R D" and key: "key \<notin> note_keys" and gone: "\<And>a. \<not> live key a s"
    and run: "deploy_new (chain_api R) key name args s = (r, s')"
  shows "session_grows R {} s s' \<and> (\<forall>a. r = Inr a \<longrightarrow> live key a s')"
  using deploy_new_chain [OF D run]
proof (elim disjE exE conjE)
  fix e assume "r = Inl e" "rec s' = rec s" "files s' = files s" "chain_grows R {} (node s) (node s')"
  then show ?thesis by (simp add: session_grows_def synced_def filed_def well_filed_def)
next
  fix a s1
  assume x: "r = Inr a" "chain_grows R {} (node s) (node s1)" "a \<noteq> []" "at (node s1) (to_lower a) \<noteq> None"
    "rec s1 = rec s" "files s1 = files s"
    and w: "writeDeployment (chain_api R) (s1\<lparr>rec := set_contract key a (rec s1)\<rparr>) = (Inr (), s')"
  have "d_contracts (rec s') k = Some b"
    if "d_contracts (rec s) k = Some b" "kept_entry (node s) k b" for k b
  proof -
    have "k \<noteq> key" using that key gone [of b] by (auto simp: kept_entry_def live_def)
    then show ?thesis using w that x(5) by (auto simp: set_contract_def)
  qed
  moreover have "well_filed s \<Longrightarrow> well_filed s'" using w x(5,6) by (auto simp: well_filed_def set_contract_def split: if_splits)
  moreover have "node s' = node s1" "d_contracts (rec s') key = Some a" using w by (auto simp: set_contract_def)
  ultimately show ?thesis
    using w x write_synced [OF w] by (auto simp: session_grows_def set_contract_def live_def)
qed

lemma deployed_steady:
  assumes D: "on_besu R D" and key: "key \<notin> note_keys"
  shows "steady_on R {Key key} {} (deployed D key name args)"
proof -
  have force: "\<not> forceRedeploy (environ D)" using D by (simp add: on_besu_def)
  have run: "deployed D key name args s =
      (case contract_at (rec s) key of [] \<Rightarrow> deploy_new (chain_api R) key name args s
       | a # as \<Rightarrow> if live key (a # as) s then (Inr (a # as), s) else deploy_new (chain_api R) key name args s)" for s
  proof (cases "contract_at (rec s) key")
    case Nil then show ?thesis by (simp add: deployed_def deployIfMissing_def on_besu_api [OF D] Let_def)
  next
    case (Cons a as)
    then have k: "d_contracts (rec s) key = Some (a # as)" by (auto simp: contract_at_def split: option.splits)
    have l: "live key (a # as) s \<longleftrightarrow> at (node s) (to_lower (a # as)) \<noteq> None" using k by (simp add: live_def)
    have "deployed D key name args s = (if has_code (case at (node s) (to_lower (a # as)) of None \<Rightarrow> ''0x'' | Some x \<Rightarrow> runtime_code R x)
        then give (a # as) else deploy_new (chain_api R) key name args) s"
      using Cons force by (simp add: deployed_def deployIfMissing_def on_besu_api [OF D] Let_def await_def on_node_def
        recover_def getCode_chain)
    then show ?thesis unfolding has_code_chain [OF D] l [symmetric] using Cons by (simp add: give_apply)
  qed
  have one: "live key a s \<Longrightarrow> contract_at (rec s) key = a" for a s by (simp add: live_def contract_at_def)
  have new: "session_grows R {} s s' \<and> (\<forall>a. r = Inr a \<longrightarrow> live key a s')" if "deployed D key name args s = (r, s')" for s r s'
  proof (cases "\<exists>a. live key a s")
    case True
    then obtain a where a: "live key a s" by blast
    then obtain b bs where "a = b # bs" by (cases a) (auto simp: live_def)
    then show ?thesis using that a one [OF a] by (auto simp: run deploys.grows_refl)
  next
    case False
    then have "deploy_new (chain_api R) key name args s = (r, s')" using that by (auto simp: run split: list.splits if_splits)
    then show ?thesis using deploy_new_grows [OF D key] False by blast
  qed
  have again: "deployed D key name args s = (Inr a, s)" if "live key a s" for a s
    using that one [OF that] by (cases a) (auto simp: run live_def)
  have "live key a s'" if "live key a s" "quiet s s'" for a s s'
    using that by (auto simp: live_def quiet_def same_record_iff)
  then have "settles quiet (deployed D key name args) (live key)"
    unfolding settles_def using new again quiet_refl by blast
  moreover have "lasting (session_grows R) (- {Key key}) (live key)"
    unfolding lasting_def using live_grows [OF key] by blast
  ultimately show ?thesis unfolding steady_def within_def using new by blast
qed

lemma save_steady: "steady_on R {File} {} (writeDeployment W)"
proof -
  have "settles quiet (writeDeployment W) (\<lambda>_. synced)"
    unfolding settles_def
  proof (intro conjI allI impI)
    fix s :: "evm_chain session" and a :: unit assume "synced s"
    then obtain d where "filed s = Some d" "same_record d (rec s)" by (auto simp: synced_def)
    then show "\<exists>s'. writeDeployment W s = (Inr a, s') \<and> quiet s s'"
      by (auto simp: quiet_def filed_def option.rel_refl same_record_iff)
  qed (use write_synced quiet_synced in auto)
  moreover have "lasting (session_grows R) (- {File}) (\<lambda>_ :: unit. synced)"
    by (auto simp: lasting_def session_grows_def)
  moreover have "within (session_grows R) {} (writeDeployment W)" unfolding within_def using write_grows by blast
  ultimately show ?thesis unfolding steady_def by blast
qed

lemma write_contract_steady:
  assumes "key \<in> note_keys"
  shows "steady_on R {Key key} {Key key, File} (write_contract key v)"
proof -
  have w: "write_contract key v s = (Inr (), s\<lparr>rec := set_contract key v (rec s)\<rparr>)" for s :: "evm_chain session"
    by (simp add: write_contract_def)
  let ?Q = "\<lambda>(_ :: unit) (s :: evm_chain session). d_contracts (rec s) key = Some v"
  have "settles quiet (write_contract key v) ?Q"
    unfolding settles_def w
    by (auto simp: set_contract_def quiet_def same_record_iff option.rel_refl fun_upd_idem)
  moreover have "lasting (session_grows R) (- {Key key}) ?Q"
    using assms unfolding lasting_def session_grows_def kept_entry_def by fastforce
  moreover have "within (session_grows R) {Key key, File} (write_contract key v)"
    by (auto simp: within_def w session_grows_def chain_grows_refl set_contract_def well_filed_def)
  ultimately show ?thesis unfolding steady_def by blast
qed

definition one_ether :: nat where
  "one_ether = 1000000000000000000"

lemma chain_accounts: "getBalance (chain_api R) a = (\<lambda>c. (Inr (show_nat (wei c (to_lower a))), c))"
  "to_lower (deployerAddress (chain_api R)) = sender_of R"
  by (simp_all add: chain_api_def deployerAddress_def sender_of_def)

lemma fundActor_chain:
  "fundActor (chain_api R) addr s =
     (if to_lower addr = sender_of R \<or> one_ether \<le> wei (node s) (to_lower addr) then (Inr (), s)
      else await (on_node (signAndSend (chain_api R) 0
        (new_tx\<lparr>tx_to := Some addr, tx_value := Some 1000000000000000000, tx_gas := Some 21000\<rparr>))) (\<lambda>_. give ()) s)"
  by (simp add: fundActor_def chain_accounts)
    (simp add: await_def on_node_def of_res_apply give_apply BigInt_show_nat one_ether_def)

lemma fundActor_steady: "steady_on R {} {} (fundActor (chain_api R) addr)"
proof -
  let ?P = "\<lambda>s :: evm_chain session. to_lower addr = sender_of R \<or> one_ether \<le> wei (node s) (to_lower addr)"
  let ?t = "new_tx\<lparr>tx_to := Some addr, tx_value := Some 1000000000000000000, tx_gas := Some 21000\<rparr>"
  have funded: "?P s'" if "fundActor (chain_api R) addr s = (Inr x, s')" for s x s'
  proof (cases "?P s")
    case True then show ?thesis using that by (auto simp: fundActor_chain)
  next
    case False
    then have "await (on_node (signAndSend (chain_api R) 0 ?t)) (\<lambda>_. give ()) s = (Inr x, s')"
      using that by (simp add: fundActor_chain)
    then obtain r t where "on_node (signAndSend (chain_api R) 0 ?t) s = (Inr r, t)" "give () t = (Inr x, s')"
      unfolding await_returns by blast
    then obtain r where "signAndSend (chain_api R) 0 ?t (node s) = (Inr r, node s')"
      by (auto simp: give_apply on_node_def split: prod.splits)
    from signAndSend_chain [OF this] obtain c0 where "execute_tx R (sender_of R) ?t c0 = (Inr r, node s')"
      by (auto simp: tx_done_def)
    then show ?thesis
      by (auto simp: execute_tx_def new_tx_def pay_def one_ether_def Let_def split: if_splits dest!: sym [of _ "node s'"])
  qed
  have "settles quiet (fundActor (chain_api R) addr) (\<lambda>_. ?P)"
    unfolding settles_def
  proof (intro conjI allI impI)
    fix s and a :: unit assume "?P s"
    then show "\<exists>s'. fundActor (chain_api R) addr s = (Inr a, s') \<and> quiet s s'"
      by (auto simp: fundActor_chain quiet_refl)
  qed (use funded in \<open>auto simp: quiet_def\<close>)
  moreover have "lasting (session_grows R) (- {}) (\<lambda>_ :: unit. ?P)"
    unfolding lasting_def session_grows_def chain_grows_def by (metis order_trans)
  moreover have "within (session_grows R) {} (fundActor (chain_api R) addr)"
  proof -
    have w: "within (session_grows R) {} (await (on_node (signAndSend (chain_api R) 0 ?t)) (\<lambda>_. give ()))"
      by (intro deploys.within_await within_signAndSend deploys.within_give) (simp add: tx_touches_def new_tx_def)
    then show ?thesis unfolding within_def fundActor_chain using deploys.grows_refl by (auto split: if_splits)
  qed
  ultimately show ?thesis unfolding steady_def by blast
qed

lemma fundActors_steady: "on_besu R D \<Longrightarrow> steady_on R {} {} (fundActors (api D) addrs)"
  unfolding fundActors_def by (rule deploys.steady_for_each) (auto simp: on_besu_api fundActor_steady)

subsection \<open>Registering the translation\<close>

lemma view_keyFor:
  "view_method R a ''keyFor'' [JPrim p, str_arg h] c = Inr v \<longleftrightarrow>
     (\<exists>g. at c a = Some (UBTLRegistryC g) \<and> v = text_value (key_hash R (word_of p) h))"
  by (cases p; cases "at c a"; simp add: view_method_def view_bridge_def str_arg_def no_method_def split: contract.splits)
    auto

lemma view_translations:
  "view_method R a ''translations'' [str_arg k] c = Inr v \<longleftrightarrow>
     (\<exists>g. at c a = Some (UBTLRegistryC g) \<and> v = translation_value R (ur_translations g k))"
  by (auto simp: view_method_def view_bridge_def str_arg_def no_method_def split: option.splits contract.splits)

lemma view_ir_hash:
  "view_method R a ''ir_hash'' [] c = Inr v \<longleftrightarrow> (\<exists>h. at c a = Some (HotelC h) \<and> v = text_value (ir_hash_of R))"
  by (auto simp: view_method_def view_bridge_def no_method_def split: option.splits contract.splits)

lemma translatedField_value: "translatedField (translation_value R t) =
    checksum R (case t of None \<Rightarrow> ZERO_ADDRESS | Some t \<Rightarrow> tr_translated t)"
  by (auto simp: translatedField_def translation_value_def split: option.splits)

text \<open>The registry holds the translation that the script registers.\<close>

definition bound :: "evm_rules \<Rightarrow> string \<Rightarrow> string \<Rightarrow> string \<Rightarrow> evm_chain \<Rightarrow> bool" where
  "bound R registry key translated c \<longleftrightarrow>
     compiled R ''UBTLRegistry'' \<and> has_method R ''UBTLRegistry'' ''translations'' \<and>
     (\<exists>g t. at c (to_lower registry) = Some (UBTLRegistryC g) \<and> ur_translations g key = Some t \<and>
       to_lower (tr_translated t) \<noteq> ZERO_ADDRESS \<and> to_lower (tr_translated t) = to_lower translated)"

lemma bound_grows: "bound R registry key tr c \<Longrightarrow> chain_grows R F c c' \<Longrightarrow> bound R registry key tr c'"
  unfolding bound_def by (elim conjE exE, frule (1) grown_registry) (force simp: map_le_def dom_def)

lemma seen_translations:
  "seen R ''UBTLRegistry'' registry ''translations'' [str_arg key] c = Inr v \<longleftrightarrow>
     compiled R ''UBTLRegistry'' \<and> has_method R ''UBTLRegistry'' ''translations'' \<and>
     (\<exists>g. at c (to_lower registry) = Some (UBTLRegistryC g) \<and> v = translation_value R (ur_translations g key))"
  by (simp add: seen_Inr view_translations)

lemma bind_again:
  assumes D: "on_besu R D" and "bound R registry key tr (node s)"
  shows "bind_translation D registry tr key args s = (Inr (), s)"
proof -
  from assms(2) obtain g t where t: "at (node s) (to_lower registry) = Some (UBTLRegistryC g)"
      "ur_translations g key = Some t" "to_lower (tr_translated t) \<noteq> ZERO_ADDRESS" "to_lower (tr_translated t) = to_lower tr"
    unfolding bound_def by blast
  have "seen R ''UBTLRegistry'' registry ''translations'' [str_arg key] (node s) = Inr (translation_value R (Some t))"
    using assms(2) t(1,2) by (auto simp: seen_translations bound_def)
  then show ?thesis using t(3,4)
    by (simp add: bind_translation_def on_besu_api [OF D] Let_def await_def readContract_chain give_apply
      translatedField_value lower_checksum [OF D])
qed

lemma bind_done:
  assumes D: "on_besu R D" and key: "key = key_hash R (word_of p) h"
    and run: "bind_translation D registry tr key [JPrim p, str_arg h, str_arg ir, str_arg tr, str_arg root] s = (Inr (), s')"
  shows "bound R registry key tr (node s') \<and> rec s' = rec s \<and> files s' = files s"
proof -
  let ?look = "\<lambda>c. seen R ''UBTLRegistry'' registry ''translations'' [str_arg key] c"
  obtain v where v: "?look (node s) = Inr v"
    using run by (auto simp: bind_translation_def on_besu_api [OF D] Let_def await_def readContract_chain split: sum.splits)
  then obtain g where g: "compiled R ''UBTLRegistry''" "has_method R ''UBTLRegistry'' ''translations''"
      "at (node s) (to_lower registry) = Some (UBTLRegistryC g)" "v = translation_value R (ur_translations g key)"
    by (auto simp: seen_translations)
  let ?old = "case ur_translations g key of None \<Rightarrow> ZERO_ADDRESS | Some t \<Rightarrow> tr_translated t"
  show ?thesis
  proof (cases "to_lower ?old = ZERO_ADDRESS")
    case False
    then have same: "to_lower ?old = to_lower tr" "s' = s"
      using run v g(4) by (auto simp: bind_translation_def on_besu_api [OF D] Let_def await_def readContract_chain
        translatedField_value lower_checksum [OF D] throw_apply give_apply split: if_splits)
    then obtain t where t: "ur_translations g key = Some t" using False by (cases "ur_translations g key") auto
    have "bound R registry key tr (node s')"
      unfolding bound_def using g same False t by simp
    then show ?thesis using same(2) by simp
  next
    case True
    have "await (sendContract (chain_api R) ''UBTLRegistry'' registry ''register''
          [JPrim p, str_arg h, str_arg ir, str_arg tr, str_arg root] None) (\<lambda>_.
        await (readContract (chain_api R) ''UBTLRegistry'' registry ''translations'' [str_arg key]) (\<lambda>stored.
        if to_lower (translatedField stored) \<noteq> to_lower tr
        then throw (''translation registration verification failed for key '' @ key) else give ())) s = (Inr (), s')"
      using run v g(4) True by (simp add: bind_translation_def on_besu_api [OF D] Let_def await_def [of "readContract _ _ _ _ _" _ s]
        readContract_chain translatedField_value lower_checksum [OF D])
    then obtain r s1 where sent: "sendContract (chain_api R) ''UBTLRegistry'' registry ''register''
          [JPrim p, str_arg h, str_arg ir, str_arg tr, str_arg root] None s = (Inr r, s1)" and s1: "s1 = s'"
      unfolding await_returns by (auto simp: readContract_chain throw_apply give_apply split: if_splits)
    from sendContract_done [OF sent] obtain c0 c1 amount where c: "at c0 = at (node s)" "at (node s1) = at c1"
        "rec s1 = rec s" "files s1 = files s"
        "transact R (sender_of R) amount (to_lower registry) ''register'' [JPrim p, str_arg h, str_arg ir, str_arg tr, str_arg root] c0 = Inr c1"
      by metis
    obtain g' where g': "call_registry R (sender_of R) ''register'' [p, PString h, PString ir, PString tr, PString root] c0 g = Inr g'"
        "at c1 (to_lower registry) = Some (UBTLRegistryC g')"
      using sent_registry [OF c(5)] c(1) g(3) by (auto simp: str_arg_def)
    then have "bound R registry key tr (node s1)"
      using g(1,2) c(2) by (auto simp: bound_def call_registry_def register_translation_def key split: if_splits)
    then show ?thesis using s1 c(3,4) by simp
  qed
qed

lemma bind_within: "on_besu R D \<Longrightarrow> within (session_grows R) {} (bind_translation D registry tr key args)"
proof -
  assume D: "on_besu R D"
  have read: "within (session_grows R) {} (readContract (chain_api R) n a m vs)" for n a m vs
    by (simp add: within_def readContract_chain deploys.grows_refl)
  have sends: "within (session_grows R) {} (sendContract (chain_api R) ''UBTLRegistry'' registry ''register'' args None)"
    by (rule within_sendContract) (simp add: touches_def)
  show ?thesis
    unfolding bind_translation_def on_besu_api [OF D] Let_def
    by (intro deploys.within_await deploys.within_if deploys.within_throw deploys.within_give read sends)
qed

lemma requireContractAddress_Inr: "requireContractAddress d k = Inr a \<longleftrightarrow> contract_at d k = a \<and> a \<noteq> []"
  by (auto simp: requireContractAddress_def)

lemma contract_at_entry: "contract_at d k = a \<Longrightarrow> a \<noteq> [] \<Longrightarrow> d_contracts d k = Some a"
  by (auto simp: contract_at_def split: option.splits)

definition registration :: "evm_rules \<Rightarrow> (evm_chain, call_data) deploy_env \<Rightarrow> string \<Rightarrow> string \<Rightarrow> evm_chain session \<Rightarrow> bool" where
  "registration R D registry translated s \<longleftrightarrow>
     live ''ubtlRegistry'' registry s \<and> live ''hotelBookingTranslated'' translated s \<and>
     (\<exists>p h ir root key. chain_arg (sourceChainIdForVM (ubtl D) (environ D) Fabric_vm) = JPrim p \<and>
        resolveHotelSourceContractHash (ubtl D) (environ D) = Inr h \<and>
        seen R ''HotelBookingTranslated'' translated ''ir_hash'' [] (node s) = Inr ir \<and>
        resolveHotelStorageMapRoot (ubtl D) (environ D) = Inr root \<and>
        seen R ''UBTLRegistry'' registry ''keyFor'' [JPrim p, str_arg h] (node s) = Inr (text_value key) \<and>
        key = key_hash R (word_of p) h \<and> bound R registry key translated (node s))"

lemma registration_again:
  assumes D: "on_besu R D" and r: "registration R D registry translated s"
  shows "registerHotelTranslation D s = (Inr (), s)"
proof -
  from r have "requireContractAddress (rec s) ''ubtlRegistry'' = Inr registry"
    "requireContractAddress (rec s) ''hotelBookingTranslated'' = Inr translated"
    by (auto simp: registration_def live_def requireContractAddress_Inr contract_at_def)
  then show ?thesis
    using r bind_again [OF D] unfolding registration_def
    by (elim conjE exE) (simp add: registerHotelTranslation_def with_rec_def await_def of_res_apply on_besu_api [OF D]
      readContract_chain Let_def text_value_def)
qed

lemma registration_done:
  assumes D: "on_besu R D" and run: "registerHotelTranslation D s = (Inr (), s')"
  shows "\<exists>registry translated. registration R D registry translated s'"
proof -
  obtain p where p: "chain_arg (sourceChainIdForVM (ubtl D) (environ D) Fabric_vm) = JPrim p"
    by (cases "sourceChainIdForVM (ubtl D) (environ D) Fabric_vm") (auto simp: chain_arg_def num_arg_def str_arg_def)
  from run obtain registry translated h irv root kv where
    x: "requireContractAddress (rec s) ''ubtlRegistry'' = Inr registry"
       "requireContractAddress (rec s) ''hotelBookingTranslated'' = Inr translated"
       "resolveHotelSourceContractHash (ubtl D) (environ D) = Inr h"
       "seen R ''HotelBookingTranslated'' translated ''ir_hash'' [] (node s) = Inr irv"
       "resolveHotelStorageMapRoot (ubtl D) (environ D) = Inr root"
       "seen R ''UBTLRegistry'' registry ''keyFor'' [JPrim p, str_arg h] (node s) = Inr kv" and
    b: "bind_translation D registry translated (value_string kv)
         [JPrim p, str_arg h, str_arg (value_string irv), str_arg translated, str_arg root] s = (Inr (), s')"
    by (auto simp: registerHotelTranslation_def with_rec_def await_returns of_res_apply on_besu_api [OF D]
      readContract_chain Let_def p)
  have kv: "kv = text_value (key_hash R (word_of p) h)" using x(6) by (auto simp: seen_Inr view_keyFor)
  then have vs: "value_string kv = key_hash R (word_of p) h" by (simp add: text_value_def)
  note bd = bind_done [OF D vs b]
  have g: "chain_grows R {} (node s) (node s')"
    using bind_within [OF D] b by (auto simp: within_def session_grows_def)
  obtain hs where hs: "at (node s) (to_lower translated) = Some (HotelC hs)" "irv = text_value (ir_hash_of R)"
    using x(4) by (auto simp: seen_Inr view_ir_hash)
  obtain hs' where hs': "at (node s') (to_lower translated) = Some (HotelC hs')" using grown_hotel [OF g hs(1)] by blast
  obtain gr where gr: "at (node s') (to_lower registry) = Some (UBTLRegistryC gr)" using bd by (auto simp: bound_def)
  have "seen R ''HotelBookingTranslated'' translated ''ir_hash'' [] (node s') = Inr irv"
    "seen R ''UBTLRegistry'' registry ''keyFor'' [JPrim p, str_arg h] (node s') = Inr (text_value (value_string kv))"
    using x(4,6) hs hs' gr kv vs by (auto simp: seen_Inr view_ir_hash view_keyFor)
  moreover have "live ''ubtlRegistry'' registry s'" "live ''hotelBookingTranslated'' translated s'"
    using x(1,2) bd gr hs' by (auto simp: live_def requireContractAddress_Inr intro: contract_at_entry)
  ultimately show ?thesis using p x bd vs unfolding registration_def by metis
qed

lemma registration_grows:
  assumes r: "registration R D registry translated s"
    and g: "session_grows R (- {Key ''ubtlRegistry'', Key ''hotelBookingTranslated''}) s s'"
  shows "registration R D registry translated s'"
proof -
  have "session_grows R (- {Key ''ubtlRegistry''}) s s'" "session_grows R (- {Key ''hotelBookingTranslated''}) s s'"
    by (rule session_grows_mono [OF g], auto)+
  then have l: "live ''ubtlRegistry'' registry s'" "live ''hotelBookingTranslated'' translated s'"
    using r unfolding registration_def by (auto intro: live_grows simp: note_keys_def)
  have c: "chain_grows R (- {Key ''ubtlRegistry'', Key ''hotelBookingTranslated''}) (node s) (node s')"
    using g by (simp add: session_grows_def)
  have ir: "seen R ''HotelBookingTranslated'' translated ''ir_hash'' [] (node s) = Inr ir \<Longrightarrow>
      seen R ''HotelBookingTranslated'' translated ''ir_hash'' [] (node s') = Inr ir" for ir
    using grown_hotel [OF c] by (fastforce simp: seen_Inr view_ir_hash)
  have key: "seen R ''UBTLRegistry'' registry ''keyFor'' [JPrim p, str_arg h] (node s) = Inr k \<Longrightarrow>
      seen R ''UBTLRegistry'' registry ''keyFor'' [JPrim p, str_arg h] (node s') = Inr k" for p h k
    using grown_registry [OF c] by (fastforce simp: seen_Inr view_keyFor)
  from r obtain p h iv root k where x: "chain_arg (sourceChainIdForVM (ubtl D) (environ D) Fabric_vm) = JPrim p"
      "resolveHotelSourceContractHash (ubtl D) (environ D) = Inr h"
      "seen R ''HotelBookingTranslated'' translated ''ir_hash'' [] (node s) = Inr iv"
      "resolveHotelStorageMapRoot (ubtl D) (environ D) = Inr root"
      "seen R ''UBTLRegistry'' registry ''keyFor'' [JPrim p, str_arg h] (node s) = Inr (text_value k)"
      "k = key_hash R (word_of p) h" "bound R registry k translated (node s)"
    unfolding registration_def by blast
  show ?thesis unfolding registration_def
    by (intro conjI l exI) (rule x(1), rule x(2), rule ir [OF x(3)], rule x(4), rule key [OF x(5)], rule x(6),
      rule bound_grows [OF x(7) c])
qed

lemma within_with_rec: "(\<And>d. within grows F (f d)) \<Longrightarrow> within grows F (with_rec f)"
  by (simp add: within_def with_rec_def)

lemma registerHotelTranslation_steady:
  assumes D: "on_besu R D"
  shows "steady_on R {Key ''ubtlRegistry'', Key ''hotelBookingTranslated''} {} (registerHotelTranslation D)"
proof -
  let ?Q = "\<lambda>(_ :: unit) s. \<exists>registry translated. registration R D registry translated s"
  have "settles quiet (registerHotelTranslation D) ?Q"
    unfolding settles_def
  proof (intro conjI allI impI)
    fix s s' and a :: unit assume "registerHotelTranslation D s = (Inr a, s')"
    then show "?Q a s'" using registration_done [OF D, of s s'] by simp
  next
    fix s and a :: unit assume "?Q a s"
    then have "registerHotelTranslation D s = (Inr a, s)" using registration_again [OF D] by auto
    then show "\<exists>s'. registerHotelTranslation D s = (Inr a, s') \<and> quiet s s'" using quiet_refl by blast
  next
    fix s s' :: "evm_chain session" and a :: unit assume "?Q a s" and q: "quiet s s'"
    then obtain registry translated where r: "registration R D registry translated s" by blast
    have n: "node s' = node s" "d_contracts (rec s') = d_contracts (rec s)" using q by (simp_all add: quiet_def same_record_iff)
    have "registration R D registry translated s'" using r unfolding registration_def live_def n .
    then show "?Q a s'" by blast
  qed
  moreover have "lasting (session_grows R) (- {Key ''ubtlRegistry'', Key ''hotelBookingTranslated''}) ?Q"
    unfolding lasting_def using registration_grows by blast
  moreover have "within (session_grows R) {} (registerHotelTranslation D)"
  proof -
    have read: "within (session_grows R) {} (readContract (chain_api R) n a m vs)" for n a m vs
      by (simp add: within_def readContract_chain deploys.grows_refl)
    show ?thesis unfolding registerHotelTranslation_def on_besu_api [OF D] Let_def
      by (intro within_with_rec deploys.within_await deploys.within_of_res read bind_within [OF D])
  qed
  ultimately show ?thesis unfolding steady_def by blast
qed

subsection \<open>The scripts\<close>

lemma when_chain_steady:
  "steady_on R K W m \<Longrightarrow> steady_on R K W (when_chain b m)"
  unfolding when_chain_def by (cases b) (auto intro: deploys.steady_mono [OF deploys.steady_give])

lemma adapter_steady:
  assumes D: "on_besu R D"
  shows "steady_on R (range Key) {} (deploySelectedProofAdapter D lc)"
proof -
  have dep: "steady_on R (range Key) {} (deployed D key name args)" if "key \<notin> note_keys" for key name args
    by (rule deploys.steady_mono [OF deployed_steady [OF D that]]) auto
  have thr: "steady_on R (range Key) {} (throw e)" for e by (rule deploys.steady_mono [OF deploys.steady_throw]) auto
  have giv: "steady_on R (range Key) {} (give a)" for a by (rule deploys.steady_mono [OF deploys.steady_give]) auto
  have res: "steady_on R (range Key) {} (of_res r)" for r by (rule deploys.steady_mono [OF deploys.steady_of_res]) auto
  have seq: "steady_on R (range Key) {} (await m f)"
    if "steady_on R (range Key) {} m" "\<And>a. steady_on R (range Key) {} (f a)" for m f
    using deploys.steady_await [OF that] by simp
  show ?thesis
    unfolding deploySelectedProofAdapter_def
  proof (intro seq res giv)
    fix mode
    show "steady_on R (range Key) {} (case mode of
         Zk_substrate \<Rightarrow> deployed D ''substrateStateProofAdapter'' ''SubstrateStateProofAdapter'' [str_arg lc]
       | Zk_fabric \<Rightarrow> deployed D ''fabricStateProofAdapter'' ''FabricStateProofAdapter'' [str_arg lc]
       | Zk_both \<Rightarrow>
           await (deployed D ''componentVerifiedAdapter'' ''ComponentVerifiedAdapter'' [str_arg lc]) (\<lambda>component.
           await (deployed D ''substrateStateProofAdapter'' ''SubstrateStateProofAdapter'' [str_arg lc]) (\<lambda>substrate.
           await (deployed D ''fabricStateProofAdapter'' ''FabricStateProofAdapter'' [str_arg lc]) (\<lambda>fabric.
           deployed D ''compositeProofAdapter'' ''CompositeProofAdapter'' [str_arg component, str_arg substrate, str_arg fabric])))
       | Succinct_sp1 \<Rightarrow>
           await (of_res (requiredEnv (environ D) ''XSMART_SP1_VERIFIER_ADDRESS'')) (\<lambda>verifier.
           await (of_res (requiredBytes32Env (environ D) ''XSMART_SP1_PROGRAM_VKEY'')) (\<lambda>programVKey.
           deployed D ''sp1ZkProofAdapter'' ''ZkProofAdapter'' [str_arg verifier, str_arg programVKey, num_arg 0]))
       | Succinct_risc0 \<Rightarrow>
           await (of_res (requiredEnv (environ D) ''XSMART_RISC0_VERIFIER_ADDRESS'')) (\<lambda>verifier.
           await (of_res (requiredBytes32Env (environ D) ''XSMART_RISC0_IMAGE_ID'')) (\<lambda>imageId.
           deployed D ''risc0ZkProofAdapter'' ''ZkProofAdapter'' [str_arg verifier, str_arg imageId, num_arg 1]))
       | Production_proof \<Rightarrow>
           (let a = env_trim (environ D) ''XSMART_PRODUCTION_PROOF_ADAPTER_ADDRESS'' in
            if a = [] then throw (''production_proof mode requires XSMART_PRODUCTION_PROOF_ADAPTER_ADDRESS; '' @
              ''the current MVP adapters must not be used as production GRANDPA/Fabric MSP/light-client verifiers.'')
            else give a)
       | Component_verified \<Rightarrow> deployed D ''componentVerifiedAdapter'' ''ComponentVerifiedAdapter'' [str_arg lc])"
      by (cases mode; simp only: proof_mode.case Let_def; intro seq res dep giv thr deploys.steady_if)
        (simp_all add: note_keys_def)
  qed
qed

lemma open_record_again:
  assumes "well_filed s" and "filed s = Some d" and "same_record d (rec s)"
    and "d_system (rec s) = system" and "d_network (rec s) = key" and "d_chainId (rec s) = Some chain"
  shows "\<exists>s'. open_record D system key chain s = (Inr (), s') \<and> quiet s s'"
proof -
  have "loadDeployment (files s) system key = d" using assms by (simp add: loadDeployment_def filed_def)
  then have "open_record D system key chain s = (Inr (), s\<lparr>rec := d\<lparr>d_chainId := Some chain\<rparr>\<rparr>)"
    by (simp add: open_record_def)
  moreover have "quiet s (s\<lparr>rec := d\<lparr>d_chainId := Some chain\<rparr>\<rparr>)"
    using assms by (auto simp: quiet_def same_record_iff option.rel_refl)
  ultimately show ?thesis by blast
qed

text \<open>
  A script that opens its record, runs steady steps and saves: once it has returned it can be run
  again, with the same answer, and nothing on the chain or in a record changes.
\<close>

definition recorded :: "('n, 'd) deploy_env \<Rightarrow> string \<Rightarrow> string \<Rightarrow> nat \<Rightarrow> ('n session, unit) script \<Rightarrow> ('n session, unit) script" where
  "recorded D system key chain body = await (open_record D system key chain) (\<lambda>_. await body (\<lambda>_. save D))"

lemma opened: "open_record D system key chain s = (Inr (), t) \<Longrightarrow> well_filed s \<Longrightarrow>
    d_system (rec t) = system \<and> d_network (rec t) = key \<and> d_chainId (rec t) = Some chain \<and> well_filed t"
  by (auto simp: open_record_def loadDeployment_def well_filed_def split: option.splits)

lemma recorded_rerun:
  assumes body: "steady_on R K W body" and well: "well_filed s" and run: "recorded D system key chain body s = (Inr (), s1)"
  shows "well_filed s1 \<and> (\<exists>s2. recorded D system key chain body s1 = (Inr (), s2) \<and> quiet s1 s2)"
proof -
  let ?m = "await body (\<lambda>_. save D)"
  from run obtain t where t: "open_record D system key chain s = (Inr (), t)" "?m t = (Inr (), s1)"
    by (auto simp: recorded_def await_returns)
  note t_rec = opened [OF t(1) well]
  have st: "steady_on R (K \<union> {File}) (W \<union> {}) ?m"
    by (rule deploys.steady_await [OF body]) (simp_all add: save_def save_steady)
  then have g: "session_grows R (W \<union> {}) t s1" using t(2) by (simp add: steady_def within_def)
  then have head: "d_system (rec s1) = system" "d_network (rec s1) = key" "d_chainId (rec s1) = Some chain" "well_filed s1"
    using t_rec by (simp_all add: session_grows_def)
  obtain t2 where "writeDeployment (api D) t2 = (Inr (), s1)"
    using t(2) by (auto simp: await_returns save_def)
  then have "synced s1" by (rule write_synced)
  then obtain d where "filed s1 = Some d" "same_record d (rec s1)" by (auto simp: synced_def)
  then obtain u where u: "open_record D system key chain s1 = (Inr (), u)" "quiet s1 u"
    using open_record_again [OF head(4) _ _ head(1-3)] by blast
  from deploys.steady_rerun [OF st t(2) u(2)] obtain s2 where "?m u = (Inr (), s2)" "quiet u s2" by blast
  with u head(4) show ?thesis by (auto simp: recorded_def await_Inr intro: quiet_trans)
qed

lemma bc1_contracts_steady:
  assumes D: "on_besu R D"
  shows "steady_on R ({Registry, Adapter} \<union> range Key) {Registry, Adapter} (bc1_contracts D chain)"
  unfolding bc1_contracts_def
  by (rule deploys.steady_mono,
    ((rule deploys.steady_await deploys.steady_for_each deploys.steady_give
      fundActors_steady [OF D] deployed_steady [OF D] adapter_steady [OF D] ensure_relayer_steady [OF D]
      ensure_registry_steady [OF D] setSelectedProofAdapter_steady [OF D] ensure_state_steady [OF D]
      ensure_service_steady [OF D] ensure_verified_steady [OF D])
    | (simp add: note_keys_def; fail) | (auto; fail))+)

lemma evm_1a_contracts_steady:
  assumes D: "on_besu R D"
  shows "steady_on R ({Registry, Adapter} \<union> range Key) {Registry, Adapter} (evm_1a_contracts D chain chainId)"
  unfolding evm_1a_contracts_def
  by (rule deploys.steady_mono,
    ((rule deploys.steady_await deploys.steady_for_each deploys.steady_give when_chain_steady
      fundActors_steady [OF D] deployed_steady [OF D] adapter_steady [OF D] ensure_relayer_steady [OF D]
      ensure_registry_steady [OF D] setSelectedProofAdapter_steady [OF D] ensure_state_steady [OF D])
    | (simp add: note_keys_def; fail) | (auto; fail))+)

lemma registerTranslations_steady:
  assumes D: "on_besu R D"
  shows "steady_on R ({File} \<union> range Key) {} (registerTranslations D)"
  unfolding registerTranslations_def save_def
  by (rule deploys.steady_mono,
    ((rule deploys.steady_await registerHotelTranslation_steady [OF D] save_steady) | (auto; fail))+)

lemma configureRegistry_steady:
  assumes D: "on_besu R D"
  shows "steady_on R {Quorum} {Quorum} (configureRegistry D g)"
  unfolding configureRegistry_def
  by (rule deploys.steady_mono,
    ((rule deploys.steady_await deploys.steady_for_each deploys.steady_give ensure_signer_steady [OF D]
      ensure_quorum_steady [OF D]) | (auto; fail))+)

text \<open>Running a script again after it has returned: the same answer, no transaction, the same record.\<close>

definition idempotent_script :: "(evm_chain session, unit) script \<Rightarrow> bool" where
  "idempotent_script m \<longleftrightarrow> (\<forall>s s1. well_filed s \<longrightarrow> m s = (Inr (), s1) \<longrightarrow>
     (\<exists>s2. m s1 = (Inr (), s2) \<and> node s2 = node s1 \<and> same_record (rec s2) (rec s1)))"

lemma recorded_idempotent: "steady_on R K W body \<Longrightarrow> idempotent_script (recorded D system key chain body)"
  unfolding idempotent_script_def
proof (intro allI impI)
  fix s s1 assume b: "steady_on R K W body" "well_filed s" "recorded D system key chain body s = (Inr (), s1)"
  from recorded_rerun [OF this] obtain s2 where "recorded D system key chain body s1 = (Inr (), s2)" "quiet s1 s2" by blast
  then show "\<exists>s2. recorded D system key chain body s1 = (Inr (), s2) \<and> node s2 = node s1 \<and> same_record (rec s2) (rec s1)"
    by (auto simp: quiet_def intro: same_record_sym)
qed

lemma throw_idempotent: "idempotent_script (throw e)"
  by (simp add: idempotent_script_def throw_apply)

lemma deploy_bc1_recorded:
  assumes "network D \<noteq> ''local''"
  shows "deploy_bc1 D = recorded D ''xsmart'' (network D) (chainIdOf (network D))
    (await (bc1_contracts D (chainIdOf (network D))) (\<lambda>_. registerTranslations D))"
  using assms by (simp add: deploy_bc1_def recorded_def Let_def local_balance_def give_await await_assoc await_give await_give_unit)

lemma deploy_bc1_1a_recorded:
  assumes "net_name D \<noteq> ''local''"
  shows "deploy_bc1_1a D = recorded D ''xsmart'' ''bc1-1a'' 1
    (await (bc1_contracts D 1) (\<lambda>(bridge, translated). await (ensure_meta D translated) (\<lambda>_. registerTranslations D)))"
  using assms by (simp add: deploy_bc1_1a_def recorded_def local_balance_def give_await await_assoc split_def)

lemma deploy_evm_1a_recorded:
  "deploy_evm_1a D =
     (if network D = [] then throw ''Unable to resolve target chain for XSmart 1a EVM deploy''
      else case profileFor (network D) of Inl e \<Rightarrow> throw e
      | Inr (deployKey, chainId) \<Rightarrow> recorded D ''xsmart'' deployKey chainId (evm_1a_contracts D (network D) chainId))"
  by (rule ext) (simp add: deploy_evm_1a_def recorded_def Let_def await_def of_res_apply throw_apply split: sum.splits prod.splits)

lemma integratex_service_recorded:
  assumes D: "on_besu R D" and services: "\<And>bc. steady_on R (range Key) {} (services bc)"
  shows "idempotent_script (integratex_service D services)"
proof -
  have "steady_on R ({ManagerBridge} \<union> range Key) {ManagerBridge}
    (await (fundActors (api D) [relayerAddr D]) (\<lambda>_.
      await (deployed D ''lightClient'' ''LightClient'' (lightClient_args (chainIdOf (network D)))) (\<lambda>lc.
      await (deployed D ''relayerManager'' ''RelayerManager'' manager_args) (\<lambda>rm.
      await (deployed D ''bridgingContract'' ''BridgingContract'' (bridge_args (chainIdOf (network D)) lc rm)) (\<lambda>bc.
      await (services bc) (\<lambda>stateContracts.
      await (ensure_relayer D rm) (\<lambda>_.
      await (ensure_manager_bridge D rm bc) (\<lambda>_.
      for_each stateContracts (ensure_state D ''BridgingContract'' bc)))))))))"
    by (rule deploys.steady_mono,
      ((rule deploys.steady_await deploys.steady_for_each fundActors_steady [OF D] deployed_steady [OF D]
        services ensure_relayer_steady [OF D] ensure_manager_bridge_steady [OF D] ensure_state_steady [OF D])
      | (simp add: note_keys_def; fail) | (auto; fail))+)
  from recorded_idempotent [OF this, of D "''integratex''" "network D" "chainIdOf (network D)"]
  show ?thesis by (simp add: integratex_service_def recorded_def Let_def await_assoc)
qed

lemma gpact_recorded:
  assumes D: "on_besu R D" and apps: "\<And>c. steady_on R (Key ` (- note_keys)) {} (applications c)"
  shows "idempotent_script (gpact_deploy D applications)"
proof -
  have "steady_on R (range Key \<union> {Quorum, Owner}) {Quorum, Owner, File, Key ''gpactRelayer'', Key ''gpactSigners'', Key ''gpactQuorum''}
    (await (fundActors (api D) [atomServerAddr D]) (\<lambda>_.
      await (deployed D ''gpactSignerRegistry'' ''GPACTEventSignerRegistry'' [num_arg (GPACT_SIGNER_QUORUM CONSTS)]) (\<lambda>registry.
      await (deployed D ''gpactCrosschainControl'' ''GPACTCrosschainControl''
        [num_arg (int (chainIdOf (network D))), str_arg registry]) (\<lambda>control.
      await (applications control) (\<lambda>_.
      await (configureRegistry D registry) (\<lambda>signerAddresses.
      await (ensure_owner D control) (\<lambda>_.
      await (write_contract ''gpactRelayer'' (atomServerAddr D)) (\<lambda>_.
      await (write_contract ''gpactSigners'' (join '','' signerAddresses)) (\<lambda>_.
      write_contract ''gpactQuorum'' (show_int (GPACT_SIGNER_QUORUM CONSTS)))))))))))"
    by (rule deploys.steady_mono,
      ((rule deploys.steady_await fundActors_steady [OF D] deployed_steady [OF D] apps
        configureRegistry_steady [OF D] ensure_owner_steady [OF D] write_contract_steady)
      | (simp add: note_keys_def; fail) | (auto simp: note_keys_def; fail))+)
  from recorded_idempotent [OF this, of D "''gpact''" "network D" "chainIdOf (network D)"]
  show ?thesis by (simp add: gpact_deploy_def recorded_def Let_def await_assoc)
qed

lemma atom_recorded:
  assumes D: "on_besu R D" and keys: "\<forall>(key, x) \<in> set services. key \<notin> note_keys"
  shows "idempotent_script (atom_service D services)"
proof -
  have one: "steady_on R (Key ` (- note_keys)) {} (await (deployed D key name args) (\<lambda>_. give ()))" if "key \<notin> note_keys" for key name args
    by (rule deploys.steady_mono [OF deploys.steady_await [OF deployed_steady [OF D that] deploys.steady_give]])
      (use that in auto)
  have each: "steady_on R (Key ` (- note_keys)) {} (for_each services (\<lambda>(key, name, price, remain).
      await (deployed D key name [num_arg price, num_arg remain, str_arg (atomServerAddr D)]) (\<lambda>_. give ())))"
    by (rule deploys.steady_for_each) (use keys one in auto)
  have "steady_on R (range Key) {File, Key ''atomServer''}
    (await (fundActors (api D) [atomServerAddr D]) (\<lambda>_.
      await (for_each services (\<lambda>(key, name, price, remain).
        await (deployed D key name [num_arg price, num_arg remain, str_arg (atomServerAddr D)]) (\<lambda>_. give ()))) (\<lambda>_.
      write_contract ''atomServer'' (atomServerAddr D))))"
    by (rule deploys.steady_mono,
      ((rule deploys.steady_await fundActors_steady [OF D] each write_contract_steady)
      | (simp add: note_keys_def; fail) | (auto simp: note_keys_def; fail))+)
  from recorded_idempotent [OF this, of D "''atom''" "network D" "chainIdOf (network D)"]
  show ?thesis by (simp add: atom_service_def recorded_def Let_def await_assoc)
qed

lemma services_steady:
  assumes D: "on_besu R D" and keys: "k1 \<notin> note_keys" "k2 \<notin> note_keys" "k3 \<notin> note_keys" "k4 \<notin> note_keys"
  shows "steady_on R (range Key) {} (await (deployed D k1 n1 a1) (\<lambda>x1. await (deployed D k2 n2 (a2 x1)) (\<lambda>x2.
    await (deployed D k3 n3 a3) (\<lambda>x3. await (deployed D k4 n4 (a4 x3)) (\<lambda>x4. give [x2, x4])))))"
  by (rule deploys.steady_mono,
    ((rule deploys.steady_await deploys.steady_give deployed_steady [OF D]) | (simp add: keys; fail) | (auto; fail))+)

lemma pair_steady:
  assumes D: "on_besu R D" and keys: "fst x \<notin> note_keys" "fst y \<notin> note_keys"
  shows "steady_on R (Key ` (- note_keys)) {} (await (gpact_pair D x c) (\<lambda>_. await (gpact_pair D y c) (\<lambda>_. give ())))"
proof (cases x; cases y)
  fix a b p q a' b' p' q' assume xy: "x = (a, b, p, q)" "y = (a', b', p', q')"
  have "steady_on R (Key ` (- note_keys)) {} (await (deployed D a b vs) (\<lambda>_. await (deployed D a' b' vs') (\<lambda>_. give ())))" for vs vs'
    by (rule deploys.steady_mono,
      ((rule deploys.steady_await deploys.steady_give deployed_steady [OF D]) | (use keys xy in \<open>simp; fail\<close>)
      | (use keys xy in \<open>auto; fail\<close>))+)
  then show ?thesis using xy by (simp add: gpact_pair_def)
qed

subsection \<open>A concrete chain and environment\<close>

definition reference_rules :: evm_rules where
  "reference_rules =
     \<lparr>checksum = (\<lambda>a. a), create_address = (\<lambda>s n. ''0xc'' @ show_nat n), key_address = (\<lambda>k. k),
      key_hash = (\<lambda>n h. h), ir_hash_of = ZERO_HASH, runtime_code = (\<lambda>c. ''0x6080''), compiled = (\<lambda>n. True),
      has_method = (\<lambda>n m. True), argument_error = (\<lambda>m vs. None), other_constructor = (\<lambda>n vs. None),
      turns_down = (\<lambda>c t. None), gas_price = (\<lambda>c. ''1000''), gas_needed = (\<lambda>c d. Inr 100000),
      clock = (\<lambda>c. show_nat (height c)), evm = reference_host\<rparr>"

definition reference_ubtl :: ubtl_host where
  "reference_ubtl =
     \<lparr>repoRoot = ''/r'', file_text = Map.empty, parse_json = (\<lambda>t. Inl t), parse_storage_map = (\<lambda>t. Inl t),
      stringify_map = (\<lambda>m. sm_contract m), localeCompare = code_unit_compare, hexlify = concat, sha256 = (\<lambda>t. t),
      keccak256_text = (\<lambda>t. t), getAddress = (\<lambda>a. Inr a),
      Number_of = (\<lambda>t. case BigInt t of Inl e \<Rightarrow> None | Inr n \<Rightarrow> Some n)\<rparr>"

definition reference_deploy :: "string \<Rightarrow> (evm_chain, call_data) deploy_env" where
  "reference_deploy net =
     \<lparr>api = chain_api reference_rules, environ = [''XSMART_BC3_SOURCE_HASH'' \<mapsto> ''0xab''], ubtl = reference_ubtl,
      evm_coder = reference_host, net_name = net, net_url = ''http://127.0.0.1:8545'',
      set_balance = (\<lambda>a. give ())\<rparr>"

definition fresh_session :: "evm_chain session" where
  "fresh_session =
     \<lparr>node = \<lparr>at = Map.empty, nonce_of = (\<lambda>a. 0), height = 0, wei = (\<lambda>a. 10 ^ 22), sent = []\<rparr>,
      rec = \<lparr>d_network = [], d_system = [], d_chainId = None, d_contracts = Map.empty, d_deployedAt = None\<rparr>,
      files = (\<lambda>sys net. None)\<rparr>"

lemma reference_on_besu: "on_besu reference_rules (reference_deploy net)"
  by (auto simp: on_besu_def reference_deploy_def rules_documented_def reference_rules_def reference_host_documented
    forceRedeploy_def has_code_def)

lemma fresh_well_filed: "well_filed fresh_session"
  by (simp add: well_filed_def fresh_session_def)

lemma network_local: "network D \<noteq> ''local'' \<Longrightarrow> net_name D \<noteq> ''local''"
  by (auto simp: network_def networkName_def)

subsection \<open>Properties\<close>

text \<open>C6. The xsmart deploy scripts are re-run-safe: after a run that returned, whatever the chain and
  the records were before it, a second run returns too, sends no transaction and leaves the chain and the
  deployment record as they are. The exceptions are the network \<open>local\<close>, whose balance is reset
  each time, and \<open>FORCE_REDEPLOY\<close>.\<close>

theorem xsmart_deploys_idempotent:
  assumes D: "on_besu R D" and net: "network D \<noteq> ''local''"
  shows "idempotent_script (deploy_bc1 D) \<and> idempotent_script (deploy_bc1_1a D) \<and> idempotent_script (deploy_evm_1a D)"
proof (intro conjI)
  show "idempotent_script (deploy_bc1 D)"
    unfolding deploy_bc1_recorded [OF net]
    by (rule recorded_idempotent [OF deploys.steady_await [OF bc1_contracts_steady [OF D] registerTranslations_steady [OF D]]]) auto
  show "idempotent_script (deploy_bc1_1a D)"
    unfolding deploy_bc1_1a_recorded [OF network_local [OF net]] split_def
    by (rule recorded_idempotent [OF deploys.steady_await [OF bc1_contracts_steady [OF D]
        deploys.steady_await [OF ensure_meta_steady [OF D] registerTranslations_steady [OF D]]]]) auto
  show "idempotent_script (deploy_evm_1a D)"
    unfolding deploy_evm_1a_recorded
    by (auto simp: throw_idempotent intro: recorded_idempotent [OF evm_1a_contracts_steady [OF D]] split: sum.splits)
qed

theorem xsmart_deploys_idempotent_witness:
  "idempotent_script (deploy_bc1 (reference_deploy ''bc1'')) \<and> idempotent_script (deploy_evm_1a (reference_deploy ''bc2''))"
proof -
  have "network (reference_deploy net) = net" if "net \<noteq> ''besu''" for net
    using that by (simp add: network_def networkName_def reference_deploy_def)
  then show ?thesis
    using xsmart_deploys_idempotent [OF reference_on_besu, of "''bc1''"] xsmart_deploys_idempotent [OF reference_on_besu, of "''bc2''"]
    by simp
qed



end
