(* ===== verification/Deploy_Fresh.thy ===== *)
theory Deploy_Fresh
  imports Deploy_Rerun
begin

text \<open>
  A first deployment: on a chain without the contracts, which accepts transactions, \<open>deploy-bc1.ts\<close>
  returns, and leaves the bridge wired. The run is followed step by step: \<open>stage\<close> says which contracts
  are at which address, the deployer's nonce, and the addresses recorded so far.
\<close>

definition addr :: "evm_rules \<Rightarrow> nat \<Rightarrow> string" where
  "addr R k = to_lower (create_address R (sender_of R) k)"

text \<open>Documented behaviour of a node that takes every transaction: addresses of created contracts are
  different from each other and from zero.\<close>

definition cooperative :: "evm_rules \<Rightarrow> bool" where
  "cooperative R \<longleftrightarrow> rules_documented R \<and> (\<forall>c t. turns_down R c t = None) \<and>
     (\<forall>m vs. argument_error R m vs = None) \<and> (\<forall>n. compiled R n) \<and> (\<forall>n m. has_method R n m) \<and>
     (\<forall>n vs. other_constructor R n vs = None) \<and> inj (addr R) \<and>
     (\<forall>k. checksum R (addr R k) \<noteq> [] \<and> addr R k \<noteq> ZERO_ADDRESS \<and> addr R k \<noteq> sender_of R)"

lemma lower_addr [simp]: "to_lower (addr R k) = addr R k"
  by (simp add: addr_def)

lemma cooperative_checksum: "cooperative R \<Longrightarrow> to_lower (checksum R a) = to_lower a"
  by (simp add: cooperative_def rules_documented_def)

lemma addr_eq: "cooperative R \<Longrightarrow> addr R j = addr R k \<longleftrightarrow> j = k"
  by (auto simp: cooperative_def inj_eq)

definition stage :: "evm_rules \<Rightarrow> (string \<rightharpoonup> contract) \<Rightarrow> nat \<Rightarrow> (string \<rightharpoonup> string) \<Rightarrow> nat \<Rightarrow> evm_chain session \<Rightarrow> bool" where
  "stage R A n M w s \<longleftrightarrow> at (node s) = A \<and> nonce_of (node s) (sender_of R) = n \<and> d_contracts (rec s) = M \<and>
     wei (node s) (sender_of R) = w \<and> (\<forall>k \<ge> n. A (addr R k) = None)"

lemma coop_send:
  assumes "cooperative R"
  obtains t1 where "signAndSend (chain_api R) 0 t c = execute_tx R (sender_of R) t (c\<lparr>sent := sent c @ [t1]\<rparr>)
      \<or> (\<exists>e c'. execute_tx R (sender_of R) t (c\<lparr>sent := sent c @ [t1]\<rparr>) = (Inl e, c'))"
proof -
  obtain t1 where p: "prepare_tx (chain_api R) t c = (Inr t1, c)" and s1: "same_call t t1"
    using prepare_chain [of R t c] by (auto simp: same_call_def)
  have start: "await (prepare_tx (chain_api R) t) (\<lambda>tx1. await (sign_tx (chain_api R) DEPLOYER_PRIVATE_KEY tx1)
      (\<lambda>raw. give (tx1, raw))) c = (Inr (t1, t1), c)"
    using p by (simp add: await_def sign_chain give_apply)
  have "sendSigned (chain_api R) DEPLOYER_PRIVATE_KEY t1 c = execute_tx R (sender_of R) t (c\<lparr>sent := sent c @ [t1]\<rparr>)"
    using assms execute_same_call [OF s1] by (simp add: chain_api_def broadcast_def cooperative_def sender_of_def)
  then have "signAndSend (chain_api R) 0 t c = execute_tx R (sender_of R) t (c\<lparr>sent := sent c @ [t1]\<rparr>)
      \<or> (\<exists>e c'. execute_tx R (sender_of R) t (c\<lparr>sent := sent c @ [t1]\<rparr>) = (Inl e, c'))"
    by (cases "execute_tx R (sender_of R) t (c\<lparr>sent := sent c @ [t1]\<rparr>)"; cases "fst (execute_tx R (sender_of R) t (c\<lparr>sent := sent c @ [t1]\<rparr>))")
      (auto simp: signAndSend.simps [of _ 0] start)
  then show thesis by (rule that)
qed

lemma stage_deploy:
  assumes R: "cooperative R" and D: "on_besu R D" and s: "stage R A n M w s" and key: "M key = None"
    and x: "construct R (sender_of R) name args = Inr x"
  shows "\<exists>s'. deployed D key name args s = (Inr (checksum R (addr R n)), s') \<and>
    stage R (A(addr R n \<mapsto> x)) (Suc n) (M(key \<mapsto> checksum R (addr R n))) w s'"
proof -
  have art: "res_bind (readArtifact (chain_api R) name) (\<lambda>art. creation_data (chain_api R) art args) = Inr (Creation name args)"
    using R by (cases args) (simp_all add: chain_api_def chain_artifact_def creation_data_def cooperative_def)
  obtain g where gas: "on_node (recover (estimateGas (chain_api R) (deployerAddress (chain_api R)) (Creation name args)) (\<lambda>_. give 7000000)) s
      = (Inr g, s)"
    by (cases "gas_needed R (node s) (Creation name args)") (auto simp: on_node_def recover_def chain_api_def give_apply)
  let ?t = "new_tx\<lparr>tx_data := Some (Creation name args), tx_gas := Some (min (g + 200000) 7800000)\<rparr>"
  obtain t1 where t1: "signAndSend (chain_api R) 0 ?t (node s) = execute_tx R (sender_of R) ?t ((node s)\<lparr>sent := sent (node s) @ [t1]\<rparr>)
      \<or> (\<exists>e c'. execute_tx R (sender_of R) ?t ((node s)\<lparr>sent := sent (node s) @ [t1]\<rparr>) = (Inl e, c'))"
    using coop_send [OF R] by blast
  let ?c = "(node s)\<lparr>sent := sent (node s) @ [t1]\<rparr>"
  have "create R (sender_of R) name args ?c = Inr (addr R n, put (addr R n) x ?c)"
    using s x by (auto simp: create_def stage_def addr_def Let_def)
  then have ex: "execute_tx R (sender_of R) ?t ?c =
      (Inr \<lparr>contractAddress = Some (checksum R (addr R n))\<rparr>, mined (sender_of R) (put (addr R n) x ?c))"
    by (simp add: execute_tx_def new_tx_def)
  let ?s = "s\<lparr>node := mined (sender_of R) (put (addr R n) x ?c), rec := set_contract key (checksum R (addr R n)) (rec s)\<rparr>"
  have miss: "contract_at (rec s) key = []" using s key by (simp add: contract_at_def stage_def)
  have "deployed D key name args s = await (writeDeployment (chain_api R)) (\<lambda>_. give (checksum R (addr R n))) ?s"
    using R miss t1 ex gas
    by (simp add: deployed_def deployIfMissing_def on_besu_api [OF D] deploy_new_def art await_def of_res_apply on_node_def
      cooperative_def)
  moreover have "stage R (A(addr R n \<mapsto> x)) (Suc n) (M(key \<mapsto> checksum R (addr R n))) w (snd (writeDeployment (chain_api R) ?s))"
    using s addr_eq [OF R] by (auto simp: stage_def set_contract_def mined_def put_def)
  ultimately show ?thesis by (simp add: await_def give_apply)
qed

lemma stage_send:
  assumes R: "cooperative R" and s: "stage R A n M w s"
    and t: "\<And>c. at c = A \<Longrightarrow> \<exists>c1. transact R (sender_of R) v (to_lower a) meth args c = Inr c1 \<and> at c1 = A' \<and>
        wei c1 = wei c \<and> nonce_of c1 = nonce_of c"
    and v: "value = (if v = 0 then None else Some v)" "0 \<le> v" "nat v \<le> w" "to_lower a \<noteq> sender_of R"
    and A': "\<And>k. k \<ge> Suc n \<Longrightarrow> A' (addr R k) = None"
  shows "\<exists>r s'. sendContract (chain_api R) name a meth args value s = (Inr r, s') \<and> stage R A' (Suc n) M (w - nat v) s'"
proof -
  let ?t = "new_tx\<lparr>tx_to := Some a, tx_data := Some (Invocation name meth args), tx_value := value\<rparr>"
  obtain t1 where t1: "signAndSend (chain_api R) 0 ?t (node s) = execute_tx R (sender_of R) ?t ((node s)\<lparr>sent := sent (node s) @ [t1]\<rparr>)
      \<or> (\<exists>e c'. execute_tx R (sender_of R) ?t ((node s)\<lparr>sent := sent (node s) @ [t1]\<rparr>) = (Inl e, c'))"
    using coop_send [OF R] by blast
  let ?c = "(node s)\<lparr>sent := sent (node s) @ [t1]\<rparr>"
  have val: "(case value of None \<Rightarrow> 0 | Some v \<Rightarrow> v) = v" using v(1) by simp
  have at: "at (pay (sender_of R) (to_lower a) (nat v) ?c) = A" using s by (simp add: stage_def)
  obtain c1 where c1: "transact R (sender_of R) v (to_lower a) meth args (pay (sender_of R) (to_lower a) (nat v) ?c) = Inr c1"
      "at c1 = A'" "wei c1 = wei (pay (sender_of R) (to_lower a) (nat v) ?c)"
      "nonce_of c1 = nonce_of (pay (sender_of R) (to_lower a) (nat v) ?c)"
    using t [OF at] by blast
  have ex: "execute_tx R (sender_of R) ?t ?c = (Inr \<lparr>contractAddress = None\<rparr>, mined (sender_of R) c1)"
    using c1(1) s v(2-4) by (simp add: execute_tx_def new_tx_def val stage_def)
  have "sendContract (chain_api R) name a meth args value s =
      (Inr \<lparr>contractAddress = None\<rparr>, s\<lparr>node := mined (sender_of R) c1\<rparr>)"
    using R t1 ex by (simp add: sendContract_chain cooperative_def on_node_def)
  moreover have "stage R A' (Suc n) M (w - nat v) (s\<lparr>node := mined (sender_of R) c1\<rparr>)"
    using s c1 v(4) A' by (auto simp: stage_def mined_def pay_def)
  ultimately show ?thesis by blast
qed

lemma ensure_acts:
  "look s = (Inr v, s) \<Longrightarrow> missing v = Inr True \<Longrightarrow> act s = (Inr r, s') \<Longrightarrow> ensure look missing act s = (Inr (), s')"
  by (simp add: ensure_def await_def of_res_apply give_apply)

lemma stage_read:
  assumes "cooperative R" and "stage R A n M w s" and "\<And>c. at c = A \<Longrightarrow> view_method R (to_lower a) meth args c = Inr v"
  shows "readContract (chain_api R) name a meth args s = (Inr v, s)"
  using assms by (simp add: readContract_chain seen_def cooperative_def stage_def)

lemma stage_ensure:
  assumes R: "cooperative R" and D: "on_besu R D" and s: "stage R A n M w s"
    and look: "lk s = (Inr x, s)" and missing: "missing x = Inr True"
    and t: "\<And>c. at c = A \<Longrightarrow> \<exists>c1. transact R (sender_of R) v (to_lower a) meth args c = Inr c1 \<and> at c1 = A' \<and>
        wei c1 = wei c \<and> nonce_of c1 = nonce_of c"
    and v: "value = (if v = 0 then None else Some v)" "0 \<le> v" "nat v \<le> w" "to_lower a \<noteq> sender_of R"
    and A': "\<And>k. k \<ge> Suc n \<Longrightarrow> A' (addr R k) = None"
  shows "\<exists>s'. ensure lk missing (sendContract (api D) name a meth args value) s = (Inr (), s') \<and>
    stage R A' (Suc n) M (w - nat v) s'"
proof -
  obtain r s' where s': "sendContract (chain_api R) name a meth args value s = (Inr r, s')" "stage R A' (Suc n) M (w - nat v) s'"
    using stage_send [OF R s t v A'] by blast
  then have "ensure lk missing (sendContract (chain_api R) name a meth args value) s = (Inr (), s')"
    using missing look by (intro ensure_acts)
  then show ?thesis unfolding on_besu_api [OF D] using s'(2) by blast
qed

lemma stage_free: "stage R A n M w s \<Longrightarrow> A x = Some y \<Longrightarrow> Suc n \<le> k \<Longrightarrow> (A(x \<mapsto> z)) (addr R k) = None"
  by (auto simp: stage_def)

text \<open>Calls that rewrite the contract at their address.\<close>

lemma transact_at:
  assumes "transact R sender v a meth args c = storing a C c (Inr x)"
  shows "\<exists>c1. transact R sender v a meth args c = Inr c1 \<and> at c1 = (at c)(a \<mapsto> C x) \<and> wei c1 = wei c \<and> nonce_of c1 = nonce_of c"
  using assms by (auto simp: storing_def put_def)

definition relayer_entry :: relayer_info where
  "relayer_entry = \<lparr>ri_registered = True, ri_stakedAmount = U (RELAYER_MIN_STAKE CONSTS),
     ri_successfulDeliveries = 0, ri_failedDeliveries = 0, ri_rewardAccumulated = 0, ri_active = True\<rparr>"

lemma stage_relayer:
  assumes R: "cooperative R" and D: "on_besu R D" and s: "stage R A n M w s"
    and m: "A (to_lower rm) = Some (RelayerManagerC m)" "\<not> ri_registered (rm_relayers m (sender_of R))"
      "rm_minimumStake m = U (RELAYER_MIN_STAKE CONSTS)"
    and w: "one_ether \<le> w" "to_lower rm \<noteq> sender_of R"
  shows "\<exists>s'. ensure_relayer D rm s = (Inr (), s') \<and>
    stage R (A(to_lower rm \<mapsto> RelayerManagerC (m\<lparr>rm_relayers := (rm_relayers m)(sender_of R := relayer_entry),
      rm_relayerList := rm_relayerList m @ [sender_of R]\<rparr>))) (Suc n) M (w - one_ether) s'"
proof -
  have eth: "nat (RELAYER_MIN_STAKE CONSTS) = one_ether" by (simp add: CONSTS_def one_ether_def)
  show ?thesis
    unfolding ensure_relayer_def eth [symmetric]
  proof (rule stage_ensure [OF R D s, where x = "ret_bool False"])
    show "readContract (api D) ''RelayerManager'' rm ''isRelayerActive'' [str_arg (relayerAddr D)] s = (Inr (ret_bool False), s)"
      unfolding on_besu_api [OF D]
    proof (rule stage_read [OF R s])
      fix c :: evm_chain assume "at c = A"
      then show "view_method R (to_lower rm) ''isRelayerActive'' [str_arg (relayerAddr D)] c = Inr (ret_bool False)"
        unfolding views using m(1,2) by (auto simp: isRelayerActive_def relayer_is_sender [OF D])
    qed
  next
    fix c :: evm_chain assume c: "at c = A"
    have reg: "call_manager (sender_of R) (RELAYER_MIN_STAKE CONSTS) ''registerRelayer'' [] m =
        Inr (m\<lparr>rm_relayers := (rm_relayers m)(sender_of R := relayer_entry), rm_relayerList := rm_relayerList m @ [sender_of R]\<rparr>)"
      using m(2,3) by (simp add: call_manager_def registerRelayer_def require_def relayer_entry_def)
    have "transact R (sender_of R) (RELAYER_MIN_STAKE CONSTS) (to_lower rm) ''registerRelayer'' [] c =
        storing (to_lower rm) RelayerManagerC c (Inr (m\<lparr>rm_relayers := (rm_relayers m)(sender_of R := relayer_entry),
          rm_relayerList := rm_relayerList m @ [sender_of R]\<rparr>))"
      using m(1) c by (simp add: transact_def reg)
    from transact_at [OF this] c show "\<exists>c1. transact R (sender_of R) (RELAYER_MIN_STAKE CONSTS) (to_lower rm) ''registerRelayer'' [] c = Inr c1 \<and>
        at c1 = A(to_lower rm \<mapsto> RelayerManagerC (m\<lparr>rm_relayers := (rm_relayers m)(sender_of R := relayer_entry),
          rm_relayerList := rm_relayerList m @ [sender_of R]\<rparr>)) \<and> wei c1 = wei c \<and> nonce_of c1 = nonce_of c" by simp
  next
    show "(A(to_lower rm \<mapsto> RelayerManagerC (m\<lparr>rm_relayers := (rm_relayers m)(sender_of R := relayer_entry),
      rm_relayerList := rm_relayerList m @ [sender_of R]\<rparr>))) (addr R k) = None" if "Suc n \<le> k" for k
      by (rule stage_free [OF s m(1) that])
  qed (use w eth in \<open>auto simp: CONSTS_def\<close>)
qed

text \<open>The same for a bridge method with its new bridge.\<close>

lemma stage_bridge:
  assumes R: "cooperative R" and D: "on_besu R D" and s: "stage R A n M w s"
    and b: "A (to_lower a) = Some (BridgeC b)" and meth: "meth \<noteq> ''confirmVerification''"
    and new: "call_bridge (sender_of R) meth (prims args) b = Inr b'"
    and look: "lk s = (Inr x, s)" and missing: "missing x = Inr True"
    and far: "to_lower a \<noteq> sender_of R"
  shows "\<exists>s'. ensure lk missing (sendContract (api D) name a meth args None) s = (Inr (), s') \<and>
    stage R (A(to_lower a \<mapsto> BridgeC b')) (Suc n) M w s'"
proof -
  have "\<exists>s'. ensure lk missing (sendContract (api D) name a meth args None) s = (Inr (), s') \<and>
    stage R (A(to_lower a \<mapsto> BridgeC b')) (Suc n) M (w - nat 0) s'"
  proof (rule stage_ensure [where missing = missing and x = x and lk = lk, OF R D s look missing])
    fix c :: evm_chain assume c: "at c = A"
    have "transact R (sender_of R) 0 (to_lower a) meth args c = storing (to_lower a) BridgeC c (Inr b')"
      using b c meth new by (simp add: transact_def)
    from transact_at [OF this] c show "\<exists>c1. transact R (sender_of R) 0 (to_lower a) meth args c = Inr c1 \<and>
        at c1 = A(to_lower a \<mapsto> BridgeC b') \<and> wei c1 = wei c \<and> nonce_of c1 = nonce_of c" by simp
  next
    show "(A(to_lower a \<mapsto> BridgeC b')) (addr R k) = None" if "Suc n \<le> k" for k by (rule stage_free [OF s b that])
  qed (use far in auto)
  then show ?thesis by simp
qed

text \<open>The bridge's checks, each failing on the bridge as it was deployed.\<close>

lemma stage_registry:
  assumes R: "cooperative R" and D: "on_besu R D" and s: "stage R A n M w s" and b: "A (to_lower a) = Some (BridgeC b)"
    and cl: "br_class b = ''XBridgingContract''" "br_owner b = sender_of R" and far: "to_lower a \<noteq> sender_of R"
    and new: "to_lower (br_ubtlRegistry b) \<noteq> to_lower r"
  shows "\<exists>s'. ensure_registry D a r s = (Inr (), s') \<and>
    stage R (A(to_lower a \<mapsto> BridgeC (b\<lparr>br_ubtlRegistry := to_lower r\<rparr>))) (Suc n) M w s'"
  unfolding ensure_registry_def
proof (rule stage_bridge [OF R D s b _ _ _ _ far])
  show "readContract (api D) ''XBridgingContract'' a ''ubtlRegistry'' [] s = (Inr (text_value (checksum R (br_ubtlRegistry b))), s)"
    unfolding on_besu_api [OF D] by (rule stage_read [OF R s]) (use b cl in \<open>simp add: views\<close>)
qed (use cl new in \<open>simp_all add: call_bridge_def setUBTLRegistry_def differs_text [OF D]\<close>)

lemma stage_adapter:
  assumes R: "cooperative R" and D: "on_besu R D" and s: "stage R A n M w s" and b: "A (to_lower a) = Some (BridgeC b)"
    and cl: "br_class b = ''XBridgingContract''" "br_owner b = sender_of R" and far: "to_lower a \<noteq> sender_of R"
    and new: "to_lower (br_proofAdapter b) \<noteq> to_lower (snd p)"
  shows "\<exists>s'. setSelectedProofAdapter D a p s = (Inr (), s') \<and>
    stage R (A(to_lower a \<mapsto> BridgeC (b\<lparr>br_proofAdapter := to_lower (snd p)\<rparr>))) (Suc n) M w s'"
  unfolding setSelectedProofAdapter_def
proof (rule stage_bridge [OF R D s b _ _ _ _ far])
  have "readContract (api D) ''XBridgingContract'' a ''proofAdapter'' [] s = (Inr (text_value (checksum R (br_proofAdapter b))), s)"
    unfolding on_besu_api [OF D] by (rule stage_read [OF R s]) (use b cl in \<open>simp add: views\<close>)
  then show "recover (readContract (api D) ''XBridgingContract'' a ''proofAdapter'' []) h s = (Inr (text_value (checksum R (br_proofAdapter b))), s)" for h
    by (simp add: recover_def)
qed (use cl new in \<open>simp_all add: call_bridge_def setProofAdapter_def differs_text [OF D]\<close>)

lemma stage_state:
  assumes R: "cooperative R" and D: "on_besu R D" and s: "stage R A n M w s" and b: "A (to_lower a) = Some (BridgeC b)"
    and far: "to_lower a \<noteq> sender_of R"
    and new: "\<not> br_registeredStateContracts b (to_lower x)" "to_lower x \<noteq> ZERO_ADDRESS"
  shows "\<exists>s'. ensure_state D class a x s = (Inr (), s') \<and>
    stage R (A(to_lower a \<mapsto> BridgeC (b\<lparr>br_registeredStateContracts := (br_registeredStateContracts b)(to_lower x := True)\<rparr>))) (Suc n) M w s'"
  unfolding ensure_state_def
proof (rule stage_bridge [OF R D s b _ _ _ _ far])
  show "readContract (api D) class a ''registeredStateContracts'' [str_arg x] s = (Inr (ret_bool (br_registeredStateContracts b (to_lower x))), s)"
    unfolding on_besu_api [OF D] by (rule stage_read [OF R s]) (use b in \<open>simp add: views\<close>)
qed (use new in \<open>simp_all add: call_bridge_def regState_def require_def\<close>)

lemma stage_service:
  assumes R: "cooperative R" and D: "on_besu R D" and s: "stage R A n M w s" and b: "A (to_lower a) = Some (BridgeC b)"
    and far: "to_lower a \<noteq> sender_of R"
    and new: "br_serviceToLogic b ''travel'' = ZERO_ADDRESS" "to_lower x \<noteq> ZERO_ADDRESS"
  shows "\<exists>s'. ensure_service D a x s = (Inr (), s') \<and>
    stage R (A(to_lower a \<mapsto> BridgeC (b\<lparr>br_serviceToLogic := (br_serviceToLogic b)(''travel'' := to_lower x),
      br_serviceRelayer := (br_serviceRelayer b)(''travel'' := sender_of R)\<rparr>))) (Suc n) M w s'"
  unfolding ensure_service_def
proof (rule stage_bridge [OF R D s b _ _ _ _ far])
  show "readContract (api D) ''XBridgingContract'' a ''getLogicContractAddress'' [str_arg ''travel''] s =
      (Inr (text_value (checksum R (br_serviceToLogic b ''travel''))), s)"
    unfolding on_besu_api [OF D] by (rule stage_read [OF R s]) (use b in \<open>simp add: views\<close>)
qed (use new in \<open>simp_all add: call_bridge_def regServer_def require_def text_value_def cooperative_checksum [OF R]\<close>)

lemma reward_entry: "rm_relayers m r = relayer_entry \<Longrightarrow>
    \<exists>m'. rewardRelayer r m = Inr m' \<and> isRelayerActive m' r"
  using unsigned_less [of "rm_reward m", where 'a = int]
  by (simp add: rewardRelayer_def relayer_entry_def Let_def checked_add_def require_def isRelayerActive_def)

lemma stage_verified:
  assumes R: "cooperative R" and D: "on_besu R D" and s: "stage R A n M w s" and b: "A (to_lower a) = Some (BridgeC b)"
    and far: "to_lower a \<noteq> sender_of R" and m: "A (br_relayerManager b) = Some (RelayerManagerC m)"
      "rm_relayers m (br_serviceRelayer b ''travel'') = relayer_entry"
    and new: "br_serviceToLogic b ''travel'' \<noteq> ZERO_ADDRESS" "\<not> br_serviceVerified b ''travel''"
  shows "\<exists>s' m'. ensure_verified D a s = (Inr (), s') \<and> isRelayerActive m' (br_serviceRelayer b ''travel'') \<and>
    stage R (A(br_relayerManager b \<mapsto> RelayerManagerC m', to_lower a \<mapsto>
      BridgeC (b\<lparr>br_serviceVerified := (br_serviceVerified b)(''travel'' := True)\<rparr>))) (Suc n) M w s'"
proof -
  obtain m' where m': "rewardRelayer (br_serviceRelayer b ''travel'') m = Inr m'" "isRelayerActive m' (br_serviceRelayer b ''travel'')"
    using reward_entry [OF m(2)] by blast
  let ?A = "A(br_relayerManager b \<mapsto> RelayerManagerC m', to_lower a \<mapsto>
      BridgeC (b\<lparr>br_serviceVerified := (br_serviceVerified b)(''travel'' := True)\<rparr>))"
  have "\<exists>s'. ensure_verified D a s = (Inr (), s') \<and> stage R ?A (Suc n) M (w - nat 0) s'"
    unfolding ensure_verified_def
  proof (rule stage_ensure [OF R D s, where x = "ret_bool False"])
    show "readContract (api D) ''XBridgingContract'' a ''isVerified'' [str_arg ''travel''] s = (Inr (ret_bool False), s)"
      unfolding on_besu_api [OF D] by (rule stage_read [OF R s]) (use b new in \<open>simp add: views\<close>)
    show "\<exists>c1. transact R (sender_of R) 0 (to_lower a) ''confirmVerification''
          [str_arg ''travel'', JPrim (PBool True), num_arg 0, JArray [], str_arg ZERO_HASH] c = Inr c1 \<and>
        at c1 = ?A \<and> wei c1 = wei c \<and> nonce_of c1 = nonce_of c" if c: "at c = A" for c
      using c b m(1) m'(1) new by (simp add: transact_def call_confirm_def confirmVerified_def require_def put_def)
    have g: "A (addr R k) = None" if "Suc n \<le> k" for k using s that by (simp add: stage_def)
    show "?A (addr R k) = None" if "Suc n \<le> k" for k
      using g [OF that] b m(1) by auto
  qed (use far in auto)
  then show ?thesis using m'(2) by auto
qed

lemma stage_registration:
  assumes R: "cooperative R" and D: "on_besu R D" and s: "stage R A n M w s"
    and reg: "M ''ubtlRegistry'' = Some reg" "reg \<noteq> []" "A (to_lower reg) = Some (UBTLRegistryC g)" "to_lower reg \<noteq> sender_of R"
    and tr: "M ''hotelBookingTranslated'' = Some tr" "tr \<noteq> []" "A (to_lower tr) = Some (HotelC h)" "to_lower tr \<noteq> ZERO_ADDRESS"
    and empty: "ur_translations g = Map.empty" "ur_byTranslated g = Map.empty"
    and host: "resolveHotelSourceContractHash (ubtl D) (environ D) = Inr src" "resolveHotelStorageMapRoot (ubtl D) (environ D) = Inr root"
  shows "\<exists>s' g' key t. registerHotelTranslation D s = (Inr (), s') \<and>
    ur_translations g' key = Some t \<and> tr_translated t = to_lower tr \<and> tr_storageMapRoot t = root \<and> tr_irHash t = ir_hash_of R \<and>
    stage R (A(to_lower reg \<mapsto> UBTLRegistryC g')) (Suc n) M w s'"
proof -
  obtain p where p: "chain_arg (sourceChainIdForVM (ubtl D) (environ D) Fabric_vm) = JPrim p"
    by (cases "sourceChainIdForVM (ubtl D) (environ D) Fabric_vm") (auto simp: chain_arg_def num_arg_def str_arg_def)
  let ?key = "key_hash R (word_of p) src"
  let ?args = "[JPrim p, str_arg src, str_arg (ir_hash_of R), str_arg tr, str_arg root]"
  define t where "t c = \<lparr>tr_sourceChainId = word_of p, tr_sourceContractHash = src, tr_irHash = ir_hash_of R,
    tr_translated = to_lower tr, tr_storageMapRoot = root, tr_dAppProvider = sender_of R, tr_registeredAt = height c\<rparr>" for c :: evm_chain
  define g' where "g' c = g\<lparr>ur_translations := [?key \<mapsto> t c], ur_byTranslated := [to_lower tr \<mapsto> ?key]\<rparr>" for c :: evm_chain
  have keys: "requireContractAddress (rec s) ''ubtlRegistry'' = Inr reg" "requireContractAddress (rec s) ''hotelBookingTranslated'' = Inr tr"
    using s reg tr by (auto simp: requireContractAddress_Inr contract_at_def stage_def)
  have ir: "readContract (api D) ''HotelBookingTranslated'' tr ''ir_hash'' [] s = (Inr (text_value (ir_hash_of R)), s)"
    unfolding on_besu_api [OF D] by (rule stage_read [OF R s]) (use tr in \<open>simp add: view_ir_hash\<close>)
  have kf: "readContract (api D) ''UBTLRegistry'' reg ''keyFor'' [JPrim p, str_arg src] s = (Inr (text_value ?key), s)"
    unfolding on_besu_api [OF D] by (rule stage_read [OF R s]) (use reg in \<open>simp add: view_keyFor\<close>)
  have look: "readContract (api D) ''UBTLRegistry'' reg ''translations'' [str_arg ?key] s = (Inr (translation_value R None), s)"
    unfolding on_besu_api [OF D] by (rule stage_read [OF R s]) (use reg empty in \<open>simp add: view_translations\<close>)
  have away: "addr R k \<noteq> to_lower reg" if "n \<le> k" for k using s reg(3) that by (auto simp: stage_def)
  have tra: "transact R (sender_of R) 0 (to_lower reg) ''register'' ?args c = Inr (put (to_lower reg) (UBTLRegistryC (g' c)) c)"
    if "at c = A" for c
    using that reg tr empty
    by (simp add: transact_def storing_def call_registry_def register_translation_def str_arg_def g'_def t_def)
  \<comment> \<open>the block that mines the registration is known only up to its height\<close>
  have "\<exists>r s' c. sendContract (chain_api R) ''UBTLRegistry'' reg ''register'' ?args None s = (Inr r, s') \<and>
      stage R (A(to_lower reg \<mapsto> UBTLRegistryC (g' c))) (Suc n) M w s'"
  proof -
    obtain t1 where t1: "signAndSend (chain_api R) 0 (new_tx\<lparr>tx_to := Some reg, tx_data := Some (Invocation ''UBTLRegistry'' ''register'' ?args), tx_value := None\<rparr>) (node s) =
        execute_tx R (sender_of R) (new_tx\<lparr>tx_to := Some reg, tx_data := Some (Invocation ''UBTLRegistry'' ''register'' ?args), tx_value := None\<rparr>) ((node s)\<lparr>sent := sent (node s) @ [t1]\<rparr>)
      \<or> (\<exists>e c'. execute_tx R (sender_of R) (new_tx\<lparr>tx_to := Some reg, tx_data := Some (Invocation ''UBTLRegistry'' ''register'' ?args), tx_value := None\<rparr>) ((node s)\<lparr>sent := sent (node s) @ [t1]\<rparr>) = (Inl e, c'))"
      using coop_send [OF R] by blast
    let ?c = "pay (sender_of R) (to_lower reg) 0 ((node s)\<lparr>sent := sent (node s) @ [t1]\<rparr>)"
    have at: "at ?c = A" using s by (simp add: stage_def)
    have "execute_tx R (sender_of R) (new_tx\<lparr>tx_to := Some reg, tx_data := Some (Invocation ''UBTLRegistry'' ''register'' ?args), tx_value := None\<rparr>) ((node s)\<lparr>sent := sent (node s) @ [t1]\<rparr>)
        = (Inr \<lparr>contractAddress = None\<rparr>, mined (sender_of R) (put (to_lower reg) (UBTLRegistryC (g' ?c)) ?c))"
      by (simp add: execute_tx_def new_tx_def tra [OF at])
    then have "sendContract (chain_api R) ''UBTLRegistry'' reg ''register'' ?args None s =
        (Inr \<lparr>contractAddress = None\<rparr>, s\<lparr>node := mined (sender_of R) (put (to_lower reg) (UBTLRegistryC (g' ?c)) ?c)\<rparr>)"
      using R t1 by (simp add: sendContract_chain cooperative_def on_node_def)
    moreover have "stage R (A(to_lower reg \<mapsto> UBTLRegistryC (g' ?c))) (Suc n) M w
        (s\<lparr>node := mined (sender_of R) (put (to_lower reg) (UBTLRegistryC (g' ?c)) ?c)\<rparr>)"
      using s reg(4) away by (auto simp: stage_def mined_def pay_def put_def)
    ultimately show ?thesis by blast
  qed
  then obtain r s' c where s': "sendContract (api D) ''UBTLRegistry'' reg ''register'' ?args None s = (Inr r, s')"
      "stage R (A(to_lower reg \<mapsto> UBTLRegistryC (g' c))) (Suc n) M w s'" unfolding on_besu_api [OF D] by blast
  have look': "readContract (api D) ''UBTLRegistry'' reg ''translations'' [str_arg ?key] s' = (Inr (translation_value R (Some (t c))), s')"
    unfolding on_besu_api [OF D] by (rule stage_read [OF R s'(2)]) (simp add: view_translations g'_def)
  have "registerHotelTranslation D s = (Inr (), s')"
    using keys ir kf look look' s'(1) host
    by (simp add: registerHotelTranslation_def with_rec_def await_def of_res_apply p Let_def bind_translation_def text_value_def
      translatedField_value cooperative_checksum [OF R] give_apply t_def)
  moreover have "ur_translations (g' c) ?key = Some (t c)" by (simp add: g'_def)
  moreover have "tr_translated (t c) = to_lower tr" "tr_storageMapRoot (t c) = root" "tr_irHash (t c) = ir_hash_of R"
    by (simp_all add: t_def)
  ultimately show ?thesis using s'(2) by blast
qed

text \<open>
  The wiring that the scripts for the execution chain aim at: the bridge knows the registry, the proof
  adapter, the two state contracts and the verified service \<open>travel\<close>, and the deployer is an active
  relayer of its manager.
\<close>

definition wired :: "evm_rules \<Rightarrow> evm_chain session \<Rightarrow> bool" where
  "wired R s \<longleftrightarrow>
     (let at_key = (\<lambda>k. to_lower (contract_at (rec s) k)); A = at (node s) in
      \<exists>b m. A (at_key ''xBridgingContract'') = Some (BridgeC b) \<and>
        br_ubtlRegistry b = at_key ''ubtlRegistry'' \<and> br_proofAdapter b = at_key ''componentVerifiedAdapter'' \<and>
        br_lightClient b = at_key ''lightClient'' \<and> br_relayerManager b = at_key ''relayerManager'' \<and>
        br_registeredStateContracts b (at_key ''sHotel'') \<and> br_registeredStateContracts b (at_key ''sTrain'') \<and>
        br_serviceToLogic b ''travel'' = at_key ''hotelBookingTranslated'' \<and> br_serviceVerified b ''travel'' \<and>
        A (at_key ''relayerManager'') = Some (RelayerManagerC m) \<and> isRelayerActive m (sender_of R) \<and>
        (\<exists>g key t. A (at_key ''ubtlRegistry'') = Some (UBTLRegistryC g) \<and> ur_translations g key = Some t \<and>
           tr_translated t = at_key ''hotelBookingTranslated''))"

lemma deploy_adapter_component:
  "proofAdapterMode (environ D) = Inr Component_verified \<Longrightarrow>
   deploySelectedProofAdapter D lc = await (deployed D ''componentVerifiedAdapter'' ''ComponentVerifiedAdapter'' [str_arg lc])
     (\<lambda>address. give (Component_verified, address))"
  by (rule ext) (simp add: deploySelectedProofAdapter_def await_def of_res_apply)

lemma fund_relayer: "on_besu R D \<Longrightarrow> fundActors (api D) [relayerAddr D] s = (Inr (), s)"
  by (simp add: fundActors_def await_def on_besu_api fundActor_chain relayer_is_sender give_apply)

lemma construct_other:
  assumes "cooperative R"
    and "name \<notin> {''RelayerManager'', ''XBridgingContract'', ''BridgingContract'', ''UBTLRegistry'', ''HotelBookingTranslated'',
      ''GPACTEventSignerRegistry'', ''GPACTCrosschainControl''}"
  shows "construct R u name args = Inr (OtherC name args)"
  using assms by (simp add: construct_def cooperative_def)

text \<open>A run from a state that returns, with what it establishes.\<close>

definition delivers :: "('s, 'a) script \<Rightarrow> ('a \<Rightarrow> 's \<Rightarrow> bool) \<Rightarrow> 's \<Rightarrow> bool" where
  "delivers m P s \<longleftrightarrow> (\<exists>a s'. m s = (Inr a, s') \<and> P a s')"

lemma delivers_give [simp]: "delivers (give a) P s \<longleftrightarrow> P a s"
  by (simp add: delivers_def give_apply)

lemma delivers_await: "delivers m Q s \<Longrightarrow> (\<And>a s'. Q a s' \<Longrightarrow> delivers (f a) P s') \<Longrightarrow> delivers (await m f) P s"
  by (fastforce simp: delivers_def await_def)

lemma delivers_mono: "delivers m Q s \<Longrightarrow> (\<And>a s'. Q a s' \<Longrightarrow> P a s') \<Longrightarrow> delivers m P s"
  unfolding delivers_def by blast

lemma delivers_step:
  "\<exists>s'. m s = (Inr a, s') \<and> Q s' \<Longrightarrow> (\<And>s'. Q s' \<Longrightarrow> delivers (f a) P s') \<Longrightarrow> delivers (await m f) P s"
  unfolding delivers_def by (auto simp: await_def)

lemma deploy_step:
  assumes "cooperative R" and "on_besu R D" and "stage R A n M w s" and "M key = None"
    and "construct R (sender_of R) name args = Inr x" and "n' = Suc n" and "a = checksum R (addr R n)"
    and "\<And>s'. stage R (A(addr R n \<mapsto> x)) n' (M(key \<mapsto> a)) w s' \<Longrightarrow> delivers (f a) P s'"
  shows "delivers (await (deployed D key name args) f) P s"
  using stage_deploy [OF assms(1-5)] assms(6-8) by (auto intro: delivers_step)

subsection \<open>Wiring a new bridge\<close>

definition fresh_bridge :: "bridge \<Rightarrow> bool" where
  "fresh_bridge b \<longleftrightarrow> br_class b = ''XBridgingContract'' \<and> br_ubtlRegistry b = ZERO_ADDRESS \<and>
     br_proofAdapter b = ZERO_ADDRESS \<and> br_serviceToLogic b = (\<lambda>_. ZERO_ADDRESS) \<and>
     br_serviceVerified b = (\<lambda>_. False) \<and> br_registeredStateContracts b = (\<lambda>_. False)"

definition wired_bridge :: "bridge \<Rightarrow> bridge \<Rightarrow> string \<Rightarrow> string \<Rightarrow> string \<Rightarrow> string \<Rightarrow> string \<Rightarrow> bool" where
  "wired_bridge b0 b registry adapter sHotel sTrain translated \<longleftrightarrow>
     br_lightClient b = br_lightClient b0 \<and> br_relayerManager b = br_relayerManager b0 \<and>
     br_ubtlRegistry b = to_lower registry \<and> br_proofAdapter b = to_lower adapter \<and>
     br_registeredStateContracts b (to_lower sHotel) \<and> br_registeredStateContracts b (to_lower sTrain) \<and>
     br_serviceToLogic b ''travel'' = to_lower translated \<and> br_serviceVerified b ''travel''"

lemma wire_up:
  assumes R: "cooperative R" and D: "on_besu R D" and s: "stage R A n M w s" and w: "one_ether \<le> w"
    and b: "A (to_lower bridge) = Some (BridgeC b)" "fresh_bridge b" "br_owner b = sender_of R" "br_relayerManager b = to_lower rm"
    and m: "A (to_lower rm) = Some (RelayerManagerC m)" "rm_relayers m = (\<lambda>_. no_relayer)" "rm_minimumStake m = U (RELAYER_MIN_STAKE CONSTS)"
    and far: "to_lower bridge \<noteq> sender_of R" "to_lower rm \<noteq> sender_of R"
    and nz: "\<forall>x \<in> {registry, adapter, sHotel, sTrain, translated}. to_lower x \<noteq> ZERO_ADDRESS"
    and st: "to_lower sHotel \<noteq> to_lower sTrain"
  shows "delivers (await (ensure_relayer D rm) (\<lambda>_. await (ensure_registry D bridge registry) (\<lambda>_.
      await (setSelectedProofAdapter D bridge (mode, adapter)) (\<lambda>_.
      await (for_each [sHotel, sTrain] (ensure_state D ''XBridgingContract'' bridge)) (\<lambda>_.
      await (ensure_service D bridge translated) (\<lambda>_. await (ensure_verified D bridge) (\<lambda>_. give v))))))) 
    (\<lambda>a s'. a = v \<and> (\<exists>A' n' b' m'. stage R A' n' M (w - one_ether) s' \<and>
       (\<forall>x. x \<noteq> to_lower bridge \<longrightarrow> x \<noteq> to_lower rm \<longrightarrow> A' x = A x) \<and>
       A' (to_lower bridge) = Some (BridgeC b') \<and> wired_bridge b b' registry adapter sHotel sTrain translated \<and>
       A' (to_lower rm) = Some (RelayerManagerC m') \<and> isRelayerActive m' (sender_of R))) s"
proof -
  have diff: "to_lower bridge \<noteq> to_lower rm" using b(1) m(1) by auto
  note fb = b(2) [unfolded fresh_bridge_def] and ne = nz [simplified]
  define m1 where "m1 = m\<lparr>rm_relayers := (rm_relayers m)(sender_of R := relayer_entry), rm_relayerList := rm_relayerList m @ [sender_of R]\<rparr>"
  define b1 where "b1 = b\<lparr>br_ubtlRegistry := to_lower registry\<rparr>"
  define b2 where "b2 = b1\<lparr>br_proofAdapter := to_lower adapter\<rparr>"
  define b3 where "b3 = b2\<lparr>br_registeredStateContracts := (br_registeredStateContracts b2)(to_lower sHotel := True)\<rparr>"
  define b4 where "b4 = b3\<lparr>br_registeredStateContracts := (br_registeredStateContracts b3)(to_lower sTrain := True)\<rparr>"
  define b5 where "b5 = b4\<lparr>br_serviceToLogic := (br_serviceToLogic b4)(''travel'' := to_lower translated),
      br_serviceRelayer := (br_serviceRelayer b4)(''travel'' := sender_of R)\<rparr>"
  note defs = b1_def b2_def b3_def b4_def b5_def
  define B where "B x = (A(to_lower rm \<mapsto> RelayerManagerC m1))(to_lower bridge \<mapsto> BridgeC x)" for x
  have B: "(B x)(to_lower bridge \<mapsto> BridgeC y) = B y" "B x (to_lower bridge) = Some (BridgeC x)" for x y
    by (simp_all add: B_def)
  have "\<not> ri_registered (rm_relayers m (sender_of R))" by (simp add: m(2) no_relayer_def)
  from stage_relayer [OF R D s m(1) this m(3) w far(2)] obtain s1 where s1: "ensure_relayer D rm s = (Inr (), s1)"
    and S1: "stage R (A(to_lower rm \<mapsto> RelayerManagerC m1)) (Suc n) M (w - one_ether) s1" unfolding m1_def by blast
  have "(A(to_lower rm \<mapsto> RelayerManagerC m1)) (to_lower bridge) = Some (BridgeC b)" using b(1) diff by simp
  moreover have p1: "br_class b = ''XBridgingContract''" "to_lower (br_ubtlRegistry b) \<noteq> to_lower registry" using fb ne by auto
  ultimately have "\<exists>s'. ensure_registry D bridge registry s1 = (Inr (), s') \<and> stage R (B b1) (Suc (Suc n)) M (w - one_ether) s'"
    using stage_registry [OF R D S1 _ p1(1) b(3) far(1) p1(2)] unfolding B_def b1_def by blast
  then obtain s2 where s2: "ensure_registry D bridge registry s1 = (Inr (), s2)"
    and S2: "stage R (B b1) (Suc (Suc n)) M (w - one_ether) s2" by blast
  have p: "br_class b1 = ''XBridgingContract''" "br_owner b1 = sender_of R" "to_lower (br_proofAdapter b1) \<noteq> to_lower (snd (mode, adapter))"
      "\<not> br_registeredStateContracts b2 (to_lower sHotel)" "\<not> br_registeredStateContracts b3 (to_lower sTrain)"
      "br_serviceToLogic b4 ''travel'' = ZERO_ADDRESS"
    using fb b(3) ne st by (auto simp: defs)
  from stage_adapter [OF R D S2 B(2) p(1,2) far(1) p(3)] obtain s3 where
      s3: "setSelectedProofAdapter D bridge (mode, adapter) s2 = (Inr (), s3)"
    and S3: "stage R (B b2) (Suc (Suc (Suc n))) M (w - one_ether) s3" unfolding B b2_def snd_conv by blast
  from stage_state [OF R D S3 B(2) far(1) p(4)] obtain s4 where
      s4: "ensure_state D ''XBridgingContract'' bridge sHotel s3 = (Inr (), s4)"
    and S4: "stage R (B b3) (Suc (Suc (Suc (Suc n)))) M (w - one_ether) s4" unfolding B b3_def using ne by blast
  from stage_state [OF R D S4 B(2) far(1) p(5)] obtain s5 where
      s5: "ensure_state D ''XBridgingContract'' bridge sTrain s4 = (Inr (), s5)"
    and S5: "stage R (B b4) (Suc (Suc (Suc (Suc (Suc n))))) M (w - one_ether) s5" unfolding B b4_def using ne by blast
  from stage_service [OF R D S5 B(2) far(1) p(6)] obtain s6 where s6: "ensure_service D bridge translated s5 = (Inr (), s6)"
    and S6: "stage R (B b5) (Suc (Suc (Suc (Suc (Suc (Suc n)))))) M (w - one_ether) s6" unfolding B b5_def using ne by blast
  have "B b5 (br_relayerManager b5) = Some (RelayerManagerC m1)" "rm_relayers m1 (br_serviceRelayer b5 ''travel'') = relayer_entry"
    "br_serviceToLogic b5 ''travel'' \<noteq> ZERO_ADDRESS" "\<not> br_serviceVerified b5 ''travel''" "br_serviceRelayer b5 ''travel'' = sender_of R"
    "br_relayerManager b5 = to_lower rm"
    using b(4) diff ne fb by (auto simp: B_def defs m1_def)
  with stage_verified [OF R D S6 B(2) far(1), of m1] obtain s7 m7 where s7: "ensure_verified D bridge s6 = (Inr (), s7)"
      "isRelayerActive m7 (sender_of R)" "stage R ((B b5)(to_lower rm \<mapsto> RelayerManagerC m7, to_lower bridge \<mapsto>
      BridgeC (b5\<lparr>br_serviceVerified := (br_serviceVerified b5)(''travel'' := True)\<rparr>))) (Suc (Suc (Suc (Suc (Suc (Suc (Suc n))))))) M (w - one_ether) s7"
    by auto
  moreover have "wired_bridge b (b5\<lparr>br_serviceVerified := (br_serviceVerified b5)(''travel'' := True)\<rparr>) registry adapter sHotel sTrain translated"
    by (simp add: wired_bridge_def defs)
  ultimately show ?thesis
    using s1 s2 s3 s4 s5 s6 diff
    by (simp add: delivers_def await_def give_apply) (rule exI, rule conjI, rule exI, assumption, simp add: B_def)
qed

subsection \<open>The contracts of the execution chain\<close>

definition bc1_addresses :: "(nat \<Rightarrow> string) \<Rightarrow> string \<rightharpoonup> string" where
  "bc1_addresses a = [''lightClient'' \<mapsto> a 0, ''relayerManager'' \<mapsto> a 1, ''ubtlRegistry'' \<mapsto> a 2,
     ''componentVerifiedAdapter'' \<mapsto> a 3, ''xBridgingContract'' \<mapsto> a 4, ''lHotel'' \<mapsto> a 5, ''lTrain'' \<mapsto> a 6,
     ''sHotel'' \<mapsto> a 7, ''sTrain'' \<mapsto> a 8, ''hotelBookingTranslated'' \<mapsto> a 9]"

definition new_manager :: "string \<Rightarrow> relayer_manager" where
  "new_manager u = \<lparr>rm_owner = u, rm_minimumStake = U (RELAYER_MIN_STAKE CONSTS), rm_reward = U (RELAYER_REWARD CONSTS),
    rm_penalty = U (RELAYER_PENALTY CONSTS), rm_bridgingContract = ZERO_ADDRESS, rm_relayers = (\<lambda>_. no_relayer), rm_relayerList = []\<rparr>"

definition new_bridge :: "string \<Rightarrow> nat \<Rightarrow> string \<Rightarrow> string \<Rightarrow> bridge" where
  "new_bridge u chain lc rm = \<lparr>br_class = ''XBridgingContract'', br_owner = u, br_chainId = U (int chain), br_lightClient = lc,
    br_relayerManager = rm, br_timeoutBlocks = U (BRIDGE_TIMEOUT_BLOCKS CONSTS), br_crossChainFee = U (CROSS_CHAIN_FEE CONSTS),
    br_ubtlRegistry = ZERO_ADDRESS, br_proofAdapter = ZERO_ADDRESS, br_serviceToLogic = (\<lambda>_. ZERO_ADDRESS),
    br_serviceVerified = (\<lambda>_. False), br_serviceRelayer = (\<lambda>_. ZERO_ADDRESS), br_registeredStateContracts = (\<lambda>_. False)\<rparr>"

lemma construct_known:
  "construct R u ''RelayerManager'' manager_args = Inr (RelayerManagerC (new_manager u))"
  "construct R u ''UBTLRegistry'' [] = Inr (UBTLRegistryC \<lparr>ur_owner = u, ur_translations = Map.empty, ur_byTranslated = Map.empty\<rparr>)"
  "construct R u ''XBridgingContract'' (bridge_args chain lc rm) = Inr (BridgeC (new_bridge u chain (to_lower lc) (to_lower rm)))"
  "construct R u ''HotelBookingTranslated'' [] = Inr (HotelC HotelBookingTranslated)"
  by (simp_all add: construct_def manager_args_def bridge_args_def num_arg_def str_arg_def word_of_def new_manager_def new_bridge_def)

text \<open>What the script for the execution chain leaves behind, with the addresses \<open>a\<close> it recorded.\<close>

definition bc1_done :: "evm_rules \<Rightarrow> nat \<Rightarrow> (nat \<Rightarrow> string) \<Rightarrow> nat \<Rightarrow> nat \<Rightarrow> evm_chain session \<Rightarrow> bool" where
  "bc1_done R n a chain w s \<longleftrightarrow> (\<exists>A k b m g. stage R A k (bc1_addresses a) w s \<and>
      A (addr R (n + 4)) = Some (BridgeC b) \<and>
      wired_bridge (new_bridge (sender_of R) chain (addr R n) (addr R (n + 1))) b (a 2) (a 3) (a 7) (a 8) (a 9) \<and>
      A (addr R (n + 1)) = Some (RelayerManagerC m) \<and> isRelayerActive m (sender_of R) \<and>
      A (addr R (n + 2)) = Some (UBTLRegistryC g) \<and> ur_translations g = Map.empty \<and> ur_byTranslated g = Map.empty \<and>
      A (addr R (n + 9)) = Some (HotelC HotelBookingTranslated))"

lemma far_addr: "cooperative R \<Longrightarrow> addr R k \<noteq> ZERO_ADDRESS" "cooperative R \<Longrightarrow> addr R k \<noteq> sender_of R"
  unfolding cooperative_def by blast+

lemma bc1_wiring:
  assumes R: "cooperative R" and D: "on_besu R D" and s: "stage R A k M w s" and w: "one_ether \<le> w"
    and low: "\<And>i. to_lower (a i) = addr R (n + i)" and M: "M = bc1_addresses a"
    and b: "A (addr R (n + 4)) = Some (BridgeC (new_bridge (sender_of R) chain (addr R n) (addr R (n + 1))))"
    and m: "A (addr R (n + 1)) = Some (RelayerManagerC (new_manager (sender_of R)))"
    and g: "A (addr R (n + 2)) = Some (UBTLRegistryC g)" "ur_translations g = Map.empty" "ur_byTranslated g = Map.empty"
    and h: "A (addr R (n + 9)) = Some (HotelC HotelBookingTranslated)"
  shows "delivers (await (ensure_relayer D (a 1)) (\<lambda>_. await (ensure_registry D (a 4) (a 2)) (\<lambda>_.
      await (setSelectedProofAdapter D (a 4) (mode, a 3)) (\<lambda>_.
      await (for_each [a 7, a 8] (ensure_state D ''XBridgingContract'' (a 4))) (\<lambda>_.
      await (ensure_service D (a 4) (a 9)) (\<lambda>_. await (ensure_verified D (a 4)) (\<lambda>_. give (a 4, a 9))))))))
    (\<lambda>v s'. v = (a 4, a 9) \<and> bc1_done R n a chain (w - one_ether) s') s"
proof (rule delivers_mono)
  let ?b = "new_bridge (sender_of R) chain (addr R n) (addr R (n + 1))"
  have fresh: "fresh_bridge ?b" "br_owner ?b = sender_of R" "br_relayerManager ?b = to_lower (a 1)"
    "rm_relayers (new_manager (sender_of R)) = (\<lambda>_. no_relayer)" "rm_minimumStake (new_manager (sender_of R)) = U (RELAYER_MIN_STAKE CONSTS)"
    by (simp_all add: fresh_bridge_def new_bridge_def new_manager_def low)
  have "A (to_lower (a 4)) = Some (BridgeC ?b)" "A (to_lower (a 1)) = Some (RelayerManagerC (new_manager (sender_of R)))"
    "to_lower (a 4) \<noteq> sender_of R" "to_lower (a 1) \<noteq> sender_of R"
    "\<forall>x \<in> {a 2, a 3, a 7, a 8, a 9}. to_lower x \<noteq> ZERO_ADDRESS" "to_lower (a 7) \<noteq> to_lower (a 8)"
    using b m by (simp_all add: low far_addr [OF R] addr_eq [OF R])
  note wire_up [OF R D s w this(1) fresh(1-3) this(2) fresh(4,5) this(3-6), of mode "(a 4, a 9)"]
  then show "delivers (await (ensure_relayer D (a 1)) (\<lambda>_. await (ensure_registry D (a 4) (a 2)) (\<lambda>_.
      await (setSelectedProofAdapter D (a 4) (mode, a 3)) (\<lambda>_.
      await (for_each [a 7, a 8] (ensure_state D ''XBridgingContract'' (a 4))) (\<lambda>_.
      await (ensure_service D (a 4) (a 9)) (\<lambda>_. await (ensure_verified D (a 4)) (\<lambda>_. give (a 4, a 9))))))))
    (\<lambda>v s'. v = (a 4, a 9) \<and> (\<exists>A' n' b' m'. stage R A' n' M (w - one_ether) s' \<and>
       (\<forall>x. x \<noteq> to_lower (a 4) \<longrightarrow> x \<noteq> to_lower (a 1) \<longrightarrow> A' x = A x) \<and>
       A' (to_lower (a 4)) = Some (BridgeC b') \<and> wired_bridge ?b b' (a 2) (a 3) (a 7) (a 8) (a 9) \<and>
       A' (to_lower (a 1)) = Some (RelayerManagerC m') \<and> isRelayerActive m' (sender_of R))) s" .
next
  fix v s' assume p: "v = (a 4, a 9) \<and> (\<exists>A' n' b' m'. stage R A' n' M (w - one_ether) s' \<and>
       (\<forall>x. x \<noteq> to_lower (a 4) \<longrightarrow> x \<noteq> to_lower (a 1) \<longrightarrow> A' x = A x) \<and>
       A' (to_lower (a 4)) = Some (BridgeC b') \<and>
       wired_bridge (new_bridge (sender_of R) chain (addr R n) (addr R (n + 1))) b' (a 2) (a 3) (a 7) (a 8) (a 9) \<and>
       A' (to_lower (a 1)) = Some (RelayerManagerC m') \<and> isRelayerActive m' (sender_of R))"
  then obtain A' k' b' m' where A': "stage R A' k' M (w - one_ether) s'" "\<forall>x. x \<noteq> to_lower (a 4) \<longrightarrow> x \<noteq> to_lower (a 1) \<longrightarrow> A' x = A x"
      "A' (to_lower (a 4)) = Some (BridgeC b')"
      "wired_bridge (new_bridge (sender_of R) chain (addr R n) (addr R (n + 1))) b' (a 2) (a 3) (a 7) (a 8) (a 9)"
      "A' (to_lower (a 1)) = Some (RelayerManagerC m')" "isRelayerActive m' (sender_of R)" by blast
  have "A' (addr R (n + 2)) = Some (UBTLRegistryC g)" "A' (addr R (n + 9)) = Some (HotelC HotelBookingTranslated)"
    using A'(2) g h by (simp_all add: low addr_eq [OF R])
  then show "v = (a 4, a 9) \<and> bc1_done R n a chain (w - one_ether) s'"
    using p A'(1,3-6) g(2,3) unfolding low M bc1_done_def by blast
qed

lemma bc1_contracts_fresh:
  assumes R: "cooperative R" and D: "on_besu R D" and mode: "proofAdapterMode (environ D) = Inr Component_verified"
    and s0: "stage R A n Map.empty w s" and w: "one_ether \<le> w"
  defines "a \<equiv> \<lambda>i. checksum R (addr R (n + i))"
  shows "delivers (bc1_contracts D chain) (\<lambda>v s'. v = (a 4, a 9) \<and> bc1_done R n a chain (w - one_ether) s') s"
proof -
  have low: "to_lower (a i) = addr R (n + i)" for i by (simp add: a_def cooperative_checksum [OF R])
  note con = construct_known construct_other [OF R]
  have step: "delivers (await (deployed D key name args) f) P s1"
    if "stage R B (n + i) M w s1" "M key = None" "construct R (sender_of R) name args = Inr x" "j = Suc i"
      "\<And>s'. stage R (B(addr R (n + i) \<mapsto> x)) (n + j) (M(key \<mapsto> a i)) w s' \<Longrightarrow> delivers (f (a i)) P s'"
    for B i j M key name args x f s1 and P :: "string \<times> string \<Rightarrow> evm_chain session \<Rightarrow> bool"
    by (rule deploy_step [OF R D that(1-3)]) (use that(4,5) in \<open>simp_all add: a_def\<close>)
  show ?thesis
    unfolding bc1_contracts_def deploy_adapter_component [OF mode] await_assoc give_await
    apply (rule delivers_step [where a = "()" and Q = "stage R A (n + 0) Map.empty w"], simp add: fund_relayer [OF D] s0)
    apply (rule step [where i = 0 and j = 1], assumption, simp, simp add: con, simp)
    apply (rule step [where i = 1 and j = 2], assumption, simp, simp add: con, simp)
    apply (rule step [where i = 2 and j = 3], assumption, simp, simp add: con, simp)
    apply (rule step [where i = 3 and j = 4], assumption, simp, simp add: con, simp)
    apply (rule step [where i = 4 and j = 5], assumption, simp, simp add: con, simp)
    apply (rule step [where i = 5 and j = 6], assumption, simp, simp add: con, simp)
    apply (rule step [where i = 6 and j = 7], assumption, simp, simp add: con, simp)
    apply (rule step [where i = 7 and j = 8], assumption, simp, simp add: con, simp)
    apply (rule step [where i = 8 and j = 9], assumption, simp, simp add: con, simp)
    apply (rule step [where i = 9 and j = 10], assumption, simp, simp add: con, simp)
    by (rule bc1_wiring [OF R D _ w low, where g = "\<lparr>ur_owner = sender_of R, ur_translations = Map.empty, ur_byTranslated = Map.empty\<rparr>"], assumption) (simp_all add: bc1_addresses_def addr_eq [OF R] low)
qed

subsection \<open>The whole script\<close>

lemma stage_save: "stage R A n M w s \<Longrightarrow> \<exists>s'. save D s = (Inr (), s') \<and> stage R A n M w s'"
  by (simp add: save_def writeDeployment_def stage_def Let_def)

lemma done_registered:
  assumes R: "cooperative R" and D: "on_besu R D" and d: "bc1_done R n a chain w s"
    and a: "\<And>i. a i = checksum R (addr R (n + i))"
    and host: "resolveHotelSourceContractHash (ubtl D) (environ D) = Inr src" "resolveHotelStorageMapRoot (ubtl D) (environ D) = Inr root"
  shows "\<exists>s' A k. registerHotelTranslation D s = (Inr (), s') \<and> stage R A k (bc1_addresses a) w s' \<and> wired R s'"
proof -
  obtain A k b m g where A: "stage R A k (bc1_addresses a) w s" "A (addr R (n + 4)) = Some (BridgeC b)"
      "wired_bridge (new_bridge (sender_of R) chain (addr R n) (addr R (n + 1))) b (a 2) (a 3) (a 7) (a 8) (a 9)"
      "A (addr R (n + 1)) = Some (RelayerManagerC m)" "isRelayerActive m (sender_of R)"
      "A (addr R (n + 2)) = Some (UBTLRegistryC g)" "ur_translations g = Map.empty" "ur_byTranslated g = Map.empty"
      "A (addr R (n + 9)) = Some (HotelC HotelBookingTranslated)"
    using d unfolding bc1_done_def by blast
  have low: "to_lower (a i) = addr R (n + i)" for i by (simp add: a cooperative_checksum [OF R])
  have ne: "a i \<noteq> []" for i using R unfolding cooperative_def a by blast
  have M: "bc1_addresses a ''ubtlRegistry'' = Some (a 2)" "bc1_addresses a ''hotelBookingTranslated'' = Some (a 9)"
    by (simp_all add: bc1_addresses_def)
  have reg: "A (to_lower (a 2)) = Some (UBTLRegistryC g)" "to_lower (a 2) \<noteq> sender_of R"
    "A (to_lower (a 9)) = Some (HotelC HotelBookingTranslated)" "to_lower (a 9) \<noteq> ZERO_ADDRESS"
    using A(6,9) by (simp_all only: low) (simp_all add: far_addr [OF R])
  from stage_registration [OF R D A(1) M(1) ne reg(1,2) M(2) ne reg(3,4) A(7,8) host]
  obtain s' g' key t where s': "registerHotelTranslation D s = (Inr (), s')" "ur_translations g' key = Some t"
      "tr_translated t = to_lower (a 9)" "stage R (A(to_lower (a 2) \<mapsto> UBTLRegistryC g')) (Suc k) (bc1_addresses a) w s'"
    by blast
  have at: "at (node s') = A(addr R (n + 2) \<mapsto> UBTLRegistryC g')" and rec: "d_contracts (rec s') = bc1_addresses a"
    using s'(4) by (simp_all add: stage_def low)
  have key: "contract_at (rec s') ''lightClient'' = a 0" "contract_at (rec s') ''relayerManager'' = a 1"
    "contract_at (rec s') ''ubtlRegistry'' = a 2" "contract_at (rec s') ''componentVerifiedAdapter'' = a 3"
    "contract_at (rec s') ''xBridgingContract'' = a 4" "contract_at (rec s') ''sHotel'' = a 7"
    "contract_at (rec s') ''sTrain'' = a 8" "contract_at (rec s') ''hotelBookingTranslated'' = a 9"
    by (simp_all add: contract_at_def rec bc1_addresses_def)
  have look: "at (node s') (addr R (n + 4)) = Some (BridgeC b)" "at (node s') (addr R (n + 1)) = Some (RelayerManagerC m)"
    "at (node s') (addr R (n + 2)) = Some (UBTLRegistryC g')"
    using A(2,4) by (simp_all add: at addr_eq [OF R])
  have "wired R s'"
    unfolding wired_def Let_def key low
    using look A(3,5) s'(2,3) unfolding wired_bridge_def low by (auto simp: new_bridge_def)
  then show ?thesis using s'(1,4) by blast
qed

lemma wired_save: "wired R s \<Longrightarrow> save D s = (Inr (), s') \<Longrightarrow> wired R s'"
proof -
  assume w: "wired R s" and "save D s = (Inr (), s')"
  then have "node s' = node s" "contract_at (rec s') = contract_at (rec s)"
    by (auto simp: save_def writeDeployment_def Let_def contract_at_def fun_eq_iff)
  then show ?thesis using w by (simp only: wired_def)
qed

lemma save_keeps: "save D s = (Inr (), s') \<Longrightarrow> node s' = node s \<and> d_contracts (rec s') = d_contracts (rec s) \<and>
    d_system (rec s') = d_system (rec s) \<and> d_network (rec s') = d_network (rec s)"
  by (auto simp: save_def writeDeployment_def Let_def)

lemma bc1_from_scratch:
  assumes "cooperative R" and "on_besu R D" and "proofAdapterMode (environ D) = Inr Component_verified"
    and "network D \<noteq> ''local''" and "files s ''xsmart'' (network D) = None"
    and "\<forall>k \<ge> nonce_of (node s) (sender_of R). at (node s) (addr R k) = None"
    and "one_ether \<le> wei (node s) (sender_of R)"
    and "resolveHotelSourceContractHash (ubtl D) (environ D) = Inr src"
    and "resolveHotelStorageMapRoot (ubtl D) (environ D) = Inr root"
  shows "\<exists>s1. deploy_bc1 D s = (Inr (), s1) \<and> wired R s1 \<and>
    d_contracts (rec s1) = bc1_addresses (\<lambda>i. checksum R (addr R (nonce_of (node s) (sender_of R) + i)))"
proof -
  let ?n = "nonce_of (node s) (sender_of R)" and ?w = "wei (node s) (sender_of R)"
  let ?a = "\<lambda>i. checksum R (addr R (?n + i))"
  obtain s0 where s0: "open_record D ''xsmart'' (network D) (chainIdOf (network D)) s = (Inr (), s0)"
      "stage R (at (node s)) ?n Map.empty ?w s0"
    using assms(5,6) by (simp add: open_record_def stage_def loadDeployment_def)
  obtain v s1 where s1: "bc1_contracts D (chainIdOf (network D)) s0 = (Inr v, s1)"
      "bc1_done R ?n ?a (chainIdOf (network D)) (?w - one_ether) s1"
    using bc1_contracts_fresh [OF assms(1-3) s0(2) assms(7), of "chainIdOf (network D)"] unfolding delivers_def by blast
  obtain s2 where s2: "registerHotelTranslation D s1 = (Inr (), s2)" "wired R s2" "d_contracts (rec s2) = bc1_addresses ?a"
    using done_registered [OF assms(1,2) s1(2) refl assms(8,9)] unfolding stage_def by blast
  obtain s3 s4 where s3: "save D s2 = (Inr (), s3)" and s4: "save D s3 = (Inr (), s4)" by (metis save_def writeDeployment_def)
  have "wired R s4" by (rule wired_save [OF wired_save [OF s2(2) s3] s4])
  moreover have "d_contracts (rec s4) = bc1_addresses ?a" by (simp add: save_keeps [OF s4] save_keeps [OF s3] s2(3))
  moreover have "deploy_bc1 D s = (Inr (), s4)"
    using s0(1) s1(1) s2(1) s3 s4 assms(4)
    by (simp add: deploy_bc1_def Let_def await_def local_balance_def registerTranslations_def give_apply)
  ultimately show ?thesis by blast
qed


lemma lower_digits: "to_lower (show_nat n) = show_nat n"
proof -
  obtain ds where ds: "show_nat n = map digit_char ds" "\<forall>d \<in> set ds. d < 10" using show_nat_digits [of n] by blast
  have "lower_char (digit_char d) = digit_char d" if "d < 10" for d
    using that by (simp add: lower_char_def digit_char_def char_nat_def)
  then show ?thesis using ds by (simp add: to_lower_def)
qed

lemma reference_addr: "addr reference_rules n = ''0xc'' @ show_nat n"
proof -
  have "to_lower (''0xc'' @ show_nat n) = to_lower ''0xc'' @ show_nat n" using lower_digits [of n] by (simp add: to_lower_def)
  moreover have "to_lower ''0xc'' = ''0xc''" by code_simp
  ultimately show ?thesis by (simp add: addr_def reference_rules_def)
qed

lemma reference_sender: "sender_of reference_rules = DEPLOYER_PRIVATE_KEY"
proof -
  have "to_lower DEPLOYER_PRIVATE_KEY = DEPLOYER_PRIVATE_KEY" by code_simp
  then show ?thesis by (simp add: sender_of_def reference_rules_def)
qed

lemma reference_addr_inj: "inj (addr reference_rules)"
proof (rule injI)
  fix i j assume "addr reference_rules i = addr reference_rules j"
  then have "show_nat i = show_nat j" unfolding reference_addr same_append_eq .
  then have "Some i = Some j" using parse_digits_show_nat [of i] parse_digits_show_nat [of j] by metis
  then show "i = j" by simp
qed

lemma reference_addr_sender: "addr reference_rules k \<noteq> sender_of reference_rules"
  unfolding reference_addr reference_sender DEPLOYER_PRIVATE_KEY_def by simp

lemma reference_addr_zero: "addr reference_rules k \<noteq> ZERO_ADDRESS"
  unfolding reference_addr ZERO_ADDRESS_def by simp

lemma reference_takes_all:
  "turns_down reference_rules c t = None" "argument_error reference_rules mm vs = None" "compiled reference_rules n"
  "has_method reference_rules n mm" "other_constructor reference_rules n vs = None" "checksum reference_rules a = a"
  by (simp_all add: reference_rules_def)

lemma reference_cooperative: "cooperative reference_rules"
proof -
  have "addr reference_rules k \<noteq> []" for k unfolding reference_addr by simp
  moreover have "rules_documented reference_rules" using reference_on_besu unfolding on_besu_def by blast
  ultimately show ?thesis
    unfolding cooperative_def using reference_addr_inj reference_addr_sender reference_addr_zero reference_takes_all by metis
qed


end
