(* ===== verification/Send_Attempts.thy ===== *)
theory Send_Attempts
  imports Deploy_Steps
begin

text \<open>
  How often \<open>signAndSend\<close> of \<open>scripts/common.ts\<close> puts a transaction on the wire: the transactions
  a chain was handed are kept in \<open>sent\<close>, so a run's attempts are what it appended.
\<close>

lemma storing_sent: "storing a f c r = Inr c' \<Longrightarrow> sent c' = sent c"
  by (auto simp: storing_def put_def res_bind_Inr_iff)

lemma call_confirm_sent: "call_confirm target args b c = Inr c' \<Longrightarrow> sent c' = sent c"
  by (erule call_confirmE) (simp add: put_def)

lemma transact_sent: "transact R sender v a meth args c = Inr c' \<Longrightarrow> sent c' = sent c"
  unfolding transact_def
  by (auto simp: no_method_def split: option.splits contract.splits if_splits list.splits js_prim.splits
    dest: storing_sent call_confirm_sent)

lemma create_sent: "create R sender name args c = Inr (a, c') \<Longrightarrow> sent c' = sent c"
  by (auto simp: create_def Let_def put_def res_bind_Inr_iff split: if_splits)

lemma execute_sent: "execute_tx R sender t c = (r, c') \<Longrightarrow> sent c' = sent c"
  unfolding execute_tx_def Let_def
  by (auto split: option.splits sum.splits if_splits call_data.splits prod.splits dest!: create_sent transact_sent)

lemma broadcast_sent: "broadcast R key t c = (r, c') \<Longrightarrow> sent c' = sent c @ [t]"
  by (auto simp: broadcast_def Let_def split: option.splits dest: execute_sent)

text \<open>A transaction, and the next attempt of it.\<close>

definition next_attempt :: "call_data tx \<Rightarrow> call_data tx \<Rightarrow> bool" where
  "next_attempt t u \<longleftrightarrow> same_call t u \<and>
     (\<exists>p. BigInt (the (tx_gasPrice t)) = Inr p \<and> tx_gasPrice u = Some (show_int (2 * p)))"

fun attempts :: "call_data tx list \<Rightarrow> bool" where
  "attempts (t # u # ts) \<longleftrightarrow> next_attempt t u \<and> attempts (u # ts)"
| "attempts _ \<longleftrightarrow> True"

lemma show_int_ne [simp]: "show_int n \<noteq> []"
  by (simp add: show_int_def)

lemma prepare_price:
  assumes "prepare_tx (chain_api R) t c = (Inr t1, c1)"
  shows "tx_gasPrice t1 \<noteq> None \<and> (\<forall>p. tx_gasPrice t = Some p \<longrightarrow> p \<noteq> [] \<longrightarrow> tx_gasPrice t1 = Some p)"
  using assms
  by (auto simp: prepare_tx_def fill_nonce_def fill_price_def fill_gas_def await_def give_apply chain_api_def split: if_splits)

lemma raise_doubles:
  assumes "raise_price (chain_api R) t c = (Inr u, c')" and "tx_gasPrice t \<noteq> None"
  shows "next_attempt t u"
  using assms
  by (auto simp: raise_price_def await_def give_apply of_res_apply chain_api_def next_attempt_def same_call_def mult.commute
    split: sum.splits)

lemma next_attempt_prepared:
  assumes "next_attempt t u" and "prepare_tx (chain_api R) u c = (Inr v, c')" and "same_call u v"
  shows "next_attempt t v"
  using assms prepare_price [OF assms(2)] by (auto simp: next_attempt_def same_call_def)

lemma signAndSend_attempts:
  "signAndSend (chain_api R) n t c = (r, c') \<Longrightarrow> n < 3 \<Longrightarrow>
     \<exists>t1 ts. prepare_tx (chain_api R) t c = (Inr t1, c) \<and> same_call t t1 \<and> sent c' = sent c @ t1 # ts \<and>
       length ts + n < 3 \<and> attempts (t1 # ts)"
proof (induction "chain_api R" n t c arbitrary: r c' rule: signAndSend.induct)
  case (1 n t c)
  obtain t1 where p: "prepare_tx (chain_api R) t c = (Inr t1, c)" and s1: "same_call t t1"
    using prepare_chain [of R t c] by (auto simp: same_call_def)
  have start: "await (prepare_tx (chain_api R) t) (\<lambda>tx1. await (sign_tx (chain_api R) DEPLOYER_PRIVATE_KEY tx1)
      (\<lambda>raw. give (tx1, raw))) c = (Inr (t1, t1), c)"
    using p by (simp add: await_def sign_chain give_apply)
  have snd: "sendSigned (chain_api R) = broadcast R" by (simp add: chain_api_def)
  obtain b c2 where b: "broadcast R DEPLOYER_PRIVATE_KEY t1 c = (b, c2)" by (rule prod.exhaust)
  note one = broadcast_sent [OF b]
  show ?case
  proof (cases "\<exists>t2 err. b = Inl err \<and> \<not> (n + 1 \<ge> 3 \<or> \<not> underpriced err) \<and> raise_price (chain_api R) t1 c2 = (Inr t2, c2)")
    case False
    then have "c' = c2"
      using "1.prems"(1) start b snd raise_chain [of R t1 c2]
      by (auto simp: signAndSend.simps [of _ n] split: sum.splits if_splits prod.splits)
    then show ?thesis using p s1 one "1.prems"(2) by (intro exI [of _ t1] exI [of _ "[]"]) simp
  next
    case True
    then obtain t2 err where t2: "b = Inl err" "\<not> (n + 1 \<ge> 3 \<or> \<not> underpriced err)" "raise_price (chain_api R) t1 c2 = (Inr t2, c2)"
      by blast
    have again: "signAndSend (chain_api R) (n + 1) t2 c2 = (r, c')"
      using "1.prems"(1) start b snd t2 by (auto simp: signAndSend.simps [of _ n])
    obtain u ts where u: "prepare_tx (chain_api R) t2 c2 = (Inr u, c2)" "same_call t2 u" "sent c' = sent c2 @ u # ts"
        "length ts + (n + 1) < 3" "attempts (u # ts)"
      using "1.hyps" [OF start [symmetric] refl refl b [unfolded t2(1), folded snd, symmetric] refl t2(2) t2(3) [symmetric] refl again] t2(2) by auto
    have "next_attempt t1 u"
      using next_attempt_prepared [OF raise_doubles [OF t2(3)] u(1,2)] prepare_price [OF p] by simp
    then show ?thesis using p s1 one u by (intro exI [of _ t1] exI [of _ "u # ts"]) simp
  qed
qed


text \<open>A node that turns down every transaction gets all three attempts.\<close>

definition picky_rules :: evm_rules where
  "picky_rules = \<lparr>checksum = (\<lambda>a. a), create_address = (\<lambda>s n. ''0xc'' @ show_nat n), key_address = (\<lambda>k. k),
      key_hash = (\<lambda>n h. h), ir_hash_of = ZERO_HASH, runtime_code = (\<lambda>c. ''0x6080''), compiled = (\<lambda>n. True),
      has_method = (\<lambda>n m. True), argument_error = (\<lambda>m vs. None), other_constructor = (\<lambda>n vs. None),
      turns_down = (\<lambda>c t. Some ''Replacement transaction underpriced''), gas_price = (\<lambda>c. show_int 1000),
      gas_needed = (\<lambda>c d. Inr 100000), clock = (\<lambda>c. []), evm = reference_host\<rparr>"

definition empty_chain :: evm_chain where
  "empty_chain = \<lparr>at = Map.empty, nonce_of = (\<lambda>a. 0), height = 0, wei = (\<lambda>a. 0), sent = []\<rparr>"

lemma picky_broadcast:
  "broadcast picky_rules k t c = (Inl ''Replacement transaction underpriced'', c\<lparr>sent := sent c @ [t]\<rparr>)"
  by (simp add: broadcast_def picky_rules_def)

lemma picky_api: "sendSigned (chain_api picky_rules) = broadcast picky_rules"
  "getGasPrice (chain_api picky_rules) = (\<lambda>c. (Inr (show_int 1000), c))"
  "getTransactionCount (chain_api picky_rules) = (\<lambda>a c. (Inr (nonce_of c (to_lower a)), c))"
  by (simp_all add: chain_api_def picky_rules_def)

lemma picky_underpriced: "underpriced ''Replacement transaction underpriced''"
  by code_simp


end
