(* ===== verification/Local_Nodes.thy ===== *)
theory Local_Nodes
  imports Scripts Js_Values
begin

text \<open>
  \<open>scripts/xsmart/local-bc2-node.ts\<close> and \<open>local-bc3-fabric.ts\<close>: the local Substrate node and Fabric
  simulator as Docker containers. The two scripts differ in their constants and in the health check;
  they are one model over a \<open>local_node\<close>. The machine (Docker, the HTTP client and the clock) is the
  record \<open>local_host\<close> over a state \<open>'n\<close>.
\<close>

subsection \<open>The machine\<close>

text \<open>
  \<open>execFileSync(command, args, {cwd})\<close> gives the output or throws; an HTTP request gives status and
  body, or nothing on an error or a timeout.
\<close>

record 'n local_host =
  exec_file :: "string \<Rightarrow> string \<Rightarrow> string list \<Rightarrow> ('n, string) script"
  http_request :: "string \<Rightarrow> string \<Rightarrow> 'n \<Rightarrow> (nat \<times> string) option \<times> 'n"
  now_ms :: "'n \<Rightarrow> int"
  sleep_ms :: "nat \<Rightarrow> 'n \<Rightarrow> 'n"

record local_node =
  ln_image :: string
  ln_container :: string
  ln_dockerfile :: string
  ln_ports :: string
  ln_url :: string
  ln_force :: string
  ln_timeout :: int
  ln_what :: string

definition bc2_node :: "process_env \<Rightarrow> local_node" where
  "bc2_node env = \<lparr>ln_image = ''xsmart-substrate-contracts-node:local'', ln_container = ''xsmart-bc2-local'',
     ln_dockerfile = ''xsmart-substrate-contracts-node.Dockerfile'', ln_ports = ''18545:9944'',
     ln_url = js_or (env_text env ''BC2_WASM_HTTP_URL'') ''http://127.0.0.1:18545'',
     ln_force = ''XSMART_BC2_FORCE_NODE_BUILD'', ln_timeout = 60000, ln_what = ''bc2 node RPC''\<rparr>"

definition bc3_node :: "process_env \<Rightarrow> local_node" where
  "bc3_node env = \<lparr>ln_image = ''xsmart-fabric-sim:local'', ln_container = ''xsmart-bc3-fabric-local'',
     ln_dockerfile = ''xsmart-fabric-sim.Dockerfile'', ln_ports = ''18645:18645'',
     ln_url = js_or (env_text env ''BC3_FABRIC_HTTP_URL'') ''http://127.0.0.1:18645'',
     ln_force = ''XSMART_BC3_FORCE_IMAGE_BUILD'', ln_timeout = 30000, ln_what = ''bc3 fabric simulator''\<rparr>"

lemma node_names [simp]:
  "ln_container (bc2_node env) = ''xsmart-bc2-local''" "ln_image (bc2_node env) = ''xsmart-substrate-contracts-node:local''"
  "ln_container (bc3_node env) = ''xsmart-bc3-fabric-local''" "ln_image (bc3_node env) = ''xsmart-fabric-sim:local''"
  by (simp_all add: bc2_node_def bc3_node_def)

subsection \<open>Docker commands\<close>

definition run_command :: "'n local_host \<Rightarrow> string \<Rightarrow> string list \<Rightarrow> string \<Rightarrow> ('n, string) script" where
  "run_command H command args cwd = await (exec_file H cwd command args) (\<lambda>t. give (js_trim t))"

definition tryRun :: "'n local_host \<Rightarrow> string \<Rightarrow> string list \<Rightarrow> string \<Rightarrow> ('n, string option) script" where
  "tryRun H command args cwd = recover (await (run_command H command args cwd) (\<lambda>t. give (Some t))) (\<lambda>_. give None)"

definition dockerfilePath :: "string \<Rightarrow> local_node \<Rightarrow> string" where
  "dockerfilePath root L = join ''/'' [root, ''docker'', ln_dockerfile L]"

definition some_text :: "string option \<Rightarrow> bool" where
  "some_text t \<longleftrightarrow> t \<noteq> None \<and> t \<noteq> Some []"

definition imageExists :: "'n local_host \<Rightarrow> string \<Rightarrow> local_node \<Rightarrow> ('n, bool) script" where
  "imageExists H root L = await (tryRun H ''docker'' [''image'', ''inspect'', ln_image L] root) (\<lambda>t. give (some_text t))"

definition buildImage :: "'n local_host \<Rightarrow> string \<Rightarrow> local_node \<Rightarrow> ('n, unit) script" where
  "buildImage H root L =
     await (run_command H ''docker'' [''build'', ''-t'', ln_image L, ''-f'', dockerfilePath root L, root] root) (\<lambda>_. give ())"

definition containerRunning :: "'n local_host \<Rightarrow> string \<Rightarrow> local_node \<Rightarrow> ('n, bool) script" where
  "containerRunning H root L =
     await (tryRun H ''docker'' [''inspect'', ''-f'', ''{{.State.Running}}'', ln_container L] root) (\<lambda>t. give (t = Some ''true''))"

definition containerExists :: "'n local_host \<Rightarrow> string \<Rightarrow> local_node \<Rightarrow> ('n, bool) script" where
  "containerExists H root L =
     await (tryRun H ''docker'' [''inspect'', ''-f'', ''{{.Name}}'', ln_container L] root) (\<lambda>t. give (some_text t))"

definition removeContainer :: "'n local_host \<Rightarrow> string \<Rightarrow> local_node \<Rightarrow> ('n, unit) script" where
  "removeContainer H root L = await (containerExists H root L) (\<lambda>there.
     if there then await (run_command H ''docker'' [''rm'', ''-f'', ln_container L] root) (\<lambda>_. give ()) else give ())"

definition startContainer :: "'n local_host \<Rightarrow> string \<Rightarrow> local_node \<Rightarrow> ('n, unit) script" where
  "startContainer H root L =
     await (run_command H ''docker'' [''run'', ''-d'', ''--name'', ln_container L, ''-p'', ln_ports L, ln_image L] root) (\<lambda>_. give ())"

subsection \<open>Waiting\<close>

definition rpcReady :: "'n local_host \<Rightarrow> string \<Rightarrow> 'n \<Rightarrow> bool \<times> 'n" where
  "rpcReady H url s =
     (case http_request H url ''{\"jsonrpc\":\"2.0\",\"id\":1,\"method\":\"chain_getHeader\",\"params\":[]}'' s of
        (Some (status, raw), s') \<Rightarrow> (status = 200 \<and> str_includes raw ''\"result\"'', s')
      | (_, s') \<Rightarrow> (False, s'))"

definition health :: "'n local_host \<Rightarrow> string \<Rightarrow> 'n \<Rightarrow> bool \<times> 'n" where
  "health H url s =
     (case http_request H (url @ ''/health'') [] s of
        (Some (status, raw), s') \<Rightarrow> (status = 200 \<and> str_includes raw ''\"ok\":true'', s')
      | (_, s') \<Rightarrow> (False, s'))"

text \<open>The polling loop; nothing but the clock ends it when the node never answers.\<close>

partial_function (option) wait_until ::
    "'n local_host \<Rightarrow> ('n \<Rightarrow> bool \<times> 'n) \<Rightarrow> int \<Rightarrow> 'n \<Rightarrow> (bool \<times> 'n) option" where
  "wait_until H ready deadline s =
     (if now_ms H s < deadline
      then (case ready s of (answered, s') \<Rightarrow>
              if answered then Some (True, s') else wait_until H ready deadline (sleep_ms H 1000 s'))
      else Some (False, s))"

definition waitReady ::
    "'n local_host \<Rightarrow> ('n local_host \<Rightarrow> string \<Rightarrow> 'n \<Rightarrow> bool \<times> 'n) \<Rightarrow> local_node \<Rightarrow> 'n \<Rightarrow> (unit res \<times> 'n) option" where
  "waitReady H ready L s =
     map_option (\<lambda>(answered, s').
         (if answered then Inr () else Inl (''Timed out waiting for local '' @ ln_what L @ '' at '' @ ln_url L), s'))
       (wait_until H (ready H (ln_url L)) (now_ms H s + ln_timeout L) s)"

subsection \<open>The commands\<close>

definition prepare_node :: "'n local_host \<Rightarrow> process_env \<Rightarrow> string \<Rightarrow> local_node \<Rightarrow> ('n, unit) script" where
  "prepare_node H env root L =
     await (if env (ln_force L) = Some ''1'' then buildImage H root L
            else await (imageExists H root L) (\<lambda>there. if there then give () else buildImage H root L)) (\<lambda>_.
     await (containerRunning H root L) (\<lambda>up.
     if up then give () else await (removeContainer H root L) (\<lambda>_. startContainer H root L)))"

definition ensure_local ::
    "'n local_host \<Rightarrow> ('n local_host \<Rightarrow> string \<Rightarrow> 'n \<Rightarrow> bool \<times> 'n) \<Rightarrow> process_env \<Rightarrow> string \<Rightarrow> local_node \<Rightarrow>
     'n \<Rightarrow> (unit res \<times> 'n) option" where
  "ensure_local H ready env root L s =
     (case prepare_node H env root L s of
        (Inl e, s') \<Rightarrow> Some (Inl e, s')
      | (Inr _, s') \<Rightarrow> waitReady H ready L s')"

definition ensureLocalBC2Node :: "'n local_host \<Rightarrow> process_env \<Rightarrow> string \<Rightarrow> 'n \<Rightarrow> (unit res \<times> 'n) option" where
  "ensureLocalBC2Node H env root = ensure_local H rpcReady env root (bc2_node env)"

definition stopLocalBC2Node :: "'n local_host \<Rightarrow> process_env \<Rightarrow> string \<Rightarrow> ('n, unit) script" where
  "stopLocalBC2Node H env root = removeContainer H root (bc2_node env)"

definition ensureLocalBC3Fabric :: "'n local_host \<Rightarrow> process_env \<Rightarrow> string \<Rightarrow> 'n \<Rightarrow> (unit res \<times> 'n) option" where
  "ensureLocalBC3Fabric H env root = ensure_local H health env root (bc3_node env)"

definition stopLocalBC3Fabric :: "'n local_host \<Rightarrow> process_env \<Rightarrow> string \<Rightarrow> ('n, unit) script" where
  "stopLocalBC3Fabric H env root = removeContainer H root (bc3_node env)"

text \<open>What a command reports when it returns: the status is a running flag.\<close>

datatype local_report = Stopped | Running bool | Started

definition local_main ::
    "'n local_host \<Rightarrow> ('n local_host \<Rightarrow> string \<Rightarrow> 'n \<Rightarrow> bool \<times> 'n) \<Rightarrow> process_env \<Rightarrow> string \<Rightarrow> local_node \<Rightarrow> string \<Rightarrow>
     'n \<Rightarrow> (local_report res \<times> 'n) option" where
  "local_main H ready env root L arg s =
     (let mode = js_or arg ''start'' in
      if mode = ''stop'' then Some (await (removeContainer H root L) (\<lambda>_. give Stopped) s)
      else if mode = ''status'' then Some (await (containerRunning H root L) (\<lambda>up. give (Running up)) s)
      else map_option (\<lambda>(r, s'). (res_bind r (\<lambda>_. Inr Started), s')) (ensure_local H ready env root L s))"

definition bc2_local_main :: "'n local_host \<Rightarrow> process_env \<Rightarrow> string \<Rightarrow> string \<Rightarrow> 'n \<Rightarrow> (local_report res \<times> 'n) option" where
  "bc2_local_main H env root = local_main H rpcReady env root (bc2_node env)"

definition bc3_local_main :: "'n local_host \<Rightarrow> process_env \<Rightarrow> string \<Rightarrow> string \<Rightarrow> 'n \<Rightarrow> (local_report res \<times> 'n) option" where
  "bc3_local_main H env root = local_main H health env root (bc3_node env)"

subsection \<open>Documented behaviour of the machine\<close>

text \<open>
  Docker keeps a set of images and the containers with their running flag. Inspecting changes nothing;
  a command that fails leaves the other containers alone; nobody else uses Docker meanwhile. Sleeping
  takes its time and the clock does not go back.
\<close>

definition docker_documented :: "'n local_host \<Rightarrow> ('n \<Rightarrow> string set) \<Rightarrow> ('n \<Rightarrow> string \<rightharpoonup> bool) \<Rightarrow> bool" where
  "docker_documented H images containers \<longleftrightarrow>
     (\<forall>d s i. \<exists>t e. js_trim t \<noteq> [] \<and>
        exec_file H d ''docker'' [''image'', ''inspect'', i] s = (if i \<in> images s then Inr t else Inl e, s)) \<and>
     (\<forall>d s c. \<exists>t e. (\<forall>up. containers s c = Some up \<longrightarrow> js_trim t = show_bool up) \<and>
        exec_file H d ''docker'' [''inspect'', ''-f'', ''{{.State.Running}}'', c] s = (if containers s c = None then Inl e else Inr t, s)) \<and>
     (\<forall>d s c. \<exists>t e. js_trim t \<noteq> [] \<and>
        exec_file H d ''docker'' [''inspect'', ''-f'', ''{{.Name}}'', c] s = (if containers s c = None then Inl e else Inr t, s)) \<and>
     (\<forall>d s c r s'. exec_file H d ''docker'' [''rm'', ''-f'', c] s = (r, s') \<longrightarrow> images s' = images s \<and>
        (containers s' = containers s \<and> (\<exists>e. r = Inl e) \<or> containers s' = (containers s)(c := None))) \<and>
     (\<forall>d s c p i r s'. exec_file H d ''docker'' [''run'', ''-d'', ''--name'', c, ''-p'', p, i] s = (r, s') \<longrightarrow>
        images s \<subseteq> images s' \<and> (\<forall>x. x \<noteq> c \<longrightarrow> containers s' x = containers s x) \<and>
        (\<forall>t. r = Inr t \<longrightarrow> containers s' c = Some True \<and> i \<in> images s')) \<and>
     (\<forall>d s i f root r s'. exec_file H d ''docker'' [''build'', ''-t'', i, ''-f'', f, root] s = (r, s') \<longrightarrow>
        containers s' = containers s \<and> images s \<subseteq> images s' \<and> (\<forall>t. r = Inr t \<longrightarrow> i \<in> images s')) \<and>
     (\<forall>s url body r s'. http_request H url body s = (r, s') \<longrightarrow> containers s' = containers s \<and> images s' = images s) \<and>
     (\<forall>s ms. containers (sleep_ms H ms s) = containers s \<and> images (sleep_ms H ms s) = images s)"

definition clock_documented :: "'n local_host \<Rightarrow> bool" where
  "clock_documented H \<longleftrightarrow> (\<forall>s ms. now_ms H s + int ms \<le> now_ms H (sleep_ms H ms s)) \<and>
     (\<forall>s url body r s'. http_request H url body s = (r, s') \<longrightarrow> now_ms H s \<le> now_ms H s')"

lemma tryRun_result: "tryRun H command args d s =
    (case exec_file H d command args s of (Inl e, s') \<Rightarrow> (Inr None, s') | (Inr t, s') \<Rightarrow> (Inr (Some (js_trim t)), s'))"
  by (simp add: tryRun_def run_command_def recover_def await_def give_apply split: prod.splits sum.splits)

text \<open>The laws, one by one.\<close>

lemmas docker_image = docker_documented_def [THEN iffD1, THEN conjunct1, rule_format]
lemmas docker_running = docker_documented_def [THEN iffD1, THEN conjunct2, THEN conjunct1, rule_format]
lemmas docker_name = docker_documented_def [THEN iffD1, THEN conjunct2, THEN conjunct2, THEN conjunct1, rule_format]
lemmas docker_rm = docker_documented_def [THEN iffD1, THEN conjunct2, THEN conjunct2, THEN conjunct2, THEN conjunct1, rule_format]
lemmas docker_run = docker_documented_def [THEN iffD1, THEN conjunct2, THEN conjunct2, THEN conjunct2, THEN conjunct2, THEN conjunct1, rule_format]
lemmas docker_build = docker_documented_def [THEN iffD1, THEN conjunct2, THEN conjunct2, THEN conjunct2, THEN conjunct2, THEN conjunct2, THEN conjunct1, rule_format]
lemmas docker_http = docker_documented_def [THEN iffD1, THEN conjunct2, THEN conjunct2, THEN conjunct2, THEN conjunct2, THEN conjunct2, THEN conjunct2, THEN conjunct1, rule_format]
lemmas docker_sleep = docker_documented_def [THEN iffD1, THEN conjunct2, THEN conjunct2, THEN conjunct2, THEN conjunct2, THEN conjunct2, THEN conjunct2, THEN conjunct2, rule_format]

lemma show_bool_true [simp]: "show_bool up = ''true'' \<longleftrightarrow> up"
  by (simp add: show_bool_def)

lemma imageExists_result:
  assumes D: "docker_documented H images containers"
  shows "imageExists H root L s = (Inr (ln_image L \<in> images s), s)"
  using docker_image [OF D, where d = root and s = s and i = "ln_image L"]
  by (auto simp: imageExists_def await_def tryRun_result give_apply some_text_def)

lemma containerExists_result:
  assumes D: "docker_documented H images containers"
  shows "containerExists H root L s = (Inr (containers s (ln_container L) \<noteq> None), s)"
  using docker_name [OF D, where d = root and s = s and c = "ln_container L"]
  by (auto simp: containerExists_def await_def tryRun_result give_apply some_text_def)

lemma containerRunning_result:
  assumes D: "docker_documented H images containers"
  shows "containerRunning H root L s = (Inr (containers s (ln_container L) = Some True), s)"
  using docker_running [OF D, where d = root and s = s and c = "ln_container L"]
  by (cases "containers s (ln_container L)") (auto simp: containerRunning_def await_def tryRun_result give_apply)

lemma removeContainer_result:
  assumes D: "docker_documented H images containers" and run: "removeContainer H root L s = (r, s')"
  shows "images s' = images s \<and> (\<forall>c. c \<noteq> ln_container L \<longrightarrow> containers s' c = containers s c) \<and>
    (r = Inr () \<longrightarrow> containers s' (ln_container L) = None)"
proof (cases "containers s (ln_container L)")
  case None
  then show ?thesis using run by (simp add: removeContainer_def await_def containerExists_result [OF D] give_apply)
next
  case (Some up)
  obtain q where q: "exec_file H root ''docker'' [''rm'', ''-f'', ln_container L] s = (q, s')" "r = Inr () \<longrightarrow> (\<exists>t. q = Inr t)"
    using run Some
    by (auto simp: removeContainer_def await_def containerExists_result [OF D] give_apply run_command_def split: prod.splits sum.splits)
  then show ?thesis using docker_rm [OF D q(1)] by auto
qed

lemma startContainer_result:
  assumes D: "docker_documented H images containers" and run: "startContainer H root L s = (r, s')"
  shows "images s \<subseteq> images s' \<and> (\<forall>c. c \<noteq> ln_container L \<longrightarrow> containers s' c = containers s c) \<and>
    (r = Inr () \<longrightarrow> containers s' (ln_container L) = Some True \<and> ln_image L \<in> images s')"
proof -
  obtain q where q: "exec_file H root ''docker'' [''run'', ''-d'', ''--name'', ln_container L, ''-p'', ln_ports L, ln_image L] s = (q, s')"
      "r = Inr () \<longrightarrow> (\<exists>t. q = Inr t)"
    using run by (auto simp: startContainer_def await_def give_apply run_command_def split: prod.splits sum.splits)
  then show ?thesis using docker_run [OF D q(1)] by auto
qed

lemma buildImage_result:
  assumes D: "docker_documented H images containers" and run: "buildImage H root L s = (r, s')"
  shows "containers s' = containers s \<and> images s \<subseteq> images s' \<and> (r = Inr () \<longrightarrow> ln_image L \<in> images s')"
proof -
  obtain q where q: "exec_file H root ''docker'' [''build'', ''-t'', ln_image L, ''-f'', dockerfilePath root L, root] s = (q, s')"
      "r = Inr () \<longrightarrow> (\<exists>t. q = Inr t)"
    using run by (auto simp: buildImage_def await_def give_apply run_command_def split: prod.splits sum.splits)
  then show ?thesis using docker_build [OF D q(1)] by auto
qed

lemma prepare_node_result:
  assumes D: "docker_documented H images containers" and run: "prepare_node H env root L s = (r, s')"
  shows "(\<forall>c. c \<noteq> ln_container L \<longrightarrow> containers s' c = containers s c) \<and>
    (r = Inr () \<longrightarrow> containers s' (ln_container L) = Some True \<and> ln_image L \<in> images s')"
proof -
  obtain r1 s1 where one: "(if env (ln_force L) = Some ''1'' then buildImage H root L
      else await (imageExists H root L) (\<lambda>there. if there then give () else buildImage H root L)) s = (r1, s1)" by (rule prod.exhaust)
  have s1: "containers s1 = containers s \<and> (r1 = Inr () \<longrightarrow> ln_image L \<in> images s1)"
    using one buildImage_result [OF D]
    by (auto simp: await_def imageExists_result [OF D] give_apply split: if_splits)
  show ?thesis
  proof (cases r1)
    case (Inl e)
    then show ?thesis using run one s1 by (auto simp: prepare_node_def await_def)
  next
    case (Inr u)
    have rest: "(if containers s1 (ln_container L) = Some True then give ()
        else await (removeContainer H root L) (\<lambda>_. startContainer H root L)) s1 = (r, s')"
      using run one Inr by (simp add: prepare_node_def await_def containerRunning_result [OF D])
    show ?thesis
    proof (cases "containers s1 (ln_container L) = Some True")
      case True
      then show ?thesis using rest s1 Inr by (auto simp: give_apply)
    next
      case False
      then have "await (removeContainer H root L) (\<lambda>_. startContainer H root L) s1 = (r, s')" using rest by simp
      then show ?thesis
      proof (cases rule: awaitE)
        case (fail e)
        then show ?thesis using removeContainer_result [OF D fail(1)] s1 by auto
      next
        case (ok a t)
        then show ?thesis using removeContainer_result [OF D ok(1)] startContainer_result [OF D ok(2)] s1 by auto
      qed
    qed
  qed
qed

subsection \<open>Waiting ends\<close>

definition polls_forward :: "'n local_host \<Rightarrow> ('n \<Rightarrow> bool \<times> 'n) \<Rightarrow> bool" where
  "polls_forward H ready \<longleftrightarrow> (\<forall>s b s'. ready s = (b, s') \<longrightarrow> now_ms H s \<le> now_ms H s')"

lemma probe_state:
  "rpcReady H url s = (b, s') \<Longrightarrow> \<exists>body r. http_request H url body s = (r, s')"
  "health H url s = (b, s') \<Longrightarrow> \<exists>body r. http_request H (url @ ''/health'') body s = (r, s')"
  unfolding rpcReady_def health_def by (auto split: prod.splits option.splits)

lemma probes_forward:
  assumes "clock_documented H"
  shows "polls_forward H (rpcReady H url)" "polls_forward H (health H url)"
  using assms unfolding polls_forward_def clock_documented_def by (meson probe_state)+

lemma wait_ends:
  assumes C: "clock_documented H" and R: "polls_forward H ready"
    and keep: "\<And>s b s'. ready s = (b, s') \<Longrightarrow> f s' = f s" "\<And>s. f (sleep_ms H 1000 s) = f s"
  shows "\<exists>b s'. wait_until H ready deadline s = Some (b, s') \<and> (\<not> b \<longrightarrow> deadline \<le> now_ms H s') \<and>
    (b \<longrightarrow> (\<exists>s0. ready s0 = (True, s') \<and> now_ms H s0 < deadline)) \<and> f s' = f s"
proof (induction "nat (deadline - now_ms H s)" arbitrary: s rule: less_induct)
  case less
  show ?case
  proof (cases "now_ms H s < deadline")
    case False
    then show ?thesis by (subst wait_until.simps) auto
  next
    case True
    obtain b s1 where b: "ready s = (b, s1)" by (rule prod.exhaust)
    show ?thesis
    proof (cases b)
      case True
      then show ?thesis using b \<open>now_ms H s < deadline\<close> keep by (subst wait_until.simps) auto
    next
      case False
      have "now_ms H s \<le> now_ms H s1" using R b unfolding polls_forward_def by blast
      moreover have "now_ms H s1 + int 1000 \<le> now_ms H (sleep_ms H 1000 s1)" using C unfolding clock_documented_def by blast
      ultimately have "nat (deadline - now_ms H (sleep_ms H 1000 s1)) < nat (deadline - now_ms H s)" using True by simp
      from less [OF this] obtain c s' where rest:
        "wait_until H ready deadline (sleep_ms H 1000 s1) = Some (c, s')" "\<not> c \<longrightarrow> deadline \<le> now_ms H s'"
        "c \<longrightarrow> (\<exists>s0. ready s0 = (True, s') \<and> now_ms H s0 < deadline)" "f s' = f (sleep_ms H 1000 s1)" by metis
      have "wait_until H ready deadline s = Some (c, s')"
        using b False True rest(1) by (simp add: wait_until.simps [of H ready deadline s])
      moreover have "f s' = f s" using rest(4) keep(1) [OF b] keep(2) by simp
      ultimately show ?thesis using rest(2,3) by blast
    qed
  qed
qed

text \<open>A probe is what the two node scripts poll with.\<close>

definition node_probe :: "('n local_host \<Rightarrow> string \<Rightarrow> 'n \<Rightarrow> bool \<times> 'n) \<Rightarrow> bool" where
  "node_probe ready \<longleftrightarrow> ready = rpcReady \<or> ready = health"

lemma waitReady_ends:
  assumes C: "clock_documented H" and D: "docker_documented H images containers" and P: "node_probe ready"
  shows "\<exists>r s'. waitReady H ready L s = Some (r, s') \<and> containers s' = containers s \<and> images s' = images s \<and>
    (r = Inr () \<longrightarrow> (\<exists>s0. ready H (ln_url L) s0 = (True, s'))) \<and>
    (r \<noteq> Inr () \<longrightarrow> now_ms H s + ln_timeout L \<le> now_ms H s')"
proof -
  have F: "polls_forward H (ready H (ln_url L))" using probes_forward [OF C] P unfolding node_probe_def by auto
  have K: "(containers s', images s') = (containers s, images s)" if "ready H (ln_url L) s = (b, s')" for s b s'
    using probe_state [of H "ln_url L" s b s'] that P docker_http [OF D] unfolding node_probe_def by (metis prod.inject)
  have S: "(containers (sleep_ms H 1000 s), images (sleep_ms H 1000 s)) = (containers s, images s)" for s
    using docker_sleep [OF D] by simp
  have "\<exists>b s'. wait_until H (ready H (ln_url L)) (now_ms H s + ln_timeout L) s = Some (b, s') \<and>
      (\<not> b \<longrightarrow> now_ms H s + ln_timeout L \<le> now_ms H s') \<and>
      (b \<longrightarrow> (\<exists>s0. ready H (ln_url L) s0 = (True, s') \<and> now_ms H s0 < now_ms H s + ln_timeout L)) \<and>
      (containers s', images s') = (containers s, images s)"
    by (rule wait_ends [OF C F]) (rule K, assumption, rule S)
  then obtain b s' where w: "wait_until H (ready H (ln_url L)) (now_ms H s + ln_timeout L) s = Some (b, s')"
      "\<not> b \<longrightarrow> now_ms H s + ln_timeout L \<le> now_ms H s'" "b \<longrightarrow> (\<exists>s0. ready H (ln_url L) s0 = (True, s'))"
      "containers s' = containers s" "images s' = images s"
    by auto
  then show ?thesis unfolding waitReady_def by (cases b) auto
qed

lemma ensure_local_result:
  assumes C: "clock_documented H" and D: "docker_documented H images containers" and P: "node_probe ready"
  shows "\<exists>r s'. ensure_local H ready env root L s = Some (r, s') \<and>
    (\<forall>c. c \<noteq> ln_container L \<longrightarrow> containers s' c = containers s c) \<and>
    (r = Inr () \<longrightarrow> containers s' (ln_container L) = Some True \<and> ln_image L \<in> images s' \<and>
       (\<exists>s0. ready H (ln_url L) s0 = (True, s')))"
proof -
  obtain r1 s1 where one: "prepare_node H env root L s = (r1, s1)" by (rule prod.exhaust)
  note p = prepare_node_result [OF D one]
  show ?thesis
  proof (cases r1)
    case (Inl e)
    then show ?thesis using one p by (simp add: ensure_local_def)
  next
    case (Inr u)
    from waitReady_ends [OF C D P, of L s1]
    obtain r s' where w: "waitReady H ready L s1 = Some (r, s')" "containers s' = containers s1" "images s' = images s1"
        "r = Inr () \<longrightarrow> (\<exists>s0. ready H (ln_url L) s0 = (True, s'))" by auto
    have "ensure_local H ready env root L s = Some (r, s')" using one Inr w(1) by (simp add: ensure_local_def)
    then show ?thesis using p Inr w by auto
  qed
qed

subsection \<open>Properties\<close>


subsection \<open>A machine\<close>

text \<open>A Docker host whose daemon starts what it is asked to, beside a database container.\<close>

record sim_host =
  sh_images :: "string set"
  sh_containers :: "string \<rightharpoonup> bool"
  sh_clock :: int

definition sim_docker :: "string list \<Rightarrow> (sim_host, string) script" where
  "sim_docker args s =
     (if hd args = ''image''
      then (if args ! 2 \<in> sh_images s then (Inr ''image'', s) else (Inl ''No such image'', s))
      else if hd args = ''inspect''
      then (case sh_containers s (args ! 3) of None \<Rightarrow> (Inl ''No such object'', s)
            | Some up \<Rightarrow> (if args ! 2 = ''{{.Name}}'' then Inr ''name'' else Inr (show_bool up), s))
      else if hd args = ''rm'' then (Inr ''removed'', s\<lparr>sh_containers := (sh_containers s)(args ! 2 := None)\<rparr>)
      else if hd args = ''run''
      then (if args ! 6 \<in> sh_images s
            then (Inr ''id'', s\<lparr>sh_containers := (sh_containers s)(args ! 3 \<mapsto> True)\<rparr>)
            else (Inl ''No such image'', s))
      else if hd args = ''build'' then (Inr ''built'', s\<lparr>sh_images := insert (args ! 2) (sh_images s)\<rparr>)
      else (Inl ''unknown command'', s))"

definition sim_machine :: "sim_host local_host" where
  "sim_machine = \<lparr>exec_file = (\<lambda>d command. sim_docker),
     http_request = (\<lambda>url body s. (if 5000 \<le> sh_clock s then Some (200, ''{\"result\":{},\"ok\":true}'') else None,
       s\<lparr>sh_clock := sh_clock s + 1\<rparr>)),
     now_ms = sh_clock, sleep_ms = (\<lambda>ms s. s\<lparr>sh_clock := sh_clock s + int ms\<rparr>)\<rparr>"

lemma show_bool_trim: "js_trim (show_bool up) = show_bool up"
  by (cases up) (simp_all add: show_bool_def, code_simp+)

lemma sim_clock: "clock_documented sim_machine"
  by (auto simp: clock_documented_def sim_machine_def)

lemma sim_documented: "docker_documented sim_machine sh_images sh_containers"
proof -
  have t: "js_trim ''image'' \<noteq> []" "js_trim ''name'' \<noteq> []" by code_simp+
  show ?thesis
    unfolding docker_documented_def sim_machine_def
    apply (intro conjI allI)
    apply (rule exI [of _ "''image''"], rule exI [of _ "''No such image''"], simp add: sim_docker_def t)
    subgoal for d s c by (cases "sh_containers s c") (simp_all add: sim_docker_def show_bool_trim)
    apply (rule exI [of _ "''name''"], rule exI [of _ "''No such object''"], simp add: sim_docker_def t split: option.splits)
    apply (auto simp: sim_docker_def split: if_splits)
    done
qed


end
