(* ===== verification/Hetero_Session.thy ===== *)
theory Hetero_Session
  imports Local_Nodes Chain_Client Translation
begin

text \<open>
  What the deploy scripts of the two other chains run in (\<open>scripts/xsmart/deploy-bc2.ts\<close>,
  \<open>deploy-bc3.ts\<close>, \<open>bc2-remote-proxy.ts\<close>): a machine with its commands and files, the environment
  (which the proxy changes), the deployment record and the deployment files. Waiting for a node may
  go on for ever, so scripts that wait give an option: None is a run that does not end.
\<close>

subsection \<open>Scripts that may not end\<close>

type_synonym ('s, 'a) open_script = "'s \<Rightarrow> ('a res \<times> 's) option"

definition lift_script :: "('s, 'a) script \<Rightarrow> ('s, 'a) open_script" where
  "lift_script m s = Some (m s)"

definition then_open :: "('s, 'a) open_script \<Rightarrow> ('a \<Rightarrow> ('s, 'b) open_script) \<Rightarrow> ('s, 'b) open_script" where
  "then_open m f s = (case m s of
     None \<Rightarrow> None
   | Some (Inl e, s') \<Rightarrow> Some (Inl e, s')
   | Some (Inr a, s') \<Rightarrow> f a s')"

text \<open>\<open>try { m } finally { c }\<close>: an exception of \<open>c\<close> replaces the outcome of \<open>m\<close>.\<close>

definition finally_do :: "('s, 'a) open_script \<Rightarrow> ('s, unit) script \<Rightarrow> ('s, 'a) open_script" where
  "finally_do m c s = (case m s of
     None \<Rightarrow> None
   | Some (r, s') \<Rightarrow> (case c s' of
       (Inl e, s'') \<Rightarrow> Some (Inl e, s'')
     | (Inr _, s'') \<Rightarrow> Some (r, s'')))"

lemma then_openE:
  assumes "then_open m f s = Some (r, s')"
  obtains (fail) e where "m s = Some (Inl e, s')" "r = Inl e"
    | (ok) a t where "m s = Some (Inr a, t)" "f a t = Some (r, s')"
  using assms by (auto simp: then_open_def split: option.splits prod.splits sum.splits)

subsection \<open>The machine and the session\<close>

record url_parts =
  url_protocol :: string
  url_hostname :: string
  url_port :: string

text \<open>
  Beside the commands, the HTTP client and the clock: the files of the machine, starting a program
  in the background, \<open>new URL\<close>, \<open>JSON.stringify\<close>, the process id, and the date as text.
\<close>

record 'n hetero =
  machine :: "'n local_host"
  tools :: ubtl_host
  read_text :: "string \<Rightarrow> 'n \<Rightarrow> string option"
  windows :: bool
  launch :: "string \<Rightarrow> 'n \<Rightarrow> 'n"
  parse_url :: "string \<Rightarrow> url_parts res"
  json_text :: "json \<Rightarrow> string"
  process_pid :: nat
  timestamp :: "'n \<Rightarrow> string"

record 'n hetero_session =
  ws_node :: 'n
  ws_env :: process_env
  ws_rec :: deployment
  ws_disk :: "string \<Rightarrow> string \<Rightarrow> deployment option"

definition on_machine :: "('n, 'a) script \<Rightarrow> ('n hetero_session, 'a) script" where
  "on_machine m s = (case m (ws_node s) of (r, n) \<Rightarrow> (r, s\<lparr>ws_node := n\<rparr>))"

definition on_machine_open :: "('n, 'a) open_script \<Rightarrow> ('n hetero_session, 'a) open_script" where
  "on_machine_open m s = map_option (\<lambda>(r, n). (r, s\<lparr>ws_node := n\<rparr>)) (m (ws_node s))"

definition run_in :: "'n hetero \<Rightarrow> string \<Rightarrow> string \<Rightarrow> string list \<Rightarrow> ('n hetero_session, string) script" where
  "run_in H cwd command args = on_machine (exec_file (machine H) cwd command args)"

definition with_env :: "(process_env \<Rightarrow> ('n hetero_session, 'a) script) \<Rightarrow> ('n hetero_session, 'a) script" where
  "with_env f s = f (ws_env s) s"

definition set_env :: "string \<Rightarrow> string \<Rightarrow> ('n hetero_session, unit) script" where
  "set_env name v s = (Inr (), s\<lparr>ws_env := (ws_env s)(name \<mapsto> v)\<rparr>)"

definition file_there :: "'n hetero \<Rightarrow> string \<Rightarrow> ('n hetero_session, bool) script" where
  "file_there H p s = (Inr (read_text H p (ws_node s) \<noteq> None), s)"

definition load_record :: "string \<Rightarrow> string \<Rightarrow> ('n hetero_session, unit) script" where
  "load_record system net s = (Inr (), s\<lparr>ws_rec := loadDeployment (ws_disk s) system net\<rparr>)"

definition look_up :: "string \<Rightarrow> ('n hetero_session, string) script" where
  "look_up key s = (Inr (contract_at (ws_rec s) key), s)"

definition record_entry :: "string \<Rightarrow> string \<Rightarrow> ('n hetero_session, unit) script" where
  "record_entry key v s = (Inr (), s\<lparr>ws_rec := set_contract key v (ws_rec s)\<rparr>)"

definition forget_entry :: "string \<Rightarrow> ('n hetero_session, unit) script" where
  "forget_entry key s = (Inr (), s\<lparr>ws_rec := (ws_rec s)\<lparr>d_contracts := (d_contracts (ws_rec s))(key := None)\<rparr>\<rparr>)"

definition store_record :: "'n hetero \<Rightarrow> ('n hetero_session, unit) script" where
  "store_record H s =
     (let d = (ws_rec s)\<lparr>d_deployedAt := Some (timestamp H (ws_node s))\<rparr> in
      (Inr (), s\<lparr>ws_rec := d, ws_disk := (ws_disk s)(d_system d := (ws_disk s (d_system d))(d_network d := Some d))\<rparr>))"

definition record_entries :: "(string \<times> string) list \<Rightarrow> ('n hetero_session, unit) script" where
  "record_entries entries = for_each entries (\<lambda>(key, v). record_entry key v)"

subsection \<open>Environment and text helpers\<close>

text \<open>\<open>process.env[name]?.trim() || fallback\<close>, and \<open>required_env\<close>.\<close>

definition env_or :: "process_env \<Rightarrow> string \<Rightarrow> string \<Rightarrow> string" where
  "env_or env name fallback = js_or (env_trim env name) fallback"

definition required_env :: "process_env \<Rightarrow> string \<Rightarrow> string res" where
  "required_env env name =
     (if env_trim env name = [] then Inl (''Missing required env var '' @ name) else Inr (env_trim env name))"

definition env_set :: "process_env \<Rightarrow> string \<Rightarrow> bool" where
  "env_set env name \<longleftrightarrow> env name = Some ''1''"

fun split_char :: "char \<Rightarrow> string \<Rightarrow> string list" where
  "split_char d [] = [[]]"
| "split_char d (c # cs) =
     (if c = d then [] # split_char d cs
      else (case split_char d cs of [] \<Rightarrow> [[c]] | p # ps \<Rightarrow> (c # p) # ps))"

definition optional_get :: "json option \<Rightarrow> string \<Rightarrow> json option" where
  "optional_get v k = (case v of None \<Rightarrow> None | Some j \<Rightarrow> json_get j k)"

subsection \<open>Scripts that leave the deployment files alone\<close>

definition keeps_disk :: "('n hetero_session, 'a) script \<Rightarrow> bool" where
  "keeps_disk m \<longleftrightarrow> (\<forall>s r s'. m s = (r, s') \<longrightarrow> ws_disk s' = ws_disk s)"

definition keeps_disk_open :: "('n hetero_session, 'a) open_script \<Rightarrow> bool" where
  "keeps_disk_open m \<longleftrightarrow> (\<forall>s r s'. m s = Some (r, s') \<longrightarrow> ws_disk s' = ws_disk s)"

named_theorems keeps "scripts that do not write the deployment files"

lemma keeps_on_machine [keeps]: "keeps_disk (on_machine m)"
  by (auto simp: keeps_disk_def on_machine_def split: prod.splits)

lemma keeps_run_in [keeps]: "keeps_disk (run_in H cwd command args)"
  by (simp add: run_in_def keeps)

lemma keeps_await [keeps]: "keeps_disk m \<Longrightarrow> (\<And>a. keeps_disk (f a)) \<Longrightarrow> keeps_disk (await m f)"
  unfolding keeps_disk_def
proof (intro allI impI)
  fix s r s'
  assume m: "\<forall>s r s'. m s = (r, s') \<longrightarrow> ws_disk s' = ws_disk s"
    and f: "\<And>a. \<forall>s r s'. f a s = (r, s') \<longrightarrow> ws_disk s' = ws_disk s"
    and run: "await m f s = (r, s')"
  from run show "ws_disk s' = ws_disk s" by (rule awaitE) (use m f in auto)
qed

lemma keeps_simple [keeps]:
  "keeps_disk (give a)" "keeps_disk (throw e)" "keeps_disk (of_res r)" "keeps_disk (set_env name v)"
  "keeps_disk (file_there H p)" "keeps_disk (load_record system net)" "keeps_disk (look_up key)"
  "keeps_disk (record_entry key v)" "keeps_disk (forget_entry key)"
  by (auto simp: keeps_disk_def give_apply throw_apply of_res_apply set_env_def file_there_def load_record_def
      look_up_def record_entry_def forget_entry_def)

lemma keeps_recover [keeps]: "keeps_disk m \<Longrightarrow> (\<And>e. keeps_disk (h e)) \<Longrightarrow> keeps_disk (recover m h)"
  unfolding keeps_disk_def recover_def by (simp split: prod.splits sum.splits)

lemma keeps_with_env [keeps]: "(\<And>env. keeps_disk (f env)) \<Longrightarrow> keeps_disk (with_env f)"
  by (auto simp: keeps_disk_def with_env_def)

lemma keeps_if [keeps]: "(c \<Longrightarrow> keeps_disk m) \<Longrightarrow> (\<not> c \<Longrightarrow> keeps_disk m') \<Longrightarrow> keeps_disk (if c then m else m')"
  by simp

lemma keeps_for_each [keeps]: "(\<And>x. keeps_disk (body x)) \<Longrightarrow> keeps_disk (for_each xs body)"
  by (induction xs) (auto intro!: keeps)

lemma keeps_record_entries [keeps]: "keeps_disk (record_entries entries)"
  by (auto simp: record_entries_def intro!: keeps split: prod.splits)

lemma keeps_lift [keeps]: "keeps_disk m \<Longrightarrow> keeps_disk_open (lift_script m)"
  by (simp add: keeps_disk_def keeps_disk_open_def lift_script_def)

lemma keeps_then_open [keeps]:
  "keeps_disk_open m \<Longrightarrow> (\<And>a. keeps_disk_open (f a)) \<Longrightarrow> keeps_disk_open (then_open m f)"
  unfolding keeps_disk_open_def
proof (intro allI impI)
  fix s r s'
  assume m: "\<forall>s r s'. m s = Some (r, s') \<longrightarrow> ws_disk s' = ws_disk s"
    and f: "\<And>a. \<forall>s r s'. f a s = Some (r, s') \<longrightarrow> ws_disk s' = ws_disk s"
    and run: "then_open m f s = Some (r, s')"
  from run show "ws_disk s' = ws_disk s" by (rule then_openE) (use m f in auto)
qed

lemma keeps_on_machine_open [keeps]: "keeps_disk_open (on_machine_open m)"
  by (auto simp: keeps_disk_open_def on_machine_open_def)

lemma keeps_if_open [keeps]:
  "(c \<Longrightarrow> keeps_disk_open m) \<Longrightarrow> (\<not> c \<Longrightarrow> keeps_disk_open m') \<Longrightarrow> keeps_disk_open (if c then m else m')"
  by simp

end
