(* ===== verification/Deploy_Fabric.thy ===== *)
theory Deploy_Fabric
  imports Hetero_Session
begin

text \<open>
  \<open>scripts/xsmart/deploy-bc3.ts\<close>: the Fabric chain, either the local simulator or a network reached
  through the \<open>peer\<close> command line. Console output and \<open>ensureDir\<close> are left out.
\<close>

datatype bc3_mode = Bc3_local | Bc3_peercli

definition deployMode_bc3 :: "process_env \<Rightarrow> bc3_mode" where
  "deployMode_bc3 env =
     (if to_lower (env_trim env ''XSMART_BC3_DEPLOY_MODE'') \<in> {''peercli'', ''prod'', ''production''}
      then Bc3_peercli else Bc3_local)"

subsection \<open>The local simulator\<close>

text \<open>A client error rejects the promise; its message is not modelled.\<close>

definition postJSON :: "'n hetero \<Rightarrow> string \<Rightarrow> json \<Rightarrow> ('n hetero_session, json) script" where
  "postJSON H url payload =
     await (of_res (parse_url H url)) (\<lambda>_.
     await (\<lambda>s. case http_request (machine H) url (json_text H payload) (ws_node s) of
         (None, n) \<Rightarrow> (Inl ''request failed'', s\<lparr>ws_node := n\<rparr>)
       | (Some (_, raw), n) \<Rightarrow> (Inr raw, s\<lparr>ws_node := n\<rparr>)) (\<lambda>raw.
     of_res (parse_json (tools H) (js_or raw ''{}''))))"

definition bootstrap_request :: json where
  "bootstrap_request = JsonObject
     [(''endpoint'', JsonString ''xbridge_bc3''), (''message'', JsonString ''bootstrap''),
      (''args'', JsonObject
        [(''bridge'', JsonString ''xbridge_bc3''), (''relayer_id'', JsonString ''xsmart-relayer''),
         (''price'', JsonNumber (show_int (HOTEL_PRICE CONSTS))),
         (''remain'', JsonNumber (show_int (HOTEL_REMAIN CONSTS))),
         (''lock_size'', JsonNumber (show_int (LOCK_SIZE CONSTS)))])]"

definition bootstrap_error :: "json \<Rightarrow> string" where
  "bootstrap_error response =
     (let e = json_get response ''error'' in
      ''bc3 bootstrap failed: '' @ (if json_truthy e then js_string (the e) else ''unknown error''))"

definition deployLocal :: "'n hetero \<Rightarrow> string \<Rightarrow> ('n hetero_session, unit) open_script" where
  "deployLocal H root = (\<lambda>s0. (let env = ws_env s0; url = ln_url (bc3_node env) in
     then_open (on_machine_open (ensureLocalBC3Fabric (machine H) env root)) (\<lambda>_.
     lift_script (await (postJSON H (url @ ''/invoke'') bootstrap_request) (\<lambda>response.
       if \<not> json_truthy (json_get response ''ok'') then throw (bootstrap_error response)
       else record_entries
         [(''hotelBooking'', ''hotel_booking''), (''xBridgeBc3'', ''xbridge_bc3''),
          (''bc3FabricHttp'', js_or (env_text env ''BC3_FABRIC_HTTP_URL'') url),
          (''bc3ChainId'', js_or (env_text env ''BC3_FABRIC_CHAIN_ID'') ''3''),
          (''bc3NetworkId'', js_or (env_text env ''BC3_FABRIC_NETWORK_ID'') ''local-simulator'')]))) s0))"

subsection \<open>The peer command line\<close>

definition peerBinary :: "process_env \<Rightarrow> string" where
  "peerBinary env = env_or env ''BC3_FABRIC_PEER_BIN'' ''peer''"

definition chaincodePackagePath :: "string \<Rightarrow> string" where
  "chaincodePackagePath root = path_join [root, ''artifacts'', ''xsmart'', ''fabric'', ''xsmart-bc3.tar.gz'']"

definition splitCsvEnv :: "process_env \<Rightarrow> string \<Rightarrow> string list" where
  "splitCsvEnv env name = filter (\<lambda>v. v \<noteq> []) (map js_trim (split_char (CHR '','') (env_text env name)))"

definition run_peer :: "'n hetero \<Rightarrow> string \<Rightarrow> string list \<Rightarrow> ('n hetero_session, unit) script" where
  "run_peer H root args = with_env (\<lambda>env. await (run_in H root (peerBinary env) args) (\<lambda>_. give ()))"

definition packageChaincode :: "'n hetero \<Rightarrow> string \<Rightarrow> string \<Rightarrow> string \<Rightarrow> string \<Rightarrow> ('n hetero_session, unit) script" where
  "packageChaincode H root packagePath label chaincodeDir =
     run_peer H root [''lifecycle'', ''chaincode'', ''package'', packagePath, ''--path'', chaincodeDir,
       ''--lang'', ''golang'', ''--label'', label]"

definition installChaincode :: "'n hetero \<Rightarrow> string \<Rightarrow> string \<Rightarrow> ('n hetero_session, unit) script" where
  "installChaincode H root packagePath = run_peer H root [''lifecycle'', ''chaincode'', ''install'', packagePath]"

definition queryInstalled :: "'n hetero \<Rightarrow> string \<Rightarrow> ('n hetero_session, string) script" where
  "queryInstalled H root = with_env (\<lambda>env. run_in H root (peerBinary env) [''lifecycle'', ''chaincode'', ''queryinstalled''])"

text \<open>
  The match of \<open>Package ID:\s*([^,]+),\s*Label:\s*(.+)\s*$\<close> at the start of a text, both groups
  trimmed. The first group runs to the first comma; the second is what is left of the line, and as
  a dot does not match a carriage return, a line with one inside has no match.
\<close>

definition label_group :: "string \<Rightarrow> string option" where
  "label_group rest =
     (let t = js_trim rest in
      if CHR 0x0D \<in> set t \<or> (t = [] \<and> (\<forall>c \<in> set rest. c = CHR 0x0D)) then None else Some t)"

definition match_package :: "string \<Rightarrow> (string \<times> string) option" where
  "match_package text =
     (if \<not> starts_with text ''Package ID:'' then None
      else
        (let body = drop 11 text;
             package = takeWhile (\<lambda>c. c \<noteq> CHR '','') body;
             after = dropWhile is_js_space (drop (Suc (length package)) body) in
         if package = [] \<or> package = body \<or> \<not> starts_with after ''Label:'' then None
         else map_option (Pair (js_trim package)) (label_group (drop 6 after))))"

text \<open>\<open>line.match(...)\<close>: the leftmost match.\<close>

fun find_package :: "string \<Rightarrow> (string \<times> string) option" where
  "find_package [] = None"
| "find_package (c # cs) = (case match_package (c # cs) of Some m \<Rightarrow> Some m | None \<Rightarrow> find_package cs)"

fun package_of_lines :: "string \<Rightarrow> string list \<Rightarrow> string option" where
  "package_of_lines label [] = None"
| "package_of_lines label (line # rest) =
     (case find_package line of
        Some (package, name) \<Rightarrow> if name = label then Some package else package_of_lines label rest
      | None \<Rightarrow> package_of_lines label rest)"

definition packageIDForLabel :: "string \<Rightarrow> string \<Rightarrow> string res" where
  "packageIDForLabel listing label =
     (case package_of_lines label (split_lines [] listing) of
        Some package \<Rightarrow> Inr package
      | None \<Rightarrow> Inl (''Unable to locate package ID for label '' @ label))"

definition maybeAppendTLSFlags :: "process_env \<Rightarrow> string list \<Rightarrow> string list res" where
  "maybeAppendTLSFlags env args =
     (if js_trim (js_or (env_text env ''BC3_FABRIC_TLS_ENABLED'') ''1'') = ''0'' then Inr args
      else res_bind (required_env env ''BC3_FABRIC_ORDERER_TLS_CA'') (\<lambda>ca. Inr (args @ [''--tls'', ''--cafile'', ca])))"

definition approveForMyOrg ::
    "'n hetero \<Rightarrow> string \<Rightarrow> string \<Rightarrow> string \<Rightarrow> string \<Rightarrow> string \<Rightarrow> string \<Rightarrow> ('n hetero_session, unit) script" where
  "approveForMyOrg H root package name version sequence channel = with_env (\<lambda>env.
     await (of_res (required_env env ''BC3_FABRIC_ORDERER_ENDPOINT'')) (\<lambda>orderer.
     await (of_res (maybeAppendTLSFlags env
       [''lifecycle'', ''chaincode'', ''approveformyorg'', ''-o'', orderer, ''--channelID'', channel,
        ''--name'', name, ''--version'', version, ''--package-id'', package, ''--sequence'', sequence])) (\<lambda>args.
     run_peer H root args)))"

text \<open>The peers with their certificates, by position; \<open>tlsRoots[i]\<close> beyond the end is undefined.\<close>

fun peer_flags :: "string list \<Rightarrow> string list \<Rightarrow> string list" where
  "peer_flags [] roots = []"
| "peer_flags (p # ps) [] = ''--peerAddresses'' # p # peer_flags ps []"
| "peer_flags (p # ps) (r # roots) =
     ''--peerAddresses'' # p # (if r = [] then [] else [''--tlsRootCertFiles'', r]) @ peer_flags ps roots"

definition commit_args :: "process_env \<Rightarrow> string \<Rightarrow> string \<Rightarrow> string \<Rightarrow> string \<Rightarrow> string list res" where
  "commit_args env name version sequence channel =
     res_bind (required_env env ''BC3_FABRIC_ORDERER_ENDPOINT'') (\<lambda>orderer.
     let peers = splitCsvEnv env ''BC3_FABRIC_PEER_ADDRESSES'';
         roots = splitCsvEnv env ''BC3_FABRIC_TLS_ROOT_CERT_FILES'' in
     if peers = [] then Inl ''BC3_FABRIC_PEER_ADDRESSES is required''
     else if roots \<noteq> [] \<and> length roots \<noteq> length peers
     then Inl ''BC3_FABRIC_TLS_ROOT_CERT_FILES must match BC3_FABRIC_PEER_ADDRESSES count''
     else maybeAppendTLSFlags env
       ([''lifecycle'', ''chaincode'', ''commit'', ''-o'', orderer, ''--channelID'', channel, ''--name'', name,
         ''--version'', version, ''--sequence'', sequence] @ peer_flags peers roots))"

definition commitChaincode ::
    "'n hetero \<Rightarrow> string \<Rightarrow> string \<Rightarrow> string \<Rightarrow> string \<Rightarrow> string \<Rightarrow> ('n hetero_session, unit) script" where
  "commitChaincode H root name version sequence channel = with_env (\<lambda>env.
     await (of_res (commit_args env name version sequence channel)) (run_peer H root))"

definition invoke_command :: "'n hetero \<Rightarrow> process_env \<Rightarrow> string \<Rightarrow> string \<Rightarrow> string \<Rightarrow> string list \<Rightarrow> string list res" where
  "invoke_command H env name channel fn args =
     res_bind (required_env env ''BC3_FABRIC_ORDERER_ENDPOINT'') (\<lambda>orderer.
     let peers = splitCsvEnv env ''BC3_FABRIC_PEER_ADDRESSES'';
         roots = splitCsvEnv env ''BC3_FABRIC_TLS_ROOT_CERT_FILES'';
         payload = json_text H (JsonObject [(''function'', JsonString fn), (''Args'', JsonArray (map JsonString args))]) in
     if peers = [] then Inl ''BC3_FABRIC_PEER_ADDRESSES is required''
     else maybeAppendTLSFlags env
       ([''chaincode'', ''invoke'', ''-o'', orderer, ''-C'', channel, ''-n'', name, ''-c'', payload, ''--waitForEvent'']
        @ peer_flags peers roots))"

definition invokeChaincode ::
    "'n hetero \<Rightarrow> string \<Rightarrow> string \<Rightarrow> string \<Rightarrow> string \<Rightarrow> string list \<Rightarrow> ('n hetero_session, unit) script" where
  "invokeChaincode H root name channel fn args = with_env (\<lambda>env.
     await (of_res (invoke_command H env name channel fn args)) (run_peer H root))"

text \<open>A step of the deployment that an environment variable switches off.\<close>

definition unless_set :: "string \<Rightarrow> ('n hetero_session, unit) script \<Rightarrow> ('n hetero_session, unit) script" where
  "unless_set name m = with_env (\<lambda>env. if env_set env name then give () else m)"

definition deployPeerCLI :: "'n hetero \<Rightarrow> string \<Rightarrow> ('n hetero_session, unit) script" where
  "deployPeerCLI H root = with_env (\<lambda>env.
     (let name = env_or env ''BC3_FABRIC_CHAINCODE_NAME'' ''xsmart-bc3'';
          label = env_or env ''BC3_FABRIC_CHAINCODE_LABEL'' (name @ ''_1'');
          version = env_or env ''BC3_FABRIC_CHAINCODE_VERSION'' ''1.0'';
          sequence = env_or env ''BC3_FABRIC_CHAINCODE_SEQUENCE'' ''1'';
          channel = env_or env ''BC3_FABRIC_CHANNEL'' ''mychannel'';
          relayerMSP = env_or env ''BC3_FABRIC_RELAYER_MSP'' ''Org1MSP'';
          bridgeMSP = env_or env ''BC3_FABRIC_BRIDGE_MSP'' relayerMSP;
          packagePath = env_or env ''BC3_FABRIC_PACKAGE_PATH'' (chaincodePackagePath root) in
      await (of_res (normalizeEndpointForVM (tools H) Fabric_vm
        (js_or (env_text env ''XSMART_BC3_STATE_CONTRACT'') ''HotelBooking''))) (\<lambda>stateContract.
      await (of_res (normalizeEndpointForVM (tools H) Fabric_vm
        (js_or (env_text env ''XSMART_BC3_ACCOUNT_ENDPOINT'') ''XBridgeBc3''))) (\<lambda>bridgeContract.
      await (unless_set ''XSMART_BC3_SKIP_PACKAGE'' (packageChaincode H root packagePath label
        (path_join [root, ''contracts'', ''xsmart'', ''bc3'']))) (\<lambda>_.
      await (unless_set ''XSMART_BC3_SKIP_INSTALL'' (installChaincode H root packagePath)) (\<lambda>_.
      await (if env_trim env ''BC3_FABRIC_PACKAGE_ID'' \<noteq> [] then give (env_trim env ''BC3_FABRIC_PACKAGE_ID'')
             else await (queryInstalled H root) (\<lambda>listing. of_res (packageIDForLabel listing label))) (\<lambda>package.
      await (unless_set ''XSMART_BC3_SKIP_APPROVE'' (approveForMyOrg H root package name version sequence channel)) (\<lambda>_.
      await (unless_set ''XSMART_BC3_SKIP_COMMIT'' (commitChaincode H root name version sequence channel)) (\<lambda>_.
      await (unless_set ''XSMART_BC3_SKIP_BOOTSTRAP''
        (await (invokeChaincode H root name channel ''HotelBooking:InitLedger''
           [bridgeMSP, show_int (HOTEL_PRICE CONSTS), show_int (HOTEL_REMAIN CONSTS), show_int (LOCK_SIZE CONSTS)]) (\<lambda>_.
         invokeChaincode H root name channel ''XBridgeBc3:InitLedger'' [relayerMSP, stateContract]))) (\<lambda>_.
      await (of_res (normalizeEndpointForVM (tools H) Fabric_vm stateContract)) (\<lambda>stateEntry.
      await (of_res (normalizeEndpointForVM (tools H) Fabric_vm bridgeContract)) (\<lambda>bridgeEntry.
      record_entries
        [(''hotelBooking'', stateEntry), (''xBridgeBc3'', bridgeEntry), (''bc3FabricChaincode'', name),
         (''bc3FabricChannel'', channel), (''bc3FabricGatewayEndpoint'', env_text env ''BC3_FABRIC_GATEWAY_ENDPOINT''),
         (''bc3FabricMSPID'', relayerMSP), (''bc3FabricPeerName'', env_text env ''BC3_FABRIC_PEER_NAME''),
         (''bc3ChainId'', js_or (env_text env ''BC3_FABRIC_CHAIN_ID'') ''3''),
         (''bc3NetworkId'', js_or (env_text env ''BC3_FABRIC_NETWORK_ID'') channel)]))))))))))))"

subsection \<open>The script\<close>

definition deploy_bc3 :: "'n hetero \<Rightarrow> ('n hetero_session, unit) open_script" where
  "deploy_bc3 H =
     (let root = repoRoot (tools H) in
      then_open (lift_script (load_record ''xsmart'' ''bc3'')) (\<lambda>_.
      then_open (\<lambda>s. if deployMode_bc3 (ws_env s) = Bc3_peercli then lift_script (deployPeerCLI H root) s
                     else deployLocal H root s) (\<lambda>_.
      lift_script (store_record H))))"

subsection \<open>Package ids and certificates\<close>

text \<open>What \<open>queryinstalled\<close> prints.\<close>

definition package_line :: "string \<times> string \<Rightarrow> string" where
  "package_line = (\<lambda>(package, label). ''Package ID: '' @ package @ '', Label: '' @ label)"

definition installed_listing :: "(string \<times> string) list \<Rightarrow> string" where
  "installed_listing packages = join [CHR 0x0A] (''Installed chaincodes on peer:'' # map package_line packages)"

definition plain_text :: "string \<Rightarrow> bool" where
  "plain_text t \<longleftrightarrow> t \<noteq> [] \<and> js_trim t = t \<and> CHR 0x0A \<notin> set t \<and> CHR 0x0D \<notin> set t"

lemma js_space [simp]: "is_js_space (CHR '' '')" "\<not> is_js_space (CHR ''L'')"
  by code_simp+

lemma js_trim_space: "js_trim (CHR '' '' # t) = js_trim t"
  by (simp add: js_trim_def)

lemma match_line:
  assumes "plain_text p" "CHR '','' \<notin> set p" "plain_text l"
  shows "match_package (package_line (p, l)) = Some (p, l)"
proof -
  have take: "takeWhile (\<lambda>c. c \<noteq> CHR '','') (p @ CHR '','' # r) = p" for r
    using assms(2) by (subst takeWhile_append2) auto
  have t: "js_trim p = p" "js_trim l = l" "l \<noteq> []" "CHR 0x0D \<notin> set l" "p \<noteq> []"
    using assms by (auto simp: plain_text_def)
  have group: "label_group (CHR '' '' # l) = Some l"
    using t by (simp add: label_group_def js_trim_space Let_def)
  have printed: "package_line (p, l) = ''Package ID:'' @ CHR '' '' # p @ CHR '','' # '' Label:'' @ CHR '' '' # l"
    by (simp add: package_line_def)
  show ?thesis
    unfolding printed match_package_def
    by (simp add: starts_with_def take t js_trim_space group Let_def)
qed

lemma find_line: "plain_text p \<Longrightarrow> CHR '','' \<notin> set p \<Longrightarrow> plain_text l \<Longrightarrow> find_package (package_line (p, l)) = Some (p, l)"
  using match_line [of p l] by (cases "package_line (p, l)") (simp_all add: package_line_def)

lemma split_joined:
  assumes "lines \<noteq> []" "\<forall>l \<in> set lines. CHR 0x0A \<notin> set l \<and> CHR 0x0D \<notin> set l"
  shows "split_lines acc (join [CHR 0x0A] lines) = (rev acc @ hd lines) # tl lines"
proof -
  have plain: "split_lines acc (l @ rest) = split_lines (rev l @ acc) rest" if "CHR 0x0A \<notin> set l" "CHR 0x0D \<notin> set l" for acc l rest
    using that by (induction l arbitrary: acc) auto
  show ?thesis using assms
  proof (induction lines arbitrary: acc)
    case (Cons l ls)
    then show ?case by (cases ls) (auto simp: plain plain [where rest = "[]", simplified])
  qed simp
qed

text \<open>
  The package id is read back from what the peer prints: in a listing of installed packages, whose
  ids have no comma and whose texts are trimmed single lines, packageIDForLabel finds the id of a
  package with that label, and reports an error exactly when there is none. When several packages
  carry the label it is the first one listed, whichever was installed last.
\<close>

lemma package_id_read_back:
  assumes "\<forall>(p, l) \<in> set packages. plain_text p \<and> CHR '','' \<notin> set p \<and> plain_text l"
  shows "packageIDForLabel (installed_listing packages) label =
    (case filter (\<lambda>(p, l). l = label) packages of
       [] \<Rightarrow> Inl (''Unable to locate package ID for label '' @ label)
     | (p, l) # _ \<Rightarrow> Inr p)"
proof -
  have lines: "package_of_lines label (map package_line packages) =
      (case filter (\<lambda>(p, l). l = label) packages of [] \<Rightarrow> None | (p, l) # _ \<Rightarrow> Some p)"
    using assms by (induction packages) (auto simp: find_line)
  have head: "find_package ''Installed chaincodes on peer:'' = None" by code_simp
  have "split_lines [] (installed_listing packages) = ''Installed chaincodes on peer:'' # map package_line packages"
    unfolding installed_listing_def using assms by (subst split_joined) (auto simp: package_line_def plain_text_def)
  then show ?thesis
    by (simp add: packageIDForLabel_def head lines split: list.splits del: find_package.simps)
qed

lemma package_id_example:
  "packageIDForLabel (installed_listing [(''old_1:aa'', ''xsmart-bc3_1''), (''new_1:bb'', ''xsmart-bc3_1'')]) ''xsmart-bc3_1'' = Inr ''old_1:aa''"
proof -
  have "plain_text ''old_1:aa''" "plain_text ''new_1:bb''" "plain_text ''xsmart-bc3_1''" by code_simp+
  then show ?thesis
    using package_id_read_back [of "[(''old_1:aa'', ''xsmart-bc3_1''), (''new_1:bb'', ''xsmart-bc3_1'')]" "''xsmart-bc3_1''"] by simp
qed

text \<open>Three peers, and certificates for the first and the third.\<close>

definition gap_env :: process_env where
  "gap_env = [''BC3_FABRIC_ORDERER_ENDPOINT'' \<mapsto> ''orderer:7050'', ''BC3_FABRIC_ORDERER_TLS_CA'' \<mapsto> ''ca.pem'',
     ''BC3_FABRIC_PEER_ADDRESSES'' \<mapsto> ''peer1,peer2,peer3'', ''BC3_FABRIC_TLS_ROOT_CERT_FILES'' \<mapsto> ''cert1,,cert3'']"

definition peer_with_root :: "string \<times> string \<Rightarrow> string list" where
  "peer_with_root = (\<lambda>(p, r). [''--peerAddresses'', p, ''--tlsRootCertFiles'', r])"

lemma peer_flags_paired:
  "length roots = length peers \<Longrightarrow> \<forall>r \<in> set roots. r \<noteq> [] \<Longrightarrow> peer_flags peers roots = concat (map peer_with_root (zip peers roots))"
  by (induction peers roots rule: peer_flags.induct) (auto simp: peer_with_root_def)

lemma peer_flags_none: "peer_flags peers [] = concat (map (\<lambda>p. [''--peerAddresses'', p]) peers)"
  by (induction peers) auto

lemma TLS_flags_append: "maybeAppendTLSFlags env args = Inr r \<Longrightarrow> \<exists>post. r = args @ post"
  by (auto simp: maybeAppendTLSFlags_def res_bind_Inr_iff split: if_splits)

lemma committed_flags:
  assumes "commit_args env name version sequence channel = Inr args"
  shows "\<exists>pre post. (splitCsvEnv env ''BC3_FABRIC_TLS_ROOT_CERT_FILES'' = [] \<or>
      length (splitCsvEnv env ''BC3_FABRIC_TLS_ROOT_CERT_FILES'') = length (splitCsvEnv env ''BC3_FABRIC_PEER_ADDRESSES'')) \<and>
    args = pre @ peer_flags (splitCsvEnv env ''BC3_FABRIC_PEER_ADDRESSES'') (splitCsvEnv env ''BC3_FABRIC_TLS_ROOT_CERT_FILES'') @ post"
proof (cases "required_env env ''BC3_FABRIC_ORDERER_ENDPOINT''")
  case (Inr orderer)
  let ?peers = "splitCsvEnv env ''BC3_FABRIC_PEER_ADDRESSES''" and ?roots = "splitCsvEnv env ''BC3_FABRIC_TLS_ROOT_CERT_FILES''"
  let ?pre = "[''lifecycle'', ''chaincode'', ''commit'', ''-o'', orderer, ''--channelID'', channel, ''--name'', name,
         ''--version'', version, ''--sequence'', sequence]"
  have c: "?roots = [] \<or> length ?roots = length ?peers" "maybeAppendTLSFlags env (?pre @ peer_flags ?peers ?roots) = Inr args"
    using assms Inr by (auto simp: commit_args_def Let_def split: if_splits)
  obtain post where "args = (?pre @ peer_flags ?peers ?roots) @ post" using TLS_flags_append [OF c(2)] by (rule exE)
  then show ?thesis using c(1) by (intro exI [of _ ?pre] exI [of _ post]) simp
qed (use assms in \<open>simp add: commit_args_def\<close>)

text \<open>
  C33. A commit gives every peer the certificate at its own position, or no peer any: it refuses lists
  of different lengths. The invoke that follows does not check: with a certificate missing in the
  middle (and the commit switched off) it gives the second peer the third peer's certificate.
\<close>

theorem fabric_certificates:
  assumes "commit_args env name version sequence channel = Inr args"
  shows "(\<exists>pre post. args = pre @ concat (if splitCsvEnv env ''BC3_FABRIC_TLS_ROOT_CERT_FILES'' = []
        then map (\<lambda>p. [''--peerAddresses'', p]) (splitCsvEnv env ''BC3_FABRIC_PEER_ADDRESSES'')
        else map peer_with_root (zip (splitCsvEnv env ''BC3_FABRIC_PEER_ADDRESSES'')
          (splitCsvEnv env ''BC3_FABRIC_TLS_ROOT_CERT_FILES''))) @ post) \<and>
    (\<exists>e. commit_args gap_env name version sequence channel = Inl e) \<and>
    (\<exists>pre post. invoke_command H gap_env name channel fn as =
       Inr (pre @ peer_with_root (''peer1'', ''cert1'') @ peer_with_root (''peer2'', ''cert3'') @ [''--peerAddresses'', ''peer3''] @ post))"
proof (intro conjI)
  let ?peers = "splitCsvEnv env ''BC3_FABRIC_PEER_ADDRESSES''" and ?roots = "splitCsvEnv env ''BC3_FABRIC_TLS_ROOT_CERT_FILES''"
  have ne: "\<forall>r \<in> set ?roots. r \<noteq> []" by (auto simp: splitCsvEnv_def)
  obtain pre post where flags: "?roots = [] \<or> length ?roots = length ?peers" "args = pre @ peer_flags ?peers ?roots @ post"
    using committed_flags [OF assms] by blast
  have "peer_flags ?peers ?roots = concat (if ?roots = [] then map (\<lambda>p. [''--peerAddresses'', p]) ?peers
      else map peer_with_root (zip ?peers ?roots))"
    using peer_flags_paired [OF _ ne] flags(1) by (cases "?roots = []") (simp_all add: peer_flags_none)
  then show "\<exists>pre post. args = pre @ concat (if ?roots = [] then map (\<lambda>p. [''--peerAddresses'', p]) ?peers
      else map peer_with_root (zip ?peers ?roots)) @ post"
    using flags(2) by metis
  have e: "required_env gap_env ''BC3_FABRIC_ORDERER_ENDPOINT'' = Inr ''orderer:7050''"
    "required_env gap_env ''BC3_FABRIC_ORDERER_TLS_CA'' = Inr ''ca.pem''"
    "splitCsvEnv gap_env ''BC3_FABRIC_PEER_ADDRESSES'' = [''peer1'', ''peer2'', ''peer3'']"
    "splitCsvEnv gap_env ''BC3_FABRIC_TLS_ROOT_CERT_FILES'' = [''cert1'', ''cert3'']"
    "js_trim (js_or (env_text gap_env ''BC3_FABRIC_TLS_ENABLED'') ''1'') \<noteq> ''0''"
    by code_simp+
  show "\<exists>e. commit_args gap_env name version sequence channel = Inl e"
    by (simp add: commit_args_def e)
  show "\<exists>pre post. invoke_command H gap_env name channel fn as =
      Inr (pre @ peer_with_root (''peer1'', ''cert1'') @ peer_with_root (''peer2'', ''cert3'') @ [''--peerAddresses'', ''peer3''] @ post)"
    by (intro exI [of _ "[''chaincode'', ''invoke'', ''-o'', ''orderer:7050'', ''-C'', channel, ''-n'', name, ''-c'',
          json_text H (JsonObject [(''function'', JsonString fn), (''Args'', JsonArray (map JsonString as))]), ''--waitForEvent'']"]
        exI [of _ "[''--tls'', ''--cafile'', ''ca.pem'']"])
      (simp add: invoke_command_def maybeAppendTLSFlags_def e Let_def peer_with_root_def)
qed

text \<open>Two peers and their certificates.\<close>

definition two_peers_env :: process_env where
  "two_peers_env = [''BC3_FABRIC_ORDERER_ENDPOINT'' \<mapsto> ''orderer:7050'', ''BC3_FABRIC_TLS_ENABLED'' \<mapsto> ''0'',
     ''BC3_FABRIC_PEER_ADDRESSES'' \<mapsto> ''peer1,peer2'', ''BC3_FABRIC_TLS_ROOT_CERT_FILES'' \<mapsto> ''cert1,cert2'']"

theorem fabric_certificates_witness:
  "\<exists>args pre post. commit_args two_peers_env ''xsmart-bc3'' ''1.0'' ''1'' ''mychannel'' = Inr args \<and>
     args = pre @ peer_with_root (''peer1'', ''cert1'') @ peer_with_root (''peer2'', ''cert2'') @ post"
proof -
  have e: "required_env two_peers_env ''BC3_FABRIC_ORDERER_ENDPOINT'' = Inr ''orderer:7050''"
    "splitCsvEnv two_peers_env ''BC3_FABRIC_PEER_ADDRESSES'' = [''peer1'', ''peer2'']"
    "splitCsvEnv two_peers_env ''BC3_FABRIC_TLS_ROOT_CERT_FILES'' = [''cert1'', ''cert2'']"
    "js_trim (js_or (env_text two_peers_env ''BC3_FABRIC_TLS_ENABLED'') ''1'') = ''0''"
    by code_simp+
  obtain args where run: "commit_args two_peers_env ''xsmart-bc3'' ''1.0'' ''1'' ''mychannel'' = Inr args"
    by (simp add: commit_args_def maybeAppendTLSFlags_def e)
  from fabric_certificates [OF run, THEN conjunct1] have "\<exists>pre post. args = pre @ peer_with_root (''peer1'', ''cert1'') @ peer_with_root (''peer2'', ''cert2'') @ post"
    unfolding e by simp
  with run show ?thesis by blast
qed

end
