(* ===== verification/Deploy_Wasm.thy ===== *)
theory Deploy_Wasm
  imports Hetero_Session
begin

text \<open>
  \<open>scripts/xsmart/deploy-bc2.ts\<close> and \<open>bc2-remote-proxy.ts\<close>: the ink contracts of the Substrate chain,
  instantiated with cargo-contract inside Docker, for a remote chain through a proxy container. Console
  output and \<open>ensureDir\<close> are left out; the log of what Docker Desktop does once launched is not modelled.
\<close>

datatype bc2_mode = Bc2_local | Bc2_prod

fun bc2_mode_text :: "bc2_mode \<Rightarrow> string" where
  "bc2_mode_text Bc2_local = ''local''"
| "bc2_mode_text Bc2_prod = ''prod''"

definition deployMode_bc2 :: "process_env \<Rightarrow> bc2_mode" where
  "deployMode_bc2 env =
     (if to_lower (env_trim env ''XSMART_BC2_DEPLOY_MODE'') \<in> {''prod'', ''production'', ''remote''}
      then Bc2_prod else Bc2_local)"

subsection \<open>The proxy container\<close>

definition run_allowed :: "'n hetero \<Rightarrow> string \<Rightarrow> string list \<Rightarrow> string \<Rightarrow> ('n hetero_session, string) script" where
  "run_allowed H command args cwd = recover (run_in H cwd command args) (\<lambda>_. give [])"

definition sleepSeconds :: "'n hetero \<Rightarrow> nat \<Rightarrow> string \<Rightarrow> ('n hetero_session, unit) script" where
  "sleepSeconds H seconds cwd =
     await (run_in H cwd ''powershell'' [''-Command'', ''Start-Sleep -Seconds '' @ show_nat seconds]) (\<lambda>_. give ())"

definition dockerReady :: "'n hetero \<Rightarrow> string \<Rightarrow> ('n hetero_session, bool) script" where
  "dockerReady H root = recover (await (run_in H root ''docker'' [''version'']) (\<lambda>_. give True)) (\<lambda>_. give False)"

definition desktopExe :: string where
  "desktopExe = ''C:'' @ [CHR 0x5C] @ ''Program Files'' @ [CHR 0x5C] @ ''Docker'' @ [CHR 0x5C] @ ''Docker'' @ [CHR 0x5C] @
     ''Docker Desktop.exe''"

definition launch_desktop :: "'n hetero \<Rightarrow> ('n hetero_session, unit) script" where
  "launch_desktop H = await (file_there H desktopExe) (\<lambda>there.
     if windows H \<and> there then (\<lambda>s. (Inr (), s\<lparr>ws_node := launch H desktopExe (ws_node s)\<rparr>)) else give ())"

fun await_daemon :: "nat \<Rightarrow> 'n hetero \<Rightarrow> string \<Rightarrow> ('n hetero_session, unit) script" where
  "await_daemon 0 H root = throw ''Docker daemon is not ready; required for bc2 remote proxy''"
| "await_daemon (Suc attempts) H root = await (dockerReady H root) (\<lambda>up.
     if up then give () else await (sleepSeconds H 2 root) (\<lambda>_. await_daemon attempts H root))"

definition ensureDockerDaemon :: "'n hetero \<Rightarrow> string \<Rightarrow> ('n hetero_session, unit) script" where
  "ensureDockerDaemon H root = await (dockerReady H root) (\<lambda>up.
     if up then give () else await (launch_desktop H) (\<lambda>_. await_daemon 30 H root))"

definition proxy_name :: "'n hetero \<Rightarrow> process_env \<Rightarrow> string" where
  "proxy_name H env = env_or env ''XSMART_BC2_PROXY_CONTAINER'' (''xsmart-bc2-remote-proxy-'' @ show_nat (process_pid H))"

definition listen_port :: "process_env \<Rightarrow> string" where
  "listen_port env = env_or env ''XSMART_BC2_PROXY_PORT'' ''9944''"

definition ensureBC2RemoteDockerProxy :: "'n hetero \<Rightarrow> string \<Rightarrow> string \<Rightarrow> ('n hetero_session, string) script" where
  "ensureBC2RemoteDockerProxy H root remoteWsUrl =
     await (ensureDockerDaemon H root) (\<lambda>_.
     await (of_res (parse_url H remoteWsUrl)) (\<lambda>target. with_env (\<lambda>env.
       (let name = proxy_name H env; port = listen_port env;
            targetPort = js_or (url_port target) (if url_protocol target = ''wss:'' then ''443'' else ''80'') in
        if url_protocol target \<noteq> ''ws:''
        then throw (''bc2 remote proxy only supports ws:// endpoints, got '' @ remoteWsUrl)
        else
          await (run_allowed H ''docker'' [''rm'', ''-f'', name] root) (\<lambda>_.
          await (run_in H root ''docker'' [''run'', ''-d'', ''--name'', name, ''alpine/socat'', ''-d'', ''-d'',
            ''TCP-LISTEN:'' @ port @ '',fork,reuseaddr'', ''TCP:'' @ url_hostname target @ '':'' @ targetPort]) (\<lambda>_.
          await (set_env ''XSMART_BC2_DOCKER_NETWORK'' (''container:'' @ name)) (\<lambda>_.
          await (set_env ''XSMART_BC2_DOCKER_WS_URL'' (''ws://127.0.0.1:'' @ port)) (\<lambda>_.
          await (set_env ''XSMART_BC2_DEPLOY_MODE'' ''prod'') (\<lambda>_. give name)))))))))"

definition stopBC2RemoteDockerProxy :: "'n hetero \<Rightarrow> string \<Rightarrow> string \<Rightarrow> ('n hetero_session, unit) script" where
  "stopBC2RemoteDockerProxy H root name = with_env (\<lambda>env.
     await (run_allowed H ''docker'' [''rm'', ''-f'',
       js_or name (env_or env ''XSMART_BC2_PROXY_CONTAINER'' ''xsmart-bc2-remote-proxy'')] root) (\<lambda>_. give ()))"

subsection \<open>Where the chain is\<close>

text \<open>
  \<open>raw.match(new RegExp(`^${name}=(.+)$`, "m"))\<close>: the first line, ended by a line feed or a carriage
  return, that starts with the name and an equals sign and has something after it.
\<close>

fun env_lines :: "string \<Rightarrow> string list" where
  "env_lines [] = [[]]"
| "env_lines (c # cs) =
     (if c = CHR 0x0A \<or> c = CHR 0x0D then [] # env_lines cs
      else (case env_lines cs of [] \<Rightarrow> [[c]] | l # ls \<Rightarrow> (c # l) # ls))"

fun env_setting :: "string \<Rightarrow> string list \<Rightarrow> string option" where
  "env_setting key [] = None"
| "env_setting key (line # ls) =
     (if starts_with line (key @ ''='') \<and> length line > length key + 1
      then Some (js_trim (drop (length key + 1) line)) else env_setting key ls)"

definition vm2_network_env :: "'n hetero \<Rightarrow> string" where
  "vm2_network_env H = path_join [repoRoot (tools H), ''configs'', ''vm2-network.env'']"

definition readVm2Env :: "'n hetero \<Rightarrow> string \<Rightarrow> 'n \<Rightarrow> string option" where
  "readVm2Env H key n = (case read_text H (vm2_network_env H) n of
     None \<Rightarrow> None
   | Some raw \<Rightarrow> env_setting key (env_lines raw))"

definition option_text :: "string option \<Rightarrow> string" where
  "option_text v = (case v of Some t \<Rightarrow> t | None \<Rightarrow> [])"

definition defaultProdBC2HTTPURL :: "'n hetero \<Rightarrow> 'n \<Rightarrow> string" where
  "defaultProdBC2HTTPURL H n = js_or (option_text (readVm2Env H ''WASM_RPC_URL'' n)) ''http://170.64.194.4:18545''"

definition replace_prefix :: "string \<Rightarrow> string \<Rightarrow> string \<Rightarrow> string" where
  "replace_prefix p q t = (if starts_with t p then q @ drop (length p) t else t)"

definition defaultProdBC2WSURL :: "'n hetero \<Rightarrow> process_env \<Rightarrow> 'n \<Rightarrow> string" where
  "defaultProdBC2WSURL H env n =
     (let fromHttp = replace_prefix ''https://'' ''wss://'' (replace_prefix ''http://'' ''ws://'' (defaultProdBC2HTTPURL H n)) in
      env_or env ''BC2_WASM_WS_URL'' (js_or fromHttp ''ws://170.64.194.4:18545''))"

text \<open>\<open>s.replace(p, q)\<close> with a string: the first occurrence.\<close>

fun replace_first :: "string \<Rightarrow> string \<Rightarrow> string \<Rightarrow> string" where
  "replace_first p q [] = (if p = [] then q else [])"
| "replace_first p q (c # cs) =
     (if starts_with (c # cs) p then q @ drop (length p) (c # cs) else c # replace_first p q cs)"

definition LOCAL_BC2_WS_URL :: "process_env \<Rightarrow> string" where
  "LOCAL_BC2_WS_URL env0 = js_or (env_text env0 ''BC2_WASM_WS_URL'') ''ws://127.0.0.1:18545''"

text \<open>\<open>env0\<close> is the environment when the module was loaded.\<close>

definition bc2WSURL :: "'n hetero \<Rightarrow> process_env \<Rightarrow> process_env \<Rightarrow> bc2_mode \<Rightarrow> 'n \<Rightarrow> string" where
  "bc2WSURL H env0 env mode n =
     (if env_trim env ''XSMART_BC2_DOCKER_WS_URL'' \<noteq> [] then env_trim env ''XSMART_BC2_DOCKER_WS_URL''
      else if mode = Bc2_local then replace_first '':18545'' '':9944'' (LOCAL_BC2_WS_URL env0)
      else env_or env ''BC2_WASM_WS_URL'' (defaultProdBC2WSURL H env n))"

definition bc2HTTPURL :: "'n hetero \<Rightarrow> process_env \<Rightarrow> process_env \<Rightarrow> bc2_mode \<Rightarrow> 'n \<Rightarrow> string" where
  "bc2HTTPURL H env0 env mode n =
     (if mode = Bc2_local then js_or (env_text env ''BC2_WASM_HTTP_URL'') (ln_url (bc2_node env0))
      else env_or env ''BC2_WASM_HTTP_URL'' (defaultProdBC2HTTPURL H n))"

definition bc2ChainID :: "process_env \<Rightarrow> string" where
  "bc2ChainID env = js_trim (js_or (env_text env ''BC2_WASM_CHAIN_ID'') ''1338'')"

definition bc2NetworkID :: "process_env \<Rightarrow> string" where
  "bc2NetworkID env = js_trim (js_or (env_text env ''BC2_WASM_NETWORK_ID'') (''substrate-'' @ bc2ChainID env))"

subsection \<open>Building\<close>

definition hasCommand :: "'n hetero \<Rightarrow> string \<Rightarrow> ('n hetero_session, bool) script" where
  "hasCommand H command =
     recover (await (run_in H (repoRoot (tools H)) command [''--version'']) (\<lambda>_. give True)) (\<lambda>_. give False)"

definition buildWithDocker :: "'n hetero \<Rightarrow> string \<Rightarrow> string \<Rightarrow> ('n hetero_session, unit) script" where
  "buildWithDocker H root crateDir =
     await (run_in H root ''docker'' [''build'', ''-t'', ''xsmart-ink-builder:local'', ''-f'',
       path_join [root, ''docker'', ''xsmart-ink-builder.Dockerfile''], root]) (\<lambda>_.
     await (run_in H crateDir ''docker'' [''run'', ''--rm'', ''-v'', crateDir @ '':/work'', ''-w'', ''/work'',
       ''xsmart-ink-builder:local'', ''cargo'', ''contract'', ''build'', ''--release'']) (\<lambda>_. give ()))"

definition buildWithCargo :: "'n hetero \<Rightarrow> string \<Rightarrow> ('n hetero_session, unit) script" where
  "buildWithCargo H crateDir = await (run_in H crateDir ''cargo'' [''contract'', ''build'', ''--release'']) (\<lambda>_. give ())"

definition stateCrateDir :: "string \<Rightarrow> string" where
  "stateCrateDir root = path_join [root, ''contracts'', ''xsmart'', ''bc2'']"

definition bridgeCrateDir :: "string \<Rightarrow> string" where
  "bridgeCrateDir root = path_join [root, ''contracts'', ''xsmart'', ''bc2'', ''bridge'']"

definition stateArtifact :: "string \<Rightarrow> string" where
  "stateArtifact root = path_join [stateCrateDir root, ''target'', ''ink'', ''train_booking.contract'']"

definition bridgeArtifact :: "string \<Rightarrow> string" where
  "bridgeArtifact root = path_join [bridgeCrateDir root, ''target'', ''ink'', ''xbridge_bc2.contract'']"

definition build_contracts :: "'n hetero \<Rightarrow> string \<Rightarrow> ('n hetero_session, unit) script" where
  "build_contracts H root = with_env (\<lambda>env.
     if env_set env ''XSMART_BC2_SKIP_BUILD'' then give ()
     else
       await (if env_set env ''XSMART_BC2_BUILD_WITH_DOCKER'' then give True
              else await (hasCommand H ''cargo'') (\<lambda>there. give (\<not> there))) (\<lambda>useDocker.
       if useDocker
       then await (buildWithDocker H root (stateCrateDir root)) (\<lambda>_. buildWithDocker H root (bridgeCrateDir root))
       else await (buildWithCargo H (stateCrateDir root)) (\<lambda>_. buildWithCargo H (bridgeCrateDir root))))"

definition require_artifact :: "'n hetero \<Rightarrow> string \<Rightarrow> string \<Rightarrow> ('n hetero_session, unit) script" where
  "require_artifact H kind p = await (file_there H p) (\<lambda>there.
     if there then give () else throw (''Missing '' @ kind @ '' artifact: '' @ p))"

subsection \<open>cargo-contract\<close>

definition dockerCargoContract ::
    "'n hetero \<Rightarrow> string \<Rightarrow> string \<Rightarrow> string list \<Rightarrow> bc2_mode \<Rightarrow> ('n hetero_session, string) script" where
  "dockerCargoContract H root crateDir args mode = with_env (\<lambda>env.
     run_in H root ''docker''
       ([''run'', ''--rm''] @
        (if env_trim env ''XSMART_BC2_DOCKER_NETWORK'' \<noteq> [] then [''--network'', env_trim env ''XSMART_BC2_DOCKER_NETWORK'']
         else if mode = Bc2_local then [''--network'', ''container:'' @ ln_container (bc2_node env)] else []) @
        [''-v'', crateDir @ '':/work'', ''-w'', ''/work'', env_or env ''XSMART_INK_BUILDER_IMAGE'' ''xsmart-ink-builder:local''] @
        args))"

text \<open>\<open>path.relative\<close> of a file below the crate.\<close>

definition toContainerPath :: "string \<Rightarrow> string \<Rightarrow> string" where
  "toContainerPath crateDir hostPath = ''/work/'' @ drop (length crateDir + 1) hostPath"

text \<open>The last line that parses, when the whole output does not.\<close>

fun last_json :: "(string \<Rightarrow> json res) \<Rightarrow> string list \<Rightarrow> json option" where
  "last_json parse [] = None"
| "last_json parse (line # ls) =
     (let candidate = js_trim line in
      if starts_with candidate ''{'' then
        (case parse candidate of Inr v \<Rightarrow> Some v | Inl _ \<Rightarrow> last_json parse ls)
      else last_json parse ls)"

definition parseJsonOutput :: "(string \<Rightarrow> json res) \<Rightarrow> string \<Rightarrow> json res" where
  "parseJsonOutput parse raw =
     (let trimmed = js_trim raw in
      if trimmed = [] then Inl ''cargo-contract returned empty output''
      else (case parse trimmed of
          Inr v \<Rightarrow> Inr v
        | Inl _ \<Rightarrow> (case last_json parse (rev (split_lines [] trimmed)) of
            Some v \<Rightarrow> Inr v
          | None \<Rightarrow> Inl (''Unable to parse cargo-contract JSON output:'' @ [CHR 0x0A] @ raw))))"

fun address_in :: "json option list \<Rightarrow> string option" where
  "address_in [] = None"
| "address_in (Some (JsonString t) # vs) = (if js_trim t \<noteq> [] then Some (js_trim t) else address_in vs)"
| "address_in (v # vs) = address_in vs"

text \<open>\<open>5[1-9A-HJ-NP-Za-km-z]{46,47}\<close>\<close>

definition base58_char :: "char \<Rightarrow> bool" where
  "base58_char c = (c \<in> set ''123456789ABCDEFGHJKLMNPQRSTUVWXYZabcdefghijkmnopqrstuvwxyz'')"

fun find_ss58 :: "string \<Rightarrow> string option" where
  "find_ss58 [] = None"
| "find_ss58 (c # cs) =
     (if c = CHR ''5'' \<and> length (takeWhile base58_char cs) \<ge> 46
      then Some (c # take 47 (takeWhile base58_char cs)) else find_ss58 cs)"

definition extractContractAddress :: "(json \<Rightarrow> string) \<Rightarrow> json \<Rightarrow> string res" where
  "extractContractAddress text payload =
     (let result = json_get payload ''result'' in
      case address_in [json_get payload ''contract'', json_get payload ''accountId'', json_get payload ''contractAddress'',
        optional_get result ''contract'', optional_get result ''accountId''] of
        Some a \<Rightarrow> Inr a
      | None \<Rightarrow> (case find_ss58 (text payload) of
          Some a \<Rightarrow> Inr a
        | None \<Rightarrow> Inl (''Unable to locate contract address in output: '' @ text payload)))"

definition suri :: "process_env \<Rightarrow> string" where
  "suri env = js_or (env_text env ''XSMART_BC2_SURI'') ''//Alice''"

definition with_url :: "'n hetero \<Rightarrow> process_env \<Rightarrow> bc2_mode \<Rightarrow> (string \<Rightarrow> ('n hetero_session, 'a) script) \<Rightarrow> ('n hetero_session, 'a) script" where
  "with_url H env0 mode f s = f (bc2WSURL H env0 (ws_env s) mode (ws_node s)) s"

definition instantiateContract ::
    "'n hetero \<Rightarrow> process_env \<Rightarrow> string \<Rightarrow> string \<Rightarrow> string \<Rightarrow> string list \<Rightarrow> bc2_mode \<Rightarrow> ('n hetero_session, string) script" where
  "instantiateContract H env0 root crateDir artifactPath args mode =
     with_url H env0 mode (\<lambda>wsURL. with_env (\<lambda>env.
       (let salt = env_trim env ''XSMART_BC2_SALT'' in
        await (dockerCargoContract H root crateDir
          ([''cargo'', ''contract'', ''instantiate'', ''--suri'', suri env, ''--url'', wsURL, ''--skip-confirm'', ''--execute'',
            ''--output-json'', ''--constructor'', ''new'', toContainerPath crateDir artifactPath, ''--args''] @ args @
           (if salt = [] then [] else [''--salt'', salt])) mode) (\<lambda>raw.
        of_res (res_bind (parseJsonOutput (parse_json (tools H)) raw) (extractContractAddress (json_text H)))))))"

definition callContract ::
    "'n hetero \<Rightarrow> process_env \<Rightarrow> string \<Rightarrow> string \<Rightarrow> string \<Rightarrow> string \<Rightarrow> string \<Rightarrow> string list \<Rightarrow> bc2_mode \<Rightarrow> ('n hetero_session, unit) script" where
  "callContract H env0 root crateDir artifactPath contract message args mode =
     with_url H env0 mode (\<lambda>wsURL. with_env (\<lambda>env.
       await (dockerCargoContract H root crateDir
         ([''cargo'', ''contract'', ''call'', ''--contract'', contract, ''--message'', message, ''--suri'', suri env,
           ''--url'', wsURL, ''--skip-confirm'', ''--execute'', ''--output-json'',
           toContainerPath crateDir artifactPath, ''--args''] @ args) mode) (\<lambda>_. give ())))"

subsection \<open>The script\<close>

definition known_address :: "process_env \<Rightarrow> string \<Rightarrow> deployment \<Rightarrow> string \<Rightarrow> string" where
  "known_address env name d key =
     (if env_set env ''FORCE_REDEPLOY'' then [] else env_or env name (contract_at d key))"

definition drop_other_mode :: "bc2_mode \<Rightarrow> ('n hetero_session, unit) script" where
  "drop_other_mode mode = await (look_up ''bc2DeployMode'') (\<lambda>old.
     if old \<noteq> bc2_mode_text mode
     then await (forget_entry ''trainBooking'') (\<lambda>_. forget_entry ''xBridgeBc2'') else give ())"

definition aliceAddress :: "process_env \<Rightarrow> string" where
  "aliceAddress env = js_or (env_text env ''XSMART_BC2_ALICE_ADDRESS'') ''5GrwvaEF5zXb26Fz9rcQpDWS57CtERHpNehXCPcNoHGKutQY''"

definition bc2_irHash :: "process_env \<Rightarrow> string" where
  "bc2_irHash env = js_or (env_text env ''XSMART_BC2_IR_HASH'') (''0x'' @ concat (replicate 32 ''07''))"

definition instantiate_missing ::
    "'n hetero \<Rightarrow> process_env \<Rightarrow> string \<Rightarrow> bc2_mode \<Rightarrow> string \<Rightarrow> string \<Rightarrow> ('n hetero_session, string \<times> string) script" where
  "instantiate_missing H env0 root mode state bridge = with_env (\<lambda>env.
     await (if state = [] then instantiateContract H env0 root (stateCrateDir root) (stateArtifact root)
              [aliceAddress env, show_int (TRAIN_PRICE CONSTS), show_int (TRAIN_SEATS CONSTS), show_int (LOCK_SIZE CONSTS),
               bc2_irHash env] mode
            else give state) (\<lambda>state'.
     await (if bridge = [] then instantiateContract H env0 root (bridgeCrateDir root) (bridgeArtifact root)
              [aliceAddress env, state'] mode
            else give bridge) (\<lambda>bridge'.
     await (callContract H env0 root (stateCrateDir root) (stateArtifact root) state' ''set_bridge'' [bridge'] mode) (\<lambda>_.
     give (state', bridge')))))"

text \<open>In local mode the environment is still the one the modules were loaded with.\<close>

definition start_node :: "'n hetero \<Rightarrow> string \<Rightarrow> bc2_mode \<Rightarrow> ('n hetero_session, unit) open_script" where
  "start_node H root mode s =
     (if mode = Bc2_local \<and> \<not> env_set (ws_env s) ''XSMART_BC2_SKIP_NODE_START''
      then on_machine_open (ensureLocalBC2Node (machine H) (ws_env s) root) s
      else lift_script (give ()) s)"

definition record_bc2 ::
    "'n hetero \<Rightarrow> process_env \<Rightarrow> string \<Rightarrow> bc2_mode \<Rightarrow> string \<Rightarrow> string \<Rightarrow> ('n hetero_session, unit) script" where
  "record_bc2 H env0 root mode state bridge =
     await (\<lambda>s. (Inr (ws_env s, ws_node s), s)) (\<lambda>(env, n).
     await (of_res (if state = [] then required_env env ''XSMART_BC2_STATE_CONTRACT'' else Inr state)) (\<lambda>state'.
     await (of_res (if bridge = [] then required_env env ''XSMART_BC2_BRIDGE_CONTRACT'' else Inr bridge)) (\<lambda>bridge'.
     await (of_res (normalizeEndpointForVM (tools H) Wasm_vm state')) (\<lambda>stateEntry.
     await (of_res (normalizeEndpointForVM (tools H) Wasm_vm bridge')) (\<lambda>bridgeEntry.
     await (record_entries
       [(''trainBooking'', stateEntry), (''xBridgeBc2'', bridgeEntry), (''bc2RpcHttp'', bc2HTTPURL H env0 env mode n),
        (''bc2RpcWs'', if mode = Bc2_local then js_or (env_text env ''BC2_WASM_WS_URL'') (LOCAL_BC2_WS_URL env0)
                     else env_or env ''BC2_WASM_WS_URL'' (defaultProdBC2WSURL H env n)),
        (''bc2ChainId'', bc2ChainID env), (''bc2NetworkId'', bc2NetworkID env),
        (''bc2MetadataPath'', stateArtifact root), (''bc2BridgeMetadataPath'', bridgeArtifact root),
        (''bc2SubmitterURI'', suri env), (''bc2DeployMode'', bc2_mode_text mode)]) (\<lambda>_.
     store_record H))))))"

definition bc2_body :: "'n hetero \<Rightarrow> process_env \<Rightarrow> string \<Rightarrow> bc2_mode \<Rightarrow> ('n hetero_session, unit) open_script" where
  "bc2_body H env0 root mode = (\<lambda>s.
     (let env = ws_env s;
          state = known_address env ''XSMART_BC2_STATE_CONTRACT'' (ws_rec s) ''trainBooking'';
          bridge = known_address env ''XSMART_BC2_BRIDGE_CONTRACT'' (ws_rec s) ''xBridgeBc2'' in
      then_open (if env_set env ''XSMART_BC2_SKIP_INSTANTIATE'' then lift_script (give (state, bridge))
                 else then_open (start_node H root mode) (\<lambda>_.
                   lift_script (instantiate_missing H env0 root mode state bridge))) (\<lambda>(state', bridge').
      lift_script (record_bc2 H env0 root mode state' bridge')) s))"

definition prepare_bc2 :: "'n hetero \<Rightarrow> process_env \<Rightarrow> string \<Rightarrow> bc2_mode \<Rightarrow> ('n hetero_session, string option) script" where
  "prepare_bc2 H env0 root mode =
     await (load_record ''xsmart'' ''bc2'') (\<lambda>_.
     await (build_contracts H root) (\<lambda>_.
     await (require_artifact H ''state'' (stateArtifact root)) (\<lambda>_.
     await (require_artifact H ''bridge'' (bridgeArtifact root)) (\<lambda>_.
     await (drop_other_mode mode) (\<lambda>_. with_env (\<lambda>env.
     if mode = Bc2_prod \<and> env_trim env ''XSMART_BC2_DOCKER_WS_URL'' = []
     then with_url H env0 mode (\<lambda>url. await (ensureBC2RemoteDockerProxy H root url) (\<lambda>name. give (Some name)))
     else give None))))))"

definition deploy_bc2 :: "'n hetero \<Rightarrow> ('n hetero_session, unit) open_script" where
  "deploy_bc2 H = (\<lambda>s.
     (let env0 = ws_env s; root = repoRoot (tools H); mode = deployMode_bc2 env0 in
      then_open (lift_script (prepare_bc2 H env0 root mode)) (\<lambda>proxy.
      finally_do (bc2_body H env0 root mode)
        (case proxy of None \<Rightarrow> give () | Some name \<Rightarrow> stopBC2RemoteDockerProxy H root name)) s))"

end
