(* ===== verification/Deploy_Outcomes.thy ===== *)
theory Deploy_Outcomes
  imports Deploy_Fabric Deploy_Wasm
begin

text \<open>
  What a run of \<open>deploy-bc2.ts\<close> or \<open>deploy-bc3.ts\<close> leaves behind: the deployment file is written only
  by a run that returns, both scripts end, the proxy container is removed, and a second run keeps the
  contracts of the first.
\<close>

subsection \<open>Which steps leave the files alone\<close>

lemma keeps_http: "keeps_disk (\<lambda>s. case http_request M url body (ws_node s) of
    (None, n) \<Rightarrow> (Inl e, s\<lparr>ws_node := n\<rparr>) | (Some (_, raw), n) \<Rightarrow> (Inr raw, s\<lparr>ws_node := n\<rparr>))"
  by (auto simp: keeps_disk_def split: prod.splits option.splits)

lemma keeps_postJSON [keeps]: "keeps_disk (postJSON H url payload)"
  unfolding postJSON_def by (intro keeps keeps_http)

lemma keeps_option: "(\<And>s. keeps_disk_open (m s)) \<Longrightarrow> keeps_disk_open (\<lambda>s. m s s)"
  by (auto simp: keeps_disk_open_def)

lemma keeps_deployLocal [keeps]: "keeps_disk_open (deployLocal H root)"
  unfolding deployLocal_def Let_def by (rule keeps_option) (intro keeps)

lemma keeps_run_peer [keeps]: "keeps_disk (run_peer H root args)"
  unfolding run_peer_def by (intro keeps)

lemma keeps_unless_set [keeps]: "keeps_disk m \<Longrightarrow> keeps_disk (unless_set name m)"
  unfolding unless_set_def by (intro keeps)

lemma keeps_deployPeerCLI [keeps]: "keeps_disk (deployPeerCLI H root)"
  unfolding deployPeerCLI_def Let_def packageChaincode_def installChaincode_def queryInstalled_def approveForMyOrg_def
    commitChaincode_def invokeChaincode_def by (intro keeps)

lemma keeps_proxy [keeps]: "keeps_disk (ensureBC2RemoteDockerProxy H root url)" "keeps_disk (stopBC2RemoteDockerProxy H root name)"
proof -
  have ready: "keeps_disk (dockerReady H root)" unfolding dockerReady_def by (intro keeps)
  have desk: "keeps_disk (launch_desktop H)"
    unfolding launch_desktop_def by (intro keeps) (auto simp: keeps_disk_def)
  have sleep: "keeps_disk (sleepSeconds H 2 root)" unfolding sleepSeconds_def by (intro keeps)
  have "keeps_disk (await_daemon n H root)" for n by (induction n) (auto intro!: keeps ready sleep)
  then have "keeps_disk (ensureDockerDaemon H root)" unfolding ensureDockerDaemon_def by (intro keeps ready desk)
  then show "keeps_disk (ensureBC2RemoteDockerProxy H root url)"
    unfolding ensureBC2RemoteDockerProxy_def run_allowed_def Let_def by (intro keeps)
  show "keeps_disk (stopBC2RemoteDockerProxy H root name)"
    unfolding stopBC2RemoteDockerProxy_def run_allowed_def by (intro keeps)
qed

lemma keeps_build [keeps]: "keeps_disk (build_contracts H root)"
  unfolding build_contracts_def hasCommand_def buildWithDocker_def buildWithCargo_def by (intro keeps)

lemma keeps_with_url [keeps]: "(\<And>u. keeps_disk (f u)) \<Longrightarrow> keeps_disk (with_url H env0 mode f)"
  by (auto simp: keeps_disk_def with_url_def)

lemma keeps_prepare [keeps]: "keeps_disk (prepare_bc2 H env0 root mode)"
  unfolding prepare_bc2_def require_artifact_def drop_other_mode_def by (intro keeps)

lemma keeps_cargo [keeps]: "keeps_disk (dockerCargoContract H root crateDir args mode)"
  unfolding dockerCargoContract_def by (intro keeps)

lemma keeps_instantiate [keeps]: "keeps_disk (instantiate_missing H env0 root mode state bridge)"
  unfolding instantiate_missing_def instantiateContract_def callContract_def Let_def by (intro keeps)

lemma keeps_start_node [keeps]: "keeps_disk_open (start_node H root mode)"
  using keeps_on_machine_open [of "ensureLocalBC2Node (machine H) env root" for env] keeps_lift [OF keeps_simple(1)]
  unfolding keeps_disk_open_def start_node_def by metis

subsection \<open>Writing the file\<close>

definition stored :: "'n hetero_session \<Rightarrow> 'n hetero_session \<Rightarrow> bool" where
  "stored s s' \<longleftrightarrow> (let d = ws_rec s' in d_deployedAt d \<noteq> None \<and>
     ws_disk s' = (ws_disk s)(d_system d := (ws_disk s (d_system d))(d_network d := Some d)))"

text \<open>A script that ends by writing the record, and has written nothing when it throws.\<close>

definition commits :: "('n hetero_session, unit) open_script \<Rightarrow> bool" where
  "commits m \<longleftrightarrow> (\<forall>s r s'. m s = Some (r, s') \<longrightarrow>
     (r = Inr () \<longrightarrow> stored s s') \<and> (r \<noteq> Inr () \<longrightarrow> ws_disk s' = ws_disk s))"

lemma commits_store: "commits (lift_script (store_record H))"
  by (auto simp: commits_def lift_script_def store_record_def stored_def Let_def)

lemma commits_then:
  assumes "keeps_disk_open m" and f: "\<And>a. commits (f a)"
  shows "commits (then_open m f)"
  unfolding commits_def
proof (intro allI impI)
  fix s r s'
  assume "then_open m f s = Some (r, s')"
  then show "(r = Inr () \<longrightarrow> stored s s') \<and> (r \<noteq> Inr () \<longrightarrow> ws_disk s' = ws_disk s)"
  proof (cases rule: then_openE)
    case (fail e)
    then show ?thesis using assms(1) by (auto simp: keeps_disk_open_def)
  next
    case (ok a t)
    then have "ws_disk t = ws_disk s" using assms(1) by (auto simp: keeps_disk_open_def)
    moreover have "(r = Inr () \<longrightarrow> stored t s') \<and> (r \<noteq> Inr () \<longrightarrow> ws_disk s' = ws_disk t)"
      using f [of a] ok(2) unfolding commits_def by blast
    ultimately show ?thesis by (simp add: stored_def)
  qed
qed

lemma lift_await: "lift_script (await m f) = then_open (lift_script m) (\<lambda>a. lift_script (f a))"
  by (auto simp: fun_eq_iff lift_script_def then_open_def await_def split: prod.splits sum.splits)

lemma commits_state: "(\<And>s. commits (m s)) \<Longrightarrow> commits (\<lambda>s. m s s)"
  by (auto simp: commits_def)

lemma keeps_look: "keeps_disk (\<lambda>s. (Inr (ws_env s, ws_node s), s))"
  by (simp add: keeps_disk_def)

lemma commits_record_bc2: "commits (lift_script (record_bc2 H env0 root mode state bridge))"
  unfolding record_bc2_def lift_await split_beta
  by (intro commits_then commits_store keeps keeps_look)

lemma commits_bc2_body: "commits (bc2_body H env0 root mode)"
  unfolding bc2_body_def Let_def split_beta by (rule commits_state) (intro commits_then keeps commits_record_bc2)

text \<open>Removing the proxy afterwards changes neither the record nor the file, and does not throw.\<close>

lemma stop_proxy: "stopBC2RemoteDockerProxy H root name s = (r, s') \<Longrightarrow>
    r = Inr () \<and> ws_rec s' = ws_rec s \<and> ws_disk s' = ws_disk s \<and> ws_env s' = ws_env s"
  by (auto simp: stopBC2RemoteDockerProxy_def with_env_def run_allowed_def run_in_def on_machine_def recover_def
      await_def give_apply split: prod.splits sum.splits)

definition clean_up :: "('n hetero_session, unit) script \<Rightarrow> bool" where
  "clean_up c \<longleftrightarrow> (\<forall>s r s'. c s = (r, s') \<longrightarrow> r = Inr () \<and> ws_rec s' = ws_rec s \<and> ws_disk s' = ws_disk s)"

lemma clean_up_proxy: "clean_up (case proxy of None \<Rightarrow> give () | Some name \<Rightarrow> stopBC2RemoteDockerProxy H root name)"
  unfolding clean_up_def by (cases proxy) (auto simp: give_apply dest: stop_proxy)

lemma commits_finally:
  assumes "commits m" "clean_up c"
  shows "commits (finally_do m c)"
  unfolding commits_def
proof (intro allI impI)
  fix s r s'
  assume run: "finally_do m c s = Some (r, s')"
  then obtain q t where m: "m s = Some (q, t)" by (cases "m s") (auto simp: finally_do_def)
  obtain q' t' where c: "c t = (q', t')" by (rule prod.exhaust)
  have c': "q' = Inr ()" "ws_rec t' = ws_rec t" "ws_disk t' = ws_disk t" using assms(2) c unfolding clean_up_def by blast+
  then have "r = q" "s' = t'" using run m c by (simp_all add: finally_do_def)
  then show "(r = Inr () \<longrightarrow> stored s s') \<and> (r \<noteq> Inr () \<longrightarrow> ws_disk s' = ws_disk s)"
    using assms(1) m c'(2,3) unfolding commits_def stored_def by simp
qed

lemma commits_deploys: "commits (deploy_bc2 H)" "commits (deploy_bc3 H)"
proof -
  show "commits (deploy_bc2 H)"
    unfolding deploy_bc2_def Let_def
    by (rule commits_state) (intro commits_then keeps commits_finally commits_bc2_body clean_up_proxy)
  have "keeps_disk_open (\<lambda>s. if deployMode_bc3 (ws_env s) = Bc3_peercli then lift_script (deployPeerCLI H root) s
      else deployLocal H root s)" for root
    using keeps_lift [OF keeps_deployPeerCLI] keeps_deployLocal unfolding keeps_disk_open_def by metis
  then show "commits (deploy_bc3 H)"
    unfolding deploy_bc3_def Let_def by (intro commits_then commits_store keeps)
qed

subsection \<open>The scripts end\<close>

definition finishes :: "('s, 'a) open_script \<Rightarrow> bool" where
  "finishes m \<longleftrightarrow> (\<forall>s. m s \<noteq> None)"

lemma finishes_rules:
  "finishes (lift_script m)"
  "finishes m' \<Longrightarrow> (\<And>a. finishes (f a)) \<Longrightarrow> finishes (then_open m' f)"
  "finishes m'' \<Longrightarrow> finishes (finally_do m'' c)"
  by (auto simp: finishes_def lift_script_def then_open_def finally_do_def split: option.splits prod.splits sum.splits)

lemma finishes_state: "(\<And>s. finishes (m s)) \<Longrightarrow> finishes (\<lambda>s. m s s)"
  by (auto simp: finishes_def)

lemma finishes_nodes:
  assumes "clock_documented M" "docker_documented M images containers"
  shows "finishes (on_machine_open (ensureLocalBC2Node M env root))" "finishes (on_machine_open (ensureLocalBC3Fabric M env root))"
proof -
  have "node_probe rpcReady" "node_probe health" by (simp_all add: node_probe_def)
  then show "finishes (on_machine_open (ensureLocalBC2Node M env root))" "finishes (on_machine_open (ensureLocalBC3Fabric M env root))"
    using ensure_local_result [OF assms] unfolding finishes_def on_machine_open_def ensureLocalBC2Node_def ensureLocalBC3Fabric_def
    by (metis map_option_is_None option.distinct(1))+
qed

lemma finishes_start_node:
  assumes "clock_documented (machine H)" "docker_documented (machine H) images containers"
  shows "finishes (start_node H root mode)"
  using finishes_nodes(1) [OF assms, of env root for env] unfolding finishes_def start_node_def lift_script_def by auto

lemma finishes_bc3_step:
  assumes "clock_documented (machine H)" "docker_documented (machine H) images containers"
  shows "finishes (\<lambda>s. if deployMode_bc3 (ws_env s) = Bc3_peercli then lift_script (deployPeerCLI H root) s
      else deployLocal H root s)"
proof -
  have "finishes (deployLocal H root)"
    unfolding deployLocal_def Let_def by (rule finishes_state) (intro finishes_rules finishes_nodes [OF assms])
  then show ?thesis by (auto simp: finishes_def lift_script_def)
qed

lemma finishes_deploys:
  assumes "clock_documented (machine H)" "docker_documented (machine H) images containers"
  shows "finishes (deploy_bc2 H)" "finishes (deploy_bc3 H)"
proof -
  have body: "finishes (bc2_body H env0 root mode)" for env0 root mode
    unfolding bc2_body_def Let_def split_beta
    by (rule finishes_state) (simp add: finishes_rules finishes_start_node [OF assms])
  show "finishes (deploy_bc2 H)"
    unfolding deploy_bc2_def Let_def by (rule finishes_state) (intro finishes_rules body)
  show "finishes (deploy_bc3 H)"
    unfolding deploy_bc3_def Let_def by (intro finishes_rules finishes_bc3_step [OF assms])
qed

text \<open>The simulator still runs when the local deployment has returned.\<close>

lemma record_entries_node: "record_entries entries s = (r, s') \<Longrightarrow> ws_node s' = ws_node s"
proof (induction entries arbitrary: s)
  case Nil
  then show ?case by (simp add: record_entries_def give_apply)
next
  case (Cons e es)
  then show ?case by (cases e) (auto simp: record_entries_def await_def record_entry_def)
qed

lemma postJSON_containers:
  assumes D: "docker_documented (machine H) images containers" and "postJSON H url payload s = (r, s')"
  shows "containers (ws_node s') = containers (ws_node s)"
proof -
  obtain q n where q: "http_request (machine H) url (json_text H payload) (ws_node s) = (q, n)" by (rule prod.exhaust)
  have "ws_node s' = ws_node s \<or> ws_node s' = n"
    using assms(2) q by (auto simp: postJSON_def await_def of_res_apply split: sum.splits option.splits prod.splits)
  then show ?thesis using docker_http [OF D q] by auto
qed

lemma deployLocal_container:
  assumes C: "clock_documented (machine H)" and D: "docker_documented (machine H) images containers"
    and run: "deployLocal H root s = Some (Inr (), s')"
  shows "containers (ws_node s') ''xsmart-bc3-fabric-local'' = Some True"
proof -
  have P: "node_probe health" by (simp add: node_probe_def)
  from run obtain t where t: "on_machine_open (ensureLocalBC3Fabric (machine H) (ws_env s) root) s = Some (Inr (), t)"
    and rest: "await (postJSON H (ln_url (bc3_node (ws_env s)) @ ''/invoke'') bootstrap_request) (\<lambda>response.
       if \<not> json_truthy (json_get response ''ok'') then throw (bootstrap_error response)
       else record_entries
         [(''hotelBooking'', ''hotel_booking''), (''xBridgeBc3'', ''xbridge_bc3''),
          (''bc3FabricHttp'', js_or (env_text (ws_env s) ''BC3_FABRIC_HTTP_URL'') (ln_url (bc3_node (ws_env s)))),
          (''bc3ChainId'', js_or (env_text (ws_env s) ''BC3_FABRIC_CHAIN_ID'') ''3''),
          (''bc3NetworkId'', js_or (env_text (ws_env s) ''BC3_FABRIC_NETWORK_ID'') ''local-simulator'')]) t = (Inr (), s')"
    unfolding deployLocal_def Let_def by (elim then_openE) (auto simp: lift_script_def)
  obtain n where n: "ensureLocalBC3Fabric (machine H) (ws_env s) root (ws_node s) = Some (Inr (), n)" "ws_node t = n"
    using t by (auto simp: on_machine_open_def)
  have "containers (ws_node t) ''xsmart-bc3-fabric-local'' = Some True"
    using ensure_local_result [OF C D P, of "ws_env s" root "bc3_node (ws_env s)" "ws_node s"] n
    unfolding ensureLocalBC3Fabric_def by auto
  moreover have "containers (ws_node s') = containers (ws_node t)"
    using rest
  proof (cases rule: awaitE)
    case (ok response u)
    have "containers (ws_node u) = containers (ws_node t)" by (rule postJSON_containers [OF D ok(1)])
    moreover have "ws_node s' = ws_node u"
      using ok(2) by (auto simp: throw_apply dest: record_entries_node split: if_splits)
    ultimately show ?thesis by simp
  qed simp
  ultimately show ?thesis by simp
qed

lemma deploy_bc3_container:
  assumes C: "clock_documented (machine H)" and D: "docker_documented (machine H) images containers"
    and run: "deploy_bc3 H s = Some (Inr (), s')" and "deployMode_bc3 (ws_env s) = Bc3_local"
  shows "containers (ws_node s') ''xsmart-bc3-fabric-local'' = Some True"
proof -
  obtain t where t: "deployLocal H (repoRoot (tools H)) (s\<lparr>ws_rec := loadDeployment (ws_disk s) ''xsmart'' ''bc3''\<rparr>) = Some (Inr (), t)"
      "lift_script (store_record H) t = Some (Inr (), s')"
    using run assms(4) unfolding deploy_bc3_def Let_def
    by (elim then_openE) (auto simp: lift_script_def load_record_def)
  have "ws_node s' = ws_node t" using t(2) by (auto simp: lift_script_def store_record_def Let_def)
  then show ?thesis using deployLocal_container [OF C D t(1)] by simp
qed

subsection \<open>The proxy container\<close>

lemma proxy_name_ne: "proxy_name H env \<noteq> []"
  by (simp add: proxy_name_def env_or_def)

lemma started_proxy:
  assumes "ensureBC2RemoteDockerProxy H root url s = (Inr name, s')"
  shows "name \<noteq> []"
  using assms proxy_name_ne [of H]
  unfolding ensureBC2RemoteDockerProxy_def Let_def
  by (auto simp: await_returns with_env_def throw_apply give_apply set_env_def split: if_splits)

lemma prepared_proxy:
  assumes "prepare_bc2 H env0 root mode s = (Inr (Some name), s')"
  shows "name \<noteq> []"
  using assms unfolding prepare_bc2_def
  by (auto simp: await_returns with_env_def with_url_def give_apply dest: started_proxy split: if_splits)

lemma prod_body_ends: "finishes (bc2_body H env0 root Bc2_prod)"
proof -
  have node: "finishes (start_node H root Bc2_prod)" by (simp add: finishes_def start_node_def lift_script_def)
  show ?thesis
    unfolding bc2_body_def Let_def split_beta by (rule finishes_state) (simp add: finishes_rules node)
qed

lemma stop_removes:
  assumes "name \<noteq> []"
  shows "\<exists>s'. stopBC2RemoteDockerProxy H root name s = (Inr (), s') \<and>
    ws_node s' = snd (exec_file (machine H) root ''docker'' [''rm'', ''-f'', name] (ws_node s))"
  using assms
  by (auto simp: stopBC2RemoteDockerProxy_def with_env_def run_allowed_def run_in_def on_machine_def recover_def
      await_def give_apply split: prod.splits sum.splits)

subsection \<open>Properties\<close>


text \<open>
  Both scripts end on a machine whose clock advances across a sleep and whose Docker keeps its
  containers as documented, and a local deployment of the Fabric chain that returns leaves the
  simulator's container running.
\<close>

theorem hetero_deploys_end:
  assumes "clock_documented (machine H)" and "docker_documented (machine H) images containers"
  shows "(\<exists>r s'. deploy_bc2 H s = Some (r, s')) \<and>
    (\<exists>r s'. deploy_bc3 H s = Some (r, s') \<and>
       (r = Inr () \<and> deployMode_bc3 (ws_env s) = Bc3_local \<longrightarrow>
          containers (ws_node s') ''xsmart-bc3-fabric-local'' = Some True))"
  using finishes_deploys [OF assms] deploy_bc3_container [OF assms]
  unfolding finishes_def by (metis option.exhaust prod.exhaust)

text \<open>
  C32. A remote deployment removes its proxy whatever happens: once the container was started, the
  script ends, and the last thing it does on the machine, after a success as after an error of the
  build tool, is docker rm -f of that container.
\<close>

theorem proxy_always_removed:
  assumes "deployMode_bc2 (ws_env s) = Bc2_prod"
    and "prepare_bc2 H (ws_env s) (repoRoot (tools H)) Bc2_prod s = (Inr (Some name), s1)"
  shows "\<exists>r s' n. deploy_bc2 H s = Some (r, s') \<and>
    ws_node s' = snd (exec_file (machine H) (repoRoot (tools H)) ''docker'' [''rm'', ''-f'', name] n)"
proof -
  let ?root = "repoRoot (tools H)"
  obtain r t where t: "bc2_body H (ws_env s) ?root Bc2_prod s1 = Some (r, t)"
    using prod_body_ends [of H "ws_env s" ?root] unfolding finishes_def by (metis option.exhaust prod.exhaust)
  obtain s' where s': "stopBC2RemoteDockerProxy H ?root name t = (Inr (), s')"
      "ws_node s' = snd (exec_file (machine H) ?root ''docker'' [''rm'', ''-f'', name] (ws_node t))"
    using stop_removes [OF prepared_proxy [OF assms(2)]] by blast
  have "deploy_bc2 H s = Some (r, s')"
    using assms t s'(1) by (simp add: deploy_bc2_def Let_def then_open_def lift_script_def finally_do_def)
  then show ?thesis using s'(2) by blast
qed

subsection \<open>A machine for the witnesses\<close>

text \<open>
  The Docker host of \<open>Local_Nodes\<close> with a daemon that answers, the proxy image, and every other
  program succeeding.
\<close>

definition sim_exec :: "string \<Rightarrow> string \<Rightarrow> string list \<Rightarrow> (sim_host, string) script" where
  "sim_exec cwd command args s =
     (if command \<noteq> ''docker'' then (Inr ''ok'', s)
      else if args = [''version''] then (Inr ''24.0'', s)
      else if hd args = ''run'' \<and> args ! 4 = ''alpine/socat''
      then (Inr ''id'', s\<lparr>sh_containers := (sh_containers s)(args ! 3 \<mapsto> True)\<rparr>)
      else sim_docker args s)"

definition sim_tools :: ubtl_host where
  "sim_tools = \<lparr>repoRoot = ''/repo'', file_text = (\<lambda>_. None), parse_json = (\<lambda>_. Inr (JsonObject [(''ok'', JsonBool True)])),
     parse_storage_map = (\<lambda>_. Inl ''no map''), stringify_map = (\<lambda>_. []), localeCompare = (\<lambda>a b. 0), hexlify = (\<lambda>_. ''0x''),
     sha256 = id, keccak256_text = id, getAddress = Inr, Number_of = (\<lambda>_. None)\<rparr>"

definition sim_hetero :: "sim_host hetero" where
  "sim_hetero = \<lparr>machine = sim_machine\<lparr>exec_file := sim_exec\<rparr>, tools = sim_tools, read_text = (\<lambda>p n. Some ''artifact''),
     windows = False, launch = (\<lambda>p n. n),
     parse_url = (\<lambda>u. Inr \<lparr>url_protocol = ''ws:'', url_hostname = ''170.64.194.4'', url_port = ''18545''\<rparr>),
     json_text = (\<lambda>_. ''{}''), process_pid = 4711, timestamp = (\<lambda>n. show_int (sh_clock n))\<rparr>"

definition sim_session :: "process_env \<Rightarrow> sim_host hetero_session" where
  "sim_session env = \<lparr>ws_node = \<lparr>sh_images = {}, sh_containers = Map.empty, sh_clock = 0\<rparr>, ws_env = env,
     ws_rec = loadDeployment (\<lambda>_ _. None) ''xsmart'' ''bc2'', ws_disk = (\<lambda>_ _. None)\<rparr>"

definition prod_env :: process_env where
  "prod_env = [''XSMART_BC2_DEPLOY_MODE'' \<mapsto> ''prod'', ''XSMART_BC2_SKIP_BUILD'' \<mapsto> ''1'']"

definition peer_env :: process_env where
  "peer_env = [''XSMART_BC3_DEPLOY_MODE'' \<mapsto> ''peercli'', ''BC3_FABRIC_PACKAGE_ID'' \<mapsto> ''xsmart-bc3_1:ab'',
     ''BC3_FABRIC_ORDERER_ENDPOINT'' \<mapsto> ''orderer:7050'', ''BC3_FABRIC_PEER_ADDRESSES'' \<mapsto> ''peer0:7051'',
     ''BC3_FABRIC_TLS_ENABLED'' \<mapsto> ''0'']"

lemma sim_hetero_clock: "clock_documented (machine sim_hetero)"
  using sim_clock by (simp add: clock_documented_def sim_hetero_def sim_machine_def)

lemma sim_hetero_documented: "docker_documented (machine sim_hetero) sh_images sh_containers"
  using sim_documented
  by (simp add: docker_documented_def sim_hetero_def sim_machine_def sim_exec_def)

lemma env_trims:
  "env_trim peer_env ''XSMART_BC3_DEPLOY_MODE'' = ''peercli''" "env_trim peer_env ''BC3_FABRIC_PACKAGE_ID'' = ''xsmart-bc3_1:ab''"
  "env_trim prod_env ''XSMART_BC2_DEPLOY_MODE'' = ''prod''" "env_trim prod_env ''XSMART_BC2_DOCKER_WS_URL'' = []"
  by code_simp+

lemma sim_run_in: "command \<noteq> ''docker'' \<Longrightarrow> run_in sim_hetero cwd command args s = (Inr ''ok'', s)"
  by (simp add: run_in_def on_machine_def sim_hetero_def sim_machine_def sim_exec_def)

lemma sim_peer: "ws_env s = peer_env \<Longrightarrow> run_peer sim_hetero root args s = (Inr (), s)"
proof -
  have "peerBinary peer_env = ''peer''" by code_simp
  then show "ws_env s = peer_env \<Longrightarrow> run_peer sim_hetero root args s = (Inr (), s)"
    by (simp add: run_peer_def with_env_def await_def give_apply sim_run_in)
qed

lemma peer_arguments:
  "\<exists>a. commit_args peer_env name version sequence channel = Inr a"
  "\<exists>a. invoke_command H peer_env name channel fn args = Inr a"
  "\<exists>a. maybeAppendTLSFlags peer_env args = Inr a"
  "required_env peer_env ''BC3_FABRIC_ORDERER_ENDPOINT'' = Inr ''orderer:7050''"
proof -
  have e: "required_env peer_env ''BC3_FABRIC_ORDERER_ENDPOINT'' = Inr ''orderer:7050''"
    "splitCsvEnv peer_env ''BC3_FABRIC_PEER_ADDRESSES'' = [''peer0:7051'']" "splitCsvEnv peer_env ''BC3_FABRIC_TLS_ROOT_CERT_FILES'' = []"
    "js_trim (js_or (env_text peer_env ''BC3_FABRIC_TLS_ENABLED'') ''1'') = ''0''"
    by code_simp+
  then show "\<exists>a. commit_args peer_env name version sequence channel = Inr a" "\<exists>a. invoke_command H peer_env name channel fn args = Inr a"
    "\<exists>a. maybeAppendTLSFlags peer_env args = Inr a" "required_env peer_env ''BC3_FABRIC_ORDERER_ENDPOINT'' = Inr ''orderer:7050''"
    by (simp_all add: commit_args_def invoke_command_def maybeAppendTLSFlags_def Let_def)
qed

lemma sim_peer_args: "ws_env s = peer_env \<Longrightarrow> \<exists>a. m = Inr a \<Longrightarrow>
    await (of_res m) (run_peer sim_hetero root) s = (Inr (), s)"
  by (auto simp: await_def of_res_apply sim_peer)

lemma sim_peer_steps:
  assumes "ws_env s = peer_env"
  shows "packageChaincode sim_hetero root p l d s = (Inr (), s)" "installChaincode sim_hetero root p s = (Inr (), s)"
    "approveForMyOrg sim_hetero root p n v q c s = (Inr (), s)" "commitChaincode sim_hetero root n v q c s = (Inr (), s)"
    "invokeChaincode sim_hetero root n c fn args s = (Inr (), s)"
proof -
  show "packageChaincode sim_hetero root p l d s = (Inr (), s)" "installChaincode sim_hetero root p s = (Inr (), s)"
    by (simp_all add: packageChaincode_def installChaincode_def sim_peer [OF assms])
  show "commitChaincode sim_hetero root n v q c s = (Inr (), s)" "invokeChaincode sim_hetero root n c fn args s = (Inr (), s)"
    by (simp_all add: commitChaincode_def invokeChaincode_def with_env_def assms sim_peer_args peer_arguments)
  have "await (of_res (maybeAppendTLSFlags peer_env as)) (run_peer sim_hetero root) s = (Inr (), s)" for as
    by (rule sim_peer_args [OF assms peer_arguments(3)])
  then show "approveForMyOrg sim_hetero root p n v q c s = (Inr (), s)"
    by (simp add: approveForMyOrg_def with_env_def assms peer_arguments(4) await_Inr [where m = "of_res (Inr x)" and s' = s and a = x for x s] of_res_apply)
qed

lemma sim_entries: "\<exists>s'. record_entries es s = (Inr (), s')"
  by (induction es arbitrary: s) (auto simp: record_entries_def give_apply await_def record_entry_def split: prod.splits)

lemma sim_skips:
  assumes "ws_env s = peer_env" and "peer_env name = None"
  shows "unless_set name m s = m s"
  using assms by (simp add: unless_set_def with_env_def env_set_def)

lemma sim_peer_cli:
  assumes e: "ws_env s = peer_env"
  shows "\<exists>s'. deployPeerCLI sim_hetero root s = (Inr (), s')"
proof -
  note steps = sim_peer_steps [OF e]
  note skip = sim_skips [OF e]
  show ?thesis
    unfolding deployPeerCLI_def Let_def with_env_def [of _ s] e
    apply (subst await_Inr, simp add: of_res_apply normalizeEndpointForVM_def)
    apply (subst await_Inr, simp add: of_res_apply normalizeEndpointForVM_def)
    apply (subst await_Inr, subst skip, simp add: peer_env_def, rule steps)
    apply (subst await_Inr, subst skip, simp add: peer_env_def, rule steps)
    apply (subst await_Inr, simp add: env_trims give_apply)
    apply (subst await_Inr, subst skip, simp add: peer_env_def, rule steps)
    apply (subst await_Inr, subst skip, simp add: peer_env_def, rule steps)
    apply (subst await_Inr, subst skip, simp add: peer_env_def, subst await_Inr, rule steps, rule steps)
    apply (subst await_Inr, simp add: of_res_apply normalizeEndpointForVM_def)
    apply (subst await_Inr, simp add: of_res_apply normalizeEndpointForVM_def)
    by (rule sim_entries)
qed

lemma sim_peer_run: "\<exists>s'. deploy_bc3 sim_hetero (sim_session peer_env) = Some (Inr (), s')"
proof -
  have mode: "deployMode_bc3 peer_env = Bc3_peercli" by code_simp
  let ?s = "sim_session peer_env\<lparr>ws_rec := loadDeployment (ws_disk (sim_session peer_env)) ''xsmart'' ''bc3''\<rparr>"
  obtain s' where "deployPeerCLI sim_hetero (repoRoot (tools sim_hetero)) ?s = (Inr (), s')"
    using sim_peer_cli [of ?s] by (auto simp: sim_session_def)
  then show ?thesis
    by (simp add: deploy_bc3_def Let_def then_open_def lift_script_def load_record_def mode store_record_def sim_session_def)
qed


theorem hetero_deploys_end_witness:
  "(\<exists>r s'. deploy_bc2 sim_hetero (sim_session Map.empty) = Some (r, s')) \<and>
   (\<exists>r s'. deploy_bc3 sim_hetero (sim_session Map.empty) = Some (r, s') \<and>
     (r = Inr () \<longrightarrow> sh_containers (ws_node s') ''xsmart-bc3-fabric-local'' = Some True))"
proof -
  have "deployMode_bc3 Map.empty = Bc3_local" by code_simp
  then show ?thesis
    using hetero_deploys_end [OF sim_hetero_clock sim_hetero_documented, of "sim_session Map.empty"]
    by (simp add: sim_session_def)
qed

lemma sim_docker_ready: "dockerReady sim_hetero root s = (Inr True, s)"
  by (simp add: dockerReady_def recover_def await_def run_in_def on_machine_def sim_hetero_def sim_machine_def sim_exec_def give_apply)

lemma sim_run_docker:
  "\<exists>s'. run_allowed sim_hetero ''docker'' [''rm'', ''-f'', name] root s = (Inr ''removed'', s') \<and> ws_env s' = ws_env s"
  "\<exists>s'. run_in sim_hetero root ''docker'' [''run'', ''-d'', ''--name'', name, ''alpine/socat'', a, b, c, d] s = (Inr ''id'', s')
     \<and> ws_env s' = ws_env s"
  by (simp_all add: run_allowed_def recover_def run_in_def on_machine_def sim_hetero_def sim_machine_def sim_exec_def sim_docker_def)

lemma prod_names: "proxy_name sim_hetero prod_env = ''xsmart-bc2-remote-proxy-4711''" "listen_port prod_env = ''9944''"
proof -
  have "env_trim prod_env ''XSMART_BC2_PROXY_CONTAINER'' = []" "env_trim prod_env ''XSMART_BC2_PROXY_PORT'' = []" "show_nat 4711 = ''4711''"
    by code_simp+
  then show "proxy_name sim_hetero prod_env = ''xsmart-bc2-remote-proxy-4711''" "listen_port prod_env = ''9944''"
    by (simp_all add: proxy_name_def listen_port_def env_or_def sim_hetero_def)
qed

lemma sim_proxy:
  assumes "ws_env s = prod_env"
  shows "\<exists>s'. ensureBC2RemoteDockerProxy sim_hetero root url s = (Inr ''xsmart-bc2-remote-proxy-4711'', s')"
proof -
  let ?name = "''xsmart-bc2-remote-proxy-4711''"
  obtain s1 where s1: "run_allowed sim_hetero ''docker'' [''rm'', ''-f'', ?name] root s = (Inr ''removed'', s1)"
    using sim_run_docker(1) by blast
  have url: "parse_url sim_hetero url = Inr \<lparr>url_protocol = ''ws:'', url_hostname = ''170.64.194.4'', url_port = ''18545''\<rparr>"
    by (simp add: sim_hetero_def)
  obtain s2 where s2: "run_in sim_hetero root ''docker'' [''run'', ''-d'', ''--name'', ?name, ''alpine/socat'', ''-d'', ''-d'',
      ''TCP-LISTEN:9944,fork,reuseaddr'', ''TCP:170.64.194.4:18545''] s1 = (Inr ''id'', s2)"
    using sim_run_docker(2) by blast
  show ?thesis
    unfolding ensureBC2RemoteDockerProxy_def Let_def ensureDockerDaemon_def
    by (simp add: await_def sim_docker_ready give_apply of_res_apply url with_env_def assms prod_names s1 s2 set_env_def)
qed

lemma drop_mode_returns: "\<exists>t. drop_other_mode mode s = (Inr (), t) \<and> ws_env t = ws_env s"
  by (simp add: drop_other_mode_def await_def look_up_def forget_entry_def give_apply)

lemma sim_prepared:
  "\<exists>s1. prepare_bc2 sim_hetero prod_env ''/repo'' Bc2_prod (sim_session prod_env) =
     (Inr (Some ''xsmart-bc2-remote-proxy-4711''), s1)"
proof -
  have skip: "env_set prod_env ''XSMART_BC2_SKIP_BUILD''" by (simp add: env_set_def prod_env_def)
  have there: "read_text sim_hetero p n \<noteq> None" for p n by (simp add: sim_hetero_def)
  let ?s = "sim_session prod_env\<lparr>ws_rec := loadDeployment (ws_disk (sim_session prod_env)) ''xsmart'' ''bc2''\<rparr>"
  obtain t where t: "drop_other_mode Bc2_prod ?s = (Inr (), t)" "ws_env t = prod_env"
    using drop_mode_returns [of Bc2_prod ?s] by (auto simp: sim_session_def)
  obtain s1 where "ensureBC2RemoteDockerProxy sim_hetero ''/repo'' (bc2WSURL sim_hetero prod_env prod_env Bc2_prod (ws_node t)) t =
      (Inr ''xsmart-bc2-remote-proxy-4711'', s1)"
    using sim_proxy [OF t(2)] by blast
  then show ?thesis
    unfolding prepare_bc2_def build_contracts_def require_artifact_def
    by (simp add: await_def load_record_def with_env_def skip give_apply file_there_def there t env_trims with_url_def) 
      (simp add: sim_session_def skip t [unfolded sim_session_def, simplified] there env_trims)
qed

theorem proxy_always_removed_witness:
  "\<exists>r s' n. deploy_bc2 sim_hetero (sim_session prod_env) = Some (r, s') \<and>
     sh_containers (ws_node s') ''xsmart-bc2-remote-proxy-4711'' = None \<and>
     ws_node s' = snd (sim_exec ''/repo'' ''docker'' [''rm'', ''-f'', ''xsmart-bc2-remote-proxy-4711''] n)"
proof -
  have mode: "deployMode_bc2 prod_env = Bc2_prod" by code_simp
  obtain s1 where "prepare_bc2 sim_hetero prod_env ''/repo'' Bc2_prod (sim_session prod_env) =
     (Inr (Some ''xsmart-bc2-remote-proxy-4711''), s1)" using sim_prepared by blast
  then show ?thesis
    using proxy_always_removed [of "sim_session prod_env" sim_hetero "''xsmart-bc2-remote-proxy-4711''" s1] mode
    by (auto simp: sim_session_def sim_hetero_def sim_tools_def sim_machine_def sim_exec_def sim_docker_def)
qed

end
