(* ===== verification/Deploy_Atom.thy ===== *)
theory Deploy_Atom
  imports Deploy_Rerun
begin

text \<open>
  \<open>scripts/atom/deploy-bc1.ts\<close>: ATOM's hub chain. Beside the client of \<open>common.ts\<close> the script sends
  through ethers contracts (\<open>contractAt\<close>) and uses two functions of web3; they are the record
  \<open>atom_tools\<close>. Console output is left out.
\<close>

record 'n atom_tools =
  ethers_send :: "string \<Rightarrow> string \<Rightarrow> string \<Rightarrow> js_value list \<Rightarrow> ('n, unit) script"
  selector_of :: "string \<Rightarrow> string"
  keccak_of :: "string \<Rightarrow> string"

definition judgeAddrs :: "('n, 'd) deploy_env \<Rightarrow> string list" where
  "judgeAddrs D = map (account_of (api D)) judge_keys"

subsection \<open>The server and the judges\<close>

text \<open>\<open>try { await (await c.m(a)).wait() } catch { console.log }\<close>\<close>

definition try_register :: "'n atom_tools \<Rightarrow> string \<Rightarrow> string \<Rightarrow> string \<Rightarrow> ('n session, unit) script" where
  "try_register T community meth a =
     recover (on_node (ethers_send T ''AtomCommunity'' community meth [str_arg a])) (\<lambda>_. give ())"

definition atom_register :: "('n, 'd) deploy_env \<Rightarrow> 'n atom_tools \<Rightarrow> string \<Rightarrow> ('n session, unit) script" where
  "atom_register D T community = with_rec (\<lambda>d.
     if contract_at d ''__server_registered'' \<noteq> [] \<and> \<not> forceRedeploy (environ D) then give ()
     else
       await (of_res (readArtifact (api D) ''AtomCommunity'')) (\<lambda>_.
       await (try_register T community ''registerServer'' (atomServerAddr D)) (\<lambda>_.
       await (for_each (judgeAddrs D) (try_register T community ''registerJudge'')) (\<lambda>_.
       await (write_contract ''__server_registered'' ''1'') (\<lambda>_.
       await (write_contract ''atomServer'' (atomServerAddr D)) (\<lambda>_.
       await (write_contract ''atomJudges'' (join '','' (judgeAddrs D))) (\<lambda>_.
       save D)))))))"

subsection \<open>The remote functions\<close>

record remote_function =
  rmf_id :: string
  rmf_chainId :: int
  rmf_contract :: string
  rmf_unit :: string
  rmf_pattern :: int
  rmf_read :: string
  rmf_lockDo :: string
  rmf_unlock :: string
  rmf_undo :: string

definition NO_SELECTOR :: string where
  "NO_SELECTOR = ''0x00000000''"

definition write_function :: "'n atom_tools \<Rightarrow> string \<Rightarrow> int \<Rightarrow> string \<Rightarrow> string \<Rightarrow> string \<Rightarrow> remote_function" where
  "write_function T name chain contract businessUnit lockDo =
     \<lparr>rmf_id = keccak_of T name, rmf_chainId = chain, rmf_contract = contract, rmf_unit = businessUnit, rmf_pattern = 0,
      rmf_read = NO_SELECTOR, rmf_lockDo = selector_of T lockDo, rmf_unlock = selector_of T ''book_unlock(bytes32,bytes)'',
      rmf_undo = selector_of T ''book_undo_unlock(bytes32,bytes)''\<rparr>"

definition remote_functions :: "'n atom_tools \<Rightarrow> deployment \<Rightarrow> deployment \<Rightarrow> remote_function list" where
  "remote_functions T bc2 bc3 =
     [\<lparr>rmf_id = keccak_of T ''hotel-read'', rmf_chainId = 2, rmf_contract = contract_at bc2 ''atomHotel'',
       rmf_unit = ''hotel.getRemain'', rmf_pattern = 1, rmf_read = selector_of T ''getRemain_atomic(bytes32)'',
       rmf_lockDo = NO_SELECTOR, rmf_unlock = NO_SELECTOR, rmf_undo = NO_SELECTOR\<rparr>,
      write_function T ''hotel-write'' 2 (contract_at bc2 ''atomHotel'') ''hotel.book''
        ''book_lock_do(bytes32,bytes32,address,uint256)'',
      write_function T ''train-write'' 3 (contract_at bc3 ''atomTrain'') ''train.book''
        ''book_lock_do(bytes32,bytes32,address,uint256,uint256)'',
      write_function T ''flight-write'' 2 (contract_at bc2 ''atomFlight'') ''flight.book''
        ''book_lock_do(bytes32,bytes32,address,uint256)'',
      write_function T ''taxi-write'' 3 (contract_at bc3 ''atomTaxi'') ''taxi.book''
        ''book_lock_do(bytes32,bytes32,address,uint256)'']"

definition remote_args :: "remote_function \<Rightarrow> js_value list" where
  "remote_args f =
     [str_arg (rmf_id f), num_arg (rmf_chainId f), str_arg (rmf_contract f), str_arg (rmf_unit f), num_arg (rmf_pattern f),
      str_arg (rmf_read f), str_arg (rmf_lockDo f), str_arg (rmf_unlock f), str_arg (rmf_undo f)]"

definition register_remote :: "('n, 'd) deploy_env \<Rightarrow> string \<Rightarrow> remote_function \<Rightarrow> ('n session, unit) script" where
  "register_remote D registry f =
     (if rmf_id f = [] \<or> rmf_contract f = [] then give ()
      else ensure (readContract (api D) ''AtomRemoteRegistry'' registry ''isRegistered'' [str_arg (rmf_id f)]) falsy
        (sendContract (api D) ''AtomRemoteRegistry'' registry ''registerRemoteFunction'' (remote_args f) None))"

subsection \<open>The settlement\<close>

definition atom_seed :: "('n, 'd) deploy_env \<Rightarrow> string \<Rightarrow> ('n session, unit) script" where
  "atom_seed D service = with_rec (\<lambda>d.
     if contract_at d ''__settlement_seeded'' \<noteq> [] \<and> \<not> forceRedeploy (environ D) then give ()
     else
       await (sendContract (api D) ''AtomService'' service ''setSettlementTerms''
         [str_arg (show_int (ATOM_SERVER_REWARD CONSTS)), str_arg (show_int (ATOM_SERVER_PENALTY CONSTS)),
          str_arg (show_int (ATOM_JUDGE_REWARD CONSTS)), str_arg (show_int (ATOM_JUDGE_PENALTY CONSTS))] None) (\<lambda>_.
       await (sendContract (api D) ''AtomService'' service ''fundRewardPool'' [] (Some (ATOM_REWARD_POOL CONSTS))) (\<lambda>_.
       await (sendContractWithPrivateKey (api D) atomServer_key ''AtomService'' service ''depositBond'' []
         (Some (ATOM_SERVER_BOND CONSTS))) (\<lambda>_.
       await (for_each judge_keys (\<lambda>judgePk. await (sendContractWithPrivateKey (api D) judgePk ''AtomService'' service
         ''depositBond'' [] (Some (ATOM_JUDGE_BOND CONSTS))) (\<lambda>_. give ()))) (\<lambda>_.
       await (write_contract ''__settlement_seeded'' ''1'') (\<lambda>_.
       save D))))))"

subsection \<open>The script\<close>

definition entry_args :: "('n, 'd) deploy_env \<Rightarrow> string \<Rightarrow> string \<Rightarrow> js_value list" where
  "entry_args D service remoteRegistry =
     [str_arg service, str_arg remoteRegistry, str_arg (atomServerAddr D), num_arg (ATOM_JUDGE_NUM_NEED CONSTS),
      num_arg (ATOM_JUDGE_NUM_MIN CONSTS), num_arg (ATOM_MAX_SERVICE_TIME_BLOCKS CONSTS), num_arg (ATOM_MAX_AUDIT_TIME_BLOCKS CONSTS)]"

definition atom_bc1 :: "('n, 'd) deploy_env \<Rightarrow> 'n atom_tools \<Rightarrow> ('n session, unit) script" where
  "atom_bc1 D T = (\<lambda>s0.
     (let net = network D; bc2 = loadDeployment (files s0) ''atom'' ''bc2''; bc3 = loadDeployment (files s0) ''atom'' ''bc3'' in
      await (open_record D ''atom'' net (chainIdOf net)) (\<lambda>_.
      await (fundActors (api D) (atomServerAddr D # judgeAddrs D)) (\<lambda>_.
      await (deployed D ''atomCommunity'' ''AtomCommunity'' []) (\<lambda>community.
      await (deployed D ''atomService'' ''AtomService'' [str_arg community]) (\<lambda>service.
      await (deployed D ''atomRemoteRegistry'' ''AtomRemoteRegistry'' []) (\<lambda>remoteRegistry.
      await (atom_register D T community) (\<lambda>_.
      await (deployed D ''atomTravelEntry'' ''AtomTravelEntry'' (entry_args D service remoteRegistry)) (\<lambda>_.
      await (deployed D ''atomTravelDepthEntry'' ''AtomTravelDepthEntry'' (entry_args D service remoteRegistry)) (\<lambda>_.
      await (for_each (remote_functions T bc2 bc3) (register_remote D remoteRegistry)) (\<lambda>_.
      await (atom_seed D service) (\<lambda>_.
      save D)))))))))) s0))"

subsection \<open>The registration flag\<close>

text \<open>A community contract that turns every registration down.\<close>

definition refuses :: "'n atom_tools \<Rightarrow> bool" where
  "refuses T \<longleftrightarrow> (\<forall>name a meth args n. \<exists>e n'. ethers_send T name a meth args n = (Inl e, n'))"

lemma refused_register:
  assumes "refuses T"
  shows "\<exists>s'. try_register T community meth a s = (Inr (), s') \<and> rec s' = rec s \<and> files s' = files s"
  using assms unfolding refuses_def try_register_def recover_def on_node_def
  by (auto simp: give_apply split: prod.splits sum.splits)

lemma refused_judges:
  assumes "refuses T"
  shows "\<exists>s'. for_each js (try_register T community meth) s = (Inr (), s') \<and> rec s' = rec s \<and> files s' = files s"
proof (induction js arbitrary: s)
  case Nil
  then show ?case by (simp add: give_apply)
next
  case (Cons j js)
  obtain t where t: "try_register T community meth j s = (Inr (), t)" "rec t = rec s" "files t = files s"
    using refused_register [OF assms] by blast
  obtain s' where "for_each js (try_register T community meth) t = (Inr (), s')" "rec s' = rec t" "files s' = files t"
    using Cons.IH by blast
  then show ?case using t by (simp add: await_Inr)
qed

text \<open>
  C40. ATOM's registration flag does not say that anyone is registered. When the community contract turns
  down every registration, the step returns all the same and writes the flag to the deployment file; and
  with the flag on record a later run without FORCE_REDEPLOY sends no registration, whichever community
  contract it has, a freshly deployed one included.
\<close>

theorem atom_flag_without_registration:
  assumes "refuses T" and "readArtifact (api D) ''AtomCommunity'' = Inr artifact"
    and "contract_at (rec s) ''__server_registered'' = []"
  shows "\<exists>s'. atom_register D T community s = (Inr (), s') \<and>
    files s' (d_system (rec s)) (d_network (rec s)) = Some (rec s') \<and>
    contract_at (rec s') ''__server_registered'' = ''1'' \<and>
    (\<not> forceRedeploy (environ D) \<longrightarrow> (\<forall>community' T' t. contract_at (rec t) ''__server_registered'' = ''1'' \<longrightarrow>
       atom_register D T' community' t = (Inr (), t)))"
proof -
  obtain s1 where s1: "try_register T community ''registerServer'' (atomServerAddr D) s = (Inr (), s1)" "rec s1 = rec s"
    using refused_register [OF assms(1)] by blast
  obtain s2 where s2: "for_each (judgeAddrs D) (try_register T community ''registerJudge'') s1 = (Inr (), s2)" "rec s2 = rec s1"
    using refused_judges [OF assms(1)] by blast
  have "\<exists>s'. atom_register D T community s = (Inr (), s') \<and> files s' (d_system (rec s)) (d_network (rec s)) = Some (rec s') \<and>
      contract_at (rec s') ''__server_registered'' = ''1''"
    using assms(2,3) s1 s2
    by (simp add: atom_register_def with_rec_def await_def of_res_apply write_contract_def save_def writeDeployment_def Let_def
        set_contract_def contract_at_def)
  moreover have "atom_register D T' community' t = (Inr (), t)"
    if "\<not> forceRedeploy (environ D)" "contract_at (rec t) ''__server_registered'' = ''1''" for community' T' t
    using that by (simp add: atom_register_def with_rec_def give_apply)
  ultimately show ?thesis by blast
qed

definition silent_tools :: "'n atom_tools" where
  "silent_tools = \<lparr>ethers_send = (\<lambda>name a meth args n. (Inl ''execution reverted'', n)), selector_of = (\<lambda>t. ''0x01020304''), keccak_of = id\<rparr>"

theorem atom_flag_without_registration_witness:
  "\<exists>s'. atom_register (reference_deploy ''bc1'') silent_tools ''0xc1'' fresh_session = (Inr (), s') \<and>
     contract_at (rec s') ''__server_registered'' = ''1'' \<and>
     atom_register (reference_deploy ''bc1'') silent_tools ''0xc2'' s' = (Inr (), s')"
proof -
  have refuse: "refuses silent_tools" by (simp add: refuses_def silent_tools_def)
  have force: "\<not> forceRedeploy (environ (reference_deploy ''bc1''))" by (simp add: forceRedeploy_def reference_deploy_def)
  obtain artifact where art: "readArtifact (api (reference_deploy ''bc1'')) ''AtomCommunity'' = Inr artifact"
    by (simp add: reference_deploy_def chain_api_def chain_artifact_def reference_rules_def)
  have flag: "contract_at (rec fresh_session) ''__server_registered'' = []" by (simp add: fresh_session_def contract_at_def)
  from atom_flag_without_registration [OF refuse art flag, of "''0xc1''"] force show ?thesis by blast
qed

end
