(* ===== verification/Rq2_Summary.thy ===== *)
theory Rq2_Summary
  imports Vm_Loop
begin

text \<open>
  \<open>scripts/rq2/summarize-rq2.ts\<close> and \<open>summarize-rq2-hybrid.ts\<close>: the tables made from the result files
  of the two runners. The file system gives the parsed content of a file, an error when the content
  does not parse, or nothing; the fields the summaries read are the record \<open>result_file\<close>.
\<close>

record result_file =
  rf_contract :: string
  rf_runs :: int
  rf_pass :: int
  rf_fail :: int
  rf_passRate :: "rat option"
  rf_failByCategory :: "(string \<times> nat) list option"

type_synonym result_disk = "string \<Rightarrow> result_file res option"

definition summary_contracts :: "string list" where
  "summary_contracts = [''HotelBooking'', ''TrainBooking'', ''TokenTransfer'', ''AuctionLogic'', ''DEXSwap'']"

definition result_path :: "string \<Rightarrow> string" where
  "result_path name = join ''/'' [''benchmark-results'', ''rq2'', ''results'', name]"

definition readJson :: "result_disk \<Rightarrow> string \<Rightarrow> result_file res" where
  "readJson disk file = (case disk file of
     Some r \<Rightarrow> r
   | None \<Rightarrow> Inl (''ENOENT: no such file or directory, open '' @ file))"

subsection \<open>The plain summary\<close>

record plain_row =
  pr_contract :: string
  pr_status :: "string option"
  pr_runs :: int
  pr_pass :: int
  pr_fail :: int
  pr_passRate :: "rat option"

definition readResult :: "result_disk \<Rightarrow> string \<Rightarrow> plain_row res" where
  "readResult disk contract =
     (let file = result_path (contract @ ''.json'') in
      case disk file of
        None \<Rightarrow> Inr \<lparr>pr_contract = contract, pr_status = Some ''not_run'', pr_runs = 0, pr_pass = 0, pr_fail = 0,
                  pr_passRate = None\<rparr>
      | Some r \<Rightarrow> res_bind r (\<lambda>f. Inr \<lparr>pr_contract = rf_contract f, pr_status = None, pr_runs = rf_runs f,
                  pr_pass = rf_pass f, pr_fail = rf_fail f, pr_passRate = rf_passRate f\<rparr>))"

definition summarize_rq2 :: "result_disk \<Rightarrow> plain_row list res" where
  "summarize_rq2 disk = res_mapM (readResult disk) summary_contracts"

subsection \<open>The hybrid summary\<close>

record semantic_row =
  sr_contract :: string
  sr_runs :: int
  sr_pass :: int
  sr_fail :: int
  sr_passRate :: "rat option"
  sr_failByCategory :: "(string \<times> nat) list"
  sr_artifact :: string

record live_row =
  lr_contract :: string
  lr_runs :: int
  lr_pass :: int
  lr_fail :: int
  lr_passRate :: "rat option"
  lr_artifact :: string
  lr_status :: string

definition liveFileFor :: "result_disk \<Rightarrow> string \<Rightarrow> string option" where
  "liveFileFor disk contract =
     find (\<lambda>file. disk file \<noteq> None)
       [result_path (contract @ ''-vm-live30.json''), result_path (contract @ ''-vm-full.json''),
        result_path (contract @ ''-vm-200.json'')]"

definition semantic_for :: "result_disk \<Rightarrow> string \<Rightarrow> semantic_row res" where
  "semantic_for disk contract =
     (let file = result_path (contract @ ''.json'') in
      res_bind (readJson disk file) (\<lambda>result.
      Inr \<lparr>sr_contract = contract, sr_runs = rf_runs result, sr_pass = rf_pass result, sr_fail = rf_fail result,
           sr_passRate = rf_passRate result,
           sr_failByCategory = (case rf_failByCategory result of Some m \<Rightarrow> m | None \<Rightarrow> []), sr_artifact = file\<rparr>))"

definition live_for :: "result_disk \<Rightarrow> string \<Rightarrow> live_row res" where
  "live_for disk contract = (case liveFileFor disk contract of
     None \<Rightarrow> Inr \<lparr>lr_contract = contract, lr_runs = 0, lr_pass = 0, lr_fail = 0, lr_passRate = Some 0,
                 lr_artifact = [], lr_status = ''missing''\<rparr>
   | Some file \<Rightarrow> res_bind (readJson disk file) (\<lambda>result.
       Inr \<lparr>lr_contract = contract, lr_runs = rf_runs result, lr_pass = rf_pass result, lr_fail = rf_fail result,
            lr_passRate = rf_passRate result, lr_artifact = file,
            lr_status = (if rf_fail result = 0 then ''pass'' else ''fail'')\<rparr>))"

record hybrid_summary =
  h_semantic :: "semantic_row list"
  h_semanticRuns :: int
  h_semanticPass :: int
  h_semanticFail :: int
  h_live :: "live_row list"
  h_liveRuns :: int
  h_livePass :: int
  h_liveFail :: int
  h_smoke :: "(string \<times> int \<times> int \<times> int) option"

definition fallback_smoke :: "result_disk \<Rightarrow> (string \<times> int \<times> int \<times> int) option res" where
  "fallback_smoke disk =
     (let file = result_path ''vm-smoke.json'' in
      case disk file of
        None \<Rightarrow> Inr None
      | Some r \<Rightarrow> res_bind r (\<lambda>f. Inr (Some (file, rf_runs f, rf_pass f, rf_fail f))))"

definition reduce_sum :: "('r \<Rightarrow> int) \<Rightarrow> 'r list \<Rightarrow> int" where
  "reduce_sum f rows = foldl (\<lambda>sum row. sum + f row) 0 rows"

definition summarize_hybrid :: "result_disk \<Rightarrow> hybrid_summary res" where
  "summarize_hybrid disk =
     res_bind (res_mapM (semantic_for disk) summary_contracts) (\<lambda>semantic.
     res_bind (res_mapM (live_for disk) summary_contracts) (\<lambda>liveVm.
     res_bind (fallback_smoke disk) (\<lambda>smoke.
     Inr \<lparr>h_semantic = semantic, h_semanticRuns = reduce_sum sr_runs semantic, h_semanticPass = reduce_sum sr_pass semantic,
          h_semanticFail = reduce_sum sr_fail semantic, h_live = liveVm, h_liveRuns = reduce_sum lr_runs liveVm,
          h_livePass = reduce_sum lr_pass liveVm, h_liveFail = reduce_sum lr_fail liveVm, h_smoke = smoke\<rparr>)))"

subsection \<open>Files the runners write\<close>

definition file_of_report :: "rq2_output \<Rightarrow> result_file" where
  "file_of_report o1 = \<lparr>rf_contract = ro_contract o1, rf_runs = int (ro_runs o1), rf_pass = int (ro_pass o1),
     rf_fail = int (ro_fail o1), rf_passRate = Some (ro_passRate o1), rf_failByCategory = Some (ro_failByCategory o1)\<rparr>"

definition file_of_live :: "vm_output \<Rightarrow> result_file" where
  "file_of_live v = \<lparr>rf_contract = vo_contract v, rf_runs = int (vo_runs v), rf_pass = int (vo_pass v),
     rf_fail = int (vo_fail v),
     rf_passRate = Some (if vo_runs v = 0 then 0 else of_nat (vo_pass v) / of_nat (vo_runs v)), rf_failByCategory = None\<rparr>"

subsection \<open>What the hybrid summary says\<close>

type_synonym live_run = "string \<times> generated_case list \<times> case_result list"

text \<open>The files of the runners: the report of a semantic run for every contract, and for some the
  report of a live run, finished or not.\<close>

definition written_by_runners :: "result_disk \<Rightarrow> (string \<Rightarrow> case_result list) \<Rightarrow> (string \<Rightarrow> live_run option) \<Rightarrow> bool" where
  "written_by_runners disk semantic lives \<longleftrightarrow> disk (result_path ''vm-smoke.json'') = None \<and>
     list_all (\<lambda>c. disk (result_path (c @ ''.json'')) = Some (Inr (file_of_report (rq2_summary c (semantic c)))) \<and>
       (case lives c of
          None \<Rightarrow> liveFileFor disk c = None
        | Some (nsp, cases, results) \<Rightarrow> (case liveFileFor disk c of
            None \<Rightarrow> False
          | Some file \<Rightarrow> disk file = Some (Inr (file_of_live (vm_report c nsp cases results)))))) summary_contracts"

definition live_results :: "live_run option \<Rightarrow> case_result list" where
  "live_results v = (case v of None \<Rightarrow> [] | Some (nsp, cases, results) \<Rightarrow> results)"

lemma res_mapM_map: "(\<And>x. x \<in> set xs \<Longrightarrow> f x = Inr (g x)) \<Longrightarrow> res_mapM f xs = Inr (map g xs)"
  by (induction xs) auto

lemma reduce_sum_map: "reduce_sum f rows = sum_list (map f rows)"
proof -
  have "foldl (\<lambda>sum row. sum + f row) a rows = a + sum_list (map f rows)" for a
    by (induction rows arbitrary: a) (auto simp: algebra_simps)
  then show ?thesis by (simp add: reduce_sum_def)
qed

lemma fail_count: "length rs - length (filter cr_pass rs) = length (filter (\<lambda>r. \<not> cr_pass r) rs)"
  using pass_plus_fail [of rs] by linarith

lemma semantic_counts:
  assumes "written_by_runners disk semantic lives" "c \<in> set summary_contracts"
  shows "\<exists>row. semantic_for disk c = Inr row \<and> sr_runs row = int (length (semantic c)) \<and>
    sr_pass row = int (length (filter cr_pass (semantic c))) \<and> sr_fail row = int (length (filter (\<lambda>r. \<not> cr_pass r) (semantic c)))"
proof -
  have "disk (result_path (c @ ''.json'')) = Some (Inr (file_of_report (rq2_summary c (semantic c))))"
    using assms by (auto simp: written_by_runners_def list_all_iff)
  then show ?thesis
    by (simp add: semantic_for_def readJson_def Let_def file_of_report_def rq2_summary_def fail_count)
qed

lemma live_counts:
  assumes "written_by_runners disk semantic lives" "c \<in> set summary_contracts"
  shows "\<exists>row. live_for disk c = Inr row \<and> lr_contract row = c \<and> lr_runs row = int (length (live_results (lives c))) \<and>
    lr_pass row = int (length (filter cr_pass (live_results (lives c)))) \<and>
    lr_fail row = int (length (filter (\<lambda>r. \<not> cr_pass r) (live_results (lives c)))) \<and>
    lr_status row = (if lives c = None then ''missing''
      else if list_all cr_pass (live_results (lives c)) then ''pass'' else ''fail'')"
proof -
  have all: "filter (\<lambda>r. \<not> cr_pass r) rs = [] \<longleftrightarrow> list_all cr_pass rs" for rs
    by (simp add: filter_empty_conv list_all_iff)
  show ?thesis
  proof (cases "lives c")
    case None
    then have "liveFileFor disk c = None" using assms by (auto simp: written_by_runners_def list_all_iff)
    then show ?thesis using None by (simp add: live_for_def live_results_def)
  next
    case (Some v)
    obtain nsp cases results where v: "v = (nsp, cases, results)" by (cases v) auto
    have "case lives c of None \<Rightarrow> liveFileFor disk c = None
        | Some (nsp, cases, results) \<Rightarrow> (case liveFileFor disk c of None \<Rightarrow> False
          | Some path \<Rightarrow> disk path = Some (Inr (file_of_live (vm_report c nsp cases results))))"
      using assms unfolding written_by_runners_def list_all_iff by blast
    then obtain path where "liveFileFor disk c = Some path" "disk path = Some (Inr (file_of_live (vm_report c nsp cases results)))"
      unfolding Some v by (cases "liveFileFor disk c") simp_all
    then show ?thesis using Some v
      by (simp add: live_for_def live_results_def readJson_def file_of_live_def vm_report_def Let_def fail_count all)
  qed
qed

lemma sum_list_pass_fail: "(\<Sum>c\<leftarrow>cs. int (length (f c))) =
    (\<Sum>c\<leftarrow>cs. int (length (filter cr_pass (f c)))) + (\<Sum>c\<leftarrow>cs. int (length (filter (\<lambda>r. \<not> cr_pass r) (f c))))"
proof -
  have "int (length (f c)) = int (length (filter cr_pass (f c))) + int (length (filter (\<lambda>r. \<not> cr_pass r) (f c)))" for c
    using pass_plus_fail [of "f c"] by linarith
  then show ?thesis by (simp add: sum_list_addf)
qed

text \<open>
  C27. The hybrid summary reads the runners' reports faithfully: it is produced, its totals count every
  result exactly once as a pass or a failure on both sides, and a live row is marked pass exactly when a
  live file exists and every result in it passed. How many cases the live run should have had plays no
  part: a run that was killed after its first passing case is marked pass as a finished one is.
\<close>

theorem hybrid_summary_exact:
  assumes "written_by_runners disk semantic lives"
  shows "\<exists>h. summarize_hybrid disk = Inr h \<and>
    h_semanticRuns h = (\<Sum>c\<leftarrow>summary_contracts. int (length (semantic c))) \<and>
    h_semanticRuns h = h_semanticPass h + h_semanticFail h \<and>
    h_liveRuns h = (\<Sum>c\<leftarrow>summary_contracts. int (length (live_results (lives c)))) \<and>
    h_liveRuns h = h_livePass h + h_liveFail h \<and>
    (\<forall>row \<in> set (h_live h). lr_status row = ''pass'' \<longleftrightarrow>
       lives (lr_contract row) \<noteq> None \<and> list_all cr_pass (live_results (lives (lr_contract row))))"
proof -
  obtain S where S: "\<And>c. c \<in> set summary_contracts \<Longrightarrow> semantic_for disk c = Inr (S c) \<and> sr_runs (S c) = int (length (semantic c)) \<and>
      sr_pass (S c) = int (length (filter cr_pass (semantic c))) \<and> sr_fail (S c) = int (length (filter (\<lambda>r. \<not> cr_pass r) (semantic c)))"
    using semantic_counts [OF assms] by metis
  obtain L where L: "\<And>c. c \<in> set summary_contracts \<Longrightarrow> live_for disk c = Inr (L c) \<and> lr_contract (L c) = c \<and>
      lr_runs (L c) = int (length (live_results (lives c))) \<and> lr_pass (L c) = int (length (filter cr_pass (live_results (lives c)))) \<and>
      lr_fail (L c) = int (length (filter (\<lambda>r. \<not> cr_pass r) (live_results (lives c)))) \<and>
      lr_status (L c) = (if lives c = None then ''missing'' else if list_all cr_pass (live_results (lives c)) then ''pass'' else ''fail'')"
    using live_counts [OF assms] by metis
  have smoke: "fallback_smoke disk = Inr None" using assms by (simp add: written_by_runners_def fallback_smoke_def)
  have maps: "res_mapM (semantic_for disk) summary_contracts = Inr (map S summary_contracts)"
    "res_mapM (live_for disk) summary_contracts = Inr (map L summary_contracts)"
    using S L by (auto intro!: res_mapM_map)
  have sums: "reduce_sum g (map k summary_contracts) = sum_list (map f summary_contracts)"
    if "\<And>c. c \<in> set summary_contracts \<Longrightarrow> g (k c) = f c" for g :: "'r \<Rightarrow> int" and k f
    using that by (simp add: reduce_sum_map cong: map_cong)
  show ?thesis
    unfolding summarize_hybrid_def maps smoke res_bind.simps
    using S L sum_list_pass_fail [of semantic summary_contracts] sum_list_pass_fail [of "\<lambda>c. live_results (lives c)" summary_contracts]
    by (auto simp: reduce_sum_map comp_def cong: map_cong)
qed

text \<open>A report per contract, and a live run of two cases killed after the first.\<close>

definition passing_result :: case_result where
  "passing_result = \<lparr>cr_caseId = ''token-0000'', cr_seed = 20260426, cr_pass = True, failCategory = None, failReason = None,
     operationIndex = None, originalSnapshotHash = None, translatedSnapshotHash = None\<rparr>"

definition killed_run :: live_run where
  "killed_run = (''vm-1'', [sample_token_case 0, sample_token_case 1], [passing_result])"

definition sample_disk :: result_disk where
  "sample_disk file =
     (if file = result_path ''TokenTransfer-vm-full.json''
      then Some (Inr (file_of_live (vm_report ''TokenTransfer'' ''vm-1'' [sample_token_case 0, sample_token_case 1] [passing_result])))
      else map_option (\<lambda>c. Inr (file_of_report (rq2_summary c [])))
        (find (\<lambda>c. file = result_path (c @ ''.json'')) summary_contracts))"

lemma sample_files: "written_by_runners sample_disk (\<lambda>_. []) (\<lambda>c. if c = ''TokenTransfer'' then Some killed_run else None)"
  by (simp add: written_by_runners_def summary_contracts_def sample_disk_def liveFileFor_def result_path_def killed_run_def)

theorem hybrid_summary_exact_witness:
  "\<exists>h. summarize_hybrid sample_disk = Inr h \<and> h_liveRuns h = 1 \<and>
     (\<forall>row \<in> set (h_live h). lr_contract row = ''TokenTransfer'' \<longrightarrow> lr_status row = ''pass'')"
proof -
  have total: "(\<Sum>c\<leftarrow>summary_contracts. int (length (live_results (if c = ''TokenTransfer'' then Some killed_run else None)))) = 1"
    by (simp add: summary_contracts_def live_results_def killed_run_def)
  obtain h where h: "summarize_hybrid sample_disk = Inr h" "h_liveRuns h = 1"
      "\<forall>row \<in> set (h_live h). lr_status row = ''pass'' \<longleftrightarrow>
         (if lr_contract row = ''TokenTransfer'' then Some killed_run else None) \<noteq> None \<and>
         list_all cr_pass (live_results (if lr_contract row = ''TokenTransfer'' then Some killed_run else None))"
    using hybrid_summary_exact [OF sample_files] unfolding total by blast
  have "\<forall>row \<in> set (h_live h). lr_contract row = ''TokenTransfer'' \<longrightarrow> lr_status row = ''pass''"
    using h(3) by (simp add: live_results_def killed_run_def passing_result_def)
  then show ?thesis using h(1,2) by blast
qed

end
