(* ===== verification/Js_Numbers.thy ===== *)
theory Js_Numbers
  imports Js_Values
begin

text \<open>
  The numbers of JavaScript as far as the Fabric simulator uses them: whole numbers, the infinities and
  NaN, with the rounding of a double (53 significant bits, ties to even, overflow to an infinity).
  Fractions are left out, and 0 and -0 are one value.
\<close>

subsection \<open>Rounding\<close>

datatype js_num = Whole int | Plus_inf | Minus_inf | Not_a_number

text \<open>The number of binary digits.\<close>

function bits :: "int \<Rightarrow> nat" where
  "bits n = (if n \<le> 0 then 0 else Suc (bits (n div 2)))"
  by pat_completeness auto

termination bits
  by (relation "measure nat") auto

declare bits.simps [simp del]

text \<open>\<open>a / b\<close> to the nearest integer, ties to even.\<close>

definition half_even :: "int \<Rightarrow> int \<Rightarrow> int" where
  "half_even a b =
     (let q = a div b; r = a mod b in if 2 * r > b \<or> (2 * r = b \<and> odd q) then q + 1 else q)"

text \<open>The double nearest to a whole number.\<close>

definition round_double :: "int \<Rightarrow> js_num" where
  "round_double n =
     (if \<bar>n\<bar> \<le> 2 ^ 53 then Whole n
      else let k = bits \<bar>n\<bar> - 53; m = half_even \<bar>n\<bar> (2 ^ k) * 2 ^ k in
        if bits m > 1024 then (if n < 0 then Minus_inf else Plus_inf) else Whole (sgn n * m))"

text \<open>\<open>Math.floor(a / b)\<close> for \<open>b\<close> other than 0: the quotient is rounded to a double before the floor.\<close>

definition floor_ratio :: "int \<Rightarrow> int \<Rightarrow> int" where
  "floor_ratio a b =
     (let x = \<bar>a\<bar>; y = \<bar>b\<bar>; neg = ((a < 0) \<noteq> (b < 0)); q = x div y;
          signed_floor = (\<lambda>n j. (if neg then - n else n) div 2 ^ j) in
      if x = 0 then 0
      else if q = 0 then
        (if y * (2 ^ 54 - 1) \<le> x * 2 ^ 54 then (if neg then -1 else 1) else if neg then -1 else 0)
      else if bits q \<le> 53 then signed_floor (half_even (x * 2 ^ (53 - bits q)) y) (53 - bits q)
      else signed_floor (half_even x (y * 2 ^ (bits q - 53)) * 2 ^ (bits q - 53)) 0)"

subsection \<open>Arithmetic\<close>

fun num_add :: "js_num \<Rightarrow> js_num \<Rightarrow> js_num" where
  "num_add (Whole a) (Whole b) = round_double (a + b)"
| "num_add Not_a_number y = Not_a_number"
| "num_add x Not_a_number = Not_a_number"
| "num_add Plus_inf Minus_inf = Not_a_number"
| "num_add Minus_inf Plus_inf = Not_a_number"
| "num_add Plus_inf y = Plus_inf"
| "num_add Minus_inf y = Minus_inf"
| "num_add x y = y"

fun num_neg :: "js_num \<Rightarrow> js_num" where
  "num_neg (Whole a) = Whole (- a)"
| "num_neg Plus_inf = Minus_inf"
| "num_neg Minus_inf = Plus_inf"
| "num_neg Not_a_number = Not_a_number"

definition num_sub :: "js_num \<Rightarrow> js_num \<Rightarrow> js_num" where
  "num_sub x y = num_add x (num_neg y)"

fun num_sign :: "js_num \<Rightarrow> int" where
  "num_sign (Whole a) = sgn a"
| "num_sign Plus_inf = 1"
| "num_sign Minus_inf = -1"
| "num_sign Not_a_number = 0"

definition signed_inf :: "int \<Rightarrow> js_num" where
  "signed_inf s = (if s = 0 then Not_a_number else if s < 0 then Minus_inf else Plus_inf)"

fun num_mul :: "js_num \<Rightarrow> js_num \<Rightarrow> js_num" where
  "num_mul (Whole a) (Whole b) = round_double (a * b)"
| "num_mul x y = (if x = Not_a_number \<or> y = Not_a_number then Not_a_number else signed_inf (num_sign x * num_sign y))"

text \<open>\<open>Math.floor(x / y)\<close>; a whole number over an infinity is 0 or -0.\<close>

fun num_floor_div :: "js_num \<Rightarrow> js_num \<Rightarrow> js_num" where
  "num_floor_div (Whole a) (Whole b) = (if b = 0 then signed_inf (sgn a) else Whole (floor_ratio a b))"
| "num_floor_div Not_a_number y = Not_a_number"
| "num_floor_div x Not_a_number = Not_a_number"
| "num_floor_div (Whole a) y = Whole 0"
| "num_floor_div x (Whole b) = (if b < 0 then num_neg x else x)"
| "num_floor_div x y = Not_a_number"

text \<open>\<open>x < y\<close> and \<open>x <= y\<close> are both false when an operand is NaN.\<close>

fun num_less :: "js_num \<Rightarrow> js_num \<Rightarrow> bool" where
  "num_less (Whole a) (Whole b) = (a < b)"
| "num_less Not_a_number y = False"
| "num_less x Not_a_number = False"
| "num_less Minus_inf y = (y \<noteq> Minus_inf)"
| "num_less x Plus_inf = (x \<noteq> Plus_inf)"
| "num_less x y = False"

definition num_le :: "js_num \<Rightarrow> js_num \<Rightarrow> bool" where
  "num_le x y \<longleftrightarrow> x \<noteq> Not_a_number \<and> y \<noteq> Not_a_number \<and> \<not> num_less y x"

text \<open>\<open>Math.max(0, x)\<close>.\<close>

definition num_max0 :: "js_num \<Rightarrow> js_num" where
  "num_max0 x = (if num_less x (Whole 0) then Whole 0 else x)"

subsection \<open>Conversions\<close>

text \<open>
  \<open>Number(v)\<close> of a parsed value. Whole numerals are read here; what other numerals mean (exponents,
  \<open>Infinity\<close>, anything else) is the argument \<open>other\<close>. Printing needs the exponent form from \<open>1e21\<close> on.
\<close>

definition text_number :: "(string \<Rightarrow> js_num) \<Rightarrow> string \<Rightarrow> js_num" where
  "text_number other t = (case parse_bigint_literal (js_trim t) of Some n \<Rightarrow> round_double n | None \<Rightarrow> other t)"

fun json_number :: "(string \<Rightarrow> js_num) \<Rightarrow> json \<Rightarrow> js_num" where
  "json_number other JsonNull = Whole 0"
| "json_number other (JsonBool b) = Whole (if b then 1 else 0)"
| "json_number other (JsonNumber t) = text_number other t"
| "json_number other (JsonString t) = text_number other t"
| "json_number other (JsonArray vs) = text_number other (js_string (JsonArray vs))"
| "json_number other (JsonObject fields) = Not_a_number"

text \<open>How \<open>JSON.stringify\<close> prints a number.\<close>

fun num_json :: "(int \<Rightarrow> string) \<Rightarrow> js_num \<Rightarrow> json" where
  "num_json exponent (Whole n) = JsonNumber (if \<bar>n\<bar> < 10 ^ 21 then show_int n else exponent n)"
| "num_json exponent x = JsonNull"

subsection \<open>Exactness up to 2 to the 53rd\<close>

lemma round_double_exact: "\<bar>n\<bar> \<le> 2 ^ 53 \<Longrightarrow> round_double n = Whole n"
  by (simp add: round_double_def)

lemma num_exact:
  "\<bar>a + b\<bar> \<le> 2 ^ 53 \<Longrightarrow> num_add (Whole a) (Whole b) = Whole (a + b)"
  "\<bar>a - b\<bar> \<le> 2 ^ 53 \<Longrightarrow> num_sub (Whole a) (Whole b) = Whole (a - b)"
  "\<bar>a * b\<bar> \<le> 2 ^ 53 \<Longrightarrow> num_mul (Whole a) (Whole b) = Whole (a * b)"
  by (simp_all add: num_sub_def round_double_exact)

lemma num_max0_Whole [simp]: "num_max0 (Whole a) = Whole (max 0 a)"
  by (simp add: num_max0_def)

lemma num_le_Whole [simp]: "num_le (Whole a) (Whole b) \<longleftrightarrow> a \<le> b"
  by (auto simp: num_le_def)

lemma bits_bounds: "0 < n \<Longrightarrow> 2 ^ (bits n - 1) \<le> n \<and> n < 2 ^ bits n \<and> 0 < bits n"
proof (induction n rule: bits.induct)
  case (1 n)
  show ?case
  proof (cases "n div 2 = 0")
    case True
    with 1 have "n = 1" by auto
    then show ?thesis by (simp add: bits.simps)
  next
    case False
    with 1 have IH: "2 ^ (bits (n div 2) - 1) \<le> n div 2" "n div 2 < 2 ^ bits (n div 2)" "0 < bits (n div 2)" by auto
    then obtain k where k: "bits (n div 2) = Suc k" by (metis gr0_implies_Suc)
    have "bits n = Suc (Suc k)" using 1 k by (subst bits.simps) simp
    then show ?thesis using IH k by auto
  qed
qed

text \<open>The quotient of two whole numbers up to that size is never rounded up to the next integer.\<close>

lemma half_even_quotient:
  assumes a: "0 \<le> a" and b: "0 < b" and q: "b * (a div b) < 2 ^ Suc j * (a div b) \<or> a mod b = 0"
  shows "half_even (a * 2 ^ j) b div 2 ^ j = a div b"
proof -
  define m where "m = (2 :: int) ^ j"
  define Q R where "Q = a * m div b" and "R = a * m mod b"
  have mpos: "0 < m" by (simp add: m_def)
  have split: "a * m = Q * b + R" "R < b" "0 \<le> R" using b by (simp_all add: Q_def R_def)
  have am: "a * m = (a div b) * m * b + (a mod b) * m"
  proof -
    have "a * m = ((a div b) * b + a mod b) * m" by simp
    also have "\<dots> = (a div b) * m * b + (a mod b) * m" by (simp only: distrib_right distrib_left mult_ac)
    finally show ?thesis .
  qed
  have r: "0 \<le> a mod b" "a mod b < b" using b by simp_all
  have low: "(a div b) * m \<le> Q"
  proof -
    have "(a div b) * m * b \<le> a * m" unfolding am using r mpos by simp
    then have "(a div b) * m * b div b \<le> Q" unfolding Q_def using b by (intro zdiv_mono1)
    then show ?thesis using b by simp
  qed
  have high: "Q < (a div b + 1) * m"
  proof -
    have "a * m < (a div b + 1) * m * b"
      using mult_strict_right_mono [OF r(2) mpos] unfolding am by (simp add: algebra_simps)
    moreover have "Q * b \<le> a * m" using split by simp
    ultimately have "Q * b < (a div b + 1) * m * b" by linarith
    then show ?thesis using b by (simp only: mult_less_cancel_right_pos)
  qed
  have no_carry: "Q + 1 < (a div b + 1) * m" if up: "b \<le> 2 * R"
  proof (rule ccontr)
    assume "\<not> Q + 1 < (a div b + 1) * m"
    with high have Q: "Q + 1 = (a div b + 1) * m" by simp
    have "a * m + b = (Q + 1) * b + R" using split by (simp add: algebra_simps)
    then have eq: "(a mod b) * m + b = m * b + R" unfolding Q am by (simp add: algebra_simps)
    have "(a mod b + 1) * m \<le> b * m" using r mpos by (intro mult_right_mono) simp_all
    with eq have Rm: "R + m \<le> b" by (simp add: algebra_simps)
    then have wide: "2 * m \<le> b" using up by linarith
    show False
    proof (cases "a mod b = 0")
      case True
      then have "b = m * b + R" using eq by simp
      moreover have "1 * b \<le> m * b" using mpos b by (intro mult_right_mono) simp_all
      ultimately have "R \<le> 0" by linarith
      then show False using up b by simp
    next
      case False
      with q have lt: "b * (a div b) < 2 ^ Suc j * (a div b)" by simp
      have "0 \<le> a div b" using a b by (simp add: pos_imp_zdiv_nonneg_iff)
      with lt have "b < 2 * m" by (simp add: m_def mult_less_cancel_right)
      with wide show False by simp
    qed
  qed
  have "half_even (a * m) b \<in> {Q, Q + 1} \<and> (half_even (a * m) b = Q + 1 \<longrightarrow> b \<le> 2 * R \<or> half_even (a * m) b = Q)"
    by (auto simp: half_even_def Q_def R_def Let_def)
  then have "(a div b) * m \<le> half_even (a * m) b" "half_even (a * m) b < (a div b + 1) * m"
    using low high no_carry by auto
  then show ?thesis unfolding m_def by (intro int_div_pos_eq [where r = "half_even (a * 2 ^ j) b - (a div b) * 2 ^ j"]) (simp_all add: algebra_simps)
qed

lemma floor_ratio_exact:
  assumes a: "0 \<le> a" "a \<le> 2 ^ 53" and b: "0 < b" "b \<le> 2 ^ 53"
  shows "floor_ratio a b = a div b"
proof (cases "a = 0")
  case False
  define q where "q = a div b"
  have abs: "\<bar>a\<bar> = a" "\<bar>b\<bar> = b" using a b by simp_all
  have q0: "0 \<le> q" unfolding q_def using a b by (simp add: pos_imp_zdiv_nonneg_iff)
  have yq: "b * q \<le> a" using mult_div_mod_eq [of b a] pos_mod_sign [OF b(1), of a] unfolding q_def by linarith
  show ?thesis
  proof (cases "q = 0")
    case True
    then have "a < b" using a b by (simp add: q_def zdiv_eq_0_iff) auto
    then have "a * 2 ^ 54 < b * (2 ^ 54 - 1)" using b(2) by simp
    then show ?thesis unfolding floor_ratio_def abs Let_def q_def [symmetric] using a b True False by simp
  next
    case q1: False
    then have q: "2 ^ (bits q - 1) \<le> q" "q < 2 ^ bits q" "0 < bits q" using bits_bounds [of q] q0 by auto
    show ?thesis
    proof (cases "bits q \<le> 53")
      case True
      define j where "j = 53 - bits q"
      have j: "Suc j + (bits q - 1) = 53" using True q(3) by (simp add: j_def)
      have "a mod b = 0 \<or> b * q < 2 ^ Suc j * q"
      proof (rule disjCI)
        assume "\<not> b * q < 2 ^ Suc j * q"
        then have "2 ^ Suc j \<le> b" using q0 q1 by (simp add: mult_le_cancel_right not_less)
        then have "(2 :: int) ^ Suc j * 2 ^ (bits q - 1) \<le> b * q" using q(1) b by (intro mult_mono) simp_all
        then have "2 ^ 53 \<le> b * q" using j by (simp only: power_add [symmetric])
        with yq a(2) have "a = b * q" by simp
        then show "a mod b = 0" by simp
      qed
      then have "half_even (a * 2 ^ j) b div 2 ^ j = q"
        unfolding q_def using a b by (intro half_even_quotient) auto
      then show ?thesis
        unfolding floor_ratio_def abs Let_def q_def [symmetric] using a b False q1 True by (simp add: j_def)
    next
      case wide: False
      then have "2 ^ 53 \<le> (2 :: int) ^ (bits q - 1)" by (intro power_increasing) auto
      with q(1) have "2 ^ 53 \<le> q" by linarith
      moreover have "q \<le> b * q" using b q0 by (simp add: mult_le_cancel_right1)
      ultimately have eq: "q = 2 ^ 53" "b * q = q" using yq a by linarith+
      then have "b = 1" using q1 by simp
      then have "a = 2 ^ 53" using eq by (simp add: q_def)
      then show ?thesis using \<open>b = 1\<close> by (simp add: floor_ratio_def half_even_def bits.simps)
    qed
  qed
qed (simp add: floor_ratio_def)

end
