(* ===== verification/Fabric_Sim.thy ===== *)
theory Fabric_Sim
  imports Snapshot Js_Numbers
begin

text \<open>
  \<open>scripts/xsmart/local-bc3-fabric-server.mjs\<close>: the HTTP server that stands in for the Fabric chain.
  Its state is one JSON file, loaded when a request arrives and saved when an invocation succeeds; the
  body of a POST is awaited in between, so requests interleave. Errors of the runtime (a failed
  conversion to BigInt, a range) carry the name of their class instead of their text. Files can always
  be read and written.
\<close>

subsection \<open>The state\<close>

text \<open>A number of the state; None is null, which a file holds for a number that is not finite.\<close>

type_synonym stored_num = "js_num option"

definition as_num :: "stored_num \<Rightarrow> js_num" where
  "as_num v = (case v of None \<Rightarrow> Whole 0 | Some x \<Rightarrow> x)"

record fabric_lock =
  fl_amount :: stored_num
  fl_block :: stored_num
  fl_timeout :: stored_num
  fl_active :: bool

record fabric_state =
  fb_bridge :: string
  fb_price :: stored_num
  fb_remain :: stored_num
  fb_lockSize :: stored_num
  fb_relayer :: string
  fb_stateContract :: string
  fb_lockedTotal :: stored_num
  fb_locks :: "string \<rightharpoonup> fabric_lock"
  fb_accounts :: "string \<rightharpoonup> stored_num"
  fb_bookings :: "string \<rightharpoonup> stored_num"
  fb_block :: stored_num

definition defaultState :: fabric_state where
  "defaultState = \<lparr>fb_bridge = ''xbridge_bc3'', fb_price = Some (Whole 100), fb_remain = Some (Whole 2000),
     fb_lockSize = Some (Whole 1), fb_relayer = ''xsmart-relayer'', fb_stateContract = ''hotel_booking'',
     fb_lockedTotal = Some (Whole 0), fb_locks = Map.empty, fb_accounts = Map.empty, fb_bookings = Map.empty,
     fb_block = Some (Whole 0)\<rparr>"

text \<open>What a state is after it was written as JSON and read back.\<close>

definition saved_num :: "stored_num \<Rightarrow> stored_num" where
  "saved_num v = (case v of Some (Whole n) \<Rightarrow> v | _ \<Rightarrow> None)"

definition saved_lock :: "fabric_lock \<Rightarrow> fabric_lock" where
  "saved_lock e = e\<lparr>fl_amount := saved_num (fl_amount e), fl_block := saved_num (fl_block e),
     fl_timeout := saved_num (fl_timeout e)\<rparr>"

definition saveState :: "fabric_state \<Rightarrow> fabric_state" where
  "saveState s = s\<lparr>fb_price := saved_num (fb_price s), fb_remain := saved_num (fb_remain s),
     fb_lockSize := saved_num (fb_lockSize s), fb_lockedTotal := saved_num (fb_lockedTotal s),
     fb_locks := map_option saved_lock \<circ> fb_locks s, fb_accounts := map_option saved_num \<circ> fb_accounts s,
     fb_bookings := map_option saved_num \<circ> fb_bookings s, fb_block := saved_num (fb_block s)\<rparr>"

text \<open>The state and the file afterwards: a missing file is created.\<close>

definition loadState :: "fabric_state option \<Rightarrow> fabric_state \<times> fabric_state option" where
  "loadState file = (case file of
     None \<Rightarrow> (defaultState, Some (saveState defaultState))
   | Some s \<Rightarrow> (s, file))"

text \<open>
  Objects as maps: \<open>o[k] = v\<close> on a parsed object adds no property for \<open>__proto__\<close>, and a name that
  every object inherits reads as a function or an object, which is truthy and not a number. (A lock is
  read through its \<open>active\<close> flag, which those do not have.)
\<close>

definition set_member :: "string \<Rightarrow> 'v \<Rightarrow> (string \<rightharpoonup> 'v) \<Rightarrow> (string \<rightharpoonup> 'v)" where
  "set_member k v m = (if k = ''__proto__'' then m else m(k \<mapsto> v))"

definition inherited_names :: "string list" where
  "inherited_names = [''__proto__'', ''constructor'', ''toString'', ''toLocaleString'', ''valueOf'', ''hasOwnProperty'',
     ''isPrototypeOf'', ''propertyIsEnumerable'', ''__defineGetter__'', ''__defineSetter__'', ''__lookupGetter__'',
     ''__lookupSetter__'']"

text \<open>\<open>Number(m[k] || 0)\<close>.\<close>

definition member_number :: "(string \<rightharpoonup> stored_num) \<Rightarrow> string \<Rightarrow> js_num" where
  "member_number m k = (case m k of
     Some v \<Rightarrow> if v = Some Not_a_number then Whole 0 else as_num v
   | None \<Rightarrow> if k \<in> set inherited_names then Not_a_number else Whole 0)"

subsection \<open>The locked state in the VASSP encoding\<close>

text \<open>JSON, the digests, \<open>new URL\<close>, numerals that are not whole and printing them.\<close>

record fabric_host =
  parse_body :: "string \<Rightarrow> json res"
  json_print :: "json \<Rightarrow> string"
  other_numeral :: "string \<Rightarrow> js_num"
  exponent_form :: "int \<Rightarrow> string"
  sha3_256 :: "byte list \<Rightarrow> byte list"
  sha256_hex :: "string \<Rightarrow> string"
  url_pathname :: "string \<Rightarrow> string res"

definition encodeUint256 :: "stored_num \<Rightarrow> byte list res" where
  "encodeUint256 v = (case v of
     None \<Rightarrow> Inl ''TypeError''
   | Some (Whole n) \<Rightarrow> if 0 \<le> n \<and> n < 2 ^ 64 then Inr (replicate 24 0 @ be_bytes 8 n) else Inl ''RangeError''
   | Some _ \<Rightarrow> Inl ''RangeError'')"

text \<open>\<open>Number(value).toString(16)\<close>, padded to whole bytes and read as hex.\<close>

fun hex_nat :: "nat \<Rightarrow> string" where
  "hex_nat n = (if n < 16 then [hex_digit n] else hex_nat (n div 16) @ [hex_digit (n mod 16)])"

declare hex_nat.simps [simp del]

definition encodeLength :: "nat \<Rightarrow> byte list" where
  "encodeLength n = (let h = hex_nat n in hex_pairs (if odd (length h) then CHR ''0'' # h else h))"

definition encodeBytes :: "byte list \<Rightarrow> byte list" where
  "encodeBytes buf =
     (if length buf = 1 \<and> hd buf < 0x80 then buf
      else if length buf \<le> 55 then word_of_nat (0x80 + length buf) # buf
      else let len = encodeLength (length buf) in word_of_nat (0xb7 + length len) # len @ buf)"

definition encodeList :: "byte list list \<Rightarrow> byte list" where
  "encodeList items =
     (let payload = concat items in
      if length payload \<le> 55 then word_of_nat (0xc0 + length payload) # payload
      else let len = encodeLength (length payload) in word_of_nat (0xf7 + length len) # len @ payload)"

definition sim_keccak :: "fabric_host \<Rightarrow> byte list list \<Rightarrow> byte list" where
  "sim_keccak P parts = sha3_256 P (concat parts)"

definition slotId :: "fabric_host \<Rightarrow> string \<Rightarrow> string \<Rightarrow> byte list list \<Rightarrow> byte list" where
  "slotId P contractName slotName keys =
     sim_keccak P ([utf8Bytes ''VASSP'', utf8Bytes contractName, utf8Bytes slotName] @ keys)"

definition encodeString :: "string \<Rightarrow> byte list res" where
  "encodeString v =
     (let raw = utf8Bytes v; paddedLen = (length raw + 31) div 32 * 32 in
      res_bind (encodeUint256 (Some (Whole (int (length raw))))) (\<lambda>len.
      Inr (len @ raw @ replicate (paddedLen - length raw) 0)))"

definition encodeMetaTuple :: "fabric_state \<Rightarrow> byte list res" where
  "encodeMetaTuple s =
     res_bind (encodeUint256 (Some (Whole (32 * 4)))) (\<lambda>offset.
     res_bind (encodeUint256 (fb_price s)) (\<lambda>price.
     res_bind (encodeUint256 (fb_remain s)) (\<lambda>remain.
     res_bind (encodeUint256 (fb_lockSize s)) (\<lambda>lockSize.
     res_bind (encodeString (fb_bridge s)) (\<lambda>bridge.
     Inr (offset @ price @ remain @ lockSize @ bridge))))))"

definition vassp_pairs :: "fabric_host \<Rightarrow> fabric_state \<Rightarrow> (byte list \<times> byte list) list res" where
  "vassp_pairs P s =
     res_bind (encodeMetaTuple s) (\<lambda>meta.
     res_bind (encodeUint256 (fb_lockedTotal s)) (\<lambda>total.
     Inr [(slotId P ''HotelBooking'' ''META'' [], meta), (slotId P ''HotelBooking'' ''LOCK_TOTAL'' [], total)]))"

definition encode_pair :: "byte list \<times> byte list \<Rightarrow> byte list" where
  "encode_pair = (\<lambda>(slot, val). encodeList [encodeBytes slot, encodeBytes val])"

definition encodeVassp :: "fabric_host \<Rightarrow> fabric_state \<Rightarrow> byte list res" where
  "encodeVassp P s = res_bind (vassp_pairs P s) (\<lambda>pairs.
     Inr (encodeList (map encode_pair pairs)))"

subsection \<open>Invocations\<close>

definition nextBlock :: "fabric_state \<Rightarrow> fabric_state" where
  "nextBlock s = s\<lparr>fb_block := Some (num_add (as_num (fb_block s)) (Whole 1))\<rparr>"

definition sim_available :: "fabric_state \<Rightarrow> js_num" where
  "sim_available s =
     (let lockedRooms = num_floor_div (as_num (fb_lockedTotal s)) (as_num (fb_price s)) in
      num_max0 (num_sub (as_num (fb_remain s)) lockedRooms))"

text \<open>\<open>Number(args[k] || d)\<close> and \<open>String(args[k] || d)\<close>.\<close>

definition sim_num :: "fabric_host \<Rightarrow> json \<Rightarrow> string \<Rightarrow> stored_num \<Rightarrow> js_num" where
  "sim_num P args k d =
     (let v = json_get args k in if json_truthy v then json_number (other_numeral P) (the v) else as_num d)"

definition sim_text :: "json \<Rightarrow> string \<Rightarrow> string \<Rightarrow> string" where
  "sim_text args k d = (let v = json_get args k in if json_truthy v then js_string (the v) else d)"

definition tx_id :: "json \<Rightarrow> string" where
  "tx_id args = (let v = json_get args ''cross_chain_tx_id'' in if nullish v then [] else js_string (the v))"

definition bootstrap :: "fabric_host \<Rightarrow> json \<Rightarrow> fabric_state \<Rightarrow> fabric_state" where
  "bootstrap P args s = s\<lparr>
     fb_bridge := sim_text args ''bridge'' (fb_bridge s),
     fb_price := Some (sim_num P args ''price'' (fb_price s)),
     fb_remain := Some (sim_num P args ''remain'' (fb_remain s)),
     fb_lockSize := Some (sim_num P args ''lock_size'' (fb_lockSize s)),
     fb_relayer := sim_text args ''relayer_id'' (fb_relayer s)\<rparr>"

definition is_locked :: "fabric_state \<Rightarrow> string \<Rightarrow> bool" where
  "is_locked s txId = (case fb_locks s txId of Some e \<Rightarrow> fl_active e | None \<Rightarrow> False)"

definition ensureLockFree :: "fabric_state \<Rightarrow> string \<Rightarrow> unit res" where
  "ensureLockFree s txId = (if is_locked s txId then Inl ''already locked'' else Inr ())"

definition sim_lock_amount :: "js_num \<Rightarrow> fabric_state \<Rightarrow> js_num" where
  "sim_lock_amount num s = num_mul (if num_less (Whole 0) num then num else as_num (fb_lockSize s)) (as_num (fb_price s))"

definition add_lock :: "js_num \<Rightarrow> js_num \<Rightarrow> string \<Rightarrow> fabric_state \<Rightarrow> fabric_state" where
  "add_lock num timeoutBlocks txId s =
     (let amt = sim_lock_amount num s in s\<lparr>
        fb_locks := set_member txId \<lparr>fl_amount = Some amt, fl_block = fb_block s,
          fl_timeout = Some timeoutBlocks, fl_active = True\<rparr> (fb_locks s),
        fb_lockedTotal := Some (num_add (as_num (fb_lockedTotal s)) amt)\<rparr>)"

definition lock_request :: "fabric_host \<Rightarrow> json \<Rightarrow> string \<Rightarrow> fabric_state \<Rightarrow> (fabric_state \<times> string) res" where
  "lock_request P args txId s =
     res_bind (ensureLockFree s txId) (\<lambda>_.
     let num = sim_num P args ''num'' (Some (Whole 0));
         timeoutBlocks = sim_num P args ''timeout_blocks'' (Some (Whole 0)) in
     if num_less (sim_available s) num then Inl ''insufficient remain for lock''
     else let s' = add_lock num timeoutBlocks txId s in
       res_bind (encodeVassp P s') (\<lambda>bytes. Inr (s', hex_of_bytes bytes)))"

definition unlockInternal :: "string \<Rightarrow> fabric_state \<Rightarrow> fabric_state res" where
  "unlockInternal txId s = (case fb_locks s txId of
     Some e \<Rightarrow> if fl_active e then Inr (s\<lparr>
         fb_lockedTotal := Some (num_max0 (num_sub (as_num (fb_lockedTotal s)) (as_num (fl_amount e)))),
         fb_locks := (fb_locks s)(txId := None)\<rparr>)
       else Inl ''not locked''
   | None \<Rightarrow> Inl ''not locked'')"

definition update_books :: "fabric_host \<Rightarrow> json \<Rightarrow> fabric_state \<Rightarrow> fabric_state" where
  "update_books P args s =
     (let zero = Some (Whole 0); user = sim_text args ''user'' [] in s\<lparr>
        fb_remain := Some (sim_num P args ''new_remain'' zero),
        fb_accounts := set_member user
          (Some (num_add (member_number (fb_accounts s) user) (sim_num P args ''total_cost'' zero))) (fb_accounts s),
        fb_bookings := set_member user
          (Some (num_add (member_number (fb_bookings s) user) (sim_num P args ''num'' zero))) (fb_bookings s)\<rparr>)"

text \<open>\<open>block <= Number(entry.lockBlock) + Number(entry.timeoutBlocks || 0)\<close>.\<close>

definition within_timeout :: "fabric_lock \<Rightarrow> fabric_state \<Rightarrow> bool" where
  "within_timeout e s =
     num_le (as_num (fb_block s)) (num_add (as_num (fl_block e))
       (if fl_timeout e = Some Not_a_number then Whole 0 else as_num (fl_timeout e)))"

definition timeout_rollback :: "string \<Rightarrow> fabric_state \<Rightarrow> fabric_state res" where
  "timeout_rollback txId s = (case fb_locks s txId of
     Some e \<Rightarrow> if \<not> fl_active e then Inl ''not locked''
       else if within_timeout e s then Inl ''not timed out'' else unlockInternal txId s
   | None \<Rightarrow> Inl ''not locked'')"

definition HOTEL_IR_HASH :: string where
  "HOTEL_IR_HASH = ''0x1471a6f5144bc6d79dfcd9410fb81ddabada6deb0664c46be1b23af558521bbb''"

definition syntheticTxHash :: "fabric_host \<Rightarrow> string \<Rightarrow> string \<Rightarrow> json \<Rightarrow> stored_num \<Rightarrow> string" where
  "syntheticTxHash P endpoint message args block =
     ''0x'' @ sha256_hex P (json_print P (JsonObject
       [(''endpoint'', JsonString endpoint), (''message'', JsonString message), (''args'', args),
        (''block'', num_json (exponent_form P) (as_num block))]))"

record fabric_invocation =
  fi_txHash :: string
  fi_event :: json
  fi_state :: fabric_state

definition event_json :: "string \<Rightarrow> (string \<times> json) list \<Rightarrow> json" where
  "event_json name ms = JsonObject [(''name'', JsonString name), (''args'', JsonObject ms)]"

definition invoke :: "fabric_host \<Rightarrow> fabric_state \<Rightarrow> string \<Rightarrow> string \<Rightarrow> json \<Rightarrow> fabric_invocation res" where
  "invoke P s0 endpoint message args =
     (if endpoint \<noteq> ''xbridge_bc3'' then Inl (''unknown fabric endpoint '' @ endpoint)
      else
        (let txId = tx_id args; s = nextBlock s0;
             ids = [(''crossChainTxId'', JsonString txId), (''stateContract'', JsonString ''hotel_booking'')];
             done = (\<lambda>s' event. Inr \<lparr>fi_txHash = syntheticTxHash P endpoint message args (fb_block s),
               fi_event = event, fi_state = s'\<rparr>) in
         if message = ''bootstrap'' then
           (let s' = bootstrap P args s in
            done s' (event_json ''FabricBootstrapped''
              [(''bridge'', JsonString (fb_bridge s')),
               (''remain'', num_json (exponent_form P) (as_num (fb_remain s')))]))
         else if txId = [] then Inl ''cross_chain_tx_id is required''
         else if message = ''receive_lock_request'' then
           res_bind (lock_request P args txId s) (\<lambda>(s', lockedState).
             done s' (event_json ''CrossChainLockResponse''
               (ids @ [(''lockedState'', JsonString lockedState), (''irHash'', JsonString HOTEL_IR_HASH),
                  (''proof'', JsonString ''0x'')])))
         else if message = ''receive_update_request'' then
           res_bind (unlockInternal txId s) (\<lambda>s1.
             done (update_books P args s1)
               (event_json ''CrossChainUpdateAck'' (ids @ [(''success'', JsonBool True)])))
         else if message = ''receive_rollback_request'' then
           res_bind (unlockInternal txId s) (\<lambda>s'. done s' (event_json ''CrossChainRollback'' ids))
         else if message = ''receive_timeout_rollback'' then
           res_bind (timeout_rollback txId s) (\<lambda>s'. done s' (event_json ''CrossChainRollback'' ids))
         else Inl (''unsupported fabric message '' @ message)))"

subsection \<open>Requests\<close>

text \<open>A reply is a status with a JSON body; \<open>/state\<close> answers with the state itself.\<close>

datatype fabric_reply = Answer nat json | Dump fabric_state

definition error_reply :: "string \<Rightarrow> fabric_reply" where
  "error_reply e = Answer 500 (JsonObject [(''ok'', JsonBool False), (''error'', JsonString e)])"

definition readBody :: "fabric_host \<Rightarrow> string \<Rightarrow> json res" where
  "readBody P raw = (if raw = [] then Inr (JsonObject []) else parse_body P raw)"

text \<open>\<open>body.args || {}\<close>.\<close>

definition request_args :: "json \<Rightarrow> json" where
  "request_args body = (let args = json_get body ''args'' in if json_truthy args then the args else JsonObject [])"

definition invoke_body :: "fabric_host \<Rightarrow> fabric_state \<Rightarrow> string \<Rightarrow> fabric_invocation res" where
  "invoke_body P s raw = res_bind (readBody P raw) (\<lambda>body.
     if body = JsonNull then Inl ''Cannot read properties of null (reading 'endpoint')''
     else invoke P s (sim_text body ''endpoint'' []) (sim_text body ''message'' []) (request_args body))"

text \<open>What follows the body of a POST to \<open>/invoke\<close>: the reply, and the file if it is saved.\<close>

definition finish_request :: "fabric_host \<Rightarrow> fabric_state \<Rightarrow> string \<Rightarrow> fabric_reply \<times> fabric_state option" where
  "finish_request P s raw = (case invoke_body P s raw of
     Inl e \<Rightarrow> (error_reply e, None)
   | Inr r \<Rightarrow> (Answer 200 (JsonObject [(''ok'', JsonBool True), (''txHash'', JsonString (fi_txHash r)),
         (''blockNumber'', num_json (exponent_form P) (as_num (fb_block (fi_state r)))), (''event'', fi_event r)]),
       Some (saveState (fi_state r))))"

text \<open>The handler up to the body: a reply at once, or the loaded state that waits for it; and the file.\<close>

definition begin_request ::
    "fabric_host \<Rightarrow> fabric_state option \<Rightarrow> string \<Rightarrow> string \<Rightarrow> (fabric_reply + fabric_state) \<times> fabric_state option" where
  "begin_request P file method url = (case url_pathname P (js_or url ''/'') of
     Inl e \<Rightarrow> (Inl (error_reply e), file)
   | Inr path \<Rightarrow> (case loadState file of (s, file') \<Rightarrow>
       (if method = ''GET'' \<and> path = ''/health'' then
          Inl (Answer 200 (JsonObject [(''ok'', JsonBool True), (''block'', num_json (exponent_form P) (as_num (fb_block s)))]))
        else if method = ''GET'' \<and> path = ''/state'' then Inl (Dump s)
        else if method = ''POST'' \<and> path = ''/invoke'' then Inr s
        else Inl (Answer 404 (JsonObject [(''ok'', JsonBool False), (''error'', JsonString ''not found'')])),
        file')))"

text \<open>Requests one after the other: each body arrives before the next request does.\<close>

definition serve ::
    "fabric_host \<Rightarrow> fabric_state option \<Rightarrow> string \<times> string \<times> string \<Rightarrow> fabric_reply \<times> fabric_state option" where
  "serve P file = (\<lambda>(method, url, raw). (case begin_request P file method url of
     (Inl reply, file') \<Rightarrow> (reply, file')
   | (Inr s, file') \<Rightarrow> (case finish_request P s raw of
       (reply, None) \<Rightarrow> (reply, file')
     | (reply, Some saved) \<Rightarrow> (reply, Some saved))))"

end
