(* ===== verification/Fabric_Books.thy ===== *)
theory Fabric_Books
  imports Fabric_Sim
begin

text \<open>
  The books of the simulator when requests come one after the other and carry natural numbers: every
  number of the state stays a natural number, and \<open>lockedTotal\<close> is the sum of the recorded locks.
\<close>

subsection \<open>Well-formed states\<close>

definition natural :: "int \<Rightarrow> stored_num \<Rightarrow> bool" where
  "natural B v \<longleftrightarrow> (\<exists>n. v = Some (Whole n) \<and> 0 \<le> n \<and> n \<le> B)"

definition whole :: "stored_num \<Rightarrow> int" where
  "whole v = (case v of Some (Whole n) \<Rightarrow> n | _ \<Rightarrow> 0)"

definition fabric_amounts :: "fabric_state \<Rightarrow> string \<rightharpoonup> int" where
  "fabric_amounts s = (\<lambda>k. map_option (\<lambda>e. whole (fl_amount e)) (fb_locks s k))"

definition lock_ok :: "int \<Rightarrow> int \<Rightarrow> fabric_lock \<Rightarrow> bool" where
  "lock_ok B c e \<longleftrightarrow> fl_active e \<and> natural (B * B) (fl_amount e) \<and> natural c (fl_block e) \<and> natural B (fl_timeout e)"

text \<open>\<open>B\<close> bounds the numbers of the requests, \<open>c\<close> the block counter, and \<open>m\<close> how many requests moved money.\<close>

definition books :: "int \<Rightarrow> int \<Rightarrow> int \<Rightarrow> fabric_state \<Rightarrow> bool" where
  "books B c m s \<longleftrightarrow>
     natural B (fb_price s) \<and> natural B (fb_remain s) \<and> natural B (fb_lockSize s) \<and> natural c (fb_block s) \<and>
     length (fb_bridge s) < 2 ^ 30 \<and>
     finite (dom (fb_locks s)) \<and> (\<forall>k e. fb_locks s k = Some e \<longrightarrow> lock_ok B c e) \<and>
     fb_lockedTotal s = Some (Whole (map_total (fabric_amounts s))) \<and> map_total (fabric_amounts s) \<le> m * (B * B) \<and>
     (\<forall>k v. fb_accounts s k = Some v \<longrightarrow> natural (m * B) v) \<and> (\<forall>k v. fb_bookings s k = Some v \<longrightarrow> natural (m * B) v)"

definition numeric_args :: "string list" where
  "numeric_args = [''price'', ''remain'', ''lock_size'', ''num'', ''timeout_blocks'', ''new_remain'', ''total_cost'']"

definition natural_args :: "fabric_host \<Rightarrow> int \<Rightarrow> json \<Rightarrow> bool" where
  "natural_args P B args \<longleftrightarrow>
     (\<forall>k \<in> set numeric_args. json_truthy (json_get args k) \<longrightarrow>
        natural B (Some (json_number (other_numeral P) (the (json_get args k))))) \<and>
     length (sim_text args ''bridge'' []) < 2 ^ 30 \<and> tx_id args \<noteq> ''__proto__'' \<and>
     sim_text args ''user'' [] \<notin> set inherited_names"

text \<open>Room for one more request below the point where doubles lose whole numbers.\<close>

definition room :: "int \<Rightarrow> int \<Rightarrow> bool" where
  "room B c \<longleftrightarrow> 1 \<le> B \<and> 0 \<le> c \<and> (c + 1) * (B * B) \<le> 2 ^ 53"

subsection \<open>Natural numbers\<close>

lemma natural_whole: "natural B v \<Longrightarrow> v = Some (Whole (whole v)) \<and> 0 \<le> whole v \<and> whole v \<le> B"
  by (auto simp: natural_def whole_def)

lemma natural_Whole [simp]: "natural B (Some (Whole n)) \<longleftrightarrow> 0 \<le> n \<and> n \<le> B"
  by (simp add: natural_def)

lemma natural_mono: "natural B v \<Longrightarrow> B \<le> B' \<Longrightarrow> natural B' v"
  by (auto simp: natural_def)

lemma as_num_simps [simp]: "as_num (Some x) = x" "as_num None = Whole 0"
  by (simp_all add: as_num_def)

lemma natural_num_arg:
  assumes "natural_args P B args" "k \<in> set numeric_args" "natural B d"
  shows "natural B (Some (sim_num P args k d))"
proof -
  have "natural B (Some (as_num d))" using assms(3) by (auto simp: natural_def)
  then show ?thesis using assms(1,2) unfolding natural_args_def sim_num_def Let_def by auto
qed

lemma saved_num_natural: "natural B v \<Longrightarrow> saved_num v = v"
  by (auto simp: natural_def saved_num_def)

lemma amounts_simps:
  "fabric_amounts (s\<lparr>fb_locks := (fb_locks s)(k \<mapsto> e), fb_lockedTotal := v\<rparr>) = (fabric_amounts s)(k \<mapsto> whole (fl_amount e))"
  "fabric_amounts (s\<lparr>fb_lockedTotal := v, fb_locks := (fb_locks s)(k := None)\<rparr>) = (fabric_amounts s)(k := None)"
  "dom (fabric_amounts s) = dom (fb_locks s)"
  by (auto simp: fabric_amounts_def fun_eq_iff dom_def)

lemma booksD:
  assumes "books B c m s"
  shows "natural B (fb_price s)" "natural B (fb_remain s)" "natural B (fb_lockSize s)" "natural c (fb_block s)"
    "length (fb_bridge s) < 2 ^ 30" "finite (dom (fb_locks s))" "\<forall>k e. fb_locks s k = Some e \<longrightarrow> lock_ok B c e"
    "fb_lockedTotal s = Some (Whole (map_total (fabric_amounts s)))" "map_total (fabric_amounts s) \<le> m * (B * B)"
    "finite (dom (fabric_amounts s))"
    "\<forall>k v. fb_accounts s k = Some v \<longrightarrow> natural (m * B) v" "\<forall>k v. fb_bookings s k = Some v \<longrightarrow> natural (m * B) v"
  using assms by (simp_all add: books_def amounts_simps)

lemma books_lock: "books B c m s \<Longrightarrow> fb_locks s k = Some e \<Longrightarrow> lock_ok B c e"
  by (simp add: books_def)

lemma saved_lock_ok: "lock_ok B c e \<Longrightarrow> saved_lock e = e"
  by (cases e) (auto simp: lock_ok_def saved_lock_def dest!: saved_num_natural)

lemma saveState_books:
  assumes "books B c m s"
  shows "saveState s = s"
proof -
  have "map_option saved_lock (fb_locks s k) = fb_locks s k" for k
    using books_lock [OF assms] by (cases "fb_locks s k") (auto dest!: saved_lock_ok)
  moreover have "map_option saved_num (fb_accounts s k) = fb_accounts s k"
    "map_option saved_num (fb_bookings s k) = fb_bookings s k" for k
    using booksD(11,12) [OF assms] by (cases "fb_accounts s k"; cases "fb_bookings s k"; auto dest!: saved_num_natural)+
  moreover have "saved_num (fb_lockedTotal s) = fb_lockedTotal s"
    using booksD(8) [OF assms] by (simp add: saved_num_def)
  ultimately show ?thesis
    using booksD(1-4) [OF assms, THEN saved_num_natural] unfolding saveState_def by (cases s) (simp add: comp_def)
qed

lemma room_bounds:
  assumes "room B c"
  shows "B \<le> B * B" "B * B \<le> (c + 1) * (B * B)" "c * (B * B) \<le> (c + 1) * (B * B)" "c * B \<le> (c + 1) * B"
    "(c + 1) * B \<le> (c + 1) * (B * B)" "c + 1 \<le> (c + 1) * (B * B)" "(c + 1) * (B * B) \<le> 2 ^ 53"
proof -
  have B: "1 \<le> B" "0 \<le> c" "(c + 1) * (B * B) \<le> 2 ^ 53" using assms by (auto simp: room_def)
  have one: "1 * B \<le> B * B" using B by (intro mult_right_mono) auto
  then show "B \<le> B * B" by simp
  then have BB: "1 \<le> B * B" using B by linarith
  show "B * B \<le> (c + 1) * (B * B)" "c * (B * B) \<le> (c + 1) * (B * B)" "c * B \<le> (c + 1) * B"
    using B BB by (simp_all add: distrib_right)
  show "(c + 1) * B \<le> (c + 1) * (B * B)" using one B by (intro mult_left_mono) auto
  have "(c + 1) * 1 \<le> (c + 1) * (B * B)" using BB B by (intro mult_left_mono) auto
  then show "c + 1 \<le> (c + 1) * (B * B)" by simp
  show "(c + 1) * (B * B) \<le> 2 ^ 53" by (rule B)
qed

lemma get0_amounts:
  assumes "books B c m s"
  shows "0 \<le> get0 (fabric_amounts s) k"
proof (cases "fb_locks s k")
  case (Some e)
  then have "natural (B * B) (fl_amount e)" using assms by (auto simp: books_def lock_ok_def)
  then show ?thesis using Some natural_whole by (auto simp: get0_def fabric_amounts_def)
qed (simp add: get0_def fabric_amounts_def)

lemma total_ge:
  assumes "books B c m s"
  shows "get0 (fabric_amounts s) k \<le> map_total (fabric_amounts s)"
  by (rule map_total_ge) (use assms get0_amounts in \<open>auto simp: amounts_simps books_def\<close>)

lemma total_nonneg: "books B c m s \<Longrightarrow> 0 \<le> map_total (fabric_amounts s)"
  using get0_amounts by (auto simp: map_total_def intro: sum_nonneg)

subsection \<open>Every operation keeps the books\<close>

lemma natural_Suc: "natural c v \<Longrightarrow> c + 1 \<le> 2 ^ 53 \<Longrightarrow> \<exists>n. as_num v = Whole n \<and> num_add (as_num v) (Whole 1) = Whole (n + 1) \<and> 0 \<le> n \<and> n \<le> c"
  by (auto simp: natural_def round_double_exact)

lemma books_nextBlock:
  assumes "books B c m s" "room B c"
  shows "books B (c + 1) m (nextBlock s)"
proof -
  note b = booksD [OF assms(1)]
  have "c + 1 \<le> 2 ^ 53" using room_bounds(6,7) [OF assms(2)] by linarith
  from natural_Suc [OF b(4) this] have block: "natural (c + 1) (fb_block (nextBlock s))"
    by (auto simp: nextBlock_def)
  have locks: "\<forall>k e. fb_locks s k = Some e \<longrightarrow> lock_ok B (c + 1) e"
    using b(7) natural_mono [of c _ "c + 1"] by (simp add: lock_ok_def)
  have "fabric_amounts (nextBlock s) = fabric_amounts s" by (simp add: fabric_amounts_def nextBlock_def)
  then show ?thesis using b block locks unfolding books_def by (simp add: nextBlock_def)
qed

lemma books_mono:
  assumes "books B c m s" "m \<le> m'" "0 \<le> B"
  shows "books B c m' s"
proof -
  have le: "m * B \<le> m' * B" "m * (B * B) \<le> m' * (B * B)" using assms by (simp_all add: mult_right_mono)
  show ?thesis using booksD [OF assms(1)] le natural_mono [OF _ le(1)] unfolding books_def by auto
qed

lemma books_bootstrap:
  assumes "books B c m s" "natural_args P B args"
  shows "books B c m (bootstrap P args s)"
proof -
  note b = booksD [OF assms(1)]
  have "length (sim_text args ''bridge'' (fb_bridge s)) < 2 ^ 30"
    using b(5) assms(2) by (simp add: sim_text_def natural_args_def Let_def split: if_splits)
  moreover have "natural B (Some (sim_num P args k d))" if "k \<in> {''price'', ''remain'', ''lock_size''}" "natural B d" for k d
    using that by (intro natural_num_arg [OF assms(2)]) (auto simp: numeric_args_def)
  moreover have "fabric_amounts (bootstrap P args s) = fabric_amounts s" by (simp add: fabric_amounts_def bootstrap_def)
  ultimately show ?thesis using b unfolding books_def by (simp add: bootstrap_def)
qed

lemma sim_lock_amount_value:
  assumes "books B c m s" "room B m" "natural B (Some (Whole n))"
  shows "sim_lock_amount (Whole n) s = Whole ((if 0 < n then n else whole (fb_lockSize s)) * whole (fb_price s))"
proof -
  note b = booksD [OF assms(1)]
  obtain l p where v: "fb_lockSize s = Some (Whole l)" "fb_price s = Some (Whole p)" "0 \<le> l" "l \<le> B" "0 \<le> p" "p \<le> B"
    using b(1,3) by (auto simp: natural_def)
  define x where "x = (if 0 < n then n else l)"
  have x: "0 \<le> x" "x \<le> B" using v assms(3) by (auto simp: x_def)
  have xp: "x * p \<le> B * B" "0 \<le> x * p" using x v by (auto intro: mult_mono)
  have "B * B \<le> 2 ^ 53" using room_bounds(2,7) [OF assms(2)] by linarith
  with xp have "num_mul (Whole x) (Whole p) = Whole (x * p)" by (simp add: round_double_exact)
  moreover have "sim_lock_amount (Whole n) s = num_mul (Whole x) (Whole p)" using v by (simp add: sim_lock_amount_def x_def)
  ultimately show ?thesis using v by (simp add: x_def whole_def)
qed

lemma lock_amount_natural:
  assumes "books B c m s" "room B m" "natural B (Some num)"
  shows "\<exists>a. sim_lock_amount num s = Whole a \<and> 0 \<le> a \<and> a \<le> B * B"
proof -
  obtain n where n: "num = Whole n" "0 \<le> n" "n \<le> B" using assms(3) by (auto simp: natural_def)
  define x where "x = (if 0 < n then n else whole (fb_lockSize s))"
  have "0 \<le> x" "x \<le> B" "0 \<le> whole (fb_price s)" "whole (fb_price s) \<le> B"
    using natural_whole [OF booksD(1) [OF assms(1)]] natural_whole [OF booksD(3) [OF assms(1)]] n by (auto simp: x_def)
  then have "0 \<le> x * whole (fb_price s)" "x * whole (fb_price s) \<le> B * B" by (auto intro: mult_mono)
  moreover have "sim_lock_amount num s = Whole (x * whole (fb_price s))"
    using sim_lock_amount_value [OF assms(1,2)] assms(3) n by (simp add: x_def)
  ultimately show ?thesis by blast
qed

lemma sim_available_value:
  assumes "books B c m s" "room B m" "0 < whole (fb_price s)"
  shows "sim_available s = Whole (max 0 (whole (fb_remain s) - whole (fb_lockedTotal s) div whole (fb_price s)))"
proof -
  note b = booksD [OF assms(1)]
  let ?T = "map_total (fabric_amounts s)"
  obtain r p where v: "fb_remain s = Some (Whole r)" "fb_price s = Some (Whole p)" "0 \<le> r" "r \<le> B" "0 < p" "p \<le> B"
    using b(1,2) assms(3) by (auto simp: natural_def whole_def)
  have B: "B \<le> 2 ^ 53" "?T \<le> 2 ^ 53" using b(9) room_bounds(1,2,3,7) [OF assms(2)] by linarith+
  have T: "0 \<le> ?T" by (rule total_nonneg [OF assms(1)])
  have "floor_ratio ?T p = ?T div p" using T B v by (intro floor_ratio_exact) auto
  moreover have "0 \<le> ?T div p" "?T div p \<le> ?T" using T v using zdiv_mono2 [of ?T 1 p] by (simp_all add: pos_imp_zdiv_nonneg_iff)
  then have "num_sub (Whole r) (Whole (?T div p)) = Whole (r - ?T div p)" using B v T by (intro num_exact) auto
  ultimately show ?thesis using v b(8) by (simp add: sim_available_def whole_def)
qed

text \<open>What a new lock changes.\<close>

lemma add_lock_fields:
  "txId \<noteq> ''__proto__'' \<Longrightarrow> fb_locks (add_lock num t txId s) = (fb_locks s)(txId \<mapsto>
     \<lparr>fl_amount = Some (sim_lock_amount num s), fl_block = fb_block s, fl_timeout = Some t, fl_active = True\<rparr>)"
  "fb_lockedTotal (add_lock num t txId s) = Some (num_add (as_num (fb_lockedTotal s)) (sim_lock_amount num s))"
  "fb_bridge (add_lock num t txId s) = fb_bridge s" "fb_price (add_lock num t txId s) = fb_price s"
  "fb_remain (add_lock num t txId s) = fb_remain s" "fb_lockSize (add_lock num t txId s) = fb_lockSize s"
  "fb_accounts (add_lock num t txId s) = fb_accounts s" "fb_bookings (add_lock num t txId s) = fb_bookings s"
  "fb_block (add_lock num t txId s) = fb_block s"
  by (simp_all add: add_lock_def Let_def set_member_def)

lemma not_locked_None: "books B c m s \<Longrightarrow> \<not> is_locked s txId \<longleftrightarrow> fb_locks s txId = None"
  using books_lock by (fastforce simp: is_locked_def lock_ok_def split: option.splits)

lemma books_add_lock:
  assumes b: "books B c m s" and r: "room B m" and num: "natural B (Some num)" and t: "natural B (Some t)"
    and free: "fb_locks s txId = None" and id: "txId \<noteq> ''__proto__''"
  shows "books B c (m + 1) (add_lock num t txId s)"
proof -
  note b' = booksD [OF b]
  obtain a where a: "sim_lock_amount num s = Whole a" "0 \<le> a" "a \<le> B * B"
    using lock_amount_natural [OF b r num] by auto
  let ?s = "add_lock num t txId s" and ?T = "map_total (fabric_amounts s)"
  have T: "0 \<le> ?T" "?T + a \<le> (m + 1) * (B * B)"
    using b'(9) a total_nonneg [OF b] by (simp_all add: distrib_right)
  then have "num_add (Whole ?T) (Whole a) = Whole (?T + a)"
    using a room_bounds(7) [OF r] by (intro num_exact) simp
  then have total: "fb_lockedTotal ?s = Some (Whole (?T + a))" using b'(8) a(1) by (simp add: add_lock_fields)
  have amounts: "fabric_amounts ?s = (fabric_amounts s)(txId \<mapsto> a)"
    using id a(1) by (auto simp: fabric_amounts_def add_lock_fields whole_def)
  have "get0 (fabric_amounts s) txId = 0" using free by (simp add: get0_def fabric_amounts_def)
  then have mt: "map_total (fabric_amounts ?s) = ?T + a"
    unfolding amounts by (subst map_total_upd) (simp_all add: b')
  have locks: "lock_ok B c e" if "fb_locks ?s k = Some e" for k e
    using that b'(4,7) a t id by (cases "k = txId") (auto simp: add_lock_fields lock_ok_def)
  have more: "natural ((m + 1) * B) v" if "natural (m * B) v" for v
    using that room_bounds(4) [OF r] by (rule natural_mono)
  show ?thesis
    unfolding books_def mt total
    using b' locks more T(2) id by (simp add: add_lock_fields)
qed

lemma books_unlock:
  assumes b: "books B c m s" and r: "room B m" and e: "unlockInternal txId s = Inr s'"
  shows "books B c m s'"
proof -
  note b' = booksD [OF b]
  obtain e where lock: "fb_locks s txId = Some e" and s': "s' = s\<lparr>
      fb_lockedTotal := Some (num_max0 (num_sub (as_num (fb_lockedTotal s)) (as_num (fl_amount e)))),
      fb_locks := (fb_locks s)(txId := None)\<rparr>"
    using e by (auto simp: unlockInternal_def split: option.splits if_splits)
  obtain a where a: "fl_amount e = Some (Whole a)" "0 \<le> a" using books_lock [OF b lock] by (auto simp: lock_ok_def natural_def)
  let ?T = "map_total (fabric_amounts s)"
  have get: "get0 (fabric_amounts s) txId = a" using lock a by (simp add: get0_def fabric_amounts_def whole_def)
  then have le: "a \<le> ?T" using total_ge [OF b, of txId] by simp
  have bound: "m * (B * B) \<le> 2 ^ 53" using room_bounds(3,7) [OF r] by linarith
  have mt: "map_total (fabric_amounts s') = ?T - a"
    unfolding s' amounts_simps by (subst map_total_delete) (simp_all add: b' get)
  have "num_sub (Whole ?T) (Whole a) = Whole (?T - a)" using le a b'(9) bound by (intro num_exact) simp
  then have total: "fb_lockedTotal s' = Some (Whole (?T - a))" using b'(8) a le by (simp add: s')
  show ?thesis
    unfolding books_def mt total using b' a by (simp add: s')
qed

lemma member_number_natural:
  assumes "\<forall>k v. m k = Some v \<longrightarrow> natural B v" "user \<notin> set inherited_names" "0 \<le> B"
  shows "\<exists>n. member_number m user = Whole n \<and> 0 \<le> n \<and> n \<le> B"
proof (cases "m user")
  case (Some v)
  then obtain n where "v = Some (Whole n)" "0 \<le> n" "n \<le> B" using assms(1) by (auto simp: natural_def)
  with Some show ?thesis by (simp add: member_number_def)
qed (use assms in \<open>simp add: member_number_def\<close>)

lemma books_update:
  assumes b: "books B c m s" and r: "room B m" and args: "natural_args P B args"
  shows "books B c (m + 1) (update_books P args s)"
proof -
  note b' = booksD [OF b]
  define user where "user = sim_text args ''user'' []"
  have user: "user \<notin> set inherited_names" "user \<noteq> ''__proto__''"
    using args by (auto simp: natural_args_def user_def inherited_names_def)
  have nat: "natural B (Some (sim_num P args k (Some (Whole 0))))" if "k \<in> {''num'', ''new_remain'', ''total_cost''}" for k
    using that r by (intro natural_num_arg [OF args]) (auto simp: numeric_args_def room_def)
  have mB: "0 \<le> m * B" "(m + 1) * B \<le> 2 ^ 53" using r room_bounds(5,7) [OF r] by (simp add: room_def, linarith)
  have sums: "natural ((m + 1) * B) (Some (num_add x y))"
    if x: "\<exists>n. x = Whole n \<and> 0 \<le> n \<and> n \<le> m * B" and y: "natural B (Some y)" for x y
  proof -
    from x y obtain i j where ij: "x = Whole i" "y = Whole j" "0 \<le> i" "i \<le> m * B" "0 \<le> j" "j \<le> B" by (auto simp: natural_def)
    then have "i + j \<le> (m + 1) * B" by (simp add: distrib_right)
    with ij mB show ?thesis by (simp add: round_double_exact)
  qed
  have old: "natural ((m + 1) * B) v" if "natural (m * B) v" for v
    using that room_bounds(4) [OF r] by (rule natural_mono)
  let ?s = "update_books P args s"
  have upd: "fb_accounts ?s = (fb_accounts s)(user \<mapsto> Some (num_add (member_number (fb_accounts s) user) (sim_num P args ''total_cost'' (Some (Whole 0)))))"
    "fb_bookings ?s = (fb_bookings s)(user \<mapsto> Some (num_add (member_number (fb_bookings s) user) (sim_num P args ''num'' (Some (Whole 0)))))"
    using user by (simp_all add: update_books_def Let_def user_def set_member_def)
  have accounts: "\<forall>k v. fb_accounts ?s k = Some v \<longrightarrow> natural ((m + 1) * B) v"
    using b'(11) old sums [OF member_number_natural [OF b'(11) user(1) mB(1)] nat] unfolding upd by simp
  have bookings: "\<forall>k v. fb_bookings ?s k = Some v \<longrightarrow> natural ((m + 1) * B) v"
    using b'(12) old sums [OF member_number_natural [OF b'(12) user(1) mB(1)] nat] unfolding upd by simp
  have rest: "fb_price ?s = fb_price s" "fb_lockSize ?s = fb_lockSize s" "fb_block ?s = fb_block s" "fb_bridge ?s = fb_bridge s"
    "fb_locks ?s = fb_locks s" "fb_lockedTotal ?s = fb_lockedTotal s" "fabric_amounts ?s = fabric_amounts s"
    "fb_remain ?s = Some (sim_num P args ''new_remain'' (Some (Whole 0)))"
    by (simp_all add: update_books_def Let_def fabric_amounts_def)
  have "map_total (fabric_amounts s) \<le> (m + 1) * (B * B)" using b'(9) room_bounds(3) [OF r] by linarith
  then show ?thesis
    unfolding books_def rest using b' accounts bookings nat [of "''new_remain''"] by simp
qed

lemma encodeVassp_books:
  assumes "books B c m s" "B \<le> 2 ^ 53" "m * (B * B) \<le> 2 ^ 53"
  shows "\<exists>bytes. encodeVassp P s = Inr bytes"
proof -
  note b = booksD [OF assms(1)]
  note assms(2,3)
  moreover obtain p r l where "fb_price s = Some (Whole p)" "fb_remain s = Some (Whole r)" "fb_lockSize s = Some (Whole l)"
    "0 \<le> p" "p \<le> B" "0 \<le> r" "r \<le> B" "0 \<le> l" "l \<le> B" using b(1-3) by (auto simp: natural_def)
  moreover have "length (utf8Bytes (fb_bridge s)) < 2 ^ 64" using b(5) length_utf8Bytes [of "fb_bridge s"] by simp
  ultimately show ?thesis
    using b(8,9) total_nonneg [OF assms(1)]
    by (simp add: encodeVassp_def vassp_pairs_def encodeMetaTuple_def encodeString_def encodeUint256_def Let_def)
qed

text \<open>The reasons the simulator gives for turning a request down.\<close>

definition refusals :: "string \<Rightarrow> string \<Rightarrow> string set" where
  "refusals endpoint message =
     {''unknown fabric endpoint '' @ endpoint, ''cross_chain_tx_id is required'', ''already locked'',
      ''insufficient remain for lock'', ''not locked'', ''not timed out'', ''unsupported fabric message '' @ message}"

lemma unlockInternal_refusal: "unlockInternal txId s = Inl e \<Longrightarrow> e = ''not locked''"
  by (auto simp: unlockInternal_def split: option.splits if_splits)

lemma lock_request_books:
  assumes b: "books B c m s" and r: "room B m" and args: "natural_args P B args"
  shows "lock_request P args (tx_id args) s = Inr (s', text) \<Longrightarrow> books B c (m + 1) s'"
    and "lock_request P args (tx_id args) s = Inl e \<Longrightarrow> e \<in> {''already locked'', ''insufficient remain for lock''}"
proof -
  let ?num = "sim_num P args ''num'' (Some (Whole 0))" and ?t = "sim_num P args ''timeout_blocks'' (Some (Whole 0))"
  have nat: "natural B (Some ?num)" "natural B (Some ?t)"
    using r by (auto intro!: natural_num_arg [OF args] simp: numeric_args_def room_def)
  have id: "tx_id args \<noteq> ''__proto__''" using args by (simp add: natural_args_def)
  have new: "books B c (m + 1) (add_lock ?num ?t (tx_id args) s)" if "\<not> is_locked s (tx_id args)"
    using books_add_lock [OF b r nat _ id] that not_locked_None [OF b] by simp
  show "books B c (m + 1) s'" if "lock_request P args (tx_id args) s = Inr (s', text)"
    using that new by (auto simp: lock_request_def ensureLockFree_def res_bind_Inr_iff Let_def split: if_splits)
  show "e \<in> {''already locked'', ''insufficient remain for lock''}" if "lock_request P args (tx_id args) s = Inl e"
  proof (cases "is_locked s (tx_id args)")
    case True
    then show ?thesis using that by (simp add: lock_request_def ensureLockFree_def)
  next
    case False
    have "B \<le> 2 ^ 53" "(m + 1) * (B * B) \<le> 2 ^ 53" using room_bounds(1,2,7) [OF r] by linarith+
    with encodeVassp_books [OF new, of P] False obtain bytes where
      "encodeVassp P (add_lock ?num ?t (tx_id args) s) = Inr bytes" by auto
    then show ?thesis using that False by (simp add: lock_request_def ensureLockFree_def Let_def split: if_splits)
  qed
qed

lemma timeout_rollback_unlocks:
  "timeout_rollback txId s = Inr s' \<Longrightarrow> unlockInternal txId s = Inr s'"
  "timeout_rollback txId s = Inl e \<Longrightarrow> e \<in> {''not locked'', ''not timed out''}"
  by (auto simp: timeout_rollback_def unlockInternal_def split: option.splits if_splits)

lemma invoke_books:
  assumes b: "books B c c s" and rc: "room B c" and args: "natural_args P B args"
  shows "invoke P s endpoint message args = Inr result \<Longrightarrow> books B (c + 1) (c + 1) (fi_state result)"
    and "invoke P s endpoint message args = Inl e \<Longrightarrow> e \<in> refusals endpoint message"
proof -
  have B: "0 \<le> B" using rc by (simp add: room_def)
  note n = books_nextBlock [OF b rc]
  let ?s = "nextBlock s" and ?id = "tx_id args"
  note mono = books_mono [OF _ _ B, of "c + 1" c _ "c + 1"]
  show "books B (c + 1) (c + 1) (fi_state result)" if okay: "invoke P s endpoint message args = Inr result"
  proof -
    consider "fi_state result = bootstrap P args ?s"
      | t where "lock_request P args ?id ?s = Inr (fi_state result, t)"
      | s1 where "unlockInternal ?id ?s = Inr s1" "fi_state result = update_books P args s1"
      | "unlockInternal ?id ?s = Inr (fi_state result)"
      using okay timeout_rollback_unlocks(1)
      by (auto simp: invoke_def Let_def res_bind_Inr_iff split: if_splits prod.splits)
    then show ?thesis
    proof cases
      case 1
      then show ?thesis using mono [OF books_bootstrap [OF n args]] by simp
    next
      case 2
      then show ?thesis using lock_request_books(1) [OF n rc args] by simp
    next
      case 3
      then show ?thesis using books_update [OF books_unlock [OF n rc] rc args] by simp
    next
      case 4
      then show ?thesis using mono [OF books_unlock [OF n rc]] by simp
    qed
  qed
  show "e \<in> refusals endpoint message" if "invoke P s endpoint message args = Inl e"
    using that lock_request_books(2) [OF n rc args, of e] unlockInternal_refusal [of ?id ?s e]
      timeout_rollback_unlocks(2) [of ?id ?s e]
    by (auto simp: invoke_def Let_def res_bind_Inl_iff refusals_def split: if_splits prod.splits)
qed

subsection \<open>Runs\<close>

text \<open>The file and the number of requests so far; the invariant says nothing once the count is past the bound.\<close>

definition counted_serve ::
    "fabric_host \<Rightarrow> int \<times> fabric_state option \<Rightarrow> string \<times> string \<times> string \<Rightarrow> fabric_reply \<times> (int \<times> fabric_state option)" where
  "counted_serve P = (\<lambda>(c, file) req. apsnd (Pair (c + 1)) (serve P file req))"

definition books_file :: "int \<Rightarrow> int \<times> fabric_state option \<Rightarrow> bool" where
  "books_file B = (\<lambda>(c, file). 0 \<le> c \<and> 2000 \<le> B \<and>
     (c * (B * B) \<le> 2 ^ 53 \<longrightarrow> (case file of None \<Rightarrow> True | Some s \<Rightarrow> books B c c s)))"

definition natural_request :: "fabric_host \<Rightarrow> int \<Rightarrow> string \<times> string \<times> string \<Rightarrow> bool" where
  "natural_request P B = (\<lambda>(method, url, raw). \<forall>body. readBody P raw = Inr body \<longrightarrow> natural_args P B (request_args body))"

lemma books_default: "2000 \<le> B \<Longrightarrow> 0 \<le> c \<Longrightarrow> books B c c defaultState"
  by (simp add: books_def defaultState_def fabric_amounts_def)

lemma books_block_mono:
  assumes "books B c m s" "c \<le> c'"
  shows "books B c' m s"
proof -
  note b = booksD [OF assms(1)]
  have "natural c' (fb_block s)" using b(4) assms(2) by (rule natural_mono)
  moreover have "\<forall>k e. fb_locks s k = Some e \<longrightarrow> lock_ok B c' e"
    using b(7) natural_mono [OF _ assms(2)] by (simp add: lock_ok_def)
  ultimately show ?thesis unfolding books_def using b by (intro conjI) assumption+
qed

lemma books_later:
  assumes "books B c c s" "0 \<le> B"
  shows "books B (c + 1) (c + 1) s"
  by (rule books_mono [OF books_block_mono [OF assms(1)] _ assms(2)]) simp_all

lemma counted_serve_books:
  assumes inv: "books_file B cf" and nat: "natural_request P B req"
  shows "books_file B (snd (counted_serve P cf req))"
proof -
  obtain c f0 meth url raw where cf: "cf = (c, f0)" and req: "req = (meth, url, raw)" by (metis surj_pair)
  have c: "0 \<le> c" and B: "2000 \<le> B" using inv by (simp_all add: books_file_def cf)
  show ?thesis
  proof (cases "(c + 1) * (B * B) \<le> 2 ^ 53")
    case False
    then show ?thesis using c B by (simp add: cf books_file_def counted_serve_def)
  next
    case True
    then have r: "room B c" using B c by (simp add: room_def)
    have "case snd (serve P f0 req) of None \<Rightarrow> True | Some s \<Rightarrow> books B (c + 1) (c + 1) s"
    proof (cases "url_pathname P (js_or url ''/'')")
      case (Inl e)
      have "c * (B * B) \<le> 2 ^ 53" using room_bounds(3,7) [OF r] by linarith
      then have "case f0 of None \<Rightarrow> True | Some s \<Rightarrow> books B c c s" using inv by (simp add: books_file_def cf)
      then show ?thesis using Inl books_later B by (auto simp: serve_def req begin_request_def split: option.splits)
    next
      case (Inr path)
      have "c * (B * B) \<le> 2 ^ 53" using room_bounds(3,7) [OF r] by linarith
      then have old: "case f0 of None \<Rightarrow> True | Some s \<Rightarrow> books B c c s" using inv by (simp add: books_file_def cf)
      obtain s f1 where load: "loadState f0 = (s, Some f1)" and s: "books B c c s" and f1: "books B c c f1"
        using old books_default [OF B c] saveState_books [OF books_default [OF B c]]
        by (cases f0) (simp_all add: loadState_def)
      note f1' = books_later [OF f1]
      have fin: "case snd (finish_request P s raw) of None \<Rightarrow> True | Some s' \<Rightarrow> books B (c + 1) (c + 1) s'"
      proof (cases "invoke_body P s raw")
        case (Inr result)
        then obtain body where "readBody P raw = Inr body"
          "invoke P s (sim_text body ''endpoint'' []) (sim_text body ''message'' []) (request_args body) = Inr result"
          by (auto simp: invoke_body_def res_bind_Inr_iff split: if_splits)
        then have "books B (c + 1) (c + 1) (fi_state result)"
          using nat invoke_books(1) [OF s r] by (auto simp: natural_request_def req)
        then show ?thesis using Inr saveState_books by (simp add: finish_request_def)
      qed (simp add: finish_request_def)
      show ?thesis
        using Inr load f1' fin B by (auto simp: serve_def req begin_request_def split: prod.splits option.splits)
    qed
    then show ?thesis using c B by (simp add: cf books_file_def counted_serve_def)
  qed
qed

interpretation fabric: op_machine "counted_serve P" "books_file B" "natural_request P B" for P B
  by unfold_locales (rule counted_serve_books)

lemma run_counted:
  "run_ops (counted_serve P) (c, f0) reqs = (c + int (length reqs), run_ops (serve P) f0 reqs)"
  by (induction reqs arbitrary: c f0) (simp_all add: counted_serve_def)


text \<open>
  A host for examples: a body is a message, a colon and a transaction id; every request carries
  \<open>num\<close> 3, \<open>timeout_blocks\<close> 2, \<open>new_remain\<close> 1990, \<open>total_cost\<close> 300 and the user Ann.
\<close>

definition example_body :: "string \<Rightarrow> json" where
  "example_body t =
     (let message = takeWhile (\<lambda>c. c \<noteq> CHR '':'') t in JsonObject
       [(''endpoint'', JsonString ''xbridge_bc3''), (''message'', JsonString message),
        (''args'', JsonObject [(''cross_chain_tx_id'', JsonString (drop (Suc (length message)) t)),
          (''num'', JsonNumber ''3''), (''timeout_blocks'', JsonNumber ''2''), (''new_remain'', JsonNumber ''1990''),
          (''total_cost'', JsonNumber ''300''), (''user'', JsonString ''Ann'')])])"

definition example_fabric :: fabric_host where
  "example_fabric = \<lparr>parse_body = (\<lambda>t. Inr (example_body t)), json_print = js_string, other_numeral = (\<lambda>t. Not_a_number),
     exponent_form = show_int, sha3_256 = (\<lambda>bs. replicate 32 0), sha256_hex = id, url_pathname = Inr\<rparr>"

lemma example_path: "url_pathname example_fabric = Inr"
  by (simp add: example_fabric_def)

definition example_post :: "string \<Rightarrow> string \<times> string \<times> string" where
  "example_post body = (''POST'', ''/invoke'', body)"

lemma example_numerals:
  "text_number other ''3'' = Whole 3" "text_number other ''2'' = Whole 2"
  "text_number other ''1990'' = Whole 1990" "text_number other ''300'' = Whole 300"
  by code_simp+

lemma example_args:
  "request_args (example_body t) = JsonObject
     [(''cross_chain_tx_id'', JsonString (drop (Suc (length (takeWhile (\<lambda>c. c \<noteq> CHR '':'') t))) t)),
      (''num'', JsonNumber ''3''), (''timeout_blocks'', JsonNumber ''2''), (''new_remain'', JsonNumber ''1990''),
      (''total_cost'', JsonNumber ''300''), (''user'', JsonString ''Ann'')]"
  by (simp add: request_args_def example_body_def Let_def)

lemma example_natural:
  assumes "drop (Suc (length (takeWhile (\<lambda>c. c \<noteq> CHR '':'') t))) t \<noteq> ''__proto__''" "t \<noteq> []"
  shows "natural_request example_fabric 2000 (example_post t)"
  using assms by (simp add: natural_request_def example_post_def readBody_def example_fabric_def example_args natural_args_def
      numeric_args_def example_numerals sim_text_def tx_id_def nullish_def inherited_names_def Let_def)

lemma invoke_lock:
  assumes "tx_id args \<noteq> []" "\<not> is_locked s (tx_id args)"
    and "\<not> num_less (sim_available (nextBlock s)) (sim_num P args ''num'' (Some (Whole 0)))"
    and "\<exists>bytes. encodeVassp P (add_lock (sim_num P args ''num'' (Some (Whole 0)))
      (sim_num P args ''timeout_blocks'' (Some (Whole 0))) (tx_id args) (nextBlock s)) = Inr bytes"
  shows "\<exists>r. invoke P s ''xbridge_bc3'' ''receive_lock_request'' args = Inr r \<and>
    fi_state r = add_lock (sim_num P args ''num'' (Some (Whole 0)))
      (sim_num P args ''timeout_blocks'' (Some (Whole 0))) (tx_id args) (nextBlock s)"
proof -
  have "\<not> is_locked (nextBlock s) (tx_id args)" using assms(2) by (simp add: is_locked_def nextBlock_def)
  then show ?thesis using assms by (auto simp: invoke_def lock_request_def ensureLockFree_def Let_def)
qed

text \<open>The first lock of the example.\<close>

definition example_locked :: "string \<Rightarrow> fabric_state" where
  "example_locked txId = add_lock (Whole 3) (Whole 2) txId (nextBlock defaultState)"

lemma books_example: "books 2000 1 1 (example_locked t)" if "t \<noteq> ''__proto__''"
proof -
  have "room 2000 0" by (simp add: room_def)
  note n = books_nextBlock [OF books_default this, simplified]
  have "room 2000 0" "fb_locks (nextBlock defaultState) t = None" by (simp_all add: room_def nextBlock_def defaultState_def)
  from books_add_lock [OF n this(1) _ _ this(2) that, of "Whole 3" "Whole 2"] show ?thesis
    by (simp add: example_locked_def)
qed

lemma example_lock:
  assumes "t \<in> {''t1'', ''t2''}"
  shows "\<exists>reply. finish_request example_fabric defaultState (''receive_lock_request:'' @ t) = (reply, Some (example_locked t)) \<and>
    (\<exists>ms. reply = Answer 200 (JsonObject ((''ok'', JsonBool True) # ms)))"
proof -
  let ?raw = "''receive_lock_request:'' @ t" and ?P = example_fabric
  have t: "t \<noteq> []" "t \<noteq> ''__proto__''" using assms by auto
  let ?args = "request_args (example_body ?raw)"
  have a: "tx_id ?args = t" "sim_num ?P ?args ''num'' (Some (Whole 0)) = Whole 3"
    "sim_num ?P ?args ''timeout_blocks'' (Some (Whole 0)) = Whole 2"
    by (simp_all add: example_args tx_id_def nullish_def sim_num_def example_fabric_def example_numerals)
  have body: "readBody ?P ?raw = Inr (example_body ?raw)" "example_body ?raw \<noteq> JsonNull"
    "sim_text (example_body ?raw) ''endpoint'' [] = ''xbridge_bc3''"
    "sim_text (example_body ?raw) ''message'' [] = ''receive_lock_request''"
    by (simp_all add: readBody_def example_fabric_def example_body_def sim_text_def Let_def)
  have avail: "sim_available (nextBlock defaultState) = Whole 2000"
    by (simp add: sim_available_def nextBlock_def defaultState_def floor_ratio_def round_double_exact num_sub_def Let_def)
  have enc: "\<exists>bytes. encodeVassp ?P (example_locked t) = Inr bytes"
    using books_example [OF t(2)] by (rule encodeVassp_books) simp_all
  have free: "\<not> is_locked defaultState t" by (simp add: is_locked_def defaultState_def)
  obtain r where r: "invoke ?P defaultState ''xbridge_bc3'' ''receive_lock_request'' ?args = Inr r" "fi_state r = example_locked t"
    using invoke_lock [of ?args defaultState ?P, unfolded a, OF t(1) free] avail enc by (auto simp: example_locked_def)
  have "invoke_body ?P defaultState ?raw = Inr r" unfolding invoke_body_def body using r by (simp only: res_bind.simps body if_False)
  then show ?thesis
    using saveState_books [OF books_example [OF t(2)]] r(2) by (simp add: finish_request_def)
qed


end
