(* ===== verification/Fabric_Server.thy ===== *)
theory Fabric_Server
  imports Fabric_Books
begin

text \<open>
  The simulator under concurrent clients, and what a timeout costs. A POST loads the state when it
  arrives and works on that copy when its body is complete; requests in between work on theirs.
\<close>

subsection \<open>Interleaved requests\<close>

text \<open>A request is named by its connection; \<open>sv_open\<close> holds the copies that wait for a body.\<close>

record fabric_server =
  sv_file :: "fabric_state option"
  sv_open :: "nat \<rightharpoonup> fabric_state"
  sv_replies :: "(nat \<times> fabric_reply) list"

datatype progress = Arrive string string | Body string | Broken string

definition reply_to :: "nat \<Rightarrow> fabric_reply \<Rightarrow> fabric_server \<Rightarrow> fabric_server" where
  "reply_to i r v = v\<lparr>sv_open := (sv_open v)(i := None), sv_replies := sv_replies v @ [(i, r)]\<rparr>"

definition take_request :: "fabric_host \<Rightarrow> nat \<Rightarrow> string \<Rightarrow> string \<Rightarrow> fabric_server \<Rightarrow> fabric_server" where
  "take_request P i method url v = (case begin_request P (sv_file v) method url of
     (Inl r, file') \<Rightarrow> reply_to i r (v\<lparr>sv_file := file'\<rparr>)
   | (Inr s, file') \<Rightarrow> v\<lparr>sv_file := file', sv_open := (sv_open v)(i \<mapsto> s)\<rparr>)"

definition take_body :: "fabric_host \<Rightarrow> nat \<Rightarrow> fabric_state \<Rightarrow> string \<Rightarrow> fabric_server \<Rightarrow> fabric_server" where
  "take_body P i s raw v = (case finish_request P s raw of
     (r, None) \<Rightarrow> reply_to i r v
   | (r, Some saved) \<Rightarrow> reply_to i r (v\<lparr>sv_file := Some saved\<rparr>))"

inductive server_step :: "fabric_host \<Rightarrow> fabric_server \<Rightarrow> nat \<times> progress \<Rightarrow> fabric_server \<Rightarrow> bool" for P where
  arrive: "sv_open v i = None \<Longrightarrow> i \<notin> fst ` set (sv_replies v) \<Longrightarrow>
    server_step P v (i, Arrive meth url) (take_request P i meth url v)"
| body: "sv_open v i = Some s \<Longrightarrow> server_step P v (i, Body raw) (take_body P i s raw v)"
| broken: "sv_open v i = Some s \<Longrightarrow> server_step P v (i, Broken e) (reply_to i (error_reply e) v)"

inductive server_run :: "fabric_host \<Rightarrow> fabric_server \<Rightarrow> (nat \<times> progress) list \<Rightarrow> fabric_server \<Rightarrow> bool" for P where
  idle: "server_run P v [] v"
| more: "server_step P v e v' \<Longrightarrow> server_run P v' es v'' \<Longrightarrow> server_run P v (e # es) v''"

inductive_cases server_stepE: "server_step P v e v'"
inductive_cases arriveE: "server_step P v (i, Arrive meth url) v'"
inductive_cases bodyE: "server_step P v (i, Body raw) v'"
inductive_cases run_nilE: "server_run P v [] v'"
inductive_cases run_consE: "server_run P v (e # es) v'"
inductive_simps run_cons: "server_run P v (e # es) v'"
inductive_simps run_nil: "server_run P v [] v'"

lemma reply_other: "j \<noteq> i \<Longrightarrow> sv_open (reply_to j r v) i = sv_open v i"
  by (simp add: reply_to_def)

text \<open>Requests of others leave a waiting copy alone.\<close>

lemma step_keeps_open:
  assumes "server_step P v (j, p) v'" "j \<noteq> i"
  shows "sv_open v' i = sv_open v i"
  using assms by (auto elim!: server_stepE simp: take_request_def take_body_def reply_other split: prod.splits sum.splits option.splits)

lemma run_keeps_open:
  "server_run P v es v' \<Longrightarrow> \<forall>(j, p) \<in> set es. j \<noteq> i \<Longrightarrow> sv_open v' i = sv_open v i"
  by (induction rule: server_run.induct) (auto dest: step_keeps_open)

lemma run_append:
  "server_run P v (es @ fs) v'' \<longleftrightarrow> (\<exists>v'. server_run P v es v' \<and> server_run P v' fs v'')"
  by (induction es arbitrary: v) (auto simp: run_cons run_nil)

text \<open>
  C17. The last writer wins. Let a POST to /invoke arrive when the file holds \<open>s\<close>, other requests come and
  go, and its body arrive then. Whatever the others saved in between, the reply and the saved file are
  those of invoking on \<open>s\<close>: an accepted request overwrites the others' locks, unlocks and
  bookings, although each of them was told that it succeeded.
\<close>

theorem fabric_last_writer_wins:
  assumes "server_run P v ((i, Arrive ''POST'' url) # es @ [(i, Body raw)]) v'"
    and "\<forall>(j, p) \<in> set es. j \<noteq> i" and "sv_file v = Some s" and "url_pathname P (js_or url ''/'') = Inr ''/invoke''"
  shows "last (sv_replies v') = (i, fst (finish_request P s raw)) \<and>
    (\<forall>saved. snd (finish_request P s raw) = Some saved \<longrightarrow> sv_file v' = Some saved)"
proof -
  obtain v1 v2 where a: "server_step P v (i, Arrive ''POST'' url) v1" and es: "server_run P v1 es v2"
    and b: "server_step P v2 (i, Body raw) v'"
    using assms(1) by (auto simp: run_cons run_nil run_append)
  have "v1 = take_request P i ''POST'' url v" using a by (auto elim: arriveE)
  then have "sv_open v1 i = Some s" using assms(3,4) by (simp add: take_request_def begin_request_def loadState_def)
  then have "sv_open v2 i = Some s" using run_keeps_open [OF es assms(2)] by simp
  then have "v' = take_body P i s raw v2" using b by (auto elim: bodyE)
  then show ?thesis by (auto simp: take_body_def reply_to_def split: prod.splits option.splits)
qed

text \<open>Two clients lock rooms at the same time: both are told so, and one lock is in the file.\<close>

theorem fabric_last_writer_wins_witness:
  "\<exists>v'. server_run example_fabric \<lparr>sv_file = Some defaultState, sv_open = Map.empty, sv_replies = []\<rparr>
      [(8, Arrive ''POST'' ''/invoke''), (7, Arrive ''POST'' ''/invoke''), (7, Body ''receive_lock_request:t2''),
       (8, Body ''receive_lock_request:t1'')] v' \<and>
    (\<forall>(i, r) \<in> set (sv_replies v'). \<exists>ms. r = Answer 200 (JsonObject ((''ok'', JsonBool True) # ms))) \<and>
    map fst (sv_replies v') = [7, 8] \<and>
    map_option (\<lambda>s. (map_option fl_active (fb_locks s ''t1''), map_option fl_active (fb_locks s ''t2''))) (sv_file v') =
      Some (Some True, None)"
proof -
  let ?P = example_fabric and ?t1 = "''receive_lock_request:t1''" and ?t2 = "''receive_lock_request:t2''"
  let ?v0 = "\<lparr>sv_file = Some defaultState, sv_open = Map.empty, sv_replies = []\<rparr>"
  let ?v1 = "take_request ?P 8 ''POST'' ''/invoke'' ?v0"
  let ?v2 = "take_request ?P 7 ''POST'' ''/invoke'' ?v1"
  let ?v3 = "take_body ?P 7 defaultState ?t2 ?v2"
  let ?v4 = "take_body ?P 8 defaultState ?t1 ?v3"
  have started: "begin_request ?P (Some defaultState) ''POST'' ''/invoke'' = (Inr defaultState, Some defaultState)"
    by (simp add: begin_request_def example_fabric_def loadState_def)
  obtain r1 where f1: "finish_request ?P defaultState ?t1 = (r1, Some (example_locked ''t1''))"
    and r1: "\<exists>ms. r1 = Answer 200 (JsonObject ((''ok'', JsonBool True) # ms))"
    using example_lock [of "''t1''"] by auto
  obtain r2 where f2: "finish_request ?P defaultState ?t2 = (r2, Some (example_locked ''t2''))"
    and r2: "\<exists>ms. r2 = Answer 200 (JsonObject ((''ok'', JsonBool True) # ms))"
    using example_lock [of "''t2''"] by auto
  have s1: "map_option fl_active (fb_locks (example_locked ''t1'') ''t1'') = Some True"
    "fb_locks (example_locked ''t1'') ''t2'' = None"
    by (simp_all add: example_locked_def add_lock_fields nextBlock_def defaultState_def)
  have v2: "?v2 = \<lparr>sv_file = Some defaultState, sv_open = [8 \<mapsto> defaultState, 7 \<mapsto> defaultState], sv_replies = []\<rparr>"
    by (simp add: take_request_def started)
  have "server_step ?P ?v0 (8, Arrive ''POST'' ''/invoke'') ?v1" by (intro server_step.arrive) simp_all
  moreover have "server_step ?P ?v1 (7, Arrive ''POST'' ''/invoke'') ?v2"
    by (intro server_step.arrive) (simp_all add: take_request_def started)
  moreover have "server_step ?P ?v2 (7, Body ?t2) ?v3" by (intro server_step.body) (simp add: v2)
  moreover have "server_step ?P ?v3 (8, Body ?t1) ?v4"
    by (intro server_step.body) (simp add: v2 take_body_def f2 reply_to_def)
  ultimately have run: "server_run ?P ?v0 [(8, Arrive ''POST'' ''/invoke''), (7, Arrive ''POST'' ''/invoke''), (7, Body ?t2), (8, Body ?t1)] ?v4"
    by (meson server_run.intros)
  have v3: "sv_replies ?v4 = [(7, r2), (8, r1)]" by (simp add: take_body_def v2 f1 f2 reply_to_def)
  from run have "server_run ?P ?v0 ((8, Arrive ''POST'' ''/invoke'') # [(7, Arrive ''POST'' ''/invoke''), (7, Body ?t2)] @ [(8, Body ?t1)]) ?v4"
    by simp
  from fabric_last_writer_wins [OF this, of defaultState] have "sv_file ?v4 = Some (example_locked ''t1'')"
    by (simp add: f1) (simp add: example_fabric_def)
  with run v3 s1 r1 r2 show ?thesis by (intro exI [of _ ?v4]) simp
qed

subsection \<open>Timeouts\<close>

text \<open>Whether a request is an invocation that succeeds, and how many of a sequence are.\<close>

definition accepted :: "fabric_host \<Rightarrow> fabric_state option \<Rightarrow> string \<times> string \<times> string \<Rightarrow> bool" where
  "accepted P f0 = (\<lambda>(meth, url, raw). case begin_request P f0 meth url of
     (Inr s, f1) \<Rightarrow> snd (finish_request P s raw) \<noteq> None
   | (Inl r, f1) \<Rightarrow> False)"

fun accepted_count :: "fabric_host \<Rightarrow> fabric_state option \<Rightarrow> (string \<times> string \<times> string) list \<Rightarrow> nat" where
  "accepted_count P f0 [] = 0"
| "accepted_count P f0 (req # reqs) =
     (if accepted P f0 req then 1 else 0) + accepted_count P (snd (serve P f0 req)) reqs"

lemma unlock_block: "unlockInternal txId s = Inr s' \<Longrightarrow> fb_block s' = fb_block s"
  by (auto simp: unlockInternal_def split: option.splits if_splits)

lemma invoke_block: "invoke P s endpoint message args = Inr r \<Longrightarrow> fb_block (fi_state r) = fb_block (nextBlock s)"
  by (auto simp: invoke_def Let_def res_bind_Inr_iff bootstrap_def lock_request_def add_lock_fields update_books_def
      split: if_splits prod.splits dest!: timeout_rollback_unlocks(1) unlock_block)

lemma begin_loaded:
  "begin_request P (Some s) meth url = (x, f1) \<Longrightarrow> f1 = Some s \<and> (\<forall>s'. x = Inr s' \<longrightarrow> s' = s)"
  by (auto simp: begin_request_def loadState_def split: sum.splits if_splits)

lemma serve_block:
  assumes "fb_block s = Some (Whole b)" "0 \<le> b" "b < 2 ^ 53"
  shows "\<exists>s'. snd (serve P (Some s) req) = Some s' \<and>
    fb_block s' = Some (Whole (b + (if accepted P (Some s) req then 1 else 0))) \<and> (\<not> accepted P (Some s) req \<longrightarrow> s' = s)"
proof -
  obtain meth url raw where req: "req = (meth, url, raw)" by (cases req)
  have next_block: "fb_block (nextBlock s) = Some (Whole (b + 1))" using assms by (simp add: nextBlock_def round_double_exact)
  consider (now) r where "begin_request P (Some s) meth url = (Inl r, Some s)"
    | (later) "begin_request P (Some s) meth url = (Inr s, Some s)"
    using begin_loaded [of P s meth url] by (metis old.sum.exhaust surj_pair)
  then show ?thesis
  proof cases
    case now
    then show ?thesis using assms by (simp add: req serve_def accepted_def)
  next
    case later
    show ?thesis
    proof (cases "invoke_body P s raw")
      case (Inl e)
      then show ?thesis using later assms by (simp add: req serve_def accepted_def finish_request_def)
    next
      case (Inr r)
      then have "fb_block (fi_state r) = Some (Whole (b + 1))"
        using invoke_block next_block by (auto simp: invoke_body_def res_bind_Inr_iff split: if_splits)
      then show ?thesis using later Inr
        by (simp add: req serve_def accepted_def finish_request_def saveState_def saved_num_def)
    qed
  qed
qed

lemma run_block:
  assumes "fb_block s = Some (Whole b)" "0 \<le> b" "b + int (length reqs) < 2 ^ 53"
  shows "\<exists>s'. run_ops (serve P) (Some s) reqs = Some s' \<and>
    fb_block s' = Some (Whole (b + int (accepted_count P (Some s) reqs)))"
  using assms
proof (induction reqs arbitrary: s b)
  case (Cons req reqs)
  have "b < 2 ^ 53" using Cons.prems(3) by simp
  from serve_block [OF Cons.prems(1,2) this, of P req] obtain s1 where
    s1: "snd (serve P (Some s) req) = Some s1" "fb_block s1 = Some (Whole (b + (if accepted P (Some s) req then 1 else 0)))"
    by auto
  have "\<exists>s'. run_ops (serve P) (Some s1) reqs = Some s' \<and>
      fb_block s' = Some (Whole (b + (if accepted P (Some s) req then 1 else 0) + int (accepted_count P (Some s1) reqs)))"
    using Cons.prems by (intro Cons.IH [OF s1(2)]) auto
  then show ?case using s1(1) by (auto simp: add.assoc)
qed simp

lemma invoke_timeout:
  assumes "fb_block s = Some (Whole n)" "0 \<le> n" "n < 2 ^ 53" and "fb_locks s (tx_id args) = Some e" "tx_id args \<noteq> []"
    and "fl_active e" "fl_block e = Some (Whole b)" "fl_timeout e = Some (Whole T)" "0 \<le> b" "0 \<le> T" "b + T \<le> 2 ^ 53"
  shows "if b + T \<le> n then \<exists>r. invoke P s ''xbridge_bc3'' ''receive_timeout_rollback'' args = Inr r
    else invoke P s ''xbridge_bc3'' ''receive_timeout_rollback'' args = Inl ''not timed out''"
proof -
  have "within_timeout e (nextBlock s) \<longleftrightarrow> n + 1 \<le> b + T"
    using assms by (simp add: within_timeout_def nextBlock_def round_double_exact)
  moreover have "fb_locks (nextBlock s) (tx_id args) = Some e" using assms by (simp add: nextBlock_def)
  ultimately show ?thesis
    using assms(5,6) by (auto simp: invoke_def Let_def timeout_rollback_def unlockInternal_def)
qed


lemma example_lock_entry:
  "fb_block (example_locked ''t1'') = Some (Whole 1)"
  "fb_locks (example_locked ''t1'') ''t1'' =
     Some \<lparr>fl_amount = Some (Whole 300), fl_block = Some (Whole 1), fl_timeout = Some (Whole 2), fl_active = True\<rparr>"
  by (simp_all add: example_locked_def add_lock_fields sim_lock_amount_def nextBlock_def defaultState_def round_double_exact)

definition example_timeout :: string where
  "example_timeout = ''receive_timeout_rollback:t1''"

lemma example_timeout_args:
  "tx_id (request_args (example_body example_timeout)) = ''t1''"
  "sim_text (example_body example_timeout) ''endpoint'' [] = ''xbridge_bc3''"
  "sim_text (example_body example_timeout) ''message'' [] = ''receive_timeout_rollback''"
  "readBody example_fabric example_timeout = Inr (example_body example_timeout)"
  "example_body example_timeout \<noteq> JsonNull"
  by (simp_all add: example_timeout_def tx_id_def nullish_def sim_text_def request_args_def example_body_def readBody_def
      example_fabric_def Let_def)


lemma refused_repeats:
  assumes "serve P (Some s) req = (r, Some s)"
  shows "run_results (serve P) (Some s) (replicate n req) = replicate n r \<and> run_ops (serve P) (Some s) (replicate n req) = Some s"
  by (induction n) (simp_all add: assms)

text \<open>
  C38. A retried timeout rollback starves. When nobody else uses the simulator, a client that locked with a
  positive timeout and asks for the rollback again and again is refused every time: a refused request does
  not save the block it counted.
\<close>

theorem fabric_timeout_starves:
  assumes "fb_block s = Some (Whole b)" "0 \<le> b" "b < 2 ^ 53" and "fb_locks s (tx_id (request_args body)) = Some e"
    and "fl_active e" "fl_block e = Some (Whole b)" "fl_timeout e = Some (Whole T)" "0 < T" "b + T \<le> 2 ^ 53"
    and "url_pathname P (js_or url ''/'') = Inr ''/invoke''" "readBody P raw = Inr body" "body \<noteq> JsonNull"
    and "sim_text body ''endpoint'' [] = ''xbridge_bc3''" "sim_text body ''message'' [] = ''receive_timeout_rollback''"
    and "tx_id (request_args body) \<noteq> []"
  shows "run_results (serve P) (Some s) (replicate n (''POST'', url, raw)) = replicate n (error_reply ''not timed out'') \<and>
    run_ops (serve P) (Some s) (replicate n (''POST'', url, raw)) = Some s"
proof (rule refused_repeats)
  have "0 \<le> T" using assms by simp
  from invoke_timeout [OF assms(1-4) _ assms(5-7,2) this assms(9), of P] assms(8,15)
  have "invoke P s ''xbridge_bc3'' ''receive_timeout_rollback'' (request_args body) = Inl ''not timed out''" by simp
  then have "invoke_body P s raw = Inl ''not timed out''" using assms by (simp add: invoke_body_def)
  then show "serve P (Some s) (''POST'', url, raw) = (error_reply ''not timed out'', Some s)"
    using assms(10) by (simp add: serve_def begin_request_def loadState_def finish_request_def)
qed

theorem fabric_timeout_starves_witness:
  "run_results (serve example_fabric) (Some (example_locked ''t1'')) (replicate 9 (example_post example_timeout)) =
     replicate 9 (error_reply ''not timed out'')"
  using fabric_timeout_starves [OF example_lock_entry(1), of "example_body example_timeout" _ 2 example_fabric "''/invoke''" example_timeout 9]
    example_lock_entry(2)
  by (auto simp: example_timeout_args example_post_def example_path)

end
