(* ===== verification/Vassp_Import.thy ===== *)
theory Vassp_Import
  imports Fabric_Sim Translated_Travel
begin

text \<open>
  The locked state on its way to the EVM chain: \<open>contracts/xsmart/bc1/lib/VASSP.sol\<close>, which decodes
  what the Fabric side encodes and hands each pair to \<open>__vassp_apply\<close> of the translated contract.
  Offsets and lengths of the decoder are \<open>uint256\<close>; they stay below \<open>2 ^ 65\<close>, since a length has at
  most eight bytes, so natural numbers are exact.
\<close>

subsection \<open>VASSP.sol\<close>

definition invalid_rlp :: "string \<Rightarrow> 'a evm" where
  "invalid_rlp reason = Inl (CustomError ''InvalidRlp'' reason)"

record rlp_item =
  it_isList :: bool
  it_payloadOffset :: nat
  it_payloadLength :: nat
  it_totalLength :: nat

definition requireBounds :: "nat \<Rightarrow> nat \<Rightarrow> nat \<Rightarrow> unit evm" where
  "requireBounds dataLength offset len =
     (if offset + len > dataLength then invalid_rlp ''payload out of bounds'' else Inr ())"

definition readBigEndian :: "byte list \<Rightarrow> nat \<Rightarrow> nat \<Rightarrow> nat evm" where
  "readBigEndian data offset len =
     (if len = 0 then invalid_rlp ''zero length-of-length''
      else res_bind (requireBounds (length data) offset len) (\<lambda>_. Inr (be_value 0 (take len (drop offset data)))))"

text \<open>The branches of \<open>_decodeItem\<close> for a payload after the prefix, and after a length of its own.\<close>

definition short_item :: "byte list \<Rightarrow> nat \<Rightarrow> bool \<Rightarrow> nat \<Rightarrow> rlp_item evm" where
  "short_item data offset isList len =
     res_bind (requireBounds (length data) (offset + 1) len) (\<lambda>_.
     Inr \<lparr>it_isList = isList, it_payloadOffset = offset + 1, it_payloadLength = len, it_totalLength = 1 + len\<rparr>)"

definition long_item :: "byte list \<Rightarrow> nat \<Rightarrow> bool \<Rightarrow> nat \<Rightarrow> rlp_item evm" where
  "long_item data offset isList lenOfLen =
     res_bind (readBigEndian data (offset + 1) lenOfLen) (\<lambda>len.
     res_bind (requireBounds (length data) (offset + 1 + lenOfLen) len) (\<lambda>_.
     Inr \<lparr>it_isList = isList, it_payloadOffset = offset + 1 + lenOfLen, it_payloadLength = len,
          it_totalLength = 1 + lenOfLen + len\<rparr>))"

definition decodeItem :: "byte list \<Rightarrow> nat \<Rightarrow> rlp_item evm" where
  "decodeItem data offset =
     (if offset \<ge> length data then invalid_rlp ''offset out of bounds''
      else let prefix = unat (data ! offset) in
        if prefix \<le> 0x7f then
          Inr \<lparr>it_isList = False, it_payloadOffset = offset, it_payloadLength = 1, it_totalLength = 1\<rparr>
        else if prefix \<le> 0xb7 then short_item data offset False (prefix - 0x80)
        else if prefix \<le> 0xbf then long_item data offset False (prefix - 0xb7)
        else if prefix \<le> 0xf7 then short_item data offset True (prefix - 0xc0)
        else long_item data offset True (prefix - 0xf7))"

lemma decodeItem_advances: "decodeItem data offset = Inr item \<Longrightarrow> 0 < it_totalLength item"
  by (auto simp: decodeItem_def short_item_def long_item_def invalid_rlp_def res_bind_Inr_iff Let_def split: if_splits)

text \<open>The loop of \<open>_countListItems\<close>; it ends because every item has a byte.\<close>

function count_items :: "byte list \<Rightarrow> nat \<Rightarrow> nat \<Rightarrow> nat \<Rightarrow> nat evm" where
  "count_items data stop cursor n =
     (if cursor < stop then
        (case decodeItem data cursor of
           Inl e \<Rightarrow> Inl e
         | Inr inner \<Rightarrow> count_items data stop (cursor + it_totalLength inner) (Suc n))
      else if cursor \<noteq> stop then invalid_rlp ''malformed list payload''
      else Inr n)"
  by pat_completeness auto

termination count_items
  by (relation "measure (\<lambda>(data, stop, cursor, n). stop - cursor)") (auto dest: decodeItem_advances)

declare count_items.simps [simp del]

definition countListItems :: "byte list \<Rightarrow> rlp_item \<Rightarrow> nat evm" where
  "countListItems data listItem =
     count_items data (it_payloadOffset listItem + it_payloadLength listItem) (it_payloadOffset listItem) 0"

definition rlp_slice :: "byte list \<Rightarrow> nat \<Rightarrow> nat \<Rightarrow> byte list evm" where
  "rlp_slice data offset len =
     res_bind (requireBounds (length data) offset len) (\<lambda>_. Inr (take len (drop offset data)))"

definition bytes_word :: "byte list \<Rightarrow> uint256" where
  "bytes_word bs = U (int (be_value 0 bs))"

definition toBytes32 :: "byte list \<Rightarrow> nat \<Rightarrow> uint256 evm" where
  "toBytes32 data offset =
     res_bind (requireBounds (length data) offset 32) (\<lambda>_. Inr (bytes_word (take 32 (drop offset data))))"

text \<open>The body of the loop of \<open>decode\<close>: the pair at the cursor and where the next one starts.\<close>

definition decode_pair :: "byte list \<Rightarrow> nat \<Rightarrow> ((uint256 \<times> byte list) \<times> nat) evm" where
  "decode_pair data cursor =
     res_bind (decodeItem data cursor) (\<lambda>pairItem.
     if \<not> it_isList pairItem then invalid_rlp ''pair is not a list''
     else res_bind (decodeItem data (it_payloadOffset pairItem)) (\<lambda>slotItem.
     if it_isList slotItem then invalid_rlp ''slotId must be bytes''
     else if it_payloadLength slotItem \<noteq> 32 then invalid_rlp ''slotId must be 32 bytes''
     else let inner = it_payloadOffset pairItem + it_totalLength slotItem in
       res_bind (decodeItem data inner) (\<lambda>valueItem.
       if it_isList valueItem then invalid_rlp ''abiValue must be bytes''
       else if inner + it_totalLength valueItem \<noteq> it_payloadOffset pairItem + it_payloadLength pairItem
       then invalid_rlp ''pair must contain exactly 2 items''
       else res_bind (toBytes32 data (it_payloadOffset slotItem)) (\<lambda>slot.
         res_bind (rlp_slice data (it_payloadOffset valueItem) (it_payloadLength valueItem)) (\<lambda>value.
         Inr ((slot, value), cursor + it_totalLength pairItem))))))"

fun decode_pairs :: "byte list \<Rightarrow> nat \<Rightarrow> nat \<Rightarrow> (uint256 \<times> byte list) list evm" where
  "decode_pairs data 0 cursor = Inr []"
| "decode_pairs data (Suc n) cursor =
     res_bind (decode_pair data cursor) (\<lambda>(pair, cursor').
     res_bind (decode_pairs data n cursor') (\<lambda>pairs. Inr (pair # pairs)))"

definition vassp_decode :: "byte list \<Rightarrow> (uint256 \<times> byte list) list evm" where
  "vassp_decode encoded =
     res_bind (decodeItem encoded 0) (\<lambda>root.
     if \<not> it_isList root then invalid_rlp ''root is not a list''
     else if it_totalLength root \<noteq> length encoded then invalid_rlp ''trailing bytes''
     else res_bind (countListItems encoded root) (\<lambda>n. decode_pairs encoded n (it_payloadOffset root)))"

text \<open>The calls of \<open>__vassp_apply\<close>; one that fails reverts the whole import.\<close>

fun apply_pairs :: "evm_host \<Rightarrow> (uint256 \<times> byte list) list \<Rightarrow> hotel_storage \<Rightarrow> hotel_storage evm" where
  "apply_pairs H [] s = Inr s"
| "apply_pairs H ((slot, value) # pairs) s = (case vassp_apply H slot value s of
     Inl e \<Rightarrow> Inl (CustomError ''ApplyFailed'' [])
   | Inr s' \<Rightarrow> apply_pairs H pairs s')"

definition decodeAndApply :: "evm_host \<Rightarrow> byte list \<Rightarrow> hotel_storage \<Rightarrow> hotel_storage evm" where
  "decodeAndApply H encoded s = res_bind (vassp_decode encoded) (\<lambda>pairs. apply_pairs H pairs s)"

subsection \<open>Lengths\<close>

fun min_bytes :: "nat \<Rightarrow> byte list" where
  "min_bytes n = (if n < 256 then [word_of_nat n] else min_bytes (n div 256) @ [word_of_nat n])"

declare min_bytes.simps [simp del]

lemma unat_byte: "unat (word_of_nat n :: byte) = n mod 256"
  by (simp add: unat_of_nat)

lemma be_value_min_bytes [simp]: "be_value 0 (min_bytes n) = n"
proof (induction n rule: min_bytes.induct)
  case (1 n)
  then show ?case by (subst min_bytes.simps) (simp add: be_value_append unat_byte)
qed

lemma length_min_bytes: "n < 256 ^ Suc k \<Longrightarrow> 0 < length (min_bytes n) \<and> length (min_bytes n) \<le> Suc k"
proof (induction k arbitrary: n)
  case (Suc k)
  have "n div 256 < 256 ^ Suc k" using Suc.prems by (simp add: div_less_iff_less_mult)
  then show ?case using Suc.IH [of "n div 256"] by (subst (1 2) min_bytes.simps) auto
qed (simp add: min_bytes.simps)

lemma hex_pairs_append: "even (length xs) \<Longrightarrow> hex_pairs (xs @ ys) = hex_pairs xs @ hex_pairs ys"
  by (induction xs rule: hex_pairs.induct) auto

lemma hex_pair_byte:
  assumes "n < 256"
  shows "hex_pairs [hex_digit (n div 16), hex_digit (n mod 16)] = [word_of_nat n]"
proof -
  have "byte_hex (word_of_nat n) = [hex_digit (n div 16), hex_digit (n mod 16)]"
    using assms by (simp add: byte_hex_def unat_byte)
  then show ?thesis using parseInt16_byte_hex [of "word_of_nat n"] by simp
qed

lemma word_byte_mod: "(word_of_nat (n mod 256) :: byte) = word_of_nat n"
  by (simp only: word_unat_eq_iff unat_byte mod_mod_trivial)

lemma encodeLength_min: "encodeLength n = min_bytes n"
proof (induction n rule: min_bytes.induct)
  case (1 n)
  show ?case
  proof (cases "n < 256")
    case True
    show ?thesis
    proof (cases "n < 16")
      case True
      have "hex_digit 0 = CHR ''0''" by code_simp
      with True show ?thesis using hex_pair_byte [of n] by (simp add: encodeLength_def hex_nat.simps min_bytes.simps)
    next
      case False
      with True have "n div 16 < 16" by simp
      then show ?thesis using hex_pair_byte [of n] True False
        by (simp add: encodeLength_def hex_nat.simps [of n] hex_nat.simps [of "n div 16"] min_bytes.simps)
    qed
  next
    case False
    have digits: "hex_nat n = hex_nat (n div 256) @ [hex_digit (n mod 256 div 16), hex_digit (n mod 256 mod 16)]"
    proof -
      have "n div 16 div 16 = n div 256" by (simp add: div_mult2_eq [symmetric])
      moreover have "n div 16 mod 16 = n mod 256 div 16"
        using div_mult2_eq [of n 16 16] by (simp add: mod_mult2_eq [of n 16 16, simplified])
      moreover have "n mod 16 = n mod 256 mod 16" by (simp add: mod_mod_cancel)
      moreover have "\<not> n < 16" "\<not> n div 16 < 16" using False by auto
      ultimately show ?thesis by (simp add: hex_nat.simps [of n] hex_nat.simps [of "n div 16"])
    qed
    have "encodeLength n = encodeLength (n div 256) @ [word_of_nat n]"
      unfolding encodeLength_def digits Let_def
      using hex_pair_byte [of "n mod 256"]
      by (simp add: word_byte_mod hex_pairs_append flip: append_Cons)
    then show ?thesis using 1 False by (simp add: min_bytes.simps [of n])
  qed
qed

subsection \<open>Decoding what was encoded\<close>

text \<open>Strings and lists differ in the base of their prefix.\<close>

definition rlp_head :: "nat \<Rightarrow> nat \<Rightarrow> byte list" where
  "rlp_head base n =
     (if n \<le> 55 then [word_of_nat (base + n)]
      else word_of_nat (base + 55 + length (encodeLength n)) # encodeLength n)"

lemma encodeList_head: "encodeList items = rlp_head 0xc0 (length (concat items)) @ concat items"
  by (simp add: encodeList_def rlp_head_def Let_def)

lemma encodeBytes_head:
  "\<not> (length v = 1 \<and> hd v < 0x80) \<Longrightarrow> encodeBytes v = rlp_head 0x80 (length v) @ v"
  by (auto simp: encodeBytes_def rlp_head_def Let_def)

lemma decodeItem_head:
  assumes base: "base = 0x80 \<or> base = 0xc0" and len: "length v < 256 ^ 8"
  shows "decodeItem (pre @ rlp_head base (length v) @ v @ post) (length pre) =
    Inr \<lparr>it_isList = (base = 0xc0), it_payloadOffset = length pre + length (rlp_head base (length v)),
      it_payloadLength = length v, it_totalLength = length (rlp_head base (length v)) + length v\<rparr>"
proof (cases "length v \<le> 55")
  case True
  then have p: "unat (word_of_nat (base + length v) :: byte) = base + length v" using base by (auto simp: unat_byte simp del: of_nat_add)
  show ?thesis using True base p
    by (auto simp: decodeItem_def rlp_head_def nth_append short_item_def requireBounds_def)
next
  case False
  let ?L = "encodeLength (length v)"
  have L: "0 < length ?L" "length ?L \<le> 8" "be_value 0 ?L = length v"
    using length_min_bytes [of "length v" 7] len by (simp_all add: encodeLength_min)
  then have p: "unat (word_of_nat (base + 55 + length ?L) :: byte) = base + 55 + length ?L"
    using base by (auto simp: unat_byte simp del: of_nat_add)
  show ?thesis using False base p L
    by (auto simp: decodeItem_def rlp_head_def nth_append long_item_def readBigEndian_def requireBounds_def)
qed

lemma decodeItem_encodeBytes:
  assumes "length v < 256 ^ 8"
  obtains off where "decodeItem (pre @ encodeBytes v @ post) (length pre) =
      Inr \<lparr>it_isList = False, it_payloadOffset = off, it_payloadLength = length v, it_totalLength = length (encodeBytes v)\<rparr>"
    and "rlp_slice (pre @ encodeBytes v @ post) off (length v) = Inr v"
    and "length v = 32 \<Longrightarrow> toBytes32 (pre @ encodeBytes v @ post) off = Inr (bytes_word v)"
proof (cases "length v = 1 \<and> hd v < 0x80")
  case True
  then obtain b where v: "v = [b]" "b < 0x80" by (cases v) auto
  then have "unat b \<le> 0x7f" by (simp add: word_less_nat_alt)
  then show ?thesis using v
    by (intro that [of "length pre"]) (simp_all add: encodeBytes_def decodeItem_def nth_append rlp_slice_def requireBounds_def)
next
  case False
  then show ?thesis using decodeItem_head [of "0x80" v pre post] assms
    by (intro that [of "length pre + length (rlp_head 0x80 (length v))"])
      (simp_all add: encodeBytes_head rlp_slice_def toBytes32_def requireBounds_def)
qed

lemma length_encodeBytes: "length v \<le> length (encodeBytes v)"
  by (simp add: encodeBytes_def Let_def)

lemma length_encodeList: "length (concat items) \<le> length (encodeList items)"
  by (simp add: encodeList_head)

lemma length_encode_pair: "length slot + length val \<le> length (encode_pair (slot, val))"
  using length_encodeList [of "[encodeBytes slot, encodeBytes val]"] length_encodeBytes [of slot] length_encodeBytes [of val]
  by (simp add: encode_pair_def)

lemma decodeItem_encode_pair:
  assumes "length (encode_pair pair) < 256 ^ 8"
  shows "decodeItem (pre @ encode_pair pair @ post) (length pre) =
    Inr \<lparr>it_isList = True,
      it_payloadOffset = length pre + length (rlp_head 0xc0 (length (encodeBytes (fst pair) @ encodeBytes (snd pair)))),
      it_payloadLength = length (encodeBytes (fst pair) @ encodeBytes (snd pair)),
      it_totalLength = length (encode_pair pair)\<rparr>"
proof -
  obtain slot val where pair: "pair = (slot, val)" by (cases pair)
  have "length (encodeBytes slot @ encodeBytes val) < 256 ^ 8"
    using assms length_encodeList [of "[encodeBytes slot, encodeBytes val]"] by (simp add: pair encode_pair_def)
  from decodeItem_head [of "0xc0", OF _ this, of pre post] show ?thesis
    by (simp add: pair encode_pair_def encodeList_head)
qed

lemma decode_pair_encoded:
  assumes len: "length (encode_pair (slot, val)) < 256 ^ 8" and slot: "length slot = 32"
  shows "decode_pair (pre @ encode_pair (slot, val) @ post) (length pre) =
    Inr ((bytes_word slot, val), length pre + length (encode_pair (slot, val)))"
proof -
  let ?S = "encodeBytes slot" and ?V = "encodeBytes val"
  let ?H = "rlp_head 0xc0 (length (?S @ ?V))"
  let ?D = "pre @ encode_pair (slot, val) @ post"
  have D1: "?D = (pre @ ?H) @ ?S @ (?V @ post)" and D2: "?D = (pre @ ?H @ ?S) @ ?V @ post"
    by (simp_all add: encode_pair_def encodeList_head)
  have lens: "length slot < 256 ^ 8" "length val < 256 ^ 8"
    using len length_encode_pair [of slot val] by linarith+
  obtain o1 where s: "decodeItem ?D (length (pre @ ?H)) =
      Inr \<lparr>it_isList = False, it_payloadOffset = o1, it_payloadLength = length slot, it_totalLength = length ?S\<rparr>"
    "toBytes32 ?D o1 = Inr (bytes_word slot)"
    unfolding D1 using decodeItem_encodeBytes [OF lens(1), of "pre @ ?H" "?V @ post"] slot by metis
  obtain o2 where v: "decodeItem ?D (length (pre @ ?H @ ?S)) =
      Inr \<lparr>it_isList = False, it_payloadOffset = o2, it_payloadLength = length val, it_totalLength = length ?V\<rparr>"
    "rlp_slice ?D o2 (length val) = Inr val"
    unfolding D2 using decodeItem_encodeBytes [OF lens(2), of "pre @ ?H @ ?S" post] by metis
  show ?thesis
    unfolding decode_pair_def decodeItem_encode_pair [OF len] using s v slot
    by (simp add: add.assoc)
qed

lemma decode_pairs_encoded:
  assumes "\<forall>(slot, val) \<in> set pairs. length slot = 32"
    and "length (concat (map encode_pair pairs)) < 256 ^ 8"
  shows "decode_pairs (pre @ concat (map encode_pair pairs) @ post) (length pairs) (length pre) =
    Inr (map (\<lambda>(slot, val). (bytes_word slot, val)) pairs)"
  using assms
proof (induction pairs arbitrary: pre)
  case (Cons pair pairs)
  obtain slot val where p: "pair = (slot, val)" by (cases pair)
  let ?rest = "concat (map encode_pair pairs)"
  have "length (encode_pair (slot, val)) < 256 ^ 8" "length slot = 32" using Cons.prems p by auto
  from decode_pair_encoded [OF this, of pre "?rest @ post"]
  have step: "decode_pair (pre @ encode_pair (slot, val) @ ?rest @ post) (length pre) =
      Inr ((bytes_word slot, val), length (pre @ encode_pair (slot, val)))" by simp
  have "decode_pairs ((pre @ encode_pair (slot, val)) @ ?rest @ post) (length pairs) (length (pre @ encode_pair (slot, val))) =
      Inr (map (\<lambda>(slot, val). (bytes_word slot, val)) pairs)"
    using Cons.prems by (intro Cons.IH) auto
  with step show ?case by (simp add: p)
qed simp

lemma count_items_encoded:
  assumes "length (concat (map encode_pair pairs)) < 256 ^ 8"
  shows "count_items (pre @ concat (map encode_pair pairs) @ post)
    (length pre + length (concat (map encode_pair pairs))) (length pre) n = Inr (n + length pairs)"
  using assms
proof (induction pairs arbitrary: pre n)
  case (Cons pair pairs)
  let ?rest = "concat (map encode_pair pairs)"
  have pos: "0 < length (encode_pair pair)" by (cases pair) (simp add: encode_pair_def encodeList_def Let_def)
  have "length (encode_pair pair) < 256 ^ 8" using Cons.prems by simp
  note step = decodeItem_encode_pair [OF this, of pre "?rest @ post"]
  have "count_items ((pre @ encode_pair pair) @ ?rest @ post) (length (pre @ encode_pair pair) + length ?rest)
      (length (pre @ encode_pair pair)) (Suc n) = Inr (Suc n + length pairs)"
    using Cons.prems by (intro Cons.IH) auto
  with step pos show ?case by (subst count_items.simps) (simp add: add.assoc)
qed (simp add: count_items.simps)

lemma decode_encoded:
  assumes "\<forall>(slot, val) \<in> set pairs. length slot = 32"
    and "length (encodeList (map encode_pair pairs)) < 256 ^ 8"
  shows "vassp_decode (encodeList (map encode_pair pairs)) = Inr (map (\<lambda>(slot, val). (bytes_word slot, val)) pairs)"
proof -
  let ?P = "concat (map encode_pair pairs)"
  let ?H = "rlp_head 0xc0 (length ?P)"
  have enc: "encodeList (map encode_pair pairs) = ?H @ ?P" by (rule encodeList_head)
  then have len: "length ?P < 256 ^ 8" using assms(2) by simp
  from decodeItem_head [of "0xc0", OF _ this, of "[]" "[]"]
  have root: "decodeItem (?H @ ?P) 0 = Inr \<lparr>it_isList = True, it_payloadOffset = length ?H,
      it_payloadLength = length ?P, it_totalLength = length ?H + length ?P\<rparr>" by simp
  show ?thesis
    unfolding enc vassp_decode_def root
    using count_items_encoded [OF len, of ?H "[]" 0] decode_pairs_encoded [OF assms(1) len, of ?H "[]"]
    by (simp add: countListItems_def)
qed

text \<open>
  C16. What the Fabric side encodes, the library on the EVM side decodes: for any list of pairs with
  32-byte slots whose encoding is shorter than 256 to the 8th, VASSP.decode gives back the slots
  and the values, in order.
\<close>

theorem vassp_roundtrip:
  assumes "\<forall>(slot, val) \<in> set pairs. length slot = 32"
    and "length (encodeList (map encode_pair pairs)) < 256 ^ 8"
  shows "vassp_decode (encodeList (map encode_pair pairs)) = Inr (map (\<lambda>(slot, val). (bytes_word slot, val)) pairs)"
  using assms by (rule decode_encoded)

theorem vassp_roundtrip_witness:
  "vassp_decode (encodeList (map encode_pair [(replicate 32 1, [7]), (replicate 32 2, replicate 60 9)])) =
     Inr [(bytes_word (replicate 32 1), [7]), (bytes_word (replicate 32 2), replicate 60 9)]"
proof -
  have len: "length (encodeList (map encode_pair [(replicate 32 1, [7]), (replicate 32 2, replicate 60 9)])) = 134"
    by code_simp
  show ?thesis
    using vassp_roundtrip [of "[(replicate 32 1, [7]), (replicate 32 2, replicate 60 9)]"] unfolding len by simp
qed

subsection \<open>The locked state of the simulator\<close>

text \<open>The ABI layout of \<open>(string, uint256, uint256, uint256)\<close>, and what \<open>abi.decode\<close> does with it.\<close>

definition abi_meta :: "string \<Rightarrow> int \<Rightarrow> int \<Rightarrow> int \<Rightarrow> byte list" where
  "abi_meta b p r l =
     (let raw = utf8Bytes b in
      concat (map (be_bytes 32) [128, p, r, l, int (length raw)]) @ raw @
        replicate ((length raw + 31) div 32 * 32 - length raw) 0)"

definition abi_documented :: "evm_host \<Rightarrow> bool" where
  "abi_documented H \<longleftrightarrow>
     (\<forall>b p r l. length (utf8Bytes b) < 2 ^ 64 \<and> in_u256 p \<and> in_u256 r \<and> in_u256 l \<longrightarrow>
        abi_decode_meta H (abi_meta b p r l) = Some (b, U p, U r, U l)) \<and>
     (\<forall>n. in_u256 n \<longrightarrow> abi_decode_uint H (be_bytes 32 n) = Some (U n)) \<and>
     meta_slot H \<noteq> lock_total_slot H"

lemma be_bytes_add: "be_bytes (a + b) n = be_bytes a (n div 256 ^ b) @ be_bytes b n"
  by (induction b arbitrary: n) (simp_all add: zdiv_zmult2_eq)

lemma be_bytes_zero: "be_bytes w 0 = replicate w 0"
  by (induction w) (simp_all add: replicate_append_same)

lemma encodeUint256_Inr:
  "encodeUint256 v = Inr bs \<longleftrightarrow> (\<exists>n. v = Some (Whole n) \<and> 0 \<le> n \<and> n < 2 ^ 64 \<and> bs = be_bytes 32 n)"
proof -
  have "be_bytes 32 n = replicate 24 0 @ be_bytes 8 n" if "0 \<le> n" "n < 2 ^ 64" for n
    using that be_bytes_add [of 24 8 n] by (simp add: be_bytes_zero)
  then show ?thesis by (auto simp: encodeUint256_def split: option.splits js_num.splits)
qed

lemma encodeMetaTuple_Inr:
  assumes "encodeMetaTuple s = Inr bs"
  obtains p r l where "fb_price s = Some (Whole p)" "fb_remain s = Some (Whole r)" "fb_lockSize s = Some (Whole l)"
    "0 \<le> p \<and> p < 2 ^ 64" "0 \<le> r \<and> r < 2 ^ 64" "0 \<le> l \<and> l < 2 ^ 64" "length (utf8Bytes (fb_bridge s)) < 2 ^ 64"
    "bs = abi_meta (fb_bridge s) p r l"
  using assms by (auto simp: encodeMetaTuple_def encodeString_def encodeUint256_Inr res_bind_Inr_iff abi_meta_def Let_def)

text \<open>A string of JavaScript is shorter than \<open>2 ^ 30\<close>; a digest has 32 bytes.\<close>

definition sha3_documented :: "fabric_host \<Rightarrow> bool" where
  "sha3_documented P \<longleftrightarrow> (\<forall>bs. length (sha3_256 P bs) = 32)"

definition slot_name :: "string \<Rightarrow> byte list" where
  "slot_name name = concat (map utf8Bytes [''VASSP'', ''HotelBooking'', name])"

lemma slotId_name: "slotId P ''HotelBooking'' name [] = sha3_256 P (slot_name name)"
  by (simp add: slotId_def sim_keccak_def slot_name_def)

lemma length_rlp_head: "n < 256 ^ 8 \<Longrightarrow> length (rlp_head base n) \<le> 9"
  using length_min_bytes [of n 7] by (simp add: rlp_head_def encodeLength_min)

lemma length_encodeBytes_le: "length v < 256 ^ 8 \<Longrightarrow> length (encodeBytes v) \<le> length v + 9"
  using length_rlp_head [of "length v" "0x80"] encodeBytes_head [of v] by (cases "length v = 1 \<and> hd v < 0x80") (auto simp: encodeBytes_def)

lemma length_encodeList_le: "length (concat items) < 256 ^ 8 \<Longrightarrow> length (encodeList items) \<le> length (concat items) + 9"
  using length_rlp_head [of "length (concat items)" "0xc0"] by (simp add: encodeList_head)

lemma length_encode_pair_le:
  assumes "length slot + length val + 18 < 256 ^ 8"
  shows "length (encode_pair (slot, val)) \<le> length slot + length val + 27"
proof -
  have "length (encodeBytes slot) \<le> length slot + 9" "length (encodeBytes val) \<le> length val + 9"
    using assms by (intro length_encodeBytes_le; simp)+
  then have "length (concat [encodeBytes slot, encodeBytes val]) \<le> length slot + length val + 18" by simp
  with assms show ?thesis
    unfolding encode_pair_def using length_encodeList_le [of "[encodeBytes slot, encodeBytes val]"] by simp
qed

lemma encodeVassp_shape:
  assumes enc: "encodeVassp P s = Inr bytes" and sha: "sha3_documented P" and str: "length (fb_bridge s) < 2 ^ 30"
  obtains p r l t where "fb_price s = Some (Whole p)" "fb_remain s = Some (Whole r)" "fb_lockSize s = Some (Whole l)"
    "fb_lockedTotal s = Some (Whole t)" "0 \<le> p \<and> p < 2 ^ 64" "0 \<le> r \<and> r < 2 ^ 64" "0 \<le> l \<and> l < 2 ^ 64" "0 \<le> t \<and> t < 2 ^ 64"
    "length (utf8Bytes (fb_bridge s)) < 2 ^ 64" "length bytes < 256 ^ 8"
    "bytes = encodeList (map encode_pair
      [(sha3_256 P (slot_name ''META''), abi_meta (fb_bridge s) p r l),
       (sha3_256 P (slot_name ''LOCK_TOTAL''), be_bytes 32 t)])"
proof -
  obtain meta total where m: "encodeMetaTuple s = Inr meta" and tot: "encodeUint256 (fb_lockedTotal s) = Inr total"
    and bytes: "bytes = encodeList (map encode_pair
      [(sha3_256 P (slot_name ''META''), meta), (sha3_256 P (slot_name ''LOCK_TOTAL''), total)])"
    using enc by (auto simp: encodeVassp_def vassp_pairs_def res_bind_Inr_iff slotId_name)
  from m obtain p r l where st: "fb_price s = Some (Whole p)" "fb_remain s = Some (Whole r)" "fb_lockSize s = Some (Whole l)"
    and rng: "0 \<le> p \<and> p < 2 ^ 64" "0 \<le> r \<and> r < 2 ^ 64" "0 \<le> l \<and> l < 2 ^ 64" "length (utf8Bytes (fb_bridge s)) < 2 ^ 64"
    and meta: "meta = abi_meta (fb_bridge s) p r l"
    by (rule encodeMetaTuple_Inr)
  from tot obtain t where t: "fb_lockedTotal s = Some (Whole t)" "0 \<le> t" "t < 2 ^ 64" "total = be_bytes 32 t"
    by (auto simp: encodeUint256_Inr)
  let ?n = "length (utf8Bytes (fb_bridge s))"
  have n: "?n < 2 ^ 31" using length_utf8Bytes [of "fb_bridge s"] str by simp
  have "(?n + 31) div 32 * 32 \<le> ?n + 31" by simp
  then have lm: "length meta \<le> ?n + 200" by (simp add: meta abi_meta_def Let_def)
  have lt: "length total = 32" using t by simp
  have sl: "length (sha3_256 P x) = 32" for x using sha by (simp add: sha3_documented_def)
  have pair_len: "length (encode_pair (sha3_256 P x, v)) \<le> length v + 59" if "length v < 2 ^ 32" for x v
    using length_encode_pair_le [of "sha3_256 P x" v] that by (simp add: sl)
  have "length meta < 2 ^ 32" "length total < 2 ^ 32" using lm lt n by simp_all
  note pair_len [OF this(1), of "slot_name ''META''"] pair_len [OF this(2), of "slot_name ''LOCK_TOTAL''"]
  then have pairs: "length (concat (map encode_pair [(sha3_256 P (slot_name ''META''), meta), (sha3_256 P (slot_name ''LOCK_TOTAL''), total)]))
      \<le> ?n + 350" using lm lt by simp
  have "length bytes \<le> ?n + 359"
    unfolding bytes by (rule order_trans [OF length_encodeList_le]) (use pairs n in simp_all)
  then have "length bytes < 256 ^ 8" using n by simp
  then show ?thesis using st rng t bytes unfolding meta by (intro that [of p r l t]) simp_all
qed

lemma encodeVassp_decoded:
  assumes "encodeVassp P s = Inr bytes" and sha: "sha3_documented P" and "length (fb_bridge s) < 2 ^ 30"
  obtains p r l t where "fb_price s = Some (Whole p)" "fb_remain s = Some (Whole r)" "fb_lockSize s = Some (Whole l)"
    "fb_lockedTotal s = Some (Whole t)" "in_u256 p" "in_u256 r" "in_u256 l" "in_u256 t"
    "length (utf8Bytes (fb_bridge s)) < 2 ^ 64"
    "vassp_decode bytes = Inr
      [(bytes_word (sha3_256 P (slot_name ''META'')), abi_meta (fb_bridge s) p r l),
       (bytes_word (sha3_256 P (slot_name ''LOCK_TOTAL'')), be_bytes 32 t)]"
proof -
  from encodeVassp_shape [OF assms] obtain p r l t where st: "fb_price s = Some (Whole p)" "fb_remain s = Some (Whole r)"
    "fb_lockSize s = Some (Whole l)" "fb_lockedTotal s = Some (Whole t)" "0 \<le> p \<and> p < 2 ^ 64" "0 \<le> r \<and> r < 2 ^ 64"
    "0 \<le> l \<and> l < 2 ^ 64" "0 \<le> t \<and> t < 2 ^ 64" "length (utf8Bytes (fb_bridge s)) < 2 ^ 64"
    and len: "length bytes < 256 ^ 8" and bytes: "bytes = encodeList (map encode_pair
      [(sha3_256 P (slot_name ''META''), abi_meta (fb_bridge s) p r l),
       (sha3_256 P (slot_name ''LOCK_TOTAL''), be_bytes 32 t)])" .
  have "vassp_decode bytes = Inr
      [(bytes_word (sha3_256 P (slot_name ''META'')), abi_meta (fb_bridge s) p r l),
       (bytes_word (sha3_256 P (slot_name ''LOCK_TOTAL'')), be_bytes 32 t)]"
    using sha decode_encoded [OF _ len [unfolded bytes]] unfolding bytes by (simp add: sha3_documented_def)
  then show ?thesis using st by (intro that [of p r l t]) (simp_all add: in_u256_def)
qed

text \<open>
  C9. Importing the locked state on the EVM side. Let the simulator answer a lock with the encoded state
  \<open>bytes\<close>. If its digest of the two slot names is the chain's keccak256 of them, VASSP.decodeAndApply
  succeeds and the translated contract holds the simulator's bridge, price, remain, lockSize and
  lockedTotal, each exactly. If its digest of the META slot is neither of the two slots the contract
  knows, the import reverts with ApplyFailed. The simulator calls the digest keccak and computes
  SHA3-256, which pads differently, so the second case is the one that runs.
\<close>

theorem locked_state_import:
  assumes "encodeVassp P s = Inr bytes" and "sha3_documented P" and "length (fb_bridge s) < 2 ^ 30" and "abi_documented H"
  shows "((\<forall>name \<in> {''META'', ''LOCK_TOTAL''}. bytes_word (sha3_256 P (slot_name name)) = keccak H (slot_name name)) \<longrightarrow>
      (\<exists>p r l t. fb_price s = Some (Whole p) \<and> fb_remain s = Some (Whole r) \<and> fb_lockSize s = Some (Whole l) \<and>
         fb_lockedTotal s = Some (Whole t) \<and>
         decodeAndApply H bytes hs = Inr (hs\<lparr>hs_meta := \<lparr>mt_bridge = fb_bridge s, mt_price = U p, mt_remain = U r,
           mt_lockSize = U l\<rparr>, hs_lockedTotal := U t\<rparr>))) \<and>
    (bytes_word (sha3_256 P (slot_name ''META'')) \<notin> {keccak H (slot_name ''META''), keccak H (slot_name ''LOCK_TOTAL'')} \<longrightarrow>
      decodeAndApply H bytes hs = Inl (CustomError ''ApplyFailed'' []))"
proof -
  from encodeVassp_decoded [OF assms(1-3)] obtain p r l t where st: "fb_price s = Some (Whole p)"
    "fb_remain s = Some (Whole r)" "fb_lockSize s = Some (Whole l)" "fb_lockedTotal s = Some (Whole t)"
    and rng: "in_u256 p" "in_u256 r" "in_u256 l" "in_u256 t" "length (utf8Bytes (fb_bridge s)) < 2 ^ 64"
    and dec: "vassp_decode bytes = Inr
      [(bytes_word (sha3_256 P (slot_name ''META'')), abi_meta (fb_bridge s) p r l),
       (bytes_word (sha3_256 P (slot_name ''LOCK_TOTAL'')), be_bytes 32 t)]" .
  have slots: "meta_slot H = keccak H (slot_name ''META'')" "lock_total_slot H = keccak H (slot_name ''LOCK_TOTAL'')"
    by (simp_all add: packed_keccak_def slot_name_def)
  have abi: "abi_decode_meta H (abi_meta (fb_bridge s) p r l) = Some (fb_bridge s, U p, U r, U l)"
    "abi_decode_uint H (be_bytes 32 t) = Some (U t)" "keccak H (slot_name ''META'') \<noteq> keccak H (slot_name ''LOCK_TOTAL'')"
    using assms(4) rng slots unfolding abi_documented_def by auto
  show ?thesis using abi st by (simp add: decodeAndApply_def dec vassp_apply_def slots)
qed

text \<open>A host with that ABI, and a simulator whose digest is its keccak, shifted by \<open>d\<close>.\<close>

definition abi_host :: evm_host where
  "abi_host = reference_host\<lparr>abi_decode_meta := (\<lambda>bs.
     Some (decode_utf8 (take (be_value 0 (take 32 (drop 128 bs))) (drop 160 bs)), bytes_word (take 32 (drop 32 bs)),
       bytes_word (take 32 (drop 64 bs)), bytes_word (take 32 (drop 96 bs))))\<rparr>"

definition sim_fabric :: "int \<Rightarrow> fabric_host" where
  "sim_fabric d = \<lparr>parse_body = (\<lambda>t. Inl ''SyntaxError''), json_print = js_string, other_numeral = (\<lambda>t. Not_a_number),
     exponent_form = show_int, sha3_256 = (\<lambda>bs. be_bytes 32 (uint (keccak reference_host bs) + d)), sha256_hex = id,
     url_pathname = Inr\<rparr>"

lemma bytes_word_be: "in_u256 n \<Longrightarrow> bytes_word (be_bytes 32 n) = U n"
  by (simp add: bytes_word_def in_u256_def be_value_be_bytes)

lemma abi_host_documented: "abi_documented abi_host"
proof -
  have "abi_decode_meta abi_host (abi_meta b p r l) = Some (b, U p, U r, U l)"
    if "length (utf8Bytes b) < 2 ^ 64" "in_u256 p" "in_u256 r" "in_u256 l" for b p r l
  proof -
    let ?raw = "utf8Bytes b" and ?w = "\<lambda>n. be_bytes 32 n"
    obtain pad where m: "abi_meta b p r l = ?w 128 @ ?w p @ ?w r @ ?w l @ ?w (int (length ?raw)) @ ?raw @ pad"
      by (simp add: abi_meta_def Let_def)
    have "be_value 0 (?w (int (length ?raw))) = length ?raw" using that(1) by (subst be_value_be_bytes) auto
    then show ?thesis
      using that unfolding m abi_host_def by (simp add: bytes_word_be decode_utf8_utf8Bytes)
  qed
  moreover have "abi_decode_uint abi_host (be_bytes 32 n) = Some (U n)" if "in_u256 n" for n
    using bytes_word_be [OF that] by (simp add: abi_host_def reference_host_def bytes_word_def)
  moreover have "meta_slot abi_host \<noteq> lock_total_slot abi_host"
    using reference_slots by (simp add: abi_host_def packed_keccak_def)
  ultimately show ?thesis unfolding abi_documented_def by blast
qed

lemma slot_polys:
  "byte_poly (slot_name ''META'') = 542348322254429776212839234054558123260786072316794"
  "byte_poly (slot_name ''LOCK_TOTAL'') = 156270514135859807345866508979180379633274164186783755672916809311"
  by code_simp+

lemma sim_digests: "keccak reference_host (slot_name ''META'') = U 542348322254429776212839234054558123260786072316794"
  "keccak reference_host (slot_name ''LOCK_TOTAL'') = U 156270514135859807345866508979180379633274164186783755672916809311"
  by (simp_all only: reference_host_def evm_host.simps slot_polys)

lemma sim_sha3_documented: "sha3_documented (sim_fabric d)"
  by (simp add: sha3_documented_def sim_fabric_def)

lemma default_encoded: "\<exists>bytes. encodeVassp P defaultState = Inr bytes"
  by (simp add: encodeVassp_def vassp_pairs_def encodeMetaTuple_def encodeString_def encodeUint256_def defaultState_def
      utf8Bytes_def utf8_char_def char_nat_def Let_def)

theorem locked_state_import_witness:
  "(\<exists>bytes. encodeVassp (sim_fabric 0) defaultState = Inr bytes \<and>
     decodeAndApply abi_host bytes HotelBookingTranslated =
       Inr (HotelBookingTranslated\<lparr>hs_meta := \<lparr>mt_bridge = ''xbridge_bc3'', mt_price = U 100, mt_remain = U 2000,
         mt_lockSize = U 1\<rparr>, hs_lockedTotal := U 0\<rparr>)) \<and>
   (\<exists>bytes. encodeVassp (sim_fabric 1) defaultState = Inr bytes \<and>
     decodeAndApply abi_host bytes HotelBookingTranslated = Inl (CustomError ''ApplyFailed'' []))"
proof (intro conjI)
  have digest: "bytes_word (sha3_256 (sim_fabric d) x) = U (uint (keccak reference_host x) + d)"
    if "in_u256 (uint (keccak reference_host x) + d)" for d x
    using that by (simp add: sim_fabric_def bytes_word_be)
  have k: "keccak abi_host x = keccak reference_host x" for x by (simp add: abi_host_def)
  have fields: "fb_bridge defaultState = ''xbridge_bc3''" "fb_price defaultState = Some (Whole 100)"
    "fb_remain defaultState = Some (Whole 2000)" "fb_lockSize defaultState = Some (Whole 1)"
    "fb_lockedTotal defaultState = Some (Whole 0)" by (simp_all add: defaultState_def)
  have str: "length (fb_bridge defaultState) < 2 ^ 30" by (simp add: fields)
  obtain b0 where b0: "encodeVassp (sim_fabric 0) defaultState = Inr b0" using default_encoded by blast
  from locked_state_import [OF b0 sim_sha3_documented str abi_host_documented, of HotelBookingTranslated]
  show "\<exists>bytes. encodeVassp (sim_fabric 0) defaultState = Inr bytes \<and>
     decodeAndApply abi_host bytes HotelBookingTranslated =
       Inr (HotelBookingTranslated\<lparr>hs_meta := \<lparr>mt_bridge = ''xbridge_bc3'', mt_price = U 100, mt_remain = U 2000,
         mt_lockSize = U 1\<rparr>, hs_lockedTotal := U 0\<rparr>)"
    using b0 by (simp add: digest k fields)
  obtain b1 where b1: "encodeVassp (sim_fabric 1) defaultState = Inr b1" using default_encoded by blast
  have "uint (keccak reference_host (slot_name ''META'')) + 1 = 542348322254429776212839234054558123260786072316795"
    "U 542348322254429776212839234054558123260786072316795 \<notin> {keccak reference_host (slot_name ''META''), keccak reference_host (slot_name ''LOCK_TOTAL'')}"
    unfolding sim_digests by (simp_all add: uint_U U_eq in_u256_def del: U_def)
  with digest [of "slot_name ''META''" 1]
  have "bytes_word (sha3_256 (sim_fabric 1) (slot_name ''META'')) \<notin>
      {keccak abi_host (slot_name ''META''), keccak abi_host (slot_name ''LOCK_TOTAL'')}"
    by (simp add: k in_u256_def)
  with locked_state_import [OF b1 sim_sha3_documented str abi_host_documented, of HotelBookingTranslated] b1
  show "\<exists>bytes. encodeVassp (sim_fabric 1) defaultState = Inr bytes \<and>
     decodeAndApply abi_host bytes HotelBookingTranslated = Inl (CustomError ''ApplyFailed'' [])" by blast
qed

end
