(* ===== verification/Fabric_Chaincode.thy ===== *)
theory Fabric_Chaincode
  imports Fabric_Books Vassp_Import
begin

text \<open>
  The chaincode that the simulator stands for: \<open>contracts/xsmart/bc3/hotel_booking.go\<close>,
  \<open>xbridge_bc3.go\<close> and \<open>vassp.go\<close>, the part that serves the xsmart protocol. Go's \<open>uint64\<close> are
  64-bit words. A value of the ledger is the struct that was marshalled or the number that was
  formatted, as one is read only by the code that wrote it, except under the key \<open>LOCK_TOTAL\<close>.
\<close>

subsection \<open>The ledger\<close>

type_synonym u64 = "64 word"

record hotel_meta =
  hm_bridge :: string
  hm_price :: u64
  hm_remain :: u64
  hm_lockSize :: u64

record chain_lock =
  le_lockedAmount :: u64
  le_lockBlock :: u64
  le_timeoutBlocks :: u64
  le_active :: bool

record bridge_meta =
  bm_relayer :: string
  bm_stateContract :: string

datatype ledger_value = MetaV hotel_meta | LockV chain_lock | BridgeV bridge_meta | NumV u64

type_synonym ledger = "string \<rightharpoonup> ledger_value"

text \<open>
  The transaction context of the Fabric shim, and what it does: reads see the committed ledger, writes are
  collected and show after the commit only. A peer that fails is left out.
\<close>

record 'c fabric_stub =
  getState :: "'c \<Rightarrow> ledger"
  putState :: "string \<Rightarrow> ledger_value \<Rightarrow> 'c \<Rightarrow> 'c"
  delState :: "string \<Rightarrow> 'c \<Rightarrow> 'c"
  mspID :: "'c \<Rightarrow> string"
  txSeconds :: "'c \<Rightarrow> u64"
  after_commit :: "'c \<Rightarrow> ledger"

locale fabric_shim =
  fixes F :: "'c fabric_stub"
  assumes get_put: "getState F (putState F k v c) = getState F c"
    and get_del: "getState F (delState F k c) = getState F c"
    and msp_put: "mspID F (putState F k v c) = mspID F c"
    and msp_del: "mspID F (delState F k c) = mspID F c"
    and time_put: "txSeconds F (putState F k v c) = txSeconds F c"
    and time_del: "txSeconds F (delState F k c) = txSeconds F c"
    and commit_put: "after_commit F (putState F k v c) = (after_commit F c)(k \<mapsto> v)"
    and commit_del: "after_commit F (delState F k c) = (after_commit F c)(k := None)"
begin

lemmas shim = get_put get_del msp_put msp_del time_put time_del commit_put commit_del

end

subsection \<open>vassp.go\<close>

definition vasspEncodeUint256 :: "u64 \<Rightarrow> byte list" where
  "vasspEncodeUint256 v = replicate 24 0 @ be_bytes 8 (uint v)"

definition vasspEncodeString :: "string \<Rightarrow> byte list" where
  "vasspEncodeString v =
     (let raw = utf8Bytes v; paddedLen = (length raw + 31) div 32 * 32 in
      vasspEncodeUint256 (word_of_nat (length raw)) @ raw @ replicate (paddedLen - length raw) 0)"

definition vasspEncodeMetaTuple :: "string \<Rightarrow> u64 \<Rightarrow> u64 \<Rightarrow> u64 \<Rightarrow> byte list" where
  "vasspEncodeMetaTuple bridge price remain lockSize =
     vasspEncodeUint256 (32 * 4) @ vasspEncodeUint256 price @ vasspEncodeUint256 remain @
     vasspEncodeUint256 lockSize @ vasspEncodeString bridge"

text \<open>Eight bytes without the leading zeros; \<open>digest\<close> is Keccak-256.\<close>

fun strip_zeros :: "byte list \<Rightarrow> byte list" where
  "strip_zeros (b # c # bs) = (if b = 0 then strip_zeros (c # bs) else b # c # bs)"
| "strip_zeros bs = bs"

definition vasspEncodeLength :: "nat \<Rightarrow> byte list" where
  "vasspEncodeLength len = (if len = 0 then [0] else strip_zeros (be_bytes 8 (int len)))"

definition vasspEncodeBytes :: "byte list \<Rightarrow> byte list" where
  "vasspEncodeBytes buf =
     (if length buf = 1 \<and> hd buf < 0x80 then buf
      else if length buf \<le> 55 then word_of_nat (0x80 + length buf) # buf
      else let len = vasspEncodeLength (length buf) in word_of_nat (0xb7 + length len) # len @ buf)"

definition vasspEncodeList :: "byte list list \<Rightarrow> byte list" where
  "vasspEncodeList items =
     (let payload = concat items in
      if length payload \<le> 55 then word_of_nat (0xc0 + length payload) # payload
      else let len = vasspEncodeLength (length payload) in word_of_nat (0xf7 + length len) # len @ payload)"

definition vasspSlotID :: "(byte list \<Rightarrow> byte list) \<Rightarrow> string \<Rightarrow> string \<Rightarrow> byte list" where
  "vasspSlotID digest contractName slotName = digest (utf8Bytes ''VASSP'' @ utf8Bytes contractName @ utf8Bytes slotName)"

definition vasspEncode :: "(byte list \<times> byte list) list \<Rightarrow> byte list" where
  "vasspEncode pairs =
     vasspEncodeList (map (\<lambda>(slot, val). vasspEncodeList [vasspEncodeBytes slot, vasspEncodeBytes val]) pairs)"

subsection \<open>hotel_booking.go\<close>

definition lock_key :: "string \<Rightarrow> string" where
  "lock_key i = ''LOCK_'' @ i"

definition account_key :: "string \<Rightarrow> string" where
  "account_key user = ''ACCOUNT_'' @ user"

definition booking_key :: "string \<Rightarrow> string" where
  "booking_key user = ''BOOKING_'' @ user"

definition hotel_getMeta :: "'c fabric_stub \<Rightarrow> 'c \<Rightarrow> hotel_meta res" where
  "hotel_getMeta F c = (case getState F c ''META'' of
     None \<Rightarrow> Inl ''not initialised''
   | Some (MetaV m) \<Rightarrow> Inr m
   | Some _ \<Rightarrow> Inl ''json'')"

text \<open>The entry, or nil: the callers drop the error.\<close>

definition getLockEntry :: "'c fabric_stub \<Rightarrow> 'c \<Rightarrow> string \<Rightarrow> chain_lock option" where
  "getLockEntry F c i = (case getState F c (lock_key i) of Some (LockV e) \<Rightarrow> Some e | _ \<Rightarrow> None)"

definition getU64 :: "'c fabric_stub \<Rightarrow> 'c \<Rightarrow> string \<Rightarrow> u64 res" where
  "getU64 F c key = (case getState F c key of
     None \<Rightarrow> Inr 0
   | Some (NumV n) \<Rightarrow> Inr n
   | Some _ \<Rightarrow> Inl ''strconv.ParseUint'')"

text \<open>\<open>cur, _ := h.getU64(ctx, key)\<close>: 0 when the number does not parse.\<close>

definition current_u64 :: "'c fabric_stub \<Rightarrow> 'c \<Rightarrow> string \<Rightarrow> u64" where
  "current_u64 F c key = (case getU64 F c key of Inr n \<Rightarrow> n | Inl e \<Rightarrow> 0)"

definition addU64 :: "'c fabric_stub \<Rightarrow> string \<Rightarrow> u64 \<Rightarrow> 'c \<Rightarrow> 'c" where
  "addU64 F key d c = putState F key (NumV (current_u64 F c key + d)) c"

definition subU64 :: "'c fabric_stub \<Rightarrow> string \<Rightarrow> u64 \<Rightarrow> 'c \<Rightarrow> 'c" where
  "subU64 F key d c =
     (let cur = current_u64 F c key; d' = (if d > cur then cur else d) in putState F key (NumV (cur - d')) c)"

definition go_div :: "u64 \<Rightarrow> u64 \<Rightarrow> u64 res" where
  "go_div a b = (if b = 0 then Inl ''runtime error: integer divide by zero'' else Inr (a div b))"

definition GetAvailableRemain :: "'c fabric_stub \<Rightarrow> 'c \<Rightarrow> u64 res" where
  "GetAvailableRemain F c =
     res_bind (hotel_getMeta F c) (\<lambda>m.
     res_bind (go_div (current_u64 F c ''LOCK_TOTAL'') (hm_price m)) (\<lambda>lockedRooms.
     Inr (if lockedRooms \<ge> hm_remain m then 0 else hm_remain m - lockedRooms)))"

definition ensureBridge :: "'c fabric_stub \<Rightarrow> 'c \<Rightarrow> unit res" where
  "ensureBridge F c = res_bind (hotel_getMeta F c) (\<lambda>m.
     if mspID F c \<noteq> hm_bridge m then Inl (''not bridge: caller MSP='' @ mspID F c @ '' expected='' @ hm_bridge m)
     else Inr ())"

definition hotel_unlockInternal :: "'c fabric_stub \<Rightarrow> string \<Rightarrow> 'c \<Rightarrow> 'c res" where
  "hotel_unlockInternal F i c = (case getLockEntry F c i of
     Some e \<Rightarrow> if le_active e
       then Inr (delState F (lock_key i) (subU64 F ''LOCK_TOTAL'' (le_lockedAmount e) c))
       else Inl ''not locked''
   | None \<Rightarrow> Inl ''not locked'')"

definition VasspEncodeState :: "(byte list \<Rightarrow> byte list) \<Rightarrow> 'c fabric_stub \<Rightarrow> 'c \<Rightarrow> byte list res" where
  "VasspEncodeState digest F c =
     res_bind (hotel_getMeta F c) (\<lambda>m.
     res_bind (getU64 F c ''LOCK_TOTAL'') (\<lambda>lockTotal.
     Inr (vasspEncode
       [(vasspSlotID digest ''HotelBooking'' ''META'',
           vasspEncodeMetaTuple (hm_bridge m) (hm_price m) (hm_remain m) (hm_lockSize m)),
        (vasspSlotID digest ''HotelBooking'' ''LOCK_TOTAL'', vasspEncodeUint256 lockTotal)])))"

definition lockStateInternal ::
    "(byte list \<Rightarrow> byte list) \<Rightarrow> 'c fabric_stub \<Rightarrow> string \<Rightarrow> u64 \<Rightarrow> u64 \<Rightarrow> 'c \<Rightarrow> (byte list \<times> 'c) res" where
  "lockStateInternal digest F i numRooms timeoutBlocks c =
     res_bind (ensureBridge F c) (\<lambda>_.
     if (case getLockEntry F c i of Some e \<Rightarrow> le_active e | None \<Rightarrow> False) then Inl ''already locked''
     else res_bind (GetAvailableRemain F c) (\<lambda>av.
     if av < numRooms then Inl ''insufficient remain for lock''
     else res_bind (hotel_getMeta F c) (\<lambda>m.
       let amt = (if numRooms > 0 then numRooms * hm_price m else hm_lockSize m * hm_price m);
           c1 = putState F (lock_key i) (LockV \<lparr>le_lockedAmount = amt, le_lockBlock = txSeconds F c,
             le_timeoutBlocks = timeoutBlocks, le_active = True\<rparr>) c;
           c2 = addU64 F ''LOCK_TOTAL'' amt c1 in
       res_bind (VasspEncodeState digest F c2) (\<lambda>encoded. Inr (encoded, c2)))))"

definition hotel_UpdateState ::
    "'c fabric_stub \<Rightarrow> string \<Rightarrow> u64 \<Rightarrow> string \<Rightarrow> u64 \<Rightarrow> u64 \<Rightarrow> 'c \<Rightarrow> 'c res" where
  "hotel_UpdateState F i newRemain user num totalCost c =
     res_bind (ensureBridge F c) (\<lambda>_.
     res_bind (hotel_unlockInternal F i c) (\<lambda>c1.
     res_bind (hotel_getMeta F c1) (\<lambda>m.
     let c2 = putState F ''META'' (MetaV (m\<lparr>hm_remain := newRemain\<rparr>)) c1;
         c3 = addU64 F (account_key user) totalCost c2 in
     Inr (addU64 F (booking_key user) num c3))))"

definition hotel_UnlockState :: "'c fabric_stub \<Rightarrow> string \<Rightarrow> 'c \<Rightarrow> 'c res" where
  "hotel_UnlockState F i c = res_bind (ensureBridge F c) (\<lambda>_. hotel_unlockInternal F i c)"

definition hotel_UnlockOnTimeout :: "'c fabric_stub \<Rightarrow> string \<Rightarrow> 'c \<Rightarrow> 'c res" where
  "hotel_UnlockOnTimeout F i c = (case getLockEntry F c i of
     Some e \<Rightarrow> if \<not> le_active e then Inl ''not locked''
       else if txSeconds F c \<le> le_lockBlock e + le_timeoutBlocks e then Inl ''not timed out''
       else hotel_unlockInternal F i c
   | None \<Rightarrow> Inl ''not locked'')"

subsection \<open>xbridge_bc3.go\<close>

definition ensureRelayer :: "'c fabric_stub \<Rightarrow> 'c \<Rightarrow> unit res" where
  "ensureRelayer F c = (case getState F c ''XBRIDGE_META'' of
     None \<Rightarrow> Inl ''xbridge not initialised''
   | Some (BridgeV m) \<Rightarrow>
       if mspID F c \<noteq> bm_relayer m then Inl (''not relayer: caller MSP='' @ mspID F c @ '' expected='' @ bm_relayer m)
       else Inr ()
   | Some _ \<Rightarrow> Inl ''json'')"

text \<open>
  The four handlers. The transaction's event is the last one that was set, the bridge's; it is given as
  the JSON object the payload is.
\<close>

datatype bridge_call =
    ReceiveLockRequest u64 u64
  | ReceiveUpdateRequest u64 string u64 u64
  | ReceiveRollbackRequest
  | ReceiveTimeoutRollback

definition bridge_ids :: "string \<Rightarrow> (string \<times> json) list" where
  "bridge_ids i = [(''crossChainTxId'', JsonString i), (''stateContract'', JsonString ''hotel_booking'')]"

definition bridge_receive ::
    "(byte list \<Rightarrow> byte list) \<Rightarrow> 'c fabric_stub \<Rightarrow> string \<Rightarrow> bridge_call \<Rightarrow> 'c \<Rightarrow> ((string \<times> json) \<times> 'c) res" where
  "bridge_receive digest F i call c =
     res_bind (ensureRelayer F c) (\<lambda>_.
     case call of
       ReceiveLockRequest num timeoutBlocks \<Rightarrow>
         res_bind (lockStateInternal digest F i num timeoutBlocks c) (\<lambda>(encoded, c').
         Inr ((''CrossChainLockResponse'', JsonObject (bridge_ids i @
           [(''lockedState'', JsonString (hex_of_bytes encoded)), (''irHash'', JsonString HOTEL_IR_HASH),
            (''proof'', JsonString ''0x'')])), c'))
     | ReceiveUpdateRequest newRemain user num totalCost \<Rightarrow>
         res_bind (hotel_UpdateState F i newRemain user num totalCost c) (\<lambda>c'.
         Inr ((''CrossChainUpdateAck'', JsonObject (bridge_ids i @ [(''success'', JsonBool True)])), c'))
     | ReceiveRollbackRequest \<Rightarrow>
         res_bind (hotel_UnlockState F i c) (\<lambda>c'. Inr ((''CrossChainRollback'', JsonObject (bridge_ids i)), c'))
     | ReceiveTimeoutRollback \<Rightarrow>
         res_bind (hotel_UnlockOnTimeout F i c) (\<lambda>c'. Inr ((''CrossChainRollback'', JsonObject (bridge_ids i)), c')))"

subsection \<open>The two encoders agree\<close>

lemma strip_zeros_replicate: "strip_zeros (replicate k 0 @ [b]) = [b]"
proof (induction k)
  case (Suc k)
  then show ?case by (cases k) simp_all
qed simp

lemma strip_zeros_snoc: "\<exists>x \<in> set xs. x \<noteq> 0 \<Longrightarrow> strip_zeros (xs @ [b]) = strip_zeros xs @ [b]"
  by (induction xs rule: strip_zeros.induct) auto

lemma be_bytes_nonzero: "0 < n \<Longrightarrow> n < 256 ^ k \<Longrightarrow> \<exists>x \<in> set (be_bytes k n). x \<noteq> 0"
proof (rule ccontr)
  assume n: "0 < n" "n < 256 ^ k" and "\<not> (\<exists>x \<in> set (be_bytes k n). x \<noteq> 0)"
  then have "be_bytes k n = replicate (length (be_bytes k n)) 0" by (intro replicate_eqI) auto
  then have "be_bytes k n = be_bytes k 0" by (simp add: be_bytes_zero)
  then have "be_value 0 (be_bytes k n) = be_value 0 (be_bytes k 0)" by simp
  then show False using n by (simp add: be_value_be_bytes)
qed

lemma strip_zeros_be: "n < 256 ^ Suc k \<Longrightarrow> strip_zeros (be_bytes (Suc k) (int n)) = min_bytes n"
proof (induction k arbitrary: n)
  case 0
  then show ?case by (simp add: min_bytes.simps)
next
  case (Suc k)
  show ?case
  proof (cases "n < 256")
    case True
    then have "int n div 256 = 0" by simp
    then have "be_bytes (Suc (Suc k)) (int n) = replicate (Suc k) 0 @ [word_of_nat n]"
      by (subst be_bytes.simps) (simp add: be_bytes_zero del: replicate_Suc)
    then show ?thesis using True by (simp only: strip_zeros_replicate) (simp add: min_bytes.simps)
  next
    case False
    have lt: "n div 256 < 256 ^ Suc k" using Suc.prems by (simp add: div_less_iff_less_mult)
    have "int (n div 256) < int (256 ^ Suc k)" using lt by (simp only: of_nat_less_iff)
    then have lti: "int n div 256 < 256 ^ Suc k" by (simp add: zdiv_int)
    have split: "be_bytes (Suc (Suc k)) (int n) = be_bytes (Suc k) (int (n div 256)) @ [word_of_nat n]"
      by (subst be_bytes.simps) (simp add: zdiv_int del: be_bytes.simps)
    have "\<exists>x \<in> set (be_bytes (Suc k) (int (n div 256))). x \<noteq> 0"
      using False lti by (intro be_bytes_nonzero) (auto simp: zdiv_int)
    then show ?thesis
      unfolding split using Suc.IH [OF lt] False by (simp add: strip_zeros_snoc min_bytes.simps [of n] del: be_bytes.simps)
  qed
qed

lemma vasspEncodeLength_min: "n < 256 ^ 8 \<Longrightarrow> vasspEncodeLength n = encodeLength n"
  using strip_zeros_be [of n 7] by (simp add: vasspEncodeLength_def encodeLength_min min_bytes.simps del: be_bytes.simps)

lemma vasspEncodeBytes_same: "length v < 256 ^ 8 \<Longrightarrow> vasspEncodeBytes v = encodeBytes v"
  by (simp add: vasspEncodeBytes_def encodeBytes_def vasspEncodeLength_min Let_def)

lemma vasspEncodeList_same: "length (concat items) < 256 ^ 8 \<Longrightarrow> vasspEncodeList items = encodeList items"
  by (simp add: vasspEncodeList_def encodeList_def vasspEncodeLength_min Let_def)

text \<open>Words of natural numbers.\<close>

definition W :: "int \<Rightarrow> u64" where
  "W n = word_of_int n"

definition in_u64 :: "int \<Rightarrow> bool" where
  "in_u64 n \<longleftrightarrow> 0 \<le> n \<and> n < 2 ^ 64"

lemma uint_W: "in_u64 n \<Longrightarrow> uint (W n) = n"
  by (simp add: W_def in_u64_def uint_word_of_int_eq take_bit_int_eq_self)

lemma W_uint [simp]: "W (uint w) = w"
  by (simp add: W_def)

lemma W_ops: "W a + W b = W (a + b)" "W a - W b = W (a - b)" "W a * W b = W (a * b)" "W 0 = 0"
  by (simp_all add: W_def)

lemma W_div: "in_u64 a \<Longrightarrow> in_u64 b \<Longrightarrow> W a div W b = W (a div b)"
  by (simp only: word_div_def uint_W W_def [of "a div b"])

lemma W_order: "in_u64 a \<Longrightarrow> in_u64 b \<Longrightarrow> W a < W b \<longleftrightarrow> a < b" "in_u64 a \<Longrightarrow> in_u64 b \<Longrightarrow> W a \<le> W b \<longleftrightarrow> a \<le> b"
  by (simp_all add: word_less_def word_le_def uint_W)

lemma W_zero: "in_u64 a \<Longrightarrow> W a = 0 \<longleftrightarrow> a = 0"
  by (metis W_ops(4) in_u64_def uint_W order_refl zero_less_numeral zero_less_power)

lemma vasspEncodeUint256_W: "in_u64 n \<Longrightarrow> encodeUint256 (Some (Whole n)) = Inr (vasspEncodeUint256 (W n))"
  by (simp add: encodeUint256_def vasspEncodeUint256_def uint_W) (simp add: in_u64_def)

lemma vasspEncode_same:
  assumes "length (encodeList (map encode_pair pairs)) < 256 ^ 8"
  shows "vasspEncode pairs = encodeList (map encode_pair pairs)"
proof -
  have total: "length (concat (map encode_pair pairs)) < 256 ^ 8"
    using assms length_encodeList [of "map encode_pair pairs"] by linarith
  have same: "vasspEncodeList [vasspEncodeBytes slot, vasspEncodeBytes val] = encode_pair (slot, val)"
    if "(slot, val) \<in> set pairs" for slot val
  proof -
    from split_list [OF that] have "length (encode_pair (slot, val)) \<le> length (concat (map encode_pair pairs))" by auto
    with total have "length (encode_pair (slot, val)) < 256 ^ 8" by linarith
    moreover have "length (concat [encodeBytes slot, encodeBytes val]) \<le> length (encode_pair (slot, val))"
      unfolding encode_pair_def prod.case by (rule length_encodeList)
    ultimately have b: "length (concat [encodeBytes slot, encodeBytes val]) < 256 ^ 8" by linarith
    then have "length slot < 256 ^ 8" "length val < 256 ^ 8"
      using length_encodeBytes [of slot] length_encodeBytes [of val] by simp_all
    then have "vasspEncodeList [vasspEncodeBytes slot, vasspEncodeBytes val] = vasspEncodeList [encodeBytes slot, encodeBytes val]"
      by (simp only: vasspEncodeBytes_same)
    also have "\<dots> = encodeList [encodeBytes slot, encodeBytes val]" using b by (rule vasspEncodeList_same)
    finally show ?thesis by (simp add: encode_pair_def)
  qed
  have "map (\<lambda>(slot, val). vasspEncodeList [vasspEncodeBytes slot, vasspEncodeBytes val]) pairs = map encode_pair pairs"
    by (rule map_cong [OF refl]) (use same in auto)
  then show ?thesis unfolding vasspEncode_def by (simp only: vasspEncodeList_same [OF total])
qed

subsection \<open>The ledger that mirrors a state of the simulator\<close>

definition meta_words :: "fabric_state \<Rightarrow> hotel_meta" where
  "meta_words s = \<lparr>hm_bridge = fb_bridge s, hm_price = W (whole (fb_price s)), hm_remain = W (whole (fb_remain s)),
     hm_lockSize = W (whole (fb_lockSize s))\<rparr>"

definition lock_words :: "fabric_lock \<Rightarrow> chain_lock" where
  "lock_words e = \<lparr>le_lockedAmount = W (whole (fl_amount e)), le_lockBlock = W (whole (fl_block e)),
     le_timeoutBlocks = W (whole (fl_timeout e)), le_active = fl_active e\<rparr>"

definition number_words :: "stored_num \<Rightarrow> ledger_value" where
  "number_words v = NumV (W (whole v))"

definition mirrors :: "fabric_state \<Rightarrow> ledger \<Rightarrow> bool" where
  "mirrors s L \<longleftrightarrow>
     L ''META'' = Some (MetaV (meta_words s)) \<and>
     (\<exists>m. L ''XBRIDGE_META'' = Some (BridgeV m) \<and> bm_relayer m = fb_relayer s) \<and>
     L ''LOCK_TOTAL'' = Some (number_words (fb_lockedTotal s)) \<and>
     (\<forall>i. i \<noteq> ''TOTAL'' \<longrightarrow> L (lock_key i) = map_option (\<lambda>e. LockV (lock_words e)) (fb_locks s i)) \<and>
     (\<forall>u. L (account_key u) = map_option number_words (fb_accounts s u)) \<and>
     (\<forall>u. L (booking_key u) = map_option number_words (fb_bookings s u))"

lemma key_simps [simp]:
  "lock_key i = lock_key j \<longleftrightarrow> i = j" "account_key i = account_key j \<longleftrightarrow> i = j" "booking_key i = booking_key j \<longleftrightarrow> i = j"
  "lock_key i \<noteq> ''META''" "lock_key i \<noteq> ''XBRIDGE_META''" "lock_key i = ''LOCK_TOTAL'' \<longleftrightarrow> i = ''TOTAL''"
  "account_key u \<noteq> ''META''" "account_key u \<noteq> ''XBRIDGE_META''" "account_key u \<noteq> ''LOCK_TOTAL''"
  "booking_key u \<noteq> ''META''" "booking_key u \<noteq> ''XBRIDGE_META''" "booking_key u \<noteq> ''LOCK_TOTAL''"
  "lock_key i \<noteq> account_key u" "lock_key i \<noteq> booking_key u" "account_key u \<noteq> booking_key i"
  "account_key u \<noteq> lock_key i" "booking_key u \<noteq> lock_key i" "booking_key i \<noteq> account_key u"
  "''META'' \<noteq> lock_key i" "''XBRIDGE_META'' \<noteq> lock_key i" "''META'' \<noteq> account_key u" "''XBRIDGE_META'' \<noteq> account_key u"
  "''LOCK_TOTAL'' \<noteq> account_key u" "''META'' \<noteq> booking_key u" "''XBRIDGE_META'' \<noteq> booking_key u" "''LOCK_TOTAL'' \<noteq> booking_key u"
  "''LOCK_TOTAL'' = lock_key i \<longleftrightarrow> i = ''TOTAL''"
  by (auto simp: lock_key_def account_key_def booking_key_def)

lemma mirrors_reads:
  assumes "mirrors s (getState F x)"
  shows "hotel_getMeta F x = Inr (meta_words s)" "getU64 F x ''LOCK_TOTAL'' = Inr (W (whole (fb_lockedTotal s)))"
    "current_u64 F x ''LOCK_TOTAL'' = W (whole (fb_lockedTotal s))"
    "i \<noteq> ''TOTAL'' \<Longrightarrow> getLockEntry F x i = map_option lock_words (fb_locks s i)"
    "current_u64 F x (account_key u) = (case fb_accounts s u of None \<Rightarrow> 0 | Some v \<Rightarrow> W (whole v))"
    "current_u64 F x (booking_key u) = (case fb_bookings s u of None \<Rightarrow> 0 | Some v \<Rightarrow> W (whole v))"
  using assms
  by (auto simp: mirrors_def hotel_getMeta_def getU64_def current_u64_def getLockEntry_def number_words_def split: option.splits)

lemma add_lock_relayer: "fb_relayer (add_lock num t txId s) = fb_relayer s"
  by (simp add: add_lock_def Let_def)

lemma whole_Whole [simp]: "whole (Some (Whole n)) = n"
  by (simp add: whole_def)

text \<open>The numbers of well-kept books fit in 64 bits.\<close>

lemma in_u64_natural: "natural B v \<Longrightarrow> B \<le> 2 ^ 53 \<Longrightarrow> in_u64 (whole v)"
  using natural_whole [of B v] by (simp add: in_u64_def)

lemma books_words:
  assumes "books B c m s" "room B m"
  shows "in_u64 (whole (fb_price s))" "in_u64 (whole (fb_remain s))" "in_u64 (whole (fb_lockSize s))"
    "in_u64 (whole (fb_lockedTotal s))" "whole (fb_lockedTotal s) = map_total (fabric_amounts s)"
    "map_total (fabric_amounts s) \<le> 2 ^ 53" "B \<le> 2 ^ 53"
proof -
  note b = booksD [OF assms(1)]
  show B: "B \<le> 2 ^ 53" using room_bounds(1,2,7) [OF assms(2)] by linarith
  show "in_u64 (whole (fb_price s))" "in_u64 (whole (fb_remain s))" "in_u64 (whole (fb_lockSize s))"
    using b(1-3) B by (auto intro: in_u64_natural)
  show T: "whole (fb_lockedTotal s) = map_total (fabric_amounts s)" using b(8) by (simp add: whole_def)
  show le: "map_total (fabric_amounts s) \<le> 2 ^ 53" using b(9) room_bounds(3,7) [OF assms(2)] by linarith
  show "in_u64 (whole (fb_lockedTotal s))" unfolding T in_u64_def using le total_nonneg [OF assms(1)] by simp
qed

text \<open>Both sides encode the same state to the same bytes, given the same digest.\<close>

lemma VasspEncodeState_same:
  assumes m: "mirrors s (getState F x)" and b: "books B c m s" and r: "room B m" and sha: "sha3_documented P"
  obtains bytes where "encodeVassp P s = Inr bytes" "VasspEncodeState (sha3_256 P) F x = Inr bytes"
proof -
  note w = books_words [OF b r]
  have "m * (B * B) \<le> 2 ^ 53" using room_bounds(3,7) [OF r] by linarith
  from encodeVassp_books [OF b w(7) this] obtain bytes where enc: "encodeVassp P s = Inr bytes" by blast
  from encodeVassp_shape [OF enc sha booksD(5) [OF b]] obtain p q l t where st: "fb_price s = Some (Whole p)"
    "fb_remain s = Some (Whole q)" "fb_lockSize s = Some (Whole l)" "fb_lockedTotal s = Some (Whole t)"
    and rng: "0 \<le> p \<and> p < 2 ^ 64" "0 \<le> q \<and> q < 2 ^ 64" "0 \<le> l \<and> l < 2 ^ 64" "0 \<le> t \<and> t < 2 ^ 64"
      "length (utf8Bytes (fb_bridge s)) < 2 ^ 64" and len: "length bytes < 256 ^ 8"
    and bytes: "bytes = encodeList (map encode_pair
      [(sha3_256 P (slot_name ''META''), abi_meta (fb_bridge s) p q l),
       (sha3_256 P (slot_name ''LOCK_TOTAL''), be_bytes 32 t)])" .
  have word: "vasspEncodeUint256 (W n) = be_bytes 32 n" if "0 \<le> n \<and> n < 2 ^ 64" for n
    using vasspEncodeUint256_W [of n] that encodeUint256_Inr [of "Some (Whole n)"] by (auto simp: in_u64_def)
  have len_word: "word_of_nat (length (utf8Bytes (fb_bridge s))) = W (int (length (utf8Bytes (fb_bridge s))))"
    by (simp add: W_def)
  have "vasspEncodeMetaTuple (fb_bridge s) (W p) (W q) (W l) = abi_meta (fb_bridge s) p q l"
    using rng word [of 128] unfolding vasspEncodeMetaTuple_def vasspEncodeString_def len_word abi_meta_def Let_def
    by (simp add: word W_def [of 128])
  moreover have "vasspSlotID (sha3_256 P) ''HotelBooking'' name = sha3_256 P (slot_name name)" for name
    by (simp add: vasspSlotID_def slot_name_def)
  ultimately have "VasspEncodeState (sha3_256 P) F x = Inr (vasspEncode
      [(sha3_256 P (slot_name ''META''), abi_meta (fb_bridge s) p q l),
       (sha3_256 P (slot_name ''LOCK_TOTAL''), be_bytes 32 t)])"
    using rng(4) by (simp add: VasspEncodeState_def mirrors_reads [OF m] meta_words_def st whole_def word)
  also have "\<dots> = Inr bytes" using vasspEncode_same len unfolding bytes by blast
  finally show ?thesis using enc that by blast
qed

lemma GetAvailableRemain_mirrored:
  assumes m: "mirrors s (getState F x)" and b: "books B c k s" and r: "room B k" and price: "0 < whole (fb_price s)"
  shows "GetAvailableRemain F x = Inr (W (max 0 (whole (fb_remain s) - whole (fb_lockedTotal s) div whole (fb_price s))))"
proof -
  note w = books_words [OF b r]
  let ?T = "whole (fb_lockedTotal s)" and ?p = "whole (fb_price s)" and ?r = "whole (fb_remain s)"
  have q: "in_u64 (?T div ?p)"
    using w(1,4) price zdiv_mono2 [of ?T 1 ?p] by (simp add: in_u64_def pos_imp_zdiv_nonneg_iff)
  have "W ?p \<noteq> 0" using W_zero [OF w(1)] price by simp
  then have "GetAvailableRemain F x = Inr (if W (?T div ?p) \<ge> W ?r then 0 else W ?r - W (?T div ?p))"
    using w(1,4) by (simp add: GetAvailableRemain_def mirrors_reads [OF m] meta_words_def go_div_def W_div)
  also have "(if W (?T div ?p) \<ge> W ?r then 0 else W ?r - W (?T div ?p)) = W (max 0 (?r - ?T div ?p))"
    using W_order(2) [OF w(2) q] by (simp add: W_ops)
  finally show ?thesis .
qed

lemma reads_only:
  assumes "getState F x = getState F y"
  shows "hotel_getMeta F x = hotel_getMeta F y" "getU64 F x k = getU64 F y k" "current_u64 F x k = current_u64 F y k"
    "VasspEncodeState d F x = VasspEncodeState d F y" "getLockEntry F x i = getLockEntry F y i"
  using assms by (simp_all add: hotel_getMeta_def getU64_def current_u64_def VasspEncodeState_def getLockEntry_def)

context fabric_shim
begin

lemma lock_mirrored:
  assumes m: "mirrors s (getState F x)" and fresh: "after_commit F x = getState F x"
    and b: "books B c k s" and r: "room B k" and price: "0 < whole (fb_price s)"
    and args: "natural_args P B args" and i: "tx_id args = i" "i \<noteq> ''TOTAL''"
    and num: "sim_num P args ''num'' (Some (Whole 0)) = Whole (uint n)"
    and t: "sim_num P args ''timeout_blocks'' (Some (Whole 0)) = Whole (uint t)"
    and caller: "mspID F x = fb_bridge s" and time: "txSeconds F x = W (whole (fb_block s))" and sha: "sha3_documented P"
  shows "case lockStateInternal (sha3_256 P) F i n t x of
      Inl e \<Rightarrow> lock_request P args i s = Inl e
    | Inr (encoded, x') \<Rightarrow> \<exists>s' new. encodeVassp P s = Inr encoded \<and> encodeVassp P s' = Inr new \<and>
        lock_request P args i s = Inr (s', hex_of_bytes new) \<and> mirrors s' (after_commit F x')"
proof -
  note b' = booksD [OF b] and w = books_words [OF b r] and reads = mirrors_reads [OF m]
  have id: "i \<noteq> ''__proto__''" using args i by (simp add: natural_args_def)
  have nat: "natural B (Some (Whole (uint n)))" "natural B (Some (Whole (uint t)))"
    using natural_num_arg [OF args, of "''num''" "Some (Whole 0)"] natural_num_arg [OF args, of "''timeout_blocks''" "Some (Whole 0)"]
      num t r by (auto simp: numeric_args_def room_def)
  have bridge: "ensureBridge F x = Inr ()" using caller by (simp add: ensureBridge_def reads meta_words_def)
  have locked: "(case getLockEntry F x i of Some e \<Rightarrow> le_active e | None \<Rightarrow> False) = is_locked s i"
    using reads(4) [OF i(2)] by (auto simp: is_locked_def lock_words_def split: option.splits)
  show ?thesis
  proof (cases "is_locked s i")
    case True
    then show ?thesis
      by (simp add: lockStateInternal_def bridge locked lock_request_def ensureLockFree_def)
  next
    case False
    define av where "av = max 0 (whole (fb_remain s) - whole (fb_lockedTotal s) div whole (fb_price s))"
    have av: "GetAvailableRemain F x = Inr (W av)" "sim_available s = Whole av"
      using GetAvailableRemain_mirrored [OF m b r price] sim_available_value [OF b r price] by (simp_all add: av_def)
    have "0 \<le> whole (fb_lockedTotal s) div whole (fb_price s)"
      using w(4) price by (simp add: in_u64_def pos_imp_zdiv_nonneg_iff)
    then have "in_u64 av" using w(2) by (auto simp: av_def in_u64_def)
    moreover have "in_u64 (uint n)" using unsigned_less [of n, where 'a = int] by (simp add: in_u64_def)
    ultimately have less: "W av < n \<longleftrightarrow> av < uint n" using W_order(1) [of av "uint n"] by simp
    show ?thesis
    proof (cases "av < uint n")
      case True
      then show ?thesis using False less av num i(1)
        by (simp add: lockStateInternal_def bridge locked lock_request_def ensureLockFree_def)
    next
      case enough: False
      let ?s' = "add_lock (Whole (uint n)) (Whole (uint t)) i s"
      have none: "fb_locks s i = None" using False not_locked_None [OF b] by simp
      define a where "a = (if 0 < uint n then uint n else whole (fb_lockSize s)) * whole (fb_price s)"
      have a: "sim_lock_amount (Whole (uint n)) s = Whole a" using sim_lock_amount_value [OF b r nat(1)] by (simp add: a_def)
      have total: "fb_lockedTotal ?s' = Some (Whole (whole (fb_lockedTotal s) + a))"
      proof -
        obtain y where y: "sim_lock_amount (Whole (uint n)) s = Whole y" "0 \<le> y" "y \<le> B * B"
          using lock_amount_natural [OF b r nat(1)] by auto
        have "map_total (fabric_amounts s) + a \<le> 2 ^ 53"
          using b'(9) y a room_bounds(7) [OF r] by (simp add: distrib_right)
        then show ?thesis using b'(8) y a total_nonneg [OF b] by (simp add: add_lock_fields round_double_exact whole_def)
      qed
      have amount_word: "(if n > 0 then n * hm_price (meta_words s) else hm_lockSize (meta_words s) * hm_price (meta_words s)) = W a"
      proof -
        have "W (uint n) * W (whole (fb_price s)) = W (uint n * whole (fb_price s))" by (rule W_ops)
        then show ?thesis by (simp add: a_def meta_words_def W_ops word_less_def)
      qed
      define L where "L = LockV \<lparr>le_lockedAmount = W a, le_lockBlock = W (whole (fb_block s)), le_timeoutBlocks = t, le_active = True\<rparr>"
      define x' where "x' = addU64 F ''LOCK_TOTAL'' (W a) (putState F (lock_key i) L x)"
      have same: "getState F x' = getState F x" by (simp add: x'_def addU64_def shim)
      obtain old where old: "encodeVassp P s = Inr old" "VasspEncodeState (sha3_256 P) F x = Inr old"
        using VasspEncodeState_same [OF m b r sha] by blast
      have run: "lockStateInternal (sha3_256 P) F i n t x = Inr (old, x')"
        using less enough False old(2) reads_only(4) [OF same]
        by (simp add: lockStateInternal_def bridge locked av reads amount_word time Let_def flip: L_def x'_def)
      have new_books: "books B c (k + 1) ?s'" using books_add_lock [OF b r nat none id] .
      have "B \<le> 2 ^ 53" "(k + 1) * (B * B) \<le> 2 ^ 53" using w(7) room_bounds(7) [OF r] by simp_all
      from encodeVassp_books [OF new_books this, of P] obtain new where new: "encodeVassp P ?s' = Inr new" by blast
      have sim: "lock_request P args i s = Inr (?s', hex_of_bytes new)"
        using False enough av new num t i(1) by (simp add: lock_request_def ensureLockFree_def)
      have commit: "after_commit F x' = (getState F x)(lock_key i \<mapsto> L, ''LOCK_TOTAL'' \<mapsto> NumV (W (whole (fb_lockedTotal s) + a)))"
        using reads(3) by (simp add: x'_def addU64_def shim fresh current_u64_def getU64_def W_ops)
      have "mirrors ?s' (after_commit F x')"
        using m i(2) unfolding commit mirrors_def total
        by (auto simp: add_lock_fields(1) [OF id] add_lock_fields(3-9) add_lock_relayer a meta_words_def lock_words_def number_words_def L_def)
      then show ?thesis using run old(1) new sim by auto
    qed
  qed
qed

lemma unlock_mirrored:
  assumes m: "mirrors s (getState F x)" and fresh: "after_commit F x = getState F x"
    and b: "books B c k s" and r: "room B k" and i: "i \<noteq> ''TOTAL''"
  shows "case hotel_unlockInternal F i x of
      Inl e \<Rightarrow> unlockInternal i s = Inl e
    | Inr x' \<Rightarrow> \<exists>s'. unlockInternal i s = Inr s' \<and> mirrors s' (after_commit F x') \<and> getState F x' = getState F x"
proof -
  note reads = mirrors_reads [OF m] and w = books_words [OF b r]
  show ?thesis
  proof (cases "fb_locks s i")
    case None
    then show ?thesis using reads(4) [OF i] by (simp add: hotel_unlockInternal_def unlockInternal_def)
  next
    case (Some e)
    then have e: "lock_ok B c e" by (rule books_lock [OF b])
    let ?T = "whole (fb_lockedTotal s)" and ?a = "whole (fl_amount e)"
    have a: "fl_amount e = Some (Whole ?a)" "0 \<le> ?a" using e natural_whole [of "B * B" "fl_amount e"] by (auto simp: lock_ok_def)
    have "get0 (fabric_amounts s) i = ?a" using Some by (simp add: get0_def fabric_amounts_def)
    then have le: "?a \<le> ?T" using total_ge [OF b, of i] w(5) by simp
    have au: "in_u64 ?a" using a le w(4) by (simp add: in_u64_def)
    have T: "fb_lockedTotal s = Some (Whole ?T)" using booksD(8) [OF b] by (metis whole_Whole)
    have "num_sub (Whole ?T) (Whole ?a) = Whole (?T - ?a)" using le a w(5,6) by (intro num_exact) simp
    then have sim: "unlockInternal i s = Inr (s\<lparr>fb_lockedTotal := Some (Whole (?T - ?a)), fb_locks := (fb_locks s)(i := None)\<rparr>)"
      using Some e T a le by (simp add: unlockInternal_def lock_ok_def) (metis as_num_simps(1) max_absorb2 num_max0_Whole diff_ge_0_iff_ge)
    have "\<not> W ?a > W ?T" using W_order(1) [OF w(4) au] le by simp
    then have sub: "subU64 F ''LOCK_TOTAL'' (W ?a) x = putState F ''LOCK_TOTAL'' (NumV (W (?T - ?a))) x"
      using reads(3) by (simp add: subU64_def W_ops Let_def)
    have chain: "hotel_unlockInternal F i x = Inr (delState F (lock_key i) (putState F ''LOCK_TOTAL'' (NumV (W (?T - ?a))) x))"
      using Some e reads(4) [OF i] sub by (simp add: hotel_unlockInternal_def lock_words_def lock_ok_def)
    have "mirrors (s\<lparr>fb_lockedTotal := Some (Whole (?T - ?a)), fb_locks := (fb_locks s)(i := None)\<rparr>)
        ((getState F x)(''LOCK_TOTAL'' \<mapsto> NumV (W (?T - ?a)), lock_key i := None))"
      using m i unfolding mirrors_def by (auto simp: meta_words_def number_words_def)
    then show ?thesis using sim chain by (simp add: shim fresh)
  qed
qed

lemma member_word:
  assumes "\<forall>k v. m k = Some v \<longrightarrow> natural M v" "user \<notin> set inherited_names"
  shows "member_number m user = Whole (case m user of None \<Rightarrow> 0 | Some v \<Rightarrow> whole v)"
proof (cases "m user")
  case (Some v)
  then obtain n where "v = Some (Whole n)" using assms(1) by (auto simp: natural_def)
  with Some show ?thesis by (simp add: member_number_def)
qed (use assms in \<open>simp add: member_number_def\<close>)

lemma update_mirrored:
  assumes m: "mirrors s (getState F x)" and fresh: "after_commit F x = getState F x"
    and b: "books B c k s" and r: "room B k" and i: "i \<noteq> ''TOTAL''" and args: "natural_args P B args"
    and caller: "mspID F x = fb_bridge s"
    and new_remain: "sim_num P args ''new_remain'' (Some (Whole 0)) = Whole (uint nr)" and user: "sim_text args ''user'' [] = u"
    and num: "sim_num P args ''num'' (Some (Whole 0)) = Whole (uint n)"
    and cost: "sim_num P args ''total_cost'' (Some (Whole 0)) = Whole (uint tc)"
  shows "case hotel_UpdateState F i nr u n tc x of
      Inl e \<Rightarrow> unlockInternal i s = Inl e
    | Inr x' \<Rightarrow> \<exists>s1. unlockInternal i s = Inr s1 \<and> mirrors (update_books P args s1) (after_commit F x')"
proof -
  note reads = mirrors_reads [OF m]
  have bridge: "ensureBridge F x = Inr ()" using caller by (simp add: ensureBridge_def reads meta_words_def)
  show ?thesis
  proof (cases "hotel_unlockInternal F i x")
    case (Inl e)
    then show ?thesis using unlock_mirrored [OF m fresh b r i] by (simp add: hotel_UpdateState_def bridge)
  next
    case (Inr x1)
    then obtain s1 where s1: "unlockInternal i s = Inr s1" "mirrors s1 (after_commit F x1)" and x1: "getState F x1 = getState F x"
      using unlock_mirrored [OF m fresh b r i] by auto
    have kept: "fb_accounts s1 = fb_accounts s" "fb_bookings s1 = fb_bookings s" "fb_bridge s1 = fb_bridge s" "fb_price s1 = fb_price s"
      "fb_lockSize s1 = fb_lockSize s" "fb_remain s1 = fb_remain s"
      using s1(1) by (auto simp: unlockInternal_def split: option.splits if_splits)
    note bal = booksD(11,12) [OF b]
    have u: "u \<notin> set inherited_names" "u \<noteq> ''__proto__''" using args user by (auto simp: natural_args_def inherited_names_def)
    have nat: "natural B (Some (Whole (uint n)))" "natural B (Some (Whole (uint tc)))"
      using natural_num_arg [OF args, of "''num''" "Some (Whole 0)"] natural_num_arg [OF args, of "''total_cost''" "Some (Whole 0)"]
        num cost r by (auto simp: numeric_args_def room_def)
    let ?acc = "(case fb_accounts s u of None \<Rightarrow> 0 | Some v \<Rightarrow> whole v)" and ?boo = "(case fb_bookings s u of None \<Rightarrow> 0 | Some v \<Rightarrow> whole v)"
    have lim: "0 \<le> k * B" "(k + 1) * B \<le> 2 ^ 53" using r room_bounds(5,7) [OF r] by (simp add: room_def, linarith)
    have ranges: "0 \<le> ?acc" "?acc \<le> k * B" "0 \<le> ?boo" "?boo \<le> k * B"
      using bal natural_whole [of "k * B"] lim(1) by (auto split: option.splits)
    have sums: "num_add (Whole ?acc) (Whole (uint tc)) = Whole (?acc + uint tc)" "num_add (Whole ?boo) (Whole (uint n)) = Whole (?boo + uint n)"
      using ranges nat lim by (intro num_exact; simp add: distrib_right)+
    have after: "update_books P args s1 = s1\<lparr>fb_remain := Some (Whole (uint nr)),
        fb_accounts := (fb_accounts s)(u \<mapsto> Some (Whole (?acc + uint tc))), fb_bookings := (fb_bookings s)(u \<mapsto> Some (Whole (?boo + uint n)))\<rparr>"
      using member_word [OF bal(1) u(1)] member_word [OF bal(2) u(1)] sums u(2)
      by (simp add: update_books_def Let_def new_remain user num cost kept set_member_def del: num_add.simps)
    let ?m' = "MetaV ((meta_words s)\<lparr>hm_remain := nr\<rparr>)"
    let ?x2 = "putState F ''META'' ?m' x1"
    have acc: "current_u64 F ?x2 (account_key u) = W ?acc"
      using reads(5) reads_only(3) [of F ?x2 x "account_key u"] x1 by (simp add: shim W_ops split: option.splits)
    let ?x3 = "putState F (account_key u) (NumV (W (?acc + uint tc))) ?x2"
    have x3: "addU64 F (account_key u) tc ?x2 = ?x3" using acc W_ops(1) [of ?acc "uint tc"] by (simp add: addU64_def)
    have boo: "current_u64 F ?x3 (booking_key u) = W ?boo"
      using reads(6) reads_only(3) [of F ?x3 x "booking_key u"] x1 by (simp add: shim W_ops split: option.splits)
    have x4: "addU64 F (booking_key u) n ?x3 = putState F (booking_key u) (NumV (W (?boo + uint n))) ?x3"
      using boo W_ops(1) [of ?boo "uint n"] by (simp add: addU64_def)
    have chain: "hotel_UpdateState F i nr u n tc x = Inr (putState F (booking_key u) (NumV (W (?boo + uint n))) ?x3)"
      using Inr reads_only(1) [OF x1] reads(1) by (simp add: hotel_UpdateState_def bridge x3 x4)
    have "mirrors (update_books P args s1) ((after_commit F x1)(''META'' \<mapsto> ?m', account_key u \<mapsto> NumV (W (?acc + uint tc)),
        booking_key u \<mapsto> NumV (W (?boo + uint n))))"
      using s1(2) unfolding after mirrors_def by (auto simp: meta_words_def number_words_def kept)
    then show ?thesis using chain s1(1) by (simp add: shim)
  qed
qed

lemma timeout_mirrored:
  assumes m: "mirrors s (getState F x)" and fresh: "after_commit F x = getState F x"
    and b: "books B c k s" and r: "room B k" and c: "c + B \<le> 2 ^ 53" and i: "i \<noteq> ''TOTAL''" and time: "txSeconds F x = W (whole (fb_block s))"
  shows "case hotel_UnlockOnTimeout F i x of
      Inl e \<Rightarrow> timeout_rollback i s = Inl e
    | Inr x' \<Rightarrow> \<exists>s'. timeout_rollback i s = Inr s' \<and> mirrors s' (after_commit F x')"
proof -
  note reads = mirrors_reads [OF m] and un = unlock_mirrored [OF m fresh b r i]
  show ?thesis
  proof (cases "fb_locks s i")
    case None
    then show ?thesis using reads(4) [OF i] by (simp add: hotel_UnlockOnTimeout_def timeout_rollback_def)
  next
    case (Some e)
    then have e: "lock_ok B c e" by (rule books_lock [OF b])
    obtain lb t n where v: "fl_block e = Some (Whole lb)" "fl_timeout e = Some (Whole t)" "fb_block s = Some (Whole n)"
      "0 \<le> lb" "lb \<le> c" "0 \<le> t" "t \<le> B" "0 \<le> n" "n \<le> c"
      using e booksD(4) [OF b] by (auto simp: lock_ok_def natural_def)
    have "within_timeout e s \<longleftrightarrow> n \<le> lb + t" using v c by (simp add: within_timeout_def round_double_exact)
    note late = this
    have "in_u64 n" "in_u64 (lb + t)" using v c by (simp_all add: in_u64_def)
    then have "txSeconds F x \<le> W lb + W t \<longleftrightarrow> n \<le> lb + t" using time v by (simp add: W_ops W_order)
    then show ?thesis
      using Some e late reads(4) [OF i] un v
      by (auto simp: hotel_UnlockOnTimeout_def timeout_rollback_def lock_words_def lock_ok_def split: sum.splits)
  qed
qed

end

subsection \<open>The simulator against the chaincode\<close>

text \<open>The request to the simulator that stands for a call of the bridge chaincode.\<close>

fun sim_message :: "bridge_call \<Rightarrow> string" where
  "sim_message (ReceiveLockRequest n t) = ''receive_lock_request''"
| "sim_message (ReceiveUpdateRequest r u n cost) = ''receive_update_request''"
| "sim_message ReceiveRollbackRequest = ''receive_rollback_request''"
| "sim_message ReceiveTimeoutRollback = ''receive_timeout_rollback''"

fun carries :: "fabric_host \<Rightarrow> json \<Rightarrow> bridge_call \<Rightarrow> bool" where
  "carries P args (ReceiveLockRequest n t) \<longleftrightarrow>
     sim_num P args ''num'' (Some (Whole 0)) = Whole (uint n) \<and> sim_num P args ''timeout_blocks'' (Some (Whole 0)) = Whole (uint t)"
| "carries P args (ReceiveUpdateRequest r u n cost) \<longleftrightarrow>
     sim_num P args ''new_remain'' (Some (Whole 0)) = Whole (uint r) \<and> sim_text args ''user'' [] = u \<and>
     sim_num P args ''num'' (Some (Whole 0)) = Whole (uint n) \<and> sim_num P args ''total_cost'' (Some (Whole 0)) = Whole (uint cost)"
| "carries P args ReceiveRollbackRequest \<longleftrightarrow> True"
| "carries P args ReceiveTimeoutRollback \<longleftrightarrow> True"

text \<open>The payload of a lock response with its state replaced.\<close>

definition lock_payload :: "string \<Rightarrow> byte list \<Rightarrow> json" where
  "lock_payload i bytes = JsonObject (bridge_ids i @
     [(''lockedState'', JsonString (hex_of_bytes bytes)), (''irHash'', JsonString HOTEL_IR_HASH), (''proof'', JsonString ''0x'')])"

text \<open>
  What the simulator does for a call, given the state before it, when the chaincode emitted an event with
  this name and payload: the same event, except that the chaincode's lock response encodes the state
  before the lock and the simulator's the state after it.
\<close>

definition same_event :: "fabric_host \<Rightarrow> string \<Rightarrow> bridge_call \<Rightarrow> fabric_state \<Rightarrow> fabric_invocation \<Rightarrow> string \<times> json \<Rightarrow> bool" where
  "same_event P i call s r = (\<lambda>(name, payload). case call of
     ReceiveLockRequest n t \<Rightarrow> name = ''CrossChainLockResponse'' \<and>
       (\<exists>old new. encodeVassp P s = Inr old \<and> encodeVassp P (fi_state r) = Inr new \<and>
          payload = lock_payload i old \<and>
          fi_event r = JsonObject [(''name'', JsonString name), (''args'', lock_payload i new)])
   | _ \<Rightarrow> fi_event r = JsonObject [(''name'', JsonString name), (''args'', payload)])"

lemma mirrors_nextBlock: "mirrors (nextBlock s) L \<longleftrightarrow> mirrors s L"
  by (simp add: mirrors_def nextBlock_def meta_words_def)

lemma encode_nextBlock: "encodeVassp P (nextBlock s) = encodeVassp P s"
  by (simp add: encodeVassp_def vassp_pairs_def encodeMetaTuple_def nextBlock_def)

text \<open>
  C4. The simulator refines the chaincode. Take a simulator state with well-kept books and a positive price, and a
  ledger that mirrors it, and let the relayer (who is also the hotel's bridge) send one of the four calls to both,
  with the same natural arguments, the transaction's time being the simulator's next block. Then the chaincode fails
  exactly when the simulator refuses, with the same text; otherwise the ledger after the commit mirrors the
  simulator's new state, and the events are the same, but for the locked state: a transaction of Fabric does not
  read its own writes, so the chaincode encodes lockedTotal without the new lock, and the simulator with it. Both are
  given the same digest here, of which only the length is used; in the code they differ (see \<open>Vassp_Import\<close>).
\<close>

theorem simulator_refines_chaincode:
  assumes shim: "fabric_shim F" and fresh: "after_commit F x = getState F x" and m: "mirrors s (getState F x)"
    and b: "books B c c s" and r: "room B c" "2 \<le> B" and price: "0 < whole (fb_price s)" and sha: "sha3_documented P"
    and args: "natural_args P B args" "carries P args call" and i: "tx_id args = i" "i \<noteq> []" "i \<noteq> ''TOTAL''"
    and caller: "mspID F x = fb_relayer s" "fb_bridge s = fb_relayer s" and time: "txSeconds F x = W (whole (fb_block s) + 1)"
  shows "case bridge_receive (sha3_256 P) F i call x of
      Inl e \<Rightarrow> invoke P s ''xbridge_bc3'' (sim_message call) args = Inl e
    | Inr (event, x') \<Rightarrow> \<exists>result. invoke P s ''xbridge_bc3'' (sim_message call) args = Inr result \<and>
        mirrors (fi_state result) (after_commit F x') \<and> same_event P i call s result event"
proof -
  note lock = fabric_shim.lock_mirrored [OF shim] and update = fabric_shim.update_mirrored [OF shim]
    and unlock = fabric_shim.unlock_mirrored [OF shim] and timeout = fabric_shim.timeout_mirrored [OF shim]
  let ?s = "nextBlock s"
  note n = books_nextBlock [OF b r(1)]
  have m': "mirrors ?s (getState F x)" using m by (simp add: mirrors_nextBlock)
  have relayer: "ensureRelayer F x = Inr ()" using m caller(1) by (auto simp: mirrors_def ensureRelayer_def)
  have c: "0 \<le> c" using r by (simp add: room_def)
  have BB: "2 * B \<le> B * B" "1 * (B * B) \<le> (c + 1) * (B * B)" "(c + 1) * 4 \<le> (c + 1) * (B * B)"
    using c r(2) mult_mono [of 2 B 2 B] by (intro mult_right_mono mult_left_mono; simp)+
  define X where "X = (c + 1) * (B * B)"
  have "2 * B \<le> X" "(c + 1) * 4 \<le> X" "X \<le> 2 ^ 53"
    using BB room_bounds(7) [OF r(1)] unfolding X_def by simp_all
  then have cB: "c + 1 + B \<le> 2 ^ 53" by simp
  have "c + 1 \<le> 2 ^ 53" using cB r(2) by linarith
  from natural_Suc [OF booksD(4) [OF b] this] obtain k where "as_num (fb_block s) = Whole k"
    "num_add (as_num (fb_block s)) (Whole 1) = Whole (k + 1)" by blast
  moreover have "whole (fb_block s) = k" using calculation(1) booksD(4) [OF b] by (auto simp: natural_def)
  ultimately have block: "whole (fb_block ?s) = whole (fb_block s) + 1" by (simp add: nextBlock_def)
  have s: "mspID F x = fb_bridge ?s" "txSeconds F x = W (whole (fb_block ?s))" "0 < whole (fb_price ?s)"
    using caller time price block by (simp_all add: nextBlock_def)
  show ?thesis
  proof (cases call)
    case (ReceiveLockRequest k t)
    have "case lockStateInternal (sha3_256 P) F i k t x of Inl e \<Rightarrow> lock_request P args i ?s = Inl e
      | Inr (encoded, x') \<Rightarrow> \<exists>s' new. encodeVassp P ?s = Inr encoded \<and> encodeVassp P s' = Inr new \<and>
        lock_request P args i ?s = Inr (s', hex_of_bytes new) \<and> mirrors s' (after_commit F x')"
      using args ReceiveLockRequest by (intro lock [OF m' fresh n r(1) s(3) args(1) i(1,3) _ _ s(1,2) sha]) auto
    then show ?thesis using ReceiveLockRequest i
      by (auto simp: bridge_receive_def relayer invoke_def same_event_def lock_payload_def bridge_ids_def event_json_def
          encode_nextBlock Let_def split: sum.splits prod.splits)
  next
    case (ReceiveUpdateRequest nr u k cost)
    have "case hotel_UpdateState F i nr u k cost x of Inl e \<Rightarrow> unlockInternal i ?s = Inl e
      | Inr x' \<Rightarrow> \<exists>s1. unlockInternal i ?s = Inr s1 \<and> mirrors (update_books P args s1) (after_commit F x')"
      using args ReceiveUpdateRequest by (intro update [OF m' fresh n r(1) i(3) args(1) s(1)]) auto
    then show ?thesis using ReceiveUpdateRequest i
      by (auto simp: bridge_receive_def relayer invoke_def same_event_def bridge_ids_def event_json_def Let_def split: sum.splits)
  next
    case ReceiveRollbackRequest
    have "hotel_UnlockState F i x = hotel_unlockInternal F i x"
      using s(1) by (simp add: hotel_UnlockState_def ensureBridge_def mirrors_reads [OF m'] meta_words_def)
    then show ?thesis using ReceiveRollbackRequest i unlock [OF m' fresh n r(1) i(3)]
      by (auto simp: bridge_receive_def relayer invoke_def same_event_def bridge_ids_def event_json_def Let_def split: sum.splits)
  next
    case ReceiveTimeoutRollback
    then show ?thesis using i timeout [OF m' fresh n r(1) cB i(3) s(2)]
      by (auto simp: bridge_receive_def relayer invoke_def same_event_def bridge_ids_def event_json_def Let_def split: sum.splits)
  qed
qed

subsection \<open>A peer\<close>

text \<open>A context that does what the shim documents: the committed ledger, and the writes in order.\<close>

record tx_context =
  tc_ledger :: ledger
  tc_writes :: "(string \<times> ledger_value option) list"
  tc_msp :: string
  tc_seconds :: u64

definition peer_stub :: "tx_context fabric_stub" where
  "peer_stub = \<lparr>getState = tc_ledger,
     putState = (\<lambda>k v c. c\<lparr>tc_writes := (k, Some v) # tc_writes c\<rparr>),
     delState = (\<lambda>k c. c\<lparr>tc_writes := (k, None) # tc_writes c\<rparr>),
     mspID = tc_msp, txSeconds = tc_seconds,
     after_commit = (\<lambda>c. foldr (\<lambda>(k, v) L. L(k := v)) (tc_writes c) (tc_ledger c))\<rparr>"

interpretation peer: fabric_shim peer_stub
  by unfold_locales (simp_all add: peer_stub_def)

definition example_state :: fabric_state where
  "example_state = defaultState\<lparr>fb_bridge := ''Org1MSP'', fb_relayer := ''Org1MSP''\<rparr>"

definition example_tx :: tx_context where
  "example_tx = \<lparr>tc_ledger = [''META'' \<mapsto> MetaV (meta_words example_state),
       ''XBRIDGE_META'' \<mapsto> BridgeV \<lparr>bm_relayer = ''Org1MSP'', bm_stateContract = ''hotel_booking''\<rparr>, ''LOCK_TOTAL'' \<mapsto> NumV 0],
     tc_writes = [], tc_msp = ''Org1MSP'', tc_seconds = 1\<rparr>"

lemma example_mirrors: "mirrors example_state (getState peer_stub example_tx)"
  by (simp add: mirrors_def peer_stub_def example_tx_def number_words_def example_state_def defaultState_def W_ops)

theorem simulator_refines_chaincode_witness:
  "case bridge_receive (sha3_256 example_fabric) peer_stub ''t1'' (ReceiveLockRequest 3 2) example_tx of
     Inl e \<Rightarrow> False
   | Inr (event, x') \<Rightarrow> \<exists>result. invoke example_fabric example_state ''xbridge_bc3'' ''receive_lock_request''
         (request_args (example_body ''receive_lock_request:t1'')) = Inr result \<and>
       mirrors (fi_state result) (after_commit peer_stub x') \<and>
       same_event example_fabric ''t1'' (ReceiveLockRequest 3 2) example_state result event"
proof -
  let ?args = "request_args (example_body ''receive_lock_request:t1'')"
  have b: "books 2000 0 0 example_state" by (simp add: books_def example_state_def defaultState_def fabric_amounts_def)
  have r: "room 2000 0" by (simp add: room_def)
  have a: "tx_id ?args = ''t1''" "sim_num example_fabric ?args ''num'' (Some (Whole 0)) = Whole 3"
    "sim_num example_fabric ?args ''timeout_blocks'' (Some (Whole 0)) = Whole 2"
    by (simp_all add: example_args tx_id_def nullish_def sim_num_def example_fabric_def example_numerals)
  have nat: "natural_args example_fabric 2000 ?args"
    using example_natural [of "''receive_lock_request:t1''"]
    by (simp add: natural_request_def example_post_def readBody_def) (simp add: example_fabric_def)
  have sha: "sha3_documented example_fabric" by (simp add: sha3_documented_def example_fabric_def)
  have carry: "carries example_fabric ?args (ReceiveLockRequest 3 2)" by (simp add: a)
  have side: "after_commit peer_stub example_tx = getState peer_stub example_tx" "0 < whole (fb_price example_state)"
    "mspID peer_stub example_tx = fb_relayer example_state" "fb_bridge example_state = fb_relayer example_state"
    "txSeconds peer_stub example_tx = W (whole (fb_block example_state) + 1)"
    by (simp_all add: peer_stub_def example_tx_def example_state_def defaultState_def W_def)
  note main = simulator_refines_chaincode [OF peer.fabric_shim_axioms side(1) example_mirrors b r _ side(2) sha nat carry a(1) _ _ side(3-5)]
  let ?new = "add_lock (Whole 3) (Whole 2) ''t1'' (nextBlock example_state)"
  have "books 2000 1 1 ?new"
  proof -
    have "fb_locks (nextBlock example_state) ''t1'' = None" by (simp add: nextBlock_def example_state_def defaultState_def)
    from books_add_lock [OF books_nextBlock [OF b r] r _ _ this, of "Whole 3" "Whole 2"] show ?thesis by simp
  qed
  then have enc: "\<exists>bytes. encodeVassp example_fabric ?new = Inr bytes" by (rule encodeVassp_books) simp_all
  have "sim_available (nextBlock example_state) = Whole 2000"
    by (simp add: sim_available_def nextBlock_def example_state_def defaultState_def floor_ratio_def round_double_exact num_sub_def Let_def)
  moreover have "\<not> is_locked example_state ''t1''" by (simp add: is_locked_def example_state_def defaultState_def)
  ultimately have "\<exists>result. invoke example_fabric example_state ''xbridge_bc3'' ''receive_lock_request'' ?args = Inr result"
    using invoke_lock [of ?args example_state example_fabric, unfolded a] enc by auto
  then show ?thesis using main by (auto split: sum.splits)
qed

end
