(* ===== verification/Fabric_Deploy.thy ===== *)
theory Fabric_Deploy
  imports Deploy_Fabric Fabric_Books
begin

text \<open>
  \<open>deploy-bc3.ts\<close> in local mode against the simulator it starts: the health probe of
  \<open>local-bc3-fabric.ts\<close> accepts the simulator's answer, and the bootstrap request of the deployment
  configures it.
\<close>

subsection \<open>A machine on which the simulator listens\<close>

text \<open>
  Requests below \<open>base\<close> reach the simulator, whose file is part of the machine's state: \<open>/health\<close> by GET
  without a body, \<open>/invoke\<close> by POST. What comes back is the status and the printed JSON.
\<close>

definition simulator_at :: "'n hetero \<Rightarrow> fabric_host \<Rightarrow> ('n \<Rightarrow> fabric_state option) \<Rightarrow> string \<Rightarrow> bool" where
  "simulator_at H P state_file base \<longleftrightarrow>
     (\<forall>n status j f. serve P (state_file n) (''GET'', ''/health'', []) = (Answer status j, f) \<longrightarrow>
        (\<exists>n'. http_request (machine H) (base @ ''/health'') [] n = (Some (status, json_text H j), n') \<and> state_file n' = f)) \<and>
     (\<forall>n body status j f. serve P (state_file n) (''POST'', ''/invoke'', body) = (Answer status j, f) \<longrightarrow>
        (\<exists>n'. http_request (machine H) (base @ ''/invoke'') body n = (Some (status, json_text H j), n') \<and> state_file n' = f))"

text \<open>
  What is used of JSON: an object that starts with \<open>ok: true\<close> prints as such and parses to one with that
  property; the simulator parses the bootstrap request as what the script printed.
\<close>

definition json_documented :: "'n hetero \<Rightarrow> fabric_host \<Rightarrow> bool" where
  "json_documented H P \<longleftrightarrow>
     (\<forall>ms. str_includes (json_text H (JsonObject ((''ok'', JsonBool True) # ms))) ''\"ok\":true'' \<and>
        (\<exists>j. parse_json (tools H) (json_text H (JsonObject ((''ok'', JsonBool True) # ms))) = Inr j \<and>
           json_get j ''ok'' = Some (JsonBool True))) \<and>
     json_text H bootstrap_request \<noteq> [] \<and> parse_body P (json_text H bootstrap_request) = Inr bootstrap_request \<and>
     url_pathname P ''/health'' = Inr ''/health'' \<and> url_pathname P ''/invoke'' = Inr ''/invoke''"

text \<open>The state a bootstrap request of the deployment leaves in the file.\<close>

definition bootstrapped :: "fabric_state \<Rightarrow> fabric_state" where
  "bootstrapped s = saveState ((nextBlock s)\<lparr>fb_bridge := ''xbridge_bc3'', fb_price := Some (Whole 100),
     fb_remain := Some (Whole 2000), fb_lockSize := Some (Whole 1), fb_relayer := ''xsmart-relayer''\<rparr>)"

lemma bootstrap_request_fields:
  "sim_text bootstrap_request ''endpoint'' [] = ''xbridge_bc3''" "sim_text bootstrap_request ''message'' [] = ''bootstrap''"
  "bootstrap P (request_args bootstrap_request) s = s\<lparr>fb_bridge := ''xbridge_bc3'', fb_price := Some (Whole 100),
     fb_remain := Some (Whole 2000), fb_lockSize := Some (Whole 1), fb_relayer := ''xsmart-relayer''\<rparr>"
proof -
  have n: "text_number (other_numeral P) (show_int 100) = Whole 100" "text_number (other_numeral P) (show_int 2000) = Whole 2000"
    "text_number (other_numeral P) (show_int 1) = Whole 1" "show_int 100 \<noteq> ''0''" "show_int 2000 \<noteq> ''0''" "show_int 1 \<noteq> ''0''"
    by code_simp+
  show "sim_text bootstrap_request ''endpoint'' [] = ''xbridge_bc3''" "sim_text bootstrap_request ''message'' [] = ''bootstrap''"
    by (simp_all add: bootstrap_request_def sim_text_def)
  show "bootstrap P (request_args bootstrap_request) s = s\<lparr>fb_bridge := ''xbridge_bc3'', fb_price := Some (Whole 100),
     fb_remain := Some (Whole 2000), fb_lockSize := Some (Whole 1), fb_relayer := ''xsmart-relayer''\<rparr>"
    using n by (simp add: bootstrap_def bootstrap_request_def request_args_def sim_text_def sim_num_def CONSTS_def)
qed

lemma serve_bootstrap:
  assumes "json_documented H P"
  shows "\<exists>ms. serve P f0 (''POST'', ''/invoke'', json_text H bootstrap_request) =
    (Answer 200 (JsonObject ((''ok'', JsonBool True) # ms)), Some (bootstrapped (fst (loadState f0))))"
proof -
  have d: "json_text H bootstrap_request \<noteq> []" "parse_body P (json_text H bootstrap_request) = Inr bootstrap_request"
    "url_pathname P ''/invoke'' = Inr ''/invoke''" using assms by (simp_all add: json_documented_def)
  have "bootstrap_request \<noteq> JsonNull" by (simp add: bootstrap_request_def)
  moreover have "\<exists>r. invoke P s ''xbridge_bc3'' ''bootstrap'' (request_args bootstrap_request) = Inr r \<and>
      saveState (fi_state r) = bootstrapped s" for s
    by (simp add: invoke_def Let_def bootstrap_request_fields bootstrapped_def)
  moreover obtain s f1 where l: "loadState f0 = (s, f1)" by (cases "loadState f0")
  ultimately obtain r where "invoke P s ''xbridge_bc3'' ''bootstrap'' (request_args bootstrap_request) = Inr r"
    "saveState (fi_state r) = bootstrapped s" "bootstrap_request \<noteq> JsonNull" by blast
  then show ?thesis
    using d l by (simp add: serve_def begin_request_def finish_request_def invoke_body_def readBody_def bootstrap_request_fields)
qed

lemma serve_health:
  assumes "url_pathname P ''/health'' = Inr ''/health''"
  shows "\<exists>ms f. serve P f0 (''GET'', ''/health'', []) = (Answer 200 (JsonObject ((''ok'', JsonBool True) # ms)), f)"
  using assms by (cases "loadState f0") (simp add: serve_def begin_request_def)

lemma entries_recorded: "\<exists>t. record_entries es s = (Inr (), t) \<and> ws_node t = ws_node s"
proof -
  have "\<exists>t. for_each es (\<lambda>(k, v). record_entry k v) s = (Inr (), t) \<and> ws_node t = ws_node s"
  proof (induction es arbitrary: s)
    case (Cons e es)
    obtain k v where e: "e = (k, v)" by (cases e)
    show ?case using Cons.IH [of "s\<lparr>ws_rec := set_contract k v (ws_rec s)\<rparr>"] e by (simp add: await_def record_entry_def)
  qed (simp add: give_apply)
  then show ?thesis by (simp add: record_entries_def)
qed

lemma includes_nonempty: "str_includes t (c # cs) \<Longrightarrow> t \<noteq> []"
  by (auto simp: str_includes_iff)

text \<open>
  C21. The local deployment of bc3 on its simulator. When the simulator listens at the node's address, the health
  probe succeeds. When the node has been started, deployLocal returns, and the simulator's file holds the
  deployment's bridge, relayer, price, rooms and lock size; locks, lockedTotal, accounts and bookings of an
  earlier run are still there, with the block counter advanced by one.
\<close>

theorem bc3_bootstrap_served:
  assumes sim: "simulator_at H P state_file (ln_url (bc3_node (ws_env s)))" and json: "json_documented H P"
    and url: "parse_url H (ln_url (bc3_node (ws_env s)) @ ''/invoke'') = Inr u"
    and up: "ensureLocalBC3Fabric (machine H) (ws_env s) root (ws_node s) = Some (Inr (), n)"
  shows "fst (health (machine H) (ln_url (bc3_node (ws_env s))) n') \<and>
    (\<exists>s'. deployLocal H root s = Some (Inr (), s') \<and>
       state_file (ws_node s') = Some (bootstrapped (fst (loadState (state_file n)))))"
proof
  let ?url = "ln_url (bc3_node (ws_env s))"
  note doc = json[unfolded json_documented_def]
  obtain ms f where h: "serve P (state_file n') (''GET'', ''/health'', []) = (Answer 200 (JsonObject ((''ok'', JsonBool True) # ms)), f)"
    using serve_health doc by blast
  obtain n2 where "http_request (machine H) (?url @ ''/health'') [] n' =
      (Some (200, json_text H (JsonObject ((''ok'', JsonBool True) # ms))), n2)"
    using sim h unfolding simulator_at_def by blast
  then show "fst (health (machine H) ?url n')" using doc by (simp add: health_def)
  let ?body = "json_text H bootstrap_request" and ?f = "bootstrapped (fst (loadState (state_file n)))"
  obtain ms where b: "serve P (state_file n) (''POST'', ''/invoke'', ?body) = (Answer 200 (JsonObject ((''ok'', JsonBool True) # ms)), Some ?f)"
    using serve_bootstrap [OF json] by blast
  obtain n3 where n3: "http_request (machine H) (?url @ ''/invoke'') ?body n =
      (Some (200, json_text H (JsonObject ((''ok'', JsonBool True) # ms))), n3)" "state_file n3 = Some ?f"
    using sim b unfolding simulator_at_def by blast
  obtain j where j: "parse_json (tools H) (json_text H (JsonObject ((''ok'', JsonBool True) # ms))) = Inr j"
    "json_get j ''ok'' = Some (JsonBool True)" using doc by blast
  have raw: "json_text H (JsonObject ((''ok'', JsonBool True) # ms)) \<noteq> []"
    using doc by (auto dest: includes_nonempty)
  have post: "postJSON H (?url @ ''/invoke'') bootstrap_request (s\<lparr>ws_node := n\<rparr>) = (Inr j, s\<lparr>ws_node := n3\<rparr>)"
    using url n3 j raw by (simp add: postJSON_def await_def of_res_apply)
  show "\<exists>s'. deployLocal H root s = Some (Inr (), s') \<and> state_file (ws_node s') = Some ?f"
  proof -
    let ?es = "[(''hotelBooking'', ''hotel_booking''), (''xBridgeBc3'', ''xbridge_bc3''),
          (''bc3FabricHttp'', js_or (env_text (ws_env s) ''BC3_FABRIC_HTTP_URL'') ?url),
          (''bc3ChainId'', js_or (env_text (ws_env s) ''BC3_FABRIC_CHAIN_ID'') ''3''),
          (''bc3NetworkId'', js_or (env_text (ws_env s) ''BC3_FABRIC_NETWORK_ID'') ''local-simulator'')]"
    have "on_machine_open (ensureLocalBC3Fabric (machine H) (ws_env s) root) s = Some (Inr (), s\<lparr>ws_node := n\<rparr>)"
      using up by (simp add: on_machine_open_def)
    moreover obtain t where "record_entries ?es (s\<lparr>ws_node := n3\<rparr>) = (Inr (), t)" "ws_node t = n3"
      using entries_recorded [of ?es "s\<lparr>ws_node := n3\<rparr>"] by auto
    ultimately show ?thesis
      using post n3(2) j(2) by (auto simp: deployLocal_def Let_def then_open_def lift_script_def await_def)
  qed
qed

subsection \<open>The simulator on a machine\<close>

text \<open>The node's state is the simulator's file; Docker reports the container as running.\<close>

definition fabric_node_url :: string where
  "fabric_node_url = ln_url (bc3_node Map.empty)"

definition node_fabric :: fabric_host where
  "node_fabric = example_fabric\<lparr>parse_body := (\<lambda>t. Inr bootstrap_request)\<rparr>"

definition node_print :: "json \<Rightarrow> string" where
  "node_print j = (if j = bootstrap_request then ''bootstrap'' else ''{\"ok\":true}'')"

definition node_serves :: "string \<Rightarrow> string \<Rightarrow> fabric_state option \<Rightarrow> (nat \<times> string) option \<times> fabric_state option" where
  "node_serves url body f =
     (case serve node_fabric f (if url = fabric_node_url @ ''/health'' then (''GET'', ''/health'', []) else (''POST'', ''/invoke'', body)) of
        (Answer status j, f') \<Rightarrow> (Some (status, node_print j), f')
      | (_, f') \<Rightarrow> (None, f'))"

definition fabric_hetero :: "fabric_state option hetero" where
  "fabric_hetero = \<lparr>
     machine = \<lparr>exec_file = (\<lambda>d command args f. (Inr ''true'', f)), http_request = node_serves, now_ms = (\<lambda>f. 0), sleep_ms = (\<lambda>ms f. f)\<rparr>,
     tools = \<lparr>repoRoot = ''/repo'', file_text = (\<lambda>_. None), parse_json = (\<lambda>_. Inr (JsonObject [(''ok'', JsonBool True)])),
       parse_storage_map = (\<lambda>_. Inl ''no map''), stringify_map = (\<lambda>_. []), localeCompare = (\<lambda>a b. 0), hexlify = (\<lambda>_. ''0x''),
       sha256 = id, keccak256_text = id, getAddress = Inr, Number_of = (\<lambda>_. None)\<rparr>,
     read_text = (\<lambda>p n. None), windows = False, launch = (\<lambda>p n. n),
     parse_url = (\<lambda>u. Inr \<lparr>url_protocol = ''http:'', url_hostname = ''127.0.0.1'', url_port = ''18645''\<rparr>),
     json_text = node_print, process_pid = 1, timestamp = (\<lambda>n. [])\<rparr>"

definition fabric_session :: "fabric_state option hetero_session" where
  "fabric_session = \<lparr>ws_node = None, ws_env = Map.empty, ws_rec = loadDeployment (\<lambda>_ _. None) ''xsmart'' ''bc3'', ws_disk = (\<lambda>_ _. None)\<rparr>"

lemma bootstrap_not_ok: "JsonObject ((''ok'', b) # ms) \<noteq> bootstrap_request"
  by (simp add: bootstrap_request_def)

lemma fabric_hetero_simulates: "simulator_at fabric_hetero node_fabric id fabric_node_url"
  by (simp add: simulator_at_def fabric_hetero_def node_serves_def)

lemma fabric_hetero_json: "json_documented fabric_hetero node_fabric"
proof -
  have "str_includes ''{\"ok\":true}'' ''\"ok\":true''" by code_simp
  then show ?thesis
    by (simp add: json_documented_def fabric_hetero_def node_print_def bootstrap_not_ok node_fabric_def example_fabric_def)
qed

lemma fabric_hetero_up:
  "\<exists>n. ensureLocalBC3Fabric (machine fabric_hetero) Map.empty root f = Some (Inr (), n)"
proof -
  have t: "js_trim ''true'' = ''true''" by code_simp
  have "prepare_node (machine fabric_hetero) Map.empty root (bc3_node Map.empty) f = (Inr (), f)"
    by (simp add: prepare_node_def imageExists_def containerRunning_def tryRun_def run_command_def some_text_def
        recover_def await_def give_apply fabric_hetero_def t)
  moreover have "fst (health (machine fabric_hetero) fabric_node_url f)"
  proof -
    obtain ms f' where h: "serve node_fabric f (''GET'', ''/health'', []) = (Answer 200 (JsonObject ((''ok'', JsonBool True) # ms)), f')"
      using serve_health [of node_fabric f] by (auto simp: node_fabric_def example_fabric_def)
    have "str_includes ''{\"ok\":true}'' ''\"ok\":true''" by code_simp
    with h show ?thesis by (simp add: health_def fabric_hetero_def node_serves_def node_print_def bootstrap_not_ok)
  qed
  moreover have "now_ms (machine fabric_hetero) f < now_ms (machine fabric_hetero) f + ln_timeout (bc3_node Map.empty)"
    by (simp add: bc3_node_def)
  ultimately show ?thesis
    by (cases "health (machine fabric_hetero) fabric_node_url f")
      (simp add: ensureLocalBC3Fabric_def ensure_local_def waitReady_def wait_until.simps fabric_node_url_def)
qed

theorem bc3_bootstrap_served_witness:
  "\<exists>s' f. deployLocal fabric_hetero ''/repo'' fabric_session = Some (Inr (), s') \<and>
     ws_node s' = Some (bootstrapped (fst (loadState f)))"
proof -
  obtain n where n: "ensureLocalBC3Fabric (machine fabric_hetero) (ws_env fabric_session) ''/repo'' (ws_node fabric_session) = Some (Inr (), n)"
    using fabric_hetero_up by (auto simp: fabric_session_def)
  have e: "ln_url (bc3_node (ws_env fabric_session)) = fabric_node_url" by (simp add: fabric_session_def fabric_node_url_def)
  have u: "parse_url fabric_hetero (fabric_node_url @ ''/invoke'') = Inr \<lparr>url_protocol = ''http:'', url_hostname = ''127.0.0.1'', url_port = ''18645''\<rparr>"
    by (simp add: fabric_hetero_def)
  show ?thesis
    using bc3_bootstrap_served [of fabric_hetero node_fabric id fabric_session, unfolded e,
        OF fabric_hetero_simulates fabric_hetero_json u n, where n' = None] by auto
qed

end
