(* ===== verification/Render_Config.thy ===== *)
theory Render_Config
  imports Hetero_Session
begin

text \<open>
  The renderers of the relayer's files for the bridge: \<open>scripts/xsmart/render-config.ts\<close>,
  \<open>render-config-1a.ts\<close>, \<open>render-config-1b.ts\<close> and \<open>render-config-rq1c-depth.ts\<close>. Each reads deployment
  records and the environment and writes a manifest (JSON) and a configuration (YAML, a template of
  lines). Console output and \<open>ensureDir\<close> are left out; paths are those of a POSIX system.
\<close>

subsection \<open>What the renderers share\<close>

record call_node =
  contractAddr :: string
  selector :: string
  node_args :: string
  argChildIdx :: "int list"
  children :: "int list"

text \<open>
  The ethers library and Node: \<open>ethers.id\<close>, the ABI encoding of a call tree, the keccak256 of the encoding
  of a chain id and a hash, the address of a wallet, \<open>JSON.stringify(_, null, 2)\<close>, \<open>String(Number(t))\<close>
  and \<open>process.cwd()\<close>.
\<close>

record render_host =
  rh_ubtl :: ubtl_host
  ethers_id :: "string \<Rightarrow> string"
  abi_tree :: "call_node list \<Rightarrow> int \<Rightarrow> string res"
  abi_key_hash :: "int option \<Rightarrow> string \<Rightarrow> string res"
  wallet_address :: "string \<Rightarrow> string"
  json_indented :: "json \<Rightarrow> string"
  number_print :: "string \<Rightarrow> string"
  cwd :: string

type_synonym disk = "string \<Rightarrow> string \<Rightarrow> deployment option"

text \<open>The files written so far, in order.\<close>

type_synonym written = "(string \<times> string) list"

definition write_file :: "string \<Rightarrow> string \<Rightarrow> (written, unit) script" where
  "write_file p t w = (Inr (), w @ [(p, t)])"

definition manifestsDir :: "render_host \<Rightarrow> string \<Rightarrow> string" where
  "manifestsDir E system = path_join [repoRoot (rh_ubtl E), ''manifests'', system]"

definition relayerConfigDir :: "render_host \<Rightarrow> string" where
  "relayerConfigDir E = path_join [repoRoot (rh_ubtl E), ''configs'', ''relayer'']"

definition chainRuntimeConfig :: "process_env \<Rightarrow> string \<Rightarrow> chain_runtime_config" where
  "chainRuntimeConfig env chain = the (map_of (DEFAULT_CHAIN_CONFIGS env) chain)"

definition selectorOf :: "render_host \<Rightarrow> string \<Rightarrow> string" where
  "selectorOf E signature = take 10 (ethers_id E signature)"

definition hotel_node :: "render_host \<Rightarrow> string \<Rightarrow> int list \<Rightarrow> call_node" where
  "hotel_node E translated cs =
     \<lparr>contractAddr = translated, selector = selectorOf E ''GetAvailableRemain()'', node_args = ''0x'', argChildIdx = [], children = cs\<rparr>"

definition callTreeForDepth :: "render_host \<Rightarrow> nat \<Rightarrow> string \<Rightarrow> call_node list" where
  "callTreeForDepth E depth translated =
     map (\<lambda>index. hotel_node E translated (if index = 0 then [] else [int index - 1])) [0..<max 1 (depth - 1)]"

definition hotelTranslationKey :: "render_host \<Rightarrow> process_env \<Rightarrow> string res" where
  "hotelTranslationKey E env =
     res_bind (resolveHotelSourceContractHash (rh_ubtl E) env) (\<lambda>h.
     abi_key_hash E (sourceChainIdForVM (rh_ubtl E) env Fabric_vm) h)"

text \<open>\<open>PRIVATE_KEYS.relayer\<close>'s account, the user of the benchmarks.\<close>

definition benchmarkUser :: "render_host \<Rightarrow> string" where
  "benchmarkUser E = wallet_address E (with_0x relayer_key)"

text \<open>\<open>process.env.X || rec.contracts["k"] || fallback\<close>\<close>

definition env_or_recorded :: "process_env \<Rightarrow> string \<Rightarrow> deployment \<Rightarrow> string \<Rightarrow> string \<Rightarrow> string" where
  "env_or_recorded env name d key fallback = js_or (env_text env name) (js_or (contract_at d key) fallback)"

definition json_int :: "int \<Rightarrow> json" where
  "json_int n = JsonNumber (show_int n)"

definition json_nat :: "nat \<Rightarrow> json" where
  "json_nat n = JsonNumber (show_nat n)"

text \<open>Lines of a template; a quoted scalar.\<close>

definition template :: "string list \<Rightarrow> string" where
  "template ls = join [CHR 0x0A] ls"

definition quoted :: "string \<Rightarrow> string" where
  "quoted v = ''\"'' @ v @ ''\"''"

text \<open>The tree, its key and its hash, evaluated in this order in each manifest.\<close>

definition tree_fields :: "render_host \<Rightarrow> process_env \<Rightarrow> call_node list \<Rightarrow> int \<Rightarrow> (string \<times> json) list res" where
  "tree_fields E env nodes root =
     res_bind (abi_tree E nodes root) (\<lambda>blob.
     res_bind (hotelTranslationKey E env) (\<lambda>key.
     res_bind (resolveHotelTranslatedIRHashFromSource (rh_ubtl E)) (\<lambda>ir.
     Inr [(''call_tree_blob'', JsonString blob), (''translation_keys'', JsonArray [JsonString key]),
       (''peer_ir_hashes'', JsonArray [JsonString ir])])))"

text \<open>The addresses of the bridge's contracts, in the order in which the templates ask for them.\<close>

definition bridge_lines :: "deployment \<Rightarrow> string list res" where
  "bridge_lines d =
     res_bind (requireContractAddress d ''xBridgingContract'') (\<lambda>bridge.
     res_bind (requireContractAddress d ''ubtlRegistry'') (\<lambda>registry.
     res_bind (requireContractAddress d ''relayerManager'') (\<lambda>manager.
     res_bind (requireContractAddress d ''lightClient'') (\<lambda>lc.
     Inr [''contracts:'', ''  xsmart:'', ''    bc1:'', ''      xbridging_contract: '' @ quoted bridge,
       ''      ubtl_registry: '' @ quoted registry, ''      relayer_manager: '' @ quoted manager,
       ''      light_client: '' @ quoted lc]))))"

definition relayer_lines :: "string \<Rightarrow> string \<Rightarrow> string list" where
  "relayer_lines title i =
     [''title: '' @ quoted title, [], ''protocol: \"xsmart\"'', [], ''relayer:'', ''  id: '' @ quoted i, ''  log_level: \"debug\"'',
      ''  workers: 4'', ''  private_key: '' @ quoted relayer_key]"

definition chain_lines :: "string \<Rightarrow> string \<Rightarrow> nat \<Rightarrow> string list \<Rightarrow> chain_runtime_config \<Rightarrow> string list" where
  "chain_lines key name chain_id finality c =
     [''  '' @ key @ '':'', ''    name: '' @ quoted name, ''    vm: \"evm\"'', ''    chain_id: '' @ show_nat chain_id] @ finality @
     [''    rpc_url: '' @ quoted (rpcUrl c), ''    http_url: '' @ quoted (httpUrl c)]"

definition own_chain_lines :: "string \<Rightarrow> string list \<Rightarrow> chain_runtime_config \<Rightarrow> string list" where
  "own_chain_lines key finality c = chain_lines key (cfg_name c) (cfg_chainId c) finality c"

definition toPortable :: "string \<Rightarrow> string" where
  "toPortable v = join ''/'' (split_char (CHR ''/'') v)"

definition manifest_lines :: "string \<Rightarrow> string list" where
  "manifest_lines manifestPath =
     [''xsmart:'', ''  manifest: '' @ quoted (toPortable manifestPath), ''  service_id: \"travel\"'', ''  wasm_lock_num: 1'',
      ''  wasm_timeout_blocks: 30'', []]"

text \<open>A target on an EVM chain: its bridge and its state contract are asked for in this order.\<close>

definition evm_target :: "string \<Rightarrow> string \<Rightarrow> string \<Rightarrow> string \<Rightarrow> string \<Rightarrow> int \<Rightarrow> json" where
  "evm_target chain bridge state kind user cost = JsonObject
     [(''vm'', JsonString ''evm''), (''chain'', JsonString chain), (''bridge_contract'', JsonString bridge),
      (''state_contracts'', JsonArray [JsonString state]), (''lock_num'', json_int 1), (''timeout_blocks'', json_int 30),
      (''update'', JsonObject [(''kind'', JsonString kind), (''user'', JsonString user), (''num'', json_int 1),
        (''total_cost'', json_int cost)])]"

definition recorded_target :: "render_host \<Rightarrow> deployment \<Rightarrow> string \<Rightarrow> string \<Rightarrow> string \<Rightarrow> int \<Rightarrow> json res" where
  "recorded_target E d chain key kind cost =
     res_bind (requireContractAddress d ''xBridgingContract'') (\<lambda>bridge.
     res_bind (requireContractAddress d key) (\<lambda>state.
     Inr (evm_target chain bridge state kind (benchmarkUser E) cost)))"

subsection \<open>render-config.ts\<close>

definition bc2_endpoint :: "process_env \<Rightarrow> deployment \<Rightarrow> string" where
  "bc2_endpoint env d2 = env_or_recorded env ''XSMART_BC2_ACCOUNT_ENDPOINT'' d2 ''xBridgeBc2'' []"

definition bc3_endpoint :: "process_env \<Rightarrow> deployment \<Rightarrow> string" where
  "bc3_endpoint env d3 = env_or_recorded env ''XSMART_BC3_ACCOUNT_ENDPOINT'' d3 ''xBridgeBc3'' []"

definition bc2_user :: "process_env \<Rightarrow> string" where
  "bc2_user env = js_or (env_text env ''XSMART_BC2_USER'') ''5GrwvaEF5zXb26Fz9rcQpDWS57CtERHpNehXCPcNoHGKutQY''"

definition bridge_bc2_metadata :: "render_host \<Rightarrow> string" where
  "bridge_bc2_metadata E = toPortable (path_join
     [cwd E, ''contracts'', ''xsmart'', ''bc2'', ''bridge'', ''target'', ''ink'', ''xbridge_bc2.contract''])"

definition update_json :: "string \<Rightarrow> int \<Rightarrow> json" where
  "update_json user cost = JsonObject [(''user'', JsonString user), (''num'', json_int 1), (''total_cost'', json_int cost)]"

definition hasBc2 :: "deployment \<Rightarrow> bool" where
  "hasBc2 d2 \<longleftrightarrow> contract_at d2 ''xBridgeBc2'' \<noteq> []"

definition hasBc3 :: "deployment \<Rightarrow> bool" where
  "hasBc3 d3 \<longleftrightarrow> contract_at d3 ''xBridgeBc3'' \<noteq> []"

definition threshold :: "deployment \<Rightarrow> deployment \<Rightarrow> int" where
  "threshold d2 d3 =
     (let n = (if hasBc2 d2 then 1 else 0) + (if hasBc3 d3 then 1 else 0) in if n = 0 then 1 else n)"

definition wasm_target :: "process_env \<Rightarrow> deployment \<Rightarrow> json" where
  "wasm_target env d2 = JsonObject
     [(''chain'', JsonString ''bc2''), (''contract'', JsonString ''xbridge_bc2''),
      (''state_contract'', JsonString (contract_at d2 ''trainBooking'')), (''lock_num'', json_int 1),
      (''timeout_blocks'', json_int 30), (''update'', update_json (bc2_user env) 50)]"

definition fabric_target :: "deployment \<Rightarrow> json" where
  "fabric_target d3 = JsonObject
     [(''chain'', JsonString ''bc3''), (''contract'', JsonString ''xbridge_bc3''),
      (''state_contract'', JsonString (js_or (contract_at d3 ''hotelBooking'') ''hotel_booking'')), (''lock_num'', json_int 1),
      (''timeout_blocks'', json_int 30), (''update'', update_json ''fabric-user'' 100)]"

definition buildManifest :: "render_host \<Rightarrow> process_env \<Rightarrow> deployment \<Rightarrow> deployment \<Rightarrow> deployment \<Rightarrow> json res" where
  "buildManifest E env d1 d2 d3 =
     res_bind (requireContractAddress d1 ''hotelBookingTranslated'') (\<lambda>translated.
     res_bind (tree_fields E env [hotel_node E translated []] 0) (\<lambda>tree.
     Inr (JsonObject
       ([(''workflow_id'', JsonString ''xsmart-train-wasm''), (''service_id'', JsonString ''travel''),
         (''root_chain'', JsonString ''bc1''), (''root_chain_id'', json_int 1),
         (''execute_threshold'', json_int (threshold d2 d3)), (''update_ack_threshold'', json_int (threshold d2 d3))] @ tree @
        (if hasBc2 d2 then [(''wasm'', wasm_target env d2)] else []) @
        (if hasBc3 d3 then [(''fabric'', fabric_target d3)] else [])))))"

definition bc2WasmChainId :: "render_host \<Rightarrow> process_env \<Rightarrow> deployment \<Rightarrow> string" where
  "bc2WasmChainId E env d2 = number_print E (env_or_recorded env ''BC2_WASM_CHAIN_ID'' d2 ''bc2ChainId'' ''1338'')"

text \<open>The section of the WASM chain, when there is an endpoint.\<close>

definition bc2_yaml :: "render_host \<Rightarrow> process_env \<Rightarrow> deployment \<Rightarrow> string list" where
  "bc2_yaml E env d2 =
     (let endpoint = normalizeWasmAccount (bc2_endpoint env d2); chain = bc2WasmChainId E env d2 in
      if bc2_endpoint env d2 = [] then []
      else [''  bc2:'', ''    name: \"WASM Train Chain\"'', ''    vm: \"wasm\"'', ''    chain_id: '' @ chain,
        ''    finality_blocks: '' @ number_print E (js_or (env_text env ''XSMART_BC2_FINALITY_BLOCKS'') ''1''),
        ''    rpc_url: '' @ quoted (env_or_recorded env ''BC2_WASM_HTTP_URL'' d2 ''bc2RpcHttp'' ''http://127.0.0.1:18545''),
        ''    ws_url: '' @ quoted (env_or_recorded env ''BC2_WASM_WS_URL'' d2 ''bc2RpcWs'' ''ws://127.0.0.1:18545''),
        ''    metadata_path: '' @ quoted (env_or_recorded env ''XSMART_BC2_METADATA_PATH'' d2 ''bc2BridgeMetadataPath''
          (js_or (contract_at d2 ''bc2MetadataPath'') (bridge_bc2_metadata E))),
        ''    account_endpoint: '' @ quoted endpoint,
        ''    submitter_uri: '' @ quoted (env_or_recorded env ''XSMART_BC2_SURI'' d2 ''bc2SubmitterURI'' ''//Alice''),
        ''    labels:'',
        ''      network_id: '' @ quoted (env_or_recorded env ''BC2_WASM_NETWORK_ID'' d2 ''bc2NetworkId'' (''substrate-'' @ chain)),
        ''      endpoint_identity: '' @ quoted endpoint])"

definition fabric_lines :: "process_env \<Rightarrow> deployment \<Rightarrow> string \<Rightarrow> string list" where
  "fabric_lines env d3 gateway =
     [''    fabric_gateway_endpoint: '' @ quoted gateway,
      ''    fabric_channel: '' @ quoted (env_or_recorded env ''BC3_FABRIC_CHANNEL'' d3 ''bc3FabricChannel'' []),
      ''    fabric_chaincode: '' @ quoted (env_or_recorded env ''BC3_FABRIC_CHAINCODE'' d3 ''bc3FabricChaincode'' []),
      ''    fabric_msp_id: '' @ quoted (env_or_recorded env ''BC3_FABRIC_MSP_ID'' d3 ''bc3FabricMSPID'' []),
      ''    fabric_user_cert_path: '' @ quoted (toPortable (env_or_recorded env ''BC3_FABRIC_USER_CERT_PATH'' d3 ''bc3FabricUserCertPath'' [])),
      ''    fabric_user_key_path: '' @ quoted (toPortable (env_or_recorded env ''BC3_FABRIC_USER_KEY_PATH'' d3 ''bc3FabricUserKeyPath'' [])),
      ''    fabric_tls_cert_path: '' @ quoted (toPortable (env_or_recorded env ''BC3_FABRIC_TLS_CERT_PATH'' d3 ''bc3FabricTLSCertPath'' [])),
      ''    fabric_peer_name: '' @ quoted (env_or_recorded env ''BC3_FABRIC_PEER_NAME'' d3 ''bc3FabricPeerName'' [])]"

definition bc3_http :: "process_env \<Rightarrow> deployment \<Rightarrow> string" where
  "bc3_http env d3 = env_or_recorded env ''BC3_FABRIC_HTTP_URL'' d3 ''bc3FabricHttp'' ''http://127.0.0.1:18645''"

definition bc3_yaml :: "render_host \<Rightarrow> process_env \<Rightarrow> deployment \<Rightarrow> string list" where
  "bc3_yaml E env d3 =
     (let gateway = env_or_recorded env ''BC3_FABRIC_GATEWAY_ENDPOINT'' d3 ''bc3FabricGatewayEndpoint'' [];
          endpoint = (if gateway \<noteq> [] then normalizeFabricIdentifier (bc3_endpoint env d3) else bc3_endpoint env d3);
          channel = env_or_recorded env ''BC3_FABRIC_CHANNEL'' d3 ''bc3FabricChannel'' [] in
      if bc3_endpoint env d3 = [] then []
      else [''  bc3:'', ''    name: \"Fabric Hotel Chain\"'', ''    vm: \"fabric\"'',
        ''    chain_id: '' @ number_print E (env_or_recorded env ''BC3_FABRIC_CHAIN_ID'' d3 ''bc3ChainId'' ''3''),
        ''    finality_blocks: '' @ number_print E (js_or (env_text env ''XSMART_BC3_FINALITY_BLOCKS'') ''1''),
        ''    rpc_url: '' @ quoted (bc3_http env d3), ''    http_url: '' @ quoted (bc3_http env d3),
        ''    account_endpoint: '' @ quoted endpoint] @
        (if gateway \<noteq> [] then fabric_lines env d3 gateway else []) @
        [''    labels:'',
         ''      network_id: '' @ quoted (env_or_recorded env ''BC3_FABRIC_NETWORK_ID'' d3 ''bc3NetworkId'' (js_or channel ''mychannel'')),
         ''      endpoint_identity: '' @ quoted endpoint])"

definition proof_lines :: "string \<Rightarrow> string list" where
  "proof_lines confirmations =
     [''proof:'', ''  max_retry: 3'', ''  retry_delay_ms: 1000'', ''  confirmation_blocks: '' @ confirmations]"

definition relay_lines :: "string \<Rightarrow> string list" where
  "relay_lines timeout = [''relay:'', ''  timeout_seconds: '' @ timeout, ''  max_pending: 100'']"

definition xsmart_yaml ::
    "render_host \<Rightarrow> process_env \<Rightarrow> deployment \<Rightarrow> deployment \<Rightarrow> deployment \<Rightarrow> string \<Rightarrow> string list res" where
  "xsmart_yaml E env d1 d2 d3 manifestPath =
     (let finality = number_print E (js_or (env_text env ''XSMART_BC1_FINALITY_BLOCKS'') ''4'') in
      res_bind (bridge_lines d1) (\<lambda>contracts. Inr
        (relayer_lines ''XSmart Relayer Configuration'' ''xsmart-relayer'' @ [[], ''chains:''] @
         own_chain_lines ''bc1'' [''    finality_blocks: '' @ finality] (chainRuntimeConfig env ''bc1'') @
         [[]] @ bc2_yaml E env d2 @ bc3_yaml E env d3 @ [[]] @ contracts @ [[]] @
         proof_lines (number_print E (js_or (env_text env ''XSMART_PROOF_CONFIRMATION_BLOCKS'') finality)) @ [[]] @
         relay_lines ''60'' @ [[]] @ manifest_lines manifestPath)))"

definition render_config :: "render_host \<Rightarrow> process_env \<Rightarrow> disk \<Rightarrow> (written, unit) script" where
  "render_config E env dk =
     (let d1 = loadDeployment dk ''xsmart'' ''bc1''; d2 = loadDeployment dk ''xsmart'' ''bc2'';
          d3 = loadDeployment dk ''xsmart'' ''bc3'';
          configPath = path_join [relayerConfigDir E, ''config-xsmart.yaml''];
          manifestPath = path_join [manifestsDir E ''xsmart'', ''travel-hetero.generated.json''] in
      await (of_res (buildManifest E env d1 d2 d3)) (\<lambda>manifest.
      await (write_file manifestPath (json_indented E manifest)) (\<lambda>_.
      await (of_res (xsmart_yaml E env d1 d2 d3 manifestPath)) (\<lambda>ls.
      write_file configPath (template ls)))))"

subsection \<open>render-config-1a.ts\<close>

text \<open>The lines of the two files for EVM chains only: three chains, and the bridges of two of them.\<close>

definition evm_yaml :: "process_env \<Rightarrow> string \<Rightarrow> string \<Rightarrow> string list \<Rightarrow> string \<Rightarrow> string \<Rightarrow> string \<Rightarrow> string list" where
  "evm_yaml env title i contracts bridge2 bridge3 manifestPath =
     relayer_lines title i @ [[], ''chains:''] @ own_chain_lines ''bc1'' [] (chainRuntimeConfig env ''bc1'') @
     own_chain_lines ''bc2'' [] (chainRuntimeConfig env ''bc2'') @ own_chain_lines ''bc3'' [] (chainRuntimeConfig env ''bc3'') @
     [[]] @ contracts @
     [''    bc2:'', ''      xbridging_contract: '' @ quoted bridge2, ''    bc3:'', ''      xbridging_contract: '' @ quoted bridge3, []] @
     proof_lines ''1'' @ [[]] @ relay_lines ''120'' @ [[]] @ manifest_lines manifestPath"

definition manifest_1a :: "render_host \<Rightarrow> process_env \<Rightarrow> string \<Rightarrow> string \<Rightarrow> string \<Rightarrow> string \<Rightarrow> string \<Rightarrow> json res" where
  "manifest_1a E env translated bc2Bridge bc3Bridge bc2Hotel bc3Train =
     res_bind (tree_fields E env [hotel_node E translated []] 0) (\<lambda>tree.
     Inr (JsonObject
       ([(''workflow_id'', JsonString ''xsmart-travel-evm-1a''), (''service_id'', JsonString ''travel''),
         (''root_chain'', JsonString ''bc1''), (''root_chain_id'', json_int 1), (''root_node_index'', json_int 0),
         (''execute_threshold'', json_int 2), (''update_ack_threshold'', json_int 2)] @ tree @
        [(''targets'', JsonArray
          [evm_target ''bc2'' bc2Bridge bc2Hotel ''hotel'' (benchmarkUser E) 100,
           evm_target ''bc3'' bc3Bridge bc3Train ''train'' (benchmarkUser E) 50])])))"

definition render_config_1a :: "render_host \<Rightarrow> process_env \<Rightarrow> disk \<Rightarrow> (written, unit) script" where
  "render_config_1a E env dk =
     (let d1 = loadDeployment dk ''xsmart'' ''bc1-1a''; d2 = loadDeployment dk ''xsmart'' ''bc2-evm'';
          d3 = loadDeployment dk ''xsmart'' ''bc3-evm'';
          configPath = path_join [relayerConfigDir E, ''config-xsmart-1a.yaml''];
          manifestPath = path_join [manifestsDir E ''xsmart'', ''travel-evm-1a.generated.json''] in
      await (of_res (requireContractAddress d1 ''hotelBookingTranslated'')) (\<lambda>translated.
      await (of_res (requireContractAddress d2 ''xBridgingContract'')) (\<lambda>bc2Bridge.
      await (of_res (requireContractAddress d3 ''xBridgingContract'')) (\<lambda>bc3Bridge.
      await (of_res (requireContractAddress d2 ''sHotel'')) (\<lambda>bc2Hotel.
      await (of_res (requireContractAddress d3 ''sTrain'')) (\<lambda>bc3Train.
      await (of_res (manifest_1a E env translated bc2Bridge bc3Bridge bc2Hotel bc3Train)) (\<lambda>manifest.
      await (write_file manifestPath (json_indented E manifest)) (\<lambda>_.
      await (of_res (bridge_lines d1)) (\<lambda>contracts.
      write_file configPath (template (evm_yaml env ''XSmart Relayer Configuration (RQ1a EVM)'' ''xsmart-relayer-1a''
        contracts bc2Bridge bc3Bridge manifestPath)))))))))))"

subsection \<open>render-config-1b.ts\<close>

definition targetsForDepth :: "render_host \<Rightarrow> nat \<Rightarrow> deployment \<Rightarrow> deployment \<Rightarrow> json list res" where
  "targetsForDepth E depth d2 d3 = res_mapM (\<lambda>(d, chain, key, kind, cost). recorded_target E d chain key kind cost)
     ((if depth \<ge> 2 then [(d2, ''bc2'', ''sHotel'', ''hotel'', 100)] else []) @
      (if depth \<ge> 3 then [(d3, ''bc3'', ''sTrain'', ''train'', 50)] else []) @
      (if depth \<ge> 4 then [(d2, ''bc2'', ''sFlight'', ''flight'', 200)] else []) @
      (if depth \<ge> 5 then [(d3, ''bc3'', ''sTaxi'', ''taxi'', 20)] else []))"

text \<open>The manifest of a depth, common to this renderer and the next.\<close>

definition depth_manifest ::
    "render_host \<Rightarrow> process_env \<Rightarrow> string \<Rightarrow> string \<Rightarrow> call_node list \<Rightarrow> json list \<Rightarrow> json res" where
  "depth_manifest E env workflow axis nodes targets =
     res_bind (tree_fields E env nodes (int (length nodes) - 1)) (\<lambda>tree.
     Inr (JsonObject
       ([(''workflow_id'', JsonString workflow), (''service_id'', JsonString ''travel''),
         (''root_chain'', JsonString ''bc1''), (''root_chain_id'', json_int 1), (''depth_axis'', JsonString axis),
         (''call_tree_node_count'', json_nat (length nodes)), (''root_node_index'', json_int (int (length nodes) - 1)),
         (''execute_threshold'', json_nat (length targets)), (''update_ack_threshold'', json_nat (length targets))] @ tree @
        [(''targets'', JsonArray targets)])))"

definition render_depth_1b ::
    "render_host \<Rightarrow> process_env \<Rightarrow> deployment \<Rightarrow> deployment \<Rightarrow> deployment \<Rightarrow> string \<Rightarrow> nat \<Rightarrow> (written, unit) script" where
  "render_depth_1b E env d1 d2 d3 translated depth =
     (let d = ''d'' @ show_nat depth;
          configPath = path_join [relayerConfigDir E, ''config-xsmart-1b-'' @ d @ ''.yaml''];
          manifestPath = path_join [manifestsDir E ''xsmart'', ''travel-evm-1b-'' @ d @ ''.generated.json''] in
      await (of_res (targetsForDepth E depth d2 d3)) (\<lambda>targets.
      await (of_res (depth_manifest E env (''xsmart-travel-evm-1b-'' @ d) ''call-tree-edge-depth-plus-service-targets''
        (callTreeForDepth E depth translated) targets)) (\<lambda>manifest.
      await (write_file manifestPath (json_indented E manifest)) (\<lambda>_.
      await (of_res (bridge_lines d1)) (\<lambda>contracts.
      await (of_res (requireContractAddress d2 ''xBridgingContract'')) (\<lambda>bridge2.
      await (of_res (requireContractAddress d3 ''xBridgingContract'')) (\<lambda>bridge3.
      write_file configPath (template (evm_yaml env (''XSmart Relayer Configuration (RQ1b depth '' @ show_nat depth @ '')'')
        (''xsmart-relayer-1b-'' @ d) contracts bridge2 bridge3 manifestPath)))))))))"

definition render_config_1b :: "render_host \<Rightarrow> process_env \<Rightarrow> disk \<Rightarrow> (written, unit) script" where
  "render_config_1b E env dk =
     (let d1 = loadDeployment dk ''xsmart'' ''bc1-1a''; d2 = loadDeployment dk ''xsmart'' ''bc2-evm'';
          d3 = loadDeployment dk ''xsmart'' ''bc3-evm'' in
      await (of_res (requireContractAddress d1 ''hotelBookingTranslated'')) (\<lambda>translated.
      for_each [2, 3, 4, 5] (render_depth_1b E env d1 d2 d3 translated)))"

subsection \<open>render-config-rq1c-depth.ts\<close>

text \<open>The argument after the first \<open>--depth\<close>, when there is one.\<close>

fun option_value :: "string \<Rightarrow> string list \<Rightarrow> string option" where
  "option_value name [] = None"
| "option_value name (a # as) = (if a = name then (case as of [] \<Rightarrow> None | v # vs \<Rightarrow> Some v) else option_value name as)"

definition getArg_depth :: "process_env \<Rightarrow> string list \<Rightarrow> string" where
  "getArg_depth env argv =
     (if env_trim env ''DEPTH'' \<noteq> [] then env_text env ''DEPTH''
      else case option_value ''--depth'' argv of Some v \<Rightarrow> v | None \<Rightarrow> ''2'')"

definition hetero_wasm_target :: "process_env \<Rightarrow> deployment \<Rightarrow> json" where
  "hetero_wasm_target env d2 = JsonObject
     [(''vm'', JsonString ''wasm''), (''chain'', JsonString ''bc2''), (''contract'', JsonString ''xbridge_bc2''),
      (''endpoint'', JsonString (normalizeWasmAccount (bc2_endpoint env d2))),
      (''state_contract'', JsonString (contract_at d2 ''trainBooking'')), (''lock_num'', json_int 1),
      (''timeout_blocks'', json_int 30), (''update'', update_json (bc2_user env) 50)]"

definition hetero_fabric_target :: "process_env \<Rightarrow> deployment \<Rightarrow> json" where
  "hetero_fabric_target env d3 = JsonObject
     [(''vm'', JsonString ''fabric''), (''chain'', JsonString ''bc3''), (''contract'', JsonString ''xbridge_bc3''),
      (''endpoint'', JsonString (normalizeFabricIdentifier (bc3_endpoint env d3))),
      (''state_contract'', JsonString (js_or (contract_at d3 ''hotelBooking'') ''HotelBooking'')), (''lock_num'', json_int 1),
      (''timeout_blocks'', json_int 30), (''update'', update_json ''fabric-user'' 100)]"

definition hetero_targets ::
    "render_host \<Rightarrow> process_env \<Rightarrow> nat \<Rightarrow> deployment \<Rightarrow> deployment \<Rightarrow> deployment \<Rightarrow> deployment \<Rightarrow> json list res" where
  "hetero_targets E env depth d2 d3 e2 e3 =
     res_bind (if depth \<ge> 3 then res_bind (recorded_target E e2 ''bc2evm'' ''sFlight'' ''flight'' 200) (\<lambda>t. Inr [t]) else Inr []) (\<lambda>flight.
     res_bind (if depth \<ge> 4 then res_bind (recorded_target E e3 ''bc3evm'' ''sTaxi'' ''taxi'' 20) (\<lambda>t. Inr [t]) else Inr []) (\<lambda>taxi.
     Inr ([hetero_wasm_target env d2, hetero_fabric_target env d3] @ flight @ taxi)))"

text \<open>\<open>.trim().toLowerCase().replace(/-/g, "_")\<close>\<close>

definition proofMode :: "process_env \<Rightarrow> string" where
  "proofMode env = map (\<lambda>c. if c = CHR ''-'' then CHR ''_'' else c) (to_lower (js_trim
     (js_or (env_text env ''XSMART_RQ1C_PROOF_MODE'') (js_or (env_text env ''XSMART_PROOF_MODE'') ''production_proof''))))"

definition hetero_gateway :: "process_env \<Rightarrow> deployment \<Rightarrow> string" where
  "hetero_gateway env d3 = (if env ''XSMART_FORCE_LOCAL_BC3_SIMULATOR'' = Some ''1'' then []
     else env_or_recorded env ''BC3_FABRIC_GATEWAY_ENDPOINT'' d3 ''bc3FabricGatewayEndpoint'' [])"

definition hetero_evm_chains :: "process_env \<Rightarrow> nat \<Rightarrow> string list" where
  "hetero_evm_chains env depth =
     (if depth \<ge> 3 then chain_lines ''bc2evm'' ''EVM Payment/Flight Chain'' 22 [''    finality_blocks: 4''] (chainRuntimeConfig env ''bc2'') else []) @
     (if depth \<ge> 4 then chain_lines ''bc3evm'' ''EVM Loyalty/Taxi Chain'' 33 [''    finality_blocks: 4''] (chainRuntimeConfig env ''bc3'') else [])"

definition hetero_chains ::
    "render_host \<Rightarrow> process_env \<Rightarrow> nat \<Rightarrow> deployment \<Rightarrow> deployment \<Rightarrow> string list" where
  "hetero_chains E env depth d2 d3 =
     own_chain_lines ''bc1'' [''    finality_blocks: 4''] (chainRuntimeConfig env ''bc1'') @
     [[], ''  bc2:'', ''    name: \"WASM Train Chain\"'', ''    vm: \"wasm\"'', ''    chain_id: '' @ bc2WasmChainId E env d2,
      ''    finality_blocks: 1'',
      ''    rpc_url: '' @ quoted (env_or_recorded env ''BC2_WASM_HTTP_URL'' d2 ''bc2RpcHttp'' ''http://170.64.194.4:18545''),
      ''    ws_url: '' @ quoted (env_or_recorded env ''BC2_WASM_WS_URL'' d2 ''bc2RpcWs'' ''ws://170.64.194.4:18545''),
      ''    metadata_path: '' @ quoted (env_or_recorded env ''XSMART_BC2_METADATA_PATH'' d2 ''bc2BridgeMetadataPath'' (bridge_bc2_metadata E)),
      ''    account_endpoint: '' @ quoted (normalizeWasmAccount (bc2_endpoint env d2)),
      ''    submitter_uri: '' @ quoted (env_or_recorded env ''XSMART_BC2_SURI'' d2 ''bc2SubmitterURI'' ''//Alice''),
      [], ''  bc3:'', ''    name: \"Fabric Hotel Chain\"'', ''    vm: \"fabric\"'',
      ''    chain_id: '' @ number_print E (env_or_recorded env ''BC3_FABRIC_CHAIN_ID'' d3 ''bc3ChainId'' ''3003''),
      ''    finality_blocks: 1'', ''    rpc_url: '' @ quoted (bc3_http env d3), ''    http_url: '' @ quoted (bc3_http env d3),
      ''    account_endpoint: '' @ quoted (normalizeFabricIdentifier (bc3_endpoint env d3))] @
     fabric_lines env d3 (hetero_gateway env d3) @ [[]] @ hetero_evm_chains env depth"

definition evm_bridge_lines :: "bool \<Rightarrow> string \<Rightarrow> deployment \<Rightarrow> string list res" where
  "evm_bridge_lines there chain d = (if \<not> there then Inr [] else
     res_bind (requireContractAddress d ''xBridgingContract'') (\<lambda>bridge.
     Inr [''    '' @ chain @ '':'', ''      xbridging_contract: '' @ quoted bridge]))"

definition hetero_proof_lines :: "process_env \<Rightarrow> string list" where
  "hetero_proof_lines env =
     [''proof:'', ''  mode: '' @ quoted (proofMode env),
      ''  require_non_evm_proofs: '' @ show_bool (proofMode env \<noteq> ''trusted_normalized'' \<and> proofMode env \<noteq> ''trusted''),
      ''  max_retry: 3'', ''  retry_delay_ms: 1000'', ''  confirmation_blocks: 4'']"

definition hetero_yaml ::
    "render_host \<Rightarrow> process_env \<Rightarrow> nat \<Rightarrow> deployment \<Rightarrow> deployment \<Rightarrow> deployment \<Rightarrow> deployment \<Rightarrow> deployment \<Rightarrow> string \<Rightarrow> string list res" where
  "hetero_yaml E env depth d1 d2 d3 e2 e3 manifestPath =
     res_bind (bridge_lines d1) (\<lambda>contracts.
     res_bind (evm_bridge_lines (depth \<ge> 3) ''bc2evm'' e2) (\<lambda>bridge2.
     res_bind (evm_bridge_lines (depth \<ge> 4) ''bc3evm'' e3) (\<lambda>bridge3.
     Inr (relayer_lines (''XSmart RQ1c Heterogeneous Depth '' @ show_nat depth) (''xsmart-rq1c-d'' @ show_nat depth) @
       [''  checkpoint_file: \"./var/xsmart-ckpt.json\"'', [], ''chains:''] @ hetero_chains E env depth d2 d3 @
       [[]] @ contracts @ bridge2 @ bridge3 @
       [[]] @ hetero_proof_lines env @ [[]] @
       relay_lines ''60'' @ [[]] @ manifest_lines manifestPath))))"

definition render_config_rq1c :: "render_host \<Rightarrow> process_env \<Rightarrow> string list \<Rightarrow> disk \<Rightarrow> (written, unit) script" where
  "render_config_rq1c E env argv dk =
     (let t = getArg_depth env argv; d1 = loadDeployment dk ''xsmart'' ''bc1''; d2 = loadDeployment dk ''xsmart'' ''bc2'';
          d3 = loadDeployment dk ''xsmart'' ''bc3''; e2 = loadDeployment dk ''xsmart'' ''bc2-evm'';
          e3 = loadDeployment dk ''xsmart'' ''bc3-evm'' in
      case Number_of (rh_ubtl E) t of
        Some k \<Rightarrow> if k \<in> {2, 3, 4, 5} then
          (let depth = nat k; d = ''d'' @ show_nat depth;
               configPath = path_join [relayerConfigDir E, ''config-xsmart-rq1c-'' @ d @ ''.yaml''];
               manifestPath = path_join [manifestsDir E ''xsmart'', ''travel-hetero-'' @ d @ ''.generated.json''] in
           await (of_res (requireContractAddress d1 ''hotelBookingTranslated'')) (\<lambda>translated.
           await (of_res (hetero_targets E env depth d2 d3 e2 e3)) (\<lambda>targets.
           await (of_res (depth_manifest E env (''xsmart-hetero-rq1c-'' @ d) ''heterogeneous-target-count''
             (callTreeForDepth E depth translated) targets)) (\<lambda>manifest.
           await (write_file manifestPath (json_indented E manifest)) (\<lambda>_.
           await (of_res (hetero_yaml E env depth d1 d2 d3 e2 e3 manifestPath)) (\<lambda>ls.
           write_file configPath (template ls)))))))
          else throw (''RQ1c heterogeneous depth renderer supports d=2..5, got '' @ number_print E t)
      | None \<Rightarrow> throw (''RQ1c heterogeneous depth renderer supports d=2..5, got '' @ number_print E t))"

end
