(* ===== verification/Render_Reader.thy ===== *)
theory Render_Reader
  imports Render_Config
begin

text \<open>
  Reading a rendered configuration back: the lines of the file, the block under a key at an indentation, the
  scalar of a key. What a target of a manifest needs from the configuration, for all renderers.
\<close>

subsection \<open>A reader\<close>

definition indent :: "string \<Rightarrow> nat" where
  "indent l = length (takeWhile (\<lambda>c. c = CHR '' '') l)"

fun yaml_block :: "nat \<Rightarrow> string \<Rightarrow> string list \<Rightarrow> string list" where
  "yaml_block n key [] = []"
| "yaml_block n key (l # ls) =
     (if l = replicate n (CHR '' '') @ key @ '':'' then takeWhile (\<lambda>l. l = [] \<or> n < indent l) ls else yaml_block n key ls)"

fun yaml_scalar :: "nat \<Rightarrow> string \<Rightarrow> string list \<Rightarrow> string option" where
  "yaml_scalar n key [] = None"
| "yaml_scalar n key (l # ls) =
     (case after (replicate n (CHR '' '') @ key @ '': '') l of Some v \<Rightarrow> Some v | None \<Rightarrow> yaml_scalar n key ls)"

fun yaml_entry :: "nat \<Rightarrow> string list \<Rightarrow> string list \<Rightarrow> string option" where
  "yaml_entry n [] ls = None"
| "yaml_entry n [key] ls = yaml_scalar n key ls"
| "yaml_entry n (key # k # ks) ls = yaml_entry (n + 2) (k # ks) (yaml_block n key ls)"

definition config_entry :: "string list \<Rightarrow> string \<Rightarrow> string option" where
  "config_entry path text = yaml_entry 0 path (split_char (CHR 0x0A) text)"

lemma replicate_numeral [simp]: "replicate (numeral k) x = x # replicate (pred_numeral k) x"
  by (simp add: numeral_eq_Suc)

subsection \<open>Lines\<close>

definition one_line :: "string \<Rightarrow> bool" where
  "one_line t \<longleftrightarrow> CHR 0x0A \<notin> set t"

lemma one_line_simps [simp]:
  "one_line []" "one_line (c # t) \<longleftrightarrow> c \<noteq> CHR 0x0A \<and> one_line t" "one_line (s @ t) \<longleftrightarrow> one_line s \<and> one_line t"
  by (auto simp: one_line_def)

lemma split_no_char: "d \<notin> set t \<Longrightarrow> split_char d t = [t]"
  by (induction t) auto

lemma split_at_char: "d \<notin> set t \<Longrightarrow> split_char d (t @ d # rest) = t # split_char d rest"
  by (induction t) auto

lemma split_join_lines: "ls \<noteq> [] \<Longrightarrow> \<forall>l \<in> set ls. d \<notin> set l \<Longrightarrow> split_char d (join [d] ls) = ls"
proof (induction "[d]" ls rule: join.induct)
  case (3 s t ss)
  then show ?case by (simp add: split_at_char)
qed (simp_all add: split_no_char)

lemma read_template: "ls \<noteq> [] \<Longrightarrow> list_all one_line ls \<Longrightarrow> split_char (CHR 0x0A) (template ls) = ls"
  by (simp add: template_def split_join_lines list_all_iff one_line_def)

lemma one_line_quoted [simp]: "one_line (quoted t) \<longleftrightarrow> one_line t"
  by (simp add: quoted_def)

lemma one_line_js_or [simp]: "one_line s \<Longrightarrow> one_line t \<Longrightarrow> one_line (js_or s t)"
  by (simp add: js_or_def)

lemma set_join: "set (join sep ts) \<subseteq> set sep \<union> (\<Union>t \<in> set ts. set t)"
  by (induction sep ts rule: join.induct) auto

lemma split_ne [simp]: "split_char d t \<noteq> []"
  by (induction t) (auto split: list.splits)

lemma join_split: "join [d] (split_char d t) = t"
proof (induction t)
  case (Cons c t)
  obtain p ps where p: "split_char d t = p # ps" by (cases "split_char d t") auto
  then show ?case using Cons by (cases ps) auto
qed simp

lemma portable_same [simp]: "toPortable t = t"
  by (simp add: toPortable_def join_split)

lemma newline_space: "is_js_space (CHR 0x0A)"
  by code_simp

lemma show_nat_one_line [simp]: "one_line (show_nat n)"
  using show_nat_no_space [of n] newline_space by (auto simp: one_line_def)

lemma trim_one_line [simp]: "one_line t \<Longrightarrow> one_line (js_trim t)"
  by (auto simp: one_line_def js_trim_def dest!: set_dropWhileD)

subsection \<open>Inputs of one line\<close>

definition plain_inputs :: "render_host \<Rightarrow> process_env \<Rightarrow> disk \<Rightarrow> bool" where
  "plain_inputs E env dk \<longleftrightarrow>
     (\<forall>name v. env name = Some v \<longrightarrow> one_line v) \<and>
     (\<forall>system net d key v. dk system net = Some d \<longrightarrow> d_contracts d key = Some v \<longrightarrow> one_line v) \<and>
     (\<forall>t. one_line (number_print E t)) \<and> one_line (repoRoot (rh_ubtl E)) \<and> one_line (cwd E)"

lemma plain_env: "plain_inputs E env dk \<Longrightarrow> one_line (env_text env name)"
  by (auto simp: plain_inputs_def env_text_def split: option.splits)

lemma plain_contract: "plain_inputs E env dk \<Longrightarrow> one_line (contract_at (loadDeployment dk system net) key)"
  by (auto simp: plain_inputs_def contract_at_def loadDeployment_def split: option.splits)

lemma plain_recorded:
  "plain_inputs E env dk \<Longrightarrow> one_line fallback \<Longrightarrow> one_line (env_or_recorded env name (loadDeployment dk system net) key fallback)"
  by (simp add: env_or_recorded_def plain_env plain_contract)

lemma plain_number: "plain_inputs E env dk \<Longrightarrow> one_line (number_print E t)"
  by (simp add: plain_inputs_def)

lemma plain_paths:
  assumes "plain_inputs E env dk"
  shows "one_line (bridge_bc2_metadata E)" "one_line t \<Longrightarrow> one_line (path_join [manifestsDir E ''xsmart'', t])"
proof -
  have j: "one_line (path_join ts)" if "\<forall>t \<in> set ts. one_line t" for ts
    using that set_join [of "''/''" ts] by (fastforce simp: path_join_def one_line_def)
  have "one_line (cwd E)" "one_line (repoRoot (rh_ubtl E))" using assms by (simp_all add: plain_inputs_def)
  then show "one_line (bridge_bc2_metadata E)" "one_line t \<Longrightarrow> one_line (path_join [manifestsDir E ''xsmart'', t])"
    by (simp_all add: bridge_bc2_metadata_def manifestsDir_def j)
qed

lemma plain_chain:
  assumes "plain_inputs E env dk" "chain \<in> {''bc1'', ''bc2'', ''bc3''}"
  shows "one_line (cfg_name (chainRuntimeConfig env chain))" "one_line (rpcUrl (chainRuntimeConfig env chain))"
    "one_line (httpUrl (chainRuntimeConfig env chain))"
  using assms(2) by (auto simp: chainRuntimeConfig_def DEFAULT_CHAIN_CONFIGS_def plain_env [OF assms(1)])

lemmas plain = plain_env plain_contract plain_recorded plain_number plain_paths plain_chain

lemma one_line_key [simp]: "one_line relayer_key"
  by (simp add: relayer_key_def)

lemma fabric_one_line [simp]: "one_line t \<Longrightarrow> one_line (normalizeFabricIdentifier t)"
  by (simp add: normalizeFabricIdentifier_def Let_def)

lemma wasm_one_line [simp]: "one_line t \<Longrightarrow> one_line (normalizeWasmAccount t)"
  by (simp add: normalizeWasmAccount_def)

subsection \<open>A manifest and its configuration\<close>

text \<open>The targets of a manifest, each with the kind of its machine.\<close>

definition manifest_targets :: "json \<Rightarrow> (string \<times> json) list" where
  "manifest_targets m =
     (case json_get m ''targets'' of
        Some (JsonArray ts) \<Rightarrow> map (\<lambda>t. (case json_get t ''vm'' of Some (JsonString v) \<Rightarrow> v | _ \<Rightarrow> [], t)) ts
      | _ \<Rightarrow> []) @
     (case json_get m ''wasm'' of Some t \<Rightarrow> [(''wasm'', t)] | None \<Rightarrow> []) @
     (case json_get m ''fabric'' of Some t \<Rightarrow> [(''fabric'', t)] | None \<Rightarrow> [])"

text \<open>The chain of a target is configured, with its machine, the target's endpoint and the target's bridge.\<close>

definition target_configured :: "string \<Rightarrow> string \<times> json \<Rightarrow> bool" where
  "target_configured text = (\<lambda>(vm, t). \<exists>chain. json_get t ''chain'' = Some (JsonString chain) \<and>
     config_entry [''chains'', chain, ''vm''] text = Some (quoted vm) \<and>
     (\<forall>e. json_get t ''endpoint'' = Some (JsonString e) \<longrightarrow>
        config_entry [''chains'', chain, ''account_endpoint''] text = Some (quoted e)) \<and>
     (\<forall>b. json_get t ''bridge_contract'' = Some (JsonString b) \<longrightarrow>
        config_entry [''contracts'', ''xsmart'', chain, ''xbridging_contract''] text = Some (quoted b)))"

definition consistent_pair :: "string \<Rightarrow> json \<Rightarrow> string \<Rightarrow> bool" where
  "consistent_pair manifestPath m text \<longleftrightarrow>
     config_entry [''xsmart'', ''manifest''] text = Some (quoted manifestPath) \<and>
     (\<forall>t \<in> set (manifest_targets m). target_configured text t) \<and>
     (\<forall>key \<in> {''execute_threshold'', ''update_ack_threshold''}.
        json_get m key = Some (json_nat (max 1 (length (manifest_targets m)))))"

text \<open>Written files that are pairs of a manifest and its configuration, and one pair more.\<close>

definition in_pairs :: "render_host \<Rightarrow> (string \<Rightarrow> json \<Rightarrow> string \<Rightarrow> bool) \<Rightarrow> written \<Rightarrow> bool" where
  "in_pairs E P w \<longleftrightarrow> (\<exists>ps. ps \<noteq> [] \<and> w = concat (map (\<lambda>(mp, m, cp, text). [(mp, json_indented E m), (cp, text)]) ps) \<and>
     (\<forall>(mp, m, cp, text) \<in> set ps. P mp m text))"

definition adds_pair :: "render_host \<Rightarrow> (string \<Rightarrow> json \<Rightarrow> string \<Rightarrow> bool) \<Rightarrow> written \<Rightarrow> written \<Rightarrow> bool" where
  "adds_pair E P w w' \<longleftrightarrow> (\<exists>mp m cp text. w' = w @ [(mp, json_indented E m), (cp, text)] \<and> P mp m text)"

lemma adds_pair_mono: "adds_pair E P w w' \<Longrightarrow> (\<And>mp m text. P mp m text \<Longrightarrow> Q mp m text) \<Longrightarrow> adds_pair E Q w w'"
  unfolding adds_pair_def by blast

lemma pairs_one: "adds_pair E P [] w \<Longrightarrow> in_pairs E P w"
proof -
  assume "adds_pair E P [] w"
  then obtain mp m cp t where "w = [(mp, json_indented E m), (cp, t)]" "P mp m t" by (auto simp: adds_pair_def)
  then show ?thesis unfolding in_pairs_def by (intro exI [of _ "[(mp, m, cp, t)]"]) simp
qed

lemma pairs_more:
  assumes "in_pairs E P w" "adds_pair E P w w'"
  shows "in_pairs E P w'"
proof -
  obtain ps where ps: "w = concat (map (\<lambda>(mp, m, cp, text). [(mp, json_indented E m), (cp, text)]) ps)"
    "\<forall>(mp, m, cp, text) \<in> set ps. P mp m text" using assms(1) unfolding in_pairs_def by blast
  obtain mp m cp t where "w' = w @ [(mp, json_indented E m), (cp, t)]" "P mp m t" using assms(2) by (auto simp: adds_pair_def)
  with ps show ?thesis unfolding in_pairs_def by (intro exI [of _ "ps @ [(mp, m, cp, t)]"]) simp
qed

subsection \<open>What the lines say\<close>

lemma indent_simps [simp]:
  "indent [] = 0" "indent (c # l) = (if c = CHR '' '' then Suc (indent l) else 0)"
  by (simp_all add: indent_def)

lemma after_simps [simp]: "after [] t = Some t" "after (c # p) [] = None" "after (c # p) (d # t) = (if c = d then after p t else None)"
  by (auto simp: after_def starts_with_def)

lemmas line_defs = relayer_lines_def own_chain_lines_def chain_lines_def proof_lines_def relay_lines_def manifest_lines_def

lemma evm_yaml_entries:
  assumes "bridge_lines d = Inr contracts"
  shows "yaml_entry 0 [''xsmart'', ''manifest''] (evm_yaml env title i contracts b2 b3 mp) = Some (quoted mp)"
    "chain \<in> {''bc1'', ''bc2'', ''bc3''} \<Longrightarrow>
       yaml_entry 0 [''chains'', chain, ''vm''] (evm_yaml env title i contracts b2 b3 mp) = Some (quoted ''evm'')"
    "yaml_entry 0 [''contracts'', ''xsmart'', ''bc2'', ''xbridging_contract''] (evm_yaml env title i contracts b2 b3 mp) = Some (quoted b2)"
    "yaml_entry 0 [''contracts'', ''xsmart'', ''bc3'', ''xbridging_contract''] (evm_yaml env title i contracts b2 b3 mp) = Some (quoted b3)"
  using assms by (auto simp: bridge_lines_def res_bind_Inr_iff evm_yaml_def line_defs quoted_def)

end
