(* ===== verification/Render_Entries.thy ===== *)
theory Render_Entries
  imports Render_Reader
begin

text \<open>
  What the two configurations with chains of several kinds say, as the reader sees them, and that every line
  of a rendered file is one line.
\<close>

subsection \<open>The entries of the two mixed configurations\<close>

text \<open>The files as they are when nothing is missing.\<close>

definition bridge_text :: "deployment \<Rightarrow> string list" where
  "bridge_text d = [''contracts:'', ''  xsmart:'', ''    bc1:'', ''      xbridging_contract: '' @ quoted (contract_at d ''xBridgingContract''),
     ''      ubtl_registry: '' @ quoted (contract_at d ''ubtlRegistry''),
     ''      relayer_manager: '' @ quoted (contract_at d ''relayerManager''),
     ''      light_client: '' @ quoted (contract_at d ''lightClient'')]"

definition evm_bridge_text :: "bool \<Rightarrow> string \<Rightarrow> deployment \<Rightarrow> string list" where
  "evm_bridge_text there chain d =
     (if there then [''    '' @ chain @ '':'', ''      xbridging_contract: '' @ quoted (contract_at d ''xBridgingContract'')] else [])"

definition xsmart_text :: "render_host \<Rightarrow> process_env \<Rightarrow> deployment \<Rightarrow> deployment \<Rightarrow> deployment \<Rightarrow> string \<Rightarrow> string list" where
  "xsmart_text E env d1 d2 d3 mp =
     (let finality = number_print E (js_or (env_text env ''XSMART_BC1_FINALITY_BLOCKS'') ''4'') in
      relayer_lines ''XSmart Relayer Configuration'' ''xsmart-relayer'' @ [[], ''chains:''] @
      own_chain_lines ''bc1'' [''    finality_blocks: '' @ finality] (chainRuntimeConfig env ''bc1'') @
      [[]] @ bc2_yaml E env d2 @ bc3_yaml E env d3 @ [[]] @ bridge_text d1 @ [[]] @
      proof_lines (number_print E (js_or (env_text env ''XSMART_PROOF_CONFIRMATION_BLOCKS'') finality)) @ [[]] @
      relay_lines ''60'' @ [[]] @ manifest_lines mp)"

definition hetero_text ::
    "render_host \<Rightarrow> process_env \<Rightarrow> nat \<Rightarrow> deployment \<Rightarrow> deployment \<Rightarrow> deployment \<Rightarrow> deployment \<Rightarrow> deployment \<Rightarrow> string \<Rightarrow> string list" where
  "hetero_text E env depth d1 d2 d3 e2 e3 mp =
     relayer_lines (''XSmart RQ1c Heterogeneous Depth '' @ show_nat depth) (''xsmart-rq1c-d'' @ show_nat depth) @
     [''  checkpoint_file: \"./var/xsmart-ckpt.json\"'', [], ''chains:''] @ hetero_chains E env depth d2 d3 @
     [[]] @ bridge_text d1 @ evm_bridge_text (depth \<ge> 3) ''bc2evm'' e2 @ evm_bridge_text (depth \<ge> 4) ''bc3evm'' e3 @
     [[]] @ hetero_proof_lines env @ [[]] @ relay_lines ''60'' @ [[]] @ manifest_lines mp"

lemma bridge_lines_Inr: "bridge_lines d = Inr ls \<Longrightarrow> ls = bridge_text d"
  by (auto simp: bridge_lines_def bridge_text_def res_bind_Inr_iff requireContractAddress_def split: if_splits)

lemma evm_bridge_Inr: "evm_bridge_lines there chain d = Inr ls \<Longrightarrow> ls = evm_bridge_text there chain d"
  by (auto simp: evm_bridge_lines_def evm_bridge_text_def res_bind_Inr_iff requireContractAddress_def split: if_splits)

lemma xsmart_yaml_Inr: "xsmart_yaml E env d1 d2 d3 mp = Inr ls \<Longrightarrow> ls = xsmart_text E env d1 d2 d3 mp"
  by (auto simp: xsmart_yaml_def xsmart_text_def Let_def res_bind_Inr_iff dest!: bridge_lines_Inr)

lemma hetero_yaml_Inr: "hetero_yaml E env depth d1 d2 d3 e2 e3 mp = Inr ls \<Longrightarrow> ls = hetero_text E env depth d1 d2 d3 e2 e3 mp"
  by (auto simp: hetero_yaml_def hetero_text_def res_bind_Inr_iff dest!: bridge_lines_Inr evm_bridge_Inr)

text \<open>Lines that a section keeps.\<close>

definition inside :: "string \<Rightarrow> bool" where
  "inside l \<longleftrightarrow> l = [] \<or> 0 < indent l"

lemma inside_simps [simp]: "inside []" "inside (c # l) \<longleftrightarrow> c = CHR '' ''"
  by (simp_all add: inside_def)

lemma block_skip:
  assumes "list_all inside ls" "indent (key @ '':'') = 0"
  shows "yaml_block 0 key (ls @ rest) = yaml_block 0 key rest"
  using assms by (induction ls) (auto simp: inside_def)

lemma inside_abs: "(\<lambda>l. l = [] \<or> 0 < indent l) = inside"
  by (simp add: inside_def [abs_def])

lemma inside_takeWhile: "list_all inside ls \<Longrightarrow> takeWhile inside (ls @ rest) = ls @ takeWhile inside rest"
  by (induction ls) auto

lemma sections_inside:
  "list_all inside (bc2_yaml E env d2)" "list_all inside (bc3_yaml E env d3)" "list_all inside (hetero_chains E env depth d2 d3)"
  "list_all inside (evm_bridge_text there chain d)"
  by (simp_all add: bc2_yaml_def bc3_yaml_def fabric_lines_def hetero_chains_def hetero_evm_chains_def evm_bridge_text_def line_defs Let_def)

lemmas skips = sections_inside [THEN block_skip]

lemma xsmart_entries:
  "yaml_entry 0 [''xsmart'', ''manifest''] (xsmart_text E env d1 d2 d3 mp) = Some (quoted mp)"
  "bc2_endpoint env d2 \<noteq> [] \<Longrightarrow> yaml_entry 0 [''chains'', ''bc2'', ''vm''] (xsmart_text E env d1 d2 d3 mp) = Some (quoted ''wasm'')"
  "bc3_endpoint env d3 \<noteq> [] \<Longrightarrow> yaml_entry 0 [''chains'', ''bc3'', ''vm''] (xsmart_text E env d1 d2 d3 mp) = Some (quoted ''fabric'')"
proof -
  show "yaml_entry 0 [''xsmart'', ''manifest''] (xsmart_text E env d1 d2 d3 mp) = Some (quoted mp)"
    by (simp add: xsmart_text_def block_skip sections_inside(1,2) line_defs bridge_text_def Let_def)
  have chains: "\<exists>finality. yaml_block 0 ''chains'' (xsmart_text E env d1 d2 d3 mp) =
      own_chain_lines ''bc1'' [''    finality_blocks: '' @ finality] (chainRuntimeConfig env ''bc1'') @
      [[]] @ bc2_yaml E env d2 @ bc3_yaml E env d3 @ [[]]"
    by (auto simp: xsmart_text_def line_defs inside_abs inside_takeWhile sections_inside bridge_text_def Let_def)
  show "bc2_endpoint env d2 \<noteq> [] \<Longrightarrow> yaml_entry 0 [''chains'', ''bc2'', ''vm''] (xsmart_text E env d1 d2 d3 mp) = Some (quoted ''wasm'')"
    using chains by (elim exE) (simp add: line_defs bc2_yaml_def Let_def quoted_def)
  show "bc3_endpoint env d3 \<noteq> [] \<Longrightarrow> yaml_entry 0 [''chains'', ''bc3'', ''vm''] (xsmart_text E env d1 d2 d3 mp) = Some (quoted ''fabric'')"
    using chains by (elim exE) (cases "bc2_endpoint env d2 = []"; simp add: line_defs bc2_yaml_def bc3_yaml_def Let_def quoted_def)
qed

text \<open>Parts of the file without the section that is looked for.\<close>

lemma passes:
  "yaml_block 0 ''xsmart'' (relayer_lines title i @ rest) = yaml_block 0 ''xsmart'' rest"
  "yaml_block 0 ''xsmart'' (bridge_text d @ rest) = yaml_block 0 ''xsmart'' rest"
  "yaml_block 0 ''xsmart'' (hetero_proof_lines env @ rest) = yaml_block 0 ''xsmart'' rest"
  "yaml_block 0 ''xsmart'' (relay_lines t @ rest) = yaml_block 0 ''xsmart'' rest"
  by (simp_all add: relayer_lines_def bridge_text_def hetero_proof_lines_def relay_lines_def)

lemma hetero_passes:
  "yaml_block 0 ''xsmart'' (relayer_lines title i @ [''  checkpoint_file: \"./var/xsmart-ckpt.json\"'', [], ''chains:''] @
     hetero_chains E env depth d2 d3 @ rest) = yaml_block 0 ''xsmart'' rest"
  "yaml_block 0 ''xsmart'' ([[]] @ bridge_text d1 @ evm_bridge_text t ''bc2evm'' e2 @ evm_bridge_text t' ''bc3evm'' e3 @ rest) =
     yaml_block 0 ''xsmart'' rest"
  "yaml_block 0 ''xsmart'' ([[]] @ hetero_proof_lines env @ [[]] @ relay_lines ''60'' @ [[]] @ rest) = yaml_block 0 ''xsmart'' rest"
  by (simp_all add: passes skips)

lemma hetero_entries:
  "yaml_entry 0 [''xsmart'', ''manifest''] (hetero_text E env depth d1 d2 d3 e2 e3 mp) = Some (quoted mp)"
  "yaml_block 0 ''chains'' (hetero_text E env depth d1 d2 d3 e2 e3 mp) = hetero_chains E env depth d2 d3 @ [[]]"
  "yaml_block 0 ''contracts'' (hetero_text E env depth d1 d2 d3 e2 e3 mp) =
     tl (bridge_text d1) @ evm_bridge_text (depth \<ge> 3) ''bc2evm'' e2 @ evm_bridge_text (depth \<ge> 4) ''bc3evm'' e3 @ [[]]"
proof -
  show "yaml_block 0 ''chains'' (hetero_text E env depth d1 d2 d3 e2 e3 mp) = hetero_chains E env depth d2 d3 @ [[]]"
    by (simp add: hetero_text_def relayer_lines_def bridge_text_def inside_abs inside_takeWhile sections_inside)
  show "yaml_block 0 ''contracts'' (hetero_text E env depth d1 d2 d3 e2 e3 mp) =
     tl (bridge_text d1) @ evm_bridge_text (depth \<ge> 3) ''bc2evm'' e2 @ evm_bridge_text (depth \<ge> 4) ''bc3evm'' e3 @ [[]]"
    by (simp add: hetero_text_def relayer_lines_def bridge_text_def hetero_proof_lines_def inside_abs inside_takeWhile sections_inside skips)
  have "yaml_block 0 ''xsmart'' (hetero_text E env depth d1 d2 d3 e2 e3 mp) = tl (manifest_lines mp)"
    unfolding hetero_text_def hetero_passes by (simp add: manifest_lines_def)
  then show "yaml_entry 0 [''xsmart'', ''manifest''] (hetero_text E env depth d1 d2 d3 e2 e3 mp) = Some (quoted mp)"
    by (simp add: manifest_lines_def)
qed

lemma hetero_chain_entries:
  "yaml_entry 2 [''bc2'', ''vm''] (hetero_chains E env depth d2 d3 @ rest) = Some (quoted ''wasm'')"
  "yaml_entry 2 [''bc2'', ''account_endpoint''] (hetero_chains E env depth d2 d3 @ rest) =
     Some (quoted (normalizeWasmAccount (bc2_endpoint env d2)))"
  "yaml_entry 2 [''bc3'', ''vm''] (hetero_chains E env depth d2 d3 @ rest) = Some (quoted ''fabric'')"
  "yaml_entry 2 [''bc3'', ''account_endpoint''] (hetero_chains E env depth d2 d3 @ rest) =
     Some (quoted (normalizeFabricIdentifier (bc3_endpoint env d3)))"
  by (simp_all add: hetero_chains_def fabric_lines_def line_defs quoted_def)

lemma hetero_evm_block:
  "yaml_block 2 ''bc2evm'' (hetero_chains E env depth d2 d3 @ rest) = yaml_block 2 ''bc2evm'' (hetero_evm_chains env depth @ rest)"
  "yaml_block 2 ''bc3evm'' (hetero_chains E env depth d2 d3 @ rest) = yaml_block 2 ''bc3evm'' (hetero_evm_chains env depth @ rest)"
  by (simp_all add: hetero_chains_def fabric_lines_def line_defs)

lemma hetero_evm_entries:
  "3 \<le> depth \<Longrightarrow> yaml_entry 2 [''bc2evm'', ''vm''] (hetero_chains E env depth d2 d3 @ rest) = Some (quoted ''evm'')"
  "4 \<le> depth \<Longrightarrow> yaml_entry 2 [''bc3evm'', ''vm''] (hetero_chains E env depth d2 d3 @ rest) = Some (quoted ''evm'')"
  by (simp_all add: hetero_evm_block) (simp_all add: hetero_evm_chains_def chain_lines_def quoted_def)

end
