(* ===== verification/Render_Props.thy ===== *)
theory Render_Props
  imports Render_Entries
begin

text \<open>
  What the four renderers promise: the two files of a pair fit each other, the call trees of the depth
  experiments, and what is left behind when a renderer fails.
\<close>

subsection \<open>Every line is one line\<close>

lemma bridge_one_line: "plain_inputs E env dk \<Longrightarrow> list_all one_line (bridge_text (loadDeployment dk system net))"
  by (simp add: bridge_text_def plain_contract)

lemma evm_bridge_one_line:
  "plain_inputs E env dk \<Longrightarrow> one_line chain \<Longrightarrow> list_all one_line (evm_bridge_text there chain (loadDeployment dk system net))"
  by (simp add: evm_bridge_text_def plain_contract)

lemma evm_yaml_one_line:
  assumes p: "plain_inputs E env dk" and "list_all one_line contracts" "one_line title" "one_line i" "one_line b2" "one_line b3" "one_line mp"
  shows "list_all one_line (evm_yaml env title i contracts b2 b3 mp)"
  using assms(2-) by (simp add: evm_yaml_def line_defs plain [OF p])

lemma endpoint_one_line:
  assumes "plain_inputs E env dk"
  shows "one_line (bc2_endpoint env (loadDeployment dk system net))" "one_line (bc3_endpoint env (loadDeployment dk system net))"
  by (simp_all add: bc2_endpoint_def bc3_endpoint_def plain [OF assms])

lemma fabric_lines_one_line:
  "plain_inputs E env dk \<Longrightarrow> one_line g \<Longrightarrow> list_all one_line (fabric_lines env (loadDeployment dk system net) g)"
  by (simp add: fabric_lines_def plain)

lemma lower_one_line [simp]: "one_line t \<Longrightarrow> one_line (to_lower t)"
proof -
  have nl: "char_of k = CHR 0x0A \<Longrightarrow> k mod 256 = (10 :: nat)" for k
    by (drule arg_cong [of _ _ "of_char :: char \<Rightarrow> nat"]) simp
  have "k mod 256 \<noteq> 10" if "97 \<le> k \<and> k \<le> 122 \<or> 224 \<le> k \<and> k \<le> 254" for k :: nat
    using that by auto
  then have "lower_char c = CHR 0x0A \<Longrightarrow> c = CHR 0x0A" for c
    by (auto simp: lower_char_def Let_def split: if_splits dest!: nl)
  then show "one_line t \<Longrightarrow> one_line (to_lower t)" unfolding one_line_def to_lower_def set_map by (metis imageE)
qed

lemma proofMode_one_line: "plain_inputs E env dk \<Longrightarrow> one_line (proofMode env)"
proof -
  assume p: "plain_inputs E env dk"
  have "one_line (map (\<lambda>c. if c = CHR ''-'' then CHR ''_'' else c) t)" if "one_line t" for t
    using that by (auto simp: one_line_def)
  then show ?thesis by (simp add: proofMode_def plain [OF p])
qed

lemma xsmart_one_line:
  assumes p: "plain_inputs E env dk" and "one_line mp"
  shows "list_all one_line (xsmart_text E env (loadDeployment dk s1 n1) (loadDeployment dk s2 n2) (loadDeployment dk s3 n3) mp)"
proof -
  have y: "list_all one_line (bc2_yaml E env (loadDeployment dk s2 n2))" "list_all one_line (bc3_yaml E env (loadDeployment dk s3 n3))"
    by (simp_all add: bc2_yaml_def bc3_yaml_def bc2WasmChainId_def bc3_http_def Let_def endpoint_one_line [OF p]
        fabric_lines_one_line [OF p] plain [OF p])
  then show ?thesis
    using assms(2) by (simp add: xsmart_text_def line_defs bridge_one_line [OF p] Let_def plain [OF p])
qed

lemma hetero_one_line:
  assumes p: "plain_inputs E env dk" and "one_line mp"
  shows "list_all one_line (hetero_text E env depth (loadDeployment dk s1 n1) (loadDeployment dk s2 n2) (loadDeployment dk s3 n3)
      (loadDeployment dk s4 n4) (loadDeployment dk s5 n5) mp)"
proof -
  have e: "list_all one_line (hetero_evm_chains env depth)"
    by (simp add: hetero_evm_chains_def chain_lines_def plain [OF p])
  then have "list_all one_line (hetero_chains E env depth (loadDeployment dk s2 n2) (loadDeployment dk s3 n3))"
    by (simp add: hetero_chains_def hetero_gateway_def bc2WasmChainId_def bc3_http_def line_defs endpoint_one_line [OF p]
        fabric_lines_one_line [OF p] plain [OF p])
  then show ?thesis using assms(2)
    by (simp add: hetero_text_def hetero_proof_lines_def relayer_lines_def relay_lines_def manifest_lines_def show_bool_def
        proofMode_one_line [OF p] bridge_one_line [OF p] evm_bridge_one_line [OF p])
qed

subsection \<open>The pairs\<close>

lemma read_lines: "list_all one_line ls \<Longrightarrow> ls \<noteq> [] \<Longrightarrow> config_entry path (template ls) = yaml_entry 0 path ls"
  by (simp add: config_entry_def read_template)

lemma tree_fields_Inr:
  assumes "tree_fields E env nodes root = Inr tf"
  obtains blob key ir where "tf = [(''call_tree_blob'', JsonString blob), (''translation_keys'', JsonArray [JsonString key]),
       (''peer_ir_hashes'', JsonArray [JsonString ir])]"
    "abi_tree E nodes root = Inr blob" "hotelTranslationKey E env = Inr key" "resolveHotelTranslatedIRHashFromSource (rh_ubtl E) = Inr ir"
  using assms by (auto simp: tree_fields_def res_bind_Inr_iff)

lemma buildManifest_facts:
  assumes m: "buildManifest E env d1 d2 d3 = Inr m"
  shows "manifest_targets m = (if hasBc2 d2 then [(''wasm'', wasm_target env d2)] else []) @
      (if hasBc3 d3 then [(''fabric'', fabric_target d3)] else [])"
    "json_get m ''execute_threshold'' = Some (json_int (threshold d2 d3))"
    "json_get m ''update_ack_threshold'' = Some (json_int (threshold d2 d3))"
  using m by (auto simp: buildManifest_def res_bind_Inr_iff manifest_targets_def elim!: tree_fields_Inr)

lemma xsmart_pair:
  assumes p: "plain_inputs E env dk" and mp: "one_line mp"
    and m: "buildManifest E env d1 (loadDeployment dk s2 n2) (loadDeployment dk s3 n3) = Inr m"
  shows "consistent_pair mp m (template (xsmart_text E env (loadDeployment dk s1 n1) (loadDeployment dk s2 n2) (loadDeployment dk s3 n3) mp))"
proof -
  let ?d2 = "loadDeployment dk s2 n2" and ?d3 = "loadDeployment dk s3 n3"
  let ?text = "xsmart_text E env (loadDeployment dk s1 n1) ?d2 ?d3 mp"
  have read: "config_entry path (template ?text) = yaml_entry 0 path ?text" for path
    by (rule read_lines [OF xsmart_one_line [OF p mp]]) (simp add: xsmart_text_def relayer_lines_def Let_def)
  have "hasBc2 ?d2 \<Longrightarrow> bc2_endpoint env ?d2 \<noteq> []" "hasBc3 ?d3 \<Longrightarrow> bc3_endpoint env ?d3 \<noteq> []"
    by (auto simp: hasBc2_def hasBc3_def bc2_endpoint_def bc3_endpoint_def env_or_recorded_def js_or_def)
  moreover have "threshold ?d2 ?d3 = int (max 1 (length (manifest_targets m)))"
    by (simp add: buildManifest_facts [OF m] threshold_def)
  ultimately show ?thesis
    using xsmart_entries buildManifest_facts [OF m]
    by (auto simp: consistent_pair_def read target_configured_def wasm_target_def fabric_target_def json_int_def json_nat_def show_int_def)
qed

lemma evm_target_get [simp]:
  "json_get (evm_target chain b st kind user cost) ''vm'' = Some (JsonString ''evm'')"
  "json_get (evm_target chain b st kind user cost) ''chain'' = Some (JsonString chain)"
  "json_get (evm_target chain b st kind user cost) ''bridge_contract'' = Some (JsonString b)"
  "json_get (evm_target chain b st kind user cost) ''endpoint'' = None"
  by (simp_all add: evm_target_def)

definition evm_service :: "string \<Rightarrow> string \<Rightarrow> json \<Rightarrow> bool" where
  "evm_service chain b t \<longleftrightarrow> json_get t ''vm'' = Some (JsonString ''evm'') \<and> json_get t ''chain'' = Some (JsonString chain) \<and>
     json_get t ''bridge_contract'' = Some (JsonString b) \<and> json_get t ''endpoint'' = None"

lemma evm_service_target [simp]: "evm_service chain b (evm_target chain' b' st kind user cost) \<longleftrightarrow> chain' = chain \<and> b' = b"
  by (simp add: evm_service_def)

lemma manifest_1a_facts:
  assumes m: "manifest_1a E env translated b2 b3 h t = Inr m"
  shows "manifest_targets m = [(''evm'', evm_target ''bc2'' b2 h ''hotel'' (benchmarkUser E) 100),
      (''evm'', evm_target ''bc3'' b3 t ''train'' (benchmarkUser E) 50)]"
    "json_get m ''execute_threshold'' = Some (json_int 2)" "json_get m ''update_ack_threshold'' = Some (json_int 2)"
  using m by (auto simp: manifest_1a_def res_bind_Inr_iff manifest_targets_def elim!: tree_fields_Inr)

lemma depth_manifest_facts:
  assumes m: "depth_manifest E env workflow axis nodes targets = Inr m"
    and t: "\<forall>t \<in> set targets. \<exists>v. json_get t ''vm'' = Some (JsonString v)"
  shows "json_get m ''targets'' = Some (JsonArray targets)" "length (manifest_targets m) = length targets"
    "\<forall>(v, t) \<in> set (manifest_targets m). t \<in> set targets \<and> json_get t ''vm'' = Some (JsonString v)"
    "json_get m ''execute_threshold'' = Some (json_nat (length targets))"
    "json_get m ''update_ack_threshold'' = Some (json_nat (length targets))"
  using m t by (fastforce simp: depth_manifest_def res_bind_Inr_iff manifest_targets_def elim!: tree_fields_Inr)+

lemma evm_pair:
  assumes p: "plain_inputs E env dk" and lines: "one_line mp" "one_line title" "one_line i" "one_line b2" "one_line b3"
    and c: "bridge_lines (loadDeployment dk sys net) = Inr contracts"
    and targets: "\<forall>(v, t) \<in> set (manifest_targets m). v = ''evm'' \<and> (evm_service ''bc2'' b2 t \<or> evm_service ''bc3'' b3 t)"
    and n: "manifest_targets m \<noteq> []"
      "\<forall>key \<in> {''execute_threshold'', ''update_ack_threshold''}. json_get m key = Some (json_nat (length (manifest_targets m)))"
  shows "consistent_pair mp m (template (evm_yaml env title i contracts b2 b3 mp))"
proof -
  let ?text = "evm_yaml env title i contracts b2 b3 mp"
  have "list_all one_line contracts" using bridge_lines_Inr [OF c] bridge_one_line [OF p, of sys net] by simp
  then have read: "config_entry path (template ?text) = yaml_entry 0 path ?text" for path
    using lines by (intro read_lines evm_yaml_one_line [OF p]) (simp_all add: evm_yaml_def relayer_lines_def)
  have "max 1 (length (manifest_targets m)) = length (manifest_targets m)" using n(1) by (cases "manifest_targets m") auto
  then show ?thesis
    using n(2) targets evm_yaml_entries [OF c, where ?b2.0 = b2 and ?b3.0 = b3 and mp = mp and env = env and title = title and i = i]
    by (fastforce simp: consistent_pair_def read target_configured_def evm_service_def)
qed

lemma recorded_target_Inr:
  "recorded_target E d chain key kind cost = Inr t \<longleftrightarrow>
     contract_at d ''xBridgingContract'' \<noteq> [] \<and> contract_at d key \<noteq> [] \<and>
     t = evm_target chain (contract_at d ''xBridgingContract'') (contract_at d key) kind (benchmarkUser E) cost"
  by (auto simp: recorded_target_def res_bind_Inr_iff requireContractAddress_def)

lemma targetsForDepth_Inr:
  assumes "targetsForDepth E depth d2 d3 = Inr ts" "depth \<in> {2, 3, 4, 5}"
  shows "length ts = depth - 1" "\<forall>t \<in> set ts. evm_service ''bc2'' (contract_at d2 ''xBridgingContract'') t \<or>
      evm_service ''bc3'' (contract_at d3 ''xBridgingContract'') t"
  using assms by (auto simp: targetsForDepth_def res_bind_Inr_iff recorded_target_Inr)

lemma hetero_targets_Inr:
  assumes "hetero_targets E env depth d2 d3 e2 e3 = Inr ts"
  shows "ts = [hetero_wasm_target env d2, hetero_fabric_target env d3] @
      (if depth \<ge> 3 then [evm_target ''bc2evm'' (contract_at e2 ''xBridgingContract'') (contract_at e2 ''sFlight'') ''flight'' (benchmarkUser E) 200] else []) @
      (if depth \<ge> 4 then [evm_target ''bc3evm'' (contract_at e3 ''xBridgingContract'') (contract_at e3 ''sTaxi'') ''taxi'' (benchmarkUser E) 20] else [])"
  using assms by (auto simp: hetero_targets_def res_bind_Inr_iff recorded_target_Inr split: if_splits)

lemma hetero_get [simp]:
  "json_get (hetero_wasm_target env d2) ''vm'' = Some (JsonString ''wasm'')"
  "json_get (hetero_wasm_target env d2) ''chain'' = Some (JsonString ''bc2'')"
  "json_get (hetero_wasm_target env d2) ''endpoint'' = Some (JsonString (normalizeWasmAccount (bc2_endpoint env d2)))"
  "json_get (hetero_wasm_target env d2) ''bridge_contract'' = None"
  "json_get (hetero_fabric_target env d3) ''vm'' = Some (JsonString ''fabric'')"
  "json_get (hetero_fabric_target env d3) ''chain'' = Some (JsonString ''bc3'')"
  "json_get (hetero_fabric_target env d3) ''endpoint'' = Some (JsonString (normalizeFabricIdentifier (bc3_endpoint env d3)))"
  "json_get (hetero_fabric_target env d3) ''bridge_contract'' = None"
  by (simp_all add: hetero_wasm_target_def hetero_fabric_target_def)

lemma hetero_bridges:
  "3 \<le> depth \<Longrightarrow> yaml_entry 0 [''contracts'', ''xsmart'', ''bc2evm'', ''xbridging_contract'']
     (hetero_text E env depth d1 d2 d3 e2 e3 mp) = Some (quoted (contract_at e2 ''xBridgingContract''))"
  "4 \<le> depth \<Longrightarrow> yaml_entry 0 [''contracts'', ''xsmart'', ''bc3evm'', ''xbridging_contract'']
     (hetero_text E env depth d1 d2 d3 e2 e3 mp) = Some (quoted (contract_at e3 ''xBridgingContract''))"
  by (simp_all add: hetero_entries) (simp_all add: bridge_text_def evm_bridge_text_def)

lemma hetero_machines:
  "yaml_entry 0 (''chains'' # k # ks) (hetero_text E env depth d1 d2 d3 e2 e3 mp) =
     yaml_entry 2 (k # ks) (hetero_chains E env depth d2 d3 @ [[]])"
  by (simp add: hetero_entries(2) numeral_2_eq_2)

lemma hetero_pair:
  assumes p: "plain_inputs E env dk" and mp: "one_line mp"
    and ts: "hetero_targets E env depth (loadDeployment dk s2 n2) (loadDeployment dk s3 n3) (loadDeployment dk s4 n4) (loadDeployment dk s5 n5) = Inr ts"
    and m: "depth_manifest E env workflow axis nodes ts = Inr m"
  shows "consistent_pair mp m (template (hetero_text E env depth (loadDeployment dk s1 n1) (loadDeployment dk s2 n2)
      (loadDeployment dk s3 n3) (loadDeployment dk s4 n4) (loadDeployment dk s5 n5) mp))"
proof -
  let ?d2 = "loadDeployment dk s2 n2" and ?d3 = "loadDeployment dk s3 n3" and ?e2 = "loadDeployment dk s4 n4"
    and ?e3 = "loadDeployment dk s5 n5"
  let ?text = "hetero_text E env depth (loadDeployment dk s1 n1) ?d2 ?d3 ?e2 ?e3 mp"
  have read: "config_entry path (template ?text) = yaml_entry 0 path ?text" for path
    by (rule read_lines [OF hetero_one_line [OF p mp]]) (simp add: hetero_text_def relayer_lines_def)
  note ts' = hetero_targets_Inr [OF ts]
  have vm: "\<forall>t \<in> set ts. \<exists>v. json_get t ''vm'' = Some (JsonString v)" by (auto simp: ts' split: if_splits)
  note facts = depth_manifest_facts [OF m vm]
  have "ts \<noteq> []" by (simp add: ts')
  then have len: "max (Suc 0) (length (manifest_targets m)) = length ts" by (cases ts) (simp_all add: facts(2))
  have "target_configured (template ?text) (v, t)" if "(v, t) \<in> set (manifest_targets m)" for v t
  proof -
    have "t \<in> set ts" and v: "json_get t ''vm'' = Some (JsonString v)" using facts(3) that by auto
    then consider "t = hetero_wasm_target env ?d2" | "t = hetero_fabric_target env ?d3"
      | "depth \<ge> 3" "evm_service ''bc2evm'' (contract_at ?e2 ''xBridgingContract'') t"
      | "depth \<ge> 4" "evm_service ''bc3evm'' (contract_at ?e3 ''xBridgingContract'') t"
      unfolding ts' by (auto split: if_splits)
    then show ?thesis
    proof cases
      case 1 then show ?thesis using v by (simp add: target_configured_def read hetero_machines hetero_chain_entries del: yaml_entry.simps)
    next
      case 2 then show ?thesis using v by (simp add: target_configured_def read hetero_machines hetero_chain_entries del: yaml_entry.simps)
    next
      case 3 then show ?thesis using v by (simp add: target_configured_def read hetero_machines hetero_evm_entries hetero_bridges evm_service_def del: yaml_entry.simps)
    next
      case 4 then show ?thesis using v by (simp add: target_configured_def read hetero_machines hetero_evm_entries hetero_bridges evm_service_def del: yaml_entry.simps)
    qed
  qed
  then show ?thesis using facts(4,5) hetero_entries(1) by (auto simp: consistent_pair_def read len)
qed

subsection \<open>The runs\<close>

lemma write_file_apply: "write_file p t w = (Inr (), w @ [(p, t)])"
  by (simp add: write_file_def)

lemma manifest_path_one_line:
  "plain_inputs E env dk \<Longrightarrow> one_line t \<Longrightarrow> one_line (path_join [manifestsDir E ''xsmart'', t])"
  by (rule plain_paths)

lemma render_config_fits:
  assumes p: "plain_inputs E env dk" and run: "render_config E env dk w = (Inr (), w')"
  shows "adds_pair E consistent_pair w w'"
proof -
  let ?mp = "path_join [manifestsDir E ''xsmart'', ''travel-hetero.generated.json'']"
  obtain m ls where m: "buildManifest E env (loadDeployment dk ''xsmart'' ''bc1'') (loadDeployment dk ''xsmart'' ''bc2'')
        (loadDeployment dk ''xsmart'' ''bc3'') = Inr m"
    and ls: "xsmart_yaml E env (loadDeployment dk ''xsmart'' ''bc1'') (loadDeployment dk ''xsmart'' ''bc2'')
        (loadDeployment dk ''xsmart'' ''bc3'') ?mp = Inr ls"
    and w': "w' = w @ [(?mp, json_indented E m), (path_join [relayerConfigDir E, ''config-xsmart.yaml''], template ls)]"
    using run by (auto simp: render_config_def Let_def await_returns of_res_apply write_file_apply)
  then show ?thesis
    using xsmart_pair [OF p manifest_path_one_line [OF p] m, of "''travel-hetero.generated.json''" "''xsmart''" "''bc1''"]
    unfolding adds_pair_def xsmart_yaml_Inr [OF ls] by (intro exI conjI) simp_all
qed

lemma evm_machines: "\<forall>(v, t) \<in> set ps. json_get t ''vm'' = Some (JsonString v) \<and> (evm_service c b t \<or> evm_service c' b' t) \<Longrightarrow>
    \<forall>(v, t) \<in> set ps. v = ''evm'' \<and> (evm_service c b t \<or> evm_service c' b' t)"
  by (auto simp: evm_service_def)

lemma render_1a_fits:
  assumes p: "plain_inputs E env dk" and run: "render_config_1a E env dk w = (Inr (), w')"
  shows "adds_pair E consistent_pair w w'"
proof -
  let ?mp = "path_join [manifestsDir E ''xsmart'', ''travel-evm-1a.generated.json'']"
    and ?cp = "path_join [relayerConfigDir E, ''config-xsmart-1a.yaml'']"
    and ?d1 = "loadDeployment dk ''xsmart'' ''bc1-1a''" and ?d2 = "loadDeployment dk ''xsmart'' ''bc2-evm''"
    and ?d3 = "loadDeployment dk ''xsmart'' ''bc3-evm''"
  obtain translated h t m contracts where
    m: "manifest_1a E env translated (contract_at ?d2 ''xBridgingContract'') (contract_at ?d3 ''xBridgingContract'') h t = Inr m"
    and c: "bridge_lines ?d1 = Inr contracts"
    and w': "w' = w @ [(?mp, json_indented E m), (?cp, template (evm_yaml env ''XSmart Relayer Configuration (RQ1a EVM)''
        ''xsmart-relayer-1a'' contracts (contract_at ?d2 ''xBridgingContract'') (contract_at ?d3 ''xBridgingContract'') ?mp))]"
    using run by (auto simp: render_config_1a_def Let_def await_returns of_res_apply write_file_apply requireContractAddress_def split: if_splits)
  note facts = manifest_1a_facts [OF m]
  have "consistent_pair ?mp m (template (evm_yaml env ''XSmart Relayer Configuration (RQ1a EVM)''
        ''xsmart-relayer-1a'' contracts (contract_at ?d2 ''xBridgingContract'') (contract_at ?d3 ''xBridgingContract'') ?mp))"
    by (rule evm_pair [OF p _ _ _ _ _ c]) (simp_all add: facts plain_contract [OF p] manifest_path_one_line [OF p] json_int_def json_nat_def show_int_def numeral_2_eq_2)
  then show ?thesis unfolding adds_pair_def w' by blast
qed

end
