(* ===== verification/Render_Files.thy ===== *)
theory Render_Files
  imports Render_Props
begin

text \<open>
  What the four renderers promise: the two files of a pair fit each other, what the depth experiments run,
  and what is left behind when a renderer fails.
\<close>

subsection \<open>The depth renderers\<close>

text \<open>
  The calls that evaluating a tree makes, from a node on, up to a depth; and what a manifest of depth \<open>k\<close>
  describes: so many target services, a call tree of \<open>k - 1\<close> nodes that is evaluated from its last node, each
  node calling the one before it, every node exactly once.
\<close>

fun calls :: "call_node list \<Rightarrow> nat \<Rightarrow> int \<Rightarrow> int list" where
  "calls nodes 0 i = []"
| "calls nodes (Suc n) i = i # concat (map (calls nodes n) (children (nodes ! nat i)))"

definition runs_depth :: "render_host \<Rightarrow> nat \<Rightarrow> nat \<Rightarrow> json \<Rightarrow> bool" where
  "runs_depth E k services m \<longleftrightarrow> (\<exists>targets nodes blob.
     json_get m ''targets'' = Some (JsonArray targets) \<and> length targets = services \<and>
     json_get m ''call_tree_blob'' = Some (JsonString blob) \<and> abi_tree E nodes (int k - 2) = Inr blob \<and>
     json_get m ''root_node_index'' = Some (json_int (int k - 2)) \<and>
     json_get m ''call_tree_node_count'' = Some (json_nat (k - 1)) \<and> length nodes = k - 1 \<and>
     (\<forall>n \<ge> k - 1. calls nodes n (int k - 2) = rev (map int [0..<k - 1])))"

lemma calls_chain:
  "i < max 1 (depth - 1) \<Longrightarrow> i < n \<Longrightarrow> calls (callTreeForDepth E depth t) n (int i) = rev (map int [0..<Suc i])"
proof (induction i arbitrary: n)
  case 0
  then show ?case by (cases n) (simp_all add: callTreeForDepth_def hotel_node_def)
next
  case (Suc i)
  then obtain n' where n: "n = Suc n'" "i < n'" by (cases n) auto
  have "children (callTreeForDepth E depth t ! Suc i) = [int i]"
    using Suc.prems by (simp add: callTreeForDepth_def hotel_node_def)
  moreover have "nat (1 + int i) = Suc i" by simp
  ultimately show ?case using Suc.IH [of n'] Suc.prems n by simp
qed

lemma depth_manifest_runs:
  assumes m: "depth_manifest E env workflow axis (callTreeForDepth E k t) targets = Inr m"
    and vm: "\<forall>t \<in> set targets. \<exists>v. json_get t ''vm'' = Some (JsonString v)" and k: "2 \<le> k"
  shows "runs_depth E k (length targets) m"
proof -
  let ?nodes = "callTreeForDepth E k t"
  have len: "length ?nodes = k - 1" "int (length ?nodes) - 1 = int k - 2" "k - 2 < max 1 (k - 1)" "int (k - 2) = int k - 2"
    using k by (auto simp: callTreeForDepth_def)
  have "calls ?nodes n (int k - 2) = rev (map int [0..<k - 1])" if "k - 1 \<le> n" for n
    using calls_chain [OF len(3), of n E t] that k by (simp add: len(4) Suc_diff_Suc numeral_2_eq_2)
  then show ?thesis
    using m len depth_manifest_facts(1) [OF m vm] unfolding runs_depth_def
    by (auto simp: depth_manifest_def res_bind_Inr_iff elim!: tree_fields_Inr intro!: exI [of _ ?nodes])
qed

lemma render_depth_written:
  assumes d: "depth \<in> {2, 3, 4, 5}"
    and run: "render_depth_1b E env d1 d2 d3 translated depth w = (Inr (), w')"
  obtains mp targets m contracts cp where "mp = path_join [manifestsDir E ''xsmart'', ''travel-evm-1b-d'' @ show_nat depth @ ''.generated.json'']"
    "length targets = depth - 1"
    "\<forall>t \<in> set targets. evm_service ''bc2'' (contract_at d2 ''xBridgingContract'') t \<or>
      evm_service ''bc3'' (contract_at d3 ''xBridgingContract'') t"
    "depth_manifest E env (''xsmart-travel-evm-1b-d'' @ show_nat depth) ''call-tree-edge-depth-plus-service-targets''
        (callTreeForDepth E depth translated) targets = Inr m"
    "bridge_lines d1 = Inr contracts"
    "w' = w @ [(mp, json_indented E m), (cp, template (evm_yaml env (''XSmart Relayer Configuration (RQ1b depth '' @ show_nat depth @ '')'')
        (''xsmart-relayer-1b-d'' @ show_nat depth) contracts (contract_at d2 ''xBridgingContract'') (contract_at d3 ''xBridgingContract'') mp))]"
proof -
  obtain targets m contracts cp where ts: "targetsForDepth E depth d2 d3 = Inr targets"
    and rest: "depth_manifest E env (''xsmart-travel-evm-1b-d'' @ show_nat depth) ''call-tree-edge-depth-plus-service-targets''
        (callTreeForDepth E depth translated) targets = Inr m" "bridge_lines d1 = Inr contracts"
      "w' = w @ [(path_join [manifestsDir E ''xsmart'', ''travel-evm-1b-d'' @ show_nat depth @ ''.generated.json''], json_indented E m),
        (cp, template (evm_yaml env (''XSmart Relayer Configuration (RQ1b depth '' @ show_nat depth @ '')'')
          (''xsmart-relayer-1b-d'' @ show_nat depth) contracts (contract_at d2 ''xBridgingContract'') (contract_at d3 ''xBridgingContract'')
          (path_join [manifestsDir E ''xsmart'', ''travel-evm-1b-d'' @ show_nat depth @ ''.generated.json''])))]"
    using run by (auto simp: render_depth_1b_def Let_def await_returns of_res_apply write_file_apply requireContractAddress_def split: if_splits)
  show thesis by (rule that [OF refl targetsForDepth_Inr [OF ts d] rest])
qed

lemma depth_pair:
  assumes p: "plain_inputs E env dk" and d: "depth \<in> {2, 3, 4, 5}"
    and run: "render_depth_1b E env (loadDeployment dk s1 n1) (loadDeployment dk s2 n2) (loadDeployment dk s3 n3) translated depth w = (Inr (), w')"
  shows "adds_pair E consistent_pair w w'"
proof (rule render_depth_written [OF d run])
  let ?b2 = "contract_at (loadDeployment dk s2 n2) ''xBridgingContract''" and ?b3 = "contract_at (loadDeployment dk s3 n3) ''xBridgingContract''"
    and ?title = "''XSmart Relayer Configuration (RQ1b depth '' @ show_nat depth @ '')''" and ?id = "''xsmart-relayer-1b-d'' @ show_nat depth"
  fix mp targets m contracts cp
  assume mp: "mp = path_join [manifestsDir E ''xsmart'', ''travel-evm-1b-d'' @ show_nat depth @ ''.generated.json'']"
    and len: "length targets = depth - 1" and t: "\<forall>t \<in> set targets. evm_service ''bc2'' ?b2 t \<or> evm_service ''bc3'' ?b3 t"
    and m: "depth_manifest E env (''xsmart-travel-evm-1b-d'' @ show_nat depth) ''call-tree-edge-depth-plus-service-targets''
        (callTreeForDepth E depth translated) targets = Inr m"
    and c: "bridge_lines (loadDeployment dk s1 n1) = Inr contracts"
    and w': "w' = w @ [(mp, json_indented E m), (cp, template (evm_yaml env ?title ?id contracts ?b2 ?b3 mp))]"
  have vm: "\<forall>t \<in> set targets. \<exists>v. json_get t ''vm'' = Some (JsonString v)" using t by (auto simp: evm_service_def)
  note facts = depth_manifest_facts [OF m vm]
  have "consistent_pair mp m (template (evm_yaml env ?title ?id contracts ?b2 ?b3 mp))"
  proof (rule evm_pair [OF p _ _ _ _ _ c])
    show "\<forall>(v, t) \<in> set (manifest_targets m). v = ''evm'' \<and> (evm_service ''bc2'' ?b2 t \<or> evm_service ''bc3'' ?b3 t)"
      using facts(3) t by (fastforce simp: evm_service_def)
    show "manifest_targets m \<noteq> []" using facts(2) len d by auto
    show "one_line mp" unfolding mp by (rule manifest_path_one_line [OF p]) simp
  qed (simp_all add: facts plain_contract [OF p])
  then show ?thesis using w' unfolding adds_pair_def by blast
qed

lemma depth_runs:
  assumes d: "depth \<in> {2, 3, 4, 5}" and run: "render_depth_1b E env d1 d2 d3 translated depth w = (Inr (), w')"
  shows "\<exists>mp m c. w' = w @ [(mp, json_indented E m), c] \<and> runs_depth E depth (depth - 1) m"
proof (rule render_depth_written [OF d run])
  fix mp targets m contracts cp
  assume len: "length targets = depth - 1"
    and t: "\<forall>t \<in> set targets. evm_service ''bc2'' (contract_at d2 ''xBridgingContract'') t \<or>
      evm_service ''bc3'' (contract_at d3 ''xBridgingContract'') t"
    and m: "depth_manifest E env (''xsmart-travel-evm-1b-d'' @ show_nat depth) ''call-tree-edge-depth-plus-service-targets''
        (callTreeForDepth E depth translated) targets = Inr m"
    and w': "w' = w @ [(mp, json_indented E m), (cp, template (evm_yaml env (''XSmart Relayer Configuration (RQ1b depth '' @ show_nat depth @ '')'')
        (''xsmart-relayer-1b-d'' @ show_nat depth) contracts (contract_at d2 ''xBridgingContract'') (contract_at d3 ''xBridgingContract'') mp))]"
  have "\<forall>t \<in> set targets. \<exists>v. json_get t ''vm'' = Some (JsonString v)" using t by (auto simp: evm_service_def)
  then have "runs_depth E depth (depth - 1) m" using depth_manifest_runs [OF m] len d by auto
  then show ?thesis using w' by blast
qed

lemma rq1c_run:
  assumes run: "render_config_rq1c E env argv dk w = (Inr (), w')"
  obtains k targets m ls mp cp where "Number_of (rh_ubtl E) (getArg_depth env argv) = Some (int k)" "k \<in> {2, 3, 4, 5}"
    "mp = path_join [manifestsDir E ''xsmart'', ''travel-hetero-d'' @ show_nat k @ ''.generated.json'']"
    "hetero_targets E env k (loadDeployment dk ''xsmart'' ''bc2'') (loadDeployment dk ''xsmart'' ''bc3'')
       (loadDeployment dk ''xsmart'' ''bc2-evm'') (loadDeployment dk ''xsmart'' ''bc3-evm'') = Inr targets"
    "depth_manifest E env (''xsmart-hetero-rq1c-d'' @ show_nat k) ''heterogeneous-target-count''
       (callTreeForDepth E k (contract_at (loadDeployment dk ''xsmart'' ''bc1'') ''hotelBookingTranslated'')) targets = Inr m"
    "hetero_yaml E env k (loadDeployment dk ''xsmart'' ''bc1'') (loadDeployment dk ''xsmart'' ''bc2'') (loadDeployment dk ''xsmart'' ''bc3'')
       (loadDeployment dk ''xsmart'' ''bc2-evm'') (loadDeployment dk ''xsmart'' ''bc3-evm'') mp = Inr ls"
    "w' = w @ [(mp, json_indented E m), (cp, template ls)]"
proof -
  obtain n where n: "Number_of (rh_ubtl E) (getArg_depth env argv) = Some n" "n \<in> {2, 3, 4, 5}"
    using run by (auto simp: render_config_rq1c_def Let_def throw_apply split: option.splits if_splits)
  then have k: "nat n \<in> {2, 3, 4, 5}" "Number_of (rh_ubtl E) (getArg_depth env argv) = Some (int (nat n))" by auto
  show thesis
    using run n that [OF k(2,1) refl] by (auto simp: render_config_rq1c_def Let_def await_returns of_res_apply write_file_apply requireContractAddress_def split: if_splits)
qed

lemma rq1c_fits:
  assumes p: "plain_inputs E env dk" and run: "render_config_rq1c E env argv dk w = (Inr (), w')"
  shows "adds_pair E consistent_pair w w'"
proof (rule rq1c_run [OF run])
  fix k targets m ls mp cp
  assume mp: "mp = path_join [manifestsDir E ''xsmart'', ''travel-hetero-d'' @ show_nat k @ ''.generated.json'']"
    and ts: "hetero_targets E env k (loadDeployment dk ''xsmart'' ''bc2'') (loadDeployment dk ''xsmart'' ''bc3'')
       (loadDeployment dk ''xsmart'' ''bc2-evm'') (loadDeployment dk ''xsmart'' ''bc3-evm'') = Inr targets"
    and m: "depth_manifest E env (''xsmart-hetero-rq1c-d'' @ show_nat k) ''heterogeneous-target-count''
       (callTreeForDepth E k (contract_at (loadDeployment dk ''xsmart'' ''bc1'') ''hotelBookingTranslated'')) targets = Inr m"
    and ls: "hetero_yaml E env k (loadDeployment dk ''xsmart'' ''bc1'') (loadDeployment dk ''xsmart'' ''bc2'') (loadDeployment dk ''xsmart'' ''bc3'')
       (loadDeployment dk ''xsmart'' ''bc2-evm'') (loadDeployment dk ''xsmart'' ''bc3-evm'') mp = Inr ls"
    and w': "w' = w @ [(mp, json_indented E m), (cp, template ls)]"
  have "one_line mp" unfolding mp by (rule manifest_path_one_line [OF p]) simp
  then have "consistent_pair mp m (template ls)"
    unfolding hetero_yaml_Inr [OF ls] by (rule hetero_pair [OF p _ ts m])
  then show ?thesis using w' unfolding adds_pair_def by blast
qed

lemma render_1b_runs:
  assumes "render_config_1b E env dk [] = (Inr (), w)"
  obtains w1 w2 w3 where
    "render_depth_1b E env (loadDeployment dk ''xsmart'' ''bc1-1a'') (loadDeployment dk ''xsmart'' ''bc2-evm'') (loadDeployment dk ''xsmart'' ''bc3-evm'') (contract_at (loadDeployment dk ''xsmart'' ''bc1-1a'') ''hotelBookingTranslated'') 2 [] = (Inr (), w1)"
    "render_depth_1b E env (loadDeployment dk ''xsmart'' ''bc1-1a'') (loadDeployment dk ''xsmart'' ''bc2-evm'') (loadDeployment dk ''xsmart'' ''bc3-evm'') (contract_at (loadDeployment dk ''xsmart'' ''bc1-1a'') ''hotelBookingTranslated'') 3 w1 = (Inr (), w2)"
    "render_depth_1b E env (loadDeployment dk ''xsmart'' ''bc1-1a'') (loadDeployment dk ''xsmart'' ''bc2-evm'') (loadDeployment dk ''xsmart'' ''bc3-evm'') (contract_at (loadDeployment dk ''xsmart'' ''bc1-1a'') ''hotelBookingTranslated'') 4 w2 = (Inr (), w3)"
    "render_depth_1b E env (loadDeployment dk ''xsmart'' ''bc1-1a'') (loadDeployment dk ''xsmart'' ''bc2-evm'') (loadDeployment dk ''xsmart'' ''bc3-evm'') (contract_at (loadDeployment dk ''xsmart'' ''bc1-1a'') ''hotelBookingTranslated'') 5 w3 = (Inr (), w)"
  using assms by (auto simp: render_config_1b_def Let_def await_returns of_res_apply give_apply requireContractAddress_def split: if_splits)

lemma render_1b_fits:
  assumes p: "plain_inputs E env dk" and run: "render_config_1b E env dk [] = (Inr (), w)"
  shows "in_pairs E consistent_pair w"
proof (rule render_1b_runs [OF run])
  fix w1 w2 w3
  assume r: "render_depth_1b E env (loadDeployment dk ''xsmart'' ''bc1-1a'') (loadDeployment dk ''xsmart'' ''bc2-evm'') (loadDeployment dk ''xsmart'' ''bc3-evm'') (contract_at (loadDeployment dk ''xsmart'' ''bc1-1a'') ''hotelBookingTranslated'') 2 [] = (Inr (), w1)"
    "render_depth_1b E env (loadDeployment dk ''xsmart'' ''bc1-1a'') (loadDeployment dk ''xsmart'' ''bc2-evm'') (loadDeployment dk ''xsmart'' ''bc3-evm'') (contract_at (loadDeployment dk ''xsmart'' ''bc1-1a'') ''hotelBookingTranslated'') 3 w1 = (Inr (), w2)"
    "render_depth_1b E env (loadDeployment dk ''xsmart'' ''bc1-1a'') (loadDeployment dk ''xsmart'' ''bc2-evm'') (loadDeployment dk ''xsmart'' ''bc3-evm'') (contract_at (loadDeployment dk ''xsmart'' ''bc1-1a'') ''hotelBookingTranslated'') 4 w2 = (Inr (), w3)"
    "render_depth_1b E env (loadDeployment dk ''xsmart'' ''bc1-1a'') (loadDeployment dk ''xsmart'' ''bc2-evm'') (loadDeployment dk ''xsmart'' ''bc3-evm'') (contract_at (loadDeployment dk ''xsmart'' ''bc1-1a'') ''hotelBookingTranslated'') 5 w3 = (Inr (), w)"
  have "adds_pair E consistent_pair [] w1" "adds_pair E consistent_pair w1 w2" "adds_pair E consistent_pair w2 w3" "adds_pair E consistent_pair w3 w"
    using depth_pair [OF p _ r(1)] depth_pair [OF p _ r(2)] depth_pair [OF p _ r(3)] depth_pair [OF p _ r(4)] by simp_all
  then show ?thesis by (blast intro: pairs_more pairs_one)
qed

subsection \<open>A concrete repository\<close>

definition reference_render :: render_host where
  "reference_render =
     \<lparr>rh_ubtl = \<lparr>repoRoot = ''/r'',
        file_text = [''/r/contracts/xsmart/bc1/examples/HotelBookingTranslated.sol'' \<mapsto>
          ''UBTL_IR_HASH = bytes32(0x'' @ replicate 64 (CHR ''a'') @ '')''],
        parse_json = (\<lambda>t. Inl t), parse_storage_map = (\<lambda>t. Inl t), stringify_map = (\<lambda>m. sm_contract m),
        localeCompare = (\<lambda>s t. 0), hexlify = concat, sha256 = (\<lambda>t. t), keccak256_text = (\<lambda>t. t),
        getAddress = (\<lambda>a. Inr a), Number_of = (\<lambda>t. case BigInt t of Inl e \<Rightarrow> None | Inr n \<Rightarrow> Some n)\<rparr>,
      ethers_id = (\<lambda>t. ''0x'' @ t), abi_tree = (\<lambda>nodes root. Inr (''0x'' @ show_nat (length nodes))),
      abi_key_hash = (\<lambda>n h. case n of None \<Rightarrow> Inl ''NaN'' | Some k \<Rightarrow> Inr h), wallet_address = (\<lambda>k. ''0xA0''), json_indented = (\<lambda>m. ''{}''), number_print = (\<lambda>t. ''1''), cwd = ''/r''\<rparr>"

definition reference_inputs :: process_env where
  "reference_inputs = [''XSMART_BC3_SOURCE_HASH'' \<mapsto> ''0xab'', ''DEPTH'' \<mapsto> ''5'']"

definition reference_disk :: disk where
  "reference_disk system net = Some
     \<lparr>d_network = net, d_system = system, d_chainId = None, d_contracts = (\<lambda>key. Some (if net = ''bc1'' then ''0xc1'' else ''0xc2'')), d_deployedAt = None\<rparr>"

lemma reference_plain: "plain_inputs reference_render reference_inputs reference_disk"
  by (auto simp: plain_inputs_def reference_render_def reference_inputs_def reference_disk_def split: if_splits)

lemma reference_hash:
  "resolveHotelTranslatedIRHashFromSource (rh_ubtl reference_render) = Inr (''0x'' @ replicate 64 (CHR ''a''))"
  "hotelTranslationKey reference_render reference_inputs = Inr ''0xab''"
  by code_simp+

lemma reference_tree: "tree_fields reference_render reference_inputs nodes root = Inr
    [(''call_tree_blob'', JsonString (''0x'' @ show_nat (length nodes))), (''translation_keys'', JsonArray [JsonString ''0xab'']),
     (''peer_ir_hashes'', JsonArray [JsonString (''0x'' @ replicate 64 (CHR ''a''))])]"
  unfolding tree_fields_def reference_hash by (simp add: reference_render_def del: replicate.simps replicate_numeral)

lemma reference_requires:
  "requireContractAddress (loadDeployment reference_disk s n) key = Inr (contract_at (loadDeployment reference_disk s n) key)"
  by (simp add: requireContractAddress_def contract_at_def loadDeployment_def reference_disk_def)

lemma returned: "fst r = Inr a \<Longrightarrow> r = (Inr a, snd r)"
  by (simp add: prod_eq_iff)

lemma reference_run:
  "fst (render_config reference_render reference_inputs reference_disk []) = Inr ()"
  "fst (render_config_1b reference_render reference_inputs reference_disk []) = Inr ()"
  "fst (render_config_rq1c reference_render reference_inputs argv reference_disk []) = Inr ()"
proof -
  note defs = reference_requires reference_tree bridge_lines_def Let_def await_def of_res_apply write_file_apply
  show "fst (render_config reference_render reference_inputs reference_disk []) = Inr ()"
    by (simp add: render_config_def buildManifest_def xsmart_yaml_def defs)
  show "fst (render_config_1b reference_render reference_inputs reference_disk []) = Inr ()"
    by (simp add: render_config_1b_def render_depth_1b_def targetsForDepth_def recorded_target_def depth_manifest_def give_apply defs)
  have "Number_of (rh_ubtl reference_render) (getArg_depth reference_inputs argv) = Some 5" by code_simp
  then show "fst (render_config_rq1c reference_render reference_inputs argv reference_disk []) = Inr ()"
    by (simp add: render_config_rq1c_def hetero_targets_def hetero_yaml_def evm_bridge_lines_def recorded_target_def depth_manifest_def defs)
qed

subsection \<open>Properties\<close>

text \<open>
  C12. The files that a renderer writes fit each other. Let one of the four renderers return, with no line break in
  the environment and the records. The files come in pairs of a manifest and a configuration. The configuration
  names its manifest; read back line by line, it has the chain of every target of the manifest with the target's kind
  of machine, the target's endpoint and, for an EVM chain, the target's bridge; and both thresholds are the
  number of targets, or 1 if there is none.
\<close>

theorem rendered_files_fit:
  assumes "plain_inputs E env dk"
    and "run \<in> {render_config E env dk, render_config_1a E env dk, render_config_1b E env dk, render_config_rq1c E env argv dk}"
    and "run [] = (Inr (), w)"
  shows "in_pairs E consistent_pair w"
  using assms(2,3) render_config_fits [OF assms(1)] render_1a_fits [OF assms(1)] render_1b_fits [OF assms(1)] rq1c_fits [OF assms(1)]
  by (auto intro: pairs_one)

theorem rendered_files_fit_witness:
  "in_pairs reference_render consistent_pair (snd (render_config reference_render reference_inputs reference_disk []))"
proof (rule rendered_files_fit [OF _ insertI1])
  show "plain_inputs reference_render reference_inputs reference_disk" by (rule reference_plain)
  show "render_config reference_render reference_inputs reference_disk [] =
      (Inr (), snd (render_config reference_render reference_inputs reference_disk []))"
    by (rule returned [OF reference_run(1)])
qed

lemma render_1b_depths:
  assumes "render_config_1b E env dk [] = (Inr (), w)"
  shows "\<forall>k \<in> {2, 3, 4, 5}. \<exists>path m. w ! (2 * (k - 2)) = (path, json_indented E m) \<and> runs_depth E k (k - 1) m"
proof (rule render_1b_runs [OF assms])
  let ?d1 = "loadDeployment dk ''xsmart'' ''bc1-1a''" and ?d2 = "loadDeployment dk ''xsmart'' ''bc2-evm''"
    and ?d3 = "loadDeployment dk ''xsmart'' ''bc3-evm''"
  fix w1 w2 w3
  assume r: "render_depth_1b E env ?d1 ?d2 ?d3 (contract_at (loadDeployment dk ''xsmart'' ''bc1-1a'') ''hotelBookingTranslated'') 2 [] = (Inr (), w1)" "render_depth_1b E env ?d1 ?d2 ?d3 (contract_at (loadDeployment dk ''xsmart'' ''bc1-1a'') ''hotelBookingTranslated'') 3 w1 = (Inr (), w2)"
    "render_depth_1b E env ?d1 ?d2 ?d3 (contract_at (loadDeployment dk ''xsmart'' ''bc1-1a'') ''hotelBookingTranslated'') 4 w2 = (Inr (), w3)" "render_depth_1b E env ?d1 ?d2 ?d3 (contract_at (loadDeployment dk ''xsmart'' ''bc1-1a'') ''hotelBookingTranslated'') 5 w3 = (Inr (), w)"
  note runs = depth_runs [OF _ r(1)] depth_runs [OF _ r(2)] depth_runs [OF _ r(3)] depth_runs [OF _ r(4)]
  show ?thesis using runs by (auto simp: nth_append)
qed

lemma rq1c_depth:
  assumes "render_config_rq1c E env argv dk [] = (Inr (), w)"
  shows "\<exists>k path m. Number_of (rh_ubtl E) (getArg_depth env argv) = Some (int k) \<and> k \<in> {2, 3, 4, 5} \<and>
    w ! 0 = (path, json_indented E m) \<and> runs_depth E k (min k 4) m"
proof (rule rq1c_run [OF assms])
  fix k targets m ls mp cp
  assume n: "Number_of (rh_ubtl E) (getArg_depth env argv) = Some (int k)" and k: "k \<in> {2, 3, 4, 5}"
    and ts: "hetero_targets E env k (loadDeployment dk ''xsmart'' ''bc2'') (loadDeployment dk ''xsmart'' ''bc3'')
       (loadDeployment dk ''xsmart'' ''bc2-evm'') (loadDeployment dk ''xsmart'' ''bc3-evm'') = Inr targets"
    and m: "depth_manifest E env (''xsmart-hetero-rq1c-d'' @ show_nat k) ''heterogeneous-target-count''
       (callTreeForDepth E k (contract_at (loadDeployment dk ''xsmart'' ''bc1'') ''hotelBookingTranslated'')) targets = Inr m"
    and w: "w = [] @ [(mp, json_indented E m), (cp, template ls)]"
  note ts' = hetero_targets_Inr [OF ts]
  have "\<forall>t \<in> set targets. \<exists>v. json_get t ''vm'' = Some (JsonString v)" "length targets = min k 4"
    using k by (auto simp: ts' split: if_splits)
  then show ?thesis using depth_manifest_runs [OF m] n k w by auto
qed



end
