(* ===== verification/Render_Deployed.thy ===== *)
theory Render_Deployed
  imports Render_Files Deploy_Fresh
begin

text \<open>
  The deploy scripts of the execution chain and the renderers together: what the rendered files say of the
  translation, and what the registry on the chain holds.
\<close>

subsection \<open>What a pair of files says of a deployment record\<close>

text \<open>
  The configuration names the record's registry; the encoded call tree calls the record's translated contract
  only; the manifest has the translation key of the renderer's environment.
\<close>

definition tree_calls :: "render_host \<Rightarrow> process_env \<Rightarrow> string \<Rightarrow> json \<Rightarrow> bool" where
  "tree_calls E env translated m \<longleftrightarrow> (\<exists>nodes root blob key.
     json_get m ''call_tree_blob'' = Some (JsonString blob) \<and> abi_tree E nodes root = Inr blob \<and>
     nodes \<noteq> [] \<and> (\<forall>n \<in> set nodes. contractAddr n = translated) \<and>
     json_get m ''translation_keys'' = Some (JsonArray [JsonString key]) \<and> hotelTranslationKey E env = Inr key)"

definition names_record :: "render_host \<Rightarrow> process_env \<Rightarrow> deployment \<Rightarrow> json \<Rightarrow> string \<Rightarrow> bool" where
  "names_record E env d m text \<longleftrightarrow>
     config_entry [''contracts'', ''xsmart'', ''bc1'', ''ubtl_registry''] text = Some (quoted (contract_at d ''ubtlRegistry'')) \<and>
     tree_calls E env (contract_at d ''hotelBookingTranslated'') m"

lemma registry_entries:
  "yaml_entry 0 [''contracts'', ''xsmart'', ''bc1'', ''ubtl_registry''] (xsmart_text E env d1 d2 d3 mp) = Some (quoted (contract_at d1 ''ubtlRegistry''))"
  "yaml_entry 0 [''contracts'', ''xsmart'', ''bc1'', ''ubtl_registry''] (evm_yaml env title i (bridge_text d1) b2 b3 mp) = Some (quoted (contract_at d1 ''ubtlRegistry''))"
  "yaml_entry 0 [''contracts'', ''xsmart'', ''bc1'', ''ubtl_registry''] (hetero_text E env depth d1 d2 d3 e2 e3 mp) = Some (quoted (contract_at d1 ''ubtlRegistry''))"
proof -
  show "yaml_entry 0 [''contracts'', ''xsmart'', ''bc1'', ''ubtl_registry''] (xsmart_text E env d1 d2 d3 mp) = Some (quoted (contract_at d1 ''ubtlRegistry''))"
    by (simp add: xsmart_text_def skips line_defs bridge_text_def Let_def)
  show "yaml_entry 0 [''contracts'', ''xsmart'', ''bc1'', ''ubtl_registry''] (evm_yaml env title i (bridge_text d1) b2 b3 mp) = Some (quoted (contract_at d1 ''ubtlRegistry''))"
    by (simp add: evm_yaml_def line_defs bridge_text_def)
  show "yaml_entry 0 [''contracts'', ''xsmart'', ''bc1'', ''ubtl_registry''] (hetero_text E env depth d1 d2 d3 e2 e3 mp) = Some (quoted (contract_at d1 ''ubtlRegistry''))"
    unfolding yaml_entry.simps(3) [of 0 "''contracts''"] hetero_entries(3) by (simp add: bridge_text_def)
qed

lemma tree_callsI:
  assumes "tree_fields E env nodes root = Inr tf" and "nodes \<noteq> []" and "\<forall>n \<in> set nodes. contractAddr n = translated"
    and "\<And>blob key ir. tf = [(''call_tree_blob'', JsonString blob), (''translation_keys'', JsonArray [JsonString key]),
       (''peer_ir_hashes'', JsonArray [JsonString ir])] \<Longrightarrow>
      json_get m ''call_tree_blob'' = Some (JsonString blob) \<and> json_get m ''translation_keys'' = Some (JsonArray [JsonString key])"
  shows "tree_calls E env translated m"
  unfolding tree_calls_def by (rule tree_fields_Inr [OF assms(1)]) (use assms(2-) in blast)

lemma callTree_calls: "n \<in> set (callTreeForDepth E depth t) \<Longrightarrow> contractAddr n = t" "callTreeForDepth E depth t \<noteq> []"
  by (auto simp: callTreeForDepth_def hotel_node_def)

lemma manifest_trees:
  "buildManifest E env d1 d2 d3 = Inr m \<Longrightarrow> tree_calls E env (contract_at d1 ''hotelBookingTranslated'') m"
  "manifest_1a E env translated b2 b3 h t = Inr m \<Longrightarrow> tree_calls E env translated m"
  "depth_manifest E env workflow axis (callTreeForDepth E k translated) targets = Inr m \<Longrightarrow> tree_calls E env translated m"
proof -
  show "buildManifest E env d1 d2 d3 = Inr m \<Longrightarrow> tree_calls E env (contract_at d1 ''hotelBookingTranslated'') m"
    by (auto simp: buildManifest_def hotel_node_def requireContractAddress_def res_bind_Inr_iff split: if_splits intro: tree_callsI)
  show "manifest_1a E env translated b2 b3 h t = Inr m \<Longrightarrow> tree_calls E env translated m"
    by (auto simp: manifest_1a_def hotel_node_def res_bind_Inr_iff intro: tree_callsI)
  show "depth_manifest E env workflow axis (callTreeForDepth E k translated) targets = Inr m \<Longrightarrow> tree_calls E env translated m"
    by (auto simp: depth_manifest_def res_bind_Inr_iff callTree_calls intro!: tree_callsI)
qed

lemma render_config_names:
  assumes p: "plain_inputs E env dk" and run: "render_config E env dk w = (Inr (), w')"
  shows "adds_pair E (\<lambda>_. names_record E env (loadDeployment dk ''xsmart'' ''bc1'')) w w'"
proof -
  let ?mp = "path_join [manifestsDir E ''xsmart'', ''travel-hetero.generated.json'']"
    and ?d1 = "loadDeployment dk ''xsmart'' ''bc1''" and ?d2 = "loadDeployment dk ''xsmart'' ''bc2''"
    and ?d3 = "loadDeployment dk ''xsmart'' ''bc3''"
  obtain m ls where m: "buildManifest E env ?d1 ?d2 ?d3 = Inr m" and ls: "xsmart_yaml E env ?d1 ?d2 ?d3 ?mp = Inr ls"
    and w': "w' = w @ [(?mp, json_indented E m), (path_join [relayerConfigDir E, ''config-xsmart.yaml''], template ls)]"
    using run by (auto simp: render_config_def Let_def await_returns of_res_apply write_file_apply)
  have read: "config_entry path (template ls) = yaml_entry 0 path ls" for path
    unfolding xsmart_yaml_Inr [OF ls]
    by (rule read_lines [OF xsmart_one_line [OF p manifest_path_one_line [OF p]]]) (simp_all add: xsmart_text_def relayer_lines_def Let_def)
  have "names_record E env ?d1 m (template ls)"
    unfolding names_record_def read by (simp only: xsmart_yaml_Inr [OF ls] registry_entries manifest_trees(1) [OF m])
  then show ?thesis using w' unfolding adds_pair_def by blast
qed

lemma evm_names:
  assumes p: "plain_inputs E env dk" and lines: "one_line mp" "one_line title" "one_line i"
    and c: "bridge_lines (loadDeployment dk sys net) = Inr contracts"
    and t: "tree_calls E env (contract_at (loadDeployment dk sys net) ''hotelBookingTranslated'') m"
  shows "names_record E env (loadDeployment dk sys net) m (template (evm_yaml env title i contracts
      (contract_at (loadDeployment dk s2 n2) k2) (contract_at (loadDeployment dk s3 n3) k3) mp))"
proof -
  let ?text = "evm_yaml env title i contracts (contract_at (loadDeployment dk s2 n2) k2) (contract_at (loadDeployment dk s3 n3) k3) mp"
  have "list_all one_line contracts" using bridge_lines_Inr [OF c] bridge_one_line [OF p, of sys net] by simp
  then have "config_entry path (template ?text) = yaml_entry 0 path ?text" for path
    using lines by (intro read_lines evm_yaml_one_line [OF p]) (simp_all add: evm_yaml_def relayer_lines_def plain_contract [OF p])
  then show ?thesis
    unfolding names_record_def bridge_lines_Inr [OF c] by (simp only: registry_entries t)
qed

lemma render_1a_names:
  assumes p: "plain_inputs E env dk" and run: "render_config_1a E env dk w = (Inr (), w')"
  shows "adds_pair E (\<lambda>_. names_record E env (loadDeployment dk ''xsmart'' ''bc1-1a'')) w w'"
proof -
  let ?mp = "path_join [manifestsDir E ''xsmart'', ''travel-evm-1a.generated.json'']"
    and ?d1 = "loadDeployment dk ''xsmart'' ''bc1-1a''" and ?d2 = "loadDeployment dk ''xsmart'' ''bc2-evm''"
    and ?d3 = "loadDeployment dk ''xsmart'' ''bc3-evm''"
  obtain h t m contracts where
    m: "manifest_1a E env (contract_at ?d1 ''hotelBookingTranslated'') (contract_at ?d2 ''xBridgingContract'') (contract_at ?d3 ''xBridgingContract'') h t = Inr m"
    and c: "bridge_lines ?d1 = Inr contracts"
    and w': "w' = w @ [(?mp, json_indented E m), (path_join [relayerConfigDir E, ''config-xsmart-1a.yaml''],
      template (evm_yaml env ''XSmart Relayer Configuration (RQ1a EVM)'' ''xsmart-relayer-1a'' contracts
        (contract_at ?d2 ''xBridgingContract'') (contract_at ?d3 ''xBridgingContract'') ?mp))]"
    using run by (auto simp: render_config_1a_def Let_def await_returns of_res_apply write_file_apply requireContractAddress_def split: if_splits)
  show ?thesis
    using w' evm_names [OF p manifest_path_one_line [OF p] _ _ c manifest_trees(2) [OF m], of "''travel-evm-1a.generated.json''"
        "''XSmart Relayer Configuration (RQ1a EVM)''" "''xsmart-relayer-1a''"]
    unfolding adds_pair_def by fastforce
qed

lemma render_depth_names:
  assumes p: "plain_inputs E env dk" and d: "depth \<in> {2, 3, 4, 5}"
    and run: "render_depth_1b E env (loadDeployment dk s1 n1) (loadDeployment dk s2 n2) (loadDeployment dk s3 n3)
      (contract_at (loadDeployment dk s1 n1) ''hotelBookingTranslated'') depth w = (Inr (), w')"
  shows "adds_pair E (\<lambda>_. names_record E env (loadDeployment dk s1 n1)) w w'"
proof (rule render_depth_written [OF d run])
  fix mp targets m contracts cp
  assume mp: "mp = path_join [manifestsDir E ''xsmart'', ''travel-evm-1b-d'' @ show_nat depth @ ''.generated.json'']"
    and m: "depth_manifest E env (''xsmart-travel-evm-1b-d'' @ show_nat depth) ''call-tree-edge-depth-plus-service-targets''
        (callTreeForDepth E depth (contract_at (loadDeployment dk s1 n1) ''hotelBookingTranslated'')) targets = Inr m"
    and c: "bridge_lines (loadDeployment dk s1 n1) = Inr contracts"
    and w': "w' = w @ [(mp, json_indented E m), (cp, template (evm_yaml env (''XSmart Relayer Configuration (RQ1b depth '' @ show_nat depth @ '')'')
        (''xsmart-relayer-1b-d'' @ show_nat depth) contracts (contract_at (loadDeployment dk s2 n2) ''xBridgingContract'')
        (contract_at (loadDeployment dk s3 n3) ''xBridgingContract'') mp))]"
  have "one_line mp" unfolding mp by (rule manifest_path_one_line [OF p]) simp
  from evm_names [OF p this _ _ c manifest_trees(3) [OF m]]
  have "names_record E env (loadDeployment dk s1 n1) m (template (evm_yaml env (''XSmart Relayer Configuration (RQ1b depth '' @ show_nat depth @ '')'')
      (''xsmart-relayer-1b-d'' @ show_nat depth) contracts (contract_at (loadDeployment dk s2 n2) ''xBridgingContract'')
      (contract_at (loadDeployment dk s3 n3) ''xBridgingContract'') mp))" by simp
  then show ?thesis using w' unfolding adds_pair_def by blast
qed

lemma render_1b_names:
  assumes p: "plain_inputs E env dk" and run: "render_config_1b E env dk [] = (Inr (), w)"
  obtains w1 w2 w3 where "adds_pair E (\<lambda>_. names_record E env (loadDeployment dk ''xsmart'' ''bc1-1a'')) [] w1"
    "adds_pair E (\<lambda>_. names_record E env (loadDeployment dk ''xsmart'' ''bc1-1a'')) w1 w2" "adds_pair E (\<lambda>_. names_record E env (loadDeployment dk ''xsmart'' ''bc1-1a'')) w2 w3"
    "adds_pair E (\<lambda>_. names_record E env (loadDeployment dk ''xsmart'' ''bc1-1a'')) w3 w"
proof (rule render_1b_runs [OF run])
  fix w1 w2 w3
  let ?run = "\<lambda>k v v'. render_depth_1b E env (loadDeployment dk ''xsmart'' ''bc1-1a'') (loadDeployment dk ''xsmart'' ''bc2-evm'')
     (loadDeployment dk ''xsmart'' ''bc3-evm'') (contract_at (loadDeployment dk ''xsmart'' ''bc1-1a'') ''hotelBookingTranslated'') k v = (Inr (), v')"
  assume r: "?run 2 [] w1" "?run 3 w1 w2" "?run 4 w2 w3" "?run 5 w3 w"
  show thesis
    by (rule that [OF render_depth_names [OF p _ r(1)] render_depth_names [OF p _ r(2)] render_depth_names [OF p _ r(3)] render_depth_names [OF p _ r(4)]]) simp_all
qed

lemma rq1c_names:
  assumes p: "plain_inputs E env dk" and run: "render_config_rq1c E env argv dk w = (Inr (), w')"
  shows "adds_pair E (\<lambda>_. names_record E env (loadDeployment dk ''xsmart'' ''bc1'')) w w'"
proof (rule rq1c_run [OF run])
  let ?l = "loadDeployment dk ''xsmart''"
  fix k targets m ls mp cp
  assume mp: "mp = path_join [manifestsDir E ''xsmart'', ''travel-hetero-d'' @ show_nat k @ ''.generated.json'']"
    and m: "depth_manifest E env (''xsmart-hetero-rq1c-d'' @ show_nat k) ''heterogeneous-target-count''
       (callTreeForDepth E k (contract_at (?l ''bc1'') ''hotelBookingTranslated'')) targets = Inr m"
    and ls: "hetero_yaml E env k (?l ''bc1'') (?l ''bc2'') (?l ''bc3'') (?l ''bc2-evm'') (?l ''bc3-evm'') mp = Inr ls"
    and w': "w' = w @ [(mp, json_indented E m), (cp, template ls)]"
  have "one_line mp" unfolding mp by (rule manifest_path_one_line [OF p]) simp
  then have read: "config_entry path (template ls) = yaml_entry 0 path ls" for path
    unfolding hetero_yaml_Inr [OF ls] by (intro read_lines hetero_one_line [OF p]) (simp_all add: hetero_text_def relayer_lines_def)
  have "names_record E env (?l ''bc1'') m (template ls)"
    unfolding names_record_def read by (simp only: hetero_yaml_Inr [OF ls] registry_entries manifest_trees(3) [OF m])
  then show ?thesis using w' unfolding adds_pair_def by blast
qed

subsection \<open>The record that a deployment leaves\<close>

lemma registration_kept:
  "registration R D registry translated s \<Longrightarrow> node s' = node s \<Longrightarrow> d_contracts (rec s') = d_contracts (rec s) \<Longrightarrow>
     registration R D registry translated s'"
  by (simp add: registration_def live_def)

lemma registered_record:
  assumes D: "on_besu R D" and well: "well_filed s" and body: "steady_on R K W body"
    and ends: "\<And>t t'. body t = (Inr (), t') \<Longrightarrow> \<exists>t0. registerTranslations D t0 = (Inr (), t')"
    and run: "recorded D ''xsmart'' net chain body s = (Inr (), s1)"
  obtains d where "files s1 ''xsmart'' net = Some d"
    "registration R D (contract_at d ''ubtlRegistry'') (contract_at d ''hotelBookingTranslated'') s1"
    "d_contracts d = d_contracts (rec s1)"
proof -
  from run obtain t t' where t: "open_record D ''xsmart'' net chain s = (Inr (), t)" "body t = (Inr (), t')" "save D t' = (Inr (), s1)"
    by (auto simp: recorded_def await_returns)
  from ends [OF t(2)] obtain t0 u where u: "registerHotelTranslation D t0 = (Inr (), u)" "save D u = (Inr (), t')"
    by (auto simp: registerTranslations_def await_returns)
  from registration_done [OF D u(1)] obtain registry translated where r: "registration R D registry translated u" by blast
  have r1: "registration R D registry translated s1"
    by (rule registration_kept [OF r]) (simp_all add: save_keeps [OF u(2)] save_keeps [OF t(3)])
  have "session_grows R W t t'" using body t(2) by (simp add: steady_def within_def)
  then have head: "d_system (rec t') = ''xsmart''" "d_network (rec t') = net"
    using opened [OF t(1) well] by (simp_all add: session_grows_def)
  have "synced s1" using t(3) unfolding save_def by (rule write_synced)
  then obtain d where d: "files s1 ''xsmart'' net = Some d" "d_contracts d = d_contracts (rec s1)"
    using head by (auto simp: synced_def filed_def same_record_iff save_keeps [OF t(3)])
  have "contract_at d ''ubtlRegistry'' = registry" "contract_at d ''hotelBookingTranslated'' = translated"
    using r1 by (simp_all add: registration_def live_def contract_at_def d(2))
  then show thesis using that [OF d(1) _ d(2)] r1 by simp
qed

lemma deploy_bc1_registered:
  assumes D: "on_besu R D" and well: "well_filed s" and net: "network D = ''bc1''"
    and bc1: "(net, deploying) \<in> {(''bc1'', deploy_bc1 D), (''bc1-1a'', deploy_bc1_1a D)}" and run: "deploying s = (Inr (), s1)"
  obtains d where "files s1 ''xsmart'' net = Some d"
    "registration R D (contract_at d ''ubtlRegistry'') (contract_at d ''hotelBookingTranslated'') s1"
    "d_contracts d = d_contracts (rec s1)"
proof -
  have loc: "network D \<noteq> ''local''" using net by simp
  consider "net = ''bc1''" "deploying = deploy_bc1 D" | "net = ''bc1-1a''" "deploying = deploy_bc1_1a D" using bc1 by auto
  then show thesis
  proof cases
    case 1
    show thesis
      by (rule registered_record [OF D well deploys.steady_await [OF bc1_contracts_steady [OF D] registerTranslations_steady [OF D]] _
          run [unfolded 1(2) deploy_bc1_recorded [OF loc]]])
        (use 1(1) net that in \<open>auto simp: await_returns\<close>)
  next
    case 2
    show thesis
      by (rule registered_record [OF D well deploys.steady_await [OF bc1_contracts_steady [OF D]
            deploys.steady_await [OF ensure_meta_steady [OF D] registerTranslations_steady [OF D]]] _
          run [unfolded 2(2) deploy_bc1_1a_recorded [OF network_local [OF loc]] split_def]])
        (use 2(1) that in \<open>auto simp: await_returns\<close>)
  qed
qed

subsection \<open>The chain and the files\<close>

definition on_chain :: "evm_rules \<Rightarrow> evm_chain \<Rightarrow> render_host \<Rightarrow> json \<Rightarrow> string \<Rightarrow> bool" where
  "on_chain R c E m text \<longleftrightarrow> (\<exists>registry key translated nodes root blob.
     config_entry [''contracts'', ''xsmart'', ''bc1'', ''ubtl_registry''] text = Some (quoted registry) \<and>
     json_get m ''translation_keys'' = Some (JsonArray [JsonString key]) \<and> bound R registry key translated c \<and>
     json_get m ''call_tree_blob'' = Some (JsonString blob) \<and> abi_tree E nodes root = Inr blob \<and>
     nodes \<noteq> [] \<and> (\<forall>n \<in> set nodes. contractAddr n = translated))"

definition same_hotel_env :: "process_env \<Rightarrow> process_env \<Rightarrow> bool" where
  "same_hotel_env env env' \<longleftrightarrow> (\<forall>name \<in> {''XSMART_BC3_SOURCE_HASH'', ''XSMART_BC3_PACKAGE_PATH'',
     ''XSMART_FABRIC_SOURCE_CHAIN_ID'', ''BC3_FABRIC_CHAIN_ID''}. env name = env' name)"

definition key_agrees :: "render_host \<Rightarrow> evm_rules \<Rightarrow> bool" where
  "key_agrees E R \<longleftrightarrow> (\<forall>k h v. abi_key_hash E k h = Inr v \<longrightarrow> (\<exists>n. k = Some n \<and> v = key_hash R (U n) h))"

lemma same_hotel_key:
  assumes "same_hotel_env env env'"
  shows "hotelTranslationKey E env = hotelTranslationKey E env'"
proof -
  have e: "env ''XSMART_BC3_SOURCE_HASH'' = env' ''XSMART_BC3_SOURCE_HASH''" "env ''XSMART_BC3_PACKAGE_PATH'' = env' ''XSMART_BC3_PACKAGE_PATH''"
    "env ''XSMART_FABRIC_SOURCE_CHAIN_ID'' = env' ''XSMART_FABRIC_SOURCE_CHAIN_ID''" "env ''BC3_FABRIC_CHAIN_ID'' = env' ''BC3_FABRIC_CHAIN_ID''"
    using assms by (simp_all add: same_hotel_env_def)
  show ?thesis
    unfolding hotelTranslationKey_def resolveHotelSourceContractHash_def sourceChainIdForVM_def env_trim_def env_text_def vm.case e ..
qed

lemma key_bound:
  assumes r: "registration R D registry translated s" and E: "rh_ubtl E = ubtl D" "key_agrees E R" "same_hotel_env env (environ D)"
    and key: "hotelTranslationKey E env = Inr key"
  shows "bound R registry key translated (node s)"
proof -
  from r obtain p h where x: "chain_arg (sourceChainIdForVM (ubtl D) (environ D) Fabric_vm) = JPrim p"
      "resolveHotelSourceContractHash (ubtl D) (environ D) = Inr h" "bound R registry (key_hash R (word_of p) h) translated (node s)"
    unfolding registration_def by blast
  have "abi_key_hash E (sourceChainIdForVM (ubtl D) (environ D) Fabric_vm) h = Inr key"
    using key x(2) unfolding same_hotel_key [OF E(3)] by (simp add: hotelTranslationKey_def E(1))
  with E(2) obtain n where n: "sourceChainIdForVM (ubtl D) (environ D) Fabric_vm = Some n" "key = key_hash R (U n) h"
    unfolding key_agrees_def by blast
  then have "p = PBigint n" using x(1) by (simp add: chain_arg_def num_arg_def)
  then show ?thesis using x(3) n(2) by (simp add: word_of_def)
qed

lemma names_chained: "names_record E env d m text \<Longrightarrow> registration R D (contract_at d ''ubtlRegistry'') (contract_at d ''hotelBookingTranslated'') s \<Longrightarrow>
    rh_ubtl E = ubtl D \<Longrightarrow> key_agrees E R \<Longrightarrow> same_hotel_env env (environ D) \<Longrightarrow> on_chain R (node s) E m text"
  unfolding names_record_def tree_calls_def on_chain_def using key_bound by blast

subsection \<open>A first deployment and its files\<close>

lemma render_config_returns:
  assumes d: "\<forall>key \<in> {''hotelBookingTranslated'', ''xBridgingContract'', ''ubtlRegistry'', ''relayerManager'', ''lightClient''}.
      contract_at (loadDeployment dk ''xsmart'' ''bc1'') key \<noteq> []"
    and tree: "abi_tree E [hotel_node E (contract_at (loadDeployment dk ''xsmart'' ''bc1'') ''hotelBookingTranslated'') []] 0 = Inr blob" "hotelTranslationKey E env = Inr key"
      "resolveHotelTranslatedIRHashFromSource (rh_ubtl E) = Inr ir"
  shows "\<exists>w. render_config E env dk [] = (Inr (), w)"
proof -
  let ?d1 = "loadDeployment dk ''xsmart'' ''bc1''"
  obtain tf where tf: "tree_fields E env [hotel_node E (contract_at ?d1 ''hotelBookingTranslated'') []] 0 = Inr tf"
    using tree by (auto simp: tree_fields_def)
  have r: "requireContractAddress ?d1 key = Inr (contract_at ?d1 key)"
    if "key \<in> {''hotelBookingTranslated'', ''xBridgingContract'', ''ubtlRegistry'', ''relayerManager'', ''lightClient''}" for key
    using bspec [OF d that] by (simp add: requireContractAddress_def)
  show ?thesis
    by (simp add: render_config_def buildManifest_def xsmart_yaml_def bridge_lines_def r tf Let_def await_def of_res_apply write_file_apply)
qed

lemma loaded_record: "dk system net = Some d \<Longrightarrow> loadDeployment dk system net = d"
  by (simp add: loadDeployment_def)

lemma first_deployment_record:
  assumes R: "cooperative R" and D: "on_besu R D" and mode: "proofAdapterMode (environ D) = Inr Component_verified"
    and net: "network D = ''bc1''" and s: "files s ''xsmart'' ''bc1'' = None" "well_filed s"
    and free: "\<forall>k \<ge> nonce_of (node s) (sender_of R). at (node s) (addr R k) = None" "one_ether \<le> wei (node s) (sender_of R)"
    and host: "resolveHotelSourceContractHash (ubtl D) (environ D) = Inr src" "resolveHotelStorageMapRoot (ubtl D) (environ D) = Inr root"
  obtains s1 d where "deploy_bc1 D s = (Inr (), s1)" "files s1 ''xsmart'' ''bc1'' = Some d"
    "d_contracts d = bc1_addresses (\<lambda>i. checksum R (addr R (nonce_of (node s) (sender_of R) + i)))"
proof -
  have "network D \<noteq> ''local''" "files s ''xsmart'' (network D) = None" using net s(1) by simp_all
  from bc1_from_scratch [OF R D mode this free host] obtain s1 where s1: "deploy_bc1 D s = (Inr (), s1)"
    "d_contracts (rec s1) = bc1_addresses (\<lambda>i. checksum R (addr R (nonce_of (node s) (sender_of R) + i)))" by blast
  have "(''bc1'', deploy_bc1 D) \<in> {(''bc1'', deploy_bc1 D), (''bc1-1a'', deploy_bc1_1a D)}" by simp
  from deploy_bc1_registered [OF D s(2) net this s1(1)] show thesis using that s1 by metis
qed

lemma first_addresses:
  assumes "cooperative R" and "d_contracts d = bc1_addresses (\<lambda>i. checksum R (addr R (n + i)))"
    and "key \<in> {''hotelBookingTranslated'', ''xBridgingContract'', ''ubtlRegistry'', ''relayerManager'', ''lightClient''}"
  shows "contract_at d key \<noteq> []"
proof -
  have "checksum R (addr R i) \<noteq> []" for i using assms(1) unfolding cooperative_def by blast
  then show ?thesis using assms(2,3) by (auto simp: contract_at_def bc1_addresses_def)
qed


definition rendering_deploy :: "(evm_chain, call_data) deploy_env" where
  "rendering_deploy = (reference_deploy ''bc1'')\<lparr>ubtl := rh_ubtl reference_render\<rparr>"

lemma rendering_on_besu: "on_besu reference_rules rendering_deploy"
  using reference_on_besu [of "''bc1''"] by (simp add: on_besu_def rendering_deploy_def)

lemma rendering_env: "environ rendering_deploy = [''XSMART_BC3_SOURCE_HASH'' \<mapsto> ''0xab'']" "ubtl rendering_deploy = rh_ubtl reference_render"
  "network rendering_deploy = ''bc1''" "same_hotel_env reference_inputs (environ rendering_deploy)"
  by (simp_all add: rendering_deploy_def reference_deploy_def network_def networkName_def same_hotel_env_def reference_inputs_def)

lemma rendering_host:
  "proofAdapterMode (environ rendering_deploy) = Inr Component_verified"
  "resolveHotelSourceContractHash (ubtl rendering_deploy) (environ rendering_deploy) = Inr ''0xab''"
  "resolveHotelStorageMapRoot (ubtl rendering_deploy) (environ rendering_deploy) = Inr ZERO_HASH"
  unfolding rendering_env by code_simp+

lemma fresh_start: "files fresh_session ''xsmart'' ''bc1'' = None"
  "\<forall>k \<ge> nonce_of (node fresh_session) (sender_of reference_rules). at (node fresh_session) (addr reference_rules k) = None"
  "one_ether \<le> wei (node fresh_session) (sender_of reference_rules)"
  by (simp_all add: fresh_session_def one_ether_def)

lemma reference_tree_total: "\<exists>blob. abi_tree reference_render nodes root = Inr blob"
  by (simp add: reference_render_def)


subsection \<open>Property\<close>

text \<open>
  C11. The rendered files and the chain agree. Let a deploy script of the execution chain return, from whatever chain
  and records, and later one of the renderers that read its record, with the same repository and the same
  environment for the hotel. Then every manifest it writes has a translation key to which the registry
  named in the configuration, on the deployed chain, binds exactly the contract that all nodes of the manifest's
  encoded call tree call.
\<close>

theorem rendered_translation_registered:
  assumes D: "on_besu R D" and net: "network D = ''bc1''" and well: "well_filed s"
    and E: "rh_ubtl E = ubtl D" "key_agrees E R" "same_hotel_env env (environ D)"
    and runs: "(net, deploying, renders) \<in> {(''bc1'', deploy_bc1 D, {render_config E env dk, render_config_rq1c E env argv dk}),
      (''bc1-1a'', deploy_bc1_1a D, {render_config_1a E env dk, render_config_1b E env dk})}"
    and bc1: "deploying s = (Inr (), s1)" and dk: "dk ''xsmart'' net = files s1 ''xsmart'' net" and p: "plain_inputs E env dk"
    and render: "render \<in> renders" "render [] = (Inr (), w)"
  shows "in_pairs E (\<lambda>_. on_chain R (node s1) E) w"
proof -
  have dep: "(net, deploying) \<in> {(''bc1'', deploy_bc1 D), (''bc1-1a'', deploy_bc1_1a D)}" using runs by blast
  obtain d where d: "files s1 ''xsmart'' net = Some d" "registration R D (contract_at d ''ubtlRegistry'') (contract_at d ''hotelBookingTranslated'') s1"
    by (rule deploy_bc1_registered [OF D well net dep bc1])
  have l: "loadDeployment dk ''xsmart'' net = d" using d(1) dk by (simp add: loadDeployment_def)
  note step = adds_pair_mono [OF _ names_chained [OF _ d(2) [folded l] E]]
  consider "net = ''bc1''" "render_config E env dk [] = (Inr (), w)" | "net = ''bc1''" "render_config_rq1c E env argv dk [] = (Inr (), w)"
    | "net = ''bc1-1a''" "render_config_1a E env dk [] = (Inr (), w)" | "net = ''bc1-1a''" "render_config_1b E env dk [] = (Inr (), w)"
    using runs render by blast
  then show ?thesis
  proof cases
    case 1 show ?thesis by (rule pairs_one [OF step [unfolded 1(1), OF render_config_names [OF p 1(2)]]])
  next
    case 2 show ?thesis by (rule pairs_one [OF step [unfolded 2(1), OF rq1c_names [OF p 2(2)]]])
  next
    case 3 show ?thesis by (rule pairs_one [OF step [unfolded 3(1), OF render_1a_names [OF p 3(2)]]])
  next
    case 4
    show ?thesis
      by (rule render_1b_names [OF p 4(2)])
        (rule pairs_more [OF pairs_more [OF pairs_more [OF pairs_one]]]; erule step [unfolded 4(1)])
  qed
qed

theorem rendered_translation_registered_witness:
  "\<exists>s1 dk w. deploy_bc1 rendering_deploy fresh_session = (Inr (), s1) \<and> render_config reference_render reference_inputs dk [] = (Inr (), w) \<and>
    in_pairs reference_render (\<lambda>_. on_chain reference_rules (node s1) reference_render) w"
proof (rule first_deployment_record [OF reference_cooperative rendering_on_besu rendering_host(1) rendering_env(3) fresh_start(1)
      fresh_well_filed fresh_start(2,3) rendering_host(2,3)])
  fix s1 d
  assume s1: "deploy_bc1 rendering_deploy fresh_session = (Inr (), s1)" and f: "files s1 ''xsmart'' ''bc1'' = Some d"
    and d: "d_contracts d = bc1_addresses (\<lambda>i. checksum reference_rules (addr reference_rules (nonce_of (node fresh_session) (sender_of reference_rules) + i)))"
  let ?dk = "\<lambda>system net. if net = ''bc1'' then Some d else None"
  have l: "loadDeployment ?dk ''xsmart'' ''bc1'' = d" by (simp add: loadDeployment_def)
  obtain blob where b: "abi_tree reference_render [hotel_node reference_render (contract_at d ''hotelBookingTranslated'') []] 0 = Inr blob"
    using reference_tree_total by blast
  from render_config_returns [of ?dk, unfolded l, OF _ b reference_hash(2,1)] first_addresses [OF reference_cooperative d]
  obtain w where w: "render_config reference_render reference_inputs ?dk [] = (Inr (), w)" by blast
  have "plain_inputs reference_render reference_inputs ?dk"
    using reference_plain d by (auto simp: plain_inputs_def bc1_addresses_def reference_addr reference_takes_all split: if_splits)
  moreover have "key_agrees reference_render reference_rules"
    by (auto simp: key_agrees_def reference_render_def reference_rules_def split: option.splits)
  ultimately have "in_pairs reference_render (\<lambda>_. on_chain reference_rules (node s1) reference_render) w"
    using rendered_translation_registered [OF rendering_on_besu rendering_env(3) fresh_well_filed, of reference_render reference_inputs
      "''bc1''" "deploy_bc1 rendering_deploy" _ ?dk "[]" s1 "render_config reference_render reference_inputs ?dk" w] rendering_env(2,4) s1 f w
    by simp
  then show ?thesis using s1 w by blast
qed

end
