(* ===== verification/Spec2Isabelle.thy ===== *)
theory Spec2Isabelle
  imports Generated_Cases Vm_Loop Vm_Isolation Vm_Compare Wasm_Queue Deploy_Rerun Deploy_Fresh Send_Attempts Local_Nodes Deploy_Outcomes Deploy_Atom Rq2_Summary
    Fabric_Server Vassp_Import Fabric_Chaincode Fabric_Deploy Render_Deployed
begin

text \<open>
  UniVM-Core: the TypeScript side of the artifact, that is the differential tests of the translated
  contracts (RQ2), the scripts that deploy the bridge and the compared systems, and the services
  beside them. File names are relative to \<open>src\<close>.

  \<^bold>\<open>The program.\<close> \<open>scripts/rq2\<close> generates random operation sequences, runs each on a reference model
  of a source contract and on its Solidity translation, and compares results and canonical
  snapshots; a second runner does so on live machines and can resume. \<open>scripts/xsmart\<close>,
  \<open>scripts/integratex\<close>, \<open>scripts/gpact\<close> and \<open>scripts/atom\<close> deploy contracts through the client in
  \<open>scripts/common.ts\<close>, keep addresses in a deployment record and configure them once. The daemon
  \<open>wasm-submit-daemon.ts\<close> takes invoke requests over HTTP, queues them and submits them to the
  Substrate chain. \<open>local-bc2-node.ts\<close> and \<open>local-bc3-fabric.ts\<close> keep local nodes running; the latter's
  container runs \<open>local-bc3-fabric-server.mjs\<close>, a simulator of the Fabric chaincode that the bridge of
  the third chain would be. Its lock responses travel, as VASSP bytes, to the translated contract.

  \<^bold>\<open>Theories.\<close>
  \<^item> \<open>Prelude\<close>: JavaScript strings (one character per code unit, below 256), \<open>BigInt\<close> and decimal
    texts, stable sorting with a comparator (locale \<open>js_comparator\<close>), \<open>string + 'a\<close> as the result of
    code that throws (\<open>res_bind\<close>, \<open>res_mapM\<close>), and the locales \<open>op_machine\<close> and \<open>monotone_machine\<close>
    for objects that execute operations under an invariant. \<open>Js_Values\<close>: parsed JSON, \<open>||\<close>, \<open>String\<close>,
    the environment.
  \<^item> \<open>Snapshot\<close>: \<open>rq2/canonical-snapshot.ts\<close>. Round trip with a decoder written independently,
    injectivity, independence of the order of the entries.
  \<^item> \<open>Hotel_Model\<close>, \<open>Token_Model\<close>, \<open>Auction_Model\<close>, \<open>Dex_Model\<close>: \<open>rq2/hotel-booking-model.ts\<close> and
    \<open>rq2/rq2-models.ts\<close>, an object as a record, \<open>execute\<close> as a function to a result and the next
    object. Invariants of the ledgers in every reachable state, as instances of \<open>op_machine\<close>.
  \<^item> \<open>Evm\<close>, \<open>Translated_Travel\<close>, \<open>Translated_Ledgers\<close>: the translated contracts
    (\<open>contracts/xsmart/bc1/examples\<close>) on 256-bit words with checked arithmetic and reverts.
  \<^item> \<open>Diff_Runner\<close>: \<open>rq2/run-rq2a.ts\<close>, with the locale \<open>differential\<close> (a simulation between the two
    sides makes every case pass). \<open>Equiv_Travel\<close>, \<open>Equiv_Token\<close>, \<open>Equiv_Auction\<close>, \<open>Equiv_Dex\<close> give
    the simulations, so each translation refines its reference model on the cases within its ranges.
  \<^item> \<open>Case_Generator\<close>: \<open>rq2/generate-cases.ts\<close>, the generator's state threaded through \<open>State_Monad\<close>;
    \<open>Generated_Cases\<close>: every generated case is within range, so generating and running never reports
    a failure.
  \<^item> \<open>Vm_Runner\<close>, \<open>Vm_Loop\<close>, \<open>Vm_Isolation\<close>, \<open>Vm_Compare\<close>: \<open>rq2/run-rq2a-vm-full.ts\<close>: the five case
    runners against live machines, the loop that skips finished cases (locale \<open>identified_runner\<close>),
    why cases on a reused contract do not disturb each other, and what the comparison can see.
    \<open>Rq2_Summary\<close>: \<open>rq2/summarize-rq2.ts\<close> and \<open>summarize-rq2-hybrid.ts\<close> on the files both runners write.
  \<^item> \<open>Wasm_Daemon\<close>, \<open>Wasm_Queue\<close>: \<open>xsmart/wasm-submit-daemon.ts\<close>: arguments, synthetic events and
    submissions as functions; the promise queue as the relation \<open>daemon_step\<close> with arrivals,
    finalisation, rejection, timeout and late finalisation in any order.
  \<^item> \<open>Scripts\<close>, \<open>Chain_Client\<close>: asynchronous scripts (\<open>await\<close>, \<open>recover\<close>, \<open>throw\<close>), the locale
    \<open>growing_world\<close> for scripts whose effects are kept by later ones, and \<open>scripts/common.ts\<close>.
    web3.js, the artifacts and the node are the record \<open>web3_api\<close>.
  \<^item> \<open>Translation\<close>, \<open>Deploy_Scripts\<close>, \<open>Deploy_Baselines\<close>: \<open>xsmart/translation.ts\<close>,
    \<open>proof-adapter.ts\<close>, \<open>register-translations.ts\<close>, \<open>deploy-bc1.ts\<close>, \<open>deploy-bc1-1a.ts\<close>,
    \<open>deploy-evm-1a.ts\<close>, and the deploy scripts of \<open>integratex\<close>, \<open>gpact\<close> and of ATOM's service chains.
    \<open>Deploy_Atom\<close>: \<open>atom/deploy-bc1.ts\<close> and what its registration flag is worth.
  \<^item> \<open>Bridge_Chain\<close>: a chain for these scripts: accounts, nonces, transactions, and the administration
    functions of \<open>XBridgingContract.sol\<close>, \<open>RelayerManager.sol\<close>, \<open>UBTLRegistry.sol\<close> and
    \<open>GPACTEventSignerRegistry.sol\<close>. \<open>chain_api\<close> is the instance of \<open>web3_api\<close> on it. What is not in
    the repository (addresses, checksums, gas, which transactions a node turns down) is the record
    \<open>evm_rules\<close>; \<open>rules_documented\<close> and \<open>cooperative\<close> are its documented behaviour, and the witnesses
    use one concrete \<open>reference_rules\<close>.
  \<^item> \<open>Deploy_Growth\<close>, \<open>Deploy_Steps\<close>, \<open>Deploy_Rerun\<close>, \<open>Deploy_Fresh\<close>, \<open>Send_Attempts\<close>: what a step can
    change; every step is steady, so a second run of a script sends nothing; a first run on a fresh
    chain succeeds; how often a transaction is sent.
  \<^item> \<open>Local_Nodes\<close>: \<open>xsmart/local-bc2-node.ts\<close> and \<open>local-bc3-fabric.ts\<close>, over a machine with commands,
    HTTP and a clock: whatever the node does, starting it ends.
  \<^item> \<open>Hetero_Session\<close>, \<open>Deploy_Wasm\<close>, \<open>Deploy_Fabric\<close>, \<open>Deploy_Outcomes\<close>: \<open>xsmart/deploy-bc2.ts\<close>,
    \<open>bc2-remote-proxy.ts\<close> and \<open>deploy-bc3.ts\<close> over that machine, its files and a changing environment.
    The scripts end, write their file only when they return, and remove the proxy; reading package ids
    back, and the pairing of peers and certificates.
  \<^item> \<open>Js_Numbers\<close>: numbers of JavaScript that are whole: rounding to doubles, infinities, NaN, and when
    arithmetic is exact. \<open>Fabric_Sim\<close>: \<open>xsmart/local-bc3-fabric-server.mjs\<close>, every function, the state
    as a record that is written to and read back from JSON. \<open>Fabric_Books\<close>: the invariant of its books
    (an \<open>op_machine\<close>) and its refusals. \<open>Fabric_Server\<close>: overlapping requests as the relation
    \<open>server_step\<close>, lost updates, and what makes a timeout pass.
  \<^item> \<open>Vassp_Import\<close>: the decoder of \<open>contracts/xsmart/bc1/lib/VASSP.sol\<close> reads what the simulator
    encodes, and what \<open>Translated_Travel\<close> does with it. \<open>Fabric_Chaincode\<close>: \<open>contracts/xsmart/bc3\<close> in Go on
    64-bit words, over the locale \<open>fabric_shim\<close> for the peer; the simulator refines it.
  \<^item> \<open>Fabric_Deploy\<close>: \<open>deploy-bc3.ts\<close>, the health probe of \<open>local-bc3-fabric.ts\<close> and the simulator
    composed: the bootstrap of a local deployment arrives.
  \<^item> \<open>Render_Config\<close>: \<open>xsmart/render-config.ts\<close>, \<open>render-config-1a.ts\<close>, \<open>render-config-1b.ts\<close> and
    \<open>render-config-rq1c-depth.ts\<close>, which write the relayer's manifest and configuration from the deployment
    records and the environment: every field and every line. \<open>Render_Reader\<close>, \<open>Render_Entries\<close>: a reader of
    the configuration's lines and what it finds. \<open>Render_Props\<close>, \<open>Render_Files\<close>: the two files of a pair fit
    each other, and what the depth experiments run. \<open>Render_Deployed\<close>: the deploy scripts of the execution
    chain and the renderers composed; the manifest's translation key is bound on the deployed chain to the
    contract its call tree calls.

  \<^bold>\<open>Bounds and recursion.\<close> Reference models compute with unbounded integers, as BigInt does;
  translations and hashes with words of their width. The equivalence theorems carry the ranges in which
  neither side overflows (written out with each theorem), and \<open>Generated_Cases\<close> shows that the
  generator stays within them. Loops over lists are structural; \<open>signAndSend\<close> terminates by its attempt
  counter, at most three; \<open>wait_until\<close> may run for ever, so it is a partial function into an option, and
  that it returns is a theorem under the clock's behaviour. There is no fuel. The queue's
  properties hold for every interleaving, without fairness: the number of answering steps is bounded.

  \<^bold>\<open>Parameters.\<close> \<open>localeCompare\<close>, the ethers codec and hash functions, JSON parsing of foreign text,
  the file system and clock, digests, the ABI encoding of a call tree, the live machines, the Fabric peer, and the node behind web3.js are arguments of the
  definitions. Each property names the documented behaviour it needs, and its witness a concrete instance.

  \<^bold>\<open>Not modelled.\<close> Console output and file printing; gas costs; the HTTP server and JSON printing of
  the daemon. In the simulator: fractions and the engine's own error texts. The Solidity execution protocols
  of the four systems, the ink contracts, the rest of the Fabric chaincode (GPACT, ATOM and auction messages,
  getters, initialisation), the Go relayer, and the Rust and Python tools are written in other languages;
  the scripts modelled here use them from outside. Smoke tests and probes are straight sequences of remote calls that print what they
  get, and the benchmarks measure time over the network: they have no state or contract of their own that could
  be stated without their environment. The renderers of \<open>atom\<close>, \<open>gpact\<close> and \<open>integratex\<close> print the same kind of
  configuration without a manifest.
\<close>

end
